(* ===== verification/Prelude.thy ===== *)
theory Prelude
  imports Main "HOL-Library.Sublist"
begin

text \<open>
  Shared vocabulary of the development: the string operations of the JavaScript standard
  library that the sources call, JSON values, the collections of hints the component theories
  extend, and generic facts about lists and association lists.

  A \<^typ>\<open>char\<close> stands for the character of that code in the Windows-1252 repertoire (ASCII, the
  printable Latin-1 characters and the typographic ones such as the bullet and the em dash), each
  of which is one UTF-16 code unit, so \<open>length\<close> is JavaScript's \<open>.length\<close>. The repertoire is
  closed under \<open>trim\<close>, \<open>toLowerCase\<close>, \<open>split\<close>, \<open>slice\<close> and concatenation; strings with other
  characters are outside the model.
\<close>

section \<open>Collections of hints\<close>

named_theorems js_string_simps \<open>evaluation and rewriting of the JavaScript string operations\<close>
named_theorems frame_simps \<open>state fields an operation leaves alone\<close>

section \<open>Characters\<close>

definition js_space :: "char \<Rightarrow> bool" where
  "js_space c \<longleftrightarrow> c \<in> set [CHR 0x09, CHR 0x0A, CHR 0x0B, CHR 0x0C, CHR 0x0D, CHR 0x20, CHR 0xA0]"

definition code :: "char \<Rightarrow> nat" where
  "code c = of_char c"

definition js_lower_char :: "char \<Rightarrow> char" where
  "js_lower_char c =
     (let n = code c in
      if 65 \<le> n \<and> n \<le> 90 \<or> 192 \<le> n \<and> n \<le> 222 \<and> n \<noteq> 215 then char_of (n + 32)
      else if n = 138 \<or> n = 140 \<or> n = 142 then char_of (n + 16)
      else if n = 159 then char_of (255 :: nat)
      else c)"

definition is_lower_az :: "char \<Rightarrow> bool" where
  "is_lower_az c \<longleftrightarrow> 97 \<le> code c \<and> code c \<le> 122"

definition is_digit :: "char \<Rightarrow> bool" where
  "is_digit c \<longleftrightarrow> 48 \<le> code c \<and> code c \<le> 57"

definition is_lower_alnum :: "char \<Rightarrow> bool" where
  "is_lower_alnum c \<longleftrightarrow> is_lower_az c \<or> is_digit c"

lemma code_less: "code c < 256"
  using of_char_of [of "of_char c :: nat"] unfolding code_def
  by (metis char_of_char mod_less_divisor of_char_of zero_less_numeral)

lemma code_char_of [simp]: "code (char_of n) = n mod 256" for n :: nat
  by (simp add: code_def)

lemma code_inject: "code c = code d \<longleftrightarrow> c = d"
  by (simp add: code_def)

lemma char_of_code [simp]: "char_of (code c) = c"
  by (simp add: code_def)

lemma js_lower_char_idem [simp]: "js_lower_char (js_lower_char c) = js_lower_char c"
  using code_less [of c] by (auto simp: js_lower_char_def Let_def)

section \<open>Strings\<close>

definition js_trim_start :: "string \<Rightarrow> string" where
  "js_trim_start s = dropWhile js_space s"

definition js_trim :: "string \<Rightarrow> string" where
  "js_trim s = rev (js_trim_start (rev (js_trim_start s)))"

definition js_lower :: "string \<Rightarrow> string" where
  "js_lower s = map js_lower_char s"

definition js_starts_with :: "string \<Rightarrow> string \<Rightarrow> bool" where
  "js_starts_with s p \<longleftrightarrow> take (length p) s = p"

definition js_ends_with :: "string \<Rightarrow> string \<Rightarrow> bool" where
  "js_ends_with s p \<longleftrightarrow> length p \<le> length s \<and> drop (length s - length p) s = p"

fun js_includes :: "string \<Rightarrow> string \<Rightarrow> bool" where
  "js_includes [] p \<longleftrightarrow> p = []"
| "js_includes (c # s) p \<longleftrightarrow> js_starts_with (c # s) p \<or> js_includes s p"

fun js_split :: "char \<Rightarrow> string \<Rightarrow> string list" where
  "js_split d [] = [[]]"
| "js_split d (c # s) =
     (if c = d then [] # js_split d s
      else case js_split d s of [] \<Rightarrow> [[c]] | w # ws \<Rightarrow> (c # w) # ws)"

fun js_join :: "string \<Rightarrow> string list \<Rightarrow> string" where
  "js_join sep [] = []"
| "js_join sep [w] = w"
| "js_join sep (w # ws) = w @ sep @ js_join sep ws"

definition js_slice :: "nat \<Rightarrow> nat \<Rightarrow> string \<Rightarrow> string" where
  "js_slice from until s = take (until - from) (drop from s)"

lemma js_starts_with_prefix: "js_starts_with s p \<longleftrightarrow> prefix p s"
  by (auto simp: js_starts_with_def prefix_def) (metis append_take_drop_id)

lemma js_ends_with_suffix: "js_ends_with s p \<longleftrightarrow> suffix p s"
  by (auto simp: js_ends_with_def suffix_def) (metis append_take_drop_id)

lemma js_includes_sublist: "js_includes s p \<longleftrightarrow> sublist p s"
  by (induction s) (auto simp: js_starts_with_prefix sublist_Cons_right)

lemma js_includes_char [js_string_simps]: "js_includes s [c] \<longleftrightarrow> c \<in> set s"
  by (induction s) (auto simp: js_starts_with_def)

lemma js_includes_empty [simp]: "js_includes s []"
  by (cases s) (auto simp: js_starts_with_def)

lemma js_starts_with_append [simp]: "js_starts_with (p @ s) p"
  by (simp add: js_starts_with_def)

lemma js_starts_with_empty [simp]: "js_starts_with s []"
  by (simp add: js_starts_with_def)

subsection \<open>Trimming\<close>

lemma js_trim_set: "set (js_trim s) \<subseteq> set s"
  unfolding js_trim_def js_trim_start_def
  by (metis set_dropWhileD set_rev subsetI)

lemma js_trim_id:
  assumes "\<And>c. c \<in> set s \<Longrightarrow> \<not> js_space c"
  shows "js_trim s = s"
proof -
  have "dropWhile js_space t = t" if "set t \<subseteq> set s" for t
    using that assms by (cases t) auto
  then show ?thesis by (simp add: js_trim_def js_trim_start_def)
qed

lemma js_trim_idem [simp]: "js_trim (js_trim s) = js_trim s"
proof -
  define t where "t = dropWhile js_space s"
  define u where "u = dropWhile js_space (rev t)"
  have "dropWhile js_space (rev u) = rev u"
  proof (cases "rev u")
    case (Cons c cs)
    have "suffix u (rev t)"
      unfolding u_def by (rule suffix_dropWhile)
    then have "prefix (rev u) t"
      by (auto simp: suffix_def prefix_def) (metis rev_append rev_rev_ident)
    then have "t \<noteq> []" and "hd t = c"
      using Cons by (auto simp: prefix_def)
    then have "\<not> js_space c"
      unfolding t_def using hd_dropWhile [of js_space s] by auto
    with Cons show ?thesis by simp
  qed simp
  then have "js_trim (rev u) = rev (dropWhile js_space u)"
    by (simp add: js_trim_def js_trim_start_def)
  also have "dropWhile js_space u = u"
    by (simp add: u_def)
  finally show ?thesis
    by (simp add: js_trim_def js_trim_start_def t_def u_def)
qed

lemma js_trim_Nil [simp]: "js_trim [] = []"
  by (simp add: js_trim_def js_trim_start_def)

lemma js_trim_eq_Nil: "js_trim s = [] \<longleftrightarrow> (\<forall>c \<in> set s. js_space c)"
proof
  assume "js_trim s = []"
  then have t: "\<forall>c \<in> set (dropWhile js_space s). js_space c"
    by (simp add: js_trim_def js_trim_start_def)
  have "dropWhile js_space s = []"
    using t hd_dropWhile [of js_space s] by (cases "dropWhile js_space s") auto
  then show "\<forall>c \<in> set s. js_space c" by simp
next
  assume "\<forall>c \<in> set s. js_space c"
  then show "js_trim s = []"
    by (auto simp: js_trim_def js_trim_start_def dest: set_dropWhileD)
qed

lemma js_lower_idem [simp]: "js_lower (js_lower s) = js_lower s"
  by (simp add: js_lower_def comp_def)

lemma length_js_lower [simp]: "length (js_lower s) = length s"
  by (simp add: js_lower_def)

subsection \<open>Splitting and joining\<close>

lemma js_split_nonempty [simp]: "js_split d s \<noteq> []"
  by (induction s) (auto split: list.splits)

lemma js_split_no_sep: "d \<notin> set s \<Longrightarrow> js_split d s = [s]"
  by (induction s) auto

lemma js_split_parts: "w \<in> set (js_split d s) \<Longrightarrow> d \<notin> set w"
proof (induction s arbitrary: w)
  case (Cons c s)
  obtain v vs where v: "js_split d s = v # vs"
    by (cases "js_split d s") auto
  show ?case
    using Cons v by (cases "c = d") auto
qed auto

lemma js_split_append_sep: "js_split d (u @ d # v) = js_split d u @ js_split d v"
proof (induction u)
  case (Cons c u)
  obtain w ws where "js_split d u = w # ws"
    by (cases "js_split d u") auto
  with Cons show ?case by auto
qed simp

lemma js_join_Cons: "ws \<noteq> [] \<Longrightarrow> js_join sep (w # ws) = w @ sep @ js_join sep ws"
  by (cases ws) auto

lemma js_join_split [simp]: "js_join [d] (js_split d s) = s"
proof (induction s)
  case (Cons c s)
  obtain w ws where w: "js_split d s = w # ws"
    by (cases "js_split d s") auto
  show ?case
  proof (cases "c = d")
    case True
    then show ?thesis using Cons by (simp add: js_join_Cons)
  next
    case False
    then show ?thesis using Cons w by (cases ws) auto
  qed
qed simp

lemma js_split_join:
  "ws \<noteq> [] \<Longrightarrow> (\<forall>w \<in> set ws. d \<notin> set w) \<Longrightarrow> js_split d (js_join [d] ws) = ws"
proof (induction ws)
  case (Cons w ws)
  show ?case
  proof (cases "ws = []")
    case True
    then show ?thesis using Cons.prems by (simp add: js_split_no_sep)
  next
    case False
    then show ?thesis using Cons
      by (simp add: js_join_Cons js_split_append_sep js_split_no_sep)
  qed
qed simp

lemma set_js_split_chars: "w \<in> set (js_split d s) \<Longrightarrow> set w \<subseteq> set s"
proof (induction s arbitrary: w)
  case (Cons c s)
  obtain v vs where "js_split d s = v # vs"
    by (cases "js_split d s") auto
  with Cons show ?case
    by (cases "c = d") (auto, blast+)
qed simp

section \<open>Decimal numerals\<close>

fun digits_value_from :: "nat \<Rightarrow> string \<Rightarrow> nat" where
  "digits_value_from n [] = n"
| "digits_value_from n (c # s) = digits_value_from (10 * n + (code c - 48)) s"

definition digits_value :: "string \<Rightarrow> nat" where
  "digits_value s = digits_value_from 0 s"

text \<open>The number a string of the form \<open>-?\d+\<close> denotes (\<open>Number(s)\<close> of such a string).\<close>

definition int_value :: "string \<Rightarrow> int" where
  "int_value s =
     (case s of [] \<Rightarrow> 0
      | c # ds \<Rightarrow> if c = CHR ''-'' then - int (digits_value ds) else int (digits_value s))"

fun show_nat :: "nat \<Rightarrow> string" where
  "show_nat n = (if n < 10 then [char_of (48 + n)] else show_nat (n div 10) @ [char_of (48 + n mod 10)])"

declare show_nat.simps [simp del]

definition show_int :: "int \<Rightarrow> string" where
  "show_int i = (if i < 0 then CHR ''-'' # show_nat (nat (- i)) else show_nat (nat i))"

lemma digits_value_from_append:
  "digits_value_from n (s @ [c]) = 10 * digits_value_from n s + (code c - 48)"
  by (induction s arbitrary: n) auto

lemma digits_value_show_nat [simp]: "digits_value (show_nat n) = n"
proof (induction n rule: show_nat.induct)
  case (1 n)
  show ?case
  proof (cases "n < 10")
    case True
    then show ?thesis by (subst show_nat.simps) (simp add: digits_value_def)
  next
    case False
    then have "digits_value (show_nat (n div 10)) = n div 10"
      using 1 by simp
    with False show ?thesis
      by (subst show_nat.simps) (simp add: digits_value_def digits_value_from_append)
  qed
qed

lemma show_nat_digits: "c \<in> set (show_nat n) \<Longrightarrow> is_digit c"
proof (induction n rule: show_nat.induct)
  case (1 n)
  show ?case
  proof (cases "n < 10")
    case True
    with 1(2) show ?thesis by (subst (asm) show_nat.simps) (auto simp: is_digit_def)
  next
    case False
    with 1 show ?thesis by (subst (asm) (2) show_nat.simps) (auto simp: is_digit_def)
  qed
qed

lemma show_nat_inject [simp]: "show_nat m = show_nat n \<longleftrightarrow> m = n"
  by (metis digits_value_show_nat)

lemma show_nat_nonempty [simp]: "show_nat n \<noteq> []"
  by (subst show_nat.simps) simp

lemma show_nat_no_char: "\<not> is_digit c \<Longrightarrow> c \<notin> set (show_nat n)"
  using show_nat_digits by blast

section \<open>Options and association lists\<close>

definition some_or :: "'a option \<Rightarrow> 'a \<Rightarrow> 'a" where
  "some_or x d = (case x of Some y \<Rightarrow> y | None \<Rightarrow> d)"

lemma some_or_simps [simp]: "some_or (Some y) d = y" "some_or None d = d"
  by (simp_all add: some_or_def)

text \<open>\<open>Array.prototype.find\<close> is the library's \<^const>\<open>find\<close>.\<close>

lemma find_SomeD: "find P xs = Some x \<Longrightarrow> x \<in> set xs \<and> P x"
  by (auto simp: find_Some_iff)

lemma find_None_iff_ball: "find P xs = None \<longleftrightarrow> (\<forall>x \<in> set xs. \<not> P x)"
  by (auto simp: find_None_iff)

text \<open>Updating every element of a list that satisfies a condition, the idiom
  \<open>xs.map((x) => cond(x) ? f(x) : x)\<close>.\<close>

definition map_where :: "('a \<Rightarrow> bool) \<Rightarrow> ('a \<Rightarrow> 'a) \<Rightarrow> 'a list \<Rightarrow> 'a list" where
  "map_where P f xs = map (\<lambda>x. if P x then f x else x) xs"

lemma length_map_where [simp]: "length (map_where P f xs) = length xs"
  by (simp add: map_where_def)

lemma map_map_where_same: "(\<And>x. P x \<Longrightarrow> g (f x) = g x) \<Longrightarrow> map g (map_where P f xs) = map g xs"
  by (auto simp: map_where_def)

end
