(* ===== verification/Regex.thy ===== *)
theory Regex
  imports Prelude
begin

text \<open>
  The fragment of JavaScript regular expressions the sources use (character classes, grouping,
  alternation, \<open>*\<close>, \<open>+\<close> and \<open>{0,n}\<close>, anchored at both ends), with an executable matcher by
  derivatives that is proved to decide membership of the pattern's language. A test
  \<open>/^r$/.test(s)\<close> of the sources is \<open>rx_test r s\<close>.
\<close>

datatype rx =
    RNone
  | REmpty
  | RClass "char \<Rightarrow> bool"
  | RAlt rx rx
  | RSeq rx rx
  | RStar rx
  | RUpTo nat rx  \<comment> \<open>\<open>r{0,n}\<close>\<close>

abbreviation RPlus :: "rx \<Rightarrow> rx" where
  "RPlus r \<equiv> RSeq r (RStar r)"

abbreviation RChar :: "char \<Rightarrow> rx" where
  "RChar c \<equiv> RClass (\<lambda>d. d = c)"

abbreviation ROpt :: "rx \<Rightarrow> rx" where
  "ROpt r \<equiv> RUpTo 1 r"

inductive in_rx :: "rx \<Rightarrow> string \<Rightarrow> bool" where
  empty: "in_rx REmpty []"
| char_class: "P c \<Longrightarrow> in_rx (RClass P) [c]"
| alt_left: "in_rx r s \<Longrightarrow> in_rx (RAlt r q) s"
| alt_right: "in_rx q s \<Longrightarrow> in_rx (RAlt r q) s"
| seq: "in_rx r s \<Longrightarrow> in_rx q t \<Longrightarrow> in_rx (RSeq r q) (s @ t)"
| star_empty: "in_rx (RStar r) []"
| star_step: "in_rx r s \<Longrightarrow> in_rx (RStar r) t \<Longrightarrow> in_rx (RStar r) (s @ t)"
| upto_empty: "in_rx (RUpTo n r) []"
| upto_step: "in_rx r s \<Longrightarrow> in_rx (RUpTo n r) t \<Longrightarrow> in_rx (RUpTo (Suc n) r) (s @ t)"

inductive_simps in_rx_none [simp]: "in_rx RNone s"
inductive_simps in_rx_empty [simp]: "in_rx REmpty s"
inductive_simps in_rx_class [simp]: "in_rx (RClass P) s"
inductive_simps in_rx_alt [simp]: "in_rx (RAlt r q) s"
inductive_simps in_rx_seq: "in_rx (RSeq r q) s"
inductive_simps in_rx_upto_0 [simp]: "in_rx (RUpTo 0 r) s"
inductive_cases in_rx_starE: "in_rx (RStar r) s"
inductive_cases in_rx_uptoE: "in_rx (RUpTo n r) s"

fun nullable :: "rx \<Rightarrow> bool" where
  "nullable RNone = False"
| "nullable REmpty = True"
| "nullable (RClass P) = False"
| "nullable (RAlt r q) = (nullable r \<or> nullable q)"
| "nullable (RSeq r q) = (nullable r \<and> nullable q)"
| "nullable (RStar r) = True"
| "nullable (RUpTo n r) = True"

fun after_char :: "char \<Rightarrow> rx \<Rightarrow> rx" where
  "after_char c RNone = RNone"
| "after_char c REmpty = RNone"
| "after_char c (RClass P) = (if P c then REmpty else RNone)"
| "after_char c (RAlt r q) = RAlt (after_char c r) (after_char c q)"
| "after_char c (RSeq r q) =
     (if nullable r then RAlt (RSeq (after_char c r) q) (after_char c q)
      else RSeq (after_char c r) q)"
| "after_char c (RStar r) = RSeq (after_char c r) (RStar r)"
| "after_char c (RUpTo n r) =
     (case n of 0 \<Rightarrow> RNone | Suc m \<Rightarrow> RSeq (after_char c r) (RUpTo m r))"

fun rx_test :: "rx \<Rightarrow> string \<Rightarrow> bool" where
  "rx_test r [] = nullable r"
| "rx_test r (c # s) = rx_test (after_char c r) s"

section \<open>The matcher decides the language\<close>

lemma nullable_iff: "nullable r \<longleftrightarrow> in_rx r []"
  by (induction r) (auto simp: in_rx_seq intro: in_rx.intros)

lemma in_rx_upto_mono: "in_rx q s \<Longrightarrow> q = RUpTo n r \<Longrightarrow> n \<le> m \<Longrightarrow> in_rx (RUpTo m r) s"
proof (induction arbitrary: n m rule: in_rx.induct)
  case (upto_step r' s k t)
  then obtain m' where "m = Suc m'" "k \<le> m'" by (cases m) auto
  then show ?case using upto_step by (auto intro: in_rx.upto_step)
qed (auto intro: in_rx.upto_empty)

lemma in_rx_star_cons:
  "in_rx q w \<Longrightarrow> q = RStar r \<Longrightarrow> w = c # s \<Longrightarrow>
   \<exists>u v. s = u @ v \<and> in_rx r (c # u) \<and> in_rx (RStar r) v"
proof (induction arbitrary: s rule: in_rx.induct)
  case (star_step r' u v)
  then show ?case by (cases u) auto
qed auto

lemma in_rx_upto_cons:
  "in_rx q w \<Longrightarrow> q = RUpTo n r \<Longrightarrow> w = c # s \<Longrightarrow>
   \<exists>m u v. n = Suc m \<and> s = u @ v \<and> in_rx r (c # u) \<and> in_rx (RUpTo m r) v"
proof (induction arbitrary: n s rule: in_rx.induct)
  case (upto_step r' u k v)
  show ?case
  proof (cases u)
    case Nil
    with upto_step obtain m a b where "k = Suc m" "s = a @ b" "in_rx r (c # a)"
      "in_rx (RUpTo m r) b" by auto
    then show ?thesis
      using upto_step.prems in_rx_upto_mono [of "RUpTo m r" b m r k] by auto
  next
    case (Cons d u')
    then show ?thesis using upto_step by auto
  qed
qed auto

lemma in_rx_after_char: "in_rx (after_char c r) s \<longleftrightarrow> in_rx r (c # s)"
proof (induction r arbitrary: s)
  case (RSeq r q)
  have "in_rx (RSeq r q) (c # s) \<longleftrightarrow>
      (\<exists>u v. s = u @ v \<and> in_rx r (c # u) \<and> in_rx q v) \<or> in_rx r [] \<and> in_rx q (c # s)"
    by (auto simp: in_rx_seq Cons_eq_append_conv)
  then show ?case by (auto simp: RSeq nullable_iff in_rx_seq)
next
  case (RStar r)
  have "in_rx (RStar r) (c # s) \<longleftrightarrow> (\<exists>u v. s = u @ v \<and> in_rx r (c # u) \<and> in_rx (RStar r) v)"
    using in_rx_star_cons [of "RStar r" "c # s" r c s] in_rx.star_step by fastforce
  then show ?case by (auto simp: in_rx_seq RStar)
next
  case (RUpTo n r)
  have "in_rx (RUpTo n r) (c # s) \<longleftrightarrow>
      (\<exists>m u v. n = Suc m \<and> s = u @ v \<and> in_rx r (c # u) \<and> in_rx (RUpTo m r) v)"
    using in_rx_upto_cons [of "RUpTo n r" "c # s" n r c s] in_rx.upto_step by fastforce
  then show ?case by (auto simp: in_rx_seq RUpTo split: nat.splits)
qed auto

theorem rx_test_iff: "rx_test r s \<longleftrightarrow> in_rx r s"
  by (induction s arbitrary: r) (simp_all add: nullable_iff in_rx_after_char)

section \<open>Repetitions of a character class\<close>

lemma in_rx_star_class [simp]: "in_rx (RStar (RClass P)) s \<longleftrightarrow> list_all P s"
proof
  have "in_rx r s \<Longrightarrow> r = RStar (RClass P) \<Longrightarrow> list_all P s" for r
    by (induction rule: in_rx.induct) auto
  then show "in_rx (RStar (RClass P)) s \<Longrightarrow> list_all P s" by simp
next
  show "list_all P s \<Longrightarrow> in_rx (RStar (RClass P)) s"
    by (induction s)
      (use in_rx.star_step [of "RClass P" "[_]"] in \<open>auto intro: in_rx.star_empty\<close>)
qed

lemma in_rx_upto_class [simp]: "in_rx (RUpTo n (RClass P)) s \<longleftrightarrow> list_all P s \<and> length s \<le> n"
proof
  have "in_rx r s \<Longrightarrow> r = RUpTo n (RClass P) \<Longrightarrow> list_all P s \<and> length s \<le> n" for r
    by (induction arbitrary: n rule: in_rx.induct) auto
  then show "in_rx (RUpTo n (RClass P)) s \<Longrightarrow> list_all P s \<and> length s \<le> n" by simp
next
  show "list_all P s \<and> length s \<le> n \<Longrightarrow> in_rx (RUpTo n (RClass P)) s"
  proof (induction s arbitrary: n)
    case (Cons c s)
    then obtain m where "n = Suc m" "length s \<le> m" by (cases n) auto
    then show ?case
      using Cons in_rx.upto_step [of "RClass P" "[c]" m s] by (auto intro: in_rx.char_class)
  qed (auto intro: in_rx.upto_empty)
qed

lemma in_rx_class_seq: "in_rx (RSeq (RClass P) r) s \<longleftrightarrow> (\<exists>c t. s = c # t \<and> P c \<and> in_rx r t)"
proof -
  have "in_rx (RSeq (RClass P) r) (c # t)" if "P c" "in_rx r t" for c t
    using in_rx.seq [of "RClass P" "[c]" r t] that by simp
  then show ?thesis by (auto simp: in_rx_seq)
qed

lemma in_rx_plus_class [simp]: "in_rx (RPlus (RClass P)) s \<longleftrightarrow> s \<noteq> [] \<and> list_all P s"
  by (cases s) (auto simp: in_rx_class_seq)

text \<open>Words of a class separated by one character outside it: \<open>P+(?:dP+)*\<close>.\<close>

lemma in_rx_star_concat:
  "in_rx (RStar r) s \<longleftrightarrow> (\<exists>ws. s = concat ws \<and> (\<forall>w \<in> set ws. in_rx r w))"
proof
  have "in_rx q s \<Longrightarrow> q = RStar r \<Longrightarrow> \<exists>ws. s = concat ws \<and> (\<forall>w \<in> set ws. in_rx r w)" for q
  proof (induction rule: in_rx.induct)
    case (star_step r' s t)
    then obtain ws where "t = concat ws" "\<forall>w \<in> set ws. in_rx r w" by auto
    then show ?case using star_step by (intro exI [of _ "s # ws"]) auto
  qed (auto intro: exI [of _ "[]"])
  then show "in_rx (RStar r) s \<Longrightarrow> \<exists>ws. s = concat ws \<and> (\<forall>w \<in> set ws. in_rx r w)" by simp
next
  have "\<forall>w \<in> set ws. in_rx r w \<Longrightarrow> in_rx (RStar r) (concat ws)" for ws
    by (induction ws) (auto intro: in_rx.star_empty in_rx.star_step)
  then show "\<exists>ws. s = concat ws \<and> (\<forall>w \<in> set ws. in_rx r w) \<Longrightarrow> in_rx (RStar r) s" by auto
qed

lemma js_join_concat: "ws \<noteq> [] \<Longrightarrow> js_join [d] ws = hd ws @ concat (map ((#) d) (tl ws))"
  by (induction ws rule: induct_list012) auto

lemma in_rx_separated:
  assumes "\<not> P d"
  shows "in_rx (RSeq (RPlus (RClass P)) (RStar (RSeq (RChar d) (RPlus (RClass P))))) s \<longleftrightarrow>
    (\<forall>w \<in> set (js_split d s). w \<noteq> [] \<and> list_all P w)" (is "?L \<longleftrightarrow> ?R")
proof
  assume ?L
  then obtain u ws where s: "s = u @ concat ws" and u: "u \<noteq> []" "list_all P u"
    and ws: "\<forall>w \<in> set ws. \<exists>v. w = d # v \<and> v \<noteq> [] \<and> list_all P v"
    by (auto simp: in_rx_seq [of "RPlus (RClass P)"] in_rx_star_concat [of "RSeq (RChar d) _"]
        in_rx_class_seq [of "\<lambda>x. x = d"] simp del: in_rx_plus_class)
      (metis in_rx_plus_class)
  define vs where "vs = map tl ws"
  have "ws = map ((#) d) vs"
    unfolding vs_def using ws by (induction ws) auto
  then have "s = js_join [d] (u # vs)"
    by (simp add: s js_join_concat)
  moreover have vs: "\<forall>v \<in> set vs. v \<noteq> [] \<and> list_all P v"
    unfolding vs_def using ws by auto
  moreover have "\<forall>v \<in> set (u # vs). d \<notin> set v"
    using u vs assms by (auto simp: list_all_iff)
  ultimately have "js_split d s = u # vs"
    by (simp add: js_split_join)
  then show ?R using u vs by auto
next
  assume R: ?R
  obtain u vs where uv: "js_split d s = u # vs"
    by (cases "js_split d s") auto
  have "s = js_join [d] (js_split d s)" by simp
  then have s: "s = u @ concat (map ((#) d) vs)"
    unfolding uv by (simp add: js_join_concat)
  have "in_rx (RStar (RSeq (RChar d) (RPlus (RClass P)))) (concat (map ((#) d) vs))"
    unfolding in_rx_star_concat
    using R uv by (intro exI [of _ "map ((#) d) vs"]) (auto simp: in_rx_class_seq [of "\<lambda>x. x = d"])
  moreover have "in_rx (RPlus (RClass P)) u"
    using R uv by auto
  ultimately show ?L
    unfolding s by (intro in_rx.seq)
qed

section \<open>Literals\<close>

primrec RLit :: "string \<Rightarrow> rx" where
  "RLit [] = REmpty"
| "RLit (c # s) = RSeq (RChar c) (RLit s)"

lemma in_rx_lit [simp]: "in_rx (RLit s) t \<longleftrightarrow> t = s"
  by (induction s arbitrary: t) (auto simp: in_rx_class_seq)

end
