(* ===== verification/Validation.thy ===== *)
theory Validation
  imports Regex
begin

text \<open>
  The input checks of \<open>web/src/lib/validation.ts\<close>, with the two name checks of
  \<open>tenant-delete.ts\<close> and \<open>api-client-dialog.ts\<close>. The regular expressions are terms of
  \<open>Regex\<close>; the theorems give each check a specification that does not mention the pattern, and
  relate the checks the pages combine. The URL parser and the date parser of the platform are
  parameters.
\<close>

section \<open>The patterns\<close>

definition TENANT_SLUG_PATTERN :: rx where
  "TENANT_SLUG_PATTERN =
     RSeq (RPlus (RClass is_lower_alnum))
       (RStar (RSeq (RChar (CHR ''-'')) (RPlus (RClass is_lower_alnum))))"

definition definition_key_char :: "char \<Rightarrow> bool" where
  "definition_key_char c \<longleftrightarrow> is_lower_alnum c \<or> c = CHR ''_'' \<or> c = CHR ''-''"

definition DEFINITION_KEY_PATTERN :: rx where
  "DEFINITION_KEY_PATTERN = RSeq (RClass is_lower_az) (RUpTo 62 (RClass definition_key_char))"

definition alias_char :: "char \<Rightarrow> bool" where
  "alias_char c \<longleftrightarrow> is_lower_alnum c \<or> c = CHR ''.'' \<or> c = CHR ''_'' \<or> c = CHR ''-''"

definition RESOURCE_ALIAS_PATTERN :: rx where
  "RESOURCE_ALIAS_PATTERN = RSeq (RClass is_lower_alnum) (RUpTo 62 (RClass alias_char))"

definition INTEGER_PATTERN :: rx where
  "INTEGER_PATTERN = RSeq (ROpt (RChar (CHR ''-''))) (RPlus (RClass is_digit))"

definition hostname_char :: "char \<Rightarrow> bool" where
  "hostname_char c \<longleftrightarrow> is_lower_alnum c \<or> c = CHR ''-''"

section \<open>The checks\<close>

definition isValidTenantSlug :: "string \<Rightarrow> bool" where
  "isValidTenantSlug v =
     (let slug = js_trim v in length slug \<le> 63 \<and> rx_test TENANT_SLUG_PATTERN slug)"

definition isValidDefinitionKey :: "string \<Rightarrow> bool" where
  "isValidDefinitionKey v = rx_test DEFINITION_KEY_PATTERN (js_trim v)"

definition isValidResourceAlias :: "string \<Rightarrow> bool" where
  "isValidResourceAlias v = rx_test RESOURCE_ALIAS_PATTERN (js_trim v)"

definition strip_final_dot :: "string \<Rightarrow> string" where
  "strip_final_dot s = (if js_ends_with s ''.'' then butlast s else s)"

definition valid_label :: "string \<Rightarrow> bool" where
  "valid_label w \<longleftrightarrow>
     length w > 0 \<and> length w \<le> 63 \<and> \<not> js_starts_with w ''-'' \<and> \<not> js_ends_with w ''-'' \<and>
     rx_test (RPlus (RClass hostname_char)) w"

definition isValidHostname :: "string \<Rightarrow> bool" where
  "isValidHostname v =
     (let hostname = strip_final_dot (js_lower (js_trim v)) in
      if hostname = [] \<or> length hostname > 253 then False
      else list_all valid_label (js_split (CHR ''.'') hostname))"

record url =
  protocol :: string
  username :: string
  password :: string
  hostname :: string
  hash :: string

text \<open>\<open>parse_url\<close> is the platform's \<open>new URL(\<dots>)\<close>; \<^const>\<open>None\<close> is the exception it throws.\<close>

definition isValidWebhookURL :: "(string \<Rightarrow> url option) \<Rightarrow> string \<Rightarrow> bool" where
  "isValidWebhookURL parse_url v =
     (case parse_url (js_trim v) of
        None \<Rightarrow> False
      | Some parsed \<Rightarrow>
          if username parsed \<noteq> [] \<or> password parsed \<noteq> [] \<or> hash parsed \<noteq> [] \<or> hostname parsed = []
          then False
          else if protocol parsed = ''https:'' then True
          else protocol parsed = ''http:'' \<and>
            hostname parsed \<in> set [''localhost'', ''127.0.0.1'', ''::1''])"

definition MAX_SAFE_INTEGER :: int where
  "MAX_SAFE_INTEGER = 9007199254740991"

definition isIntegerInRange :: "string \<Rightarrow> int \<Rightarrow> int \<Rightarrow> bool" where
  "isIntegerInRange v minimum maximum =
     (if \<not> rx_test INTEGER_PATTERN (js_trim v) then False
      else let parsed = int_value (js_trim v) in
        \<bar>parsed\<bar> \<le> MAX_SAFE_INTEGER \<and> parsed \<ge> minimum \<and> parsed \<le> maximum)"

text \<open>\<open>date_parse\<close> is the platform's \<open>Date.parse\<close>; \<^const>\<open>None\<close> is \<open>NaN\<close>.\<close>

definition isValidDateRange :: "(string \<Rightarrow> int option) \<Rightarrow> string \<Rightarrow> string \<Rightarrow> bool" where
  "isValidDateRange date_parse from until =
     (case (date_parse from, date_parse until) of
        (Some fromTime, Some toTime) \<Rightarrow> fromTime < toTime
      | _ \<Rightarrow> False)"

definition isValidTypedResourceValue :: "string \<Rightarrow> string \<Rightarrow> bool" where
  "isValidTypedResourceValue dataType v =
     (if v = [] then True
      else if dataType = ''int'' then rx_test INTEGER_PATTERN v
      else if dataType = ''bool'' then v = ''true'' \<or> v = ''false''
      else True)"

definition matchesTenantSlug :: "string \<Rightarrow> string \<Rightarrow> bool" where
  "matchesTenantSlug typedValue tenantSlug \<longleftrightarrow> js_trim typedValue = tenantSlug"

definition canChangeAPIClientDialogOpen :: "bool \<Rightarrow> bool \<Rightarrow> bool" where
  "canChangeAPIClientDialogOpen nextOpen isCreating \<longleftrightarrow> nextOpen \<or> \<not> isCreating"

definition isDuplicateAPIClientName :: "string \<Rightarrow> string list \<Rightarrow> bool" where
  "isDuplicateAPIClientName name existingNames =
     (let normalizedName = js_lower (js_trim name) in
      if normalizedName = [] then False
      else list_ex (\<lambda>candidate. js_lower (js_trim candidate) = normalizedName) existingNames)"

section \<open>The languages of the patterns\<close>

lemma hyphen_not_alnum [simp]: "\<not> is_lower_alnum (CHR ''-'')"
  by code_simp

lemma dot_not_hostname_char [simp]: "\<not> hostname_char (CHR ''.'')"
  by code_simp

lemma tenant_slug_pattern_iff:
  "rx_test TENANT_SLUG_PATTERN s \<longleftrightarrow>
     (\<forall>w \<in> set (js_split (CHR ''-'') s). w \<noteq> [] \<and> list_all is_lower_alnum w)"
  unfolding rx_test_iff TENANT_SLUG_PATTERN_def by (rule in_rx_separated) simp

lemma definition_key_pattern_iff:
  "rx_test DEFINITION_KEY_PATTERN s \<longleftrightarrow>
     (\<exists>c t. s = c # t \<and> is_lower_az c \<and> list_all definition_key_char t \<and> length t \<le> 62)"
  by (simp add: rx_test_iff DEFINITION_KEY_PATTERN_def in_rx_class_seq)

lemma resource_alias_pattern_iff:
  "rx_test RESOURCE_ALIAS_PATTERN s \<longleftrightarrow>
     (\<exists>c t. s = c # t \<and> is_lower_alnum c \<and> list_all alias_char t \<and> length t \<le> 62)"
  by (simp add: rx_test_iff RESOURCE_ALIAS_PATTERN_def in_rx_class_seq)

lemma integer_pattern_iff:
  "rx_test INTEGER_PATTERN s \<longleftrightarrow>
     (\<exists>ds. (s = ds \<or> s = CHR ''-'' # ds) \<and> ds \<noteq> [] \<and> list_all is_digit ds)"
proof -
  have opt: "in_rx (ROpt (RChar c)) u \<longleftrightarrow> u = [] \<or> u = [c]" for c u
    by (auto simp: list_all_iff le_Suc_eq length_Suc_conv)
  have split: "(\<exists>u v. s = u @ v \<and> (u = [] \<or> u = [c]) \<and> Q v) \<longleftrightarrow> Q s \<or> (\<exists>v. s = c # v \<and> Q v)"
    for c :: char and Q
    by (auto intro: exI [of _ "[]"] exI [of _ "[c]"])
  show ?thesis
    unfolding rx_test_iff INTEGER_PATTERN_def in_rx_seq [of "ROpt _"] opt in_rx_plus_class split
    by blast
qed

section \<open>Case, blanks and the final dot\<close>

lemma js_space_code: "js_space c \<longleftrightarrow> code c \<in> {9, 10, 11, 12, 13, 32, 160}"
proof -
  have "js_space c \<longleftrightarrow> code c \<in> {code (CHR 0x09), code (CHR 0x0A), code (CHR 0x0B),
      code (CHR 0x0C), code (CHR 0x0D), code (CHR 0x20), code (CHR 0xA0)}"
    by (simp add: js_space_def code_inject)
  then show ?thesis by (simp add: code_def)
qed

lemma js_space_lower_char [simp]: "js_space (js_lower_char c) = js_space c"
  using code_less [of c] by (auto simp: js_space_code js_lower_char_def Let_def)

lemma js_trim_lower: "js_trim (js_lower s) = js_lower (js_trim s)"
  by (simp add: js_trim_def js_trim_start_def js_lower_def rev_map dropWhile_map comp_def)

lemma lower_alnum_not_space: "is_lower_alnum c \<Longrightarrow> \<not> js_space c"
  by (auto simp: js_space_code is_lower_alnum_def is_lower_az_def is_digit_def)

lemma lower_alnum_lower: "is_lower_alnum c \<Longrightarrow> js_lower_char c = c"
  by (auto simp: js_lower_char_def is_lower_alnum_def is_lower_az_def is_digit_def Let_def)

lemma hostname_char_lower: "hostname_char c \<Longrightarrow> js_lower_char c = c"
  by (auto simp: hostname_char_def lower_alnum_lower) code_simp

lemma js_lower_hostname_chars: "list_all hostname_char s \<Longrightarrow> js_lower s = s"
  by (induction s) (auto simp: js_lower_def hostname_char_lower)

lemma js_ends_with_char: "js_ends_with s [c] \<longleftrightarrow> s \<noteq> [] \<and> last s = c"
  by (cases s rule: rev_cases) (auto simp: js_ends_with_def)

lemma js_starts_with_char: "js_starts_with s [c] \<longleftrightarrow> s \<noteq> [] \<and> hd s = c"
  by (cases s) (auto simp: js_starts_with_def)

lemma valid_label_iff:
  "valid_label w \<longleftrightarrow> w \<noteq> [] \<and> length w \<le> 63 \<and> list_all hostname_char w \<and>
     hd w \<noteq> CHR ''-'' \<and> last w \<noteq> CHR ''-''"
  by (auto simp: valid_label_def rx_test_iff js_starts_with_char js_ends_with_char)

section \<open>Slugs, labels and host names\<close>

lemma split_hd_nonempty: "js_split d s = w # ws \<Longrightarrow> w = [] \<longleftrightarrow> s = [] \<or> hd s = d"
  by (cases s) (auto split: if_splits list.splits)

lemma includes_pair_Cons:
  "js_includes (c # s) [d, d] \<longleftrightarrow> c = d \<and> s \<noteq> [] \<and> hd s = d \<or> js_includes s [d, d]"
  by (cases s) (auto simp: js_starts_with_def)

lemma split_tl_nonempty:
  "(\<forall>w \<in> set (tl (js_split d s)). w \<noteq> []) \<longleftrightarrow> s = [] \<or> last s \<noteq> d \<and> \<not> js_includes s [d, d]"
proof (induction s)
  case (Cons c s)
  obtain w ws where w: "js_split d s = w # ws"
    by (cases "js_split d s") auto
  show ?case
    using Cons.IH w split_hd_nonempty [OF w] includes_pair_Cons [of c s d]
    by (cases "s = []"; cases "c = d") auto
qed simp

lemma split_nonempty_iff:
  "(\<forall>w \<in> set (js_split d s). w \<noteq> []) \<longleftrightarrow>
     s \<noteq> [] \<and> hd s \<noteq> d \<and> last s \<noteq> d \<and> \<not> js_includes s [d, d]"
proof -
  obtain w ws where w: "js_split d s = w # ws"
    by (cases "js_split d s") auto
  show ?thesis
    using split_tl_nonempty [of d s] split_hd_nonempty [OF w] w by auto
qed

lemma split_all_iff:
  "\<not> P d \<Longrightarrow> (\<forall>w \<in> set (js_split d s). list_all P w) \<longleftrightarrow> list_all (\<lambda>c. P c \<or> c = d) s"
proof (induction s)
  case (Cons c s)
  obtain w ws where "js_split d s = w # ws"
    by (cases "js_split d s") auto
  with Cons show ?case by auto
qed simp

lemma labels_of_hostname:
  "isValidHostname v \<longleftrightarrow>
     (let h = strip_final_dot (js_lower (js_trim v)) in
      length h \<le> 253 \<and> list_all valid_label (js_split (CHR ''.'') h))"
  by (auto simp: isValidHostname_def Let_def valid_label_def)

lemma hostname_no_space: "hostname_char c \<Longrightarrow> \<not> js_space c"
  by (auto simp: hostname_char_def lower_alnum_not_space) (simp add: js_space_def)

lemma valid_labels_chars:
  assumes "list_all valid_label (js_split (CHR ''.'') h)" and "c \<in> set h"
  shows "hostname_char c \<or> c = CHR ''.''"
proof -
  have "\<forall>w \<in> set (js_split (CHR ''.'') h). list_all hostname_char w"
    using assms(1) by (auto simp: list_all_iff valid_label_iff)
  then have "list_all (\<lambda>c. hostname_char c \<or> c = CHR ''.'') h"
    by (simp add: split_all_iff)
  then show ?thesis using assms(2) by (auto simp: list_all_iff)
qed

lemma lower_hostname_id:
  assumes "\<And>c. c \<in> set h \<Longrightarrow> hostname_char c \<or> c = CHR ''.''"
  shows "js_lower h = h"
proof -
  have "js_lower_char (CHR ''.'') = CHR ''.''" by code_simp
  then show ?thesis
    using assms unfolding js_lower_def by (metis hostname_char_lower map_idI)
qed

lemma trim_hostname_id:
  assumes "\<And>c. c \<in> set h \<Longrightarrow> hostname_char c \<or> c = CHR ''.''"
  shows "js_trim h = h"
proof (rule js_trim_id)
  fix c assume "c \<in> set h"
  moreover have "\<not> js_space (CHR ''.'')" by code_simp
  ultimately show "\<not> js_space c"
    using assms hostname_no_space by blast
qed

lemma strip_final_dot_dot [simp]: "strip_final_dot (s @ ''.'') = s"
  by (simp add: strip_final_dot_def js_ends_with_char)

lemma strip_final_dot_label: "valid_label w \<Longrightarrow> strip_final_dot w = w"
  by (auto simp: strip_final_dot_def js_ends_with_char valid_label_iff list_all_iff)
    (metis dot_not_hostname_char last_in_set)

lemma labels_strip_final_dot:
  assumes "list_all valid_label (js_split (CHR ''.'') h)"
  shows "strip_final_dot h = h"
proof -
  have "\<forall>w \<in> set (js_split (CHR ''.'') h). w \<noteq> []"
    using assms by (auto simp: list_all_iff valid_label_iff)
  then show ?thesis
    by (simp add: split_nonempty_iff strip_final_dot_def js_ends_with_char)
qed

lemma canonical_hostname:
  assumes "list_all valid_label (js_split (CHR ''.'') h)"
  shows "strip_final_dot (js_lower (js_trim h)) = h"
    and "strip_final_dot (js_lower (js_trim (h @ ''.''))) = h"
proof -
  note chars = valid_labels_chars [OF assms]
  show "strip_final_dot (js_lower (js_trim h)) = h"
    using trim_hostname_id [of h] lower_hostname_id [of h] chars labels_strip_final_dot [OF assms]
    by simp
  have "js_trim (h @ ''.'') = h @ ''.''" "js_lower (h @ ''.'') = h @ ''.''"
    using trim_hostname_id [of "h @ ''.''"] lower_hostname_id [of "h @ ''.''"] chars by auto
  then show "strip_final_dot (js_lower (js_trim (h @ ''.''))) = h" by simp
qed

lemma split_length: "length (concat (js_split d s)) + length (js_split d s) = Suc (length s)"
proof (induction s)
  case (Cons c s)
  obtain w ws where "js_split d s = w # ws"
    by (cases "js_split d s") auto
  with Cons show ?case by auto
qed simp

lemma length_concat_ge: "(\<forall>w \<in> set ws. w \<noteq> []) \<Longrightarrow> length ws \<le> length (concat ws)"
proof (induction ws)
  case (Cons w ws)
  then show ?case by (cases w) auto
qed simp

text \<open>The form checks a tenant slug before it becomes part of a host name, and the two notions agree:
  a string passes \<open>isValidTenantSlug\<close> exactly when, trimmed, it is a label \<open>isValidHostname\<close> accepts and
  has no two hyphens in a row.\<close>

theorem tenant_slug_is_label:
  "isValidTenantSlug v \<longleftrightarrow> valid_label (js_trim v) \<and> \<not> js_includes (js_trim v) ''--''"
proof -
  have "(\<lambda>c. is_lower_alnum c \<or> c = CHR ''-'') = hostname_char"
    by (simp add: hostname_char_def fun_eq_iff)
  then have "rx_test TENANT_SLUG_PATTERN s \<longleftrightarrow>
      s \<noteq> [] \<and> hd s \<noteq> CHR ''-'' \<and> last s \<noteq> CHR ''-'' \<and> \<not> js_includes s ''--'' \<and> list_all hostname_char s" for s
    using split_nonempty_iff [of "CHR ''-''" s] split_all_iff [of is_lower_alnum "CHR ''-''" s]
    by (auto simp: tenant_slug_pattern_iff)
  then show ?thesis
    by (auto simp: isValidTenantSlug_def Let_def valid_label_iff)
qed

lemma valid_label_no_dot: "valid_label w \<Longrightarrow> CHR ''.'' \<notin> set w"
  by (auto simp: valid_label_iff list_all_iff)

text \<open>A tenant's slug put before a valid host name gives a valid host name, as long as the whole
  name stays within the 253 characters DNS allows: the per-tenant host of a valid tenant on a valid base
  domain is always accepted by the domain form.\<close>

theorem tenant_host_valid:
  assumes "isValidTenantSlug slug" and "isValidHostname base"
    and "length (js_trim slug) + length (strip_final_dot (js_lower (js_trim base))) < 253"
  shows "isValidHostname (js_trim slug @ ''.'' @ strip_final_dot (js_lower (js_trim base)))"
proof -
  let ?w = "js_trim slug" and ?h = "strip_final_dot (js_lower (js_trim base))"
  have w: "valid_label ?w"
    using assms(1) by (simp add: tenant_slug_is_label)
  have "js_split (CHR ''.'') (?w @ ''.'' @ ?h) = ?w # js_split (CHR ''.'') ?h"
    using js_split_append_sep [of "CHR ''.''" ?w ?h] js_split_no_sep [OF valid_label_no_dot [OF w]] by simp
  moreover have "list_all valid_label (js_split (CHR ''.'') ?h)"
    using assms(2) by (simp add: labels_of_hostname Let_def)
  ultimately have "list_all valid_label (js_split (CHR ''.'') (?w @ ''.'' @ ?h))"
    using w by simp
  then show ?thesis
    using assms(3) by (simp add: labels_of_hostname canonical_hostname Let_def)
qed

lemma tenant_host_valid_witness: "isValidHostname ''acme-eu.example.com''"
proof -
  have "isValidTenantSlug '' acme-eu ''" by code_simp
  moreover have "isValidHostname ''Example.COM.''" by code_simp
  moreover have "js_trim '' acme-eu '' = ''acme-eu''" by code_simp
  moreover have "strip_final_dot (js_lower (js_trim ''Example.COM.'')) = ''example.com''" by code_simp
  ultimately show ?thesis
    using tenant_host_valid [of "'' acme-eu ''" "''Example.COM.''"] by simp
qed

lemma hostname_label_count:
  assumes "isValidHostname v"
  shows "length (js_split (CHR ''.'') (strip_final_dot (js_lower (js_trim v)))) \<le> 127"
proof -
  let ?h = "strip_final_dot (js_lower (js_trim v))"
  have h: "list_all valid_label (js_split (CHR ''.'') ?h)" "length ?h \<le> 253"
    using assms by (simp_all add: labels_of_hostname Let_def)
  have "length (js_split (CHR ''.'') ?h) \<le> length (concat (js_split (CHR ''.'') ?h))"
    using h(1) by (intro length_concat_ge) (auto simp: list_all_iff valid_label_iff)
  with h(2) split_length [of "CHR ''.''" ?h] show ?thesis by simp
qed

section \<open>Integers\<close>

lemma digit_not_space: "is_digit c \<Longrightarrow> \<not> js_space c"
  by (simp add: lower_alnum_not_space is_lower_alnum_def)

lemma show_int_trim [simp]: "js_trim (show_int n) = show_int n"
proof (rule js_trim_id)
  fix c assume "c \<in> set (show_int n)"
  then have "is_digit c \<or> c = CHR ''-''"
    using show_nat_digits by (auto simp: show_int_def split: if_splits)
  moreover have "\<not> js_space (CHR ''-'')" by code_simp
  ultimately show "\<not> js_space c" using digit_not_space by blast
qed

lemma hyphen_not_digit: "\<not> is_digit (CHR ''-'')"
  by code_simp

lemma show_int_pattern: "rx_test INTEGER_PATTERN (show_int n)"
  using show_nat_digits by (auto simp: integer_pattern_iff show_int_def list_all_iff)

lemma int_value_show_int [simp]: "int_value (show_int n) = n"
proof (cases "n < 0")
  case True
  then show ?thesis by (simp add: show_int_def int_value_def)
next
  case False
  obtain c ds where c: "show_nat (nat n) = c # ds"
    by (cases "show_nat (nat n)") auto
  then have "c \<noteq> CHR ''-''"
    using show_nat_no_char [OF hyphen_not_digit, of "nat n"] by auto
  then show ?thesis
    using False c digits_value_show_nat [of "nat n"] by (simp add: show_int_def int_value_def)
qed

text \<open>C37: the number fields accept the decimal text of an integer exactly when the integer lies within
  the field's bounds and within the integers a JavaScript number represents exactly; surrounding blanks
  do not matter.\<close>

theorem integer_range_show:
  "isIntegerInRange (show_int n) minimum maximum \<longleftrightarrow>
     \<bar>n\<bar> \<le> 2 ^ 53 - 1 \<and> minimum \<le> n \<and> n \<le> maximum"
  by (simp add: isIntegerInRange_def show_int_pattern MAX_SAFE_INTEGER_def Let_def)

section \<open>Resource values and webhook addresses\<close>

text \<open>The resource form's value check is a strict parser of the declared type: text is always accepted,
  an integer value is the decimal text of digits after at most one minus sign with no blanks around, and a boolean is one of
  the two literals; the empty value (not set) is accepted for every type.\<close>

lemma typed_value_spec:
  "isValidTypedResourceValue dataType v \<longleftrightarrow>
     v = [] \<or> dataType \<notin> {''int'', ''bool''} \<or>
     dataType = ''bool'' \<and> v \<in> {''true'', ''false''} \<or>
     dataType = ''int'' \<and> (\<exists>ds. (v = ds \<or> v = CHR ''-'' # ds) \<and> ds \<noteq> [] \<and> list_all is_digit ds)"
  by (auto simp: isValidTypedResourceValue_def integer_pattern_iff)

text \<open>A webhook address the form accepts goes over TLS, or in the clear to the local machine only, and
  never carries credentials or a fragment. For a URL parser that keeps the brackets of an IPv6 host,
  as the URL standard prescribes, the clear-text exception covers the two IPv4 spellings only: the
  entry \<open>::1\<close> of the code's list accepts nothing.\<close>

theorem webhook_url_safe:
  assumes brackets: "\<And>s u. parse_url s = Some u \<Longrightarrow> CHR '':'' \<in> set (hostname u) \<Longrightarrow> js_starts_with (hostname u) ''[''"
  shows "isValidWebhookURL parse_url v \<longleftrightarrow>
    (\<exists>u. parse_url (js_trim v) = Some u \<and> hostname u \<noteq> [] \<and> username u = [] \<and> password u = [] \<and> hash u = [] \<and>
      (protocol u = ''https:'' \<or> protocol u = ''http:'' \<and> hostname u \<in> {''localhost'', ''127.0.0.1''}))"
proof (cases "parse_url (js_trim v)")
  case (Some u)
  have "hostname u \<noteq> ''::1''"
    using brackets [OF Some] by (auto simp: js_starts_with_def)
  with Some show ?thesis by (auto simp: isValidWebhookURL_def)
qed (simp add: isValidWebhookURL_def)

definition parse_sample_url :: "string \<Rightarrow> url option" where
  "parse_sample_url s =
     (if s = ''http://localhost/hook'' then Some \<lparr>protocol = ''http:'', username = [], password = [], hostname = ''localhost'', hash = []\<rparr>
      else if s = ''http://[::1]/hook'' then Some \<lparr>protocol = ''http:'', username = [], password = [], hostname = ''[::1]'', hash = []\<rparr>
      else None)"

lemma webhook_url_safe_witness:
  "isValidWebhookURL parse_sample_url '' http://localhost/hook'' \<and> \<not> isValidWebhookURL parse_sample_url ''http://[::1]/hook''"
proof -
  have b: "js_starts_with (hostname u) ''[''" if "parse_sample_url s = Some u" "CHR '':'' \<in> set (hostname u)" for s u
    using that by (auto simp: parse_sample_url_def js_starts_with_def split: if_splits)
  have "js_trim '' http://localhost/hook'' = ''http://localhost/hook''" and "js_trim ''http://[::1]/hook'' = ''http://[::1]/hook''"
    by code_simp+
  then show ?thesis
    using webhook_url_safe [of parse_sample_url "'' http://localhost/hook''", OF b]
      webhook_url_safe [of parse_sample_url "''http://[::1]/hook''", OF b]
    by (simp add: parse_sample_url_def)
qed

end
