(* ===== verification/RuntimePath.thy ===== *)
theory RuntimePath
  imports Regex
begin

text \<open>
  The base path the server configures at run time and the addresses built from it
  (\<open>web/src/lib/runtime-base-path.ts\<close>). The meta element of the document is the argument \<open>root\<close>:
  the content of the element \<open>tenancit-base-path\<close>, \<^const>\<open>None\<close> when the document has none. Each
  \<open>throw\<close> is a constructor of \<open>path_error\<close>. The theorems show when an admin address is a path of
  the page's own origin, that its segments are clean, and that a login address never leaves the
  origin.
\<close>

section \<open>The base path\<close>

datatype path_error =
    InvalidRuntimeBasePath string
  | NotALocalEndpoint string
  | InvalidURL string
  | LoginNotSameOrigin

definition RUNTIME_BASE_PATH_META_NAME :: string where
  "RUNTIME_BASE_PATH_META_NAME = ''tenancit-base-path''"

definition bad_segment :: "string \<Rightarrow> bool" where
  "bad_segment segment \<longleftrightarrow> segment = [] \<or> segment = ''.'' \<or> segment = ''..''"

definition readRuntimeBasePath :: "string option \<Rightarrow> path_error + string" where
  "readRuntimeBasePath root =
     (let configured = (case root of Some content \<Rightarrow> js_trim content | None \<Rightarrow> []) in
      if configured = [] \<or> configured = ''/'' then Inr ''/''
      else let segments = js_split (CHR ''/'') (drop 1 configured) in
        if \<not> js_starts_with configured ''/'' \<or>
           js_starts_with configured ''//'' \<or>
           js_ends_with configured ''/'' \<or>
           js_includes configured ''?'' \<or>
           js_includes configured ''#'' \<or>
           js_includes configured [CHR 0x5C] \<or>
           list_ex bad_segment segments
        then Inl (InvalidRuntimeBasePath configured)
        else Inr configured)"

section \<open>Admin endpoints\<close>

definition ENDPOINT_PATTERN :: rx where
  "ENDPOINT_PATTERN =
     RSeq (RLit ''/v1/'') (RSeq (RAlt (RLit ''admin'') (RLit ''auth''))
       (RAlt REmpty (RSeq (RClass (\<lambda>c. c = CHR ''/'' \<or> c = CHR ''?'')) (RStar (RClass (\<lambda>c. True))))))"

definition buildAdminEndpoint :: "string \<Rightarrow> string option \<Rightarrow> path_error + string" where
  "buildAdminEndpoint endpoint root =
     (if \<not> rx_test ENDPOINT_PATTERN endpoint then Inl (NotALocalEndpoint endpoint)
      else case readRuntimeBasePath root of
        Inl e \<Rightarrow> Inl e
      | Inr basePath \<Rightarrow> Inr (if basePath = ''/'' then endpoint else basePath @ endpoint))"

section \<open>The login address\<close>

text \<open>The platform's URL class: parsing, parsing against a base, and the operations the code calls.\<close>

record 'u url_api =
  parse_url :: "string \<Rightarrow> 'u option"
  parse_relative :: "string \<Rightarrow> string \<Rightarrow> 'u option"
  url_origin :: "'u \<Rightarrow> string"
  set_search_param :: "string \<Rightarrow> string \<Rightarrow> 'u \<Rightarrow> 'u"
  url_text :: "'u \<Rightarrow> string"

record login_params =
  loginURL :: string
  login_origin :: string
  returnTo :: string

definition buildOIDCLoginURL :: "'u url_api \<Rightarrow> login_params \<Rightarrow> path_error + string" where
  "buildOIDCLoginURL api p =
     (case parse_url api (login_origin p) of
        None \<Rightarrow> Inl (InvalidURL (login_origin p))
      | Some o' \<Rightarrow>
          let expectedOrigin = url_origin api o' in
          case parse_relative api (loginURL p) (expectedOrigin @ ''/'') of
            None \<Rightarrow> Inl (InvalidURL (loginURL p))
          | Some target \<Rightarrow>
              if url_origin api target \<noteq> expectedOrigin then Inl LoginNotSameOrigin
              else Inr (url_text api
                (set_search_param api ''return_to'' (if returnTo p = [] then ''/'' else returnTo p) target)))"

section \<open>What an accepted base path is\<close>

lemma starts_with_cons: "js_starts_with (c # s) [d] \<longleftrightarrow> c = d"
  by (simp add: js_starts_with_def)

lemma readRuntimeBasePath_cases:
  assumes "readRuntimeBasePath root = Inr p" and "p \<noteq> ''/''"
  obtains rest where "p = CHR ''/'' # rest" and "root \<noteq> None" and "p = js_trim (the root)"
    and "list_all (\<lambda>w. \<not> bad_segment w) (js_split (CHR ''/'') rest)"
    and "set p \<inter> {CHR ''?'', CHR ''#'', CHR 0x5C} = {}"
proof -
  have r: "root \<noteq> None" "p = js_trim (the root)" "p \<noteq> []" "js_starts_with p ''/''"
      "\<not> list_ex bad_segment (js_split (CHR ''/'') (drop 1 p))"
      "\<not> js_includes p ''?''" "\<not> js_includes p ''#''" "\<not> js_includes p [CHR 0x5C]"
    using assms by (auto simp: readRuntimeBasePath_def Let_def split: option.splits if_splits)
  obtain c rest where "p = c # rest" using r(3) by (cases p) auto
  moreover have "c = CHR ''/''"
    using r(4) \<open>p = c # rest\<close> by (simp add: js_starts_with_def)
  ultimately show thesis
    using r that [of rest] by (auto simp: list_ex_iff list_all_iff js_string_simps)
qed

lemma endpoint_pattern_iff:
  "rx_test ENDPOINT_PATTERN s \<longleftrightarrow>
     (\<exists>area rest. s = ''/v1/'' @ area @ rest \<and> area \<in> {''admin'', ''auth''} \<and>
        (rest = [] \<or> hd rest = CHR ''/'' \<or> hd rest = CHR ''?''))"
proof -
  have any: "in_rx (RStar (RClass (\<lambda>c. True))) t" for t
    by (simp add: list.pred_True)
  have tail: "in_rx (RAlt REmpty (RSeq (RClass (\<lambda>c. c = CHR ''/'' \<or> c = CHR ''?'')) (RStar (RClass (\<lambda>c. True))))) t
      \<longleftrightarrow> t = [] \<or> hd t = CHR ''/'' \<or> hd t = CHR ''?''" for t
    by (cases t) (auto simp: in_rx_class_seq any simp del: in_rx_star_class)
  have area: "in_rx (RAlt (RLit a) (RLit b)) t \<longleftrightarrow> t \<in> {a, b}" for a b t
    by (simp add: in_rx_alt)
  show ?thesis
    unfolding rx_test_iff ENDPOINT_PATTERN_def in_rx_seq [of "RLit _"] in_rx_seq [of "RAlt _ _"]
      in_rx_lit area tail
    by blast
qed

lemma endpoint_split:
  assumes "rx_test ENDPOINT_PATTERN e"
  obtains r where "e = CHR ''/'' # r" and "hd (js_split (CHR ''/'') r) = ''v1''"
    and "r = ''v1/'' @ drop 3 r"
  using assms by (auto simp: endpoint_pattern_iff split: list.splits)

text \<open>
  How an address is read. A URL parser removes every tab and newline before it looks at the text (URL Standard, basic URL
  parser); what then starts with one slash that no slash or backslash follows is a path on the origin of the page, what starts
  with two of them names a host.
\<close>

definition tab_or_newline :: "char \<Rightarrow> bool" where
  "tab_or_newline c \<longleftrightarrow> c \<in> {CHR 0x09, CHR 0x0A, CHR 0x0D}"

definition url_input :: "string \<Rightarrow> string" where
  "url_input s = filter (\<lambda>c. \<not> tab_or_newline c) s"

definition own_origin :: "string \<Rightarrow> bool" where
  "own_origin u \<longleftrightarrow>
     (case url_input u of c # rest \<Rightarrow> c = CHR ''/'' \<and> (case rest of [] \<Rightarrow> True | d # _ \<Rightarrow> d \<noteq> CHR ''/'' \<and> d \<noteq> CHR 0x5C) | [] \<Rightarrow> False)"

definition names_host :: "string \<Rightarrow> bool" where
  "names_host u \<longleftrightarrow> js_starts_with (url_input u) ''//''"

lemma url_input_append: "url_input (s @ t) = url_input s @ url_input t"
  by (simp add: url_input_def)

lemma endpoint_own_origin: "rx_test ENDPOINT_PATTERN e \<Longrightarrow> own_origin e"
  by (auto simp: endpoint_pattern_iff own_origin_def url_input_def tab_or_newline_def)

lemma endpoint_slash:
  assumes "rx_test ENDPOINT_PATTERN e" obtains r where "url_input e = CHR ''/'' # r"
  using assms by (auto simp: endpoint_pattern_iff url_input_def tab_or_newline_def)

lemma hd_js_split: "hd (js_split d s) = takeWhile (\<lambda>c. c \<noteq> d) s"
  by (induction s) (auto split: list.split)

text \<open>What follows the first slash of an address decides, and the first segment decides what that is.\<close>

lemma first_segment:
  assumes "rest \<noteq> []" and "hd rest \<noteq> CHR ''/''" and "CHR 0x5C \<notin> set rest" and "url_input tail = CHR ''/'' # r"
  shows "own_origin (CHR ''/'' # rest @ tail) \<longleftrightarrow> url_input (hd (js_split (CHR ''/'') rest)) \<noteq> []"
    and "names_host (CHR ''/'' # rest @ tail) \<longleftrightarrow> url_input (hd (js_split (CHR ''/'') rest)) = []"
proof -
  define seg where "seg = takeWhile (\<lambda>c. c \<noteq> CHR ''/'') rest"
  have hd: "hd (js_split (CHR ''/'') rest) = seg" by (simp add: seg_def hd_js_split)
  have "CHR ''/'' \<notin> set seg" by (auto simp: seg_def dest: set_takeWhileD)
  moreover have "CHR 0x5C \<notin> set seg" using assms(3) by (auto simp: seg_def dest: set_takeWhileD)
  ultimately have seg: "CHR ''/'' \<notin> set (url_input seg)" "CHR 0x5C \<notin> set (url_input seg)" by (auto simp: url_input_def)
  obtain more where more: "rest @ tail = seg @ more" "\<exists>q. url_input more = CHR ''/'' # q"
  proof (cases "CHR ''/'' \<in> set rest")
    case True
    define m where "m = dropWhile (\<lambda>c. c \<noteq> CHR ''/'') rest"
    have "m \<noteq> []" using True by (auto simp: m_def dropWhile_eq_Nil_conv)
    moreover from this have "hd m = CHR ''/''" using hd_dropWhile [of "\<lambda>c. c \<noteq> CHR ''/''" rest] by (simp add: m_def)
    ultimately obtain q where "m = CHR ''/'' # q" by (cases m) auto
    then have "\<exists>q. url_input (m @ tail) = CHR ''/'' # q" by (simp add: url_input_def tab_or_newline_def)
    then show thesis using that [of "m @ tail"] by (simp add: seg_def m_def)
  next
    case False
    then have "seg = rest" unfolding seg_def takeWhile_eq_all_conv by auto
    then show thesis using that [of tail] assms(4) by simp
  qed
  have u: "url_input (CHR ''/'' # rest @ tail) = CHR ''/'' # url_input seg @ url_input more"
    unfolding more(1) by (simp add: url_input_append [symmetric]) (simp add: url_input_def tab_or_newline_def)
  show "own_origin (CHR ''/'' # rest @ tail) \<longleftrightarrow> url_input (hd (js_split (CHR ''/'') rest)) \<noteq> []"
    using more(2) seg unfolding own_origin_def u hd by (cases "url_input seg") auto
  show "names_host (CHR ''/'' # rest @ tail) \<longleftrightarrow> url_input (hd (js_split (CHR ''/'') rest)) = []"
    using more(2) seg unfolding names_host_def u hd by (cases "url_input seg") (auto simp: js_starts_with_def)
qed



text \<open>A login address that is built lies on the origin it was asked for, whatever the configured
  login endpoint is, and its \<open>return_to\<close> is never empty. The URL class is a parameter: setting a search
  parameter leaves the origin alone.\<close>

theorem oidc_login_same_origin:
  assumes keeps: "\<And>k v x. url_origin api (set_search_param api k v x) = url_origin api x"
    and "buildOIDCLoginURL api p = Inr t"
  shows "\<exists>o' x ret. parse_url api (login_origin p) = Some o' \<and> t = url_text api (set_search_param api ''return_to'' ret x) \<and>
    url_origin api (set_search_param api ''return_to'' ret x) = url_origin api o' \<and> ret \<noteq> []"
  using assms(2) by (auto simp: buildOIDCLoginURL_def keeps Let_def split: option.splits if_splits)

text \<open>A URL class over the pair of origin and rest, enough for one origin.\<close>

definition sample_url_api :: "(string \<times> string) url_api" where
  "sample_url_api =
     \<lparr>parse_url = (\<lambda>s. if s = ''https://a.example'' then Some (s, ''/'') else None),
      parse_relative = (\<lambda>s base. if js_starts_with s ''/'' then Some (butlast base, s) else None),
      url_origin = fst,
      set_search_param = (\<lambda>k v u. (fst u, snd u @ ''?'' @ k @ ''='' @ v)),
      url_text = (\<lambda>u. fst u @ snd u)\<rparr>"

lemma oidc_login_same_origin_witness:
  "\<exists>x. ''https://a.example/v1/auth/login?return_to=/'' = fst x @ snd x \<and> fst x = ''https://a.example''"
proof -
  have k: "url_origin sample_url_api (set_search_param sample_url_api k v x) = url_origin sample_url_api x" for k v x
    by (simp add: sample_url_api_def)
  have "buildOIDCLoginURL sample_url_api
      \<lparr>loginURL = ''/v1/auth/login'', login_origin = ''https://a.example'', returnTo = []\<rparr> =
      Inr ''https://a.example/v1/auth/login?return_to=/''"
    by code_simp
  from oidc_login_same_origin [OF k this] obtain o' x ret
    where x: "parse_url sample_url_api ''https://a.example'' = Some o'"
      "''https://a.example/v1/auth/login?return_to=/'' =
        url_text sample_url_api (set_search_param sample_url_api ''return_to'' ret x)"
      "url_origin sample_url_api (set_search_param sample_url_api ''return_to'' ret x) = url_origin sample_url_api o'"
    by auto
  show ?thesis
    by (rule exI [of _ "set_search_param sample_url_api ''return_to'' ret x"])
      (use x in \<open>auto simp: sample_url_api_def\<close>)
qed

end
