(* ===== verification/Json.thy ===== *)
theory Json
  imports Prelude
begin

text \<open>
  JSON values and \<open>JSON.stringify\<close>, with the two percent encodings of the platform the client
  uses (\<open>encodeURIComponent\<close> and \<open>URLSearchParams\<close>). An object is the list of its members in
  insertion order; a member whose value is \<open>undefined\<close> is left out by \<open>stringify\<close> and therefore
  never part of the list (\<open>opt_member\<close>). Numbers are the integers the client sends. The main fact is that the text determines the value.
\<close>

section \<open>Values and their text\<close>

datatype json =
    JNull
  | JBool bool
  | JNum int
  | JStr string
  | JArr "json list"
  | JObj "(string \<times> json) list"

definition opt_member :: "string \<Rightarrow> json option \<Rightarrow> (string \<times> json) list" where
  "opt_member k v = (case v of None \<Rightarrow> [] | Some j \<Rightarrow> [(k, j)])"

definition json_get :: "string \<Rightarrow> json \<Rightarrow> json option" where
  "json_get k j = (case j of JObj ms \<Rightarrow> map_of ms k | _ \<Rightarrow> None)"

definition lower_hex :: "nat \<Rightarrow> char" where
  "lower_hex n = char_of (if n < 10 then 48 + n else 87 + n)"

definition escape_char :: "char \<Rightarrow> string" where
  "escape_char c =
     (if c = CHR 0x22 then [CHR 0x5C, CHR 0x22]
      else if c = CHR 0x5C then [CHR 0x5C, CHR 0x5C]
      else if code c = 8 then [CHR 0x5C, CHR ''b'']
      else if code c = 9 then [CHR 0x5C, CHR ''t'']
      else if code c = 10 then [CHR 0x5C, CHR ''n'']
      else if code c = 12 then [CHR 0x5C, CHR ''f'']
      else if code c = 13 then [CHR 0x5C, CHR ''r'']
      else if code c < 32 then [CHR 0x5C] @ ''u00'' @ [lower_hex (code c div 16), lower_hex (code c mod 16)]
      else [c])"

definition quote :: "string \<Rightarrow> string" where
  "quote s = CHR 0x22 # concat (map escape_char s) @ [CHR 0x22]"

fun stringify :: "json \<Rightarrow> string"
  and stringify_elements :: "json list \<Rightarrow> string"
  and stringify_members :: "(string \<times> json) list \<Rightarrow> string" where
  "stringify JNull = ''null''"
| "stringify (JBool b) = (if b then ''true'' else ''false'')"
| "stringify (JNum i) = show_int i"
| "stringify (JStr s) = quote s"
| "stringify (JArr xs) = ''['' @ stringify_elements xs @ '']''"
| "stringify (JObj ms) = ''{'' @ stringify_members ms @ ''}''"
| "stringify_elements [] = []"
| "stringify_elements [x] = stringify x"
| "stringify_elements (x # xs) = stringify x @ '','' @ stringify_elements xs"
| "stringify_members [] = []"
| "stringify_members [(k, v)] = quote k @ '':'' @ stringify v"
| "stringify_members ((k, v) # ms) = quote k @ '':'' @ stringify v @ '','' @ stringify_members ms"

section \<open>The text determines the value\<close>

definition token_end :: "string \<Rightarrow> bool" where
  "token_end s \<longleftrightarrow> s = [] \<or> hd s \<in> {CHR '','', CHR '']'', CHR ''}''}"

lemma token_end_intros [simp]:
  "token_end []" "token_end (CHR '','' # s)" "token_end (CHR '']'' # s)" "token_end (CHR ''}'' # s)"
  by (simp_all add: token_end_def)

lemma code_quote [simp]: "code (CHR 0x22) = 34"
  by code_simp

lemma code_backslash [simp]: "code (CHR 0x5C) = 92"
  by code_simp

lemma escape_char_ctrl: "code c < 32 \<Longrightarrow> \<exists>d r. escape_char c = CHR 0x5C # d # r \<and> d \<noteq> CHR 0x22 \<and> d \<noteq> CHR 0x5C"
  by (auto simp: escape_char_def)

lemma lower_hex_inject: "m < 16 \<Longrightarrow> n < 16 \<Longrightarrow> lower_hex m = lower_hex n \<longleftrightarrow> m = n"
proof
  assume "m < 16" "n < 16" "lower_hex m = lower_hex n"
  then have "code (lower_hex m) = code (lower_hex n)" "m < 16" "n < 16" by simp_all
  then show "m = n" by (simp add: lower_hex_def split: if_splits)
qed simp

lemma escape_char_cases:
  "escape_char c = [c] \<and> c \<noteq> CHR 0x22 \<and> c \<noteq> CHR 0x5C \<and> 32 \<le> code c \<or>
   c = CHR 0x22 \<and> escape_char c = [CHR 0x5C, CHR 0x22] \<or>
   c = CHR 0x5C \<and> escape_char c = [CHR 0x5C, CHR 0x5C] \<or>
   code c < 32 \<and> (\<exists>d r. escape_char c = CHR 0x5C # d # r \<and> d \<noteq> CHR 0x22 \<and> d \<noteq> CHR 0x5C)"
  using escape_char_ctrl [of c] by (cases "code c < 32") (auto simp: escape_char_def)

lemma prefix_common: "a @ s = b @ t \<Longrightarrow> prefix a b \<or> prefix b a"
  by (metis append_eq_append_conv2 prefix_def)

lemma escape_char_prefix_ctrl:
  assumes "prefix (escape_char c) (escape_char d)" and "code c < 32" and "code d < 32"
  shows "code c = code d"
proof -
  have q: "c \<noteq> CHR 0x22" "d \<noteq> CHR 0x22" "c \<noteq> CHR 0x5C" "d \<noteq> CHR 0x5C"
    using assms(2,3) by auto
  have hex: "code c div 16 = code d div 16 \<and> code c mod 16 = code d mod 16 \<Longrightarrow> code c = code d"
    by (metis div_mult_mod_eq)
  have "code c div 16 < 16" "code d div 16 < 16" using assms(2,3) by simp_all
  then show ?thesis
    using assms q hex by (auto simp: escape_char_def lower_hex_inject split: if_splits)
qed

lemma escape_char_prefix:
  assumes "prefix (escape_char c) (escape_char d)"
  shows "c = d"
proof (cases "code c < 32 \<and> code d < 32")
  case True
  then show ?thesis
    using escape_char_prefix_ctrl [OF assms] by (simp add: code_inject)
next
  case False
  then show ?thesis
    using assms escape_char_cases [of c] escape_char_cases [of d] by auto
qed

lemma escape_char_same: "escape_char c @ s = escape_char d @ t \<Longrightarrow> c = d \<and> s = t"
  using escape_char_prefix prefix_common by (metis same_append_eq)

lemma escape_char_not_quote: "escape_char c @ s \<noteq> CHR 0x22 # t"
  using escape_char_cases [of c] by auto

lemma escaped_inject:
  "concat (map escape_char u) @ CHR 0x22 # s = concat (map escape_char v) @ CHR 0x22 # t \<Longrightarrow> u = v \<and> s = t"
proof (induction u arbitrary: v)
  case Nil
  then show ?case
  proof (cases v)
    case (Cons d v')
    have "escape_char d @ (concat (map escape_char v') @ CHR 0x22 # t) = CHR 0x22 # s"
      using Nil.prems [symmetric] Cons by simp
    then show ?thesis using escape_char_not_quote by blast
  qed simp
next
  case (Cons c u)
  show ?case
  proof (cases v)
    case Nil
    with Cons.prems have "escape_char c @ (concat (map escape_char u) @ CHR 0x22 # s) = CHR 0x22 # t"
      by simp
    then show ?thesis using escape_char_not_quote by blast
  next
    case v: (Cons d v')
    with Cons.prems have "escape_char c @ (concat (map escape_char u) @ CHR 0x22 # s) =
        escape_char d @ (concat (map escape_char v') @ CHR 0x22 # t)"
      by simp
    from escape_char_same [OF this] Cons.IH v show ?thesis by blast
  qed
qed

lemma quote_inject: "quote u @ s = quote v @ t \<Longrightarrow> u = v \<and> s = t"
  by (rule escaped_inject) (simp add: quote_def)

lemma quote_hd: "quote u = CHR 0x22 # tl (quote u)"
  by (simp add: quote_def)

lemma takeWhile_digits:
  assumes "token_end s"
  shows "takeWhile is_digit (show_nat n @ s) = show_nat n"
proof -
  have "list_all is_digit (show_nat n)" by (auto simp: list_all_iff dest: show_nat_digits)
  moreover have "takeWhile is_digit s = []"
  proof (cases s)
    case (Cons c r)
    moreover have "\<not> is_digit (CHR '','')" "\<not> is_digit (CHR '']'')" "\<not> is_digit (CHR ''}'')" by code_simp+
    ultimately show ?thesis using assms by (auto simp: token_end_def)
  qed simp
  ultimately show ?thesis by (auto simp: list_all_iff)
qed

lemma show_nat_token_inject:
  assumes "show_nat m @ s = show_nat n @ t" and "token_end s" and "token_end t"
  shows "m = n \<and> s = t"
proof -
  have "show_nat m = show_nat n"
    using takeWhile_digits [OF assms(2), of m] takeWhile_digits [OF assms(3), of n] assms(1) by simp
  then show ?thesis using assms(1) by simp
qed

lemma show_nat_hd: "\<exists>c r. show_nat n = c # r \<and> is_digit c"
  using show_nat_digits [of "hd (show_nat n)" n] by (cases "show_nat n") auto

lemma show_int_hd: "\<exists>c r. show_int i = c # r \<and> (is_digit c \<or> c = CHR ''-'')"
  using show_nat_hd [of "nat i"] by (auto simp: show_int_def)

lemma show_int_token_inject:
  assumes "show_int i @ s = show_int j @ t" and "token_end s" and "token_end t"
  shows "i = j \<and> s = t"
proof -
  have h: "\<not> is_digit (CHR ''-'')" by code_simp
  show ?thesis
  proof (cases "(i < 0) = (j < 0)")
    case True
    then have "nat \<bar>i\<bar> = nat \<bar>j\<bar> \<and> s = t"
      using assms by (auto simp: show_int_def split: if_splits dest!: show_nat_token_inject)
    with True show ?thesis by linarith
  next
    case False
    then show ?thesis
      using assms(1) h show_nat_hd [of "nat i"] show_nat_hd [of "nat j"]
      by (auto simp: show_int_def split: if_splits)
  qed
qed

lemma digit_not_syntax:
  "is_digit c \<Longrightarrow> c \<notin> {CHR 0x22, CHR ''['', CHR ''{'', CHR ''n'', CHR ''t'', CHR ''f'', CHR '']'', CHR ''}'', CHR ''-''}"
proof -
  have "\<not> is_digit d" if "d \<in> set [CHR 0x22, CHR ''['', CHR ''{'', CHR ''n'', CHR ''t'', CHR ''f'', CHR '']'', CHR ''}'', CHR ''-'']" for d
    using that by (simp, elim disjE; hypsubst; code_simp)
  then show "is_digit c \<Longrightarrow> ?thesis" by auto
qed

lemma stringify_hd: "\<exists>c r. stringify j = c # r \<and> c \<notin> {CHR '','', CHR '']'', CHR ''}''}"
proof (cases j)
  case (JNum i)
  have "\<not> is_digit (CHR '','')" by code_simp
  with JNum show ?thesis
    using show_int_hd [of i] digit_not_syntax by auto
qed (auto simp: quote_def)

lemma stringify_elements_Cons:
  "stringify_elements (x # xs) = stringify x @ (if xs = [] then [] else '','' @ stringify_elements xs)"
  by (cases xs) auto

lemma stringify_members_Cons:
  "stringify_members ((k, v) # ms) = quote k @ '':'' @ stringify v @ (if ms = [] then [] else '','' @ stringify_members ms)"
  by (cases ms) auto

lemma stringify_kinds:
  assumes "stringify i @ s = stringify j @ t"
  shows "case i of
      JNull \<Rightarrow> j = JNull
    | JBool b \<Rightarrow> j = JBool b
    | JNum m \<Rightarrow> (\<exists>n. j = JNum n)
    | JStr u \<Rightarrow> (\<exists>v. j = JStr v)
    | JArr xs \<Rightarrow> (\<exists>ys. j = JArr ys)
    | JObj ms \<Rightarrow> (\<exists>ns. j = JObj ns)"
proof -
  have num: "is_digit c \<or> c = CHR ''-''" if "show_int n @ u = c # v \<or> c # v = show_int n @ u" for n c u v
    using show_int_hd [of n] that by auto
  show ?thesis
    using assms by (cases i; cases j) (auto simp: quote_def split: if_splits dest!: num [OF disjI1] num [OF disjI2] dest: digit_not_syntax)
qed

lemma stringify_not_close: "stringify j @ s \<noteq> CHR '']'' # t"
  using stringify_hd [of j] by auto

lemma elements_eqE:
  assumes "stringify_elements (x # xs) @ CHR '']'' # s = stringify_elements ys @ CHR '']'' # t"
  obtains y ys' where "ys = y # ys'"
    and "stringify x @ (if xs = [] then CHR '']'' # s else '','' @ stringify_elements xs @ CHR '']'' # s) =
      stringify y @ (if ys' = [] then CHR '']'' # t else '','' @ stringify_elements ys' @ CHR '']'' # t)"
proof (cases ys)
  case Nil
  then have "stringify x @ (if xs = [] then CHR '']'' # s else '','' @ stringify_elements xs @ CHR '']'' # s) = CHR '']'' # t"
    using assms by (simp add: stringify_elements_Cons split: if_splits)
  then show thesis using stringify_not_close by blast
next
  case (Cons y ys')
  with assms that [of y ys'] show thesis by (simp add: stringify_elements_Cons split: if_splits)
qed

lemma members_eqE:
  assumes "stringify_members ((k, v) # ms) @ CHR ''}'' # s = stringify_members ns @ CHR ''}'' # t"
  obtains w ns' where "ns = (k, w) # ns'"
    and "stringify v @ (if ms = [] then CHR ''}'' # s else '','' @ stringify_members ms @ CHR ''}'' # s) =
      stringify w @ (if ns' = [] then CHR ''}'' # t else '','' @ stringify_members ns' @ CHR ''}'' # t)"
proof (cases ns)
  case Nil
  with assms show thesis by (simp add: stringify_members_Cons quote_def)
next
  case (Cons n ns')
  obtain l w where n: "n = (l, w)" by (cases n)
  have "quote k @ '':'' @ stringify v @ (if ms = [] then CHR ''}'' # s else '','' @ stringify_members ms @ CHR ''}'' # s) =
      quote l @ '':'' @ stringify w @ (if ns' = [] then CHR ''}'' # t else '','' @ stringify_members ns' @ CHR ''}'' # t)"
    using assms Cons n by (simp add: stringify_members_Cons split: if_splits)
  from quote_inject [OF this] that [of w ns'] Cons n show thesis by simp
qed

lemma stringify_inject:
  "stringify i @ s = stringify j @ t \<Longrightarrow> token_end s \<Longrightarrow> token_end t \<Longrightarrow> i = j \<and> s = t"
  "stringify_elements xs @ CHR '']'' # s = stringify_elements ys @ CHR '']'' # t \<Longrightarrow> xs = ys \<and> s = t"
  "stringify_members ms @ CHR ''}'' # s = stringify_members ns @ CHR ''}'' # t \<Longrightarrow> ms = ns \<and> s = t"
proof (induction i and xs and ms arbitrary: j s t and ys s t and ns s t
    rule: stringify_stringify_elements_stringify_members.induct)
  case (1 j s t)
  then show ?case using stringify_kinds [OF 1(1)] by auto
next
  case (2 b j s t)
  then show ?case using stringify_kinds [OF 2(1)] by auto
next
  case (3 m j s t)
  then show ?case using stringify_kinds [OF 3(1)] by (auto dest: show_int_token_inject)
next
  case (4 u j s t)
  then show ?case using stringify_kinds [OF 4(1)] by (auto dest: quote_inject)
next
  case (5 xs j s t)
  obtain ys where "j = JArr ys" using stringify_kinds [OF 5(2)] by auto
  with 5 show ?case by auto
next
  case (6 ms j s t)
  obtain ns where "j = JObj ns" using stringify_kinds [OF 6(2)] by auto
  with 6 show ?case by auto
next
  case (7 ys s t)
  then show ?case
  proof (cases ys)
    case (Cons y ys')
    have "stringify_elements (y # ys') @ CHR '']'' # t = stringify_elements [] @ CHR '']'' # s"
      using 7 Cons by simp
    then show ?thesis by (rule elements_eqE) simp
  qed simp
next
  case (8 x ys s t)
  from 8(2) obtain y ys' where y: "ys = y # ys'"
    and e: "stringify x @ CHR '']'' # s =
      stringify y @ (if ys' = [] then CHR '']'' # t else '','' @ stringify_elements ys' @ CHR '']'' # t)"
    by (rule elements_eqE) simp
  from 8(1) [OF e] y show ?case by (cases "ys' = []") auto
next
  case (9 x v va ys s t)
  from 9(3) obtain y ys' where y: "ys = y # ys'"
    and e: "stringify x @ ('','' @ stringify_elements (v # va) @ CHR '']'' # s) =
      stringify y @ (if ys' = [] then CHR '']'' # t else '','' @ stringify_elements ys' @ CHR '']'' # t)"
    by (rule elements_eqE) simp
  from 9(1) [OF e] have "x = y \<and> stringify_elements (v # va) @ CHR '']'' # s = stringify_elements ys' @ CHR '']'' # t"
    by (cases "ys' = []") auto
  with 9(2) y show ?case by blast
next
  case (10 ns s t)
  then show ?case
  proof (cases ns)
    case (Cons n ns')
    obtain l w where n: "n = (l, w)" by (cases n)
    have "stringify_members ((l, w) # ns') @ CHR ''}'' # t = stringify_members [] @ CHR ''}'' # s"
      using 10 Cons n by simp
    then show ?thesis by (rule members_eqE) simp
  qed simp
next
  case (11 k v ns s t)
  from 11(2) obtain w ns' where w: "ns = (k, w) # ns'"
    and e: "stringify v @ CHR ''}'' # s =
      stringify w @ (if ns' = [] then CHR ''}'' # t else '','' @ stringify_members ns' @ CHR ''}'' # t)"
    by (rule members_eqE) simp
  from 11(1) [OF e] w show ?case by (cases "ns' = []") auto
next
  case (12 k v m ms ns s t)
  from 12(3) obtain w ns' where w: "ns = (k, w) # ns'"
    and e: "stringify v @ ('','' @ stringify_members (m # ms) @ CHR ''}'' # s) =
      stringify w @ (if ns' = [] then CHR ''}'' # t else '','' @ stringify_members ns' @ CHR ''}'' # t)"
    by (rule members_eqE) simp
  from 12(1) [OF e] have "v = w \<and> stringify_members (m # ms) @ CHR ''}'' # s = stringify_members ns' @ CHR ''}'' # t"
    by (cases "ns' = []") auto
  with 12(2) w show ?case by blast
qed

lemma stringify_eq_iff [simp]: "stringify i = stringify j \<longleftrightarrow> i = j"
  using stringify_inject(1) [of i "[]" j "[]"] by auto

section \<open>Percent encoding\<close>

text \<open>The code point of a character; the row 0x80 to 0x9F of Windows-1252 holds characters from other
  blocks.\<close>

definition windows_1252_high :: "nat list" where
  "windows_1252_high =
     [8364, 129, 8218, 402, 8222, 8230, 8224, 8225, 710, 8240, 352, 8249, 338, 141, 381, 143,
      144, 8216, 8217, 8220, 8221, 8226, 8211, 8212, 732, 8482, 353, 8250, 339, 157, 382, 376]"

definition code_point :: "char \<Rightarrow> nat" where
  "code_point c =
     (let n = code c in if 128 \<le> n \<and> n < 160 then windows_1252_high ! (n - 128) else n)"

definition utf8 :: "char \<Rightarrow> nat list" where
  "utf8 c =
     (let n = code_point c in
      if n < 128 then [n]
      else if n < 2048 then [192 + n div 64, 128 + n mod 64]
      else [224 + n div 4096, 128 + n div 64 mod 64, 128 + n mod 64])"

definition upper_hex :: "nat \<Rightarrow> char" where
  "upper_hex n = char_of (if n < 10 then 48 + n else 55 + n)"

definition percent :: "char \<Rightarrow> string" where
  "percent c = concat (map (\<lambda>b. [CHR ''%'', upper_hex (b div 16), upper_hex (b mod 16)]) (utf8 c))"

definition is_alnum :: "char \<Rightarrow> bool" where
  "is_alnum c \<longleftrightarrow> is_lower_alnum c \<or> 65 \<le> code c \<and> code c \<le> 90"

definition encodeURIComponent :: "string \<Rightarrow> string" where
  "encodeURIComponent s =
     concat (map (\<lambda>c. if is_alnum c \<or> c \<in> set ''-_.!~*()'' \<or> c = CHR 0x27 then [c] else percent c) s)"

definition form_encode :: "string \<Rightarrow> string" where
  "form_encode s =
     concat (map (\<lambda>c. if is_alnum c \<or> c \<in> set ''*-._'' then [c] else if c = CHR '' '' then ''+'' else percent c) s)"

text \<open>The text of a \<open>URLSearchParams\<close>.\<close>

definition search_params :: "(string \<times> string) list \<Rightarrow> string" where
  "search_params ps = js_join ''&'' (map (\<lambda>(k, v). form_encode k @ ''='' @ form_encode v) ps)"

lemma windows_1252_high_less: "n < 32 \<Longrightarrow> windows_1252_high ! n < 9000"
proof -
  have "list_all (\<lambda>n. n < 9000) windows_1252_high" "length windows_1252_high = 32"
    by (simp_all add: windows_1252_high_def)
  then show "n < 32 \<Longrightarrow> windows_1252_high ! n < 9000"
    by (simp add: list_all_length)
qed

lemma utf8_bytes: "b \<in> set (utf8 c) \<Longrightarrow> b < 256"
proof -
  have "code_point c < 9000"
    using code_less [of c] windows_1252_high_less [of "code c - 128"]
    by (auto simp: code_point_def Let_def)
  then show "b \<in> set (utf8 c) \<Longrightarrow> b < 256"
    by (auto simp: utf8_def Let_def split: if_splits)
qed

lemma upper_hex_alnum: "n < 16 \<Longrightarrow> is_alnum (upper_hex n)"
  by (auto simp: is_alnum_def is_lower_alnum_def is_digit_def is_lower_az_def upper_hex_def)

lemma percent_chars: "d \<in> set (percent c) \<Longrightarrow> is_alnum d \<or> d = CHR ''%''"
  using utf8_bytes [of _ c] by (auto simp: percent_def dest!: utf8_bytes split: if_splits intro!: upper_hex_alnum)

lemma encodeURIComponent_chars:
  "d \<in> set (encodeURIComponent s) \<Longrightarrow> is_alnum d \<or> d \<in> set ''%-_.!~*()'' \<or> d = CHR 0x27"
  using percent_chars by (fastforce simp: encodeURIComponent_def split: if_splits)

lemma encodeURIComponent_clean:
  assumes "d \<in> {CHR ''/'', CHR ''?'', CHR ''#''}"
  shows "d \<notin> set (encodeURIComponent s)"
proof -
  have "\<not> is_alnum (CHR ''/'')" "\<not> is_alnum (CHR ''?'')" "\<not> is_alnum (CHR ''#'')" by code_simp+
  then show ?thesis using assms encodeURIComponent_chars [of d s] by auto
qed

end
