(* ===== verification/ApiTypes.thy ===== *)
theory ApiTypes
  imports Json
begin

text \<open>
  The interfaces of \<open>web/src/lib/api.ts\<close>: the values the admin API sends and receives. A record per
  interface, its fields prefixed with the interface's initials; an optional field is an option, a
  union of string literals is a datatype, every other string stays a string.
\<close>

section \<open>Authentication\<close>

datatype AdminAuthMessage = InvalidToken | RequiredAccess | SessionExpired

datatype AdminAuthMode = Oidc | LegacySharedToken

record AdminAuthConfig =
  ac_mode :: AdminAuthMode
  ac_login_url :: "string option"

record AdminSession =
  as_issuer :: string
  as_subject :: string
  as_label :: string
  as_session_id :: string
  as_roles :: "string list"
  as_permissions :: "string list"
  as_csrf_token :: string
  as_expires_at :: string
  as_idle_expires_at :: string

section \<open>Tenants, definitions and resources\<close>

record Tenant =
  t_id :: string
  t_slug :: string
  t_name :: string
  t_status :: string

record TenantDomain =
  td_id :: string
  td_hostname :: string

record Definition =
  d_id :: string
  d_key :: string
  d_name :: string
  d_description :: string
  d_icon :: string
  d_status :: string
  d_fieldCount :: "nat option"
  d_secretCount :: "nat option"

record Field =
  f_id :: string
  f_resource_definition_id :: string
  f_key :: string
  f_label :: string
  f_hint :: string
  f_data_type :: string
  f_required :: bool
  f_is_secret :: bool
  f_sort_order :: int

record DefinitionDetail =
  dd_definition :: Definition
  dd_fields :: "Field list"

datatype value_origin = Local | Inherited

record ResourceFieldValue =
  rf_key :: string
  rf_label :: string
  rf_dataType :: string
  rf_required :: bool
  rf_isSecret :: bool
  rf_value :: string
  rf_isOverride :: bool
  rf_origin :: value_origin

record TenantResource =
  r_id :: string
  r_alias :: string
  r_sourceResourceId :: "string option"
  r_sourceAlias :: "string option"
  r_linked :: bool
  r_definitionKey :: string
  r_definitionId :: string
  r_name :: string
  r_status :: string
  r_fields :: "ResourceFieldValue list"

section \<open>API clients and webhooks\<close>

record ApiClient =
  c_id :: string
  c_name :: string
  c_key_preview :: string
  c_scopes :: "string list"
  c_rpm_limit :: int
  c_expires_at :: string
  c_last_used_at :: "string option"
  c_revoked_at :: "string option"
  c_status :: string
  c_created_at :: "string option"
  c_updated_at :: "string option"

datatype Scope = TenantIdentify | ResourceResolve | EventsRead | TenantList | ResourceWrite

definition scope_text :: "Scope \<Rightarrow> string" where
  "scope_text s =
     (case s of TenantIdentify \<Rightarrow> ''tenant:identify'' | ResourceResolve \<Rightarrow> ''resource:resolve''
      | EventsRead \<Rightarrow> ''events:read'' | TenantList \<Rightarrow> ''tenant:list'' | ResourceWrite \<Rightarrow> ''resource:write'')"

text \<open>The scopes are typed as a list of the union above; the page passes on those of a client of the server, cast to it, so any
  string can occur.\<close>

record CreateAPIClientInput =
  ci_name :: string
  ci_scopes :: "string list"
  ci_rpm_limit :: int
  ci_expires_at :: string

datatype WebhookFormat = Generic | Slack | Discord | Teams

definition format_text :: "WebhookFormat \<Rightarrow> string" where
  "format_text f = (case f of Generic \<Rightarrow> ''generic'' | Slack \<Rightarrow> ''slack'' | Discord \<Rightarrow> ''discord'' | Teams \<Rightarrow> ''teams'')"

datatype TargetStatus = TargetActive | TargetDisabled

definition target_status_text :: "TargetStatus \<Rightarrow> string" where
  "target_status_text s = (case s of TargetActive \<Rightarrow> ''active'' | TargetDisabled \<Rightarrow> ''disabled'')"

record WebhookTarget =
  wt_id :: string
  wt_name :: string
  wt_format :: WebhookFormat
  wt_status :: TargetStatus
  wt_endpoint :: string
  wt_consecutive_failures :: nat
  wt_circuit_open_until :: "string option"
  wt_created_at :: string
  wt_updated_at :: string

record CreatedWebhookTarget = WebhookTarget +
  wt_signing_secret :: string

datatype DeliveryStatus = DPending | DDelivering | DRetry | DDelivered | DDeadLetter

record WebhookDelivery =
  wd_id :: string
  wd_event_id :: string
  wd_event_type :: string
  wd_target_id :: string
  wd_target_name :: string
  wd_status :: DeliveryStatus
  wd_attempt_count :: nat
  wd_next_attempt_at :: string
  wd_last_http_status :: "nat option"
  wd_last_error_code :: "string option"
  wd_delivered_at :: "string option"
  wd_created_at :: string

record WebhookOverview =
  wo_targets :: nat
  wo_pending :: nat
  wo_retry :: nat
  wo_delivered :: nat
  wo_dead_letter :: nat
  wo_open_circuits :: nat

section \<open>Operations\<close>

datatype Health = Healthy | Degraded | Unavailable

record OperationalComponent =
  oc_name :: string
  oc_status :: Health
  oc_latency_ms :: nat

datatype ReportKind = Backup | Restore | Rewrap | Migration

datatype ReportStatus = ReportHealthy | ReportDegraded | ReportFailed

datatype EffectiveStatus = Effective ReportStatus | Stale

record OperationalReport =
  or_id :: string
  or_kind :: ReportKind
  or_source :: string
  or_status :: ReportStatus
  or_effective_status :: EffectiveStatus
  or_occurred_at :: string
  or_fresh_until :: string
  or_received_at :: string
  or_credential_version :: string

record OperationalQueues =
  oq_webhook_pending :: nat
  oq_webhook_retry :: nat
  oq_webhook_dead_letter :: nat
  oq_open_circuits :: nat

record OperationalHealth =
  oh_status :: Health
  oh_checked_at :: string
  oh_components :: "OperationalComponent list"
  oh_reports :: "OperationalReport list"
  oh_queues :: OperationalQueues

datatype UsageOperation = Identify | Resolve

record APIClientUsageRecord =
  u_day :: string
  u_api_client_id :: string
  u_operation :: UsageOperation
  u_status_class :: nat
  u_request_count :: nat
  u_rate_limited_count :: nat
  u_client_name :: "string option"

section \<open>Audit\<close>

datatype AuditResult = Success | Denied | Failure

record AdminAuditEvent =
  ae_occurred_at :: string
  ae_id :: string
  ae_request_id :: string
  ae_actor_kind :: string
  ae_actor_subject :: string
  ae_actor_label :: "string option"
  ae_action :: string
  ae_target_type :: string
  ae_target_id :: string
  ae_result :: AuditResult
  ae_http_method :: string
  ae_route_template :: string
  ae_http_status :: nat
  ae_error_code :: "string option"
  ae_metadata :: "(string \<times> json) list"

record AdminAuditPage =
  ap_events :: "AdminAuditEvent list"
  ap_next_cursor :: "string option"

record AuditHealth =
  ah_current_month_covered :: bool
  ah_future_through :: string
  ah_default_rows :: nat
  ah_oldest_retained :: "string option"
  ah_active_legal_holds :: nat

datatype ExportFormat = Csv | Jsonl

datatype ExportStatus = ExPending | ExProcessing | ExReady | ExFailed | ExExpired

record AuditFilters =
  fl_from :: string
  fl_to :: string
  fl_action :: "string option"
  fl_target_type :: "string option"
  fl_result :: "string option"

record AuditExportJob =
  ex_id :: string
  ex_idempotency_key :: string
  ex_filters :: AuditFilters
  ex_format :: ExportFormat
  ex_status :: ExportStatus
  ex_row_count :: "nat option"
  ex_created_at :: string
  ex_completed_at :: "string option"
  ex_expires_at :: string
  ex_downloaded_at :: "string option"

record AuditLegalHold =
  lh_id :: string
  lh_from :: string
  lh_to :: string
  lh_reason :: string
  lh_created_by_kind :: string
  lh_created_by_subject :: string
  lh_created_at :: string
  lh_released_at :: "string option"
  lh_released_by_subject :: "string option"

section \<open>Settings, sessions and the overview\<close>

datatype SettingType = IntegerSetting | EnumSetting

record AdminSettingDefinition =
  sd_key :: string
  sd_type :: SettingType
  sd_default_value :: string
  sd_owner :: string
  sd_minimum :: "int option"
  sd_maximum :: "int option"
  sd_options :: "string list option"

record AdminSettingsSnapshot =
  ss_revision :: int
  ss_values :: "(string \<times> string) list"
  ss_definitions :: "AdminSettingDefinition list"

datatype SessionStatus = SActive | SRevoked | SExpired | SIdleExpired

record AdminSessionView =
  sv_id :: string
  sv_issuer :: string
  sv_subject :: string
  sv_label :: string
  sv_roles :: "string list"
  sv_created_at :: string
  sv_last_used_at :: string
  sv_expires_at :: string
  sv_idle_expires_at :: string
  sv_revoked_at :: "string option"
  sv_status :: SessionStatus
  sv_current :: bool

record OverviewTenant =
  ot_id :: string
  ot_name :: string
  ot_slug :: string
  ot_status :: string
  ot_primaryHost :: string
  ot_resourceCount :: nat

record Overview =
  ov_tenants :: nat
  ov_activeTenants :: nat
  ov_domains :: nat
  ov_resources :: nat
  ov_definitions :: nat
  ov_activeDefinitions :: nat
  ov_apiClients :: nat
  ov_tenantCards :: "OverviewTenant list"

end
