(* ===== verification/AdminApi.thy ===== *)
theory AdminApi
  imports ApiTypes RuntimePath "HOL-Library.AList"
begin

text \<open>
  The client of the admin API (\<open>web/src/lib/api.ts\<close>): the token in local storage, the session and
  the pending message kept in module variables, \<open>req\<close> with its timer, headers and treatment of 401,
  the session calls, and the table of endpoints. A call is split at its \<open>await\<close>: \<open>req_start\<close> runs to
  the request, \<open>timeout_fired\<close> and \<open>abort_from_caller\<close> are what can happen while it is under way,
  \<open>req_finish\<close> runs from the response. The events dispatched on the window are a log. The network
  and the document's base path are arguments.
\<close>

section \<open>State\<close>

datatype admin_event = TokenChange | SessionChange | AuthRequired AdminAuthMessage

record client_state =
  stored_token :: "string option"
  currentAdminSession :: "AdminSession option"
  pendingAdminAuthMessage :: "AdminAuthMessage option"
  dispatched :: "admin_event list"
  next_timer :: nat
  timers :: "nat list"
  abort_listeners :: "nat list"

definition dispatch_event :: "admin_event \<Rightarrow> client_state \<Rightarrow> client_state" where
  "dispatch_event e st = st\<lparr>dispatched := dispatched st @ [e]\<rparr>"

definition setAdminSession :: "AdminSession option \<Rightarrow> client_state \<Rightarrow> client_state" where
  "setAdminSession session st = dispatch_event SessionChange (st\<lparr>currentAdminSession := session\<rparr>)"

definition getAdminSession :: "client_state \<Rightarrow> AdminSession option" where
  "getAdminSession st = currentAdminSession st"

definition consumePendingAdminAuthMessage :: "client_state \<Rightarrow> AdminAuthMessage option \<times> client_state" where
  "consumePendingAdminAuthMessage st =
     (pendingAdminAuthMessage st, st\<lparr>pendingAdminAuthMessage := None\<rparr>)"

definition clearAdminToken :: "client_state \<Rightarrow> client_state" where
  "clearAdminToken st = dispatch_event TokenChange (st\<lparr>stored_token := None\<rparr>)"

definition getAdminToken :: "client_state \<Rightarrow> string" where
  "getAdminToken st = some_or (stored_token st) []"

definition setAdminToken :: "string \<Rightarrow> client_state \<Rightarrow> client_state" where
  "setAdminToken token st =
     dispatch_event TokenChange (st\<lparr>pendingAdminAuthMessage := None, stored_token := Some token\<rparr>)"

definition notifyAdminAuthRequired :: "AdminAuthMessage \<Rightarrow> client_state \<Rightarrow> client_state" where
  "notifyAdminAuthRequired messageKey st =
     dispatch_event (AuthRequired messageKey) (st\<lparr>pendingAdminAuthMessage := Some messageKey\<rparr>)"

section \<open>Errors\<close>

definition REQUEST_TIMEOUT_MS :: nat where
  "REQUEST_TIMEOUT_MS = 10000"

text \<open>\<open>FetchError\<close> is the rejection of \<open>fetch\<close> (network, abort), \<open>BadJSON\<close> that of \<open>res.json()\<close>.\<close>

datatype api_error =
    ApiError nat string
  | ApiTimeoutError nat
  | PathError path_error
  | FetchError string
  | BadJSON

definition error_message :: "api_error \<Rightarrow> string" where
  "error_message e =
     (case e of
        ApiError status serverMessage \<Rightarrow>
          if serverMessage \<noteq> [] then show_nat status @ '': '' @ serverMessage else show_nat status
      | ApiTimeoutError timeoutMs \<Rightarrow> ''request timed out after '' @ show_nat timeoutMs @ ''ms''
      | PathError (InvalidRuntimeBasePath p) \<Rightarrow> ''invalid runtime base path: '' @ p
      | PathError (NotALocalEndpoint p) \<Rightarrow> ''expected a local admin or auth endpoint: '' @ p
      | PathError (InvalidURL _) \<Rightarrow> ''Invalid URL''
      | PathError LoginNotSameOrigin \<Rightarrow> ''OIDC login endpoint must be same-origin''
      | FetchError m \<Rightarrow> m
      | BadJSON \<Rightarrow> ''invalid JSON'')"

section \<open>Requests and responses\<close>

record request_init =
  i_method :: "string option"
  i_headers :: "(string \<times> string) list"
  i_body :: "string option"
  i_cache :: "string option"
  i_signal :: "bool option"

text \<open>\<open>i_signal\<close> is the caller's abort signal, \<^const>\<open>Some\<close> of whether it is aborted already.\<close>

definition no_init :: request_init where
  "no_init = \<lparr>i_method = None, i_headers = [], i_body = None, i_cache = None, i_signal = None\<rparr>"

record http_request =
  q_url :: string
  q_method :: string
  q_credentials :: string
  q_headers :: "(string \<times> string) list"
  q_body :: "string option"
  q_cache :: "string option"

record http_response =
  p_status :: nat
  p_json :: "json option"

definition res_ok :: "http_response \<Rightarrow> bool" where
  "res_ok res \<longleftrightarrow> 200 \<le> p_status res \<and> p_status res \<le> 299"

text \<open>\<open>{...a, ...b}\<close>: a later member replaces the value of an earlier one in its place.\<close>

fun spread :: "('k \<times> 'v) list \<Rightarrow> ('k \<times> 'v) list \<Rightarrow> ('k \<times> 'v) list" where
  "spread a [] = a"
| "spread a ((k, v) # b) = spread (AList.update k v a) b"

definition auth_headers :: "AdminSession option \<Rightarrow> string \<Rightarrow> (string \<times> string) list" where
  "auth_headers session token =
     (if session = None \<and> token \<noteq> [] then [(''Authorization'', ''Bearer '' @ token)] else []) @
     (case session of Some s \<Rightarrow> [(''X-CSRF-Token'', as_csrf_token s)] | None \<Rightarrow> [])"

section \<open>A call\<close>

text \<open>\<open>n_signal\<close> is the caller's signal, which the closure keeps: \<^const>\<open>Some\<close> of whether it is aborted.\<close>

record inflight =
  n_session :: "AdminSession option"
  n_timer :: nat
  n_signal :: "bool option"
  n_timedOut :: bool
  n_aborted :: bool

definition BASE :: string where
  "BASE = ''/v1/admin''"

definition cleanup :: "nat \<Rightarrow> client_state \<Rightarrow> client_state" where
  "cleanup timeoutID st =
     st\<lparr>timers := removeAll timeoutID (timers st), abort_listeners := removeAll timeoutID (abort_listeners st)\<rparr>"

definition req_start ::
  "string \<Rightarrow> request_init \<Rightarrow> string option \<Rightarrow> client_state \<Rightarrow> (api_error + inflight \<times> http_request) \<times> client_state" where
  "req_start path init root st =
     (let token = getAdminToken st;
          session = getAdminSession st;
          timeoutID = next_timer st;
          st1 = st\<lparr>next_timer := Suc timeoutID, timers := timers st @ [timeoutID]\<rparr>;
          aborted = (i_signal init = Some True);
          st2 = (if i_signal init = Some False then st1\<lparr>abort_listeners := abort_listeners st1 @ [timeoutID]\<rparr> else st1)
      in case buildAdminEndpoint (BASE @ path) root of
        Inl e \<Rightarrow> (Inl (PathError e), cleanup timeoutID st2)
      | Inr url \<Rightarrow>
          (Inr (\<lparr>n_session = session, n_timer = timeoutID, n_signal = i_signal init, n_timedOut = False, n_aborted = aborted\<rparr>,
             \<lparr>q_url = url, q_method = some_or (i_method init) ''GET'', q_credentials = ''same-origin'',
              q_headers = spread ([(''Content-Type'', ''application/json'')] @ auth_headers session token) (i_headers init),
              q_body = i_body init, q_cache = i_cache init\<rparr>), st2))"

text \<open>The timer runs once, and the listener is added with \<open>once: true\<close>: either is gone when it has run.\<close>

definition timeout_fired :: "inflight \<Rightarrow> client_state \<Rightarrow> inflight \<times> client_state" where
  "timeout_fired f st = (f\<lparr>n_timedOut := True, n_aborted := True\<rparr>, st\<lparr>timers := removeAll (n_timer f) (timers st)\<rparr>)"

definition abort_from_caller :: "inflight \<Rightarrow> client_state \<Rightarrow> inflight \<times> client_state" where
  "abort_from_caller f st =
     (f\<lparr>n_signal := Some True, n_aborted := True\<rparr>, st\<lparr>abort_listeners := removeAll (n_timer f) (abort_listeners st)\<rparr>)"

text \<open>What \<open>await fetch(\<dots>)\<close> comes to: a rejection or a response.\<close>

type_synonym fetch_outcome = "string + http_response"

definition server_message :: "json option \<Rightarrow> string" where
  "server_message body =
     (case body of None \<Rightarrow> []
      | Some j \<Rightarrow> case json_get ''error'' j of Some (JStr m) \<Rightarrow> m | _ \<Rightarrow> [])"

definition handle_401 :: "AdminSession option \<Rightarrow> client_state \<Rightarrow> client_state" where
  "handle_401 session st =
     (if session \<noteq> None then notifyAdminAuthRequired SessionExpired (setAdminSession None st)
      else notifyAdminAuthRequired InvalidToken st)"

text \<open>The result is \<^const>\<open>None\<close> for \<open>undefined\<close> (204) and the parsed body otherwise.\<close>

definition req_body :: "inflight \<Rightarrow> fetch_outcome \<Rightarrow> client_state \<Rightarrow> (api_error + json option) \<times> client_state" where
  "req_body f outcome st =
     (case outcome of
        Inl m \<Rightarrow> (Inl (FetchError m), st)
      | Inr res \<Rightarrow>
          if p_status res = 401 then (Inl (ApiError 401 []), handle_401 (n_session f) st)
          else if \<not> res_ok res then (Inl (ApiError (p_status res) (server_message (p_json res))), st)
          else if p_status res = 204 then (Inr None, st)
          else case p_json res of None \<Rightarrow> (Inl BadJSON, st) | Some j \<Rightarrow> (Inr (Some j), st))"

definition req_finish :: "inflight \<Rightarrow> fetch_outcome \<Rightarrow> client_state \<Rightarrow> (api_error + json option) \<times> client_state" where
  "req_finish f outcome st =
     (case req_body f outcome st of
        (Inl e, st') \<Rightarrow> (Inl (if n_timedOut f then ApiTimeoutError REQUEST_TIMEOUT_MS else e), cleanup (n_timer f) st')
      | (Inr v, st') \<Rightarrow> (Inr v, cleanup (n_timer f) st'))"

section \<open>The session calls\<close>

definition plain_get :: "string \<Rightarrow> http_request" where
  "plain_get url = \<lparr>q_url = url, q_method = ''GET'', q_credentials = ''same-origin'', q_headers = [], q_body = None, q_cache = None\<rparr>"

definition get_request :: "string \<Rightarrow> string option \<Rightarrow> api_error + http_request" where
  "get_request endpoint root =
     (case buildAdminEndpoint endpoint root of Inl e \<Rightarrow> Inl (PathError e) | Inr url \<Rightarrow> Inr (plain_get url))"

text \<open>\<open>decode\<close> reads the value out of the JSON; the code's \<open>as\<close> does no checking.\<close>

definition fetchAdminAuthConfig :: "(json \<Rightarrow> AdminAuthConfig) \<Rightarrow> fetch_outcome \<Rightarrow> api_error + AdminAuthConfig" where
  "fetchAdminAuthConfig decode outcome =
     (case outcome of
        Inl m \<Rightarrow> Inl (FetchError m)
      | Inr response \<Rightarrow>
          if \<not> res_ok response then Inl (ApiError (p_status response) [])
          else case p_json response of None \<Rightarrow> Inl BadJSON | Some j \<Rightarrow> Inr (decode j))"

definition fetchAdminSession ::
  "(json \<Rightarrow> AdminSession) \<Rightarrow> fetch_outcome \<Rightarrow> client_state \<Rightarrow> (api_error + AdminSession option) \<times> client_state" where
  "fetchAdminSession decode outcome st =
     (case outcome of
        Inl m \<Rightarrow> (Inl (FetchError m), st)
      | Inr response \<Rightarrow>
          if p_status response = 401 then (Inr None, setAdminSession None st)
          else if \<not> res_ok response then (Inl (ApiError (p_status response) []), st)
          else case p_json response of
            None \<Rightarrow> (Inl BadJSON, st)
          | Some j \<Rightarrow> (Inr (Some (decode j)), setAdminSession (Some (decode j)) st))"

text \<open>The logout request, \<^const>\<open>None\<close> when there is no session and nothing is sent.\<close>

definition logout_request :: "string option \<Rightarrow> client_state \<Rightarrow> (api_error + http_request) option" where
  "logout_request root st =
     (case getAdminSession st of
        None \<Rightarrow> None
      | Some session \<Rightarrow>
          Some (case buildAdminEndpoint ''/v1/auth/logout'' root of
            Inl e \<Rightarrow> Inl (PathError e)
          | Inr url \<Rightarrow> Inr \<lparr>q_url = url, q_method = ''POST'', q_credentials = ''same-origin'',
              q_headers = [(''Content-Type'', ''application/json''), (''X-CSRF-Token'', as_csrf_token session)],
              q_body = None, q_cache = None\<rparr>))"

definition logoutAdminSession :: "fetch_outcome \<Rightarrow> client_state \<Rightarrow> (api_error + unit) \<times> client_state" where
  "logoutAdminSession outcome st =
     (if getAdminSession st = None then (Inr (), st)
      else case outcome of
        Inl m \<Rightarrow> (Inl (FetchError m), st)
      | Inr response \<Rightarrow>
          if \<not> res_ok response \<and> p_status response \<noteq> 401 then (Inl (ApiError (p_status response) []), st)
          else (Inr (), setAdminSession None st))"

definition downloadAuditExport_request :: "string \<Rightarrow> string option \<Rightarrow> client_state \<Rightarrow> api_error + http_request" where
  "downloadAuditExport_request exportID root st =
     (case buildAdminEndpoint (BASE @ ''/audit-exports/'' @ encodeURIComponent exportID @ ''/download'') root of
        Inl e \<Rightarrow> Inl (PathError e)
      | Inr url \<Rightarrow> Inr ((plain_get url)\<lparr>q_headers := auth_headers (getAdminSession st) (getAdminToken st)\<rparr>))"

text \<open>The outcome of the download is a rejection, or a response with its status and blob.\<close>

definition downloadAuditExport :: "(string + nat \<times> 'blob) \<Rightarrow> api_error + 'blob" where
  "downloadAuditExport outcome =
     (case outcome of
        Inl m \<Rightarrow> Inl (FetchError m)
      | Inr (status, blob) \<Rightarrow>
          if \<not> (200 \<le> status \<and> status \<le> 299) then Inl (ApiError status []) else Inr blob)"

section \<open>The endpoints\<close>

datatype (plugins only: code) api_call =
    Overview
  | ListTenants
  | GetTenant string
  | CreateTenant string string "string option"
  | UpdateTenant string string string string
  | DeleteTenant string
  | ListDomains string
  | AddDomain string string
  | UpdateDomain string string string
  | RemoveDomain string string
  | ListTenantResources string bool
  | CreateResource string string string string "string option" "(string \<times> string) list" "string option"
  | UpdateResourceIdentity string string string string
  | SetResourceStatus string string string
  | UpdateResourceField string string string string
  | ClearResourceFieldOverride string string string
  | DuplicateResource string string string "string option"
  | DeleteResource string string
  | ListDefinitions
  | GetDefinition string
  | CreateDefinition string string "string option" "string option"
  | UpdateDefinition string string string
  | SetDefinitionStatus string string
  | DeleteDefinition string
  | AddField string string "string option" "string option" "bool option" "bool option"
  | UpdateDefinitionField string string string bool
  | DeleteField string string
  | ListAPIClients
  | CreateAPIClient CreateAPIClientInput "string option"
  | UpdateAPIClient string CreateAPIClientInput
  | RotateAPIClient string int "string option"
  | RevokeAPIClient string
  | DeleteAPIClient string
  | GetAPIClientUsage string "string option" "string option"
  | ListAPIClientUsage "string option" "string option"
  | ListAuditEvents "(string \<times> string) list"
  | GetAuditHealth
  | CreateAuditExport AuditFilters ExportFormat string
  | GetAuditExport string
  | ListAuditLegalHolds
  | CreateAuditLegalHold string string string
  | ReleaseAuditLegalHold string
  | GetSettings
  | UpdateSettings "(string \<times> string) list" int
  | ListAdminSessions
  | RevokeAdminSession string
  | RevokeAdminPrincipalSessions string string
  | ListWebhookTargets
  | CreateWebhookTarget string string WebhookFormat
  | SetWebhookTargetStatus string TargetStatus
  | ListWebhookDeliveries string
  | ReplayWebhookDelivery string
  | GetWebhookOverview
  | GetOperationalHealth

definition send :: "string \<Rightarrow> json option \<Rightarrow> request_init" where
  "send method body = no_init\<lparr>i_method := Some method, i_body := map_option stringify body\<rparr>"

definition with_key :: "string \<Rightarrow> request_init \<Rightarrow> request_init" where
  "with_key k init = init\<lparr>i_headers := [(''Idempotency-Key'', k)]\<rparr>"

definition string_record :: "(string \<times> string) list \<Rightarrow> json" where
  "string_record kvs = JObj (map (\<lambda>(k, v). (k, JStr v)) kvs)"

definition client_json :: "CreateAPIClientInput \<Rightarrow> json" where
  "client_json b = JObj [(''name'', JStr (ci_name b)), (''scopes'', JArr (map JStr (ci_scopes b))),
     (''rpm_limit'', JNum (ci_rpm_limit b)), (''expires_at'', JStr (ci_expires_at b))]"

definition filters_json :: "AuditFilters \<Rightarrow> json" where
  "filters_json f = JObj ([(''from'', JStr (fl_from f)), (''to'', JStr (fl_to f))] @
     opt_member ''action'' (map_option JStr (fl_action f)) @
     opt_member ''target_type'' (map_option JStr (fl_target_type f)) @
     opt_member ''result'' (map_option JStr (fl_result f)))"

definition export_format_text :: "ExportFormat \<Rightarrow> string" where
  "export_format_text f = (case f of Csv \<Rightarrow> ''csv'' | Jsonl \<Rightarrow> ''jsonl'')"

text \<open>The query of the usage calls: only the bounds that are set and not empty.\<close>

definition usage_query :: "string option \<Rightarrow> string option \<Rightarrow> string" where
  "usage_query from until =
     search_params
       ((case from of Some f \<Rightarrow> if f \<noteq> [] then [(''from'', f)] else [] | None \<Rightarrow> []) @
        (case until of Some t \<Rightarrow> if t \<noteq> [] then [(''to'', t)] else [] | None \<Rightarrow> []))"

abbreviation j1 :: "string \<Rightarrow> json \<Rightarrow> json option" where
  "j1 k v \<equiv> Some (JObj [(k, v)])"

text \<open>\<open>uuid\<close> is what \<open>crypto.randomUUID()\<close> returns, the default of an idempotency key.\<close>

primrec api :: "api_call \<Rightarrow> string \<Rightarrow> string \<times> request_init" where
  "api Overview uuid = (''/overview'', no_init)"
| "api ListTenants uuid = (''/tenants'', no_init)"
| "api (GetTenant i) uuid = (''/tenants/'' @ i, no_init)"
| "api (CreateTenant slug name key) uuid =
     (''/tenants'', with_key (some_or key uuid)
        (send ''POST'' (Some (JObj [(''slug'', JStr slug), (''name'', JStr name)]))))"
| "api (UpdateTenant i name slug status) uuid =
     (''/tenants/'' @ i,
      send ''PUT'' (Some (JObj [(''name'', JStr name), (''slug'', JStr slug), (''status'', JStr status)])))"
| "api (DeleteTenant i) uuid = (''/tenants/'' @ i, send ''DELETE'' None)"
| "api (ListDomains i) uuid = (''/tenants/'' @ i @ ''/domains'', no_init)"
| "api (AddDomain i hostname) uuid =
     (''/tenants/'' @ i @ ''/domains'', send ''POST'' (j1 ''hostname'' (JStr hostname)))"
| "api (UpdateDomain i domainId hostname) uuid =
     (''/tenants/'' @ i @ ''/domains/'' @ domainId, send ''PUT'' (j1 ''hostname'' (JStr hostname)))"
| "api (RemoveDomain i domainId) uuid = (''/tenants/'' @ i @ ''/domains/'' @ domainId, send ''DELETE'' None)"
| "api (ListTenantResources i reveal) uuid =
     (''/tenants/'' @ i @ ''/resources'' @ (if reveal then ''?reveal=true'' else []),
      no_init\<lparr>i_cache := if reveal then Some ''no-store'' else None\<rparr>)"
| "api (CreateResource i name alias definitionKey sourceResourceId vals key) uuid =
     (''/tenants/'' @ i @ ''/resources'',
      with_key (some_or key uuid) (send ''POST'' (Some (JObj
        ([(''name'', JStr name), (''alias'', JStr alias), (''definitionKey'', JStr definitionKey)] @
         opt_member ''sourceResourceId'' (map_option JStr sourceResourceId) @
         [(''values'', string_record vals)])))))"
| "api (UpdateResourceIdentity i resourceId name alias) uuid =
     (''/tenants/'' @ i @ ''/resources/'' @ resourceId,
      send ''PATCH'' (Some (JObj [(''name'', JStr name), (''alias'', JStr alias)])))"
| "api (SetResourceStatus i resourceId status) uuid =
     (''/tenants/'' @ i @ ''/resources/'' @ resourceId @ ''/status'', send ''PUT'' (j1 ''status'' (JStr status)))"
| "api (UpdateResourceField i resourceId fieldKey v) uuid =
     (''/tenants/'' @ i @ ''/resources/'' @ resourceId @ ''/fields/'' @ encodeURIComponent fieldKey,
      send ''PUT'' (j1 ''value'' (JStr v)))"
| "api (ClearResourceFieldOverride i resourceId fieldKey) uuid =
     (''/tenants/'' @ i @ ''/resources/'' @ resourceId @ ''/fields/'' @ encodeURIComponent fieldKey,
      send ''DELETE'' None)"
| "api (DuplicateResource i resourceId alias key) uuid =
     (''/tenants/'' @ i @ ''/resources/'' @ resourceId @ ''/duplicate'',
      with_key (some_or key uuid) (send ''POST'' (j1 ''alias'' (JStr alias))))"
| "api (DeleteResource i resourceId) uuid =
     (''/tenants/'' @ i @ ''/resources/'' @ resourceId, send ''DELETE'' None)"
| "api ListDefinitions uuid = (''/resource-definitions'', no_init)"
| "api (GetDefinition i) uuid = (''/resource-definitions/'' @ i, no_init)"
| "api (CreateDefinition key name description icon) uuid =
     (''/resource-definitions'', send ''POST'' (Some (JObj
        ([(''key'', JStr key), (''name'', JStr name)] @
         opt_member ''description'' (map_option JStr description) @ opt_member ''icon'' (map_option JStr icon)))))"
| "api (UpdateDefinition i name description) uuid =
     (''/resource-definitions/'' @ i,
      send ''PATCH'' (Some (JObj [(''name'', JStr name), (''description'', JStr description)])))"
| "api (SetDefinitionStatus i status) uuid =
     (''/resource-definitions/'' @ i @ ''/status'', send ''PUT'' (j1 ''status'' (JStr status)))"
| "api (DeleteDefinition i) uuid = (''/resource-definitions/'' @ i, send ''DELETE'' None)"
| "api (AddField i key label dataType required isSecret) uuid =
     (''/resource-definitions/'' @ i @ ''/fields'', send ''POST'' (Some (JObj
        ([(''key'', JStr key)] @ opt_member ''label'' (map_option JStr label) @
         opt_member ''dataType'' (map_option JStr dataType) @ opt_member ''required'' (map_option JBool required) @
         opt_member ''isSecret'' (map_option JBool isSecret)))))"
| "api (UpdateDefinitionField i fieldId label required) uuid =
     (''/resource-definitions/'' @ i @ ''/fields/'' @ fieldId,
      send ''PATCH'' (Some (JObj [(''label'', JStr label), (''required'', JBool required)])))"
| "api (DeleteField i fieldId) uuid = (''/resource-definitions/'' @ i @ ''/fields/'' @ fieldId, send ''DELETE'' None)"
| "api ListAPIClients uuid = (''/api-clients'', no_init)"
| "api (CreateAPIClient body key) uuid =
     (''/api-clients'', with_key (some_or key uuid) (send ''POST'' (Some (client_json body))))"
| "api (UpdateAPIClient i body) uuid = (''/api-clients/'' @ i, send ''PATCH'' (Some (client_json body)))"
| "api (RotateAPIClient i graceSeconds key) uuid =
     (''/api-clients/'' @ i @ ''/rotate'',
      with_key (some_or key uuid) (send ''POST'' (j1 ''grace_seconds'' (JNum graceSeconds))))"
| "api (RevokeAPIClient i) uuid = (''/api-clients/'' @ i @ ''/revoke'', send ''POST'' None)"
| "api (DeleteAPIClient i) uuid = (''/api-clients/'' @ i, send ''DELETE'' None)"
| "api (GetAPIClientUsage i from until) uuid =
     (''/api-clients/'' @ i @ ''/usage?'' @ usage_query from until, no_init)"
| "api (ListAPIClientUsage from until) uuid = (''/api-client-usage?'' @ usage_query from until, no_init)"
| "api (ListAuditEvents query) uuid = (''/audit-events?'' @ search_params query, no_init)"
| "api GetAuditHealth uuid = (''/audit-health'', no_init)"
| "api (CreateAuditExport filters fmt key) uuid =
     (''/audit-exports'', with_key key (send ''POST''
        (Some (JObj [(''filters'', filters_json filters), (''format'', JStr (export_format_text fmt))]))))"
| "api (GetAuditExport i) uuid = (''/audit-exports/'' @ i, no_init)"
| "api ListAuditLegalHolds uuid = (''/audit-legal-holds'', no_init)"
| "api (CreateAuditLegalHold from until reason) uuid =
     (''/audit-legal-holds'', send ''POST''
        (Some (JObj [(''from'', JStr from), (''to'', JStr until), (''reason'', JStr reason)])))"
| "api (ReleaseAuditLegalHold i) uuid = (''/audit-legal-holds/'' @ i @ ''/release'', send ''POST'' None)"
| "api GetSettings uuid = (''/settings'', no_init)"
| "api (UpdateSettings vals revision) uuid =
     (''/settings'', (send ''PATCH'' (j1 ''values'' (string_record vals)))
        \<lparr>i_headers := [(''If-Match'', [CHR 0x22] @ ''settings-'' @ show_int revision @ [CHR 0x22])]\<rparr>)"
| "api ListAdminSessions uuid = (''/sessions'', no_init)"
| "api (RevokeAdminSession i) uuid = (''/sessions/'' @ i, send ''DELETE'' None)"
| "api (RevokeAdminPrincipalSessions issuer subject) uuid =
     (''/sessions/revoke-principal'',
      send ''POST'' (Some (JObj [(''issuer'', JStr issuer), (''subject'', JStr subject)])))"
| "api ListWebhookTargets uuid = (''/webhook-targets'', no_init)"
| "api (CreateWebhookTarget name url fmt) uuid =
     (''/webhook-targets'', (send ''POST''
        (Some (JObj [(''name'', JStr name), (''url'', JStr url), (''format'', JStr (format_text fmt))])))
        \<lparr>i_cache := Some ''no-store''\<rparr>)"
| "api (SetWebhookTargetStatus i status) uuid =
     (''/webhook-targets/'' @ i @ ''/status'', send ''PUT'' (j1 ''status'' (JStr (target_status_text status))))"
| "api (ListWebhookDeliveries status) uuid =
     (''/webhook-deliveries'' @ (if status \<noteq> [] then ''?status='' @ status else []), no_init)"
| "api (ReplayWebhookDelivery i) uuid = (''/webhook-deliveries/'' @ i @ ''/replay'', send ''POST'' None)"
| "api GetWebhookOverview uuid = (''/webhook-overview'', no_init)"
| "api GetOperationalHealth uuid = (''/operational-health'', no_init\<lparr>i_cache := Some ''no-store''\<rparr>)"

text \<open>The signal of a read is the argument; the writes pass none.\<close>

definition call_start ::
  "api_call \<Rightarrow> string \<Rightarrow> bool option \<Rightarrow> string option \<Rightarrow> client_state \<Rightarrow> (api_error + inflight \<times> http_request) \<times> client_state" where
  "call_start c uuid sig root st =
     (case api c uuid of (path, init) \<Rightarrow> req_start path (init\<lparr>i_signal := sig\<rparr>) root st)"

section \<open>Headers\<close>

lemma map_of_spread: "map_of (spread a b) = map_of a ++ map_of (rev b)"
proof (induction a b rule: spread.induct)
  case (2 a k v b)
  then show ?case by (simp add: update_conv' map_add_def fun_eq_iff split: option.split)
qed simp

lemma req_start_cases:
  assumes "req_start path init root st = (Inr (f, q), st')"
  obtains url where "buildAdminEndpoint (BASE @ path) root = Inr url" and "q_url q = url"
    and "q_headers q = spread ((''Content-Type'', ''application/json'') #
           auth_headers (currentAdminSession st) (getAdminToken st)) (i_headers init)"
    and "q_credentials q = ''same-origin''"
    and "f = \<lparr>n_session = currentAdminSession st, n_timer = next_timer st, n_signal = i_signal init, n_timedOut = False, n_aborted = (i_signal init = Some True)\<rparr>"
    and "st' = st\<lparr>next_timer := Suc (next_timer st), timers := timers st @ [next_timer st],
           abort_listeners := abort_listeners st @ (if i_signal init = Some False then [next_timer st] else [])\<rparr>"
  using assms by (auto simp: req_start_def Let_def getAdminSession_def split: sum.splits)

lemma api_header_names:
  "fst ` set (i_headers (snd (api c uuid))) \<subseteq> {''Idempotency-Key'', ''If-Match''}"
  by (cases c) (simp_all add: no_init_def send_def with_key_def)

lemma call_startE:
  assumes "call_start c uuid sig root st = (Inr (f, q), st')"
  obtains url where "buildAdminEndpoint (BASE @ fst (api c uuid)) root = Inr url" and "q_url q = url"
    and "q_headers q = spread ((''Content-Type'', ''application/json'') #
           auth_headers (currentAdminSession st) (getAdminToken st)) (i_headers (snd (api c uuid)))"
    and "q_credentials q = ''same-origin''"
    and "f = \<lparr>n_session = currentAdminSession st, n_timer = next_timer st, n_signal = sig, n_timedOut = False, n_aborted = (sig = Some True)\<rparr>"
    and "st' = st\<lparr>next_timer := Suc (next_timer st), timers := timers st @ [next_timer st],
           abort_listeners := abort_listeners st @ (if sig = Some False then [next_timer st] else [])\<rparr>"
  using assms by (cases "api c uuid") (auto simp: call_start_def elim!: req_start_cases)

lemma map_of_auth_headers:
  "map_of (auth_headers session token) k =
     (if k = ''Authorization'' \<and> session = None \<and> token \<noteq> [] then Some (''Bearer '' @ token)
      else if k = ''X-CSRF-Token'' then map_option as_csrf_token session else None)"
  by (auto simp: auth_headers_def split: option.splits)

lemma api_header_none:
  assumes "k \<notin> {''Idempotency-Key'', ''If-Match''}"
  shows "map_of (rev (i_headers (snd (api c uuid)))) k = None"
  using assms api_header_names [of c uuid] by (auto simp: map_of_eq_None_iff)

lemma request_headers:
  assumes "call_start c uuid sig root st = (Inr (f, q), st')"
  shows "map_of (q_headers q) ''Authorization'' =
      (if currentAdminSession st = None \<and> getAdminToken st \<noteq> [] then Some (''Bearer '' @ getAdminToken st) else None) \<and>
    map_of (q_headers q) ''X-CSRF-Token'' = map_option as_csrf_token (currentAdminSession st) \<and>
    map_of (q_headers q) ''Content-Type'' = Some ''application/json'' \<and>
    q_credentials q = ''same-origin''"
  using assms
  by (rule call_startE) (simp add: map_of_spread map_of_auth_headers map_add_def api_header_none)

text \<open>C38: the credentials of a request are those of the page's state and nothing else, for every call of
  the client: \<open>req\<close> lets the headers of a call override its own, but no call uses that. The bearer
  token goes out exactly when there is a token and no session, the CSRF token exactly when there is a
  session, and never both.\<close>

theorem request_credentials:
  assumes "call_start c uuid sig root st = (Inr (f, q), st')"
  shows "map_of (q_headers q) ''Authorization'' =
      (if currentAdminSession st = None \<and> getAdminToken st \<noteq> [] then Some (''Bearer '' @ getAdminToken st) else None) \<and>
    map_of (q_headers q) ''X-CSRF-Token'' = map_option as_csrf_token (currentAdminSession st) \<and>
    map_of (q_headers q) ''Content-Type'' = Some ''application/json'' \<and>
    q_credentials q = ''same-origin''"
  using assms by (rule request_headers)

definition no_client :: client_state where
  "no_client = \<lparr>stored_token = None, currentAdminSession = None, pendingAdminAuthMessage = None,
     dispatched = [], next_timer = 0, timers = [], abort_listeners = []\<rparr>"

lemma request_credentials_witness:
  "\<exists>f q st'. call_start (DeleteTenant ''t1'') ''u'' None None (setAdminToken ''secret'' no_client) = (Inr (f, q), st') \<and>
     map_of (q_headers q) ''Authorization'' = Some ''Bearer secret''"
proof -
  let ?st = "setAdminToken ''secret'' no_client"
  have "isl (fst (call_start (DeleteTenant ''t1'') ''u'' None None ?st)) = False"
    by code_simp
  then obtain f q st' where c: "call_start (DeleteTenant ''t1'') ''u'' None None ?st = (Inr (f, q), st')"
    by (cases "call_start (DeleteTenant ''t1'') ''u'' None None ?st") (auto simp: isl_def, metis sum.exhaust surj_pair)
  from request_credentials [OF c] c show ?thesis
    by (simp add: setAdminToken_def dispatch_event_def no_client_def getAdminToken_def)
qed

section \<open>Addresses\<close>

lemma api_path_slash: "\<exists>rest. fst (api c uuid) = CHR ''/'' # rest"
  by (cases c) simp_all

lemma admin_endpoint_ok: "rx_test ENDPOINT_PATTERN (BASE @ fst (api c uuid))"
proof -
  obtain rest where "fst (api c uuid) = CHR ''/'' # rest"
    using api_path_slash by blast
  then show ?thesis
    unfolding endpoint_pattern_iff BASE_def
    by (intro exI [of _ "''admin''"] exI [of _ "CHR ''/'' # rest"]) simp
qed

text \<open>Every call of the client can be sent: its address passes the guard against foreign endpoints, so a
  call fails before the network only when the page's configured base path is invalid, and then with that error.\<close>

theorem call_always_sent:
  "(\<exists>st'. call_start c uuid sig root st = (Inl e, st')) \<longleftrightarrow>
     (\<exists>b. readRuntimeBasePath root = Inl b \<and> e = PathError b)"
  using admin_endpoint_ok [of c uuid]
  by (cases "api c uuid") (auto simp: call_start_def req_start_def Let_def buildAdminEndpoint_def split: sum.splits)

section \<open>Responses\<close>

lemma cleanup_fields [frame_simps]:
  "stored_token (cleanup i st) = stored_token st"
  "currentAdminSession (cleanup i st) = currentAdminSession st"
  "pendingAdminAuthMessage (cleanup i st) = pendingAdminAuthMessage st"
  "dispatched (cleanup i st) = dispatched st"
  "next_timer (cleanup i st) = next_timer st"
  by (simp_all add: cleanup_def)

lemma handle_401_fields [frame_simps]:
  "stored_token (handle_401 s st) = stored_token st"
  "next_timer (handle_401 s st) = next_timer st"
  "timers (handle_401 s st) = timers st"
  "abort_listeners (handle_401 s st) = abort_listeners st"
  by (simp_all add: handle_401_def notifyAdminAuthRequired_def setAdminSession_def dispatch_event_def)

lemma req_body_state:
  "snd (req_body f outcome st) =
     (if \<exists>res. outcome = Inr res \<and> p_status res = 401 then handle_401 (n_session f) st else st)"
  by (auto simp: req_body_def split: sum.splits option.splits)

lemma req_finish_state:
  "snd (req_finish f outcome st) =
     cleanup (n_timer f) (if \<exists>res. outcome = Inr res \<and> p_status res = 401 then handle_401 (n_session f) st else st)"
  unfolding req_body_state [symmetric] req_finish_def
  by (simp split: prod.split sum.split)

text \<open>C8: a response of 401 is the only thing a call does to the state of the page, timers aside: it ends the session
  the call was made under, if any, records the reason and announces it, so the sign-in screen can tell
  an expired session from a bad token; every other response or failure leaves session, token, message and events
  alone. The caller gets an error, the timeout error when the timer had fired.\<close>

theorem response_effects:
  "let (result, st') = req_finish f outcome st in
    stored_token st' = stored_token st \<and>
    (if \<exists>res. outcome = Inr res \<and> p_status res = 401
     then result = Inl (if n_timedOut f then ApiTimeoutError REQUEST_TIMEOUT_MS else ApiError 401 []) \<and>
       (if n_session f = None
        then currentAdminSession st' = currentAdminSession st \<and>
          pendingAdminAuthMessage st' = Some InvalidToken \<and>
          dispatched st' = dispatched st @ [AuthRequired InvalidToken]
        else currentAdminSession st' = None \<and>
          pendingAdminAuthMessage st' = Some SessionExpired \<and>
          dispatched st' = dispatched st @ [SessionChange, AuthRequired SessionExpired])
     else currentAdminSession st' = currentAdminSession st \<and>
       pendingAdminAuthMessage st' = pendingAdminAuthMessage st \<and>
       dispatched st' = dispatched st)"
proof (cases "\<exists>res. outcome = Inr res \<and> p_status res = 401")
  case True
  then obtain res where res: "outcome = Inr res" "p_status res = 401" by blast
  then have "req_finish f outcome st =
      (Inl (if n_timedOut f then ApiTimeoutError REQUEST_TIMEOUT_MS else ApiError 401 []),
       cleanup (n_timer f) (handle_401 (n_session f) st))"
    by (simp add: req_finish_def req_body_def)
  with res show ?thesis
    by (simp add: frame_simps) (simp add: handle_401_def notifyAdminAuthRequired_def setAdminSession_def dispatch_event_def)
next
  case False
  then have "snd (req_finish f outcome st) = cleanup (n_timer f) st"
    unfolding req_finish_state by (simp only: if_False)
  with False show ?thesis by (auto simp: frame_simps split: prod.splits)
qed

section \<open>Timers of concurrent calls\<close>

record client_run =
  run_client :: client_state
  run_flights :: "inflight list"

definition update_flight :: "inflight \<Rightarrow> inflight list \<Rightarrow> inflight list" where
  "update_flight f = map_where (\<lambda>g. n_timer g = n_timer f) (\<lambda>_. f)"

text \<open>Calls start, are overtaken by their timer or their caller, and finish in any order, between
  changes of the token and the session.\<close>

inductive client_step :: "client_run \<Rightarrow> client_run \<Rightarrow> bool" where
  start: "call_start c uuid sig root (run_client r) = (Inr (f, q), st) \<Longrightarrow>
     client_step r (r\<lparr>run_client := st, run_flights := run_flights r @ [f]\<rparr>)"
| start_fails: "call_start c uuid sig root (run_client r) = (Inl e, st) \<Longrightarrow>
     client_step r (r\<lparr>run_client := st\<rparr>)"
| timeout: "f \<in> set (run_flights r) \<Longrightarrow> n_timer f \<in> set (timers (run_client r)) \<Longrightarrow>
     client_step r (r\<lparr>run_client := snd (timeout_fired f (run_client r)),
       run_flights := update_flight (fst (timeout_fired f (run_client r))) (run_flights r)\<rparr>)"
| abort: "f \<in> set (run_flights r) \<Longrightarrow> n_timer f \<in> set (abort_listeners (run_client r)) \<Longrightarrow>
     client_step r (r\<lparr>run_client := snd (abort_from_caller f (run_client r)),
       run_flights := update_flight (fst (abort_from_caller f (run_client r))) (run_flights r)\<rparr>)"
| finish: "f \<in> set (run_flights r) \<Longrightarrow>
     client_step r (r\<lparr>run_client := snd (req_finish f outcome (run_client r)),
       run_flights := filter (\<lambda>g. n_timer g \<noteq> n_timer f) (run_flights r)\<rparr>)"
| token: "client_step r (r\<lparr>run_client := setAdminToken t (run_client r)\<rparr>)"
| clear: "client_step r (r\<lparr>run_client := clearAdminToken (run_client r)\<rparr>)"
| session: "client_step r (r\<lparr>run_client := snd (fetchAdminSession decode outcome (run_client r))\<rparr>)"
| logout: "client_step r (r\<lparr>run_client := snd (logoutAdminSession outcome (run_client r))\<rparr>)"
| message: "client_step r (r\<lparr>run_client := snd (consumePendingAdminAuthMessage (run_client r))\<rparr>)"

inductive client_reachable :: "client_run \<Rightarrow> bool" where
  initial: "timers st = [] \<Longrightarrow> abort_listeners st = [] \<Longrightarrow> client_reachable \<lparr>run_client = st, run_flights = []\<rparr>"
| step: "client_reachable r \<Longrightarrow> client_step r r' \<Longrightarrow> client_reachable r'"

definition timers_match :: "client_run \<Rightarrow> bool" where
  "timers_match r \<longleftrightarrow>
     timers (run_client r) = map n_timer (filter (\<lambda>f. \<not> n_timedOut f) (run_flights r)) \<and>
     abort_listeners (run_client r) = map n_timer (filter (\<lambda>f. n_signal f = Some False) (run_flights r)) \<and>
     distinct (map n_timer (run_flights r)) \<and> list_all (\<lambda>i. i < next_timer (run_client r)) (map n_timer (run_flights r))"

lemma n_timer_same [simp]: "n_timer (fst (timeout_fired f st)) = n_timer f" "n_timer (fst (abort_from_caller f st)) = n_timer f"
  by (simp_all add: timeout_fired_def abort_from_caller_def)

text \<open>A flight that loses its timer or its listener loses it from the list of the client.\<close>

lemma update_flight_timers:
  assumes "n_timer f = i" shows "map n_timer (update_flight f fs) = map n_timer fs"
  unfolding update_flight_def by (rule map_map_where_same) simp

lemma update_flight_kept:
  assumes "distinct (map n_timer fs)" and "g \<in> set fs" and "n_timer f = n_timer g" and "P g = P f"
  shows "map n_timer (filter P (update_flight f fs)) = map n_timer (filter P fs)"
proof -
  have "P x = P f" if "x \<in> set fs" "n_timer x = n_timer f" for x
    using that assms by (metis distinct_map inj_onD)
  then show ?thesis by (induction fs) (auto simp: update_flight_def map_where_def)
qed

lemma update_flight_lost:
  assumes "distinct (map n_timer fs)" and "\<not> P f"
  shows "map n_timer (filter P (update_flight f fs)) = removeAll (n_timer f) (map n_timer (filter P fs))"
  using assms by (induction fs) (auto simp: update_flight_def map_where_def)

lemma map_n_timer_filter:
  "map n_timer (filter (\<lambda>g. n_timer g \<noteq> i \<and> P g) fs) = removeAll i (map n_timer (filter P fs))"
  by (induction fs) auto

lemma timers_match_session_ops:
  "timers_match r \<Longrightarrow> timers st = timers (run_client r) \<Longrightarrow> abort_listeners st = abort_listeners (run_client r) \<Longrightarrow>
     next_timer st = next_timer (run_client r) \<Longrightarrow> timers_match (r\<lparr>run_client := st\<rparr>)"
  by (auto simp: timers_match_def)

lemma call_start_fails:
  assumes "call_start c uuid sig root st = (Inl e, st')"
  shows "timers st' = removeAll (next_timer st) (timers st @ [next_timer st]) \<and>
    abort_listeners st' = removeAll (next_timer st) (abort_listeners st) \<and>
    next_timer st' = Suc (next_timer st)"
  using assms
  by (cases "api c uuid"; cases "sig = Some False")
    (auto simp: call_start_def req_start_def Let_def cleanup_def split: sum.splits)

lemmas session_op_defs =
  setAdminToken_def clearAdminToken_def setAdminSession_def dispatch_event_def
  consumePendingAdminAuthMessage_def fetchAdminSession_def logoutAdminSession_def

lemma timers_match_step:
  assumes "client_step r r'" and "timers_match r"
  shows "timers_match r'"
  using assms
proof (cases rule: client_step.cases)
  case (start c uuid sig root f q st)
  with assms(2) show ?thesis
    by (auto simp: timers_match_def list_all_iff elim!: call_startE intro!: less_SucI)
next
  case (start_fails c uuid sig root e st)
  let ?n = "next_timer (run_client r)"
  have "?n \<notin> set (timers (run_client r))" "?n \<notin> set (abort_listeners (run_client r))"
    using assms(2) by (auto simp: timers_match_def list_all_iff)
  then have "timers st = timers (run_client r) \<and> abort_listeners st = abort_listeners (run_client r) \<and>
      next_timer st = Suc ?n"
    using call_start_fails [OF start_fails(2)] by simp
  with start_fails assms(2) show ?thesis by (auto simp: timers_match_def list_all_iff intro!: less_SucI)
next
  case (timeout f)
  let ?f = "fst (timeout_fired f (run_client r))"
  have d: "distinct (map n_timer (run_flights r))" using assms(2) by (simp add: timers_match_def)
  have "n_timedOut ?f" "n_signal ?f = n_signal f" by (simp_all add: timeout_fired_def)
  then have "map n_timer (filter (\<lambda>f. \<not> n_timedOut f) (update_flight ?f (run_flights r))) =
      removeAll (n_timer f) (map n_timer (filter (\<lambda>f. \<not> n_timedOut f) (run_flights r)))"
    "map n_timer (filter (\<lambda>f. n_signal f = Some False) (update_flight ?f (run_flights r))) =
      map n_timer (filter (\<lambda>f. n_signal f = Some False) (run_flights r))"
    using update_flight_lost [OF d, of "\<lambda>f. \<not> n_timedOut f" ?f] update_flight_kept [OF d timeout(2), of ?f "\<lambda>f. n_signal f = Some False"]
    by simp_all
  with timeout assms(2) show ?thesis by (simp add: timers_match_def update_flight_timers) (simp add: timeout_fired_def)
next
  case (abort f)
  let ?f = "fst (abort_from_caller f (run_client r))"
  have d: "distinct (map n_timer (run_flights r))" using assms(2) by (simp add: timers_match_def)
  have "n_signal ?f = Some True" "n_timedOut ?f = n_timedOut f" by (simp_all add: abort_from_caller_def)
  then have "map n_timer (filter (\<lambda>f. n_signal f = Some False) (update_flight ?f (run_flights r))) =
      removeAll (n_timer f) (map n_timer (filter (\<lambda>f. n_signal f = Some False) (run_flights r)))"
    "map n_timer (filter (\<lambda>f. \<not> n_timedOut f) (update_flight ?f (run_flights r))) =
      map n_timer (filter (\<lambda>f. \<not> n_timedOut f) (run_flights r))"
    using update_flight_lost [OF d, of "\<lambda>f. n_signal f = Some False" ?f] update_flight_kept [OF d abort(2), of ?f "\<lambda>f. \<not> n_timedOut f"]
    by simp_all
  with abort assms(2) show ?thesis by (simp add: timers_match_def update_flight_timers) (simp add: abort_from_caller_def)
next
  case (finish f outcome)
  have "timers (snd (req_finish f outcome (run_client r))) = removeAll (n_timer f) (timers (run_client r))"
    "abort_listeners (snd (req_finish f outcome (run_client r))) = removeAll (n_timer f) (abort_listeners (run_client r))"
    "next_timer (snd (req_finish f outcome (run_client r))) = next_timer (run_client r)"
    by (simp_all add: req_finish_state frame_simps) (simp_all add: cleanup_def frame_simps)
  with finish assms(2) show ?thesis
    by (auto simp: timers_match_def map_n_timer_filter distinct_map_filter list_all_iff)
next
  case session
  with assms(2) show ?thesis
    by (auto simp: session_op_defs intro!: timers_match_session_ops split: sum.splits option.splits)
next
  case logout
  with assms(2) show ?thesis
    by (auto simp: session_op_defs intro!: timers_match_session_ops split: sum.splits option.splits)
qed (auto simp: session_op_defs timers_match_def)

text \<open>C5: however calls interleave, time out, are aborted or fail, the timers that are armed are exactly those of the calls under way that
  have not timed out, one each, and the listeners that are left on signals exactly those of the calls under way whose caller can still abort
  them. So neither outlives its call: a finished call can neither abort a later one nor stay on a signal of its caller.\<close>

theorem no_timer_leaks:
  assumes "client_reachable r"
  shows "timers (run_client r) = map n_timer (filter (\<lambda>f. \<not> n_timedOut f) (run_flights r)) \<and>
    abort_listeners (run_client r) = map n_timer (filter (\<lambda>f. n_signal f = Some False) (run_flights r)) \<and>
    distinct (map n_timer (run_flights r))"
proof -
  have "timers_match r"
    using assms
  proof (induction rule: client_reachable.induct)
    case (initial st)
    then show ?case by (simp add: timers_match_def)
  next
    case (step r r')
    then show ?case using timers_match_step by blast
  qed
  then show ?thesis by (auto simp: timers_match_def)
qed

text \<open>A call that has timed out while its caller could still abort it: no timer is left, the listener is.\<close>

lemma no_timer_leaks_witness:
  "\<exists>r f. client_reachable r \<and> run_flights r = [f] \<and> n_timedOut f \<and> timers (run_client r) = [] \<and> abort_listeners (run_client r) = [0]"
proof -
  let ?r0 = "\<lparr>run_client = no_client, run_flights = []\<rparr>"
  have "isl (fst (call_start ListTenants ''u'' (Some False) None no_client)) = False" by code_simp
  then obtain f q st where c: "call_start ListTenants ''u'' (Some False) None no_client = (Inr (f, q), st)"
    by (metis isl_def prod.collapse sum.exhaust_sel surj_pair)
  have f: "n_timer f = 0" "n_signal f = Some False" "\<not> n_timedOut f" using c by (auto elim!: call_startE simp: no_client_def)
  have r0: "client_reachable ?r0" by (rule client_reachable.initial) (simp_all add: no_client_def)
  let ?r1 = "\<lparr>run_client = st, run_flights = [f]\<rparr>"
  have "client_step ?r0 ?r1" using client_step.start [of ListTenants "''u''" "Some False" None ?r0 f q st] c by simp
  then have r1: "client_reachable ?r1" using r0 client_reachable.step by blast
  have timers1: "timers st = [0]" using no_timer_leaks [OF r1] f by simp
  let ?r2 = "\<lparr>run_client = snd (timeout_fired f st), run_flights = [fst (timeout_fired f st)]\<rparr>"
  have "client_step ?r1 ?r2"
    using client_step.timeout [of f ?r1] f(1) timers1 by (simp add: update_flight_def map_where_def)
  then have r2: "client_reachable ?r2" using r1 client_reachable.step by blast
  have "n_timedOut (fst (timeout_fired f st))" by (simp add: timeout_fired_def)
  moreover have "n_signal (fst (timeout_fired f st)) = Some False" using f(2) by (simp add: timeout_fired_def)
  ultimately show ?thesis using no_timer_leaks [OF r2] r2 f(1) by (intro exI [of _ ?r2] exI [of _ "fst (timeout_fired f st)"]) simp
qed

end
