(* ===== verification/QueryCache.thy ===== *)
theory QueryCache
  imports AdminApi
begin

text \<open>
  The keys of the query cache, what each mutation invalidates, and when the cache is emptied
  (\<open>web/src/lib/query-keys.ts\<close>, \<open>query-invalidation.ts\<close>, \<open>query-options.ts\<close>, \<open>query-client.ts\<close>).
  The query client is TanStack's: what the code asks of it is a list of commands, and which keys a
  command without \<open>exact\<close> reaches is the argument \<open>matches\<close> of the theorems, of which the documented
  behaviour, that a filter matches the keys it is a prefix of, is a hypothesis.
\<close>

section \<open>Keys\<close>

type_synonym query_key = "string list"

datatype (plugins only: code) admin_query =
    QApiClients
  | QApiClientUsage string string
  | QDefinition string
  | QDefinitions
  | QOverview
  | QOperationalHealth
  | QSessions
  | QSettings
  | QWebhookTargets
  | QWebhookDeliveries
  | QWebhookOverview
  | QTenant string
  | QTenantDomains string
  | QTenantResourcesRoot
  | QTenantResources string
  | QTenants

definition all_key :: query_key where
  "all_key = [''admin'']"

definition definitions_key :: query_key where
  "definitions_key = all_key @ [''definitions'']"

definition tenants_key :: query_key where
  "tenants_key = all_key @ [''tenants'']"

definition tenant_key :: "string \<Rightarrow> query_key" where
  "tenant_key tenantId = tenants_key @ [''detail'', tenantId]"

definition tenantResourcesRoot :: query_key where
  "tenantResourcesRoot = all_key @ [''tenant-resources'']"

primrec adminQueryKeys :: "admin_query \<Rightarrow> query_key" where
  "adminQueryKeys QApiClients = all_key @ [''api-clients'']"
| "adminQueryKeys (QApiClientUsage from until) = all_key @ [''api-client-usage'', from, until]"
| "adminQueryKeys (QDefinition definitionId) = definitions_key @ [''detail'', definitionId]"
| "adminQueryKeys QDefinitions = definitions_key"
| "adminQueryKeys QOverview = all_key @ [''overview'']"
| "adminQueryKeys QOperationalHealth = all_key @ [''operational-health'']"
| "adminQueryKeys QSessions = all_key @ [''sessions'']"
| "adminQueryKeys QSettings = all_key @ [''settings'']"
| "adminQueryKeys QWebhookTargets = all_key @ [''webhook-targets'']"
| "adminQueryKeys QWebhookDeliveries = all_key @ [''webhook-deliveries'']"
| "adminQueryKeys QWebhookOverview = all_key @ [''webhook-overview'']"
| "adminQueryKeys (QTenant tenantId) = tenant_key tenantId"
| "adminQueryKeys (QTenantDomains tenantId) = tenant_key tenantId @ [''domains'']"
| "adminQueryKeys QTenantResourcesRoot = tenantResourcesRoot"
| "adminQueryKeys (QTenantResources tenantId) = tenantResourcesRoot @ [tenantId]"
| "adminQueryKeys QTenants = tenants_key"

lemmas key_defs = all_key_def definitions_key_def tenants_key_def tenant_key_def tenantResourcesRoot_def

section \<open>Commands\<close>

datatype cache_command =
    InvalidateExact query_key
  | InvalidateMatching query_key
  | CancelQueries query_key
  | RemoveQueries query_key
  | ResetFound query_key
  | ClearCache

definition invalidateExact :: "query_key \<Rightarrow> cache_command list" where
  "invalidateExact queryKey = [InvalidateExact queryKey]"

definition invalidateOverview :: "cache_command list" where
  "invalidateOverview = invalidateExact (adminQueryKeys QOverview)"

definition invalidateTenants :: "cache_command list" where
  "invalidateTenants = invalidateExact (adminQueryKeys QTenants) @ invalidateOverview"

definition invalidateTenant :: "string \<Rightarrow> cache_command list" where
  "invalidateTenant tenantId =
     invalidateExact (adminQueryKeys (QTenant tenantId)) @ invalidateExact (adminQueryKeys QTenants) @ invalidateOverview"

definition invalidateTenantDomains :: "string \<Rightarrow> cache_command list" where
  "invalidateTenantDomains tenantId = invalidateExact (adminQueryKeys (QTenantDomains tenantId)) @ invalidateOverview"

definition invalidateTenantResources :: "string \<Rightarrow> cache_command list" where
  "invalidateTenantResources tenantId = invalidateExact (adminQueryKeys (QTenantResources tenantId)) @ invalidateOverview"

definition invalidateAllTenantResources :: "cache_command list" where
  "invalidateAllTenantResources = [InvalidateMatching (adminQueryKeys QTenantResourcesRoot)]"

definition invalidateDefinitions :: "cache_command list" where
  "invalidateDefinitions = invalidateExact (adminQueryKeys QDefinitions) @ invalidateOverview"

definition invalidateDefinition :: "string \<Rightarrow> cache_command list" where
  "invalidateDefinition definitionId =
     invalidateExact (adminQueryKeys (QDefinition definitionId)) @ invalidateExact (adminQueryKeys QDefinitions) @ invalidateOverview"

definition invalidateApiClients :: "cache_command list" where
  "invalidateApiClients = invalidateExact (adminQueryKeys QApiClients) @ invalidateOverview"

definition removeTenantQueries :: "string \<Rightarrow> cache_command list" where
  "removeTenantQueries tenantId =
     [CancelQueries (adminQueryKeys (QTenant tenantId)), CancelQueries (adminQueryKeys (QTenantResources tenantId)),
      RemoveQueries (adminQueryKeys (QTenant tenantId)), RemoveQueries (adminQueryKeys (QTenantResources tenantId))] @
     invalidateTenants"

section \<open>What the commands reach\<close>

definition invalidates :: "(query_key \<Rightarrow> query_key \<Rightarrow> bool) \<Rightarrow> cache_command list \<Rightarrow> query_key \<Rightarrow> bool" where
  "invalidates matches cs k \<longleftrightarrow>
     list_ex (\<lambda>c. case c of InvalidateExact f \<Rightarrow> k = f | InvalidateMatching f \<Rightarrow> matches f k | _ \<Rightarrow> False) cs"

definition removes :: "(query_key \<Rightarrow> query_key \<Rightarrow> bool) \<Rightarrow> cache_command list \<Rightarrow> query_key \<Rightarrow> bool" where
  "removes matches cs k \<longleftrightarrow>
     list_ex (\<lambda>c. case c of RemoveQueries f \<Rightarrow> matches f k | ClearCache \<Rightarrow> True | _ \<Rightarrow> False) cs"

definition cancels :: "(query_key \<Rightarrow> query_key \<Rightarrow> bool) \<Rightarrow> cache_command list \<Rightarrow> query_key \<Rightarrow> bool" where
  "cancels matches cs k \<longleftrightarrow> list_ex (\<lambda>c. case c of CancelQueries f \<Rightarrow> matches f k | _ \<Rightarrow> False) cs"

definition resets :: "(query_key \<Rightarrow> query_key \<Rightarrow> bool) \<Rightarrow> cache_command list \<Rightarrow> query_key \<Rightarrow> bool" where
  "resets matches cs k \<longleftrightarrow> list_ex (\<lambda>c. case c of ResetFound f \<Rightarrow> matches f k | _ \<Rightarrow> False) cs"

section \<open>The queries the cache holds\<close>

definition adminQueryOptions :: "admin_query \<Rightarrow> api_call option" where
  "adminQueryOptions q =
     (case q of
        QApiClients \<Rightarrow> Some ListAPIClients
      | QDefinition definitionId \<Rightarrow> Some (GetDefinition definitionId)
      | QDefinitions \<Rightarrow> Some ListDefinitions
      | QOverview \<Rightarrow> Some Overview
      | QTenant tenantId \<Rightarrow> Some (GetTenant tenantId)
      | QTenantDomains tenantId \<Rightarrow> Some (ListDomains tenantId)
      | QTenantResources tenantId \<Rightarrow> Some (ListTenantResources tenantId False)
      | QTenants \<Rightarrow> Some ListTenants
      | _ \<Rightarrow> None)"

section \<open>The client's options and the credential listeners\<close>

definition QUERY_STALE_TIME_MS :: nat where
  "QUERY_STALE_TIME_MS = 30000"

definition shouldRetryQuery :: "nat \<Rightarrow> api_error \<Rightarrow> bool" where
  "shouldRetryQuery failureCount error =
     (case error of
        ApiError status _ \<Rightarrow> if status < 500 then False else failureCount < 2
      | _ \<Rightarrow> failureCount < 2)"

record query_defaults =
  qd_retry :: "nat \<Rightarrow> api_error \<Rightarrow> bool"
  qd_staleTime :: nat

definition createAppQueryClient :: query_defaults where
  "createAppQueryClient = \<lparr>qd_retry = shouldRetryQuery, qd_staleTime = QUERY_STALE_TIME_MS\<rparr>"

definition ADMIN_TOKEN_KEY :: string where
  "ADMIN_TOKEN_KEY = ''tenancitAdminToken''"

definition clearCache :: "cache_command list" where
  "clearCache = [CancelQueries all_key, ResetFound all_key, ClearCache]"

datatype window_event = AppEvent admin_event | StorageEvent "string option"

text \<open>The commands of the listeners that \<open>registerAdminQueryCacheInvalidation\<close> adds to the window.\<close>

definition registerAdminQueryCacheInvalidation :: "window_event \<Rightarrow> cache_command list" where
  "registerAdminQueryCacheInvalidation e =
     (case e of
        AppEvent TokenChange \<Rightarrow> clearCache
      | AppEvent SessionChange \<Rightarrow> clearCache
      | AppEvent (AuthRequired _) \<Rightarrow> []
      | StorageEvent key \<Rightarrow> if key = Some ADMIN_TOKEN_KEY then clearCache else [])"

definition on_events :: "admin_event list \<Rightarrow> cache_command list" where
  "on_events es = concat (map (registerAdminQueryCacheInvalidation \<circ> AppEvent) es)"

section \<open>Keys do not collide\<close>

text \<open>Every cache key is under the key that the credential listeners cancel and reset, and two
  different queries have different keys: the answer to one is never shown for another, whatever the
  identifiers are.\<close>

theorem query_keys_injective:
  "js_starts_with (hd (adminQueryKeys q)) ''admin'' \<and> prefix all_key (adminQueryKeys q) \<and>
     (adminQueryKeys p = adminQueryKeys q \<longleftrightarrow> p = q)"
  by (cases p; cases q) (simp_all add: key_defs js_starts_with_def)

lemma prefix_key_simps [simp]:
  "prefix (adminQueryKeys (QTenant t)) (adminQueryKeys q) \<longleftrightarrow> q = QTenant t \<or> q = QTenantDomains t"
  "prefix (adminQueryKeys (QTenantResources t)) (adminQueryKeys q) \<longleftrightarrow> q = QTenantResources t"
  "prefix (adminQueryKeys QTenantResourcesRoot) (adminQueryKeys q) \<longleftrightarrow> q = QTenantResourcesRoot \<or> (\<exists>t. q = QTenantResources t)"
  "prefix all_key (adminQueryKeys q)"
  by (cases q; auto simp: key_defs)+

lemma key_eq [simp]: "adminQueryKeys p = adminQueryKeys q \<longleftrightarrow> p = q"
  by (cases p; cases q) (simp_all add: key_defs)

declare adminQueryKeys.simps [simp del]

lemmas command_defs =
  invalidateExact_def invalidateOverview_def invalidateTenants_def invalidateTenant_def invalidateTenantDomains_def
  invalidateTenantResources_def invalidateAllTenantResources_def invalidateDefinitions_def invalidateDefinition_def
  invalidateApiClients_def removeTenantQueries_def

text \<open>After each kind of mutation exactly the queries that can have changed are marked stale, and
  nothing is dropped: the entity's own query, the list it appears in, and the overview; for a definition's fields all
  tenants' resources, and only them.\<close>

theorem invalidation_sets:
  assumes matches: "\<And>f k. matches f k = prefix f k"
  shows "{q. invalidates matches invalidateTenants (adminQueryKeys q)} = {QTenants, QOverview} \<and>
    {q. invalidates matches (invalidateTenant t) (adminQueryKeys q)} = {QTenant t, QTenants, QOverview} \<and>
    {q. invalidates matches (invalidateTenantDomains t) (adminQueryKeys q)} = {QTenantDomains t, QOverview} \<and>
    {q. invalidates matches (invalidateTenantResources t) (adminQueryKeys q)} = {QTenantResources t, QOverview} \<and>
    {q. invalidates matches invalidateAllTenantResources (adminQueryKeys q)} =
      insert QTenantResourcesRoot (range QTenantResources) \<and>
    {q. invalidates matches (invalidateDefinition d) (adminQueryKeys q)} = {QDefinition d, QDefinitions, QOverview} \<and>
    {q. invalidates matches invalidateDefinitions (adminQueryKeys q)} = {QDefinitions, QOverview} \<and>
    {q. invalidates matches invalidateApiClients (adminQueryKeys q)} = {QApiClients, QOverview}"
  by (simp add: set_eq_iff invalidates_def command_defs matches image_iff)

lemma invalidation_sets_witness:
  "{q. invalidates prefix (invalidateTenant ''t1'') (adminQueryKeys q)} = {QTenant ''t1'', QTenants, QOverview}"
  by (rule invalidation_sets [of prefix "''t1''", OF refl, THEN conjunct2, THEN conjunct1])

text \<open>C19: deleting a tenant cancels and then drops exactly that tenant's queries (its record, its domains and
  its resources), of no other tenant and nothing else, and marks the list and the overview stale.\<close>

theorem remove_tenant_queries_exact:
  assumes matches: "\<And>f k. matches f k = prefix f k"
  shows "{q. removes matches (removeTenantQueries t) (adminQueryKeys q)} = {QTenant t, QTenantDomains t, QTenantResources t} \<and>
    {q. cancels matches (removeTenantQueries t) (adminQueryKeys q)} = {QTenant t, QTenantDomains t, QTenantResources t} \<and>
    {q. invalidates matches (removeTenantQueries t) (adminQueryKeys q)} = {QTenants, QOverview}"
  by (simp add: set_eq_iff removes_def cancels_def invalidates_def command_defs matches disj_ac)

lemma remove_tenant_queries_exact_witness:
  "{q. removes prefix (removeTenantQueries ''t1'') (adminQueryKeys q)} =
     {QTenant ''t1'', QTenantDomains ''t1'', QTenantResources ''t1''}"
  using remove_tenant_queries_exact [of prefix "''t1''"] by simp

section \<open>No secret is cached\<close>

text \<open>Every query kept in the cache is a plain read that does not ask for secrets to be revealed: the
  request carries no method, no body and no header of its own, and its address does not ask for \<open>reveal\<close>.\<close>

theorem cached_queries_read_only:
  "list_all (\<lambda>c. c \<notin> range (\<lambda>t. ListTenantResources t True) \<and> snd (api c uuid) = no_init)
     (case adminQueryOptions q of Some c \<Rightarrow> [c] | None \<Rightarrow> [])"
  by (cases q) (auto simp: adminQueryOptions_def no_init_def)

section \<open>A change of credential empties the cache\<close>

lemma on_events_clear:
  assumes "TokenChange \<in> set es \<or> SessionChange \<in> set es" and matches: "\<And>f k. matches f k = prefix f k"
  shows "removes matches (on_events es) (adminQueryKeys q)" and "resets matches (on_events es) (adminQueryKeys q)"
    and "cancels matches (on_events es) (adminQueryKeys q)"
proof -
  have c: "set clearCache \<subseteq> set (on_events es)"
    using assms(1) by (force simp: on_events_def registerAdminQueryCacheInvalidation_def)
  have "ClearCache \<in> set (on_events es)" "ResetFound all_key \<in> set (on_events es)" "CancelQueries all_key \<in> set (on_events es)"
    using c by (auto simp: clearCache_def)
  then show "removes matches (on_events es) (adminQueryKeys q)" "resets matches (on_events es) (adminQueryKeys q)"
    "cancels matches (on_events es) (adminQueryKeys q)"
    by (force simp: removes_def resets_def cancels_def list_ex_iff matches)+
qed

lemma client_step_events:
  assumes "client_step r r'"
  shows "\<exists>es. dispatched (run_client r') = dispatched (run_client r) @ es \<and>
    (stored_token (run_client r') = stored_token (run_client r) \<and>
     currentAdminSession (run_client r') = currentAdminSession (run_client r) \<or>
     TokenChange \<in> set es \<or> SessionChange \<in> set es)"
  using assms
proof (cases rule: client_step.cases)
  case (start c uuid sig root f q st)
  then show ?thesis by (auto elim!: call_startE)
next
  case (start_fails c uuid sig root e st)
  then show ?thesis
    by (cases "api c uuid"; cases "sig = Some False")
      (auto simp: call_start_def req_start_def Let_def cleanup_def split: sum.splits)
next
  case (finish f outcome)
  then show ?thesis
    by (auto simp: req_finish_state frame_simps)
      (auto simp: handle_401_def notifyAdminAuthRequired_def session_op_defs)
qed (auto simp: session_op_defs timeout_fired_def abort_from_caller_def split: sum.splits option.splits)

text \<open>C4: whatever the client does, if a step changes the token or the session then the events it dispatches
  make the listeners cancel, reset and drop every query: no answer obtained under one credential is left for the
  next.\<close>

theorem credential_change_clears_cache:
  assumes "client_step r r'"
    and "stored_token (run_client r') \<noteq> stored_token (run_client r) \<or>
      currentAdminSession (run_client r') \<noteq> currentAdminSession (run_client r)"
    and matches: "\<And>f k. matches f k = prefix f k"
  shows "\<exists>es. dispatched (run_client r') = dispatched (run_client r) @ es \<and>
    (\<forall>q. removes matches (on_events es) (adminQueryKeys q) \<and> resets matches (on_events es) (adminQueryKeys q) \<and>
      cancels matches (on_events es) (adminQueryKeys q))"
  using client_step_events [OF assms(1)] assms(2) on_events_clear [OF _ matches] by blast

lemma credential_change_clears_cache_witness:
  "\<exists>es. dispatched (setAdminToken ''k'' no_client) = es \<and> removes prefix (on_events es) (adminQueryKeys QTenants)"
proof -
  let ?r = "\<lparr>run_client = no_client, run_flights = []\<rparr>"
  let ?r' = "\<lparr>run_client = setAdminToken ''k'' no_client, run_flights = []\<rparr>"
  have "client_step ?r ?r'"
    using client_step.token [of ?r "''k''"] by simp
  moreover have "stored_token (run_client ?r') \<noteq> stored_token (run_client ?r)"
    by (simp add: setAdminToken_def dispatch_event_def no_client_def)
  ultimately obtain es where "dispatched (run_client ?r') = dispatched (run_client ?r) @ es"
      and "\<forall>q. removes prefix (on_events es) (adminQueryKeys q)"
    using credential_change_clears_cache [of ?r ?r' prefix] by blast
  then show ?thesis by (simp add: no_client_def)
qed

section \<open>Retries\<close>

lemma should_retry_iff:
  "shouldRetryQuery n e \<longleftrightarrow> n < 2 \<and> \<not> (\<exists>status m. e = ApiError status m \<and> status < 500)"
  by (auto simp: shouldRetryQuery_def split: api_error.splits)

end
