(* ===== verification/Reveal.thy ===== *)
theory Reveal
  imports QueryCache
begin

text \<open>
  The transient reveal of a tenant's secrets (\<open>web/src/lib/use-transient-resource-reveal.ts\<close> and
  \<open>secret-display.ts\<close>): the state of the hook, its callbacks, its effects, and the step relation of
  everything that can happen between a request and its answer. A request is under way from
  \<open>show_begin\<close> until \<open>show_resolved\<close> or \<open>show_rejected\<close>, which run what follows the \<open>await\<close> and
  may come at any time and in any order. \<open>'r\<close> is the type of the answer, \<open>'e\<close> that of the error. A run is the list
  of its events, and what is on display is traced back to the event that asked for it.
\<close>

section \<open>Masking\<close>

definition SECRET_MASK :: string where
  "SECRET_MASK = replicate 12 (CHR 0x95)"

definition displaySecretValue :: "bool \<Rightarrow> bool \<Rightarrow> string \<Rightarrow> string" where
  "displaySecretValue isSecret revealed v = (if \<not> isSecret then v else if revealed then v else SECRET_MASK)"

section \<open>The hook\<close>

record ('r, 'e) reveal =
  resources :: "'r option"
  isLoading :: bool
  error :: "'e option"
  controllerRef :: "nat option"
  epochRef :: nat
  mountedRef :: bool
  tenantRef :: string
  tenantProp :: string
  aborted :: "nat list"
  next_controller :: nat
  token :: string

record request =
  rq_tenant :: string
  rq_epoch :: nat
  rq_credential :: string
  rq_controller :: nat

definition cancelAndErase :: "bool \<Rightarrow> ('r, 'e) reveal \<Rightarrow> ('r, 'e) reveal" where
  "cancelAndErase updateState s =
     (let s = s\<lparr>epochRef := epochRef s + 1\<rparr>;
          s = (case controllerRef s of Some c \<Rightarrow> s\<lparr>aborted := c # aborted s\<rparr> | None \<Rightarrow> s);
          s = s\<lparr>controllerRef := None\<rparr> in
      if \<not> updateState \<or> \<not> mountedRef s then s
      else s\<lparr>resources := None, error := None, isLoading := False\<rparr>)"

text \<open>The layout effect of the first render erases as well.\<close>

definition mount :: "string \<Rightarrow> string \<Rightarrow> ('r, 'e) reveal" where
  "mount tenantId tok =
     cancelAndErase True
       \<lparr>resources = None, isLoading = False, error = None, controllerRef = None, epochRef = 0, mountedRef = True,
        tenantRef = tenantId, tenantProp = tenantId, aborted = [], next_controller = 0, token = tok\<rparr>"

definition hide :: "('r, 'e) reveal \<Rightarrow> ('r, 'e) reveal" where
  "hide s = cancelAndErase True s"

text \<open>\<open>show\<close> up to its \<open>await\<close>; \<open>tenantId\<close> is the one the callback closed over.\<close>

definition show_begin :: "string \<Rightarrow> ('r, 'e) reveal \<Rightarrow> ('r, 'e) reveal \<times> request" where
  "show_begin tenantId s =
     (let s = cancelAndErase True s;
          c = next_controller s;
          rq = \<lparr>rq_tenant = tenantId, rq_epoch = epochRef s, rq_credential = token s, rq_controller = c\<rparr> in
      (s\<lparr>next_controller := Suc c, controllerRef := Some c, isLoading := True\<rparr>, rq))"

definition finally_loading :: "request \<Rightarrow> ('r, 'e) reveal \<Rightarrow> ('r, 'e) reveal" where
  "finally_loading rq s = (if mountedRef s \<and> rq_epoch rq = epochRef s then s\<lparr>isLoading := False\<rparr> else s)"

definition isCurrent :: "request \<Rightarrow> ('r, 'e) reveal \<Rightarrow> bool" where
  "isCurrent rq s \<longleftrightarrow>
     mountedRef s \<and> rq_controller rq \<notin> set (aborted s) \<and> rq_epoch rq = epochRef s \<and>
     tenantRef s = rq_tenant rq \<and> token s = rq_credential rq"

definition show_resolved :: "request \<Rightarrow> 'r \<Rightarrow> ('r, 'e) reveal \<Rightarrow> ('r, 'e) reveal \<times> bool" where
  "show_resolved rq revealed s =
     (if \<not> isCurrent rq s then (finally_loading rq s, False)
      else (finally_loading rq
        (s\<lparr>resources := Some revealed, error := None\<rparr>), True))"

definition show_rejected :: "request \<Rightarrow> bool \<Rightarrow> 'e \<Rightarrow> ('r, 'e) reveal \<Rightarrow> ('r, 'e) reveal \<times> bool" where
  "show_rejected rq isAbortError revealError s =
     (let wasCancelled = (rq_controller rq \<in> set (aborted s) \<or> isAbortError) in
      if wasCancelled \<or> \<not> mountedRef s \<or> rq_epoch rq \<noteq> epochRef s then (finally_loading rq s, False)
      else (finally_loading rq (s\<lparr>resources := None, error := Some revealError\<rparr>), False))"

text \<open>The effects: a new tenant, the two listeners, unmounting.\<close>

definition tenant_changed :: "string \<Rightarrow> ('r, 'e) reveal \<Rightarrow> ('r, 'e) reveal" where
  "tenant_changed tenantId s = cancelAndErase True (s\<lparr>tenantProp := tenantId, tenantRef := tenantId\<rparr>)"

definition eraseForCredentialChange :: "('r, 'e) reveal \<Rightarrow> ('r, 'e) reveal" where
  "eraseForCredentialChange s = cancelAndErase True s"

definition eraseForStorageChange :: "string option \<Rightarrow> ('r, 'e) reveal \<Rightarrow> ('r, 'e) reveal" where
  "eraseForStorageChange key s = (if key = Some ADMIN_TOKEN_KEY then cancelAndErase True s else s)"

definition unmount :: "('r, 'e) reveal \<Rightarrow> ('r, 'e) reveal" where
  "unmount s = cancelAndErase False (s\<lparr>mountedRef := False\<rparr>)"

section \<open>Everything that can happen\<close>

datatype (plugins only: code) 'r reveal_event =
    RvAsk request
  | RvResolved request 'r
  | RvRejected request
  | RvHide
  | RvTenant string
  | RvToken string
  | RvOtherTab string
  | RvStorage
  | RvOtherStorage "string option"
  | RvUnmount

text \<open>A change of the token in this tab dispatches the event within the same turn. A change in another
  tab is seen by \<open>getAdminToken\<close> at once and announced by a storage event later.\<close>

inductive reveal_step ::
  "'r reveal_event \<Rightarrow> ('r, 'e) reveal \<times> request list \<Rightarrow> ('r, 'e) reveal \<times> request list \<Rightarrow> bool" where
  reveal: "reveal_step (RvAsk (snd (show_begin t s))) (s, rqs) (fst (show_begin t s), snd (show_begin t s) # rqs)"
| resolved: "rq \<in> set rqs \<Longrightarrow> reveal_step (RvResolved rq revealed) (s, rqs) (fst (show_resolved rq revealed s), removeAll rq rqs)"
| rejected: "rq \<in> set rqs \<Longrightarrow> reveal_step (RvRejected rq) (s, rqs) (fst (show_rejected rq isAbort e s), removeAll rq rqs)"
| hide: "reveal_step RvHide (s, rqs) (hide s, rqs)"
| tenant: "mountedRef s \<Longrightarrow> reveal_step (RvTenant t) (s, rqs) (tenant_changed t s, rqs)"
| token: "mountedRef s \<Longrightarrow> reveal_step (RvToken tok) (s, rqs) (eraseForCredentialChange (s\<lparr>token := tok\<rparr>), rqs)"
| other_tab: "reveal_step (RvOtherTab tok) (s, rqs) (s\<lparr>token := tok\<rparr>, rqs)"
| storage: "mountedRef s \<Longrightarrow> reveal_step RvStorage (s, rqs) (eraseForStorageChange (Some ADMIN_TOKEN_KEY) s, rqs)"
| other_storage: "mountedRef s \<Longrightarrow> key \<noteq> Some ADMIN_TOKEN_KEY \<Longrightarrow> reveal_step (RvOtherStorage key) (s, rqs) (eraseForStorageChange key s, rqs)"
| unmount: "reveal_step RvUnmount (s, rqs) (unmount s, rqs)"

text \<open>The states after the events \<open>es\<close>.\<close>

inductive reveal_run :: "'r reveal_event list \<Rightarrow> ('r, 'e) reveal \<times> request list \<Rightarrow> bool" where
  initial: "reveal_run [] (mount t tok, [])"
| step: "reveal_run es x \<Longrightarrow> reveal_step e x y \<Longrightarrow> reveal_run (es @ [e]) y"

definition reveal_reachable :: "('r, 'e) reveal \<times> request list \<Rightarrow> bool" where
  "reveal_reachable x \<longleftrightarrow> (\<exists>es. reveal_run es x)"

text \<open>The events that are meant to take what is revealed off the screen for good, another reveal included.\<close>

definition erases :: "'r reveal_event \<Rightarrow> bool" where
  "erases e \<longleftrightarrow>
     (case e of RvAsk _ \<Rightarrow> True | RvHide \<Rightarrow> True | RvTenant _ \<Rightarrow> True | RvToken _ \<Rightarrow> True | RvStorage \<Rightarrow> True | RvUnmount \<Rightarrow> True | _ \<Rightarrow> False)"

abbreviation undisturbed :: "'r reveal_event list \<Rightarrow> bool" where
  "undisturbed es \<equiv> list_all (\<lambda>e. \<not> erases e) es"

section \<open>The invariant\<close>

text \<open>About the requests: epochs and controllers are fresh, a request that is not of the current epoch
  was aborted, and the request of the current epoch holds the controller.\<close>

definition requests_ok :: "('r, 'e) reveal \<times> request list \<Rightarrow> bool" where
  "requests_ok = (\<lambda>(s, rqs).
     (\<forall>rq \<in> set rqs. rq_epoch rq \<le> epochRef s \<and> rq_controller rq < next_controller s \<and>
        (if rq_epoch rq = epochRef s then controllerRef s = Some (rq_controller rq)
         else rq_controller rq \<in> set (aborted s))) \<and>
     (\<forall>c \<in> set (aborted s). c < next_controller s) \<and>
     (\<forall>c. controllerRef s = Some c \<longrightarrow> c < next_controller s \<and> c \<notin> set (aborted s)) \<and>
     distinct (map rq_epoch rqs))"

text \<open>About what is shown, while the component is mounted.\<close>

definition shown_ok :: "('r, 'e) reveal \<times> request list \<Rightarrow> bool" where
  "shown_ok = (\<lambda>(s, rqs). mountedRef s \<longrightarrow>
     tenantRef s = tenantProp s \<and>
     (isLoading s \<longleftrightarrow> epochRef s \<in> rq_epoch ` set rqs) \<and>
     (isLoading s \<longrightarrow> resources s = None \<and> error s = None))"

text \<open>About the past: the request of the current epoch was made and nothing has erased since; what is shown answered such a request,
  and after it was shown nothing erased and only another tab replaced the token.\<close>

definition traced :: "'r reveal_event list \<Rightarrow> 'r \<Rightarrow> ('r, 'e) reveal \<Rightarrow> bool" where
  "traced es v s \<longleftrightarrow>
     (\<exists>pre rq mid post. es = pre @ RvAsk rq # mid @ RvResolved rq v # post \<and> undisturbed (mid @ post) \<and> rq_tenant rq = tenantProp s \<and>
        (rq_credential rq = token s \<or> (\<exists>tok. RvOtherTab tok \<in> set post)))"

definition history_ok :: "'r reveal_event list \<Rightarrow> ('r, 'e) reveal \<times> request list \<Rightarrow> bool" where
  "history_ok es = (\<lambda>(s, rqs). mountedRef s \<longrightarrow>
     (\<forall>rq \<in> set rqs. rq_epoch rq = epochRef s \<longrightarrow> (\<exists>pre mid. es = pre @ RvAsk rq # mid \<and> undisturbed mid)) \<and>
     (\<forall>v. resources s = Some v \<longrightarrow> traced es v s))"

lemma cancelAndErase_fields [frame_simps]:
  "epochRef (cancelAndErase u s) = Suc (epochRef s)"
  "controllerRef (cancelAndErase u s) = None"
  "set (aborted (cancelAndErase u s)) = set (aborted s) \<union> set_option (controllerRef s)"
  "mountedRef (cancelAndErase u s) = mountedRef s"
  "tenantRef (cancelAndErase u s) = tenantRef s"
  "tenantProp (cancelAndErase u s) = tenantProp s"
  "next_controller (cancelAndErase u s) = next_controller s"
  "token (cancelAndErase u s) = token s"
  "resources (cancelAndErase u s) = (if u \<and> mountedRef s then None else resources s)"
  "error (cancelAndErase u s) = (if u \<and> mountedRef s then None else error s)"
  "isLoading (cancelAndErase u s) = (if u \<and> mountedRef s then False else isLoading s)"
  by (auto simp: cancelAndErase_def Let_def split: option.splits)

lemma requests_ok_erase:
  assumes "requests_ok (s, rqs)"
  shows "requests_ok (cancelAndErase u s, rqs)" and "epochRef (cancelAndErase u s) \<notin> rq_epoch ` set rqs"
  using assms by (fastforce simp: requests_ok_def frame_simps split: if_splits)+

lemma shown_ok_erase:
  assumes "requests_ok (s, rqs)" and "mountedRef s \<Longrightarrow> tenantRef s = tenantProp s"
  shows "shown_ok (cancelAndErase True s, rqs)"
  using requests_ok_erase(2) [OF assms(1), of True] assms(2) by (simp add: shown_ok_def frame_simps)

lemma requests_ok_fields [simp]:
  "requests_ok (s\<lparr>tenantProp := t, tenantRef := t'\<rparr>, rqs) = requests_ok (s, rqs)"
  "requests_ok (s\<lparr>token := tok\<rparr>, rqs) = requests_ok (s, rqs)"
  "requests_ok (s\<lparr>mountedRef := m\<rparr>, rqs) = requests_ok (s, rqs)"
  by (simp_all add: requests_ok_def)

lemma requests_ok_cong:
  "requests_ok (s, rqs) \<Longrightarrow> epochRef s' = epochRef s \<Longrightarrow> controllerRef s' = controllerRef s \<Longrightarrow>
     aborted s' = aborted s \<Longrightarrow> next_controller s' = next_controller s \<Longrightarrow> set rqs' \<subseteq> set rqs \<Longrightarrow>
     distinct (map rq_epoch rqs') \<Longrightarrow> requests_ok (s', rqs')"
  by (auto simp: requests_ok_def)

lemma requests_ok_add:
  assumes "requests_ok (s, rqs)" and "epochRef s \<notin> rq_epoch ` set rqs"
    and "rq_epoch rq = epochRef s" and "rq_controller rq = next_controller s"
  shows "requests_ok (s\<lparr>next_controller := Suc (next_controller s), controllerRef := Some (next_controller s),
    isLoading := True\<rparr>, rq # rqs)"
proof -
  have "rq_epoch x \<noteq> epochRef s" if "x \<in> set rqs" for x
    using assms(2) that by force
  then show ?thesis
    using assms by (auto simp: requests_ok_def intro: less_SucI)
qed

lemma requests_ok_show:
  assumes "requests_ok (s, rqs)"
  shows "requests_ok (fst (show_begin t s), snd (show_begin t s) # rqs)"
  unfolding show_begin_def Let_def fst_conv snd_conv
  by (rule requests_ok_add) (simp_all add: requests_ok_erase [OF assms])

lemma distinct_removeAll_map: "distinct (map f xs) \<Longrightarrow> distinct (map f (removeAll x xs))"
  by (induction xs) auto

lemma settle_fields [frame_simps]:
  "epochRef (fst (show_resolved rq v s)) = epochRef s" "epochRef (fst (show_rejected rq a e s)) = epochRef s"
  "controllerRef (fst (show_resolved rq v s)) = controllerRef s" "controllerRef (fst (show_rejected rq a e s)) = controllerRef s"
  "aborted (fst (show_resolved rq v s)) = aborted s" "aborted (fst (show_rejected rq a e s)) = aborted s"
  "next_controller (fst (show_resolved rq v s)) = next_controller s" "next_controller (fst (show_rejected rq a e s)) = next_controller s"
  by (simp_all add: show_resolved_def show_rejected_def finally_loading_def Let_def)

lemma requests_ok_settle:
  assumes "requests_ok (s, rqs)"
  shows "requests_ok (fst (show_resolved rq v s), removeAll rq rqs)"
    and "requests_ok (fst (show_rejected rq a e s), removeAll rq rqs)"
proof -
  have d: "distinct (map rq_epoch (removeAll rq rqs))"
    using assms distinct_removeAll_map by (auto simp: requests_ok_def)
  have sub: "set (removeAll rq rqs) \<subseteq> set rqs" by auto
  show "requests_ok (fst (show_resolved rq v s), removeAll rq rqs)"
    by (rule requests_ok_cong [OF assms _ _ _ _ sub d]) (simp_all only: frame_simps)
  show "requests_ok (fst (show_rejected rq a e s), removeAll rq rqs)"
    by (rule requests_ok_cong [OF assms _ _ _ _ sub d]) (simp_all only: frame_simps)
qed

lemma epoch_unique:
  assumes "requests_ok (s, rqs)" and "rq \<in> set rqs"
  shows "epochRef s \<in> rq_epoch ` set (removeAll rq rqs) \<longleftrightarrow> epochRef s \<in> rq_epoch ` set rqs \<and> rq_epoch rq \<noteq> epochRef s"
proof -
  have "inj_on rq_epoch (set rqs)"
    using assms(1) by (simp add: requests_ok_def distinct_map)
  then show ?thesis using assms(2) by (auto simp: inj_on_def)
qed

lemma shown_ok_settle:
  assumes "requests_ok (s, rqs)" and "shown_ok (s, rqs)" and "rq \<in> set rqs"
  shows "shown_ok (fst (show_resolved rq v s), removeAll rq rqs)"
    and "shown_ok (fst (show_rejected rq a e s), removeAll rq rqs)"
  using assms(2) epoch_unique [OF assms(1,3)] assms(3)
  by (auto simp: shown_ok_def show_resolved_def show_rejected_def finally_loading_def isCurrent_def Let_def
      simp del: set_removeAll)

lemma reveal_step_requests_ok: "reveal_step e x y \<Longrightarrow> requests_ok x \<Longrightarrow> requests_ok y"
  by (induction rule: reveal_step.induct)
    (simp_all add: requests_ok_show requests_ok_settle requests_ok_erase hide_def tenant_changed_def
      eraseForCredentialChange_def eraseForStorageChange_def unmount_def)

lemma shown_ok_show:
  assumes "shown_ok (s, rqs)"
  shows "shown_ok (fst (show_begin t s), snd (show_begin t s) # rqs)"
  using assms by (simp add: shown_ok_def show_begin_def frame_simps Let_def)

lemma reveal_step_shown_ok: "reveal_step e x y \<Longrightarrow> requests_ok x \<Longrightarrow> shown_ok x \<Longrightarrow> shown_ok y"
proof (induction rule: reveal_step.induct)
  case (other_tab tok s rqs)
  then show ?case by (simp add: shown_ok_def)
next
  case (unmount s rqs)
  then show ?case by (simp add: shown_ok_def unmount_def frame_simps)
next
  case (other_storage s key rqs)
  then show ?case by (simp add: eraseForStorageChange_def)
qed (simp_all add: shown_ok_show shown_ok_settle hide_def tenant_changed_def eraseForCredentialChange_def
    eraseForStorageChange_def, (rule shown_ok_erase; simp add: shown_ok_def)+)

text \<open>An event that erases leaves nothing to trace; another one only makes the history longer.\<close>

lemma history_ok_erased: "requests_ok (s, rqs) \<Longrightarrow> history_ok es (cancelAndErase True s, rqs)"
  by (force simp: history_ok_def requests_ok_def frame_simps)

lemma history_ok_unmounted: "\<not> mountedRef s \<Longrightarrow> history_ok es (s, rqs)"
  by (simp add: history_ok_def)

lemma traced_more: "traced es v s \<Longrightarrow> \<not> erases e \<Longrightarrow> token s' = token s \<or> (\<exists>tok. e = RvOtherTab tok) \<Longrightarrow> tenantProp s' = tenantProp s \<Longrightarrow>
    traced (es @ [e]) v s'"
  unfolding traced_def by (elim exE conjE, rule_tac x = pre in exI, rule_tac x = rq in exI, rule_tac x = mid in exI, rule_tac x = "post @ [e]" in exI) auto

lemma asked_more:
  assumes "\<exists>pre mid. es = pre @ RvAsk rq # mid \<and> undisturbed mid" and "\<not> erases e"
  shows "\<exists>pre mid. es @ [e] = pre @ RvAsk rq # mid \<and> undisturbed mid"
proof -
  obtain pre mid where "es = pre @ RvAsk rq # mid" "undisturbed mid" using assms(1) by blast
  with assms(2) show ?thesis by (intro exI [of _ pre] exI [of _ "mid @ [e]"]) simp
qed

lemma history_ok_more:
  assumes "history_ok es (s, rqs)" and "\<not> erases e" and "set rqs' \<subseteq> set rqs" and "epochRef s' = epochRef s" and "mountedRef s' = mountedRef s"
    and "tenantProp s' = tenantProp s" and "token s' = token s \<or> (\<exists>tok. e = RvOtherTab tok)"
    and "\<And>v. mountedRef s \<Longrightarrow> resources s' = Some v \<Longrightarrow> resources s \<noteq> Some v \<Longrightarrow> traced (es @ [e]) v s'"
  shows "history_ok (es @ [e]) (s', rqs')"
  using assms(1,3-6,8) asked_more [OF _ assms(2), of es] traced_more [OF _ assms(2,7,6), of es] unfolding history_ok_def prod.case by (metis subsetD)

lemma history_resolved:
  assumes "history_ok es (s, rqs)" and "shown_ok (s, rqs)" and "rq \<in> set rqs"
  shows "history_ok (es @ [RvResolved rq revealed]) (fst (show_resolved rq revealed s), removeAll rq rqs)"
proof (rule history_ok_more [OF assms(1)])
  fix v assume m: "mountedRef s" and r: "resources (fst (show_resolved rq revealed s)) = Some v" "resources s \<noteq> Some v"
  then have current: "isCurrent rq s" "v = revealed"
    by (auto simp: show_resolved_def finally_loading_def split: if_splits)
  then obtain pre mid where es: "es = pre @ RvAsk rq # mid" "undisturbed mid"
    using assms(1,3) m by (auto simp: history_ok_def isCurrent_def)
  have "rq_tenant rq = tenantProp s" using current(1) assms(2) m by (simp add: isCurrent_def shown_ok_def)
  moreover have "rq_credential rq = token s" using current(1) by (simp add: isCurrent_def)
  ultimately show "traced (es @ [RvResolved rq revealed]) v (fst (show_resolved rq revealed s))"
    unfolding traced_def using es current(2)
    by (intro exI [of _ pre] exI [of _ rq] exI [of _ mid] exI [of _ "[]"]) (simp add: show_resolved_def finally_loading_def)
qed (auto simp: erases_def show_resolved_def finally_loading_def)

lemma history_asked: "requests_ok (s, rqs) \<Longrightarrow> history_ok (es @ [RvAsk (snd (show_begin t s))]) (fst (show_begin t s), snd (show_begin t s) # rqs)"
  using requests_ok_erase(2) [of s rqs True]
  by (force simp: history_ok_def show_begin_def frame_simps Let_def)

lemma reveal_step_history_ok:
  "reveal_step e x y \<Longrightarrow> requests_ok x \<Longrightarrow> shown_ok x \<Longrightarrow> history_ok es x \<Longrightarrow> history_ok (es @ [e]) y"
proof (induction rule: reveal_step.induct)
  case (rejected rq rqs isAbort err s)
  then show ?case
    by (intro history_ok_more [OF rejected(4)]) (auto simp: erases_def show_rejected_def finally_loading_def Let_def split: if_splits)
next
  case (other_tab tok s rqs)
  show ?case by (rule history_ok_more [OF other_tab(3)]) (simp_all add: erases_def)
next
  case (other_storage s key rqs)
  then show ?case by (intro history_ok_more [OF other_storage(5)]) (simp_all add: erases_def eraseForStorageChange_def)
qed (simp_all add: history_asked history_resolved hide_def tenant_changed_def eraseForCredentialChange_def eraseForStorageChange_def unmount_def
    history_ok_erased history_ok_unmounted frame_simps)

lemma reveal_run_invariant: "reveal_run es x \<Longrightarrow> requests_ok x \<and> shown_ok x \<and> history_ok es x"
proof (induction rule: reveal_run.induct)
  case (initial t tok)
  show ?case by (simp add: requests_ok_def shown_ok_def history_ok_def mount_def frame_simps)
next
  case (step es x e y)
  then show ?case using reveal_step_requests_ok reveal_step_shown_ok reveal_step_history_ok by blast
qed

lemma reveal_invariant: "reveal_reachable x \<Longrightarrow> requests_ok x \<and> shown_ok x"
  using reveal_run_invariant unfolding reveal_reachable_def by blast

section \<open>What the pages rely on\<close>

text \<open>The contract between the hook and a page: erasing hides, and a request made before an erasure or before
  another request never shows anything, however it ends.\<close>

locale reveal_contract =
  fixes shown :: "'s \<Rightarrow> 'r option"
    and erase :: "'s \<Rightarrow> 's"
    and ask :: "'s \<Rightarrow> 's \<times> 'q"
    and settle :: "'q \<Rightarrow> 'e + 'r \<Rightarrow> 's \<Rightarrow> 's"
    and asked :: "'s \<Rightarrow> 'q \<Rightarrow> bool"
    and late :: "'s \<Rightarrow> 'q \<Rightarrow> bool"
    and alive :: "'s \<Rightarrow> bool"
  assumes erase_hides: "alive s \<Longrightarrow> shown (erase s) = None"
    and ask_hides: "alive s \<Longrightarrow> shown (fst (ask s)) = None"
    and alive_kept: "alive (erase s) = alive s" "alive (fst (ask s)) = alive s" "alive (settle q r s) = alive s"
    and ask_asked: "asked (fst (ask s)) (snd (ask s))"
    and asked_kept: "asked s q \<Longrightarrow> asked (erase s) q" "asked s q \<Longrightarrow> asked (fst (ask s)) q" "asked s q \<Longrightarrow> asked (settle q' r s) q"
    and erase_late: "asked s q \<Longrightarrow> late (erase s) q"
    and ask_late: "asked s q \<Longrightarrow> late (fst (ask s)) q"
    and late_kept: "late s q \<Longrightarrow> late (settle q' r s) q"
    and late_unseen: "late s q \<Longrightarrow> shown (settle q r s) = shown s"
begin

lemma late_answers: "\<forall>(q, r) \<in> set answers. late s q \<Longrightarrow> shown (fold (\<lambda>(q, r). settle q r) answers s) = shown s"
proof (induction answers arbitrary: s)
  case (Cons a answers)
  obtain q r where a: "a = (q, r)" by fastforce
  have "\<forall>(q', r') \<in> set answers. late (settle q r s) q'" using Cons.prems late_kept by auto
  with Cons.IH [of "settle q r s"] Cons.prems show ?case by (simp add: a late_unseen)
qed simp

theorem erased_stays_hidden:
  assumes "alive s" and "\<forall>(q, r) \<in> set answers. asked s q"
  shows "shown (fold (\<lambda>(q, r). settle q r) answers (erase s)) = None"
  using late_answers [of answers "erase s"] erase_late erase_hides assms by (auto split: prod.splits)

end

text \<open>The end of a request as the pages see it; a failure that is not an abort.\<close>

definition settle_request :: "request \<Rightarrow> 'e + 'r \<Rightarrow> ('r, 'e) reveal \<Rightarrow> ('r, 'e) reveal" where
  "settle_request rq result s =
     (case result of Inl e \<Rightarrow> fst (show_rejected rq False e s) | Inr revealed \<Rightarrow> fst (show_resolved rq revealed s))"

lemma settle_request_fields [frame_simps]:
  "epochRef (settle_request rq r s) = epochRef s" "mountedRef (settle_request rq r s) = mountedRef s"
  by (simp_all add: settle_request_def settle_fields show_resolved_def show_rejected_def finally_loading_def Let_def split: sum.split)

lemma settle_request_old: "rq_epoch rq \<noteq> epochRef s \<Longrightarrow> resources (settle_request rq r s) = resources s"
  by (auto simp: settle_request_def show_resolved_def show_rejected_def finally_loading_def isCurrent_def Let_def split: sum.split)

lemma show_begin_fields [frame_simps]:
  "epochRef (fst (show_begin t s)) = Suc (epochRef s)" "mountedRef (fst (show_begin t s)) = mountedRef s"
  "resources (fst (show_begin t s)) = (if mountedRef s then None else resources s)"
  "rq_epoch (snd (show_begin t s)) = Suc (epochRef s)"
  by (simp_all add: show_begin_def frame_simps Let_def)

interpretation hook: reveal_contract resources hide "show_begin tenantId" settle_request
  "\<lambda>s rq. rq_epoch rq \<le> epochRef s" "\<lambda>s rq. rq_epoch rq < epochRef s" mountedRef
  for tenantId
  by unfold_locales (simp_all add: hide_def frame_simps settle_request_old)

section \<open>Properties\<close>

text \<open>C2: what a mounted hook shows is the answer to a request that was made for the tenant on display, and between the request and now nothing
  happened that hides: no other reveal, no hiding, no change of the tenant, no change of the token and no storage event. So an answer that comes
  after one of them never shows, whatever the order. The request was made with the token in force; the one exception, which lasts until the
  storage event, is that another tab has replaced the token after the answer was shown. Nothing is on display while a request is under way.\<close>

theorem revealed_belongs_to_tenant:
  assumes "reveal_run es (s, rqs)" and "mountedRef s" and "resources s = Some v"
  shows "(\<exists>pre rq mid post. es = pre @ RvAsk rq # mid @ RvResolved rq v # post \<and> list_all (\<lambda>e. \<not> erases e) (mid @ post) \<and>
      rq_tenant rq = tenantProp s \<and> (rq_credential rq = token s \<or> (\<exists>tok. RvOtherTab tok \<in> set post))) \<and> \<not> isLoading s"
  using reveal_run_invariant [OF assms(1)] assms(2,3) by (auto simp: shown_ok_def history_ok_def traced_def)

lemma revealed_belongs_to_tenant_witness:
  "\<exists>es s rqs. reveal_run es (s, rqs) \<and> resources s = Some [1 :: nat] \<and> tenantProp s = ''t1'' \<and> \<not> isLoading s \<and>
     (\<exists>rq \<in> set (concat (map (\<lambda>e. case e of RvAsk q \<Rightarrow> [q] | _ \<Rightarrow> []) es)). rq_tenant rq = ''t1'') \<and> (error s :: nat option) = None"
proof -
  let ?s = "mount ''t1'' ''k'' :: (nat list, nat) reveal"
  let ?b = "show_begin ''t1'' ?s"
  let ?es = "([] @ [RvAsk (snd ?b)]) @ [RvResolved (snd ?b) [1 :: nat]]"
  have "reveal_run [] (?s, [])" by (rule reveal_run.initial)
  then have b: "reveal_run ([] @ [RvAsk (snd ?b)]) (fst ?b, [snd ?b])"
    by (rule reveal_run.step) (rule reveal_step.reveal)
  have r: "reveal_run ?es (fst (show_resolved (snd ?b) [1] (fst ?b)), removeAll (snd ?b) [snd ?b])"
    by (rule reveal_run.step [OF b]) (rule reveal_step.resolved, simp)
  have v: "resources (fst (show_resolved (snd ?b) [1] (fst ?b))) = Some [1]"
      "mountedRef (fst (show_resolved (snd ?b) [1] (fst ?b)))"
      "tenantProp (fst (show_resolved (snd ?b) [1] (fst ?b))) = ''t1''"
      "error (fst (show_resolved (snd ?b) [1] (fst ?b))) = None"
    by (simp_all add: show_resolved_def isCurrent_def finally_loading_def show_begin_def cancelAndErase_def mount_def Let_def)
  from revealed_belongs_to_tenant [OF r v(2,1)] obtain pre rq mid post
    where e: "?es = pre @ RvAsk rq # mid @ RvResolved rq [1] # post" "rq_tenant rq = ''t1''"
    and l: "\<not> isLoading (fst (show_resolved (snd ?b) [1] (fst ?b)))" unfolding v(3) by (elim conjE exE) (rule that)
  have "rq \<in> set (concat (map (\<lambda>e. case e of RvAsk q \<Rightarrow> [q] | _ \<Rightarrow> []) ?es))" unfolding e(1) by simp
  with r v e(2) l show ?thesis by blast
qed

text \<open>C24: the loading indicator of a mounted hook is on exactly while the latest request is under way, that
  request's controller is the one \<open>hide\<close> would abort, every superseded request under way has been aborted, and
  whichever way the latest request ends the indicator goes off.\<close>

theorem reveal_loading_settles:
  assumes "reveal_reachable (s, rqs)" and "mountedRef s"
  shows "isLoading s = list_ex (\<lambda>rq. rq_epoch rq = epochRef s) rqs \<and>
    list_all (\<lambda>rq. if rq_epoch rq = epochRef s
      then controllerRef s = Some (rq_controller rq) \<and>
        \<not> isLoading (fst (show_resolved rq v s)) \<and> \<not> isLoading (fst (show_rejected rq a e s))
      else rq_controller rq \<in> set (aborted s)) rqs"
proof -
  have inv: "requests_ok (s, rqs)" "shown_ok (s, rqs)"
    using reveal_invariant [OF assms(1)] by simp_all
  have "isLoading s = list_ex (\<lambda>rq. rq_epoch rq = epochRef s) rqs"
    using inv(2) assms(2) unfolding shown_ok_def list_ex_iff prod.case by (metis (mono_tags, lifting) image_iff)
  moreover have "\<not> isLoading (fst (show_resolved rq v s)) \<and> \<not> isLoading (fst (show_rejected rq a e s))"
    if "rq_epoch rq = epochRef s" for rq
    using that assms(2) by (simp add: show_resolved_def show_rejected_def finally_loading_def Let_def)
  ultimately show ?thesis
    using inv(1) by (auto simp: requests_ok_def list_all_iff)
qed

lemma reveal_loading_settles_witness:
  "isLoading (fst (show_begin ''t1'' (mount ''t1'' ''k'' :: (nat, nat) reveal)))"
proof -
  let ?b = "show_begin ''t1'' (mount ''t1'' ''k'' :: (nat, nat) reveal)"
  have b: "reveal_reachable (fst ?b, [snd ?b])"
    unfolding reveal_reachable_def by (rule exI, rule reveal_run.step [OF reveal_run.initial], rule reveal_step.reveal)
  have "mountedRef (fst ?b)" "rq_epoch (snd ?b) = epochRef (fst ?b)"
    by (simp_all add: show_begin_def cancelAndErase_def mount_def Let_def)
  with reveal_loading_settles [OF b, of 0 False 0] show ?thesis by simp
qed

end
