(* ===== verification/Idempotency.thy ===== *)
theory Idempotency
  imports Json
begin

text \<open>
  Keys of retried requests (\<open>web/src/lib/idempotency.ts\<close>): the ref that holds the last attempt, and
  the pages' use of it, a key per attempt that is thrown away once the request has succeeded. The
  random source is a stream of keys: \<open>uuid n\<close> is the result of the \<open>n\<close>-th call of
  \<open>crypto.randomUUID()\<close>.
\<close>

record IdempotencyAttempt =
  fingerprint :: string
  attempt_key :: string

record slot =
  current :: "IdempotencyAttempt option"
  uuids_drawn :: nat

definition stableIdempotencyKey :: "(nat \<Rightarrow> string) \<Rightarrow> json \<Rightarrow> slot \<Rightarrow> string \<times> slot" where
  "stableIdempotencyKey uuid payload s =
     (let fp = stringify payload;
          fresh = (let key = uuid (uuids_drawn s) in
            (key, s\<lparr>current := Some \<lparr>fingerprint = fp, attempt_key = key\<rparr>, uuids_drawn := Suc (uuids_drawn s)\<rparr>))
      in case current s of
        Some a \<Rightarrow> if fingerprint a = fp then (attempt_key a, s) else fresh
      | None \<Rightarrow> fresh)"

definition reset_slot :: "slot \<Rightarrow> slot" where
  "reset_slot s = s\<lparr>current := None\<rparr>"

text \<open>How the pages use it: a submission takes the key of its payload, and a success empties the ref. The log
  has the payload and the key of every submission.\<close>

datatype 'p attempt = Submit 'p | Succeeded

fun attempts :: "('p \<Rightarrow> 's \<Rightarrow> string \<times> 's) \<Rightarrow> ('s \<Rightarrow> 's) \<Rightarrow> 'p attempt list \<Rightarrow> 's \<Rightarrow> ('p \<times> string) list \<times> 's" where
  "attempts draw reset [] s = ([], s)"
| "attempts draw reset (Submit p # as) s =
     (let (k, s1) = draw p s; (log, s2) = attempts draw reset as s1 in ((p, k) # log, s2))"
| "attempts draw reset (Succeeded # as) s = attempts draw reset as (reset s)"

section \<open>The contract of a retry slot\<close>

text \<open>A slot holds at most one payload with its key; drawing for the payload it holds gives that key, drawing for
  another gives a key never used before, and a reset forgets the payload but not which keys were used.\<close>

locale retry_slot =
  fixes draw :: "'p \<Rightarrow> 's \<Rightarrow> string \<times> 's"
    and reset :: "'s \<Rightarrow> 's"
    and holds :: "'s \<Rightarrow> 'p \<Rightarrow> string \<Rightarrow> bool"
    and used :: "'s \<Rightarrow> string set"
    and ok :: "'s \<Rightarrow> bool"
  assumes draw_ok: "ok s \<Longrightarrow> ok (snd (draw p s))"
    and reset_ok: "ok s \<Longrightarrow> ok (reset s)"
    and holds_inj: "holds s p k \<Longrightarrow> holds s p' k' \<Longrightarrow> p' = p \<and> k' = k"
    and holds_used: "ok s \<Longrightarrow> holds s p k \<Longrightarrow> k \<in> used s"
    and draw_kept: "holds s p k \<Longrightarrow> draw p s = (k, s)"
    and draw_fresh: "ok s \<Longrightarrow> \<forall>k. \<not> holds s p k \<Longrightarrow> draw p s = (k, s') \<Longrightarrow> k \<notin> used s \<and> holds s' p k \<and> used s \<subseteq> used s'"
    and reset_holds: "\<not> holds (reset s) p k"
    and reset_used: "used (reset s) = used s"
begin

lemma draw_cases:
  assumes "ok s" and "draw p s = (k, s')"
  obtains (kept) "holds s p k" "s' = s" | (fresh) "k \<notin> used s" "holds s' p k" "used s \<subseteq> used s'"
proof (cases "\<exists>k. holds s p k")
  case True
  with assms(2) show thesis by (metis draw_kept kept prod.inject)
next
  case False
  with assms show thesis using draw_fresh fresh by blast
qed

lemma draw_holds: "ok s \<Longrightarrow> draw p s = (k, s') \<Longrightarrow> holds s' p k \<and> ok s' \<and> used s \<subseteq> used s'"
  using draw_ok [of s p] by (auto elim: draw_cases)

theorem retry_iff:
  assumes "ok s" and "draw p s = (k, s1)" and "draw p' s1 = (k', s2)"
  shows "(k = k') = (p = p') \<and> (if p = p' then s2 = s1 else True)"
proof -
  have h: "holds s1 p k" "ok s1" using draw_holds [OF assms(1,2)] by simp_all
  from h(2) assms(3) show ?thesis
  proof (cases rule: draw_cases)
    case kept
    then show ?thesis using holds_inj [OF h(1)] by auto
  next
    case fresh
    have "k \<in> used s1" using holds_used h by blast
    moreover have "p' \<noteq> p" using fresh h assms(3) draw_kept holds_used by fastforce
    ultimately show ?thesis using fresh(1) by auto
  qed
qed

theorem fresh_after_success:
  assumes "ok s" and "draw p s = (k, s1)"
  shows "fst (draw p' (reset s1)) \<noteq> k"
proof -
  have h: "holds s1 p k" "ok s1" using draw_holds [OF assms] by simp_all
  obtain k' s2 where d: "draw p' (reset s1) = (k', s2)" by fastforce
  have "k' \<notin> used (reset s1)"
    using draw_fresh [OF reset_ok [OF h(2)] _ d] reset_holds by blast
  then show ?thesis
    using holds_used [OF h(2,1)] by (auto simp: d reset_used)
qed

lemma attempts_keys: "ok s \<Longrightarrow> (p, k) \<in> set (fst (attempts draw reset as s)) \<Longrightarrow> holds s p k \<or> k \<notin> used s"
proof (induction as arbitrary: s)
  case (Cons x as)
  show ?case
  proof (cases x)
    case (Submit q)
    obtain k1 s1 where d: "draw q s = (k1, s1)" by fastforce
    note h = draw_holds [OF Cons.prems(1) d]
    have "(p, k) = (q, k1) \<or> (p, k) \<in> set (fst (attempts draw reset as s1))"
      using Cons.prems(2) d by (auto simp: Submit split: prod.splits)
    then have "(p, k) = (q, k1) \<or> k \<notin> used s"
      using Cons.IH [of s1] h holds_inj [of s1 q k1 p k] by auto
    then show ?thesis
      using Cons.prems(1) d by (auto elim: draw_cases)
  next
    case Succeeded
    then show ?thesis
      using Cons.IH [OF reset_ok [OF Cons.prems(1)]] Cons.prems(2) by (simp add: reset_holds reset_used)
  qed
qed simp

theorem one_payload_per_key:
  "ok s \<Longrightarrow> (p, k) \<in> set (fst (attempts draw reset as s)) \<Longrightarrow> (p', k) \<in> set (fst (attempts draw reset as s)) \<Longrightarrow> p = p'"
proof (induction as arbitrary: s)
  case (Cons x as)
  show ?case
  proof (cases x)
    case (Submit q)
    obtain k1 s1 where d: "draw q s = (k1, s1)" by fastforce
    note h = draw_holds [OF Cons.prems(1) d]
    have same: "r = q" if "(r, k1) \<in> set (fst (attempts draw reset as s1))" for r
      using attempts_keys [OF _ that] h holds_inj [of s1 q k1 r k1] holds_used [of s1 q k1] by auto
    have "(r, k) = (q, k1) \<or> (r, k) \<in> set (fst (attempts draw reset as s1))"
      if "(r, k) \<in> set (fst (attempts draw reset (x # as) s))" for r
      using that d by (auto simp: Submit split: prod.splits)
    then show ?thesis
      using Cons.prems(2,3) Cons.IH [of s1] h same by blast
  next
    case Succeeded
    then show ?thesis
      using Cons.IH [OF reset_ok [OF Cons.prems(1)]] Cons.prems(2,3) by simp
  qed
qed simp

end

section \<open>The slot of the pages\<close>

definition slot_ok :: "(nat \<Rightarrow> string) \<Rightarrow> slot \<Rightarrow> bool" where
  "slot_ok uuid s \<longleftrightarrow> (\<forall>a. current s = Some a \<longrightarrow> (\<exists>n < uuids_drawn s. attempt_key a = uuid n))"

definition slot_holds :: "slot \<Rightarrow> json \<Rightarrow> string \<Rightarrow> bool" where
  "slot_holds s p k \<longleftrightarrow> current s = Some \<lparr>fingerprint = stringify p, attempt_key = k\<rparr>"

definition keys_drawn :: "(nat \<Rightarrow> string) \<Rightarrow> slot \<Rightarrow> string set" where
  "keys_drawn uuid s = uuid ` {..<uuids_drawn s}"

lemma stable_key_kept: "slot_holds s p k \<Longrightarrow> stableIdempotencyKey uuid p s = (k, s)"
  by (simp add: slot_holds_def stableIdempotencyKey_def Let_def)

lemma stable_key_new:
  assumes "\<forall>k. \<not> slot_holds s p k"
  shows "stableIdempotencyKey uuid p s =
     (uuid (uuids_drawn s), s\<lparr>current := Some \<lparr>fingerprint = stringify p, attempt_key = uuid (uuids_drawn s)\<rparr>,
       uuids_drawn := Suc (uuids_drawn s)\<rparr>)"
proof (cases "current s")
  case (Some a)
  then have "fingerprint a \<noteq> stringify p"
    using assms by (cases a) (auto simp: slot_holds_def)
  with Some show ?thesis by (simp add: stableIdempotencyKey_def Let_def)
qed (simp add: stableIdempotencyKey_def Let_def)

lemma slot_ok_stable: "slot_ok uuid s \<Longrightarrow> slot_ok uuid (snd (stableIdempotencyKey uuid p s))"
  by (auto simp: slot_ok_def stableIdempotencyKey_def Let_def less_Suc_eq split: option.splits)

interpretation ref: retry_slot "stableIdempotencyKey uuid" reset_slot slot_holds "keys_drawn uuid" "\<lambda>s. inj uuid \<and> slot_ok uuid s"
  for uuid
proof
  show "k \<in> keys_drawn uuid s" if "inj uuid \<and> slot_ok uuid s" "slot_holds s p k" for s p k
    using that by (auto simp: slot_ok_def slot_holds_def keys_drawn_def)
  show "k \<notin> keys_drawn uuid s \<and> slot_holds s' p k \<and> keys_drawn uuid s \<subseteq> keys_drawn uuid s'"
    if "inj uuid \<and> slot_ok uuid s" "\<forall>k. \<not> slot_holds s p k" "stableIdempotencyKey uuid p s = (k, s')" for s p k s'
    using that by (auto simp: stable_key_new keys_drawn_def slot_holds_def dest: injD)
  show "inj uuid \<and> slot_ok uuid (snd (stableIdempotencyKey uuid p s))" if "inj uuid \<and> slot_ok uuid s" for s p
    using that slot_ok_stable by blast
qed (simp_all add: slot_holds_def reset_slot_def slot_ok_def keys_drawn_def stable_key_kept)

section \<open>Properties\<close>

text \<open>Two submissions in a row with no success in between send the same key exactly when their payloads
  are equal, for a random source that does not repeat: a retry is recognised by the server as a retry, and an edited form never
  is. (\<open>JSON.stringify\<close> is injective on the payloads, so the fingerprint decides equality of the values.)\<close>

theorem retry_key_iff_same_payload:
  assumes "inj uuid" and "slot_ok uuid s"
  shows "let (k, s1) = stableIdempotencyKey uuid p s; (k', s2) = stableIdempotencyKey uuid p' s1
    in (k = k' \<longleftrightarrow> p = p') \<and> (p = p' \<longrightarrow> s2 = s1)"
  using assms by (auto split: prod.split dest: ref.retry_iff [rotated])

lemma retry_key_iff_same_payload_witness:
  "let (k, s1) = stableIdempotencyKey show_nat (JObj [(''name'', JStr ''a'')]) \<lparr>current = None, uuids_drawn = 0\<rparr>;
       (k', s2) = stableIdempotencyKey show_nat (JObj [(''name'', JStr ''b'')]) s1
   in (k = k' \<longleftrightarrow> JObj [(''name'', JStr ''a'')] = JObj [(''name'', JStr ''b'')]) \<and>
     (JObj [(''name'', JStr ''a'')] = JObj [(''name'', JStr ''b'')] \<longrightarrow> s2 = s1)"
  by (rule retry_key_iff_same_payload) (auto simp: inj_def slot_ok_def)

text \<open>C12: over any history of submissions and successes, one key never stands for two different payloads, so the server never
  answers a request with the stored result of another.\<close>

theorem key_determines_payload:
  assumes "inj uuid" and "slot_ok uuid s"
    and "(p, k) \<in> set (fst (attempts (stableIdempotencyKey uuid) reset_slot as s))" and "(p', k) \<in> set (fst (attempts (stableIdempotencyKey uuid) reset_slot as s))"
  shows "p = p'"
  using ref.one_payload_per_key assms by blast

lemma key_determines_payload_witness:
  "let log = fst (attempts (stableIdempotencyKey show_nat) reset_slot [Submit (JStr ''a''), Submit (JStr ''a''), Succeeded, Submit (JStr ''b'')]
       \<lparr>current = None, uuids_drawn = 0\<rparr>)
   in (JStr ''a'', ''0'') \<in> set log \<and> (JStr ''b'', ''0'') \<notin> set log"
proof -
  let ?log = "fst (attempts (stableIdempotencyKey show_nat) reset_slot [Submit (JStr ''a''), Submit (JStr ''a''), Succeeded, Submit (JStr ''b'')]
    \<lparr>current = None, uuids_drawn = 0\<rparr>)"
  have a: "(JStr ''a'', ''0'') \<in> set ?log" by code_simp
  have "p = JStr ''a''" if "(p, ''0'') \<in> set ?log" for p
    by (rule key_determines_payload [OF _ _ that a]) (auto simp: inj_def slot_ok_def)
  with a show ?thesis unfolding Let_def by auto
qed

end
