(* ===== verification/TenantOverview.thy ===== *)
theory TenantOverview
  imports ApiTypes
begin

text \<open>
  The readiness summary of a tenant (\<open>web/src/lib/tenant-overview.ts\<close>) and the figures of the
  overview page (\<open>overview-pulse.ts\<close>). Readiness is ordered, incomplete below attention below ready,
  so that the effect of an operator's actions on it can be stated.
\<close>

section \<open>Readiness\<close>

datatype TenantReadiness = Incomplete | Attention | Ready

datatype attention_code =
    InactiveTenant
  | MissingDomain
  | MissingActiveResource
  | InactiveResources
  | IncompleteResources

record TenantOverviewSummary =
  activeResourceCount :: nat
  attentionCodes :: "attention_code list"
  incompleteResourceCount :: nat
  inactiveResourceCount :: nat
  readiness :: TenantReadiness
  readyRequirementCount :: nat
  totalResourceCount :: nat

definition resource_incomplete :: "TenantResource \<Rightarrow> bool" where
  "resource_incomplete resource \<longleftrightarrow>
     list_ex (\<lambda>field. rf_required field \<and> js_trim (rf_value field) = []) (r_fields resource)"

definition summarizeTenantOverview :: "nat \<Rightarrow> TenantResource list \<Rightarrow> string \<Rightarrow> TenantOverviewSummary" where
  "summarizeTenantOverview domainCount rs tenantStatus =
     (let tenantIsActive = (tenantStatus = ''active'');
          hasDomain = (domainCount > 0);
          activeCount = length (filter (\<lambda>resource. r_status resource = ''active'') rs);
          inactiveCount = length rs - activeCount;
          incompleteCount = length (filter resource_incomplete rs);
          hasActiveResource = (activeCount > 0);
          readyCount = length (filter id [tenantIsActive, hasDomain, hasActiveResource]);
          codes =
            (if \<not> tenantIsActive then [InactiveTenant] else []) @
            (if \<not> hasDomain then [MissingDomain] else []) @
            (if \<not> hasActiveResource then [MissingActiveResource] else []) @
            (if inactiveCount > 0 then [InactiveResources] else []) @
            (if incompleteCount > 0 then [IncompleteResources] else []);
          hasBlockingIssue = (\<not> tenantIsActive \<or> \<not> hasDomain \<or> \<not> hasActiveResource \<or> incompleteCount > 0)
      in \<lparr>activeResourceCount = activeCount, attentionCodes = codes, incompleteResourceCount = incompleteCount,
          inactiveResourceCount = inactiveCount,
          readiness = (if hasBlockingIssue then Incomplete else if inactiveCount > 0 then Attention else Ready),
          readyRequirementCount = readyCount, totalResourceCount = length rs\<rparr>)"

instantiation TenantReadiness :: linorder
begin

definition readiness_rank :: "TenantReadiness \<Rightarrow> nat" where
  "readiness_rank r = (case r of Incomplete \<Rightarrow> 0 | Attention \<Rightarrow> 1 | Ready \<Rightarrow> 2)"

definition less_eq_TenantReadiness :: "TenantReadiness \<Rightarrow> TenantReadiness \<Rightarrow> bool" where
  "less_eq_TenantReadiness a b \<longleftrightarrow> readiness_rank a \<le> readiness_rank b"

definition less_TenantReadiness :: "TenantReadiness \<Rightarrow> TenantReadiness \<Rightarrow> bool" where
  "less_TenantReadiness a b \<longleftrightarrow> readiness_rank a < readiness_rank b"

instance
  by standard
    (auto simp: less_eq_TenantReadiness_def less_TenantReadiness_def readiness_rank_def split: TenantReadiness.splits)

end

section \<open>The overview's figures\<close>

text \<open>A moment as the platform's \<open>Date\<close> gives it: the civil fields in UTC.\<close>

record utc_date =
  utc_year :: int
  utc_month :: nat

definition leap_year :: "int \<Rightarrow> bool" where
  "leap_year y \<longleftrightarrow> y mod 4 = 0 \<and> (y mod 100 \<noteq> 0 \<or> y mod 400 = 0)"

definition days_in_month :: "int \<Rightarrow> nat \<Rightarrow> nat" where
  "days_in_month y m =
     (if m = 1 then (if leap_year y then 29 else 28) else if m \<in> set [3, 5, 8, 10] then 30 else 31)"

definition pad2 :: "nat \<Rightarrow> string" where
  "pad2 n = (if n < 10 then ''0'' @ show_nat n else show_nat n)"

definition pad4 :: "int \<Rightarrow> string" where
  "pad4 y = replicate (4 - length (show_nat (nat y))) (CHR ''0'') @ show_nat (nat y)"

text \<open>\<open>toISOString().slice(0, 10)\<close> of midnight UTC of a day, for the years 0 to 9999.\<close>

definition iso_day :: "int \<Rightarrow> nat \<Rightarrow> nat \<Rightarrow> string" where
  "iso_day y m d = pad4 y @ ''-'' @ pad2 (m + 1) @ ''-'' @ pad2 d"

text \<open>\<open>Date.UTC(year, month + 1, 0)\<close> is the day before the first of the next month.\<close>

definition currentUTCMonthRange :: "utc_date \<Rightarrow> string \<times> string" where
  "currentUTCMonthRange now =
     (let year = utc_year now; month = utc_month now in
      (iso_day year month 1, iso_day year month (days_in_month year month)))"

definition countExpiringAPIClients :: "(string \<Rightarrow> int option) \<Rightarrow> ApiClient list \<Rightarrow> int \<Rightarrow> int \<Rightarrow> nat" where
  "countExpiringAPIClients date_parse clients now windowDays =
     (let from = now; through = from + windowDays * 24 * 60 * 60 * 1000 in
      length (filter (\<lambda>client.
        if c_status client \<noteq> ''active'' \<or> c_expires_at client = [] then False
        else case date_parse (c_expires_at client) of
          None \<Rightarrow> False
        | Some expiresAt \<Rightarrow> expiresAt \<ge> from \<and> expiresAt \<le> through) clients))"

definition totalUsageRequests :: "APIClientUsageRecord list \<Rightarrow> nat" where
  "totalUsageRequests records = foldl (\<lambda>total r. total + u_request_count r) 0 records"

section \<open>Facts\<close>

lemma length_filter_compl: "length xs - length (filter P xs) = length (filter (\<lambda>x. \<not> P x) xs)"
  using sum_length_filter_compl [of P xs] by simp

lemma readiness_cases:
  "readiness (summarizeTenantOverview n rs st) =
     (if st \<noteq> ''active'' \<or> n = 0 \<or> (\<forall>r \<in> set rs. r_status r \<noteq> ''active'') \<or> (\<exists>r \<in> set rs. resource_incomplete r)
      then Incomplete
      else if \<exists>r \<in> set rs. r_status r \<noteq> ''active'' then Attention else Ready)"
  by (auto simp: summarizeTenantOverview_def Let_def length_filter_compl filter_empty_conv)

lemma attention_codes_distinct: "distinct (attentionCodes (summarizeTenantOverview n rs st))"
  by (simp add: summarizeTenantOverview_def Let_def)

text \<open>The badge, the list of warnings and the counters of a tenant's overview agree: the tenant is ready
  exactly when there is no warning, needs attention exactly when the only warning is about inactive
  resources, each of the three requirements counts unless its warning is listed, no warning is listed
  twice, and the counters add up to the number of resources.\<close>

theorem overview_consistent:
  "let s = summarizeTenantOverview n rs st in
    (readiness s = Ready \<longleftrightarrow> attentionCodes s = []) \<and>
    (readiness s = Attention \<longleftrightarrow> attentionCodes s = [InactiveResources]) \<and>
    readyRequirementCount s +
      length (filter (\<lambda>c. c \<in> {InactiveTenant, MissingDomain, MissingActiveResource}) (attentionCodes s)) = 3 \<and>
    distinct (attentionCodes s) \<and>
    activeResourceCount s + inactiveResourceCount s = totalResourceCount s \<and>
    incompleteResourceCount s \<le> totalResourceCount s"
proof -
  have "length (filter (\<lambda>r. r_status r = ''active'') rs) \<le> length rs" "length (filter resource_incomplete rs) \<le> length rs"
    by simp_all
  then show ?thesis
    unfolding Let_def by (intro conjI; simp add: summarizeTenantOverview_def Let_def)
qed

definition no_worse_resource :: "TenantResource \<Rightarrow> TenantResource \<Rightarrow> bool" where
  "no_worse_resource r r' \<longleftrightarrow>
     (r_status r = ''active'' \<longrightarrow> r_status r' = ''active'') \<and> (resource_incomplete r' \<longrightarrow> resource_incomplete r)"

text \<open>An operator's repair never lowers a tenant's readiness: activating the tenant, adding a domain,
  activating a resource or filling in a required field can only keep or raise it.\<close>

theorem readiness_monotone:
  assumes "n \<le> n'" and "st = ''active'' \<longrightarrow> st' = ''active''" and "list_all2 no_worse_resource rs rs'"
  shows "readiness (summarizeTenantOverview n rs st) \<le> readiness (summarizeTenantOverview n' rs' st')"
proof -
  have fwd: "\<exists>r' \<in> set rs'. no_worse_resource r r'" if "r \<in> set rs" for r
    using assms(3) that by (fastforce simp: list_all2_conv_all_nth in_set_conv_nth)
  have bwd: "\<exists>r \<in> set rs. no_worse_resource r r'" if "r' \<in> set rs'" for r'
    using assms(3) that by (fastforce simp: list_all2_conv_all_nth in_set_conv_nth)
  have "(\<forall>r \<in> set rs'. r_status r \<noteq> ''active'') \<longrightarrow> (\<forall>r \<in> set rs. r_status r \<noteq> ''active'')"
    using fwd by (fastforce simp: no_worse_resource_def)
  moreover have "(\<exists>r \<in> set rs'. resource_incomplete r) \<longrightarrow> (\<exists>r \<in> set rs. resource_incomplete r)"
    using bwd by (fastforce simp: no_worse_resource_def)
  moreover have "(\<exists>r \<in> set rs'. r_status r \<noteq> ''active'') \<longrightarrow> (\<exists>r \<in> set rs. r_status r \<noteq> ''active'')"
    using bwd by (fastforce simp: no_worse_resource_def)
  ultimately show ?thesis
    using assms(1,2) unfolding readiness_cases
    by (auto simp: less_eq_TenantReadiness_def readiness_rank_def)
qed

definition sample_resource :: "string \<Rightarrow> string \<Rightarrow> TenantResource" where
  "sample_resource status v =
     \<lparr>r_id = ''r1'', r_alias = ''db'', r_sourceResourceId = None, r_sourceAlias = None, r_linked = False,
      r_definitionKey = ''database'', r_definitionId = ''d1'', r_name = ''Database'', r_status = status,
      r_fields = [\<lparr>rf_key = ''host'', rf_label = ''Host'', rf_dataType = ''string'', rf_required = True,
        rf_isSecret = False, rf_value = v, rf_isOverride = True, rf_origin = Local\<rparr>]\<rparr>"

lemma readiness_monotone_witness:
  "readiness (summarizeTenantOverview 0 [sample_resource ''active'' ''  ''] ''active'') \<le>
     readiness (summarizeTenantOverview 1 [sample_resource ''active'' ''db1''] ''active'') \<and>
   readiness (summarizeTenantOverview 1 [sample_resource ''active'' ''db1''] ''active'') = Ready"
proof
  have "resource_incomplete (sample_resource ''active'' ''db1'') = False" by code_simp
  then have "no_worse_resource (sample_resource ''active'' ''  '') (sample_resource ''active'' ''db1'')"
    by (simp add: no_worse_resource_def) (simp add: sample_resource_def)
  then show "readiness (summarizeTenantOverview 0 [sample_resource ''active'' ''  ''] ''active'') \<le>
     readiness (summarizeTenantOverview 1 [sample_resource ''active'' ''db1''] ''active'')"
    by (intro readiness_monotone) simp_all
  show "readiness (summarizeTenantOverview 1 [sample_resource ''active'' ''db1''] ''active'') = Ready"
    by code_simp
qed

lemma totalUsageRequests_sum: "totalUsageRequests records = sum_list (map u_request_count records)"
proof -
  have "foldl (\<lambda>total r. total + u_request_count r) n records = n + sum_list (map u_request_count records)" for n
    by (induction records arbitrary: n) simp_all
  then show ?thesis by (simp add: totalUsageRequests_def)
qed

lemma countExpiring_le: "countExpiringAPIClients date_parse clients now w \<le> length clients"
  by (simp add: countExpiringAPIClients_def Let_def)

lemma length_filter_mono: "(\<And>x. P x \<Longrightarrow> Q x) \<Longrightarrow> length (filter P xs) \<le> length (filter Q xs)"
  by (induction xs) (auto simp: le_SucI)

lemma countExpiring_window_mono:
  "w \<le> w' \<Longrightarrow> countExpiringAPIClients dp clients now w \<le> countExpiringAPIClients dp clients now w'"
  unfolding countExpiringAPIClients_def Let_def
  by (rule length_filter_mono) (auto split: option.splits if_splits)

end
