(* ===== verification/I18n.thy ===== *)
theory I18n
  imports AdminApi
begin

text \<open>
  The functions of \<open>web/src/lib/i18n.tsx\<close>: locale selection, templates with named parameters, and
  the message key an error is shown as. A catalog is an association list from keys to templates; the
  functions take the catalogs as an argument. The preferences of \<open>theme.tsx\<close>, the date format and
  the avatar are here too. The flags of the language menu are emoji, outside the character model,
  and are left out.
\<close>

section \<open>Locales\<close>

datatype Locale = PtBR | EnUS | EsES

definition locale_value :: "Locale \<Rightarrow> string" where
  "locale_value l = (case l of PtBR \<Rightarrow> ''pt-BR'' | EnUS \<Rightarrow> ''en-US'' | EsES \<Rightarrow> ''es-ES'')"

definition DEFAULT_LOCALE :: Locale where
  "DEFAULT_LOCALE = PtBR"

definition LOCALE_STORAGE_KEY :: string where
  "LOCALE_STORAGE_KEY = ''tenancitLocale''"

text \<open>The labels of the options, with their values.\<close>

definition LOCALE_OPTIONS :: "(string \<times> Locale) list" where
  "LOCALE_OPTIONS = [(''Portugu'' @ [CHR 0xEA] @ ''s'', PtBR), (''English'', EnUS), (''Espa'' @ [CHR 0xF1] @ ''ol'', EsES)]"

text \<open>\<open>replace\<close> with a string pattern replaces the first occurrence only.\<close>

fun replace_first :: "char \<Rightarrow> char \<Rightarrow> string \<Rightarrow> string" where
  "replace_first c d [] = []"
| "replace_first c d (x # s) = (if x = c then d # s else x # replace_first c d s)"

definition normalizeLocale :: "string option \<Rightarrow> Locale" where
  "normalizeLocale v =
     (case v of
        None \<Rightarrow> DEFAULT_LOCALE
      | Some s \<Rightarrow>
          let normalized = js_lower (replace_first (CHR ''_'') (CHR ''-'') s) in
          if normalized = ''en'' \<or> normalized = ''en-us'' then EnUS
          else if normalized = ''es'' \<or> normalized = ''es-es'' then EsES
          else if normalized = ''pt'' \<or> normalized = ''pt-br'' then PtBR
          else DEFAULT_LOCALE)"

definition readStoredLocale :: "(string \<Rightarrow> string option) \<Rightarrow> Locale" where
  "readStoredLocale localStorage = normalizeLocale (localStorage LOCALE_STORAGE_KEY)"

text \<open>The provider: its effect writes the document's language and the store, \<open>setLocale\<close> replaces the locale.\<close>

record i18n_state =
  current_locale :: Locale
  document_lang :: string
  locale_store :: "string \<Rightarrow> string option"

definition locale_effect :: "i18n_state \<Rightarrow> i18n_state" where
  "locale_effect s = s\<lparr>document_lang := locale_value (current_locale s),
     locale_store := (locale_store s)(LOCALE_STORAGE_KEY \<mapsto> locale_value (current_locale s))\<rparr>"

definition setLocale :: "Locale \<Rightarrow> i18n_state \<Rightarrow> i18n_state" where
  "setLocale next' s = locale_effect (s\<lparr>current_locale := next'\<rparr>)"

definition mountI18n :: "string \<Rightarrow> (string \<Rightarrow> string option) \<Rightarrow> i18n_state" where
  "mountI18n lang store =
     locale_effect \<lparr>current_locale = readStoredLocale store, document_lang = lang, locale_store = store\<rparr>"

section \<open>Templates\<close>

type_synonym catalog = "(string \<times> string) list"

type_synonym params = "(string \<times> string) list"

definition word_char :: "char \<Rightarrow> bool" where
  "word_char c \<longleftrightarrow> is_alnum c \<or> c = CHR ''_''"

text \<open>\<open>template.replace(/\{(\w+)\}/g, \<dots>)\<close>: a placeholder that is not among the parameters is replaced
  by the empty string.\<close>

function interpolate :: "string \<Rightarrow> params \<Rightarrow> string" where
  "interpolate [] ps = []"
| "interpolate (c # s) ps =
     (let name = takeWhile word_char s; rest = dropWhile word_char s in
      if c = CHR ''{'' \<and> name \<noteq> [] \<and> rest \<noteq> [] \<and> hd rest = CHR ''}''
      then some_or (map_of ps name) [] @ interpolate (tl rest) ps
      else c # interpolate s ps)"
  by pat_completeness auto
termination
  by (relation "measure (length \<circ> fst)") (auto simp: less_Suc_eq_le length_dropWhile_le intro: le_trans [OF diff_le_self])

text \<open>The names of the placeholders of a template.\<close>

function placeholders :: "string \<Rightarrow> string list" where
  "placeholders [] = []"
| "placeholders (c # s) =
     (let name = takeWhile word_char s; rest = dropWhile word_char s in
      if c = CHR ''{'' \<and> name \<noteq> [] \<and> rest \<noteq> [] \<and> hd rest = CHR ''}''
      then name # placeholders (tl rest)
      else placeholders s)"
  by pat_completeness auto
termination
  by (relation "measure length") (auto simp: less_Suc_eq_le length_dropWhile_le intro: le_trans [OF diff_le_self])

definition translate :: "(Locale \<Rightarrow> catalog) \<Rightarrow> Locale \<Rightarrow> string \<Rightarrow> params \<Rightarrow> string option" where
  "translate messages l key ps =
     (case map_of (messages l) key of
        Some template \<Rightarrow> Some (interpolate template ps)
      | None \<Rightarrow> map_option (\<lambda>template. interpolate template ps) (map_of (messages PtBR) key))"

definition hasTranslation :: "(Locale \<Rightarrow> catalog) \<Rightarrow> string \<Rightarrow> bool" where
  "hasTranslation messages key \<longleftrightarrow> map_of (messages PtBR) key \<noteq> None"

definition formatStatus :: "(Locale \<Rightarrow> catalog) \<Rightarrow> string \<Rightarrow> (string \<Rightarrow> string) \<Rightarrow> string" where
  "formatStatus messages status t =
     (let key = ''status.'' @ status in if hasTranslation messages key then t key else status)"

section \<open>Errors\<close>

definition apiErrorMessage :: "api_error \<Rightarrow> string" where
  "apiErrorMessage error =
     (case error of
        ApiTimeoutError _ \<Rightarrow> ''errors.timeout''
      | ApiError status serverMessage \<Rightarrow>
          if serverMessage = ''definition_in_use'' then ''errors.definitionInUse''
          else if status = 400 then ''errors.invalidData''
          else if status = 401 then ''auth.invalidToken''
          else if status = 403 then ''errors.forbidden''
          else if status = 404 then ''errors.notFound''
          else if status = 409 then ''errors.conflict''
          else if status = 412 \<or> status = 428 then ''errors.precondition''
          else if status \<ge> 500 then ''errors.server''
          else ''errors.generic''
      | _ \<Rightarrow> ''errors.generic'')"

section \<open>Theme\<close>

datatype ResolvedTheme = Dark | Light

datatype ThemePreference = Fixed ResolvedTheme | System

definition theme_value :: "ThemePreference \<Rightarrow> string" where
  "theme_value p = (case p of Fixed Dark \<Rightarrow> ''dark'' | Fixed Light \<Rightarrow> ''light'' | System \<Rightarrow> ''system'')"

definition THEME_STORAGE_KEY :: string where
  "THEME_STORAGE_KEY = ''tenancitTheme''"

definition normalizeTheme :: "string option \<Rightarrow> ThemePreference" where
  "normalizeTheme v =
     (if v = Some ''dark'' then Fixed Dark else if v = Some ''light'' then Fixed Light else System)"

text \<open>\<open>prefersDark\<close> is what the media query says, \<^const>\<open>None\<close> without \<open>matchMedia\<close>.\<close>

definition resolveTheme :: "bool option \<Rightarrow> ThemePreference \<Rightarrow> ResolvedTheme" where
  "resolveTheme prefersDark theme =
     (case theme of
        Fixed r \<Rightarrow> r
      | System \<Rightarrow> (case prefersDark of None \<Rightarrow> Light | Some b \<Rightarrow> if b then Dark else Light))"

record theme_state =
  theme :: ThemePreference
  resolvedTheme :: ResolvedTheme
  root_dark :: bool
  root_colorScheme :: ResolvedTheme
  theme_store :: "string \<Rightarrow> string option"
  media_listener :: bool

definition applyTheme :: "bool option \<Rightarrow> theme_state \<Rightarrow> theme_state" where
  "applyTheme prefersDark s =
     (let resolved = resolveTheme prefersDark (theme s) in
      s\<lparr>root_dark := (resolved = Dark), root_colorScheme := resolved, resolvedTheme := resolved\<rparr>)"

text \<open>The provider's effect, run for each new preference; its cleanup removed the listener before.\<close>

definition theme_effect :: "bool option \<Rightarrow> theme_state \<Rightarrow> theme_state" where
  "theme_effect prefersDark s =
     (let s = applyTheme prefersDark s;
          s = s\<lparr>theme_store := (theme_store s)(THEME_STORAGE_KEY \<mapsto> theme_value (theme s))\<rparr> in
      s\<lparr>media_listener := (theme s = System \<and> prefersDark \<noteq> None)\<rparr>)"

definition setTheme :: "ThemePreference \<Rightarrow> bool option \<Rightarrow> theme_state \<Rightarrow> theme_state" where
  "setTheme next' prefersDark s = theme_effect prefersDark (s\<lparr>theme := next'\<rparr>)"

definition media_change :: "bool option \<Rightarrow> theme_state \<Rightarrow> theme_state" where
  "media_change prefersDark s = (if media_listener s then applyTheme prefersDark s else s)"

definition mountTheme :: "bool option \<Rightarrow> (string \<Rightarrow> string option) \<Rightarrow> theme_state" where
  "mountTheme prefersDark store =
     (let p = normalizeTheme (store THEME_STORAGE_KEY); r = resolveTheme prefersDark p in
      theme_effect prefersDark
        \<lparr>theme = p, resolvedTheme = r, root_dark = False, root_colorScheme = Light, theme_store = store,
         media_listener = False\<rparr>)"

section \<open>Dates and avatars\<close>

text \<open>\<open>date_of\<close> is \<open>new Date(value)\<close> with its time, \<open>intl\<close> the platform's formatter.\<close>

definition formatDate :: "(string \<Rightarrow> int option) \<Rightarrow> (Locale \<Rightarrow> int \<Rightarrow> string) \<Rightarrow> Locale \<Rightarrow> string \<Rightarrow> string" where
  "formatDate date_of intl l v = (case date_of v of None \<Rightarrow> [CHR 0x97] | Some time \<Rightarrow> intl l time)"

text \<open>The capitals of the micro sign and of the florin sign are outside the repertoire, and so are names with them.\<close>

definition js_upper_char :: "char \<Rightarrow> string" where
  "js_upper_char c =
     (let n = code c in
      if 97 \<le> n \<and> n \<le> 122 \<or> 224 \<le> n \<and> n \<le> 254 \<and> n \<noteq> 247 then [char_of (n - 32)]
      else if n = 154 \<or> n = 156 \<or> n = 158 then [char_of (n - 16)]
      else if n = 255 then [char_of (159 :: nat)]
      else if n = 223 then ''SS''
      else [c])"

definition js_upper :: "string \<Rightarrow> string" where
  "js_upper s = concat (map js_upper_char s)"

text \<open>\<open>split(/\s+/)\<close> followed by \<open>filter(Boolean)\<close>: the maximal runs of characters that are not blank.\<close>

fun js_words :: "string \<Rightarrow> string list" where
  "js_words [] = []"
| "js_words (c # s) =
     (if js_space c then js_words s
      else case s of [] \<Rightarrow> [[c]]
        | d # r \<Rightarrow> if js_space d then [c] # js_words s
                 else case js_words s of [] \<Rightarrow> [[c]] | w # ws \<Rightarrow> (c # w) # ws)"

definition initials :: "string option \<Rightarrow> string" where
  "initials name =
     (let parts = js_words (js_trim (some_or name [])) in
      if length parts = 0 then ''?''
      else if length parts = 1 then js_upper (js_slice 0 2 (parts ! 0))
      else js_upper (take 1 (parts ! 0) @ take 1 (parts ! (length parts - 1))))"

text \<open>\<open>(hash * 31 + charCode) >>> 0\<close>: both operands stay below \<open>2 ^ 53\<close>, so the product is exact and the
  shift takes it modulo \<open>2 ^ 32\<close>. \<open>charCodeAt\<close> of the repertoire is the code point.\<close>

definition avatar_hash :: "string \<Rightarrow> nat" where
  "avatar_hash s = foldl (\<lambda>hash c. (hash * 31 + code_point c) mod 2 ^ 32) 0 s"

definition avatarHue :: "string option \<Rightarrow> string" where
  "avatarHue seed = ''hsl('' @ show_nat (avatar_hash (some_or seed []) mod 360) @ '' 45% 42%)''"

definition apiClientCreatedAtSortValue :: "(string \<Rightarrow> int option) \<Rightarrow> string option \<Rightarrow> int" where
  "apiClientCreatedAtSortValue date_parse v = some_or (date_parse (some_or v [])) 0"

section \<open>Preferences\<close>

lemma normalizeLocale_value [simp]: "normalizeLocale (Some (locale_value l)) = l"
  by (cases l; hypsubst; code_simp)

lemma normalizeTheme_value [simp]: "normalizeTheme (Some (theme_value p)) = p"
  by (auto simp: normalizeTheme_def theme_value_def split: ThemePreference.split ResolvedTheme.split)

lemma mountI18n_locale [simp]: "current_locale (mountI18n lang store) = readStoredLocale store"
  by (simp add: mountI18n_def locale_effect_def)

lemma mountTheme_theme [simp]: "theme (mountTheme prefersDark store) = normalizeTheme (store THEME_STORAGE_KEY)"
  by (simp add: mountTheme_def theme_effect_def applyTheme_def Let_def)

text \<open>A choice of language or theme survives a reload of the page: mounting the providers on the store
  the choice left gives the same choice back, with the document's language and the root's colour scheme set to it.\<close>

theorem preferences_survive_reload:
  "let s = mountI18n lang (locale_store (setLocale l st)); p = mountTheme prefersDark (theme_store (setTheme th prefersDark' ts))
   in current_locale s = l \<and> document_lang s = locale_value l \<and>
      theme p = th \<and> resolvedTheme p = resolveTheme prefersDark th \<and> root_colorScheme p = resolvedTheme p \<and>
      (root_dark p \<longleftrightarrow> resolvedTheme p = Dark)"
proof -
  have "theme_store (setTheme th prefersDark' ts) THEME_STORAGE_KEY = Some (theme_value th)"
    by (simp add: setTheme_def theme_effect_def applyTheme_def Let_def)
  then have "mountTheme prefersDark (theme_store (setTheme th prefersDark' ts)) =
      theme_effect prefersDark \<lparr>theme = th, resolvedTheme = resolveTheme prefersDark th, root_dark = False,
        root_colorScheme = Light, theme_store = theme_store (setTheme th prefersDark' ts), media_listener = False\<rparr>"
    by (simp add: mountTheme_def Let_def)
  moreover have "readStoredLocale (locale_store (setLocale l st)) = l"
    by (simp add: readStoredLocale_def setLocale_def locale_effect_def)
  ultimately show ?thesis
    by (simp add: Let_def mountI18n_def locale_effect_def theme_effect_def applyTheme_def)
qed

section \<open>Templates and errors\<close>

lemma interpolate_cong:
  "(\<And>k. k \<in> set (placeholders template) \<Longrightarrow> some_or (map_of ps k) [] = some_or (map_of qs k) []) \<Longrightarrow>
     interpolate template ps = interpolate template qs"
proof (induction template rule: placeholders.induct)
  case (2 c s)
  show ?case
  proof (cases "c = CHR ''{'' \<and> takeWhile word_char s \<noteq> [] \<and> dropWhile word_char s \<noteq> [] \<and> hd (dropWhile word_char s) = CHR ''}''")
    case True
    then have p: "placeholders (c # s) = takeWhile word_char s # placeholders (tl (dropWhile word_char s))"
      by (simp add: Let_def)
    have "interpolate (tl (dropWhile word_char s)) ps = interpolate (tl (dropWhile word_char s)) qs"
      by (rule 2(1) [OF refl refl True]) (use 2(3) p in simp)
    moreover have "some_or (map_of ps (takeWhile word_char s)) [] = some_or (map_of qs (takeWhile word_char s)) []"
      using 2(3) p by simp
    ultimately show ?thesis using True by (simp add: Let_def)
  next
    case False
    then have p: "placeholders (c # s) = placeholders s"
      by (simp add: Let_def) blast
    have "interpolate s ps = interpolate s qs"
      by (rule 2(2) [OF refl refl False]) (use 2(3) p in simp)
    with False show ?thesis by (auto simp: Let_def)
  qed
qed simp

lemma interpolate_no_placeholder: "placeholders template = [] \<Longrightarrow> interpolate template ps = template"
proof (induction template rule: placeholders.induct)
  case (2 c s)
  then show ?case by (auto simp: Let_def split: if_splits)
qed simp

definition error_keys :: "string list" where
  "error_keys = [''errors.timeout'', ''errors.definitionInUse'', ''errors.invalidData'', ''auth.invalidToken'',
     ''errors.forbidden'', ''errors.notFound'', ''errors.conflict'', ''errors.precondition'', ''errors.server'',
     ''errors.generic'']"

text \<open>An error is always shown as one of ten messages of the catalog, never as text of the server: two
  errors with the same status and the same answer to whether the server named a definition in use are
  shown alike, and anything that is not an API error as the generic message.\<close>

theorem error_message_from_catalog:
  "apiErrorMessage e \<in> set error_keys \<and>
   apiErrorMessage (ApiError status m) =
     apiErrorMessage (ApiError status (if m = ''definition_in_use'' then m else [])) \<and>
   apiErrorMessage (FetchError m) = ''errors.generic''"
  by (auto simp: apiErrorMessage_def error_keys_def split: api_error.split)

lemma avatar_hash_less: "avatar_hash s < 2 ^ 32"
  by (cases s rule: rev_cases) (simp_all add: avatar_hash_def)

lemma avatar_product_exact: "avatar_hash s * 31 + code_point c < 2 ^ 53"
proof -
  have "code_point c < 9000"
    using code_less [of c] windows_1252_high_less [of "code c - 128"] by (auto simp: code_point_def Let_def)
  then show ?thesis using avatar_hash_less [of s] by simp
qed

end
