(* ===== verification/Navigation.thy ===== *)
theory Navigation
  imports Prelude
begin

text \<open>
  Permissions and the navigation (\<open>web/src/lib/admin-permissions.ts\<close>, \<open>admin-capabilities.tsx\<close>,
  \<open>admin-capabilities-context.ts\<close>, \<open>admin-navigation.ts\<close>), and the heading of a page
  (\<open>pageLabel\<close>, \<open>pageDescription\<close> and \<open>pageHasOwnHeading\<close> of \<open>components/app-shell.tsx\<close>). Labels are
  message keys. The icons of the items are left out.
\<close>

section \<open>Permissions\<close>

datatype AdminPermission =
    AdminRead | AuditRead | AuditExport | AuditManage
  | ApiClientManage | IntegrationManage | ResourceWritePermission
  | SecretReveal | SessionManage | SettingsManage
  | TenantHardDelete | TenantWrite

definition permission_text :: "AdminPermission \<Rightarrow> string" where
  "permission_text p =
     (case p of
        AdminRead \<Rightarrow> ''admin.read'' | AuditRead \<Rightarrow> ''audit.read'' | AuditExport \<Rightarrow> ''audit.export'' | AuditManage \<Rightarrow> ''audit.manage''
      | ApiClientManage \<Rightarrow> ''api_client.manage'' | IntegrationManage \<Rightarrow> ''integration.manage'' | ResourceWritePermission \<Rightarrow> ''resource.write''
      | SecretReveal \<Rightarrow> ''secret.reveal'' | SessionManage \<Rightarrow> ''session.manage'' | SettingsManage \<Rightarrow> ''settings.manage''
      | TenantHardDelete \<Rightarrow> ''tenant.hard_delete'' | TenantWrite \<Rightarrow> ''tenant.write'')"

definition ALL_ADMIN_PERMISSIONS :: "string list" where
  "ALL_ADMIN_PERMISSIONS = map permission_text
     [AdminRead, AuditRead, AuditExport, AuditManage, ApiClientManage, IntegrationManage, ResourceWritePermission,
      SecretReveal, SessionManage, SettingsManage, TenantHardDelete, TenantWrite]"

record AdminCapabilities =
  capability_permissions :: "string list"

definition can :: "AdminCapabilities \<Rightarrow> AdminPermission \<Rightarrow> bool" where
  "can caps permission \<longleftrightarrow> permission_text permission \<in> set (capability_permissions caps)"

definition AdminCapabilitiesProvider :: "string list \<Rightarrow> AdminCapabilities" where
  "AdminCapabilitiesProvider permissions = \<lparr>capability_permissions = permissions\<rparr>"

text \<open>The context's default, outside every provider.\<close>

definition default_capabilities :: AdminCapabilities where
  "default_capabilities = \<lparr>capability_permissions = ALL_ADMIN_PERMISSIONS\<rparr>"

section \<open>Groups\<close>

record NavItem =
  nav_exact :: bool
  nav_label :: string
  nav_permission :: AdminPermission
  nav_to :: string

record NavGroup =
  group_label :: string
  group_items :: "NavItem list"

definition nav_item :: "string \<Rightarrow> AdminPermission \<Rightarrow> string \<Rightarrow> NavItem" where
  "nav_item label permission dest = \<lparr>nav_exact = False, nav_label = label, nav_permission = permission, nav_to = dest\<rparr>"

definition NAV_GROUPS :: "NavGroup list" where
  "NAV_GROUPS =
     [\<lparr>group_label = ''nav.management'', group_items =
         [(nav_item ''nav.overview'' AdminRead ''/'')\<lparr>nav_exact := True\<rparr>,
          nav_item ''nav.tenants'' AdminRead ''/tenants'',
          nav_item ''nav.definitions'' AdminRead ''/resource-definitions'',
          nav_item ''nav.apiClients'' AdminRead ''/api-clients'',
          nav_item ''nav.usage'' AdminRead ''/usage'']\<rparr>,
      \<lparr>group_label = ''nav.operations'', group_items =
         [nav_item ''nav.health'' AdminRead ''/operations/health'',
          nav_item ''nav.integrations'' IntegrationManage ''/integrations/webhooks'',
          nav_item ''nav.audit'' AuditRead ''/audit-events'']\<rparr>,
      \<lparr>group_label = ''nav.system'', group_items =
         [nav_item ''nav.sessions'' SessionManage ''/security/sessions'',
          nav_item ''nav.settings'' AdminRead ''/operations/settings'']\<rparr>]"

definition visibleNavGroups :: "string list \<Rightarrow> NavGroup list" where
  "visibleNavGroups permissions =
     filter (\<lambda>group. length (group_items group) > 0)
       (map (\<lambda>group. group\<lparr>group_items :=
           filter (\<lambda>item. permission_text (nav_permission item) \<in> set permissions) (group_items group)\<rparr>) NAV_GROUPS)"

definition nav_active :: "string \<Rightarrow> NavItem \<Rightarrow> bool" where
  "nav_active pathname item =
     (if nav_exact item then pathname = nav_to item else js_starts_with pathname (nav_to item))"

section \<open>Page headings\<close>

definition pageLabel :: "string \<Rightarrow> (string \<Rightarrow> string) \<Rightarrow> string" where
  "pageLabel pathname t =
     (if pathname = ''/'' then t ''overview.title''
      else if pathname = ''/tenants'' then t ''tenants.title''
      else if js_starts_with pathname ''/tenants'' then t ''nav.tenants''
      else if pathname = ''/resource-definitions'' then t ''definitions.title''
      else if js_starts_with pathname ''/resource-definitions'' then t ''nav.definitions''
      else if js_starts_with pathname ''/api-clients'' then t ''apiClients.title''
      else if js_starts_with pathname ''/usage'' then t ''usage.title''
      else if js_starts_with pathname ''/operations/health'' then t ''operationsHealth.title''
      else if js_starts_with pathname ''/audit-events'' then t ''audit.title''
      else if js_starts_with pathname ''/security/sessions'' then t ''sessions.title''
      else if js_starts_with pathname ''/operations/settings'' then t ''settings.title''
      else if js_starts_with pathname ''/integrations/webhooks'' then t ''integrations.title''
      else [])"

definition pageHasOwnHeading :: "string \<Rightarrow> bool" where
  "pageHasOwnHeading pathname \<longleftrightarrow>
     js_starts_with pathname ''/tenants/'' \<or> js_starts_with pathname ''/resource-definitions/''"

definition pageDescription :: "string \<Rightarrow> (string \<Rightarrow> string) \<Rightarrow> string" where
  "pageDescription pathname t =
     (if pathname = ''/'' then t ''overview.description''
      else if pathname = ''/tenants'' then t ''tenants.description''
      else if pathname = ''/resource-definitions'' then t ''definitions.description''
      else if pathname = ''/api-clients'' then t ''apiClients.description''
      else if pathname = ''/usage'' then t ''usage.description''
      else if js_starts_with pathname ''/operations/health'' then t ''operationsHealth.description''
      else if js_starts_with pathname ''/audit-events'' then t ''audit.description''
      else if js_starts_with pathname ''/security/sessions'' then t ''sessions.description''
      else if js_starts_with pathname ''/integrations/webhooks'' then t ''integrations.description''
      else if js_starts_with pathname ''/operations/settings'' then t ''settings.description''
      else [])"

section \<open>What is visible\<close>

lemma permission_text_inject [simp]: "permission_text p = permission_text q \<longleftrightarrow> p = q"
  by (cases p; cases q; simp add: permission_text_def)

lemma visible_items:
  "concat (map group_items (visibleNavGroups permissions)) =
     filter (\<lambda>item. permission_text (nav_permission item) \<in> set permissions) (concat (map group_items NAV_GROUPS))"
proof -
  have "concat (map group_items (filter (\<lambda>group. length (group_items group) > 0)
      (map (\<lambda>group. group\<lparr>group_items := filter P (group_items group)\<rparr>) gs))) =
      filter P (concat (map group_items gs))" for P and gs :: "NavGroup list"
    by (induction gs) auto
  then show ?thesis unfolding visibleNavGroups_def .
qed

lemma nav_targets_distinct: "distinct (map nav_to (concat (map group_items NAV_GROUPS)))"
  by (simp add: NAV_GROUPS_def nav_item_def)

lemma length_filter_unique:
  "distinct xs \<Longrightarrow> (\<And>x y. x \<in> set xs \<Longrightarrow> y \<in> set xs \<Longrightarrow> P x \<Longrightarrow> P y \<Longrightarrow> x = y) \<Longrightarrow> length (filter P xs) \<le> 1"
proof (induction xs)
  case (Cons x xs)
  show ?case
  proof (cases "P x")
    case True
    then have "filter P xs = []"
      using Cons.prems by (auto simp: filter_empty_conv)
    with True show ?thesis by simp
  next
    case False
    with Cons show ?thesis by simp
  qed
qed simp

lemma nav_targets_apart:
  "list_all (\<lambda>x. list_all (\<lambda>y. js_starts_with (nav_to y) (nav_to x) \<longrightarrow> nav_exact x \<or> nav_to x = nav_to y)
     (concat (map group_items NAV_GROUPS))) (concat (map group_items NAV_GROUPS))"
  by code_simp

lemma nav_active_unique: "length (filter (nav_active pathname) (concat (map group_items NAV_GROUPS))) \<le> 1"
proof (rule length_filter_unique)
  show "distinct (concat (map group_items NAV_GROUPS))"
    using nav_targets_distinct by (simp add: distinct_map)
  fix x y
  assume x: "x \<in> set (concat (map group_items NAV_GROUPS))" and y: "y \<in> set (concat (map group_items NAV_GROUPS))"
    and a: "nav_active pathname x" "nav_active pathname y"
  have apart: "nav_to x = nav_to y" if "x \<in> set (concat (map group_items NAV_GROUPS))" "y \<in> set (concat (map group_items NAV_GROUPS))"
      "nav_active pathname x" "nav_active pathname y" "prefix (nav_to x) (nav_to y)" for x y
  proof (cases "nav_exact x")
    case True
    then show ?thesis
      using that(3-5) by (auto simp: nav_active_def js_starts_with_prefix split: if_splits)
  next
    case False
    have "js_starts_with (nav_to y) (nav_to x) \<longrightarrow> nav_exact x \<or> nav_to x = nav_to y"
      using nav_targets_apart that(1,2) unfolding list_all_iff by blast
    with False that(5) show ?thesis by (simp add: js_starts_with_prefix)
  qed
  have "prefix (nav_to x) pathname" "prefix (nav_to y) pathname"
    using a by (auto simp: nav_active_def js_starts_with_prefix split: if_splits)
  then have "prefix (nav_to x) (nav_to y) \<or> prefix (nav_to y) (nav_to x)"
    by (rule prefix_same_cases)
  then have "nav_to x = nav_to y"
    using apart [OF x y a] apart [OF y x a(2,1)] by auto
  then show "x = y"
    using nav_targets_distinct x y by (metis distinct_map inj_onD)
qed

text \<open>The navigation shows exactly the destinations whose permission is held, in their fixed order and
  without an empty group, on every page at most one entry is marked as the current one, and no
  destination appears twice.\<close>

theorem navigation_shows_permitted:
  "concat (map group_items (visibleNavGroups permissions)) =
     filter (\<lambda>item. can (AdminCapabilitiesProvider permissions) (nav_permission item)) (concat (map group_items NAV_GROUPS)) \<and>
   list_all (\<lambda>group. group_items group \<noteq> []) (visibleNavGroups permissions) \<and>
   distinct (map nav_to (concat (map group_items (visibleNavGroups permissions)))) \<and>
   length (filter (nav_active pathname) (concat (map group_items (visibleNavGroups permissions)))) \<le> 1"
proof -
  have le: "length (filter P (filter Q xs)) \<le> length (filter P xs)" for P Q and xs :: "NavItem list"
    by (induction xs) auto
  show ?thesis
  proof (intro conjI)
    show "list_all (\<lambda>group. group_items group \<noteq> []) (visibleNavGroups permissions)"
      by (auto simp: visibleNavGroups_def list_all_iff)
    show "distinct (map nav_to (concat (map group_items (visibleNavGroups permissions))))"
      unfolding visible_items by (rule distinct_map_filter) (rule nav_targets_distinct)
    show "length (filter (nav_active pathname) (concat (map group_items (visibleNavGroups permissions)))) \<le> 1"
      unfolding visible_items using le nav_active_unique by (rule order_trans)
  qed (simp add: visible_items can_def AdminCapabilitiesProvider_def)
qed

end
