(* ===== verification/View.thy ===== *)
theory View
  imports Prelude
begin

text \<open>
  What a component renders: a tree of elements and texts, each element with its attributes, the
  actions of its event handlers and its children. \<open>'a\<close> is the component's type of actions. Class
  names and other styling are left out; an attribute that is a flag (\<open>disabled\<close>, \<open>required\<close>) is
  present shown_if it is set. \<open>offered\<close> are the actions a user can trigger: those of the elements that
  are not disabled.
\<close>

datatype 'a view =
    Txt string
  | Elem string "(string \<times> string) list" "(string \<times> 'a) list" "'a view list"

definition el :: "string \<Rightarrow> (string \<times> string) list \<Rightarrow> 'a view list \<Rightarrow> 'a view" where
  "el tag attrs children = Elem tag attrs [] children"

definition flag :: "string \<Rightarrow> bool \<Rightarrow> (string \<times> string) list" where
  "flag name b = (if b then [(name, ''true'')] else [])"

definition shown_if :: "bool \<Rightarrow> 'a view \<Rightarrow> 'a view list" where
  "shown_if b v = (if b then [v] else [])"

definition button :: "(string \<times> string) list \<Rightarrow> 'a \<Rightarrow> 'a view list \<Rightarrow> 'a view" where
  "button attrs a children = Elem ''button'' attrs [(''onClick'', a)] children"

definition is_disabled :: "(string \<times> string) list \<Rightarrow> bool" where
  "is_disabled attrs \<longleftrightarrow> (''disabled'', ''true'') \<in> set attrs"

primrec offered :: "'a view \<Rightarrow> 'a list" where
  "offered (Txt s) = []"
| "offered (Elem tag attrs on children) =
     (if is_disabled attrs then [] else map snd on @ concat (map offered children))"

primrec texts :: "'a view \<Rightarrow> string list" where
  "texts (Txt s) = [s]"
| "texts (Elem tag attrs on children) = concat (map texts children)"

primrec tags :: "'a view \<Rightarrow> string list" where
  "tags (Txt s) = []"
| "tags (Elem tag attrs on children) = tag # concat (map tags children)"

named_theorems view_simps \<open>the actions and texts of the elements of a view\<close>

lemma is_disabled_simps [simp, view_simps]:
  "\<not> is_disabled []"
  "is_disabled (p # attrs) \<longleftrightarrow> p = (''disabled'', ''true'') \<or> is_disabled attrs"
  "is_disabled (a @ b) \<longleftrightarrow> is_disabled a \<or> is_disabled b"
  by (auto simp: is_disabled_def)

lemma is_disabled_flag [simp, view_simps]: "is_disabled (flag name b) \<longleftrightarrow> b \<and> name = ''disabled''"
  by (auto simp: flag_def)

lemma offered_simps [simp, view_simps]:
  "offered (el tag attrs children) = (if is_disabled attrs then [] else concat (map offered children))"
  "offered (button attrs a children) = (if is_disabled attrs then [] else a # concat (map offered children))"
  by (simp_all add: el_def button_def)

lemma texts_simps [simp, view_simps]:
  "texts (el tag attrs children) = concat (map texts children)"
  "texts (button attrs a children) = concat (map texts children)"
  by (simp_all add: el_def button_def)

lemma tags_simps [simp, view_simps]:
  "tags (el tag attrs children) = tag # concat (map tags children)"
  "tags (button attrs a children) = ''button'' # concat (map tags children)"
  by (simp_all add: el_def button_def)

lemma shown_if_simps [simp, view_simps]: "shown_if True v = [v]" "shown_if False v = []"
  by (simp_all add: shown_if_def)

lemma offered_when [view_simps]: "concat (map offered (shown_if b v)) = (if b then offered v else [])"
  by (simp add: shown_if_def)

lemma offered_map_view [simp, view_simps]: "offered (map_view f v) = map f (offered v)"
  by (induction v) (auto simp: map_concat comp_def cong: map_cong)

end
