(* ===== verification/AppShell.thy ===== *)
theory AppShell
  imports Navigation I18n View
begin

text \<open>
  The shell around every page (\<open>web/src/components/app-shell.tsx\<close>): how it learns the authentication
  mode, which screen it shows, how it follows the events of the API client, and its menus. The
  client's state (\<open>AdminApi\<close>) is part of the shell's, and the listeners the effects add to the
  window are applied to the events each client operation dispatches. A reload of the page mounts a
  new shell on what the browser keeps, the stored token.
\<close>

section \<open>State\<close>

datatype load_phase = LoadingConfig | LoadingSession | LoadingDone

record shell =
  authMessageKey :: "AdminAuthMessage option"
  draftAdminToken :: string
  hasAdminToken :: bool
  authConfig :: "AdminAuthConfig option"
  adminSession :: "AdminSession option"
  authLoadError :: bool
  remountTimer :: bool
  phase :: load_phase
  client :: client_state
  storage_event_pending :: bool

text \<open>\<open>storage_event_pending\<close> belongs to the browser: another tab has written the store and its event has
  not arrived yet.\<close>

definition oidc_mode :: "shell \<Rightarrow> bool" where
  "oidc_mode s \<longleftrightarrow> map_option ac_mode (authConfig s) = Some Oidc"

section \<open>The listeners\<close>

definition syncAdminTokenState :: "shell \<Rightarrow> shell" where
  "syncAdminTokenState s =
     (let hasNextCredential = (getAdminToken (client s) \<noteq> []) in
      s\<lparr>hasAdminToken := False, remountTimer := hasNextCredential\<rparr>)"

definition remount_timer_fires :: "shell \<Rightarrow> shell" where
  "remount_timer_fires s = (if remountTimer s then s\<lparr>hasAdminToken := True, remountTimer := False\<rparr> else s)"

definition clear_token :: "shell \<Rightarrow> shell" where
  "clear_token s = syncAdminTokenState (s\<lparr>client := clearAdminToken (client s)\<rparr>)"

definition showAdminAuth :: "AdminAuthMessage \<Rightarrow> shell \<Rightarrow> shell" where
  "showAdminAuth messageKey s =
     (let s = s\<lparr>authMessageKey := Some messageKey\<rparr> in
      if oidc_mode s then s\<lparr>adminSession := None\<rparr>
      else (clear_token (s\<lparr>draftAdminToken := []\<rparr>))\<lparr>hasAdminToken := False\<rparr>)"

definition requestAdminAuth :: "AdminAuthMessage \<Rightarrow> shell \<Rightarrow> shell" where
  "requestAdminAuth messageKey s =
     showAdminAuth messageKey (s\<lparr>client := snd (consumePendingAdminAuthMessage (client s))\<rparr>)"

definition deliver :: "admin_event \<Rightarrow> shell \<Rightarrow> shell" where
  "deliver e s =
     (case e of TokenChange \<Rightarrow> syncAdminTokenState s | SessionChange \<Rightarrow> s | AuthRequired m \<Rightarrow> requestAdminAuth m s)"

definition run_client_op :: "(client_state \<Rightarrow> client_state) \<Rightarrow> shell \<Rightarrow> shell" where
  "run_client_op op s =
     (let st = op (client s);
          events = drop (length (dispatched (client s))) (dispatched st) in
      fold deliver events (s\<lparr>client := st\<rparr>))"

text \<open>The effect that subscribes to \<open>admin-auth-required\<close> and replays a message that came before.\<close>

definition subscribe_effect :: "shell \<Rightarrow> shell" where
  "subscribe_effect s =
     (let (pendingMessage, st) = consumePendingAdminAuthMessage (client s); s = s\<lparr>client := st\<rparr> in
      case pendingMessage of Some m \<Rightarrow> showAdminAuth m s | None \<Rightarrow> s)"

section \<open>Mounting and loading\<close>

definition mount_shell :: "client_state \<Rightarrow> shell" where
  "mount_shell st =
     subscribe_effect
       \<lparr>authMessageKey = None, draftAdminToken = getAdminToken st, hasAdminToken = (getAdminToken st \<noteq> []),
        authConfig = None, adminSession = None, authLoadError = False, remountTimer = False,
        phase = LoadingConfig, client = st, storage_event_pending = False\<rparr>"

text \<open>A reload keeps the store and loses the module's variables.\<close>

definition reload :: "shell \<Rightarrow> shell" where
  "reload s = mount_shell (no_client\<lparr>stored_token := stored_token (client s)\<rparr>)"

definition config_loaded :: "AdminAuthConfig \<Rightarrow> shell \<Rightarrow> shell" where
  "config_loaded config s =
     (let s = s\<lparr>authConfig := Some config\<rparr> in
      subscribe_effect
        (if ac_mode config = Oidc then (clear_token s)\<lparr>phase := LoadingSession\<rparr> else s\<lparr>phase := LoadingDone\<rparr>))"

definition load_failed :: "bool \<Rightarrow> shell \<Rightarrow> shell" where
  "load_failed isAbortError s =
     (let s = s\<lparr>phase := LoadingDone\<rparr> in if \<not> isAbortError then s\<lparr>authLoadError := True\<rparr> else s)"

definition session_loaded :: "(json \<Rightarrow> AdminSession) \<Rightarrow> fetch_outcome \<Rightarrow> shell \<Rightarrow> shell" where
  "session_loaded decode outcome s =
     (let (result, st) = fetchAdminSession decode outcome (client s);
          s = run_client_op (\<lambda>_. st) s in
      case result of
        Inr session \<Rightarrow> s\<lparr>adminSession := session, phase := LoadingDone\<rparr>
      | Inl e \<Rightarrow> load_failed False s)"

definition authenticated :: "shell \<Rightarrow> bool" where
  "authenticated s \<longleftrightarrow> (if oidc_mode s then adminSession s \<noteq> None else hasAdminToken s)"

text \<open>The default locale of the settings, asked for once an administrator is in who has not chosen one.\<close>

definition wants_default_locale :: "shell \<Rightarrow> (string \<Rightarrow> string option) \<Rightarrow> bool" where
  "wants_default_locale s localStorage \<longleftrightarrow>
     authenticated s \<and> (localStorage LOCALE_STORAGE_KEY = None \<or> localStorage LOCALE_STORAGE_KEY = Some [])"

definition default_locale_loaded :: "AdminSettingsSnapshot \<Rightarrow> i18n_state \<Rightarrow> i18n_state" where
  "default_locale_loaded snapshot i18n =
     (case map_of (ss_values snapshot) ''default_locale'' of
        None \<Rightarrow> i18n
      | Some configured \<Rightarrow>
          case find (\<lambda>(label, v). locale_value v = configured) LOCALE_OPTIONS of
            None \<Rightarrow> i18n
          | Some (label, v) \<Rightarrow> setLocale v i18n)"

section \<open>The user's actions\<close>

definition saveAdminToken :: "shell \<Rightarrow> shell" where
  "saveAdminToken s =
     (let tok = js_trim (draftAdminToken s) in
      if tok = [] then clear_token s
      else reload ((run_client_op (setAdminToken tok) s)\<lparr>authMessageKey := None\<rparr>))"

definition logoutAdmin :: "fetch_outcome \<Rightarrow> shell \<Rightarrow> shell" where
  "logoutAdmin outcome s =
     (if oidc_mode s then
        (let (result, st) = logoutAdminSession outcome (client s); s = run_client_op (\<lambda>_. st) s in
         case result of Inr _ \<Rightarrow> s\<lparr>adminSession := None\<rparr> | Inl e \<Rightarrow> s)
      else reload ((clear_token s)\<lparr>draftAdminToken := []\<rparr>))"

section \<open>The screen\<close>

datatype screen =
    UnavailableScreen
  | LoadingScreen
  | OIDCScreen
  | TokenScreen
  | Content

definition screen_of :: "shell \<Rightarrow> screen" where
  "screen_of s =
     (if authLoadError s then UnavailableScreen
      else case authConfig s of
        None \<Rightarrow> LoadingScreen
      | Some config \<Rightarrow>
          if ac_mode config = Oidc \<and> adminSession s = None then OIDCScreen
          else if ac_mode config = LegacySharedToken \<and> \<not> hasAdminToken s then TokenScreen
          else Content)"

definition shell_permissions :: "shell \<Rightarrow> string list" where
  "shell_permissions s =
     (if oidc_mode s then (case adminSession s of Some session \<Rightarrow> as_permissions session | None \<Rightarrow> [])
      else ALL_ADMIN_PERMISSIONS)"

section \<open>What is rendered\<close>

text \<open>\<open>'b\<close> are the actions of the page inside the shell. \<open>t\<close> is the translation of a message key.\<close>

datatype 'b shell_action =
    PageAction 'b
  | NavigateTo string
  | ToggleSidebar
  | LogoutAction
  | ReloadAction
  | FollowLogin string
  | DraftChange
  | SubmitToken
  | ToggleShowToken
  | ChooseLocale Locale
  | ChooseTheme ThemePreference

definition languageMenu :: "(string \<Rightarrow> string) \<Rightarrow> Locale \<Rightarrow> 'b shell_action view" where
  "languageMenu t l =
     el ''menu'' []
       [el ''trigger'' [(''aria-label'', t ''preferences.language''), (''title'', t ''preferences.language'')] [],
        el ''radiogroup'' [(''value'', locale_value l)]
          (map (\<lambda>(label, v). Elem ''radioitem'' [(''value'', locale_value v)] [(''onValueChange'', ChooseLocale v)] [Txt label])
            LOCALE_OPTIONS)]"

definition theme_options :: "(string \<Rightarrow> string) \<Rightarrow> (string \<times> ThemePreference) list" where
  "theme_options t =
     [(t ''preferences.theme.light'', Fixed Light), (t ''preferences.theme.dark'', Fixed Dark),
      (t ''preferences.theme.system'', System)]"

definition themeMenu :: "(string \<Rightarrow> string) \<Rightarrow> ThemePreference \<Rightarrow> ResolvedTheme \<Rightarrow> 'b shell_action view" where
  "themeMenu t pref resolved =
     (let currentLabel = (case find (\<lambda>option. snd option = pref) (theme_options t) of
            Some option \<Rightarrow> fst option | None \<Rightarrow> t ''preferences.theme.system'');
          title = t ''preferences.theme'' @ '': '' @ currentLabel in
      el ''menu'' []
        [el ''trigger'' [(''aria-label'', title), (''title'', title),
            (''icon'', if pref = System then ''Monitor'' else if resolved = Dark then ''Moon'' else ''Sun'')] [],
         el ''radiogroup'' [(''value'', theme_value pref)]
           (map (\<lambda>(label, v). Elem ''radioitem'' [(''value'', theme_value v)] [(''onValueChange'', ChooseTheme v)] [Txt label])
             (theme_options t))])"

record preferences =
  pref_locale :: Locale
  pref_theme :: ThemePreference
  pref_resolved :: ResolvedTheme

definition preferenceControls :: "(string \<Rightarrow> string) \<Rightarrow> preferences \<Rightarrow> 'b shell_action view" where
  "preferenceControls t prefs =
     el ''div'' [] [languageMenu t (pref_locale prefs), themeMenu t (pref_theme prefs) (pref_resolved prefs)]"

definition user_display_name :: "(string \<Rightarrow> string) \<Rightarrow> AdminSession option \<Rightarrow> string" where
  "user_display_name t session =
     (case session of Some s \<Rightarrow> if as_label s \<noteq> [] then as_label s else t ''auth.sharedCredential''
      | None \<Rightarrow> t ''auth.sharedCredential'')"

definition user_detail :: "(string \<Rightarrow> string) \<Rightarrow> AdminSession option \<Rightarrow> bool \<Rightarrow> string" where
  "user_detail t session sharedCredential =
     (if sharedCredential then t ''auth.sharedToken''
      else case session of
        Some s \<Rightarrow> if as_roles s \<noteq> [] then js_join '', '' (as_roles s) else t ''auth.oidcSession''
      | None \<Rightarrow> t ''auth.oidcSession'')"

definition userMenu :: "(string \<Rightarrow> string) \<Rightarrow> AdminSession option \<Rightarrow> bool \<Rightarrow> 'b shell_action view" where
  "userMenu t session sharedCredential =
     (let displayName = user_display_name t session;
          seed = (case session of Some s \<Rightarrow> if as_subject s \<noteq> [] then as_subject s else displayName | None \<Rightarrow> displayName);
          avatar = el ''span'' [(''aria-hidden'', ''true''), (''background'', avatarHue (Some seed))] [Txt (initials (Some displayName))] in
      el ''menu'' []
        [el ''trigger'' [(''aria-label'', t ''nav.account''), (''title'', displayName)] [avatar],
         el ''label'' [] [avatar, el ''div'' [] [Txt displayName], el ''div'' [] [Txt (user_detail t session sharedCredential)]],
         el ''separator'' [] [],
         Elem ''menuitem'' [] [(''onClick'', LogoutAction)] [Txt (t ''nav.logout'')]])"

definition adminAuthLoadingScreen :: "(string \<Rightarrow> string) \<Rightarrow> 'b shell_action view" where
  "adminAuthLoadingScreen t =
     el ''div'' [] [el ''div'' [(''aria-live'', ''polite''), (''role'', ''status'')] [Txt (t ''auth.loading'')]]"

definition adminAuthUnavailableScreen :: "(string \<Rightarrow> string) \<Rightarrow> preferences \<Rightarrow> 'b shell_action view" where
  "adminAuthUnavailableScreen t prefs =
     el ''div'' []
       [el ''h1'' [] [Txt (t ''auth.title'')], el ''p'' [] [Txt (t ''auth.unavailable'')],
        preferenceControls t prefs,
        button [] ReloadAction [Txt (t ''auth.retry'')]]"

definition oidcAccessScreen :: "(string \<Rightarrow> string) \<Rightarrow> preferences \<Rightarrow> string \<Rightarrow> string \<Rightarrow> 'b shell_action view" where
  "oidcAccessScreen t prefs authMessage oidcLoginURL =
     el ''div'' []
       [el ''h1'' [] [Txt (t ''auth.title'')],
        el ''p'' [] [Txt (if authMessage \<noteq> [] then authMessage else t ''auth.oidcDescription'')],
        preferenceControls t prefs,
        Elem ''a'' [(''href'', oidcLoginURL)] [(''onClick'', FollowLogin oidcLoginURL)] [Txt (t ''auth.oidcEnter'')]]"

definition adminAccessScreen :: "(string \<Rightarrow> string) \<Rightarrow> preferences \<Rightarrow> string \<Rightarrow> string \<Rightarrow> bool \<Rightarrow> 'b shell_action view" where
  "adminAccessScreen t prefs authMessage draft showToken =
     el ''form'' []
       [el ''h1'' [] [Txt (t ''auth.title'')],
        el ''p'' [] [Txt (if authMessage \<noteq> [] then authMessage else t ''auth.description'')],
        preferenceControls t prefs,
        el ''label'' [(''htmlFor'', ''admin-token'')] [Txt (t ''auth.token'')],
        Elem ''input'' [(''id'', ''admin-token''), (''autoComplete'', ''off''), (''value'', draft),
            (''type'', if showToken then ''text'' else ''password'')] [(''onChange'', DraftChange)] [],
        button [(''aria-label'', if showToken then t ''auth.hideToken'' else t ''auth.showToken'')] ToggleShowToken [],
        Elem ''button'' ([(''type'', ''submit'')] @ flag ''disabled'' (js_trim draft = [])) [(''onSubmit'', SubmitToken)]
          [Txt (t ''auth.enter'')]]"

definition sidebarView :: "(string \<Rightarrow> string) \<Rightarrow> string list \<Rightarrow> string \<Rightarrow> 'b shell_action view" where
  "sidebarView t permissions pathname =
     el ''sidebar'' []
       [el ''header'' [] [Txt (t ''app.title''), Txt (t ''app.subtitle'')],
        el ''content'' [] (map (\<lambda>group. el ''group'' []
          [el ''grouplabel'' [] [Txt (t (group_label group))],
           el ''menu'' [] (map (\<lambda>item.
             Elem ''menubutton'' ([(''aria-label'', t (nav_label item)), (''to'', nav_to item), (''tooltip'', t (nav_label item))] @
                 flag ''active'' (nav_active pathname item))
               [(''onClick'', NavigateTo (nav_to item))] [Txt (t (nav_label item))]) (group_items group))])
          (visibleNavGroups permissions))]"

definition headerView ::
  "(string \<Rightarrow> string) \<Rightarrow> preferences \<Rightarrow> string \<Rightarrow> AdminSession option \<Rightarrow> bool \<Rightarrow> 'b shell_action view" where
  "headerView t prefs pathname session sharedCredential =
     el ''header'' []
       ([button [] ToggleSidebar [],
         (if pageHasOwnHeading pathname then el ''span'' [] [Txt (pageLabel pathname t)]
          else el ''h1'' [] [Txt (pageLabel pathname t)])] @
        shown_if (pageDescription pathname t \<noteq> []) (el ''span'' [] [Txt (pageDescription pathname t)]) @
        [preferenceControls t prefs, userMenu t session sharedCredential])"

text \<open>The login address is the one the mode's configuration gives or the API's own.\<close>

definition login_url :: "string option \<Rightarrow> AdminAuthConfig \<Rightarrow> path_error + string" where
  "login_url root config =
     (case ac_login_url config of Some u \<Rightarrow> Inr u | None \<Rightarrow> buildAdminEndpoint ''/v1/auth/login'' root)"

record page_location =
  loc_pathname :: string
  loc_href :: string
  loc_origin :: string

definition auth_message_key :: "AdminAuthMessage \<Rightarrow> string" where
  "auth_message_key m =
     (case m of InvalidToken \<Rightarrow> ''auth.invalidToken'' | RequiredAccess \<Rightarrow> ''auth.requiredAccess''
      | SessionExpired \<Rightarrow> ''auth.sessionExpired'')"

text \<open>Rendering fails with the error of the login address when that cannot be built.\<close>

definition appShell ::
  "(string \<Rightarrow> string) \<Rightarrow> preferences \<Rightarrow> 'u url_api \<Rightarrow> string option \<Rightarrow> page_location \<Rightarrow> bool \<Rightarrow> 'b view \<Rightarrow> shell \<Rightarrow>
     path_error + 'b shell_action view" where
  "appShell t prefs urls root loc showToken children s =
     (let authMessage = (case authMessageKey s of Some m \<Rightarrow> t (auth_message_key m) | None \<Rightarrow> []) in
      case screen_of s of
        UnavailableScreen \<Rightarrow> Inr (adminAuthUnavailableScreen t prefs)
      | LoadingScreen \<Rightarrow> Inr (adminAuthLoadingScreen t)
      | OIDCScreen \<Rightarrow>
          (case login_url root (the (authConfig s)) of
             Inl e \<Rightarrow> Inl e
           | Inr u \<Rightarrow>
               case buildOIDCLoginURL urls \<lparr>loginURL = u, login_origin = loc_origin loc, returnTo = loc_href loc\<rparr> of
                 Inl e \<Rightarrow> Inl e
               | Inr href \<Rightarrow> Inr (oidcAccessScreen t prefs authMessage href))
      | TokenScreen \<Rightarrow> Inr (adminAccessScreen t prefs authMessage (draftAdminToken s) showToken)
      | Content \<Rightarrow>
          Inr (el ''provider'' []
            [sidebarView t (shell_permissions s) (loc_pathname loc),
             headerView t prefs (loc_pathname loc) (adminSession s)
               (map_option ac_mode (authConfig s) = Some LegacySharedToken),
             el ''main'' [] [map_view PageAction children]]))"

section \<open>Everything that can happen\<close>

inductive shell_step :: "shell \<Rightarrow> shell \<Rightarrow> bool" where
  config: "phase s = LoadingConfig \<Longrightarrow> shell_step s (config_loaded cfg s)"
| failed: "phase s = LoadingConfig \<Longrightarrow> shell_step s (load_failed isAbort s)"
| session: "phase s = LoadingSession \<Longrightarrow> shell_step s (session_loaded decode outcome s)"
| request: "shell_step s (s\<lparr>client := snd (call_start c uuid sig root (client s))\<rparr>)"
| response: "shell_step s (run_client_op (\<lambda>st. snd (req_finish f outcome st)) s)"
| timer: "shell_step s (remount_timer_fires s)"
| other_tab: "shell_step s (s\<lparr>client := (client s)\<lparr>stored_token := tok\<rparr>, storage_event_pending := True\<rparr>)"
| storage: "shell_step s (syncAdminTokenState (s\<lparr>storage_event_pending := False\<rparr>))"
| draft: "screen_of s = TokenScreen \<Longrightarrow> shell_step s (s\<lparr>draftAdminToken := v\<rparr>)"
| save: "screen_of s = TokenScreen \<Longrightarrow> shell_step s (saveAdminToken s)"
| logout: "screen_of s = Content \<Longrightarrow> shell_step s (logoutAdmin outcome s)"
| reload: "shell_step s (reload s)"

inductive shell_reachable :: "shell \<Rightarrow> bool" where
  initial: "currentAdminSession st = None \<Longrightarrow> shell_reachable (mount_shell st)"
| step: "shell_reachable s \<Longrightarrow> shell_step s s' \<Longrightarrow> shell_reachable s'"

section \<open>The invariant\<close>

text \<open>Without the single sign-on mode there is no session anywhere; a session the shell shows is the one
  the API client uses; the shell takes itself for authenticated by token only while one is stored; the session is only
  fetched in the single sign-on mode.\<close>

definition shell_ok :: "shell \<Rightarrow> bool" where
  "shell_ok s \<longleftrightarrow>
     (\<not> oidc_mode s \<longrightarrow> currentAdminSession (client s) = None \<and> adminSession s = None) \<and>
     (adminSession s \<noteq> None \<longrightarrow> currentAdminSession (client s) = adminSession s) \<and>
     (hasAdminToken s \<or> remountTimer s \<longrightarrow> getAdminToken (client s) \<noteq> [] \<or> storage_event_pending s) \<and>
     (phase s = LoadingSession \<longrightarrow> oidc_mode s) \<and>
     (phase s = LoadingConfig \<longrightarrow> authConfig s = None)"

lemma oidc_mode_updates [simp]:
  "oidc_mode (client_update g s) = oidc_mode s"
  "oidc_mode (hasAdminToken_update h s) = oidc_mode s"
  "oidc_mode (remountTimer_update h s) = oidc_mode s"
  "oidc_mode (authMessageKey_update m s) = oidc_mode s"
  "oidc_mode (draftAdminToken_update d s) = oidc_mode s"
  "oidc_mode (adminSession_update x s) = oidc_mode s"
  "oidc_mode (phase_update p s) = oidc_mode s"
  "oidc_mode (storage_event_pending_update h s) = oidc_mode s"
  "oidc_mode (authLoadError_update h s) = oidc_mode s"
  by (simp_all add: oidc_mode_def)

lemma shell_ok_sync:
  "shell_ok (s\<lparr>storage_event_pending := b, hasAdminToken := False, remountTimer := False\<rparr>) \<Longrightarrow>
     shell_ok (syncAdminTokenState (s\<lparr>storage_event_pending := b\<rparr>))"
  by (simp add: shell_ok_def syncAdminTokenState_def Let_def)

lemma shell_ok_sync0: "shell_ok s \<Longrightarrow> shell_ok (syncAdminTokenState s)"
  by (auto simp: shell_ok_def syncAdminTokenState_def Let_def)

lemma getAdminToken_cleared [simp]: "getAdminToken (clearAdminToken st) = []"
  by (simp add: getAdminToken_def clearAdminToken_def dispatch_event_def)

lemma clearAdminToken_session [simp]: "currentAdminSession (clearAdminToken st) = currentAdminSession st"
  by (simp add: clearAdminToken_def dispatch_event_def)

lemma consume_fields [simp]:
  "currentAdminSession (snd (consumePendingAdminAuthMessage st)) = currentAdminSession st"
  "getAdminToken (snd (consumePendingAdminAuthMessage st)) = getAdminToken st"
  by (simp_all add: consumePendingAdminAuthMessage_def getAdminToken_def)

text \<open>The two parts of the invariant an event of the client can break and its listener restores.\<close>

lemma shell_ok_clear: "shell_ok s \<Longrightarrow> shell_ok (clear_token s)"
  by (auto simp: shell_ok_def clear_token_def syncAdminTokenState_def)

lemma showAdminAuth_simp:
  "showAdminAuth m s =
     (if oidc_mode s then s\<lparr>authMessageKey := Some m, adminSession := None\<rparr>
      else s\<lparr>authMessageKey := Some m, draftAdminToken := [], client := clearAdminToken (client s),
        hasAdminToken := False, remountTimer := False\<rparr>)"
  by (simp add: showAdminAuth_def clear_token_def syncAdminTokenState_def Let_def)

lemma shell_ok_show:
  assumes "oidc_mode s \<or> currentAdminSession (client s) = None \<and> adminSession s = None"
    and "hasAdminToken s \<or> remountTimer s \<Longrightarrow> getAdminToken (client s) \<noteq> [] \<or> storage_event_pending s"
    and "phase s = LoadingSession \<Longrightarrow> oidc_mode s" and "phase s = LoadingConfig \<Longrightarrow> authConfig s = None"
  shows "shell_ok (showAdminAuth m s)"
  using assms unfolding showAdminAuth_simp by (cases "oidc_mode s") (auto simp: shell_ok_def)

lemma shell_ok_show0: "shell_ok s \<Longrightarrow> shell_ok (showAdminAuth m s)"
  by (rule shell_ok_show) (simp_all add: shell_ok_def, blast+)

lemma shell_ok_client:
  "shell_ok s \<Longrightarrow> currentAdminSession st = currentAdminSession (client s) \<Longrightarrow> getAdminToken st = getAdminToken (client s) \<Longrightarrow>
     shell_ok (s\<lparr>client := st\<rparr>)"
  by (auto simp: shell_ok_def)

lemma shell_ok_subscribe: "shell_ok s \<Longrightarrow> shell_ok (subscribe_effect s)"
  unfolding subscribe_effect_def
  by (auto simp: consumePendingAdminAuthMessage_def getAdminToken_def Let_def
      intro!: shell_ok_show0 shell_ok_client split: option.split)

lemma shell_ok_mount: "currentAdminSession st = None \<Longrightarrow> shell_ok (mount_shell st)"
  unfolding mount_shell_def by (rule shell_ok_subscribe) (simp add: shell_ok_def oidc_mode_def)

lemma shell_ok_reload: "shell_ok (reload s)"
  unfolding reload_def by (rule shell_ok_mount) (simp add: no_client_def)

lemma shell_ok_config:
  assumes "shell_ok s" and "phase s = LoadingConfig"
  shows "shell_ok (config_loaded cfg s)"
proof -
  have "currentAdminSession (client s) = None" "adminSession s = None"
    using assms by (auto simp: shell_ok_def oidc_mode_def)
  with assms(1) show ?thesis
    unfolding config_loaded_def Let_def
    by (intro shell_ok_subscribe)
      (auto simp: shell_ok_def clear_token_def syncAdminTokenState_def oidc_mode_def Let_def)
qed

lemma run_client_op_quiet: "dispatched (op (client s)) = dispatched (client s) \<Longrightarrow> run_client_op op s = s\<lparr>client := op (client s)\<rparr>"
  by (simp add: run_client_op_def Let_def)

lemma run_client_401:
  assumes "\<exists>res. outcome = Inr res \<and> p_status res = 401"
  shows "run_client_op (\<lambda>st. snd (req_finish f outcome st)) s =
      requestAdminAuth (if n_session f = None then InvalidToken else SessionExpired)
        (s\<lparr>client := cleanup (n_timer f) (handle_401 (n_session f) (client s))\<rparr>)"
proof -
  have st: "snd (req_finish f outcome (client s)) = cleanup (n_timer f) (handle_401 (n_session f) (client s))"
    using assms by (simp add: req_finish_state)
  show ?thesis
    unfolding run_client_op_def st
    by (simp add: frame_simps deliver_def Let_def)
      (simp add: handle_401_def notifyAdminAuthRequired_def setAdminSession_def dispatch_event_def deliver_def)
qed

lemma shell_ok_response:
  assumes "shell_ok s"
  shows "shell_ok (run_client_op (\<lambda>st. snd (req_finish f outcome st)) s)"
proof (cases "\<exists>res. outcome = Inr res \<and> p_status res = 401")
  case False
  then have "snd (req_finish f outcome (client s)) = cleanup (n_timer f) (client s)"
    unfolding req_finish_state by (simp only: if_False)
  with assms show ?thesis
    by (subst run_client_op_quiet) (auto simp: frame_simps getAdminToken_def intro!: shell_ok_client)
next
  case True
  let ?st = "cleanup (n_timer f) (handle_401 (n_session f) (client s))"
  note run = run_client_401 [OF True, of f s]
  have "getAdminToken ?st = getAdminToken (client s)"
    by (simp add: getAdminToken_def frame_simps)
  moreover have "currentAdminSession ?st = (if n_session f = None then currentAdminSession (client s) else None)"
    by (simp add: frame_simps) (simp add: handle_401_def notifyAdminAuthRequired_def setAdminSession_def dispatch_event_def)
  ultimately show ?thesis
    unfolding run requestAdminAuth_def using assms
    by (intro shell_ok_show) (auto simp: shell_ok_def)
qed

lemma fetchAdminSession_events:
  "\<exists>es. dispatched (snd (fetchAdminSession decode outcome st)) = dispatched st @ es \<and> set es \<subseteq> {SessionChange}"
  "stored_token (snd (fetchAdminSession decode outcome st)) = stored_token st"
  by (auto simp: fetchAdminSession_def setAdminSession_def dispatch_event_def split: sum.split option.split)

lemma logoutAdminSession_events:
  "\<exists>es. dispatched (snd (logoutAdminSession outcome st)) = dispatched st @ es \<and> set es \<subseteq> {SessionChange}"
  "stored_token (snd (logoutAdminSession outcome st)) = stored_token st"
  by (auto simp: logoutAdminSession_def setAdminSession_def dispatch_event_def split: sum.split)

lemma deliver_session_changes: "set es \<subseteq> {SessionChange} \<Longrightarrow> fold deliver es s = s"
  by (induction es) (auto simp: deliver_def)

lemma run_client_op_session:
  assumes "\<exists>es. dispatched st = dispatched (client s) @ es \<and> set es \<subseteq> {SessionChange}"
  shows "run_client_op (\<lambda>_. st) s = s\<lparr>client := st\<rparr>"
  using assms by (auto simp: run_client_op_def Let_def deliver_session_changes)

lemma shell_ok_session:
  assumes "shell_ok s" and "phase s = LoadingSession"
  shows "shell_ok (session_loaded decode outcome s)"
proof -
  obtain r st where r: "fetchAdminSession decode outcome (client s) = (r, st)" by fastforce
  have tok: "getAdminToken st = getAdminToken (client s)"
    using fetchAdminSession_events(2) [of decode outcome "client s"] r by (simp add: getAdminToken_def)
  have run: "run_client_op (\<lambda>_. st) s = s\<lparr>client := st\<rparr>"
    using fetchAdminSession_events(1) [of decode outcome "client s"] r by (intro run_client_op_session) simp
  have o: "oidc_mode s" using assms by (simp add: shell_ok_def)
  have "case r of Inr session \<Rightarrow> currentAdminSession st = session | Inl e \<Rightarrow> currentAdminSession st = currentAdminSession (client s)"
    using r by (auto simp: fetchAdminSession_def setAdminSession_def dispatch_event_def split: sum.splits option.splits if_splits)
  then show ?thesis
    using assms(1) o tok by (auto simp: session_loaded_def r run load_failed_def shell_ok_def Let_def split: sum.splits)
qed

lemma shell_ok_logout:
  assumes "shell_ok s"
  shows "shell_ok (logoutAdmin outcome s)"
proof (cases "oidc_mode s")
  case True
  obtain r st where r: "logoutAdminSession outcome (client s) = (r, st)" by fastforce
  have tok: "getAdminToken st = getAdminToken (client s)"
    using logoutAdminSession_events(2) [of outcome "client s"] r by (simp add: getAdminToken_def)
  have run: "run_client_op (\<lambda>_. st) s = s\<lparr>client := st\<rparr>"
    using logoutAdminSession_events(1) [of outcome "client s"] r by (intro run_client_op_session) simp
  have "case r of Inr u \<Rightarrow> currentAdminSession st = None | Inl e \<Rightarrow> currentAdminSession st = currentAdminSession (client s)"
    using r by (auto simp: logoutAdminSession_def getAdminSession_def setAdminSession_def dispatch_event_def split: sum.splits if_splits)
  then show ?thesis
    using assms True tok by (auto simp: logoutAdmin_def r run shell_ok_def Let_def split: sum.splits)
next
  case False
  then show ?thesis by (simp add: logoutAdmin_def shell_ok_reload)
qed

lemma call_start_client:
  "currentAdminSession (snd (call_start c uuid sig root st)) = currentAdminSession st"
  "getAdminToken (snd (call_start c uuid sig root st)) = getAdminToken st"
  by (cases "api c uuid"; cases "sig = Some False";
      auto simp: call_start_def req_start_def Let_def cleanup_def getAdminToken_def split: sum.split)+

lemma shell_step_ok: "shell_step s s' \<Longrightarrow> shell_ok s \<Longrightarrow> shell_ok s'"
proof (induction rule: shell_step.induct)
  case (request s c uuid sig root)
  then show ?case by (intro shell_ok_client) (simp_all add: call_start_client)
next
  case (other_tab s tok)
  then show ?case by (auto simp: shell_ok_def)
next
  case (storage s)
  show ?case
    by (rule shell_ok_sync) (use storage in \<open>simp add: shell_ok_def\<close>)
next
  case (failed s isAbort)
  then show ?case by (cases isAbort) (simp_all add: shell_ok_def load_failed_def)
next
  case (save s)
  then show ?case by (simp add: saveAdminToken_def shell_ok_clear shell_ok_reload Let_def)
next
  case (timer s)
  then show ?case by (simp add: remount_timer_fires_def shell_ok_def)
next
  case (draft s v)
  then show ?case by (simp add: shell_ok_def)
qed (simp_all only: shell_ok_config shell_ok_session shell_ok_response shell_ok_logout shell_ok_reload)

lemma shell_invariant: "shell_reachable s \<Longrightarrow> shell_ok s"
  by (induction rule: shell_reachable.induct) (simp_all add: shell_ok_mount shell_step_ok)

section \<open>Properties\<close>

lemma screen_content_cases:
  assumes "screen_of s = Content"
  obtains (oidc) session where "oidc_mode s" "adminSession s = Some session"
  | (legacy) "\<not> oidc_mode s" "hasAdminToken s" "map_option ac_mode (authConfig s) = Some LegacySharedToken"
proof -
  obtain config where c: "authConfig s = Some config"
    using assms by (auto simp: screen_of_def split: if_splits option.splits)
  show thesis
  proof (cases "ac_mode config")
    case Oidc
    then show thesis
      using assms c oidc by (auto simp: screen_of_def oidc_mode_def split: if_splits)
  next
    case LegacySharedToken
    then show thesis
      using assms c legacy by (auto simp: screen_of_def oidc_mode_def split: if_splits)
  qed
qed

lemma offered_preferenceControls:
  "set (offered (preferenceControls t prefs)) \<subseteq> range ChooseLocale \<union> range ChooseTheme"
  by (auto simp: preferenceControls_def languageMenu_def themeMenu_def LOCALE_OPTIONS_def theme_options_def Let_def)

lemma offered_userMenu [simp]: "offered (userMenu t session shared) = [LogoutAction]"
  by (simp add: userMenu_def Let_def)

lemma offered_sidebarView:
  "set (offered (sidebarView t permissions pathname)) =
     (\<lambda>item. NavigateTo (nav_to item)) ` set (concat (map group_items (visibleNavGroups permissions)))"
  by (auto simp: sidebarView_def)

definition harmless :: "'b shell_action \<Rightarrow> bool" where
  "harmless a \<longleftrightarrow> (case a of ChooseLocale _ \<Rightarrow> True | ChooseTheme _ \<Rightarrow> True | ReloadAction \<Rightarrow> True | DraftChange \<Rightarrow> True
     | ToggleShowToken \<Rightarrow> True | ToggleSidebar \<Rightarrow> True | _ \<Rightarrow> False)"

lemma harmless_preferences: "a \<in> set (offered (preferenceControls t prefs)) \<Longrightarrow> harmless a"
  using offered_preferenceControls [of t prefs] by (auto simp: harmless_def)

lemma offered_headerView:
  "a \<in> set (offered (headerView t prefs pathname session shared)) \<Longrightarrow> harmless a \<or> a = LogoutAction"
  by (auto simp: headerView_def view_simps dest: harmless_preferences split: if_splits) (simp_all add: harmless_def)

lemma offered_sign_in:
  "a \<in> set (offered (adminAuthUnavailableScreen t prefs)) \<Longrightarrow> harmless a"
  "a \<in> set (offered (adminAuthLoadingScreen t)) \<Longrightarrow> harmless a"
  "a \<in> set (offered (oidcAccessScreen t prefs m href)) \<Longrightarrow> harmless a \<or> a = FollowLogin href"
  "a \<in> set (offered (adminAccessScreen t prefs m draft showToken)) \<Longrightarrow> harmless a \<or> a = SubmitToken \<and> js_trim draft \<noteq> []"
  by (auto simp: adminAuthUnavailableScreen_def adminAuthLoadingScreen_def oidcAccessScreen_def adminAccessScreen_def
      dest: harmless_preferences split: if_splits) (simp_all add: harmless_def)

text \<open>C1: in every state in which the shell shows a page, a request the page makes carries the identity the shell shows. In single sign-on
  mode that is the CSRF token of the session on display and no bearer token. In shared-token mode it is the token in the store as bearer, and
  there is one. The only exception is in shared-token mode the time between another tab writing the store and the arrival of its event: then the
  request carries the token that tab has stored, or none if it removed it, and the arrival of the event takes the page off the screen.\<close>

theorem content_is_authenticated:
  assumes "shell_reachable s" and "screen_of s = Content"
    and "call_start c uuid sig root (client s) = (Inr (f, q), st')"
  shows "map_of (q_headers q) ''X-CSRF-Token'' = map_option as_csrf_token (adminSession s) \<and>
    (if oidc_mode s then adminSession s \<noteq> None \<and> map_of (q_headers q) ''Authorization'' = None
     else adminSession s = None \<and>
       map_of (q_headers q) ''Authorization'' = (if getAdminToken (client s) \<noteq> [] then Some (''Bearer '' @ getAdminToken (client s)) else None) \<and>
       (if storage_event_pending s then screen_of (syncAdminTokenState (s\<lparr>storage_event_pending := False\<rparr>)) = TokenScreen
        else getAdminToken (client s) \<noteq> []))"
proof -
  have ok: "shell_ok s" using assms(1) by (rule shell_invariant)
  note hdr = request_headers [OF assms(3)]
  from assms(2) show ?thesis
  proof (cases rule: screen_content_cases)
    case (oidc session)
    then show ?thesis using ok hdr by (simp add: shell_ok_def)
  next
    case legacy
    have "screen_of (syncAdminTokenState (s\<lparr>storage_event_pending := False\<rparr>)) = TokenScreen"
      using assms(2) legacy by (auto simp: screen_of_def syncAdminTokenState_def Let_def oidc_mode_def split: option.splits if_splits AdminAuthMode.splits)
    then show ?thesis using legacy ok hdr by (auto simp: shell_ok_def)
  qed
qed

text \<open>A page's own actions, the navigation and the sign-out are on offer only on the content screen, and
  then each navigation target on offer needs a permission the shown identity holds. The sign-in screens offer nothing else than signing in,
  retrying and preferences.\<close>

theorem actions_need_content:
  assumes "appShell t prefs urls root loc showToken children s = Inr v"
  shows "(if screen_of s = Content
      then list_all (\<lambda>a. case a of
          NavigateTo dest \<Rightarrow> list_ex (\<lambda>item. nav_to item = dest \<and>
            can (AdminCapabilitiesProvider (shell_permissions s)) (nav_permission item)) (concat (map group_items NAV_GROUPS))
        | SubmitToken \<Rightarrow> False | FollowLogin _ \<Rightarrow> False | _ \<Rightarrow> True) (offered v)
      else list_all (\<lambda>a. case a of
          PageAction _ \<Rightarrow> False | NavigateTo _ \<Rightarrow> False | LogoutAction \<Rightarrow> False
        | SubmitToken \<Rightarrow> screen_of s = TokenScreen \<and> js_trim (draftAdminToken s) \<noteq> []
        | FollowLogin _ \<Rightarrow> screen_of s = OIDCScreen
        | _ \<Rightarrow> True) (offered v))"
proof (cases "screen_of s = Content")
  case True
  then have v: "set (offered v) = set (offered (sidebarView t (shell_permissions s) (loc_pathname loc))) \<union>
      set (offered (headerView t prefs (loc_pathname loc) (adminSession s)
        (map_option ac_mode (authConfig s) = Some LegacySharedToken))) \<union> PageAction ` set (offered children)"
    using assms by (auto simp: appShell_def Let_def)
  have nav: "\<exists>item \<in> set (concat (map group_items NAV_GROUPS)). nav_to item = dest \<and>
      can (AdminCapabilitiesProvider (shell_permissions s)) (nav_permission item)"
    if "NavigateTo dest \<in> set (offered (sidebarView t (shell_permissions s) (loc_pathname loc)))" for dest
    using that unfolding offered_sidebarView visible_items by (auto simp: can_def AdminCapabilitiesProvider_def)
  have "case a of
          NavigateTo dest \<Rightarrow> list_ex (\<lambda>item. nav_to item = dest \<and>
            can (AdminCapabilitiesProvider (shell_permissions s)) (nav_permission item)) (concat (map group_items NAV_GROUPS))
        | SubmitToken \<Rightarrow> False | FollowLogin _ \<Rightarrow> False | _ \<Rightarrow> True" if a: "a \<in> set (offered v)" for a
  proof -
    consider (side) "a \<in> set (offered (sidebarView t (shell_permissions s) (loc_pathname loc)))"
      | (header) "harmless a \<or> a = LogoutAction" | (page) b where "a = PageAction b"
      using a offered_headerView unfolding v by blast
    then show ?thesis
    proof cases
      case side
      then obtain dest where "a = NavigateTo dest" unfolding offered_sidebarView by blast
      with nav side show ?thesis by (simp add: list_ex_iff)
    qed (auto simp: harmless_def split: shell_action.splits)
  qed
  with True show ?thesis by (simp add: list_all_iff)
next
  case False
  have "case a of
          PageAction _ \<Rightarrow> False | NavigateTo _ \<Rightarrow> False | LogoutAction \<Rightarrow> False
        | SubmitToken \<Rightarrow> screen_of s = TokenScreen \<and> js_trim (draftAdminToken s) \<noteq> []
        | FollowLogin _ \<Rightarrow> screen_of s = OIDCScreen
        | _ \<Rightarrow> True" if a: "a \<in> set (offered v)" for a
  proof -
    have "harmless a \<or> (\<exists>href. a = FollowLogin href) \<and> screen_of s = OIDCScreen \<or>
        a = SubmitToken \<and> screen_of s = TokenScreen \<and> js_trim (draftAdminToken s) \<noteq> []"
      using a assms False
      by (auto simp: appShell_def Let_def dest!: offered_sign_in split: screen.splits sum.splits)
    then show ?thesis by (auto simp: harmless_def split: shell_action.splits)
  qed
  with False show ?thesis by (simp add: list_all_iff)
qed

definition sample_shell :: shell where
  "sample_shell = config_loaded \<lparr>ac_mode = LegacySharedToken, ac_login_url = None\<rparr>
     (mount_shell (no_client\<lparr>stored_token := Some ''secret''\<rparr>))"

definition sample_prefs :: preferences where
  "sample_prefs = \<lparr>pref_locale = PtBR, pref_theme = System, pref_resolved = Light\<rparr>"

lemma sample_shell_content: "screen_of sample_shell = Content \<and> \<not> storage_event_pending sample_shell"
  by code_simp

lemma sample_shell_reachable: "shell_reachable sample_shell"
proof -
  have "shell_reachable (mount_shell (no_client\<lparr>stored_token := Some ''secret''\<rparr>))"
    by (rule shell_reachable.initial) (simp add: no_client_def)
  moreover have "phase (mount_shell (no_client\<lparr>stored_token := Some ''secret''\<rparr>)) = LoadingConfig" by code_simp
  ultimately show ?thesis
    unfolding sample_shell_def using shell_step.config shell_reachable.step by blast
qed

lemma content_is_authenticated_witness:
  "\<exists>f q st'. call_start ListTenants ''u'' None None (client sample_shell) = (Inr (f, q), st') \<and>
     map_of (q_headers q) ''Authorization'' = Some ''Bearer secret''"
proof -
  have e: "isl (fst (call_start ListTenants ''u'' None None (client sample_shell))) = False" by code_simp
  obtain f q st' where c: "call_start ListTenants ''u'' None None (client sample_shell) = (Inr (f, q), st')"
    using e by (metis isl_def prod.collapse sum.exhaust_sel surj_pair)
  have "oidc_mode sample_shell = False" "getAdminToken (client sample_shell) = ''secret''" by code_simp+
  with content_is_authenticated [OF sample_shell_reachable _ c] sample_shell_content c show ?thesis by simp
qed

lemma actions_need_content_witness:
  "LogoutAction \<notin> set (offered (adminAccessScreen id sample_prefs [] ''k'' False :: nat shell_action view))"
proof -
  let ?s = "config_loaded \<lparr>ac_mode = LegacySharedToken, ac_login_url = None\<rparr> (mount_shell no_client)\<lparr>draftAdminToken := ''k''\<rparr>"
  have s: "screen_of ?s = TokenScreen" "authMessageKey ?s = None" "draftAdminToken ?s = ''k''" by code_simp+
  have v: "appShell id sample_prefs sample_url_api None \<lparr>loc_pathname = ''/'', loc_href = ''/'', loc_origin = []\<rparr> False (Txt [] :: nat view) ?s =
      Inr (adminAccessScreen id sample_prefs [] ''k'' False)"
    unfolding appShell_def s Let_def by simp
  from actions_need_content [OF v] s show ?thesis by (auto simp: list_all_iff)
qed

text \<open>The default language an operator sets is never used: the page's own language provider stores a language on
  mounting and on every choice, and the shell asks for the setting only while none is stored.\<close>

theorem default_locale_never_applied:
  "\<not> wants_default_locale s (locale_store (mountI18n lang store)) \<and>
   \<not> wants_default_locale s (locale_store (setLocale l i))"
proof -
  have "locale_value l \<noteq> []" for l
    by (cases l) (simp_all add: locale_value_def)
  then show ?thesis
    by (simp add: wants_default_locale_def mountI18n_def setLocale_def locale_effect_def)
qed

end
