(* ===== verification/DataTable.thy ===== *)
theory DataTable
  imports Reveal View
begin

text \<open>
  The tables of the console: \<open>web/src/hooks/use-data-table.ts\<close> (state, stored preferences, the default
  search) and \<open>web/src/components/data-table\<close> (table, toolbar, facets, sorting, column options,
  pagination). The row models are TanStack Table's: a rendered table takes the rows of the current
  page, the counts and the columns as an argument, and what a control asks of the table is an action.
\<close>

section \<open>State and preferences\<close>

record sort_spec =
  sort_desc :: bool
  sort_id :: string

record pagination =
  pageIndex :: nat
  pageSize :: nat

record table_state =
  globalFilter :: string
  columnFilters :: "(string \<times> string list) list"
  columnVisibility :: "(string \<times> bool) list"
  pagination :: pagination
  sorting :: "sort_spec list"

record initial_table =
  init_globalFilter :: "string option"
  init_pagination :: "pagination option"
  init_sorting :: "sort_spec list option"
  init_columnVisibility :: "(string \<times> bool) list option"

record stored_preferences =
  sp_columnVisibility :: "(string \<times> bool) list option"
  sp_pageSize :: "nat option"
  sp_sorting :: "sort_spec list option"

definition no_preferences :: stored_preferences where
  "no_preferences = \<lparr>sp_columnVisibility = None, sp_pageSize = None, sp_sorting = None\<rparr>"

definition PAGE_SIZE_OPTIONS :: "nat list" where
  "PAGE_SIZE_OPTIONS = [5, 10, 25, 50]"

definition visibility_json :: "(string \<times> bool) list \<Rightarrow> json" where
  "visibility_json vs = JObj (map (\<lambda>(k, b). (k, JBool b)) vs)"

definition sort_json :: "sort_spec \<Rightarrow> json" where
  "sort_json s = JObj [(''desc'', JBool (sort_desc s)), (''id'', JStr (sort_id s))]"

definition preferences_json :: "table_state \<Rightarrow> json" where
  "preferences_json s =
     JObj [(''columnVisibility'', visibility_json (columnVisibility s)),
       (''pageSize'', JNum (int (pageSize (pagination s)))),
       (''sorting'', JArr (map sort_json (sorting s))),
       (''version'', JNum 1)]"

text \<open>Reading the fields of a stored object; members of other types are dropped.\<close>

definition read_visibility :: "json \<Rightarrow> (string \<times> bool) list" where
  "read_visibility j =
     (case j of JObj ms \<Rightarrow> concat (map (\<lambda>(k, v). case v of JBool b \<Rightarrow> [(k, b)] | _ \<Rightarrow> []) ms) | _ \<Rightarrow> [])"

definition read_sort :: "json \<Rightarrow> sort_spec list" where
  "read_sort j =
     (case (json_get ''desc'' j, json_get ''id'' j) of
        (Some (JBool d), Some (JStr i)) \<Rightarrow> [\<lparr>sort_desc = d, sort_id = i\<rparr>]
      | _ \<Rightarrow> [])"

definition read_preferences :: "json \<Rightarrow> stored_preferences" where
  "read_preferences j =
     \<lparr>sp_columnVisibility = map_option read_visibility (json_get ''columnVisibility'' j),
      sp_pageSize = (case json_get ''pageSize'' j of Some (JNum n) \<Rightarrow> Some (nat n) | _ \<Rightarrow> None),
      sp_sorting = (case json_get ''sorting'' j of Some (JArr xs) \<Rightarrow> Some (concat (map read_sort xs)) | _ \<Rightarrow> None)\<rparr>"

text \<open>\<open>json_parse\<close> is \<open>JSON.parse\<close>, \<^const>\<open>None\<close> its exception. A number, a string or a boolean
  makes \<open>in\<close> throw, or is falsy.\<close>

definition loadPreferences ::
  "(string \<Rightarrow> json option) \<Rightarrow> (string \<Rightarrow> string option) \<Rightarrow> string option \<Rightarrow> stored_preferences" where
  "loadPreferences json_parse storage key =
     (case key of
        None \<Rightarrow> no_preferences
      | Some k \<Rightarrow>
          if k = [] then no_preferences
          else case json_parse (some_or (storage k) ''null'') of
            None \<Rightarrow> no_preferences
          | Some parsed \<Rightarrow>
              (case parsed of
                 JObj ms \<Rightarrow>
                   if json_get ''version'' parsed = Some (JNum 1) then read_preferences parsed
                   else no_preferences\<lparr>sp_columnVisibility := Some (read_visibility parsed)\<rparr>
               | JArr xs \<Rightarrow> no_preferences\<lparr>sp_columnVisibility := Some []\<rparr>
               | _ \<Rightarrow> no_preferences))"

definition useDataTable :: "initial_table \<Rightarrow> stored_preferences \<Rightarrow> table_state" where
  "useDataTable initialState preferences =
     \<lparr>globalFilter = some_or (init_globalFilter initialState) [],
      columnFilters = [],
      columnVisibility = spread (some_or (init_columnVisibility initialState) []) (some_or (sp_columnVisibility preferences) []),
      pagination =
        (case init_pagination initialState of
           Some p \<Rightarrow> p\<lparr>pageSize := some_or (sp_pageSize preferences) (pageSize p)\<rparr>
         | None \<Rightarrow> \<lparr>pageIndex = 0, pageSize = some_or (sp_pageSize preferences) (hd PAGE_SIZE_OPTIONS)\<rparr>),
      sorting = some_or (sp_sorting preferences) (some_or (init_sorting initialState) [])\<rparr>"

definition save_preferences :: "string option \<Rightarrow> table_state \<Rightarrow> (string \<Rightarrow> string option) \<Rightarrow> string \<Rightarrow> string option" where
  "save_preferences key s storage =
     (case key of
        None \<Rightarrow> storage
      | Some k \<Rightarrow> if k = [] then storage else storage(k \<mapsto> stringify (preferences_json s)))"

text \<open>\<open>onGlobalFilterChange\<close>: an updater that does not give a string clears the filter.\<close>

definition change_global_filter :: "(string \<Rightarrow> string option) \<Rightarrow> table_state \<Rightarrow> table_state" where
  "change_global_filter updater s = s\<lparr>globalFilter := some_or (updater (globalFilter s)) []\<rparr>"

text \<open>The default search, over the values of the row's object.\<close>

definition searchable_value :: "json \<Rightarrow> string" where
  "searchable_value v =
     (case v of JStr s \<Rightarrow> s | JNum n \<Rightarrow> show_int n | JBool b \<Rightarrow> (if b then ''true'' else ''false'') | _ \<Rightarrow> [])"

definition globalFilterFn :: "(string \<times> json) list \<Rightarrow> string option \<Rightarrow> bool" where
  "globalFilterFn row filterValue =
     (let normalizedFilter = some_or filterValue [];
          searchable = js_lower (js_join '' '' (map (searchable_value \<circ> snd) row)) in
      js_includes searchable (js_lower normalizedFilter))"

section \<open>Facets\<close>

record facet_option =
  fo_label :: string
  fo_value :: string

text \<open>The filter value of a column after choosing an option: \<^const>\<open>None\<close> is \<open>undefined\<close>. The set is kept
  in insertion order.\<close>

definition select_facet :: "bool \<Rightarrow> string list option \<Rightarrow> string \<Rightarrow> string list option" where
  "select_facet multiple filterValue v =
     (let selected = remdups (some_or filterValue []);
          active = (v \<in> set selected);
          next' = (if multiple then (if active then removeAll v selected else selected @ [v])
                  else (if active then [] else [v])) in
      if next' \<noteq> [] then Some next' else None)"

section \<open>Rendering\<close>

datatype sort_direction = Asc | Desc

record table_column =
  tc_id :: string
  tc_label :: "string option"
  tc_accessor :: bool
  tc_can_sort :: bool
  tc_can_hide :: bool
  tc_visible :: bool
  tc_sorted :: "sort_direction option"

record table_model =
  tm_state :: table_state
  tm_columns :: "table_column list"
  tm_filtered_count :: nat
  tm_page_count :: nat
  tm_can_previous :: bool
  tm_can_next :: bool

datatype table_action =
    SetPageIndex int
  | PreviousPage
  | NextPage
  | SetPageSize nat
  | SetGlobalFilter string
  | TypeGlobalFilter
  | ResetColumnFilters
  | SetFilterValue string "string list option"
  | ToggleSorting string bool bool
  | ToggleSortingHandler string
  | ClearSorting string
  | ResetSorting
  | ResetColumnVisibility
  | ResetPagination
  | ToggleVisibility string bool

text \<open>\<open>tr\<close> is the translation. A control may ask for several things in one event, one after the other.\<close>

type_synonym table_view = "table_action list view"

record header_labels =
  hl_asc :: "string option"
  hl_desc :: "string option"
  hl_reset :: "string option"

definition dataTableColumnHeader :: "table_column \<Rightarrow> string \<Rightarrow> header_labels \<Rightarrow> table_view" where
  "dataTableColumnHeader column label labels =
     (if \<not> tc_can_sort column then el ''div'' [] [Txt label]
      else
        let nextSortLabel = (case tc_sorted column of Some Asc \<Rightarrow> hl_desc labels | Some Desc \<Rightarrow> hl_reset labels | None \<Rightarrow> hl_asc labels) in
        button ([(''aria-label'', case nextSortLabel of Some n \<Rightarrow> if n \<noteq> [] then label @ '': '' @ n else label | None \<Rightarrow> label),
            (''type'', ''button'')] @ (case nextSortLabel of Some n \<Rightarrow> [(''title'', n)] | None \<Rightarrow> []))
          [ToggleSortingHandler (tc_id column)]
          [Txt label, el ''icon'' [(''name'', case tc_sorted column of Some Desc \<Rightarrow> ''ChevronDown'' | Some Asc \<Rightarrow> ''ChevronUp'' | None \<Rightarrow> ''ChevronsUpDown'')] []])"

definition dataTableFacetedFilter ::
  "string \<Rightarrow> string \<Rightarrow> string list option \<Rightarrow> string \<Rightarrow> bool \<Rightarrow> facet_option list \<Rightarrow> string \<Rightarrow> table_view" where
  "dataTableFacetedFilter clearLabel columnId filterValue emptyLabel multiple options title =
     (let selected = remdups (some_or filterValue []) in
      el ''popover'' []
        [el ''trigger'' []
          ([if selected \<noteq> [] then Elem ''icon'' [(''name'', ''XCircle'')] [(''onClick'', [SetFilterValue columnId None])] []
            else el ''icon'' [(''name'', ''PlusCircle'')] [], Txt title] @
           (if selected \<noteq> [] then
              [el ''badge'' [] [Txt (show_nat (length selected))],
               el ''div'' [] (if length selected > 2 then [el ''badge'' [] [Txt (show_nat (length selected))]]
                 else map (\<lambda>o'. el ''badge'' [] [Txt (fo_label o')]) (filter (\<lambda>o'. fo_value o' \<in> set selected) options))]
            else [])),
         el ''content'' []
          ([el ''input'' [(''placeholder'', title)] [], el ''empty'' [] [Txt emptyLabel]] @
           map (\<lambda>o'. Elem ''item'' (flag ''checked'' (fo_value o' \<in> set selected))
               [(''onSelect'', [SetFilterValue columnId (select_facet multiple filterValue (fo_value o'))])] [Txt (fo_label o')]) options @
           shown_if (selected \<noteq> []) (Elem ''item'' [] [(''onSelect'', [SetFilterValue columnId None])] [Txt clearLabel]))])"

record pagination_labels =
  goToFirstPage :: string
  goToLastPage :: string
  goToNextPage :: string
  goToPreviousPage :: string
  itemLabel :: string
  itemsLabel :: string
  pageLabelText :: string
  pageOfLabel :: string
  rowsPerPage :: string

definition defaultLabels :: pagination_labels where
  "defaultLabels =
     \<lparr>goToFirstPage = ''Go to first page'', goToLastPage = ''Go to last page'', goToNextPage = ''Go to next page'',
      goToPreviousPage = ''Go to previous page'', itemLabel = ''item'', itemsLabel = ''items'', pageLabelText = ''Page'',
      pageOfLabel = ''of'', rowsPerPage = ''Rows per page''\<rparr>"

definition current_page :: "table_model \<Rightarrow> nat" where
  "current_page m = (if tm_page_count m = 0 then 0 else pageIndex (pagination (tm_state m)) + 1)"

definition dataTablePagination :: "pagination_labels \<Rightarrow> nat list \<Rightarrow> table_model \<Rightarrow> table_view" where
  "dataTablePagination labels pageSizeOptions m =
     el ''div'' []
       [el ''div'' [] [Txt (show_nat (tm_filtered_count m)), Txt '' '', Txt (if tm_filtered_count m = 1 then itemLabel labels else itemsLabel labels)],
        el ''div'' [] [Txt (pageLabelText labels), Txt '' '', Txt (show_nat (current_page m)), Txt '' '', Txt (pageOfLabel labels), Txt '' '', Txt (show_nat (tm_page_count m))],
        button ([(''aria-label'', goToFirstPage labels), (''type'', ''button'')] @ flag ''disabled'' (\<not> tm_can_previous m)) [SetPageIndex 0] [],
        button ([(''aria-label'', goToPreviousPage labels), (''type'', ''button'')] @ flag ''disabled'' (\<not> tm_can_previous m)) [PreviousPage] [],
        button ([(''aria-label'', goToNextPage labels), (''type'', ''button'')] @ flag ''disabled'' (\<not> tm_can_next m)) [NextPage] [],
        button ([(''aria-label'', goToLastPage labels), (''type'', ''button'')] @ flag ''disabled'' (\<not> tm_can_next m)) [SetPageIndex (int (tm_page_count m) - 1)] [],
        el ''select'' [(''aria-label'', rowsPerPage labels), (''value'', show_nat (pageSize (pagination (tm_state m))))]
          (map (\<lambda>n. Elem ''item'' [(''value'', show_nat n)] [(''onValueChange'', [SetPageSize n])] [Txt (show_nat n)]) pageSizeOptions)]"

text \<open>What choosing a column in the sort list asks for.\<close>

definition sort_choice :: "nat \<Rightarrow> table_column \<Rightarrow> table_action" where
  "sort_choice sortingCount column =
     (case tc_sorted column of
        None \<Rightarrow> ToggleSorting (tc_id column) False (sortingCount > 0)
      | Some Asc \<Rightarrow> ToggleSorting (tc_id column) True True
      | Some Desc \<Rightarrow> ClearSorting (tc_id column))"

definition dataTableSortList :: "(string \<Rightarrow> string) \<Rightarrow> table_model \<Rightarrow> table_view list" where
  "dataTableSortList tr m =
     (let n = length (sorting (tm_state m)); columns = filter tc_can_sort (tm_columns m) in
      if columns = [] then []
      else [el ''popover'' []
        [el ''trigger'' [] ([Txt (tr ''dataTable.sort'')] @ shown_if (n > 0) (el ''span'' [] [Txt (show_nat n)])),
         el ''group'' [(''heading'', tr ''dataTable.sortBy'')]
          (map (\<lambda>column. Elem ''item'' [] [(''onSelect'', [sort_choice n column])]
              ([Txt (some_or (tc_label column) (tc_id column))] @
               (case tc_sorted column of None \<Rightarrow> []
                | Some d \<Rightarrow> [el ''span'' [] [Txt (tr (if d = Asc then ''dataTable.ascending'' else ''dataTable.descending''))]]))) columns @
           shown_if (n > 0) (Elem ''item'' [] [(''onSelect'', [ResetSorting])] [Txt (tr ''dataTable.sortReset'')]))]])"

definition dataTableViewOptions :: "string \<Rightarrow> string \<Rightarrow> table_model \<Rightarrow> table_view" where
  "dataTableViewOptions label resetLabel m =
     el ''popover'' []
       [el ''trigger'' [(''aria-label'', label)] [Txt label],
        el ''group'' []
          (map (\<lambda>column. Elem ''item'' (flag ''data-checked'' (tc_visible column))
               [(''onSelect'', [ToggleVisibility (tc_id column) (\<not> tc_visible column)])] [Txt (some_or (tc_label column) (tc_id column))])
             (filter (\<lambda>column. tc_accessor column \<and> tc_can_hide column) (tm_columns m)) @
           [Elem ''item'' [] [(''onSelect'', [ResetColumnVisibility, ResetSorting, ResetPagination])] [Txt resetLabel]])]"

record facet =
  fc_columnId :: string
  fc_multiple :: bool
  fc_options :: "facet_option list"
  fc_title :: string

record toolbar_labels =
  tl_clear :: string
  tl_columns :: string
  tl_empty :: string
  tl_reset :: string
  tl_search :: string

definition table_filtered :: "table_state \<Rightarrow> bool" where
  "table_filtered s \<longleftrightarrow> length (columnFilters s) > 0 \<or> globalFilter s \<noteq> []"

text \<open>The toolbar around the children and the trailing control of the page, whose actions are \<open>'p\<close>.\<close>

datatype 'p grid_action = PageDoes 'p | TableDoes "table_action list"

definition dataTableToolbar ::
  "(string \<Rightarrow> string) \<Rightarrow> toolbar_labels \<Rightarrow> facet list \<Rightarrow> 'p view list \<Rightarrow> 'p view list \<Rightarrow> table_model \<Rightarrow> 'p grid_action view" where
  "dataTableToolbar tr labels facets children trailing m =
     el ''div'' [(''role'', ''toolbar'')]
       ([Elem ''input'' [(''placeholder'', tl_search labels), (''value'', globalFilter (tm_state m))] [(''onChange'', TableDoes [TypeGlobalFilter])] []] @
        concat (map (\<lambda>f. if fc_columnId f \<in> set (map tc_id (tm_columns m))
          then [map_view TableDoes (dataTableFacetedFilter (tl_clear labels) (fc_columnId f)
            (map_of (columnFilters (tm_state m)) (fc_columnId f)) (tl_empty labels) (fc_multiple f) (fc_options f) (fc_title f))]
          else []) facets) @
        shown_if (table_filtered (tm_state m)) (button [] (TableDoes [ResetColumnFilters, SetGlobalFilter []]) [Txt (tl_clear labels)]) @
        map (map_view PageDoes) children @
        map (map_view TableDoes) (dataTableSortList tr m) @
        [map_view TableDoes (dataTableViewOptions (tl_columns labels) (tl_reset labels) m)] @
        map (map_view PageDoes) trailing)"

text \<open>The table: a header cell per column, and the rows of the current page, each with its cells; a
  row that can be clicked is one for the keyboard as well.\<close>

definition dataTable ::
  "string option \<Rightarrow> ('r \<Rightarrow> 'p option) \<Rightarrow> table_view list \<Rightarrow> ('r \<Rightarrow> 'p view list) \<Rightarrow> 'r list \<Rightarrow> pagination_labels \<Rightarrow> bool \<Rightarrow>
     table_model \<Rightarrow> 'p grid_action view list \<Rightarrow> 'p grid_action view" where
  "dataTable noResults onRowClick headers cells rows labels withPagination m children =
     el ''div'' []
       (children @
        [el ''table'' []
          ([el ''thead'' [] (map (\<lambda>h. el ''th'' [] [map_view TableDoes h]) headers)] @
           (if rows \<noteq> [] then
              map (\<lambda>row. Elem ''tr'' (case onRowClick row of Some a \<Rightarrow> [(''tabIndex'', ''0'')] | None \<Rightarrow> [])
                  (case onRowClick row of Some a \<Rightarrow> [(''onClick'', PageDoes a), (''onKeyDown'', PageDoes a)] | None \<Rightarrow> [])
                  (map (\<lambda>c. el ''td'' [] [map_view PageDoes c]) (cells row))) rows
            else [el ''tr'' [] [el ''td'' [(''colSpan'', show_nat (length (tm_columns m)))] [Txt (some_or noResults ''No results.'')]]]))] @
        shown_if withPagination (map_view TableDoes (dataTablePagination labels PAGE_SIZE_OPTIONS m)))"

section \<open>Small components\<close>

datatype status_variant = DefaultVariant | ErrorVariant | SuccessVariant | WarningVariant

definition statusVariant :: "string \<Rightarrow> status_variant" where
  "statusVariant v =
     (if v = ''active'' \<or> v = ''success'' then SuccessVariant
      else if v = ''revoked'' \<or> v = ''error'' \<or> v = ''denied'' then ErrorVariant
      else if v = ''expired'' \<or> v = ''rate_limited'' then WarningVariant
      else DefaultVariant)"

definition variant_text :: "status_variant \<Rightarrow> string" where
  "variant_text v = (case v of DefaultVariant \<Rightarrow> ''default'' | ErrorVariant \<Rightarrow> ''error'' | SuccessVariant \<Rightarrow> ''success'' | WarningVariant \<Rightarrow> ''warning'')"

definition domainStatus :: "string \<Rightarrow> string \<Rightarrow> 'a view" where
  "domainStatus label v = el ''status'' [(''variant'', variant_text (statusVariant v))] [Txt label]"

definition statCard :: "string \<Rightarrow> string \<Rightarrow> string \<Rightarrow> string \<Rightarrow> 'a view" where
  "statCard hint icon label v =
     el ''card'' [] [el ''title'' [] [Txt label], el ''icon'' [(''name'', icon)] [], el ''div'' [] [Txt v], el ''p'' [] [Txt hint]]"

definition confirmDialog ::
  "string \<Rightarrow> 'a view list \<Rightarrow> bool \<Rightarrow> string \<Rightarrow> string \<Rightarrow> 'a \<Rightarrow> 'a \<Rightarrow> bool \<Rightarrow> string \<Rightarrow> 'a view list" where
  "confirmDialog cancelLabel children confirmDisabled confirmLabel description onConfirm onClose isOpen title =
     shown_if isOpen
       (Elem ''dialog'' [] [(''onClose'', onClose)]
         ([el ''h2'' [] [Txt title], el ''p'' [] [Txt description]] @ children @
          [button [] onClose [Txt cancelLabel],
           button (flag ''disabled'' confirmDisabled) onConfirm [Txt confirmLabel]]))"

text \<open>\<open>RevealValue\<close> masks a value until it is asked for.\<close>

definition revealValue :: "string \<Rightarrow> string \<Rightarrow> bool \<Rightarrow> string \<Rightarrow> unit view" where
  "revealValue hideLabel showLabel shown v =
     (let label = (if shown then hideLabel else showLabel) in
      el ''div'' []
        [el ''code'' [] [Txt (if shown then v else SECRET_MASK)],
         button [(''type'', ''button''), (''aria-label'', label), (''title'', label)] () []])"

section \<open>Properties\<close>

lemma read_visibility_json [simp]: "read_visibility (visibility_json vs) = vs"
  by (induction vs) (auto simp: read_visibility_def visibility_json_def)

lemma read_sort_json [simp]: "read_sort (sort_json x) = [x]"
  by (cases x) (simp add: read_sort_def sort_json_def json_get_def)

lemma concat_read_sort [simp]: "concat (map (read_sort \<circ> sort_json) xs) = xs"
  by (induction xs) auto

lemma read_preferences_json:
  "read_preferences (preferences_json s) =
     \<lparr>sp_columnVisibility = Some (columnVisibility s), sp_pageSize = Some (pageSize (pagination s)),
      sp_sorting = Some (sorting s)\<rparr>"
  by (simp add: read_preferences_def preferences_json_def json_get_def comp_def [symmetric])

text \<open>What a user arranged in a table comes back on the next visit: mounting the table on the
  preferences the last one stored restores the sorting, the page size and the visibility of every column, for columns the
  stored state says nothing about the initial visibility. \<open>JSON.parse\<close> inverting \<open>JSON.stringify\<close> is the hypothesis
  on the platform, at the stored text.\<close>

theorem table_preferences_roundtrip:
  assumes parse: "json_parse (stringify (preferences_json s)) = Some (preferences_json s)"
    and "key \<noteq> []" and "distinct (map fst (columnVisibility s))"
  shows "let s' = useDataTable init (loadPreferences json_parse (save_preferences (Some key) s storage) (Some key)) in
    sorting s' = sorting s \<and> pageSize (pagination s') = pageSize (pagination s) \<and>
    map_of (columnVisibility s') = map_of (some_or (init_columnVisibility init) []) ++ map_of (columnVisibility s)"
proof -
  have v: "json_get ''version'' (preferences_json s) = Some (JNum 1)"
    by (simp add: preferences_json_def json_get_def)
  have "loadPreferences json_parse (save_preferences (Some key) s storage) (Some key) = read_preferences (preferences_json s)"
    using assms(2) v by (simp add: loadPreferences_def save_preferences_def parse) (simp add: preferences_json_def)
  moreover have "map_of (rev (columnVisibility s)) = map_of (columnVisibility s)"
    using assms(3) by (intro map_of_inject_set [THEN iffD2]) (auto simp: rev_map [symmetric])
  ultimately show ?thesis
    by (auto simp: useDataTable_def read_preferences_json map_of_spread Let_def split: option.split)
qed

definition sample_table :: table_state where
  "sample_table =
     \<lparr>globalFilter = [], columnFilters = [], columnVisibility = [(''slug'', False)],
      pagination = \<lparr>pageIndex = 2, pageSize = 25\<rparr>, sorting = [\<lparr>sort_desc = True, sort_id = ''name''\<rparr>]\<rparr>"

lemma table_preferences_roundtrip_witness:
  "let s' = useDataTable \<lparr>init_globalFilter = None, init_pagination = None, init_sorting = None, init_columnVisibility = None\<rparr>
       (loadPreferences (\<lambda>text'. if text' = stringify (preferences_json sample_table) then Some (preferences_json sample_table) else None)
         (save_preferences (Some ''k'') sample_table Map.empty) (Some ''k''))
   in pageSize (pagination s') = 25 \<and> sorting s' = [\<lparr>sort_desc = True, sort_id = ''name''\<rparr>]"
  using table_preferences_roundtrip
    [of "\<lambda>text'. if text' = stringify (preferences_json sample_table) then Some (preferences_json sample_table) else None"
      sample_table "''k''" "\<lparr>init_globalFilter = None, init_pagination = None, init_sorting = None, init_columnVisibility = None\<rparr>" Map.empty]
  by (simp add: Let_def sample_table_def)

lemma some_or_nonempty [simp]: "some_or (if xs \<noteq> [] then Some xs else None) [] = xs"
  by simp

lemma select_facet_multiple:
  "some_or (select_facet True fv v) [] =
     (let xs = remdups (some_or fv []) in if v \<in> set xs then removeAll v xs else xs @ [v])"
  unfolding select_facet_def Let_def some_or_nonempty by simp

lemma select_facet_single:
  "some_or (select_facet False fv v) [] = (if v \<in> set (some_or fv []) then [] else [v])"
  unfolding select_facet_def Let_def some_or_nonempty by simp

lemma select_facet_nonempty: "select_facet multiple fv v \<noteq> Some []"
  by (simp add: select_facet_def Let_def)

lemma set_select_facet_multiple:
  "set (some_or (select_facet True fv v) []) =
     (if v \<in> set (some_or fv []) then set (some_or fv []) - {v} else insert v (set (some_or fv [])))"
  by (simp add: select_facet_multiple Let_def)

text \<open>Choosing options of a facet keeps the filter a set without repetitions that is never empty; with
  several options allowed choosing one twice restores the selection, with a single one at most one is selected.\<close>

theorem facet_selection:
  "let f = select_facet multiple filterValue v in
    distinct (some_or f []) \<and> f \<noteq> Some [] \<and>
    (v \<in> set (some_or f []) \<longleftrightarrow> v \<notin> set (some_or filterValue [])) \<and>
    (if multiple then set (some_or (select_facet multiple f v) []) = set (some_or filterValue [])
     else length (some_or f []) \<le> 1)"
proof (cases multiple)
  case True
  have "distinct (some_or (select_facet True filterValue v) [])"
    by (simp add: select_facet_multiple Let_def distinct_removeAll)
  moreover have "set (some_or (select_facet True (select_facet True filterValue v) v) []) = set (some_or filterValue [])"
    unfolding set_select_facet_multiple by auto
  ultimately show ?thesis
    using True select_facet_nonempty by (simp add: Let_def set_select_facet_multiple)
next
  case False
  then show ?thesis
    using select_facet_nonempty by (simp add: Let_def select_facet_single)
qed

text \<open>The controls of the pagination.\<close>

lemma pagination_offers:
  "[PreviousPage] \<in> set (offered (dataTablePagination labels sizes m)) \<longleftrightarrow> tm_can_previous m"
  "[NextPage] \<in> set (offered (dataTablePagination labels sizes m)) \<longleftrightarrow> tm_can_next m"
  by (auto simp: dataTablePagination_def)

end
