(* ===== verification/Pages.thy ===== *)
theory Pages
  imports DataTable "HOL-Library.Multiset"
begin

text \<open>
  What the pages of the console share. A page is a state with a handler for the user's actions, run in
  the environment a render sees (the data of the queries), and a continuation for the calls that come
  back. A handler's effects may send a call, kept in the state as a job until it is answered. The
  contract is the locale \<open>page_machine\<close>: the theories of the pages interpret it on their own handlers.
  The elements of forms and dialogs, and tables given by their columns, are here too.
\<close>

section \<open>Runs\<close>

datatype ('env, 'act, 'job, 'ans) page_event = Act 'env 'act | Answer 'job 'ans

fun page_step ::
  "('env \<Rightarrow> 'act \<Rightarrow> 's \<Rightarrow> 's \<times> 'eff list) \<Rightarrow> ('job \<Rightarrow> 'ans \<Rightarrow> 's \<Rightarrow> 's \<times> 'eff list) \<Rightarrow> ('s \<Rightarrow> 'job list) \<Rightarrow>
     ('env, 'act, 'job, 'ans) page_event \<Rightarrow> 's \<Rightarrow> 's \<times> 'eff list" where
  "page_step handle settle jobs (Act env a) s = handle env a s"
| "page_step handle settle jobs (Answer j r) s = (if j \<in> set (jobs s) then settle j r s else (s, []))"

fun run_page ::
  "('env \<Rightarrow> 'act \<Rightarrow> 's \<Rightarrow> 's \<times> 'eff list) \<Rightarrow> ('job \<Rightarrow> 'ans \<Rightarrow> 's \<Rightarrow> 's \<times> 'eff list) \<Rightarrow> ('s \<Rightarrow> 'job list) \<Rightarrow>
     ('env, 'act, 'job, 'ans) page_event list \<Rightarrow> 's \<Rightarrow> 's \<times> 'eff list" where
  "run_page handle settle jobs [] s = (s, [])"
| "run_page handle settle jobs (ev # evs) s =
     (let (s1, es1) = page_step handle settle jobs ev s; (s2, es2) = run_page handle settle jobs evs s1 in (s2, es1 @ es2))"

lemma run_page_invariant:
  assumes "\<And>env a s. I s \<Longrightarrow> I (fst (handle env a s))" and "\<And>j r s. I s \<Longrightarrow> j \<in> set (jobs s) \<Longrightarrow> I (fst (settle j r s))"
  shows "I s \<Longrightarrow> I (fst (run_page handle settle jobs evs s))"
proof (induction evs arbitrary: s)
  case (Cons ev evs)
  have "I (fst (page_step handle settle jobs ev s))"
    using assms Cons.prems by (cases ev) auto
  from Cons.IH [OF this] show ?case by (simp add: case_prod_beta Let_def)
qed simp

text \<open>The answers of a run that found their call under way.\<close>

fun answered ::
  "('env \<Rightarrow> 'act \<Rightarrow> 's \<Rightarrow> 's \<times> 'eff list) \<Rightarrow> ('job \<Rightarrow> 'ans \<Rightarrow> 's \<Rightarrow> 's \<times> 'eff list) \<Rightarrow> ('s \<Rightarrow> 'job list) \<Rightarrow>
     ('env, 'act, 'job, 'ans) page_event list \<Rightarrow> 's \<Rightarrow> 'job list" where
  "answered handle settle jobs [] s = []"
| "answered handle settle jobs (ev # evs) s =
     (case ev of Answer j r \<Rightarrow> if j \<in> set (jobs s) then [j] else [] | Act env a \<Rightarrow> []) @
     answered handle settle jobs evs (fst (page_step handle settle jobs ev s))"

section \<open>The contract of a page\<close>

text \<open>The calls under way change only by what a handler sends and by the call that comes back, and what
  a handler sends has passed the page's checks.\<close>

locale page_machine =
  fixes handle :: "'env \<Rightarrow> 'act \<Rightarrow> 's \<Rightarrow> 's \<times> 'eff list"
    and settle :: "'job \<Rightarrow> 'ans \<Rightarrow> 's \<Rightarrow> 's \<times> 'eff list"
    and jobs :: "'s \<Rightarrow> 'job list"
    and sends :: "'eff list \<Rightarrow> 'job list"
    and valid :: "'job \<Rightarrow> bool"
  assumes sends_Nil: "sends [] = []"
    and sends_append: "sends (es @ fs) = sends es @ sends fs"
    and handle_jobs: "jobs (fst (handle env a s)) = jobs s @ sends (snd (handle env a s))"
    and handle_valid: "j \<in> set (sends (snd (handle env a s))) \<Longrightarrow> valid j"
    and settle_jobs: "jobs (fst (settle j r s)) = remove1 j (jobs s)"
    and settle_sends: "sends (snd (settle j r s)) = []"
begin

abbreviation run where "run \<equiv> run_page handle settle jobs"

lemma sends_step:
  "sends (snd (page_step handle settle jobs ev s)) = (case ev of Act env a \<Rightarrow> sends (snd (handle env a s)) | Answer j r \<Rightarrow> [])"
  by (cases ev) (simp_all add: settle_sends sends_Nil)

lemma jobs_step:
  "mset (jobs (fst (page_step handle settle jobs ev s))) +
     mset (case ev of Answer j r \<Rightarrow> if j \<in> set (jobs s) then [j] else [] | Act env a \<Rightarrow> []) =
   mset (jobs s) + mset (sends (snd (page_step handle settle jobs ev s)))"
  by (cases ev) (simp_all add: handle_jobs settle_jobs settle_sends sends_Nil insert_DiffM)

lemma sends_run_Cons:
  "sends (snd (run (ev # evs) s)) =
     (case ev of Act env a \<Rightarrow> sends (snd (handle env a s)) | Answer j r \<Rightarrow> []) @
     sends (snd (run evs (fst (page_step handle settle jobs ev s))))"
  by (simp only: run_page.simps Let_def case_prod_beta fst_conv snd_conv sends_append sends_step)

theorem sends_valid: "j \<in> set (sends (snd (run evs s))) \<Longrightarrow> valid j"
proof (induction evs arbitrary: s)
  case (Cons ev evs)
  then show ?case
    unfolding sends_run_Cons by (cases ev) (auto dest: handle_valid)
qed (simp add: sends_Nil)

theorem jobs_conserved:
  "mset (jobs (fst (run evs s))) + mset (answered handle settle jobs evs s) = mset (jobs s) + mset (sends (snd (run evs s)))"
proof (induction evs arbitrary: s)
  case (Cons ev evs)
  let ?s1 = "fst (page_step handle settle jobs ev s)"
  have "mset (jobs (fst (run (ev # evs) s))) + mset (answered handle settle jobs (ev # evs) s) =
      (mset (jobs (fst (run evs ?s1))) + mset (answered handle settle jobs evs ?s1)) +
      mset (case ev of Answer j r \<Rightarrow> if j \<in> set (jobs s) then [j] else [] | Act env a \<Rightarrow> [])"
    by (simp add: split_beta Let_def)
  also have "\<dots> = mset (jobs s) + mset (sends (snd (page_step handle settle jobs ev s))) + mset (sends (snd (run evs ?s1)))"
    using Cons [of ?s1] jobs_step [of ev s] by (simp add: ac_simps)
  also have "\<dots> = mset (jobs s) + mset (sends (snd (run (ev # evs) s)))"
    by (simp only: sends_run_Cons sends_step) (simp add: ac_simps)
  finally show ?case .
qed (simp add: sends_Nil)

theorem jobs_valid: "\<forall>j \<in> set (jobs s). valid j \<Longrightarrow> j \<in> set (jobs (fst (run evs s))) \<Longrightarrow> valid j"
proof -
  assume ok: "\<forall>j \<in> set (jobs s). valid j" and j: "j \<in> set (jobs (fst (run evs s)))"
  have "j \<in># mset (jobs (fst (run evs s))) + mset (answered handle settle jobs evs s)"
    using j by simp
  then have "j \<in> set (jobs s) \<or> j \<in> set (sends (snd (run evs s)))"
    unfolding jobs_conserved by simp
  then show "valid j" using ok sends_valid by blast
qed

end

section \<open>Forms and dialogs\<close>

text \<open>What a control asks for: an action, or the new content of a field.\<close>

datatype ('a, 'i) control = Do 'a | TypeIn 'i

definition text_field :: "'i \<Rightarrow> (string \<times> string) list \<Rightarrow> string \<Rightarrow> ('a, 'i) control view" where
  "text_field i attrs v = Elem ''input'' (attrs @ [(''value'', v)]) [(''onChange'', TypeIn i)] []"

definition do_button :: "bool \<Rightarrow> 'a \<Rightarrow> ('a, 'i) control view list \<Rightarrow> ('a, 'i) control view" where
  "do_button disabled a children = button (flag ''disabled'' disabled) (Do a) children"

definition label :: "string \<Rightarrow> 'a view" where
  "label s = el ''label'' [] [Txt s]"

definition hint :: "string \<Rightarrow> 'a view" where
  "hint s = el ''p'' [] [Txt s]"

definition badge :: "string \<Rightarrow> string \<Rightarrow> 'a view" where
  "badge variant s = el ''badge'' [(''variant'', variant)] [Txt s]"

text \<open>\<open>message && <div>{message}</div>\<close>.\<close>

definition error_text :: "string \<Rightarrow> 'a view list" where
  "error_text m = shown_if (m \<noteq> []) (el ''p'' [(''role'', ''alert'')] [Txt m])"

text \<open>A page translates a key with parameters; its messages are keys, translated where they are shown.\<close>

type_synonym translation = "string \<Rightarrow> (string \<times> string) list \<Rightarrow> string"

definition shown_message :: "translation \<Rightarrow> string \<Rightarrow> 'a view list" where
  "shown_message t m = error_text (if m = [] then [] else t m [])"

text \<open>A dialog is rendered while it is open; closing it is an action of the user.\<close>

definition dialog :: "bool \<Rightarrow> 'a \<Rightarrow> string \<Rightarrow> string \<Rightarrow> 'a view list \<Rightarrow> 'a view list" where
  "dialog isOpen onClose title description children =
     shown_if isOpen (Elem ''dialog'' [] [(''onOpenChange'', onClose)] ([el ''h2'' [] [Txt title], el ''p'' [] [Txt description]] @ children))"

definition select :: "('v \<Rightarrow> 'b) \<Rightarrow> string \<Rightarrow> (string \<times> 'v) list \<Rightarrow> 'b view" where
  "select on current options =
     el ''select'' [(''value'', current)] (map (\<lambda>(l, v). Elem ''option'' [] [(''onValueChange'', on v)] [Txt l]) options)"

lemma offered_form_simps [simp, view_simps]:
  "offered (text_field i attrs v) = (if is_disabled attrs then [] else [TypeIn i])"
  "offered (do_button disabled a children) = (if disabled then [] else Do a # concat (map offered children))"
  "offered (label s) = []" "offered (hint s) = []" "offered (badge variant s) = []"
  "concat (map offered (error_text m)) = []"
  "concat (map offered (dialog isOpen onClose title description children)) =
     (if isOpen then onClose # concat (map offered children) else [])"
  "offered (select on current options) = map (on \<circ> snd) options"
  by (simp_all add: text_field_def do_button_def label_def hint_def badge_def error_text_def dialog_def select_def is_disabled_def flag_def
      shown_if_def el_def button_def comp_def case_prod_beta concat_map_singleton)

lemma offered_shown_message [simp]: "concat (map offered (shown_message t m)) = []"
  by (simp add: shown_message_def)

section \<open>Tables of the pages\<close>

record ('r, 'p) column_def =
  cd_id :: string
  cd_label :: string
  cd_sorting :: bool
  cd_hiding :: bool
  cd_cell :: "'r \<Rightarrow> 'p view list"

definition data_column :: "string \<Rightarrow> string \<Rightarrow> ('r \<Rightarrow> 'p view list) \<Rightarrow> ('r, 'p) column_def" where
  "data_column i l cell = \<lparr>cd_id = i, cd_label = l, cd_sorting = True, cd_hiding = True, cd_cell = cell\<rparr>"

definition actions_column :: "string \<Rightarrow> ('r \<Rightarrow> 'p view list) \<Rightarrow> ('r, 'p) column_def" where
  "actions_column l cell = \<lparr>cd_id = ''actions'', cd_label = l, cd_sorting = False, cd_hiding = False, cd_cell = cell\<rparr>"

text \<open>The visible columns of a table, in the order of the table, with their definitions.\<close>

definition visible_columns :: "('r, 'p) column_def list \<Rightarrow> table_model \<Rightarrow> (table_column \<times> ('r, 'p) column_def) list" where
  "visible_columns defs m =
     concat (map (\<lambda>c. case find (\<lambda>d. cd_id d = tc_id c) defs of Some d \<Rightarrow> [(c, d)] | None \<Rightarrow> []) (filter tc_visible (tm_columns m)))"

definition render_table ::
  "header_labels \<Rightarrow> pagination_labels \<Rightarrow> string \<Rightarrow> ('r \<Rightarrow> 'p option) \<Rightarrow> ('r, 'p) column_def list \<Rightarrow> table_model \<Rightarrow> 'r list \<Rightarrow>
     'p grid_action view list \<Rightarrow> 'p grid_action view" where
  "render_table sortLabels labels noResults onRowClick defs m rows children =
     dataTable (Some noResults) onRowClick
       (map (\<lambda>(c, d). if cd_sorting d then dataTableColumnHeader c (cd_label d) sortLabels else Txt (cd_label d)) (visible_columns defs m))
       (\<lambda>row. map (\<lambda>(c, d). el ''div'' [] (cd_cell d row)) (visible_columns defs m))
       rows labels True m children"

definition page_sort_labels :: "(string \<Rightarrow> string) \<Rightarrow> header_labels" where
  "page_sort_labels tr =
     \<lparr>hl_asc = Some (tr ''dataTable.sortAsc''), hl_desc = Some (tr ''dataTable.sortDesc''), hl_reset = Some (tr ''dataTable.sortReset'')\<rparr>"

definition page_table_labels :: "(string \<Rightarrow> string) \<Rightarrow> pagination_labels" where
  "page_table_labels tr =
     \<lparr>goToFirstPage = tr ''dataTable.firstPage'', goToLastPage = tr ''dataTable.lastPage'', goToNextPage = tr ''dataTable.nextPage'',
      goToPreviousPage = tr ''dataTable.previousPage'', itemLabel = tr ''dataTable.item'', itemsLabel = tr ''dataTable.items'',
      pageLabelText = tr ''dataTable.page'', pageOfLabel = tr ''dataTable.pageOf'', rowsPerPage = tr ''dataTable.rowsPerPage''\<rparr>"

definition page_toolbar_labels :: "(string \<Rightarrow> string) \<Rightarrow> string \<Rightarrow> toolbar_labels" where
  "page_toolbar_labels tr search =
     \<lparr>tl_clear = tr ''dataTable.clearFilters'', tl_columns = tr ''dataTable.columns'', tl_empty = tr ''dataTable.noResults'',
      tl_reset = tr ''dataTable.resetPreferences'', tl_search = tr search\<rparr>"

text \<open>What a page is asked by its own controls; those of the tables are the tables' business.\<close>

definition page_actions :: "'p grid_action view \<Rightarrow> 'p list" where
  "page_actions v = concat (map (\<lambda>a. case a of PageDoes p \<Rightarrow> [p] | TableDoes _ \<Rightarrow> []) (offered v))"

lemma page_actions_iff: "a \<in> set (page_actions v) \<longleftrightarrow> PageDoes a \<in> set (offered v)"
  by (auto simp: page_actions_def split: grid_action.splits)

lemma concat_offered_shown_if [simp]: "concat (map offered (shown_if b v)) = (if b then offered v else [])"
  by (rule offered_when)

lemma page_does_map [simp]:
  "PageDoes a \<in> set (offered (map_view PageDoes v)) \<longleftrightarrow> a \<in> set (offered v)"
  "PageDoes a \<in> set (offered (map_view TableDoes w)) \<longleftrightarrow> False"
  by auto

lemma in_offered_concat: "a \<in> set (concat (map offered vs)) \<longleftrightarrow> (\<exists>v \<in> set vs. a \<in> set (offered v))"
  by auto

text \<open>The actions a page offers through a table: those of the rows shown and of the children.\<close>

lemma toolbar_offers:
  "PageDoes a \<in> set (offered (dataTableToolbar tr labels facets children trailing m)) \<longleftrightarrow>
     (\<exists>v \<in> set (children @ trailing). a \<in> set (offered v))"
  by (auto simp: dataTableToolbar_def shown_if_def in_offered_concat is_disabled_def split: if_splits)

lemma row_offers:
  "PageDoes a \<in> set (offered (Elem ''tr'' (case click of Some a' \<Rightarrow> [(''tabIndex'', ''0'')] | None \<Rightarrow> [])
       (case click of Some a' \<Rightarrow> [(''onClick'', PageDoes a'), (''onKeyDown'', PageDoes a')] | None \<Rightarrow> [])
       (map (\<lambda>c. el ''td'' [] [map_view PageDoes c]) cs))) \<longleftrightarrow>
     click = Some a \<or> (\<exists>c \<in> set cs. a \<in> set (offered c))"
  by (cases click) auto

lemma dataTable_offers:
  "PageDoes a \<in> set (offered (dataTable noResults onRowClick headers cells rows labels withPagination m children)) \<longleftrightarrow>
     (\<exists>v \<in> set children. PageDoes a \<in> set (offered v)) \<or>
     (\<exists>row \<in> set rows. onRowClick row = Some a \<or> (\<exists>c \<in> set (cells row). a \<in> set (offered c)))"
proof -
  define r where "r = (\<lambda>row. Elem ''tr'' (case onRowClick row of Some a' \<Rightarrow> [(''tabIndex'', ''0'')] | None \<Rightarrow> [])
       (case onRowClick row of Some a' \<Rightarrow> [(''onClick'', PageDoes a'), (''onKeyDown'', PageDoes a')] | None \<Rightarrow> [])
       (map (\<lambda>c. el ''td'' [] [map_view PageDoes c]) (cells row)))"
  have r: "PageDoes a \<in> set (offered (r row)) \<longleftrightarrow> onRowClick row = Some a \<or> (\<exists>c \<in> set (cells row). a \<in> set (offered c))" for row
    unfolding r_def by (rule row_offers)
  show ?thesis
    unfolding dataTable_def r_def [symmetric] by (auto simp: shown_if_def r)
qed

lemma render_table_offers:
  "PageDoes a \<in> set (offered (render_table sortLabels labels noResults onRowClick defs m rows children)) \<longleftrightarrow>
     (\<exists>v \<in> set children. PageDoes a \<in> set (offered v)) \<or>
     (\<exists>row \<in> set rows. onRowClick row = Some a \<or>
       (\<exists>(c, d) \<in> set (visible_columns defs m). \<exists>v \<in> set (cd_cell d row). a \<in> set (offered v)))"
  unfolding render_table_def dataTable_offers by (simp add: case_prod_beta)

lemma visible_columns_defs: "(c, d) \<in> set (visible_columns defs m) \<Longrightarrow> d \<in> set defs"
  by (auto simp: visible_columns_def split: option.splits) (metis find_SomeD)

end
