(* ===== verification/TenantDetail.thy ===== *)
theory TenantDetail
  imports Pages DataTable Idempotency TenantOverview I18n Navigation Validation
begin

text \<open>
  The page of one tenant (\<open>web/src/routes/tenant-detail/-components/page.tsx\<close>): its state, its event
  handlers and what it renders. A handler runs up to its \<open>await\<close> and sends a job; \<open>complete\<close> runs
  what follows when the job's call has come back, the mutation's \<open>onSuccess\<close> included. What the
  queries hold is the environment of a render. Error fields hold the message key shown. Secrets are
  shown by the hook of \<open>Reveal\<close>, whose state is part of the page's.
\<close>

section \<open>State\<close>

datatype tenant_tab = OverviewTab | ResourcesTab | DomainsTab

record edit_form =
  ef_name :: string
  ef_slug :: string
  ef_status :: string

record tenant_forms =
  editOpen :: bool
  edit :: edit_form
  editError :: string
  deleteOpen :: bool
  deleteConfirmation :: string

record domain_forms =
  hostname :: string
  newDomainOpen :: bool
  domainError :: string
  pendingDomain :: "TenantDomain option"
  editingDomain :: "TenantDomain option"
  editingHostname :: string
  editDomainError :: string

record resource_form =
  resOpen :: bool
  pick :: string
  resourceName :: string
  resourceAlias :: string
  sourceResourceId :: string
  vals :: "(string \<times> string) list"
  resourceError :: string
  isCreatingResource :: bool
  resourceCreateAttempt :: slot

record resource_dialogs =
  pendingResource :: "(string \<times> string) option"
  selectedResourceId :: string
  editingResource :: "(string \<times> string \<times> string) option"
  editingResourceName :: string
  editingResourceAlias :: string
  editResourceError :: string

record field_dialog =
  editingField :: "ResourceFieldValue option"
  editingFieldValue :: string
  fieldEditError :: string
  isUpdatingField :: bool

record duplicate_dialog =
  duplicateOpen :: bool
  duplicateTarget :: "(string \<times> string) option"
  duplicateAlias :: string
  duplicateError :: string
  duplicateAttempt :: slot

text \<open>A job is a call under way, with what its handler goes on to use.\<close>

record create_request =
  cr_name :: string
  cr_alias :: string
  cr_definitionKey :: string
  cr_sourceResourceId :: "string option"
  cr_values :: "(string \<times> string) list"

datatype td_job =
    UpdateTenantJob edit_form
  | SetStatusJob string string
  | IdentityJob string string string
  | DeleteResourceJob string
  | DuplicateJob string string string
  | CreateResourceJob create_request string
  | UpdateFieldJob string string string
  | ClearOverrideJob string string
  | AddDomainJob string
  | UpdateDomainJob string string
  | RemoveDomainJob string
  | DeleteTenantJob
  | RevealJob request

record page =
  tab :: tenant_tab
  pageError :: string
  tforms :: tenant_forms
  dforms :: domain_forms
  rform :: resource_form
  rdialogs :: resource_dialogs
  fdialog :: field_dialog
  ddialog :: duplicate_dialog
  reveal_hook :: "(TenantResource list, api_error) reveal"
  jobs :: "td_job list"

definition initial_page :: "string \<Rightarrow> string \<Rightarrow> page" where
  "initial_page tenantId tok =
     \<lparr>tab = OverviewTab, pageError = [],
      tforms = \<lparr>editOpen = False, edit = \<lparr>ef_name = [], ef_slug = [], ef_status = ''active''\<rparr>, editError = [],
        deleteOpen = False, deleteConfirmation = []\<rparr>,
      dforms = \<lparr>hostname = [], newDomainOpen = False, domainError = [], pendingDomain = None, editingDomain = None,
        editingHostname = [], editDomainError = []\<rparr>,
      rform = \<lparr>resOpen = False, pick = [], resourceName = [], resourceAlias = [], sourceResourceId = [], vals = [],
        resourceError = [], isCreatingResource = False, resourceCreateAttempt = \<lparr>current = None, uuids_drawn = 0\<rparr>\<rparr>,
      rdialogs = \<lparr>pendingResource = None, selectedResourceId = [], editingResource = None, editingResourceName = [],
        editingResourceAlias = [], editResourceError = []\<rparr>,
      fdialog = \<lparr>editingField = None, editingFieldValue = [], fieldEditError = [], isUpdatingField = False\<rparr>,
      ddialog = \<lparr>duplicateOpen = False, duplicateTarget = None, duplicateAlias = [], duplicateError = [],
        duplicateAttempt = \<lparr>current = None, uuids_drawn = 0\<rparr>\<rparr>,
      reveal_hook = mount tenantId tok, jobs = []\<rparr>"

section \<open>What a render sees\<close>

record td_env =
  e_id :: string
  e_caps :: AdminCapabilities
  e_tenant :: "Tenant option"
  e_tenant_pending :: bool
  e_domains :: "TenantDomain list"
  e_resources :: "TenantResource list"
  e_definitions :: "Definition list"
  e_definition_fields :: "string \<Rightarrow> Field list option"
  e_definition_error :: "string \<Rightarrow> api_error option"
  e_query_errors :: "api_error option list"

definition page_resources :: "td_env \<Rightarrow> page \<Rightarrow> TenantResource list" where
  "page_resources env s = some_or (resources (reveal_hook s)) (e_resources env)"

definition isRevealed :: "page \<Rightarrow> bool" where
  "isRevealed s \<longleftrightarrow> resources (reveal_hook s) \<noteq> None"

definition selectedResource :: "td_env \<Rightarrow> page \<Rightarrow> TenantResource option" where
  "selectedResource env s = find (\<lambda>resource. r_id resource = selectedResourceId (rdialogs s)) (page_resources env s)"

definition page_overview :: "td_env \<Rightarrow> page \<Rightarrow> TenantOverviewSummary" where
  "page_overview env s =
     summarizeTenantOverview (length (e_domains env)) (page_resources env s)
       (case e_tenant env of Some tenant \<Rightarrow> t_status tenant | None \<Rightarrow> ''inactive'')"

definition available :: "td_env \<Rightarrow> Definition list" where
  "available env = filter (\<lambda>d. d_status d = ''active'') (e_definitions env)"

definition picked :: "td_env \<Rightarrow> page \<Rightarrow> Definition option" where
  "picked env s = find (\<lambda>d. d_key d = pick (rform s)) (available env)"

definition pickedFields :: "td_env \<Rightarrow> page \<Rightarrow> Field list" where
  "pickedFields env s =
     (case picked env s of None \<Rightarrow> [] | Some d \<Rightarrow> some_or (e_definition_fields env (d_id d)) [])"

definition sourceCandidates :: "td_env \<Rightarrow> page \<Rightarrow> TenantResource list" where
  "sourceCandidates env s =
     filter (\<lambda>resource. r_status resource = ''active'' \<and> \<not> r_linked resource \<and>
       Some (r_definitionKey resource) = map_option d_key (picked env s)) (page_resources env s)"

definition field_value :: "page \<Rightarrow> string \<Rightarrow> string" where
  "field_value s key = some_or (map_of (vals (rform s)) key) []"

definition requiredFilled :: "td_env \<Rightarrow> page \<Rightarrow> bool" where
  "requiredFilled env s \<longleftrightarrow>
     picked env s \<noteq> None \<and>
     (sourceResourceId (rform s) \<noteq> [] \<or>
      list_all (\<lambda>f. js_trim (field_value s (f_key f)) \<noteq> []) (filter f_required (pickedFields env s)))"

definition resourceValuesValid :: "td_env \<Rightarrow> page \<Rightarrow> bool" where
  "resourceValuesValid env s \<longleftrightarrow>
     list_all (\<lambda>f. isValidTypedResourceValue (f_data_type f) (field_value s (f_key f))) (pickedFields env s)"

definition editingFieldValueValid :: "page \<Rightarrow> bool" where
  "editingFieldValueValid s \<longleftrightarrow>
     (case editingField (fdialog s) of None \<Rightarrow> True
      | Some f \<Rightarrow> isValidTypedResourceValue (rf_dataType f) (editingFieldValue (fdialog s)))"

definition queryError :: "td_env \<Rightarrow> page \<Rightarrow> api_error option" where
  "queryError env s =
     (case find (\<lambda>e. e \<noteq> None) (e_query_errors env @ [error (reveal_hook s)]) of Some e \<Rightarrow> e | None \<Rightarrow> None)"

definition visiblePageError :: "td_env \<Rightarrow> page \<Rightarrow> string" where
  "visiblePageError env s =
     (if pageError s \<noteq> [] then pageError s
      else case queryError env s of Some e \<Rightarrow> apiErrorMessage e | None \<Rightarrow> [])"

definition visibleResourceError :: "td_env \<Rightarrow> page \<Rightarrow> string" where
  "visibleResourceError env s =
     (if resourceError (rform s) \<noteq> [] then resourceError (rform s)
      else case (case picked env s of Some d \<Rightarrow> e_definition_error env (d_id d) | None \<Rightarrow> None) of
        Some e \<Rightarrow> apiErrorMessage e | None \<Rightarrow> [])"

section \<open>Effects and actions\<close>

datatype td_effect =
    Send td_job
  | Cache "cache_command list"
  | Toast string
  | GoTo string

datatype td_input =
    EditNameInput | EditSlugInput | EditStatusInput
  | ResourceNameInput | ResourceAliasInput | SourceInput | ValueInput string
  | IdentityNameInput | IdentityAliasInput | DuplicateAliasInput | FieldValueInput
  | HostnameInput | DomainEditInput | DeleteInput

datatype (plugins only: code) td_action =
    SetTab tenant_tab
  | Input td_input string
  | OpenEdit | SetEditOpen bool | SaveEdit
  | OpenAddResource | Choose string | SetResOpen bool | SaveResource
  | OpenIdentity TenantResource | CloseIdentity | SaveIdentity
  | ToggleResource TenantResource
  | OpenDuplicate TenantResource | SetDuplicateOpen bool | Duplicate
  | RequestRemoval TenantResource | CloseRemoval | RemoveResource
  | SelectResource string | CloseDetails
  | OpenFieldEdit ResourceFieldValue | CloseFieldEdit | SaveFieldEdit | ClearOverride ResourceFieldValue
  | OpenAddDomain | SetNewDomainOpen bool | SaveDomain
  | OpenDomainEdit TenantDomain | CloseDomainEdit | CancelDomainEdit | SaveDomainEdit
  | RequestDomainRemoval TenantDomain | CloseDomainRemoval | RemoveDomain
  | ToggleSecrets
  | OpenDelete | SetDeleteOpen bool | DeleteTenantAction
  | BackToTenants

abbreviation on_t :: "(tenant_forms \<Rightarrow> tenant_forms) \<Rightarrow> page \<Rightarrow> page" where "on_t \<equiv> tforms_update"
abbreviation on_d :: "(domain_forms \<Rightarrow> domain_forms) \<Rightarrow> page \<Rightarrow> page" where "on_d \<equiv> dforms_update"
abbreviation on_r :: "(resource_form \<Rightarrow> resource_form) \<Rightarrow> page \<Rightarrow> page" where "on_r \<equiv> rform_update"
abbreviation on_rd :: "(resource_dialogs \<Rightarrow> resource_dialogs) \<Rightarrow> page \<Rightarrow> page" where "on_rd \<equiv> rdialogs_update"
abbreviation on_f :: "(field_dialog \<Rightarrow> field_dialog) \<Rightarrow> page \<Rightarrow> page" where "on_f \<equiv> fdialog_update"
abbreviation on_dup :: "(duplicate_dialog \<Rightarrow> duplicate_dialog) \<Rightarrow> page \<Rightarrow> page" where "on_dup \<equiv> ddialog_update"

definition reveal_hide :: "page \<Rightarrow> page" where
  "reveal_hide s = s\<lparr>reveal_hook := hide (reveal_hook s)\<rparr>"

definition send_job :: "td_job \<Rightarrow> page \<Rightarrow> page \<times> td_effect list" where
  "send_job j s = (s\<lparr>jobs := jobs s @ [j]\<rparr>, [Send j])"

text \<open>The pending flags of the mutations.\<close>

definition identityPending :: "page \<Rightarrow> bool" where
  "identityPending s \<longleftrightarrow> list_ex (\<lambda>j. case j of IdentityJob _ _ _ \<Rightarrow> True | _ \<Rightarrow> False) (jobs s)"

definition duplicatePending :: "page \<Rightarrow> bool" where
  "duplicatePending s \<longleftrightarrow> list_ex (\<lambda>j. case j of DuplicateJob _ _ _ \<Rightarrow> True | _ \<Rightarrow> False) (jobs s)"

definition updateDomainPending :: "page \<Rightarrow> bool" where
  "updateDomainPending s \<longleftrightarrow> list_ex (\<lambda>j. case j of UpdateDomainJob _ _ \<Rightarrow> True | _ \<Rightarrow> False) (jobs s)"

definition deletePending :: "page \<Rightarrow> bool" where
  "deletePending s \<longleftrightarrow> list_ex (\<lambda>j. j = DeleteTenantJob) (jobs s)"

text \<open>The call of a job.\<close>

definition job_call :: "string \<Rightarrow> td_job \<Rightarrow> api_call" where
  "job_call i j =
     (case j of
        UpdateTenantJob f \<Rightarrow> UpdateTenant i (ef_name f) (ef_slug f) (ef_status f)
      | SetStatusJob resourceId status \<Rightarrow> SetResourceStatus i resourceId status
      | IdentityJob resourceId name alias \<Rightarrow> UpdateResourceIdentity i resourceId name alias
      | DeleteResourceJob resourceId \<Rightarrow> DeleteResource i resourceId
      | DuplicateJob resourceId alias key \<Rightarrow> DuplicateResource i resourceId alias (Some key)
      | CreateResourceJob r key \<Rightarrow> CreateResource i (cr_name r) (cr_alias r) (cr_definitionKey r) (cr_sourceResourceId r) (cr_values r) (Some key)
      | UpdateFieldJob resourceId fieldKey v \<Rightarrow> UpdateResourceField i resourceId fieldKey v
      | ClearOverrideJob resourceId fieldKey \<Rightarrow> ClearResourceFieldOverride i resourceId fieldKey
      | AddDomainJob h \<Rightarrow> AddDomain i h
      | UpdateDomainJob domainId h \<Rightarrow> UpdateDomain i domainId h
      | RemoveDomainJob domainId \<Rightarrow> AdminApi.RemoveDomain i domainId
      | DeleteTenantJob \<Rightarrow> DeleteTenant i
      | RevealJob rq \<Rightarrow> ListTenantResources (rq_tenant rq) True)"

definition create_json :: "create_request \<Rightarrow> json" where
  "create_json r =
     JObj ([(''name'', JStr (cr_name r)), (''alias'', JStr (cr_alias r)), (''definitionKey'', JStr (cr_definitionKey r))] @
       opt_member ''sourceResourceId'' (map_option JStr (cr_sourceResourceId r)) @
       [(''values'', string_record (cr_values r))])"

definition duplicate_json :: "string \<Rightarrow> string \<Rightarrow> json" where
  "duplicate_json resourceId alias = JObj [(''resourceId'', JStr resourceId), (''alias'', JStr alias)]"

section \<open>Handlers\<close>

definition input :: "td_input \<Rightarrow> string \<Rightarrow> page \<Rightarrow> page" where
  "input i v s =
     (case i of
        EditNameInput \<Rightarrow> on_t (\<lambda>f. f\<lparr>edit := (edit f)\<lparr>ef_name := v\<rparr>\<rparr>) s
      | EditSlugInput \<Rightarrow> on_t (\<lambda>f. f\<lparr>edit := (edit f)\<lparr>ef_slug := v\<rparr>\<rparr>) s
      | EditStatusInput \<Rightarrow> on_t (\<lambda>f. f\<lparr>edit := (edit f)\<lparr>ef_status := v\<rparr>\<rparr>) s
      | ResourceNameInput \<Rightarrow> on_r (\<lambda>f. f\<lparr>resourceName := v\<rparr>) s
      | ResourceAliasInput \<Rightarrow> on_r (\<lambda>f. f\<lparr>resourceAlias := v\<rparr>) s
      | SourceInput \<Rightarrow> on_r (\<lambda>f. f\<lparr>sourceResourceId := v\<rparr>) s
      | ValueInput key \<Rightarrow> on_r (\<lambda>f. f\<lparr>vals := AList.update key v (vals f)\<rparr>) s
      | IdentityNameInput \<Rightarrow> on_rd (\<lambda>f. f\<lparr>editingResourceName := v\<rparr>) s
      | IdentityAliasInput \<Rightarrow> on_rd (\<lambda>f. f\<lparr>editingResourceAlias := v\<rparr>) s
      | DuplicateAliasInput \<Rightarrow> on_dup (\<lambda>f. f\<lparr>duplicateAlias := v\<rparr>) s
      | FieldValueInput \<Rightarrow> on_f (\<lambda>f. f\<lparr>editingFieldValue := v\<rparr>) s
      | HostnameInput \<Rightarrow> on_d (\<lambda>f. f\<lparr>hostname := v\<rparr>) s
      | DomainEditInput \<Rightarrow> on_d (\<lambda>f. f\<lparr>editingHostname := v\<rparr>) s
      | DeleteInput \<Rightarrow> on_t (\<lambda>f. f\<lparr>deleteConfirmation := v\<rparr>) s)"

definition openEdit :: "td_env \<Rightarrow> page \<Rightarrow> page" where
  "openEdit env s =
     (case e_tenant env of
        None \<Rightarrow> s
      | Some tenant \<Rightarrow> on_t (\<lambda>f. f\<lparr>edit := \<lparr>ef_name = t_name tenant, ef_slug = t_slug tenant, ef_status = t_status tenant\<rparr>,
          editError := [], editOpen := True\<rparr>) s)"

definition saveEdit :: "page \<Rightarrow> page \<times> td_effect list" where
  "saveEdit s =
     (let f = edit (tforms s) in
      if js_trim (ef_name f) = [] \<or> \<not> isValidTenantSlug (ef_slug f) then (s, [])
      else send_job (UpdateTenantJob f) (on_t (\<lambda>f. f\<lparr>editError := []\<rparr>) s))"

definition choose_type :: "td_env \<Rightarrow> string \<Rightarrow> page \<Rightarrow> page" where
  "choose_type env key s =
     on_r (\<lambda>f. f\<lparr>pick := key,
       resourceName := (case find (\<lambda>d. d_key d = key) (available env) of Some d \<Rightarrow> d_name d | None \<Rightarrow> key),
       resourceAlias := key, sourceResourceId := [], vals := [], resourceError := []\<rparr>) s"

definition saveResource :: "(nat \<Rightarrow> string) \<Rightarrow> td_env \<Rightarrow> page \<Rightarrow> page \<times> td_effect list" where
  "saveResource uuid env s =
     (case picked env s of
        None \<Rightarrow> (s, [])
      | Some d \<Rightarrow>
          let f = rform s in
          if js_trim (resourceName f) = [] \<or> \<not> requiredFilled env s \<or> \<not> isValidResourceAlias (resourceAlias f) then (s, [])
          else
            let request = \<lparr>cr_name = js_trim (resourceName f), cr_alias = js_trim (resourceAlias f), cr_definitionKey = d_key d,
                  cr_sourceResourceId = (if sourceResourceId f \<noteq> [] then Some (sourceResourceId f) else None), cr_values = vals f\<rparr>;
                (key, attempt) = stableIdempotencyKey uuid (create_json request) (resourceCreateAttempt f)
            in send_job (CreateResourceJob request key)
                 (reveal_hide (on_r (\<lambda>f. f\<lparr>resourceError := [], isCreatingResource := True, resourceCreateAttempt := attempt\<rparr>) s)))"

definition openResourceIdentity :: "TenantResource \<Rightarrow> page \<Rightarrow> page" where
  "openResourceIdentity resource s =
     on_rd (\<lambda>f. f\<lparr>editingResource := Some (r_id resource, r_name resource, r_alias resource),
       editingResourceName := r_name resource, editingResourceAlias := r_alias resource, editResourceError := [],
       selectedResourceId := []\<rparr>) s"

definition saveResourceIdentity :: "page \<Rightarrow> page \<times> td_effect list" where
  "saveResourceIdentity s =
     (let f = rdialogs s in
      case editingResource f of
        None \<Rightarrow> (s, [])
      | Some (resourceId, _, _) \<Rightarrow>
          if js_trim (editingResourceName f) = [] \<or> \<not> isValidResourceAlias (editingResourceAlias f) then (s, [])
          else send_job (IdentityJob resourceId (js_trim (editingResourceName f)) (js_trim (editingResourceAlias f)))
                 (on_rd (\<lambda>f. f\<lparr>editResourceError := []\<rparr>) s))"

definition toggleResource :: "TenantResource \<Rightarrow> page \<Rightarrow> page \<times> td_effect list" where
  "toggleResource r s =
     send_job (SetStatusJob (r_id r) (if r_status r = ''active'' then ''inactive'' else ''active'')) s"

definition openDuplicateResource :: "TenantResource \<Rightarrow> page \<Rightarrow> page" where
  "openDuplicateResource resource s =
     on_rd (\<lambda>f. f\<lparr>selectedResourceId := []\<rparr>)
       (on_dup (\<lambda>f. f\<lparr>duplicateAlias := r_alias resource @ ''.copy'', duplicateTarget := Some (r_id resource, r_alias resource),
          duplicateError := [], duplicateOpen := True\<rparr>) s)"

definition requestResourceRemoval :: "TenantResource \<Rightarrow> page \<Rightarrow> page" where
  "requestResourceRemoval resource s =
     on_rd (\<lambda>f. f\<lparr>pendingResource := Some (r_id resource, r_alias resource), selectedResourceId := []\<rparr>) s"

definition removeResource :: "page \<Rightarrow> page \<times> td_effect list" where
  "removeResource s =
     (case pendingResource (rdialogs s) of None \<Rightarrow> (s, []) | Some (resourceId, _) \<Rightarrow> send_job (DeleteResourceJob resourceId) s)"

definition openFieldEdit :: "ResourceFieldValue \<Rightarrow> page \<Rightarrow> page" where
  "openFieldEdit field s =
     on_f (\<lambda>f. f\<lparr>editingField := Some field, editingFieldValue := (if rf_isSecret field then [] else rf_value field),
       fieldEditError := []\<rparr>) s"

definition saveFieldEdit :: "td_env \<Rightarrow> page \<Rightarrow> page \<times> td_effect list" where
  "saveFieldEdit env s =
     (case (selectedResource env s, editingField (fdialog s)) of
        (Some r, Some field) \<Rightarrow>
          if \<not> editingFieldValueValid s \<or> rf_required field \<and> editingFieldValue (fdialog s) = [] then (s, [])
          else send_job (UpdateFieldJob (r_id r) (rf_key field) (editingFieldValue (fdialog s)))
                 (reveal_hide (on_f (\<lambda>f. f\<lparr>fieldEditError := [], isUpdatingField := True\<rparr>) s))
      | _ \<Rightarrow> (s, []))"

definition clearFieldOverride :: "td_env \<Rightarrow> ResourceFieldValue \<Rightarrow> page \<Rightarrow> page \<times> td_effect list" where
  "clearFieldOverride env field s =
     (case selectedResource env s of
        None \<Rightarrow> (s, [])
      | Some r \<Rightarrow> send_job (ClearOverrideJob (r_id r) (rf_key field)) (reveal_hide s))"

definition duplicateSelectedResource :: "(nat \<Rightarrow> string) \<Rightarrow> page \<Rightarrow> page \<times> td_effect list" where
  "duplicateSelectedResource uuid s =
     (let f = ddialog s in
      case duplicateTarget f of
        None \<Rightarrow> (s, [])
      | Some (resourceId, _) \<Rightarrow>
          if \<not> isValidResourceAlias (duplicateAlias f) then (s, [])
          else
            let alias = js_trim (duplicateAlias f);
                (key, attempt) = stableIdempotencyKey uuid (duplicate_json resourceId alias) (duplicateAttempt f)
            in send_job (DuplicateJob resourceId alias key) (on_dup (\<lambda>f. f\<lparr>duplicateError := [], duplicateAttempt := attempt\<rparr>) s))"

definition saveDomain :: "page \<Rightarrow> page \<times> td_effect list" where
  "saveDomain s =
     (if \<not> isValidHostname (hostname (dforms s)) then (s, [])
      else send_job (AddDomainJob (js_trim (hostname (dforms s)))) (on_d (\<lambda>f. f\<lparr>domainError := []\<rparr>) s))"

definition saveDomainEdit :: "page \<Rightarrow> page \<times> td_effect list" where
  "saveDomainEdit s =
     (case editingDomain (dforms s) of
        None \<Rightarrow> (s, [])
      | Some d \<Rightarrow>
          if \<not> isValidHostname (editingHostname (dforms s)) then (s, [])
          else send_job (UpdateDomainJob (td_id d) (js_trim (editingHostname (dforms s)))) (on_d (\<lambda>f. f\<lparr>editDomainError := []\<rparr>) s))"

definition removeDomain :: "page \<Rightarrow> page \<times> td_effect list" where
  "removeDomain s =
     (case pendingDomain (dforms s) of None \<Rightarrow> (s, []) | Some d \<Rightarrow> send_job (RemoveDomainJob (td_id d)) s)"

definition toggleSecrets :: "td_env \<Rightarrow> page \<Rightarrow> page \<times> td_effect list" where
  "toggleSecrets env s =
     (if isRevealed s then (reveal_hide s, [Toast ''tenantDetail.secretsDisabled''])
      else let (h, rq) = show_begin (e_id env) (reveal_hook s) in send_job (RevealJob rq) (s\<lparr>reveal_hook := h\<rparr>))"

definition deleteTenantPermanently :: "td_env \<Rightarrow> page \<Rightarrow> page \<times> td_effect list" where
  "deleteTenantPermanently env s =
     (case e_tenant env of
        None \<Rightarrow> (s, [])
      | Some tenant \<Rightarrow>
          if \<not> matchesTenantSlug (deleteConfirmation (tforms s)) (t_slug tenant) then (s, [])
          else send_job DeleteTenantJob (reveal_hide s))"

definition closeDomainEdit :: "page \<Rightarrow> page" where
  "closeDomainEdit s = on_d (\<lambda>f. f\<lparr>editingDomain := None, editingHostname := [], editDomainError := []\<rparr>) s"

definition handle :: "(nat \<Rightarrow> string) \<Rightarrow> td_env \<Rightarrow> td_action \<Rightarrow> page \<Rightarrow> page \<times> td_effect list" where
  "handle uuid env a s =
     (case a of
        SetTab x \<Rightarrow> (s\<lparr>tab := x\<rparr>, [])
      | Input i v \<Rightarrow> (input i v s, [])
      | OpenEdit \<Rightarrow> (openEdit env s, [])
      | SetEditOpen b \<Rightarrow> (on_t (\<lambda>f. f\<lparr>editOpen := b\<rparr>) s, [])
      | SaveEdit \<Rightarrow> saveEdit s
      | OpenAddResource \<Rightarrow> (on_r (\<lambda>f. f\<lparr>resourceError := [], pick := [], resOpen := True\<rparr>) s, [])
      | Choose key \<Rightarrow> (choose_type env key s, [])
      | SetResOpen b \<Rightarrow>
          (on_r (\<lambda>f. if b then f\<lparr>resOpen := True\<rparr>
            else f\<lparr>resOpen := False, pick := [], resourceName := [], resourceAlias := [], sourceResourceId := [], vals := []\<rparr>) s, [])
      | SaveResource \<Rightarrow> saveResource uuid env s
      | OpenIdentity r \<Rightarrow> (openResourceIdentity r s, [])
      | CloseIdentity \<Rightarrow> (on_rd (\<lambda>f. f\<lparr>editingResource := None, editResourceError := []\<rparr>) s, [])
      | SaveIdentity \<Rightarrow> saveResourceIdentity s
      | ToggleResource r \<Rightarrow> toggleResource r s
      | OpenDuplicate r \<Rightarrow> (openDuplicateResource r s, [])
      | SetDuplicateOpen b \<Rightarrow>
          (on_dup (\<lambda>f. if b then f\<lparr>duplicateOpen := True\<rparr>
            else f\<lparr>duplicateOpen := False, duplicateTarget := None, duplicateAlias := [], duplicateError := []\<rparr>) s, [])
      | Duplicate \<Rightarrow> duplicateSelectedResource uuid s
      | RequestRemoval r \<Rightarrow> (requestResourceRemoval r s, [])
      | CloseRemoval \<Rightarrow> (on_rd (\<lambda>f. f\<lparr>pendingResource := None\<rparr>) s, [])
      | RemoveResource \<Rightarrow> removeResource s
      | SelectResource i \<Rightarrow> (on_rd (\<lambda>f. f\<lparr>selectedResourceId := i\<rparr>) s, [])
      | CloseDetails \<Rightarrow> (if editingField (fdialog s) = None then on_rd (\<lambda>f. f\<lparr>selectedResourceId := []\<rparr>) s else s, [])
      | OpenFieldEdit field \<Rightarrow> (openFieldEdit field s, [])
      | CloseFieldEdit \<Rightarrow> (on_f (\<lambda>f. f\<lparr>editingField := None, editingFieldValue := [], fieldEditError := []\<rparr>) s, [])
      | SaveFieldEdit \<Rightarrow> saveFieldEdit env s
      | ClearOverride field \<Rightarrow> clearFieldOverride env field s
      | OpenAddDomain \<Rightarrow> (on_d (\<lambda>f. f\<lparr>hostname := [], domainError := [], newDomainOpen := True\<rparr>) s, [])
      | SetNewDomainOpen b \<Rightarrow> (on_d (\<lambda>f. f\<lparr>newDomainOpen := b\<rparr>) s, [])
      | SaveDomain \<Rightarrow> saveDomain s
      | OpenDomainEdit d \<Rightarrow> (on_d (\<lambda>f. f\<lparr>editingDomain := Some d, editingHostname := td_hostname d, editDomainError := []\<rparr>) s, [])
      | CloseDomainEdit \<Rightarrow> (if updateDomainPending s then s else closeDomainEdit s, [])
      | CancelDomainEdit \<Rightarrow> (closeDomainEdit s, [])
      | SaveDomainEdit \<Rightarrow> saveDomainEdit s
      | RequestDomainRemoval d \<Rightarrow> (on_d (\<lambda>f. f\<lparr>pendingDomain := Some d\<rparr>) s, [])
      | CloseDomainRemoval \<Rightarrow> (on_d (\<lambda>f. f\<lparr>pendingDomain := None\<rparr>) s, [])
      | td_action.RemoveDomain \<Rightarrow> removeDomain s
      | ToggleSecrets \<Rightarrow> toggleSecrets env s
      | OpenDelete \<Rightarrow> (on_t (\<lambda>f. f\<lparr>deleteConfirmation := [], deleteOpen := True\<rparr>) s, [])
      | SetDeleteOpen b \<Rightarrow>
          (on_t (\<lambda>f. if \<not> b \<and> \<not> deletePending s then f\<lparr>deleteOpen := b, deleteConfirmation := []\<rparr> else f\<lparr>deleteOpen := b\<rparr>) s, [])
      | DeleteTenantAction \<Rightarrow> deleteTenantPermanently env s
      | BackToTenants \<Rightarrow> (s, [GoTo ''/tenants'']))"

section \<open>When a call comes back\<close>

text \<open>The cache commands of a success: the mutation's \<open>onSuccess\<close>, or the handler's own.\<close>

definition success_commands :: "string \<Rightarrow> td_job \<Rightarrow> cache_command list" where
  "success_commands i j =
     (case j of
        UpdateTenantJob _ \<Rightarrow> invalidateTenant i
      | AddDomainJob _ \<Rightarrow> invalidateTenantDomains i
      | UpdateDomainJob _ _ \<Rightarrow> invalidateTenantDomains i
      | RemoveDomainJob _ \<Rightarrow> invalidateTenantDomains i
      | DeleteTenantJob \<Rightarrow> removeTenantQueries i
      | RevealJob _ \<Rightarrow> []
      | _ \<Rightarrow> invalidateTenantResources i)"

text \<open>The mutations whose \<open>onSuccess\<close> hides what is revealed; the others hid it before sending.\<close>

definition hides_on_success :: "td_job \<Rightarrow> bool" where
  "hides_on_success j =
     (case j of UpdateTenantJob _ \<Rightarrow> True | SetStatusJob _ _ \<Rightarrow> True | IdentityJob _ _ _ \<Rightarrow> True
      | DeleteResourceJob _ \<Rightarrow> True | DuplicateJob _ _ _ \<Rightarrow> True | _ \<Rightarrow> False)"

definition succeeded :: "td_job \<Rightarrow> page \<Rightarrow> page \<times> td_effect list" where
  "succeeded j s =
     (case j of
        UpdateTenantJob _ \<Rightarrow> (on_t (\<lambda>f. f\<lparr>editOpen := False\<rparr>) s, [Toast ''tenantDetail.updated''])
      | SetStatusJob _ next' \<Rightarrow>
          (s, [Toast (if next' = ''active'' then ''tenantDetail.resourceStatusActivated'' else ''tenantDetail.resourceStatusDeactivated'')])
      | IdentityJob _ _ _ \<Rightarrow> (on_rd (\<lambda>f. f\<lparr>editingResource := None\<rparr>) s, [Toast ''tenantDetail.resourceUpdated''])
      | DeleteResourceJob _ \<Rightarrow> (on_rd (\<lambda>f. f\<lparr>pendingResource := None\<rparr>) s, [Toast ''tenantDetail.resourceRemoved''])
      | DuplicateJob _ _ _ \<Rightarrow>
          (on_dup (\<lambda>f. f\<lparr>duplicateOpen := False, duplicateTarget := None, duplicateAlias := [],
             duplicateAttempt := reset_slot (duplicateAttempt f)\<rparr>) s, [Toast ''tenantDetail.resourceDuplicated''])
      | CreateResourceJob _ _ \<Rightarrow>
          (on_r (\<lambda>f. f\<lparr>resOpen := False, pick := [], resourceName := [], resourceAlias := [], sourceResourceId := [], vals := [],
             resourceCreateAttempt := reset_slot (resourceCreateAttempt f), isCreatingResource := False\<rparr>) s,
           [Toast ''tenantDetail.resourceAdded''])
      | UpdateFieldJob _ _ _ \<Rightarrow>
          (on_f (\<lambda>f. f\<lparr>editingField := None, editingFieldValue := [], isUpdatingField := False\<rparr>) s,
           [Toast ''tenantDetail.resourceFieldUpdated''])
      | ClearOverrideJob _ _ \<Rightarrow> (s, [Toast ''tenantDetail.resourceFieldInherited''])
      | AddDomainJob _ \<Rightarrow> (on_d (\<lambda>f. f\<lparr>hostname := [], newDomainOpen := False\<rparr>) s, [Toast ''tenantDetail.domainAdded''])
      | UpdateDomainJob _ _ \<Rightarrow> (on_d (\<lambda>f. f\<lparr>editingDomain := None, editingHostname := []\<rparr>) s, [Toast ''tenantDetail.domainUpdated''])
      | RemoveDomainJob _ \<Rightarrow> (on_d (\<lambda>f. f\<lparr>pendingDomain := None\<rparr>) s, [Toast ''tenantDetail.domainRemoved''])
      | DeleteTenantJob \<Rightarrow> (s, [Toast ''tenantDetail.deleted'', GoTo ''/tenants''])
      | RevealJob _ \<Rightarrow> (s, []))"

definition failed :: "td_job \<Rightarrow> api_error \<Rightarrow> page \<Rightarrow> page" where
  "failed j e s =
     (let m = apiErrorMessage e in
      case j of
        UpdateTenantJob _ \<Rightarrow> on_t (\<lambda>f. f\<lparr>editError := m\<rparr>) s
      | IdentityJob _ _ _ \<Rightarrow> on_rd (\<lambda>f. f\<lparr>editResourceError := m\<rparr>) s
      | DuplicateJob _ _ _ \<Rightarrow> on_dup (\<lambda>f. f\<lparr>duplicateError := m\<rparr>) s
      | CreateResourceJob _ _ \<Rightarrow> on_r (\<lambda>f. f\<lparr>resourceError := m, isCreatingResource := False\<rparr>) s
      | UpdateFieldJob _ _ _ \<Rightarrow> on_f (\<lambda>f. f\<lparr>fieldEditError := m, isUpdatingField := False\<rparr>) s
      | AddDomainJob _ \<Rightarrow> on_d (\<lambda>f. f\<lparr>domainError := m\<rparr>) s
      | UpdateDomainJob _ _ \<Rightarrow> on_d (\<lambda>f. f\<lparr>editDomainError := m\<rparr>) s
      | RevealJob _ \<Rightarrow> s
      | _ \<Rightarrow> s\<lparr>pageError := m\<rparr>)"

definition complete :: "string \<Rightarrow> td_job \<Rightarrow> (api_error + unit) \<Rightarrow> page \<Rightarrow> page \<times> td_effect list" where
  "complete i j result s =
     (let s = s\<lparr>jobs := remove1 j (jobs s)\<rparr> in
      case result of
        Inl e \<Rightarrow> (failed j e s, [])
      | Inr _ \<Rightarrow>
          let s = (if hides_on_success j then reveal_hide s else s);
              (s', es) = succeeded j s
          in (s', Cache (success_commands i j) # es))"

text \<open>The answer of a reveal goes through the hook; only a reveal that is shown is announced.\<close>

definition complete_reveal :: "request \<Rightarrow> (api_error + TenantResource list) \<Rightarrow> page \<Rightarrow> page \<times> td_effect list" where
  "complete_reveal rq result s =
     (let s = s\<lparr>jobs := remove1 (RevealJob rq) (jobs s)\<rparr> in
      case result of
        Inl e \<Rightarrow> (s\<lparr>reveal_hook := fst (show_rejected rq False e (reveal_hook s))\<rparr>, [])
      | Inr revealed \<Rightarrow>
          let (h, shown) = show_resolved rq revealed (reveal_hook s) in
          (s\<lparr>reveal_hook := h\<rparr>, if shown then [Toast ''tenantDetail.secretsEnabled''] else []))"

definition settle :: "string \<Rightarrow> td_job \<Rightarrow> (api_error + TenantResource list) \<Rightarrow> page \<Rightarrow> page \<times> td_effect list" where
  "settle i j result s =
     (case j of RevealJob rq \<Rightarrow> complete_reveal rq result s | _ \<Rightarrow> complete i j (map_sum id (\<lambda>_. ()) result) s)"

section \<open>The page as a machine\<close>

definition sent :: "td_effect list \<Rightarrow> td_job list" where
  "sent es = concat (map (\<lambda>e. case e of Send j \<Rightarrow> [j] | _ \<Rightarrow> []) es)"

text \<open>What a call that is sent has passed.\<close>

definition clean_alias :: "string \<Rightarrow> bool" where
  "clean_alias a \<longleftrightarrow> js_trim a = a \<and> isValidResourceAlias a"

definition job_valid :: "td_job \<Rightarrow> bool" where
  "job_valid j =
     (case j of
        UpdateTenantJob f \<Rightarrow> js_trim (ef_name f) \<noteq> [] \<and> isValidTenantSlug (ef_slug f)
      | SetStatusJob _ status \<Rightarrow> status \<in> set [''active'', ''inactive'']
      | IdentityJob _ name alias \<Rightarrow> name \<noteq> [] \<and> js_trim name = name \<and> clean_alias alias
      | DuplicateJob _ alias _ \<Rightarrow> clean_alias alias
      | CreateResourceJob r _ \<Rightarrow> cr_name r \<noteq> [] \<and> js_trim (cr_name r) = cr_name r \<and> clean_alias (cr_alias r)
      | AddDomainJob h \<Rightarrow> js_trim h = h \<and> isValidHostname h
      | UpdateDomainJob _ h \<Rightarrow> js_trim h = h \<and> isValidHostname h
      | _ \<Rightarrow> True)"

lemma clean_alias_trim [simp]: "clean_alias (js_trim a) = isValidResourceAlias a"
  by (simp add: clean_alias_def isValidResourceAlias_def)

lemma valid_hostname_trim [simp]: "isValidHostname (js_trim h) = isValidHostname h"
  by (simp add: isValidHostname_def)

lemma sent_simps [simp]:
  "sent [] = []" "sent (Send j # es) = j # sent es" "sent (Cache c # es) = sent es" "sent (Toast m # es) = sent es"
  "sent (GoTo p # es) = sent es" "sent (es @ fs) = sent es @ sent fs"
  by (simp_all add: sent_def)

text \<open>A handler's result, seen from the calls under way.\<close>

definition sends_validly :: "page \<Rightarrow> page \<times> td_effect list \<Rightarrow> bool" where
  "sends_validly s r \<longleftrightarrow> jobs (fst r) = jobs s @ sent (snd r) \<and> list_all job_valid (sent (snd r))"

named_theorems sending \<open>handlers send valid calls\<close>

lemma sends_validly_simps [simp]:
  "sends_validly s (s', []) \<longleftrightarrow> jobs s' = jobs s"
  "sends_validly s (s', [Toast m]) \<longleftrightarrow> jobs s' = jobs s"
  "sends_validly s (s', [GoTo p]) \<longleftrightarrow> jobs s' = jobs s"
  "sends_validly s (send_job j s') \<longleftrightarrow> jobs s' = jobs s \<and> job_valid j"
  by (simp_all add: sends_validly_def send_job_def)

lemma jobs_reveal_hide [simp]: "jobs (reveal_hide s) = jobs s"
  by (simp add: reveal_hide_def)

lemma forms_send [sending]:
  "sends_validly s (saveEdit s)" "sends_validly s (saveResourceIdentity s)" "sends_validly s (toggleResource r s)"
  "sends_validly s (removeResource s)" "sends_validly s (saveDomain s)" "sends_validly s (saveDomainEdit s)" "sends_validly s (removeDomain s)"
  by (auto simp: saveEdit_def saveResourceIdentity_def toggleResource_def removeResource_def saveDomain_def saveDomainEdit_def
      removeDomain_def job_valid_def Let_def split: option.split prod.split)

lemma dialogs_send [sending]:
  "sends_validly s (saveResource uuid env s)" "sends_validly s (duplicateSelectedResource uuid s)" "sends_validly s (saveFieldEdit env s)"
  "sends_validly s (clearFieldOverride env field s)" "sends_validly s (toggleSecrets env s)" "sends_validly s (deleteTenantPermanently env s)"
  by (auto simp: saveResource_def duplicateSelectedResource_def saveFieldEdit_def clearFieldOverride_def toggleSecrets_def
      deleteTenantPermanently_def job_valid_def Let_def split: option.split prod.split)

lemma jobs_local [simp]:
  "jobs (input i v s) = jobs s" "jobs (openEdit env s) = jobs s" "jobs (choose_type env key s) = jobs s"
  "jobs (openResourceIdentity r s) = jobs s" "jobs (openDuplicateResource r s) = jobs s" "jobs (requestResourceRemoval r s) = jobs s"
  "jobs (openFieldEdit field s) = jobs s" "jobs (closeDomainEdit s) = jobs s"
  by (simp_all add: input_def openEdit_def choose_type_def openResourceIdentity_def openDuplicateResource_def requestResourceRemoval_def
      openFieldEdit_def closeDomainEdit_def split: td_input.split option.split)

lemma handle_sends [sending]: "sends_validly s (handle uuid env a s)"
  by (cases a) (simp_all add: handle_def sending)

lemma succeeded_frame [simp]: "jobs (fst (succeeded j s)) = jobs s" "sent (snd (succeeded j s)) = []"
  by (simp_all add: succeeded_def split: td_job.split)

lemma failed_frame [simp]: "jobs (failed j e s) = jobs s"
  by (simp add: failed_def Let_def split: td_job.split)

lemma settle_frame: "jobs (fst (settle i j r s)) = remove1 j (jobs s) \<and> sent (snd (settle i j r s)) = []"
  by (auto simp: settle_def complete_def complete_reveal_def Let_def split_beta split: td_job.split sum.split)

interpretation td: page_machine "handle uuid" "settle i" jobs sent job_valid for uuid i
  using handle_sends settle_frame by unfold_locales (auto simp: sends_validly_def list_all_iff)

lemma initial_page_jobs [simp]: "jobs (initial_page i tok) = []"
  by (simp add: initial_page_def)

text \<open>Which handler sends which kind of call.\<close>

lemma delete_sent_aux:
  "DeleteTenantJob \<notin> set (sent (snd (saveEdit s)))" "DeleteTenantJob \<notin> set (sent (snd (saveResourceIdentity s)))"
  "DeleteTenantJob \<notin> set (sent (snd (toggleResource r s)))" "DeleteTenantJob \<notin> set (sent (snd (removeResource s)))"
  "DeleteTenantJob \<notin> set (sent (snd (saveDomain s)))" "DeleteTenantJob \<notin> set (sent (snd (saveDomainEdit s)))"
  "DeleteTenantJob \<notin> set (sent (snd (removeDomain s)))" "DeleteTenantJob \<notin> set (sent (snd (saveResource uuid env s)))"
  "DeleteTenantJob \<notin> set (sent (snd (duplicateSelectedResource uuid s)))" "DeleteTenantJob \<notin> set (sent (snd (saveFieldEdit env s)))"
  "DeleteTenantJob \<notin> set (sent (snd (clearFieldOverride env field s)))" "DeleteTenantJob \<notin> set (sent (snd (toggleSecrets env s)))"
  by (auto simp: saveEdit_def saveResourceIdentity_def toggleResource_def removeResource_def saveDomain_def saveDomainEdit_def
      removeDomain_def saveResource_def duplicateSelectedResource_def saveFieldEdit_def clearFieldOverride_def toggleSecrets_def
      send_job_def Let_def split: option.split prod.split)

lemma delete_sent:
  "(DeleteTenantJob \<in> set (sent (snd (handle uuid env a s)))) =
     (a = DeleteTenantAction \<and>
      (case e_tenant env of Some tenant \<Rightarrow> js_trim (deleteConfirmation (tforms s)) = t_slug tenant | None \<Rightarrow> False))"
  by (cases a) (simp_all add: handle_def delete_sent_aux deleteTenantPermanently_def matchesTenantSlug_def send_job_def split: option.split)

section \<open>Secrets\<close>

definition job_asked :: "page \<Rightarrow> td_job \<Rightarrow> bool" where
  "job_asked s j = (case j of RevealJob rq \<Rightarrow> rq_epoch rq \<le> epochRef (reveal_hook s) | _ \<Rightarrow> True)"

definition reveals_ok :: "page \<Rightarrow> bool" where
  "reveals_ok s \<longleftrightarrow> mountedRef (reveal_hook s) \<and> list_all (job_asked s) (jobs s)"

text \<open>What a handler or a settled call does to the hook.\<close>

definition hook_frame :: "page \<Rightarrow> page \<times> td_effect list \<Rightarrow> bool" where
  "hook_frame s r \<longleftrightarrow>
     mountedRef (reveal_hook (fst r)) = mountedRef (reveal_hook s) \<and> epochRef (reveal_hook s) \<le> epochRef (reveal_hook (fst r)) \<and>
     list_all (job_asked (fst r)) (sent (snd r))"

lemma hide_hook [simp]:
  "mountedRef (hide h) = mountedRef h" "epochRef (hide h) = Suc (epochRef h)" "resources (hide h) = (if mountedRef h then None else resources h)"
  by (simp_all add: hide_def frame_simps)

lemma reveal_hook_hide [simp]: "reveal_hook (reveal_hide s) = hide (reveal_hook s)"
  by (simp add: reveal_hide_def)

lemma hook_frame_simps [simp]:
  "hook_frame s (s', []) = (mountedRef (reveal_hook s') = mountedRef (reveal_hook s) \<and> epochRef (reveal_hook s) \<le> epochRef (reveal_hook s'))"
  "hook_frame s (s', [Toast m]) = hook_frame s (s', [])" "hook_frame s (s', [GoTo p]) = hook_frame s (s', [])"
  "hook_frame s (send_job j s') = (hook_frame s (s', []) \<and> job_asked s' j)"
  by (auto simp: hook_frame_def send_job_def job_asked_def split: td_job.splits)

lemma hook_local [simp]:
  "reveal_hook (input i v s) = reveal_hook s" "reveal_hook (openEdit env s) = reveal_hook s" "reveal_hook (choose_type env key s) = reveal_hook s"
  "reveal_hook (openResourceIdentity r s) = reveal_hook s" "reveal_hook (openDuplicateResource r s) = reveal_hook s"
  "reveal_hook (requestResourceRemoval r s) = reveal_hook s" "reveal_hook (openFieldEdit field s) = reveal_hook s"
  "reveal_hook (closeDomainEdit s) = reveal_hook s"
  by (simp_all add: input_def openEdit_def choose_type_def openResourceIdentity_def openDuplicateResource_def requestResourceRemoval_def
      openFieldEdit_def closeDomainEdit_def split: td_input.split option.split)

lemma handlers_hook [sending]:
  "hook_frame s (saveEdit s)" "hook_frame s (saveResourceIdentity s)" "hook_frame s (toggleResource r s)"
  "hook_frame s (removeResource s)" "hook_frame s (saveDomain s)" "hook_frame s (saveDomainEdit s)" "hook_frame s (removeDomain s)"
  "hook_frame s (saveResource uuid env s)" "hook_frame s (duplicateSelectedResource uuid s)" "hook_frame s (saveFieldEdit env s)"
  "hook_frame s (clearFieldOverride env field s)" "hook_frame s (deleteTenantPermanently env s)"
  by (auto simp: saveEdit_def saveResourceIdentity_def toggleResource_def removeResource_def saveDomain_def saveDomainEdit_def
      removeDomain_def saveResource_def duplicateSelectedResource_def saveFieldEdit_def clearFieldOverride_def
      deleteTenantPermanently_def job_asked_def Let_def split: option.split prod.split)

lemma toggle_hook [sending]: "hook_frame s (toggleSecrets env s)"
  by (simp add: toggleSecrets_def job_asked_def split_beta Let_def frame_simps)

lemma handle_hook: "hook_frame s (handle uuid env a s)"
  by (cases a) (simp_all add: handle_def sending)

lemma succeeded_hook [simp]: "reveal_hook (fst (succeeded j s)) = reveal_hook s"
  by (simp add: succeeded_def split: td_job.split)

lemma failed_hook [simp]: "reveal_hook (failed j e s) = reveal_hook s"
  by (simp add: failed_def Let_def split: td_job.split)

lemma complete_hook:
  "reveal_hook (fst (complete i j r s)) =
     (if hides_on_success j \<and> \<not> isl r then hide (reveal_hook s) else reveal_hook s)"
  by (auto simp: complete_def Let_def split_beta split: sum.split)

lemma complete_reveal_hook: "reveal_hook (fst (complete_reveal rq r s)) = settle_request rq r (reveal_hook s)"
  by (simp add: complete_reveal_def settle_request_def Let_def split_beta split: sum.split)

lemma settle_hook:
  "reveal_hook (fst (settle i j r s)) =
     (case j of RevealJob rq \<Rightarrow> settle_request rq r (reveal_hook s)
      | _ \<Rightarrow> if hides_on_success j \<and> \<not> isl r then hide (reveal_hook s) else reveal_hook s)"
  by (cases r) (simp_all add: settle_def complete_hook complete_reveal_hook split: td_job.split)

lemma hook_grows: "mountedRef (reveal_hook (fst (settle i j r s))) = mountedRef (reveal_hook s) \<and>
    epochRef (reveal_hook s) \<le> epochRef (reveal_hook (fst (settle i j r s)))"
  by (simp add: settle_hook frame_simps split: td_job.split)

lemma job_asked_mono: "job_asked s j \<Longrightarrow> epochRef (reveal_hook s) \<le> epochRef (reveal_hook s') \<Longrightarrow> job_asked s' j"
  by (auto simp: job_asked_def split: td_job.splits)

lemma reveals_ok_run: "reveals_ok (fst (run_page (handle uuid) (settle i) jobs evs (initial_page t tok)))"
proof (rule run_page_invariant)
  show "reveals_ok (fst (handle uuid env a s))" if "reveals_ok s" for env a s
    using that handle_hook [of s uuid env a] handle_sends [of s uuid env a]
    by (auto simp: reveals_ok_def hook_frame_def sends_validly_def list_all_iff intro: job_asked_mono)
  show "reveals_ok (fst (settle i j r s))" if "reveals_ok s" "j \<in> set (jobs s)" for j r s
    using that hook_grows [of i j r s] settle_frame [of i j r s]
    by (auto simp: reveals_ok_def list_all_iff dest: notin_set_remove1 intro: job_asked_mono)
  show "reveals_ok (initial_page t tok)"
    by (simp add: reveals_ok_def initial_page_def mount_def frame_simps)
qed

section \<open>Failures and retries\<close>

text \<open>The message of a job's form; the page's own for calls without a form.\<close>

definition job_message :: "td_job \<Rightarrow> page \<Rightarrow> string" where
  "job_message j s =
     (case j of
        UpdateTenantJob _ \<Rightarrow> editError (tforms s)
      | IdentityJob _ _ _ \<Rightarrow> editResourceError (rdialogs s)
      | DuplicateJob _ _ _ \<Rightarrow> duplicateError (ddialog s)
      | CreateResourceJob _ _ \<Rightarrow> resourceError (rform s)
      | UpdateFieldJob _ _ _ \<Rightarrow> fieldEditError (fdialog s)
      | AddDomainJob _ \<Rightarrow> domainError (dforms s)
      | UpdateDomainJob _ _ \<Rightarrow> editDomainError (dforms s)
      | _ \<Rightarrow> pageError s)"

text \<open>The page without its messages, its calls and its progress flags: what the user has open and has typed.\<close>

definition typed_in :: "page \<Rightarrow> page" where
  "typed_in s =
     on_t (\<lambda>f. f\<lparr>editError := []\<rparr>) (on_rd (\<lambda>f. f\<lparr>editResourceError := []\<rparr>) (on_dup (\<lambda>f. f\<lparr>duplicateError := []\<rparr>)
       (on_r (\<lambda>f. f\<lparr>resourceError := [], isCreatingResource := False\<rparr>) (on_f (\<lambda>f. f\<lparr>fieldEditError := [], isUpdatingField := False\<rparr>)
         (on_d (\<lambda>f. f\<lparr>domainError := [], editDomainError := []\<rparr>) (s\<lparr>pageError := [], jobs := []\<rparr>))))))"

lemma typed_in_failed: "typed_in (failed j e s) = typed_in s"
  by (simp add: typed_in_def failed_def Let_def split: td_job.split)

lemma job_message_failed: "(case j of RevealJob _ \<Rightarrow> True | _ \<Rightarrow> job_message j (failed j e s) = apiErrorMessage e)"
  by (simp add: job_message_def failed_def Let_def split: td_job.split)

lemma typed_in_jobs: "typed_in (s\<lparr>jobs := js\<rparr>) = typed_in s"
  by (simp add: typed_in_def)

lemma create_json_inject [simp]: "create_json r = create_json r' \<longleftrightarrow> r = r'"
proof -
  have inj: "map (\<lambda>(k, v). (k, JStr v)) xs = map (\<lambda>(k, v). (k, JStr v)) ys \<longleftrightarrow> xs = ys" for xs ys :: "(string \<times> string) list"
    by (rule inj_map_eq_map) (auto simp: inj_def)
  show ?thesis
    by (cases r; cases r'; simp add: create_json_def opt_member_def string_record_def inj split: option.split)
qed

text \<open>What an accepted submission of the resource form does to its slot.\<close>

lemma saveResource_slot:
  assumes "snd (saveResource uuid env s) = [Send (CreateResourceJob r k)]"
  shows "stableIdempotencyKey uuid (create_json r) (resourceCreateAttempt (rform s)) =
    (k, resourceCreateAttempt (rform (fst (saveResource uuid env s))))"
  using assms by (auto simp: saveResource_def send_job_def reveal_hide_def Let_def split: option.splits if_splits prod.splits)

lemma failed_slot [simp]: "resourceCreateAttempt (rform (failed j e s)) = resourceCreateAttempt (rform s)"
  by (simp add: failed_def Let_def split: td_job.split)

lemma settle_create_slot:
  "resourceCreateAttempt (rform (fst (settle i (CreateResourceJob r k) result s))) =
     (if isl result then resourceCreateAttempt (rform s) else reset_slot (resourceCreateAttempt (rform s)))"
  by (cases result) (simp_all add: settle_def complete_def succeeded_def hides_on_success_def Let_def)

section \<open>Properties\<close>

text \<open>What the handler that sends a call has checked, in the state it found: the input of its form, and the row or dialog it is about. The
  form of the tenant is sent as it was typed, every other text trimmed or, for values, as typed.\<close>

definition job_checked :: "td_env \<Rightarrow> page \<Rightarrow> td_job \<Rightarrow> bool" where
  "job_checked env s j =
     (case j of
        UpdateTenantJob f \<Rightarrow> f = edit (tforms s) \<and> js_trim (ef_name f) \<noteq> [] \<and> isValidTenantSlug (ef_slug f)
      | SetStatusJob _ status \<Rightarrow> status = ''active'' \<or> status = ''inactive''
      | IdentityJob i name alias \<Rightarrow>
          map_option fst (editingResource (rdialogs s)) = Some i \<and> name = js_trim (editingResourceName (rdialogs s)) \<and> name \<noteq> [] \<and>
          alias = js_trim (editingResourceAlias (rdialogs s)) \<and> isValidResourceAlias alias
      | DeleteResourceJob i \<Rightarrow> map_option fst (pendingResource (rdialogs s)) = Some i
      | DuplicateJob i alias _ \<Rightarrow>
          map_option fst (duplicateTarget (ddialog s)) = Some i \<and> alias = js_trim (duplicateAlias (ddialog s)) \<and> isValidResourceAlias alias
      | CreateResourceJob r _ \<Rightarrow>
          cr_name r = js_trim (resourceName (rform s)) \<and> cr_name r \<noteq> [] \<and> cr_alias r = js_trim (resourceAlias (rform s)) \<and>
          isValidResourceAlias (cr_alias r) \<and> map_option d_key (picked env s) = Some (cr_definitionKey r) \<and>
          map_option d_status (picked env s) = Some ''active'' \<and> cr_values r = vals (rform s) \<and>
          (cr_sourceResourceId r \<noteq> None \<or>
           list_all (\<lambda>f. js_trim (some_or (map_of (cr_values r) (f_key f)) []) \<noteq> []) (filter f_required (pickedFields env s)))
      | UpdateFieldJob i k v \<Rightarrow>
          (case (selectedResource env s, editingField (fdialog s)) of
             (Some r, Some field) \<Rightarrow>
               i = r_id r \<and> k = rf_key field \<and> v = editingFieldValue (fdialog s) \<and> isValidTypedResourceValue (rf_dataType field) v \<and>
               (rf_required field \<longrightarrow> v \<noteq> [])
           | _ \<Rightarrow> False)
      | ClearOverrideJob i _ \<Rightarrow> map_option r_id (selectedResource env s) = Some i
      | AddDomainJob h \<Rightarrow> h = js_trim (hostname (dforms s)) \<and> isValidHostname h
      | UpdateDomainJob i h \<Rightarrow>
          map_option td_id (editingDomain (dforms s)) = Some i \<and> h = js_trim (editingHostname (dforms s)) \<and> isValidHostname h
      | RemoveDomainJob i \<Rightarrow> map_option td_id (pendingDomain (dforms s)) = Some i
      | DeleteTenantJob \<Rightarrow> map_option t_slug (e_tenant env) = Some (js_trim (deleteConfirmation (tforms s)))
      | RevealJob rq \<Rightarrow> rq_tenant rq = e_id env \<and> rq_credential rq = token (reveal_hook s) \<and> \<not> isRevealed s)"

named_theorems job_checks \<open>handlers send checked calls\<close>

lemma alias_trim [simp]: "isValidResourceAlias (js_trim a) = isValidResourceAlias a"
  by (simp add: isValidResourceAlias_def)

lemma picked_active: "picked env s = Some d \<Longrightarrow> d_status d = ''active''"
  by (auto simp: picked_def available_def find_Some_iff in_set_conv_nth dest!: nth_mem)

lemma sent_send_job [simp]: "sent (snd (send_job j s)) = [j]"
  by (simp add: send_job_def)

lemma forms_checked [job_checks]:
  "list_all (job_checked env s) (sent (snd (saveEdit s)))" "list_all (job_checked env s) (sent (snd (saveResourceIdentity s)))"
  "list_all (job_checked env s) (sent (snd (toggleResource r s)))" "list_all (job_checked env s) (sent (snd (removeResource s)))"
  "list_all (job_checked env s) (sent (snd (saveDomain s)))" "list_all (job_checked env s) (sent (snd (saveDomainEdit s)))"
  "list_all (job_checked env s) (sent (snd (removeDomain s)))" "list_all (job_checked env s) (sent (snd (deleteTenantPermanently env s)))"
  by (auto simp: saveEdit_def saveResourceIdentity_def toggleResource_def removeResource_def saveDomain_def saveDomainEdit_def removeDomain_def
      deleteTenantPermanently_def matchesTenantSlug_def job_checked_def Let_def split: option.split prod.split)

lemma dialogs_checked [job_checks]:
  "list_all (job_checked env s) (sent (snd (duplicateSelectedResource uuid s)))" "list_all (job_checked env s) (sent (snd (saveFieldEdit env s)))"
  "list_all (job_checked env s) (sent (snd (clearFieldOverride env field s)))" "list_all (job_checked env s) (sent (snd (toggleSecrets env s)))"
  by (auto simp: duplicateSelectedResource_def saveFieldEdit_def clearFieldOverride_def toggleSecrets_def editingFieldValueValid_def show_begin_def
      job_checked_def frame_simps Let_def split: option.split prod.split)

lemma create_checked [job_checks]: "list_all (job_checked env s) (sent (snd (saveResource uuid env s)))"
proof (cases "picked env s")
  case (Some d)
  then show ?thesis using picked_active [OF Some]
    by (auto simp: saveResource_def job_checked_def requiredFilled_def field_value_def Let_def split: prod.split)
qed (simp add: saveResource_def)


text \<open>The calls under way are exactly those sent and not yet answered, whatever the interleaving.\<close>

theorem tenant_calls_conserved:
  "mset (jobs (fst (run_page (handle uuid) (settle i) jobs evs (initial_page i tok)))) =
     mset (sent (snd (run_page (handle uuid) (settle i) jobs evs (initial_page i tok)))) -
     mset (answered (handle uuid) (settle i) jobs evs (initial_page i tok))"
  using td.jobs_conserved [of uuid i evs "initial_page i tok"]
  by (metis add_diff_cancel_right' add_cancel_left_left initial_page_jobs mset.simps(1))

text \<open>C18: the deletion of a tenant is sent by one action only, and only when what was typed is its slug, up to surrounding space.\<close>

theorem delete_needs_slug:
  "(DeleteTenantJob \<in> set (sent (snd (handle uuid env a s)))) =
     (a = DeleteTenantAction \<and>
      (case e_tenant env of Some tenant \<Rightarrow> js_trim (deleteConfirmation (tforms s)) = t_slug tenant | None \<Rightarrow> False))"
  by (rule delete_sent)

text \<open>C11: a change of the tenant or of a resource that hides on success leaves no secret on display, and no
  reveal that was under way when it succeeded brings any back, in whatever order and however those answers come:
  the page shows what the query holds. (The answers of the reveals under way are \<open>answers\<close>.)\<close>

theorem secrets_gone_after_success:
  assumes "s = fst (run_page (handle uuid) (settle i) jobs evs (initial_page i tok))" and "hides_on_success j"
    and "s' = fst (settle i j (Inr r) s)"
    and "set (map (RevealJob \<circ> fst) answers) \<subseteq> set (jobs s)"
  shows "page_resources env (fold (\<lambda>(rq, a) s. fst (settle i (RevealJob rq) a s)) answers s') = e_resources env"
proof -
  have hook: "reveal_hook (fold (\<lambda>(rq, a) s. fst (settle i (RevealJob rq) a s)) answers x) =
      fold (\<lambda>(rq, a). settle_request rq a) answers (reveal_hook x)" for x
    by (induction answers arbitrary: x) (auto simp: settle_hook)
  have ok: "reveals_ok s" using assms(1) reveals_ok_run by simp
  then have asked: "\<forall>(rq, a) \<in> set answers. rq_epoch rq \<le> epochRef (reveal_hook s)"
    using assms(4) by (force simp: reveals_ok_def list_all_iff job_asked_def)
  have "reveal_hook s' = hide (reveal_hook s)"
    using assms(2) by (auto simp: assms(3) settle_hook hides_on_success_def split: td_job.splits)
  then have "resources (reveal_hook (fold (\<lambda>(rq, a) s. fst (settle i (RevealJob rq) a s)) answers s')) = None"
    using hook.erased_stays_hidden [OF _ asked] ok by (simp add: hook reveals_ok_def)
  then show ?thesis by (simp add: page_resources_def)
qed

definition sample_env :: td_env where
  "sample_env =
     \<lparr>e_id = ''t1'', e_caps = default_capabilities, e_tenant = Some \<lparr>t_id = ''t1'', t_slug = ''acme'', t_name = ''Acme'', t_status = ''active''\<rparr>,
      e_tenant_pending = False, e_domains = [], e_resources = [sample_resource ''active'' ''h''],
      e_definitions = [\<lparr>d_id = ''d1'', d_key = ''db'', d_name = ''DB'', d_description = [], d_icon = [], d_status = ''active'',
        d_fieldCount = None, d_secretCount = None\<rparr>],
      e_definition_fields = (\<lambda>_. None), e_definition_error = (\<lambda>_. None), e_query_errors = []\<rparr>"

definition sample_run :: page where
  "sample_run = fst (run_page (handle show_nat) (settle ''t1'') jobs
     [Act sample_env (RequestRemoval (sample_resource ''active'' ''h'')), Act sample_env RemoveResource, Act sample_env ToggleSecrets]
     (initial_page ''t1'' ''k''))"

lemma secrets_gone_after_success_witness:
  "page_resources sample_env
     (fold (\<lambda>(rq, a) s. fst (settle ''t1'' (RevealJob rq) a s)) [(snd (show_begin ''t1'' (mount ''t1'' ''k'' :: (TenantResource list, api_error) reveal)), Inr [])]
       (fst (settle ''t1'' (DeleteResourceJob ''r1'') (Inr []) sample_run))) = [sample_resource ''active'' ''h'']"
proof -
  have jobs: "jobs sample_run = [DeleteResourceJob ''r1'', RevealJob (snd (show_begin ''t1'' (mount ''t1'' ''k'' :: (TenantResource list, api_error) reveal)))]"
    by code_simp
  have "page_resources sample_env
     (fold (\<lambda>(rq, a) s. fst (settle ''t1'' (RevealJob rq) a s)) [(snd (show_begin ''t1'' (mount ''t1'' ''k'' :: (TenantResource list, api_error) reveal)), Inr [])]
       (fst (settle ''t1'' (DeleteResourceJob ''r1'') (Inr []) sample_run))) = e_resources sample_env"
    by (rule secrets_gone_after_success [OF sample_run_def _ refl]) (simp_all add: hides_on_success_def jobs)
  then show ?thesis by (simp add: sample_env_def)
qed

text \<open>Adding a resource, changing one of its fields and clearing an override hide what is revealed before they
  are sent and not when they succeed: a reveal answered in between stays on display, so after the success
  the page still shows the values from before the change although the query is marked stale.\<close>

theorem reveal_survives_field_change:
  "list_all (\<lambda>j. page_resources env (fst (settle i j (Inr r) s)) =
       (case resources (reveal_hook s) of Some old \<Rightarrow> old | None \<Rightarrow> e_resources env) \<and>
       Cache (invalidateTenantResources i) \<in> set (snd (settle i j (Inr r) s)))
     [CreateResourceJob request key, UpdateFieldJob resourceId field v, ClearOverrideJob resourceId field]"
  by (simp add: page_resources_def settle_hook hides_on_success_def)
    (simp add: settle_def complete_def hides_on_success_def success_commands_def split_beta Let_def split: option.split)

text \<open>A call that fails loses nothing: no dialog closes, no field is emptied, no query is touched, and the message is the
  error's, in the form the call came from (a failed reveal is shown by its hook).\<close>

theorem failure_keeps_input:
  "let (s', es) = settle i j (Inl e) s in
     es = [] \<and> typed_in s' = typed_in (s\<lparr>reveal_hook := reveal_hook s'\<rparr>) \<and>
     (case j of RevealJob rq \<Rightarrow> reveal_hook s' = settle_request rq (Inl e) (reveal_hook s)
      | _ \<Rightarrow> job_message j s' = apiErrorMessage e \<and> reveal_hook s' = reveal_hook s)"
proof (cases "\<exists>rq. j = RevealJob rq")
  case True
  then show ?thesis
    by (auto simp: settle_def complete_reveal_def settle_request_def Let_def typed_in_def)
next
  case False
  then have "settle i j (Inl e) s = (failed j e (s\<lparr>jobs := remove1 j (jobs s)\<rparr>), [])"
    by (auto simp: settle_def complete_def Let_def split: td_job.split)
  then show ?thesis
    using job_message_failed [of j e "s\<lparr>jobs := remove1 j (jobs s)\<rparr>"] False
    by (simp add: typed_in_failed typed_in_jobs split: td_job.splits)
qed

text \<open>Saving a new resource again after a failure sends the same idempotency key exactly when the request is the
  same, and after a success never the key of the request that succeeded, whatever was edited in between.\<close>

theorem resource_retry_key:
  assumes "inj uuid" and "slot_ok uuid (resourceCreateAttempt (rform s))"
    and "snd (saveResource uuid env s) = [Send (CreateResourceJob r k)]"
    and "s2 = fst (settle i (CreateResourceJob r k) result (fst (saveResource uuid env s)))"
    and "resourceCreateAttempt (rform s3) = resourceCreateAttempt (rform s2)"
    and "snd (saveResource uuid env' s3) = [Send (CreateResourceJob r' k')]"
  shows "(k = k') = (isl result \<and> r = r')"
proof -
  note first = saveResource_slot [OF assms(3)]
  note second = saveResource_slot [OF assms(6), unfolded assms(4,5) settle_create_slot]
  show ?thesis
  proof (cases "isl result")
    case True
    with second have "stableIdempotencyKey uuid (create_json r') (resourceCreateAttempt (rform (fst (saveResource uuid env s)))) =
        (k', resourceCreateAttempt (rform (fst (saveResource uuid env' s3))))" by simp
    from ref.retry_iff [OF _ first this] assms(1,2) True show ?thesis by simp
  next
    case False
    have "fst (stableIdempotencyKey uuid (create_json r') (reset_slot (resourceCreateAttempt (rform (fst (saveResource uuid env s)))))) \<noteq> k"
      by (rule ref.fresh_after_success [OF _ first]) (simp add: assms(1,2))
    with second False show ?thesis by auto
  qed
qed

definition sample_form :: page where
  "sample_form = fst (run_page (handle show_nat) (settle ''t1'') jobs [Act sample_env OpenAddResource, Act sample_env (Choose ''db'')]
     (initial_page ''t1'' ''k''))"

definition sample_request :: "string \<Rightarrow> create_request" where
  "sample_request alias = \<lparr>cr_name = ''DB'', cr_alias = alias, cr_definitionKey = ''db'', cr_sourceResourceId = None, cr_values = []\<rparr>"

definition sample_failed :: page where
  "sample_failed = fst (settle ''t1'' (CreateResourceJob (sample_request ''db'') ''0'') (Inl (ApiError 500 []))
     (fst (saveResource show_nat sample_env sample_form)))"

lemma resource_retry_key_witness:
  "snd (saveResource show_nat sample_env (input ResourceAliasInput ''db2'' sample_failed)) =
     [Send (CreateResourceJob (sample_request ''db2'') ''1'')] \<and>
   (''0'' = ''1'') = (isl (Inl (ApiError 500 []) :: api_error + TenantResource list) \<and> sample_request ''db'' = sample_request ''db2'')"
proof -
  have first: "snd (saveResource show_nat sample_env sample_form) = [Send (CreateResourceJob (sample_request ''db'') ''0'')]"
    by code_simp
  have second: "snd (saveResource show_nat sample_env (input ResourceAliasInput ''db2'' sample_failed)) =
      [Send (CreateResourceJob (sample_request ''db2'') ''1'')]"
    by code_simp
  have slot: "current (resourceCreateAttempt (rform sample_form)) = None"
    by code_simp
  have "resourceCreateAttempt (rform (input ResourceAliasInput ''db2'' sample_failed)) = resourceCreateAttempt (rform sample_failed)"
    by (simp add: input_def)
  with resource_retry_key [OF _ _ first sample_failed_def _ second] slot second show ?thesis
    by (simp add: inj_def slot_ok_def)
qed

text \<open>While the fields of the chosen definition are still loading the form counts every required field as filled in, so a
  resource can be saved without the values the definition requires.\<close>

theorem required_unchecked_while_loading:
  "list_all (\<lambda>d. requiredFilled (env\<lparr>e_definition_fields := (\<lambda>_. None)\<rparr>) (on_r (\<lambda>f. f\<lparr>pick := d_key d\<rparr>) s)) (available env)"
proof -
  have "picked (env\<lparr>e_definition_fields := (\<lambda>_. None)\<rparr>) (on_r (\<lambda>f. f\<lparr>pick := d_key d\<rparr>) s) \<noteq> None"
    if "d \<in> set (available env)" for d
    using that by (auto simp: picked_def available_def find_None_iff)
  then show ?thesis
    by (auto simp: list_all_iff requiredFilled_def pickedFields_def split: option.split)
qed

end
