(* ===== verification/TenantDetailView.thy ===== *)
theory TenantDetailView
  imports TenantDetail
begin

text \<open>
  What the page of one tenant renders (the JSX of \<open>web/src/routes/tenant-detail/-components/page.tsx\<close>,
  \<open>resource-origin-field.tsx\<close> and \<open>resource-name-cell.tsx\<close>): its tables, its three tabs and its
  dialogs, every control with what it asks of the page. \<open>t\<close> is the translation of a key with
  parameters and \<open>fs\<close> the page's \<open>formatStatus\<close>; message fields hold keys, so they are translated where
  they are shown. The theorems say which controls are on offer, to whom, and that every enabled
  control does something.
\<close>

type_synonym td_control = "(td_action, td_input) control"

type_synonym td_view = "td_control view"

section \<open>Tables\<close>

definition resourceNameCell :: "string \<Rightarrow> bool \<Rightarrow> string \<Rightarrow> 'a view" where
  "resourceNameCell l linked name =
     el ''span'' [] [el ''icon'' [(''name'', if linked then ''Link2'' else ''Box''), (''aria-label'', l)] [], el ''span'' [(''title'', name)] [Txt name]]"

definition resourceColumns ::
  "translation \<Rightarrow> (string \<Rightarrow> string) \<Rightarrow> AdminCapabilities \<Rightarrow> (TenantResource, td_control) column_def list" where
  "resourceColumns t fs caps =
     (let tr = (\<lambda>key. t key []); write = can caps ResourceWritePermission in
      [data_column ''name'' (tr ''common.name'')
         (\<lambda>r. [resourceNameCell (tr (if r_linked r then ''tenantDetail.linked'' else ''tenantDetail.independent'')) (r_linked r) (r_name r)]),
       data_column ''alias'' (tr ''tenantDetail.resourceAlias'') (\<lambda>r. [el ''code'' [] [Txt (r_alias r)]]),
       data_column ''definitionKey'' (tr ''common.type'') (\<lambda>r. [el ''code'' [] [Txt (r_definitionKey r)]]),
       data_column ''fields'' (tr ''tenantDetail.fieldsColumn'') (\<lambda>r. [Txt (show_nat (length (r_fields r)))]),
       data_column ''secrets'' (tr ''tenantDetail.secretsColumn'') (\<lambda>r. [Txt (show_nat (length (filter rf_isSecret (r_fields r))))]),
       data_column ''status'' (tr ''common.status'') (\<lambda>r. [domainStatus (fs (r_status r)) (r_status r)]),
       actions_column (tr ''common.actions'')
         (\<lambda>r. [el ''menu'' [(''aria-label'', tr ''common.actions'')]
           (shown_if write (do_button False (OpenIdentity r) [Txt (tr ''common.edit'')]) @
            (if write then
              [do_button False (ToggleResource r)
                 [el ''icon'' [(''name'', if r_status r = ''active'' then ''PowerOff'' else ''Power'')] [],
                  Txt (if r_status r = ''active'' then tr ''tenantDetail.deactivate'' else tr ''tenantDetail.reactivate'')],
               do_button False (OpenDuplicate r) [Txt (tr ''tenantDetail.duplicate'')],
               do_button False (RequestRemoval r) [Txt (tr ''common.remove'')]]
             else []))])])"

definition resource_search :: "(string \<Rightarrow> string) \<Rightarrow> TenantResource \<Rightarrow> string \<Rightarrow> bool" where
  "resource_search fs r filterValue =
     (let query = js_lower (js_trim filterValue) in
      query = [] \<or> list_ex (\<lambda>v. js_includes (js_lower v) query)
        [r_alias r, r_name r, r_definitionKey r, some_or (r_sourceAlias r) [], r_status r, fs (r_status r)])"

definition domainColumns :: "translation \<Rightarrow> AdminCapabilities \<Rightarrow> (TenantDomain, td_control) column_def list" where
  "domainColumns t caps =
     (let tr = (\<lambda>key. t key []) in
      [data_column ''hostname'' (tr ''common.hostname'') (\<lambda>d. [el ''code'' [] [Txt (td_hostname d)]]),
       actions_column (tr ''common.actions'')
         (\<lambda>d. shown_if (can caps TenantWrite) (el ''menu'' [(''aria-label'', tr ''common.actions'')]
           [do_button False (OpenDomainEdit d) [Txt (tr ''tenantDetail.renameDomain'')],
            do_button False (RequestDomainRemoval d) [Txt (tr ''common.remove'')]]))])"

definition domain_search :: "TenantDomain \<Rightarrow> string \<Rightarrow> bool" where
  "domain_search d filterValue = js_includes (js_lower (td_hostname d)) (js_lower (js_trim filterValue))"

definition resource_table_initial :: initial_table where
  "resource_table_initial = \<lparr>init_globalFilter = None, init_pagination = None,
     init_sorting = Some [\<lparr>sort_desc = False, sort_id = ''alias''\<rparr>], init_columnVisibility = None\<rparr>"

definition domain_table_initial :: initial_table where
  "domain_table_initial = \<lparr>init_globalFilter = None, init_pagination = None,
     init_sorting = Some [\<lparr>sort_desc = False, sort_id = ''hostname''\<rparr>], init_columnVisibility = None\<rparr>"

section \<open>Tabs\<close>

definition notFoundView :: "translation \<Rightarrow> td_env \<Rightarrow> page \<Rightarrow> td_view" where
  "notFoundView t env s =
     (let message = visiblePageError env s in
      el ''div'' []
        (shown_if (message \<noteq> []) (el ''alert'' [] [Txt (t message [])]) @
         [hint (t (if e_tenant_pending env then ''common.loading''
             else if message \<noteq> [] then ''tenantDetail.loadError'' else ''tenantDetail.notFound'') []),
          do_button False BackToTenants [Txt (t ''tenantDetail.backToTenants'' [])]]))"

definition pageHeader :: "translation \<Rightarrow> (string \<Rightarrow> string) \<Rightarrow> td_env \<Rightarrow> Tenant \<Rightarrow> td_view" where
  "pageHeader t fs env tenant =
     el ''header'' []
       ([el ''h1'' [] [Txt (t_name tenant)], domainStatus (fs (t_status tenant)) (t_status tenant),
         hint (t ''tenantDetail.headerDescription'' [(''slug'', t_slug tenant)])] @
        shown_if (can (e_caps env) TenantWrite) (do_button False OpenEdit [Txt (t ''common.edit'' [])]))"

definition readiness_text :: "TenantReadiness \<Rightarrow> string" where
  "readiness_text r = (case r of Incomplete \<Rightarrow> ''incomplete'' | Attention \<Rightarrow> ''attention'' | Ready \<Rightarrow> ''ready'')"

definition attention_text :: "attention_code \<Rightarrow> string" where
  "attention_text c =
     (case c of InactiveTenant \<Rightarrow> ''inactive_tenant'' | MissingDomain \<Rightarrow> ''missing_domain''
      | MissingActiveResource \<Rightarrow> ''missing_active_resource'' | InactiveResources \<Rightarrow> ''inactive_resources''
      | IncompleteResources \<Rightarrow> ''incomplete_resources'')"

definition overviewCards :: "translation \<Rightarrow> TenantOverviewSummary \<Rightarrow> nat \<Rightarrow> td_view list" where
  "overviewCards t overview domainCount =
     (let icon = (\<lambda>ok. if ok then ''CheckCircle2'' else ''CircleAlert'') in
      [statCard (t ''tenantDetail.readiness.requirementsHint'' [(''count'', show_nat (readyRequirementCount overview)), (''total'', ''3'')])
         (icon (readiness overview = Ready)) (t ''tenantDetail.readiness.title'' [])
         (t (''tenantDetail.readiness.'' @ readiness_text (readiness overview)) []),
       statCard (t (if domainCount > 0 then ''overview.domainHint'' else ''tenantDetail.readiness.missingDomain'') [])
         (icon (domainCount > 0)) (t ''tenantDetail.readiness.domains'' []) (show_nat domainCount),
       statCard (t (if totalResourceCount overview > 0 then ''tenantDetail.readiness.resourcesHint'' else ''tenantDetail.readiness.missingResource'') [])
         (icon (activeResourceCount overview > 0)) (t ''tenantDetail.readiness.resources'' [])
         (show_nat (activeResourceCount overview) @ ''/'' @ show_nat (totalResourceCount overview)),
       statCard (t (if incompleteResourceCount overview > 0 then ''tenantDetail.readiness.incompleteHint'' else ''tenantDetail.readiness.completeHint'') [])
         (icon (\<not> incompleteResourceCount overview > 0)) (t ''tenantDetail.readiness.incompleteResources'' [])
         (show_nat (incompleteResourceCount overview))])"

text \<open>An alert per attention code, with the way to its repair.\<close>

definition attentionAction :: "attention_code \<Rightarrow> td_action" where
  "attentionAction c =
     (if c = InactiveTenant then OpenEdit else SetTab (if c = MissingDomain then DomainsTab else ResourcesTab))"

definition attentionAlert :: "translation \<Rightarrow> TenantOverviewSummary \<Rightarrow> attention_code \<Rightarrow> td_view" where
  "attentionAlert t overview c =
     (let count = (case c of InactiveResources \<Rightarrow> inactiveResourceCount overview
            | IncompleteResources \<Rightarrow> incompleteResourceCount overview | _ \<Rightarrow> 0);
          key = ''tenantDetail.attention.'' @ attention_text c in
      el ''alert'' [(''variant'', if c = InactiveTenant then ''destructive'' else ''default'')]
        [Txt (t (key @ ''.title'') [(''count'', show_nat count)]), Txt (t (key @ ''.description'') [(''count'', show_nat count)]),
         do_button False (attentionAction c) [Txt (t (if c = InactiveTenant then ''common.edit'' else ''common.review'') [])]])"

definition overviewTab :: "translation \<Rightarrow> td_env \<Rightarrow> page \<Rightarrow> td_view" where
  "overviewTab t env s =
     (let overview = page_overview env s in
      el ''div'' [(''value'', ''overview'')]
        (overviewCards t overview (length (e_domains env)) @
         [el ''card'' []
           ([el ''h3'' [] [Txt (t ''tenantDetail.attention.title'' [])], hint (t ''tenantDetail.attention.description'' [])] @
            (if attentionCodes overview = [] then
               [el ''empty'' [] [Txt (t ''tenantDetail.attention.emptyTitle'' []), Txt (t ''tenantDetail.attention.emptyDescription'' [])]]
             else map (attentionAlert t overview) (attentionCodes overview)))] @
         shown_if (can (e_caps env) TenantHardDelete)
           (el ''card'' []
             [el ''h3'' [] [Txt (t ''tenantDetail.dangerZone.title'' [])], hint (t ''tenantDetail.dangerZone.description'' []),
              do_button False OpenDelete [Txt (t ''tenantDetail.deleteAction'' [])]])))"

definition resourcesTab ::
  "translation \<Rightarrow> (string \<Rightarrow> string) \<Rightarrow> td_env \<Rightarrow> table_model \<Rightarrow> TenantResource list \<Rightarrow> td_control grid_action view" where
  "resourcesTab t fs env m rows =
     (let tr = (\<lambda>key. t key []) in
      render_table (page_sort_labels tr) (page_table_labels tr) (tr ''tenantDetail.noResource'')
        (\<lambda>resource. Some (Do (SelectResource (r_id resource)))) (resourceColumns t fs (e_caps env)) m rows
        [dataTableToolbar tr (page_toolbar_labels tr ''tenantDetail.resourcesSearch'') [] []
          (shown_if (can (e_caps env) ResourceWritePermission) (do_button False OpenAddResource [Txt (tr ''tenantDetail.addResource'')])) m])"

definition domainsTab :: "translation \<Rightarrow> td_env \<Rightarrow> table_model \<Rightarrow> TenantDomain list \<Rightarrow> td_control grid_action view" where
  "domainsTab t env m rows =
     (let tr = (\<lambda>key. t key []) in
      render_table (page_sort_labels tr) (page_table_labels tr) (tr ''tenantDetail.domainsEmpty'')
        (\<lambda>_. None) (domainColumns t (e_caps env)) m rows
        [dataTableToolbar tr (page_toolbar_labels tr ''tenantDetail.domainsSearch'') [] []
          (shown_if (can (e_caps env) TenantWrite) (do_button False OpenAddDomain [Txt (tr ''common.add'')])) m])"

section \<open>Dialogs\<close>

definition field_name :: "string \<Rightarrow> string \<Rightarrow> string" where
  "field_name l key = (if l \<noteq> [] then l else key)"

definition input_type :: "bool \<Rightarrow> string \<Rightarrow> string" where
  "input_type isSecret dataType = (if isSecret then ''password'' else if dataType = ''int'' then ''number'' else ''text'')"

definition typed_hint :: "translation \<Rightarrow> string \<Rightarrow> bool \<Rightarrow> 'a view list" where
  "typed_hint t dataType ok = shown_if (\<not> ok) (hint (t (if dataType = ''int'' then ''validation.integer'' else ''validation.boolean'') []))"

definition resourceFieldRow :: "translation \<Rightarrow> td_env \<Rightarrow> page \<Rightarrow> TenantResource \<Rightarrow> ResourceFieldValue \<Rightarrow> td_view" where
  "resourceFieldRow t env s r field =
     (let write = can (e_caps env) ResourceWritePermission;
          display = displaySecretValue (rf_isSecret field) (isRevealed s) (rf_value field) in
      el ''tr'' []
        [el ''td'' [] [Txt (field_name (rf_label field) (rf_key field))],
         el ''td'' []
           ([el ''code'' [] [Txt (if display \<noteq> [] then display else [CHR 0x97])]] @
            shown_if (rf_origin field = Inherited) (el ''span'' [] [Txt (t ''tenantDetail.inherited'' [])])),
         el ''td'' []
           (shown_if write (do_button False (OpenFieldEdit field) [Txt (t ''common.edit'' [])]) @
            shown_if (write \<and> r_linked r \<and> rf_isOverride field) (do_button False (ClearOverride field) [Txt (t ''tenantDetail.useSource'' [])]))])"

definition detailsDialog :: "translation \<Rightarrow> (string \<Rightarrow> string) \<Rightarrow> td_env \<Rightarrow> page \<Rightarrow> td_view list" where
  "detailsDialog t fs env s =
     (case selectedResource env s of
        None \<Rightarrow> []
      | Some r \<Rightarrow>
          let write = can (e_caps env) ResourceWritePermission in
          dialog True (Do CloseDetails) (r_name r)
            (if r_linked r then t ''tenantDetail.resourceLinkedDescription'' [(''source'', some_or (r_sourceAlias r) [])]
             else t ''tenantDetail.resourceDetailsDescription'' [(''type'', r_definitionKey r), (''alias'', r_alias r)])
            ([domainStatus (fs (r_status r)) (r_status r),
              el ''table'' [] (el ''tr'' [] [Txt (t ''common.field'' []), Txt (t ''common.value'' []), Txt (t ''common.actions'' [])] #
                map (resourceFieldRow t env s r) (r_fields r))] @
             shown_if write (do_button False (ToggleResource r)
               [Txt (t (if r_status r = ''active'' then ''tenantDetail.deactivate'' else ''tenantDetail.reactivate'') [])]) @
             shown_if write (do_button False (RequestRemoval r) [Txt (t ''common.remove'' [])]) @
             shown_if write (do_button False (OpenDuplicate r) [Txt (t ''tenantDetail.duplicate'' [])]) @
             shown_if (can (e_caps env) SecretReveal) (do_button (isLoading (reveal_hook s)) ToggleSecrets
               [Txt (t (if isRevealed s then ''common.hide'' else ''common.reveal'') [])]) @
             [do_button False CloseDetails [Txt (t ''common.close'' [])]]))"

definition identityDialog :: "translation \<Rightarrow> page \<Rightarrow> td_view list" where
  "identityDialog t s =
     (let f = rdialogs s; name = editingResourceName f; aliasValid = isValidResourceAlias (editingResourceAlias f) in
      dialog (editingResource f \<noteq> None) (Do CloseIdentity) (t ''tenantDetail.editResourceIdentityTitle'' [])
        (t ''tenantDetail.editResourceIdentityDescription'' [])
        ([label (t ''common.name'' []),
          text_field IdentityNameInput ([(''maxLength'', ''120'')] @ flag ''aria-invalid'' (js_trim name = [])) name,
          hint (t ''tenantDetail.resourceNameHint'' []),
          label (t ''tenantDetail.resourceAlias'' []),
          text_field IdentityAliasInput (flag ''aria-invalid'' (\<not> aliasValid)) (editingResourceAlias f),
          hint (t ''tenantDetail.resourceAliasHint'' [])] @
         shown_message t (editResourceError f) @
         [do_button False CloseIdentity [Txt (t ''common.cancel'' [])],
          do_button (js_trim name = [] \<or> \<not> aliasValid \<or> identityPending s) SaveIdentity [Txt (t ''common.save'' [])]]))"

definition duplicateDialog :: "translation \<Rightarrow> page \<Rightarrow> td_view list" where
  "duplicateDialog t s =
     (let f = ddialog s; aliasValid = isValidResourceAlias (duplicateAlias f) in
      dialog (duplicateOpen f) (Do (SetDuplicateOpen False)) (t ''tenantDetail.duplicateTitle'' []) (t ''tenantDetail.duplicateDescription'' [])
        ([label (t ''tenantDetail.resourceAlias'' []),
          text_field DuplicateAliasInput (flag ''aria-invalid'' (duplicateError f \<noteq> [] \<or> \<not> aliasValid \<and> duplicateAlias f \<noteq> [])) (duplicateAlias f),
          hint (t ''tenantDetail.duplicateHint'' [])] @
         shown_message t (duplicateError f) @
         [do_button False (SetDuplicateOpen False) [Txt (t ''common.cancel'' [])],
          do_button (\<not> aliasValid \<or> duplicatePending s) Duplicate [Txt (t ''tenantDetail.duplicate'' [])]]))"

definition fieldDialog :: "translation \<Rightarrow> page \<Rightarrow> td_view list" where
  "fieldDialog t s =
     (case editingField (fdialog s) of
        None \<Rightarrow> []
      | Some field \<Rightarrow>
          let f = fdialog s; ok = editingFieldValueValid s; name = field_name (rf_label field) (rf_key field) in
          dialog True (Do CloseFieldEdit) (t ''tenantDetail.editFieldTitle'' []) (t ''tenantDetail.editFieldDescription'' [(''field'', name)])
            ([label name,
              text_field FieldValueInput ([(''type'', input_type (rf_isSecret field) (rf_dataType field))] @
                flag ''aria-invalid'' (fieldEditError f \<noteq> [] \<or> \<not> ok)) (editingFieldValue f)] @
             typed_hint t (rf_dataType field) ok @ shown_message t (fieldEditError f) @
             [do_button False CloseFieldEdit [Txt (t ''common.cancel'' [])],
              do_button (isUpdatingField f \<or> \<not> ok \<or> rf_required field \<and> editingFieldValue f = []) SaveFieldEdit [Txt (t ''common.save'' [])]]))"

definition editTenantDialog :: "translation \<Rightarrow> (string \<Rightarrow> string) \<Rightarrow> page \<Rightarrow> td_view list" where
  "editTenantDialog t fs s =
     (let f = tforms s; slug = ef_slug (edit f); slugValid = isValidTenantSlug slug in
      dialog (editOpen f) (Do (SetEditOpen False)) (t ''tenantDetail.editTitle'' []) (t ''tenantDetail.editDescription'' [])
        ([label (t ''common.name'' []), text_field EditNameInput [] (ef_name (edit f)),
          label (t ''common.slug'' []),
          text_field EditSlugInput ([(''maxLength'', ''63'')] @ flag ''aria-invalid'' (slug \<noteq> [] \<and> \<not> slugValid)) slug,
          hint (t ''validation.tenantSlug'' []),
          label (t ''common.status'' []),
          select (\<lambda>v. Do (Input EditStatusInput v)) (ef_status (edit f)) [(fs ''active'', ''active''), (fs ''inactive'', ''inactive'')]] @
         shown_message t (editError f) @
         [do_button False (SetEditOpen False) [Txt (t ''common.cancel'' [])],
          do_button (js_trim (ef_name (edit f)) = [] \<or> \<not> slugValid) SaveEdit [Txt (t ''common.save'' [])]]))"

text \<open>\<open>ResourceOriginField\<close>: the value of the select is \<open>independent\<close> for no source.\<close>

definition resourceOriginField :: "translation \<Rightarrow> (string \<times> string) list \<Rightarrow> string \<Rightarrow> td_view list" where
  "resourceOriginField t candidates v =
     (if candidates = [] then []
      else [el ''div'' []
        [label (t ''tenantDetail.resourceOrigin'' []),
         select (\<lambda>next'. Do (Input SourceInput (if next' = ''independent'' then [] else next'))) (if v \<noteq> [] then v else ''independent'')
           ((t ''tenantDetail.independent'' [], ''independent'') # map (\<lambda>(i, l). (l, i)) candidates),
         hint (t (if v \<noteq> [] then ''tenantDetail.linkedHint'' else ''tenantDetail.independentHint'') [])]])"

definition resourceValueField :: "translation \<Rightarrow> page \<Rightarrow> Field \<Rightarrow> td_view" where
  "resourceValueField t s f =
     (let v = field_value s (f_key f); ok = isValidTypedResourceValue (f_data_type f) v in
      el ''div'' [(''data-slot'', ''resource-value-field'')]
        ([label (field_name (f_label f) (f_key f))] @ shown_if (f_required f) (el ''span'' [] [Txt ''*'']) @
         [text_field (ValueInput (f_key f))
            ([(''type'', input_type (f_is_secret f) (f_data_type f)),
              (''placeholder'', if sourceResourceId (rform s) \<noteq> [] then t ''tenantDetail.inheritPlaceholder'' [] else f_key f)] @
             flag ''aria-invalid'' (\<not> ok)) v] @
         typed_hint t (f_data_type f) ok))"

definition addResourceFields :: "translation \<Rightarrow> td_env \<Rightarrow> page \<Rightarrow> td_view list" where
  "addResourceFields t env s =
     (let f = rform s; aliasValid = isValidResourceAlias (resourceAlias f) in
      if available env = [] then [hint (t ''tenantDetail.addResourceDialog.empty'' [])]
      else
        [el ''div'' [(''data-slot'', ''resource-type-field'')]
          [label (t ''tenantDetail.resourceType'' []),
           select (\<lambda>key. Do (Choose key)) (pick f) (map (\<lambda>d. (d_name d, d_key d)) (available env))]] @
        (if picked env s = None then []
         else
          [el ''div'' [(''data-slot'', ''resource-name-field'')]
            [label (t ''common.name'' []), text_field ResourceNameInput [(''maxLength'', ''120'')] (resourceName f),
             hint (t ''tenantDetail.resourceNameHint'' [])],
           el ''div'' [(''data-slot'', ''resource-alias-field'')]
            [label (t ''tenantDetail.resourceAlias'' []),
             text_field ResourceAliasInput (flag ''aria-invalid'' (\<not> aliasValid \<and> resourceAlias f \<noteq> []) @ [(''placeholder'', ''postgres.agility'')]) (resourceAlias f),
             hint (t ''tenantDetail.resourceAliasHint'' [])]] @
          resourceOriginField t (map (\<lambda>r. (r_id r, t ''tenantDetail.linkTo'' [(''alias'', r_alias r)])) (sourceCandidates env s)) (sourceResourceId f)) @
        map (resourceValueField t s) (pickedFields env s))"

definition addResourceDialog :: "translation \<Rightarrow> td_env \<Rightarrow> page \<Rightarrow> td_view list" where
  "addResourceDialog t env s =
     (let f = rform s in
      dialog (resOpen f) (Do (SetResOpen False)) (t ''tenantDetail.addResourceDialog.title'' []) (t ''tenantDetail.addResourceDialog.description'' [])
        (addResourceFields t env s @ shown_message t (visibleResourceError env s) @
         [do_button False (SetResOpen False) [Txt (t ''common.cancel'' [])],
          do_button (picked env s = None \<or> js_trim (resourceName f) = [] \<or> \<not> isValidResourceAlias (resourceAlias f) \<or>
              \<not> requiredFilled env s \<or> \<not> resourceValuesValid env s \<or> isCreatingResource f)
            SaveResource [Txt (t ''tenantDetail.saveResource'' [])]]))"

definition newDomainDialog :: "translation \<Rightarrow> page \<Rightarrow> td_view list" where
  "newDomainDialog t s =
     (let f = dforms s; ok = isValidHostname (hostname f) in
      dialog (newDomainOpen f) (Do (SetNewDomainOpen False)) (t ''tenantDetail.newDomainTitle'' []) (t ''tenantDetail.newDomainDescription'' [])
        ([label (t ''common.hostname'' []),
          text_field HostnameInput ([(''maxLength'', ''253''), (''placeholder'', ''app.cliente.com'')] @ flag ''aria-invalid'' (hostname f \<noteq> [] \<and> \<not> ok)) (hostname f),
          hint (t ''validation.hostname'' [])] @
         shown_message t (domainError f) @
         [do_button False (SetNewDomainOpen False) [Txt (t ''common.cancel'' [])],
          do_button (\<not> ok) SaveDomain [Txt (t ''common.add'' [])]]))"

definition renameDomainDialog :: "translation \<Rightarrow> page \<Rightarrow> td_view list" where
  "renameDomainDialog t s =
     (let f = dforms s; ok = isValidHostname (editingHostname f) in
      dialog (editingDomain f \<noteq> None) (Do CloseDomainEdit) (t ''tenantDetail.editDomainTitle'' []) (t ''tenantDetail.editDomainDescription'' [])
        ([label (t ''common.hostname'' []),
          text_field DomainEditInput ([(''maxLength'', ''253''), (''placeholder'', ''app.cliente.com'')] @
            flag ''aria-invalid'' (editingHostname f \<noteq> [] \<and> \<not> ok)) (editingHostname f),
          hint (t ''validation.hostname'' [])] @
         shown_message t (editDomainError f) @
         [do_button (updateDomainPending s) CancelDomainEdit [Txt (t ''common.cancel'' [])],
          do_button (\<not> ok \<or> updateDomainPending s) SaveDomainEdit [Txt (t ''common.save'' [])]]))"

definition removalDialogs :: "translation \<Rightarrow> page \<Rightarrow> td_view list" where
  "removalDialogs t s =
     confirmDialog (t ''common.cancel'' []) [] False (t ''common.removeConfirm'' [])
       (t ''tenantDetail.confirmRemoveResourceDescription'' [(''resourceName'', case pendingResource (rdialogs s) of Some (_, name) \<Rightarrow> name | None \<Rightarrow> [])])
       (Do RemoveResource) (Do CloseRemoval) (pendingResource (rdialogs s) \<noteq> None) (t ''tenantDetail.confirmRemoveResourceTitle'' []) @
     confirmDialog (t ''common.cancel'' []) [] False (t ''common.removeConfirm'' [])
       (t ''tenantDetail.confirmRemoveDomainDescription'' [(''hostname'', case pendingDomain (dforms s) of Some d \<Rightarrow> td_hostname d | None \<Rightarrow> [])])
       (Do td_action.RemoveDomain) (Do CloseDomainRemoval) (pendingDomain (dforms s) \<noteq> None) (t ''tenantDetail.confirmRemoveDomainTitle'' [])"

definition deleteDialog :: "translation \<Rightarrow> Tenant \<Rightarrow> page \<Rightarrow> td_view list" where
  "deleteDialog t tenant s =
     (let f = tforms s in
      confirmDialog (t ''common.cancel'' [])
        [el ''div'' []
          [label (t ''tenantDetail.deleteInputLabelPrefix'' []), el ''code'' [] [Txt (t_slug tenant)], label (t ''tenantDetail.deleteInputLabelSuffix'' []),
           text_field DeleteInput (flag ''disabled'' (deletePending s) @ [(''placeholder'', t ''tenantDetail.deleteInputPlaceholder'' [])]) (deleteConfirmation f)]]
        (deletePending s \<or> \<not> matchesTenantSlug (deleteConfirmation f) (t_slug tenant))
        (t ''tenantDetail.deleteConfirm'' []) (t ''tenantDetail.deleteDescription'' [(''slug'', t_slug tenant)])
        (Do DeleteTenantAction) (Do (SetDeleteOpen False)) (deleteOpen f) (t ''tenantDetail.deleteTitle'' []))"

section \<open>The page\<close>

text \<open>The rows shown by the two tables are those TanStack Table computes: an argument, with the tables' models.\<close>

definition tenantDetail ::
  "translation \<Rightarrow> (string \<Rightarrow> string) \<Rightarrow> td_env \<Rightarrow> table_model \<Rightarrow> TenantResource list \<Rightarrow> table_model \<Rightarrow> TenantDomain list \<Rightarrow> page \<Rightarrow>
     td_control grid_action view" where
  "tenantDetail t fs env rm rrows dm drows s =
     (case e_tenant env of
        None \<Rightarrow> map_view PageDoes (notFoundView t env s)
      | Some tenant \<Rightarrow>
          el ''div'' []
            (map (map_view PageDoes) (shown_if (visiblePageError env s \<noteq> []) (el ''alert'' [] [Txt (t (visiblePageError env s) [])]) @
               [pageHeader t fs env tenant,
                el ''tabs'' [] (map (\<lambda>(key, x). do_button False (SetTab x) [Txt (t key [])])
                  [(''tenantDetail.overviewTab'', OverviewTab), (''tenantDetail.resourcesTab'', ResourcesTab), (''tenantDetail.domainsTab'', DomainsTab)])]) @
             [case tab s of
                OverviewTab \<Rightarrow> map_view PageDoes (overviewTab t env s)
              | ResourcesTab \<Rightarrow> resourcesTab t fs env rm rrows
              | DomainsTab \<Rightarrow> domainsTab t env dm drows] @
             map (map_view PageDoes)
               (detailsDialog t fs env s @ identityDialog t s @ duplicateDialog t s @ fieldDialog t s @ editTenantDialog t fs s @
                addResourceDialog t env s @ newDomainDialog t s @ renameDomainDialog t s @ removalDialogs t s @ deleteDialog t tenant s)))"

end
