(* ===== verification/TenantDetailRules.thy ===== *)
theory TenantDetailRules
  imports TenantDetailView
begin

text \<open>
  Which controls the page of a tenant offers, and what follows for the calls it sends: a gate per
  action, that every control on offer passes it, that an enabled submit button sends its call, and
  that a user without a permission cannot make the page send a call that needs it.
\<close>

section \<open>Gates\<close>

definition gate :: "td_env \<Rightarrow> page \<Rightarrow> td_action \<Rightarrow> bool" where
  "gate env s a =
     (let caps = e_caps env in
      case a of
        OpenAddResource \<Rightarrow> can caps ResourceWritePermission
      | OpenIdentity _ \<Rightarrow> can caps ResourceWritePermission
      | ToggleResource _ \<Rightarrow> can caps ResourceWritePermission
      | OpenDuplicate _ \<Rightarrow> can caps ResourceWritePermission
      | RequestRemoval _ \<Rightarrow> can caps ResourceWritePermission
      | OpenFieldEdit _ \<Rightarrow> can caps ResourceWritePermission
      | ClearOverride _ \<Rightarrow> can caps ResourceWritePermission \<and> selectedResource env s \<noteq> None
      | OpenAddDomain \<Rightarrow> can caps TenantWrite
      | OpenDomainEdit _ \<Rightarrow> can caps TenantWrite
      | RequestDomainRemoval _ \<Rightarrow> can caps TenantWrite
      | ToggleSecrets \<Rightarrow> can caps SecretReveal \<and> \<not> isLoading (reveal_hook s)
      | OpenDelete \<Rightarrow> can caps TenantHardDelete
      | SetEditOpen b \<Rightarrow> \<not> b
      | SetResOpen b \<Rightarrow> \<not> b
      | SetDuplicateOpen b \<Rightarrow> \<not> b
      | SetNewDomainOpen b \<Rightarrow> \<not> b
      | SetDeleteOpen b \<Rightarrow> \<not> b
      | SaveEdit \<Rightarrow> editOpen (tforms s) \<and> js_trim (ef_name (edit (tforms s))) \<noteq> [] \<and> isValidTenantSlug (ef_slug (edit (tforms s)))
      | SaveResource \<Rightarrow> resOpen (rform s) \<and> picked env s \<noteq> None \<and> js_trim (resourceName (rform s)) \<noteq> [] \<and>
          isValidResourceAlias (resourceAlias (rform s)) \<and> requiredFilled env s \<and> resourceValuesValid env s \<and> \<not> isCreatingResource (rform s)
      | SaveIdentity \<Rightarrow> editingResource (rdialogs s) \<noteq> None \<and> js_trim (editingResourceName (rdialogs s)) \<noteq> [] \<and>
          isValidResourceAlias (editingResourceAlias (rdialogs s)) \<and> \<not> identityPending s
      | Duplicate \<Rightarrow> duplicateOpen (ddialog s) \<and> isValidResourceAlias (duplicateAlias (ddialog s)) \<and> \<not> duplicatePending s
      | RemoveResource \<Rightarrow> pendingResource (rdialogs s) \<noteq> None
      | SaveFieldEdit \<Rightarrow> \<not> isUpdatingField (fdialog s) \<and> editingFieldValueValid s \<and>
          (case editingField (fdialog s) of Some f \<Rightarrow> if rf_required f then editingFieldValue (fdialog s) \<noteq> [] else True | None \<Rightarrow> False)
      | SaveDomain \<Rightarrow> newDomainOpen (dforms s) \<and> isValidHostname (hostname (dforms s))
      | SaveDomainEdit \<Rightarrow> editingDomain (dforms s) \<noteq> None \<and> isValidHostname (editingHostname (dforms s)) \<and> \<not> updateDomainPending s
      | td_action.RemoveDomain \<Rightarrow> pendingDomain (dforms s) \<noteq> None
      | DeleteTenantAction \<Rightarrow> deleteOpen (tforms s) \<and> \<not> deletePending s \<and>
          (case e_tenant env of Some tenant \<Rightarrow> matchesTenantSlug (deleteConfirmation (tforms s)) (t_slug tenant) | None \<Rightarrow> False)
      | _ \<Rightarrow> True)"

definition passes :: "td_env \<Rightarrow> page \<Rightarrow> td_control \<Rightarrow> bool" where
  "passes env s c = (case c of Do a \<Rightarrow> gate env s a | TypeIn _ \<Rightarrow> True)"

definition all_pass :: "td_env \<Rightarrow> page \<Rightarrow> td_view list \<Rightarrow> bool" where
  "all_pass env s vs \<longleftrightarrow> (\<forall>v \<in> set vs. list_all (passes env s) (offered v))"

lemma passes_simps [simp]: "passes env s (Do a) = gate env s a" "passes env s (TypeIn i)"
  by (simp_all add: passes_def)

named_theorems parts \<open>the controls of the parts of the page\<close>

lemma all_pass_simps [simp]:
  "all_pass env s []" "all_pass env s (v # vs) \<longleftrightarrow> list_all (passes env s) (offered v) \<and> all_pass env s vs"
  "all_pass env s (vs @ ws) \<longleftrightarrow> all_pass env s vs \<and> all_pass env s ws"
  "all_pass env s (shown_if b v) \<longleftrightarrow> (if b then list_all (passes env s) (offered v) else True)"
  "all_pass env s (map f xs) \<longleftrightarrow> (\<forall>x \<in> set xs. list_all (passes env s) (offered (f x)))"
  by (auto simp: all_pass_def shown_if_def)

lemma list_all_concat_offered [simp]: "list_all (passes env s) (concat (map offered vs)) \<longleftrightarrow> all_pass env s vs"
  by (auto simp: all_pass_def list_all_iff)

lemma list_all_concat_map [simp]:
  "list_all (passes env s) (concat (map (offered \<circ> f) xs)) \<longleftrightarrow> (\<forall>x \<in> set xs. list_all (passes env s) (offered (f x)))"
  by (auto simp: list_all_iff)

lemma offered_silent [simp]:
  "offered (domainStatus l v) = []" "offered (statCard h i l v) = []" "all_pass env s (typed_hint t d ok)" "all_pass env s (shown_message t m)"
  by (simp_all add: domainStatus_def statCard_def typed_hint_def shown_message_def error_text_def)

lemma all_pass_dialog [simp]:
  "all_pass env s (dialog isOpen onClose title description children) \<longleftrightarrow>
     (if isOpen then passes env s onClose \<and> all_pass env s children else True)"
  by (simp add: dialog_def)

lemma all_pass_confirm [simp]:
  "all_pass env s (confirmDialog cancelLabel children confirmDisabled confirmLabel description onConfirm onClose isOpen title) \<longleftrightarrow>
     (if isOpen then passes env s onClose \<and> all_pass env s children \<and> (if confirmDisabled then True else passes env s onConfirm) else True)"
  by (auto simp: confirmDialog_def is_disabled_flag)

text \<open>Actions that need nothing, and those that only close.\<close>

lemma gate_free [simp]:
  "gate env s (SetTab x)" "gate env s OpenEdit" "gate env s (Input i v)" "gate env s (Choose key)" "gate env s (SelectResource rid)" "gate env s CloseDetails"
  "gate env s CloseIdentity" "gate env s CloseFieldEdit" "gate env s CloseDomainEdit" "gate env s CancelDomainEdit" "gate env s CloseRemoval"
  "gate env s CloseDomainRemoval" "gate env s BackToTenants" "gate env s (SetEditOpen False)" "gate env s (SetResOpen False)"
  "gate env s (SetDuplicateOpen False)" "gate env s (SetNewDomainOpen False)" "gate env s (SetDeleteOpen False)"
  by (simp_all add: gate_def)

lemma overview_pass [parts]: "list_all (passes env s) (offered (overviewTab t env s))"
  by (simp add: overviewTab_def overviewCards_def attentionAlert_def attentionAction_def gate_def Let_def)

lemma details_pass [parts]: "all_pass env s (detailsDialog t fs env s)"
  by (auto simp: detailsDialog_def resourceFieldRow_def gate_def Let_def split: option.split)

lemma resource_dialogs_pass [parts]: "all_pass env s (identityDialog t s)" "all_pass env s (duplicateDialog t s)"
  by (auto simp: identityDialog_def duplicateDialog_def gate_def Let_def)

lemma field_dialog_pass [parts]: "all_pass env s (fieldDialog t s)"
  by (auto simp: fieldDialog_def gate_def Let_def split: option.split)

lemma tenant_dialogs_pass [parts]: "all_pass env s (editTenantDialog t fs s)" "e_tenant env = Some tenant \<Longrightarrow> all_pass env s (deleteDialog t tenant s)"
  by (auto simp: editTenantDialog_def deleteDialog_def gate_def Let_def)

lemma list_all_map_pass [simp]: "list_all (passes env s) (map f xs) \<longleftrightarrow> (\<forall>x \<in> set xs. passes env s (f x))"
  by (auto simp: list_all_iff)

lemma resource_value_pass [simp]: "list_all (passes env s) (offered (resourceValueField t s f))"
  by (simp add: resourceValueField_def Let_def)

lemma resource_origin_pass [simp]: "all_pass env s (resourceOriginField t candidates v)"
  by (auto simp: resourceOriginField_def)

lemma resource_fields_pass [simp]: "all_pass env s (addResourceFields t env s)"
  by (auto simp: addResourceFields_def Let_def)

lemma resource_form_pass [parts]: "all_pass env s (addResourceDialog t env s)"
  by (auto simp: addResourceDialog_def gate_def Let_def)

lemma domain_dialogs_pass [parts]:
  "all_pass env s (newDomainDialog t s)" "all_pass env s (renameDomainDialog t s)" "all_pass env s (removalDialogs t s)"
  by (auto simp: newDomainDialog_def renameDomainDialog_def removalDialogs_def gate_def Let_def)

lemma header_pass [parts]: "list_all (passes env s) (offered (pageHeader t fs env tenant))" "list_all (passes env s) (offered (notFoundView t env s))"
  by (simp_all add: pageHeader_def notFoundView_def Let_def)

lemma resource_cells_pass: "d \<in> set (resourceColumns t fs (e_caps env)) \<Longrightarrow> all_pass env s (cd_cell d r)"
  by (auto simp: resourceColumns_def data_column_def actions_column_def resourceNameCell_def gate_def Let_def)

lemma domain_cells_pass: "d \<in> set (domainColumns t (e_caps env)) \<Longrightarrow> all_pass env s (cd_cell d r)"
  by (auto simp: domainColumns_def data_column_def actions_column_def gate_def Let_def)

lemma resources_tab_pass [parts]: "PageDoes c \<in> set (offered (resourcesTab t fs env m rows)) \<Longrightarrow> passes env s c"
  using resource_cells_pass [of _ t fs env s]
  by (fastforce simp: resourcesTab_def render_table_offers toolbar_offers shown_if_def gate_def all_pass_def list_all_iff Let_def
      split: if_splits dest: visible_columns_defs)

lemma domains_tab_pass [parts]: "PageDoes c \<in> set (offered (domainsTab t env m rows)) \<Longrightarrow> passes env s c"
  using domain_cells_pass [of _ t env s]
  by (fastforce simp: domainsTab_def render_table_offers toolbar_offers shown_if_def gate_def all_pass_def list_all_iff Let_def
      split: if_splits dest: visible_columns_defs)

lemma page_parts_offer:
  "PageDoes c \<in> set (offered (el tag [] (map (map_view PageDoes) us @ [mid] @ map (map_view PageDoes) ws))) \<longleftrightarrow>
     (\<exists>v \<in> set us. c \<in> set (offered v)) \<or> PageDoes c \<in> set (offered mid) \<or> (\<exists>v \<in> set ws. c \<in> set (offered v))"
  by auto

lemma all_pass_member: "all_pass env s vs \<Longrightarrow> v \<in> set vs \<Longrightarrow> c \<in> set (offered v) \<Longrightarrow> passes env s c"
  by (auto simp: all_pass_def list_all_iff)

lemma tenantDetail_pass:
  assumes "PageDoes c \<in> set (offered (tenantDetail t fs env rm rrows dm drows s))"
  shows "passes env s c"
proof (cases "e_tenant env")
  case None
  with assms parts show ?thesis by (auto simp: tenantDetail_def list_all_iff)
next
  case (Some tenant)
  let ?top = "shown_if (visiblePageError env s \<noteq> []) (el ''alert'' [] [Txt (t (visiblePageError env s) [])]) @
      [pageHeader t fs env tenant,
       el ''tabs'' [] (map (\<lambda>(key, x). do_button False (SetTab x) [Txt (t key [])])
         [(''tenantDetail.overviewTab'', OverviewTab), (''tenantDetail.resourcesTab'', ResourcesTab), (''tenantDetail.domainsTab'', DomainsTab)])]"
  let ?dialogs = "detailsDialog t fs env s @ identityDialog t s @ duplicateDialog t s @ fieldDialog t s @ editTenantDialog t fs s @
      addResourceDialog t env s @ newDomainDialog t s @ renameDomainDialog t s @ removalDialogs t s @ deleteDialog t tenant s"
  let ?tab = "case tab s of OverviewTab \<Rightarrow> map_view PageDoes (overviewTab t env s) | ResourcesTab \<Rightarrow> resourcesTab t fs env rm rrows
      | DomainsTab \<Rightarrow> domainsTab t env dm drows"
  have "all_pass env s ?top" "all_pass env s ?dialogs"
    using parts Some by (simp_all add: parts)
  moreover have "(\<exists>v \<in> set ?top. c \<in> set (offered v)) \<or> PageDoes c \<in> set (offered ?tab) \<or> (\<exists>v \<in> set ?dialogs. c \<in> set (offered v))"
    using assms unfolding tenantDetail_def Some option.case page_parts_offer .
  moreover have "passes env s c" if "PageDoes c \<in> set (offered ?tab)"
    using that parts by (cases "tab s") (auto simp: list_all_iff)
  ultimately show ?thesis using all_pass_member by blast
qed

section \<open>Permissions\<close>

text \<open>What a user sees at one moment: the environment and the rows of the two tables.\<close>

record td_screen =
  sc_env :: td_env
  sc_resource_model :: table_model
  sc_resource_rows :: "TenantResource list"
  sc_domain_model :: table_model
  sc_domain_rows :: "TenantDomain list"

definition on_screen :: "translation \<Rightarrow> (string \<Rightarrow> string) \<Rightarrow> td_screen \<Rightarrow> page \<Rightarrow> td_control list" where
  "on_screen t fs sc s =
     page_actions (tenantDetail t fs (sc_env sc) (sc_resource_model sc) (sc_resource_rows sc) (sc_domain_model sc) (sc_domain_rows sc) s)"

definition possible :: "translation \<Rightarrow> (string \<Rightarrow> string) \<Rightarrow> td_screen \<Rightarrow> td_action \<Rightarrow> page \<Rightarrow> bool" where
  "possible t fs sc a s \<longleftrightarrow>
     Do a \<in> set (on_screen t fs sc s) \<or> (case a of Input i v \<Rightarrow> TypeIn i \<in> set (on_screen t fs sc s) | _ \<Rightarrow> False)"

text \<open>A session: every action of a user with the capabilities \<open>caps\<close> is on the screen at the time.\<close>

fun session ::
  "translation \<Rightarrow> (string \<Rightarrow> string) \<Rightarrow> (nat \<Rightarrow> string) \<Rightarrow> string \<Rightarrow> AdminCapabilities \<Rightarrow>
     (td_screen, td_action, td_job, api_error + TenantResource list) page_event list \<Rightarrow> page \<Rightarrow> bool" where
  "session t fs uuid i caps [] s = True"
| "session t fs uuid i caps (Act sc a # evs) s =
     (e_caps (sc_env sc) = caps \<and> possible t fs sc a s \<and> session t fs uuid i caps evs (fst (handle uuid (sc_env sc) a s)))"
| "session t fs uuid i caps (Answer j r # evs) s =
     session t fs uuid i caps evs (fst (page_step (\<lambda>sc :: td_screen. handle uuid (sc_env sc)) (settle i) jobs (Answer j r) s))"

definition job_permission :: "td_job \<Rightarrow> AdminPermission" where
  "job_permission j =
     (case j of UpdateTenantJob _ \<Rightarrow> TenantWrite | AddDomainJob _ \<Rightarrow> TenantWrite | UpdateDomainJob _ _ \<Rightarrow> TenantWrite
      | RemoveDomainJob _ \<Rightarrow> TenantWrite | DeleteTenantJob \<Rightarrow> TenantHardDelete | RevealJob _ \<Rightarrow> SecretReveal
      | _ \<Rightarrow> ResourceWritePermission)"

definition is_update :: "td_job \<Rightarrow> bool" where
  "is_update j = (case j of UpdateTenantJob _ \<Rightarrow> True | _ \<Rightarrow> False)"

definition dialogs_permitted :: "AdminCapabilities \<Rightarrow> page \<Rightarrow> bool" where
  "dialogs_permitted caps s \<longleftrightarrow>
     (resOpen (rform s) \<or> duplicateOpen (ddialog s) \<or> pendingResource (rdialogs s) \<noteq> None \<or> editingResource (rdialogs s) \<noteq> None \<or>
        editingField (fdialog s) \<noteq> None \<longrightarrow> can caps ResourceWritePermission) \<and>
     (newDomainOpen (dforms s) \<or> editingDomain (dforms s) \<noteq> None \<or> pendingDomain (dforms s) \<noteq> None \<longrightarrow> can caps TenantWrite) \<and>
     (deleteOpen (tforms s) \<longrightarrow> can caps TenantHardDelete)"

text \<open>The part of the state the invariant reads.\<close>

definition open_dialogs :: "page \<Rightarrow> bool list" where
  "open_dialogs s =
     [resOpen (rform s), duplicateOpen (ddialog s), pendingResource (rdialogs s) \<noteq> None, editingResource (rdialogs s) \<noteq> None,
      editingField (fdialog s) \<noteq> None, newDomainOpen (dforms s), editingDomain (dforms s) \<noteq> None, pendingDomain (dforms s) \<noteq> None,
      deleteOpen (tforms s)]"

lemma dialogs_permitted_cong: "open_dialogs s' = open_dialogs s \<Longrightarrow> dialogs_permitted caps s' = dialogs_permitted caps s"
  by (simp add: open_dialogs_def dialogs_permitted_def)

lemma open_dialogs_send [simp]: "open_dialogs (fst (send_job j s)) = open_dialogs s" "open_dialogs (reveal_hide s) = open_dialogs s"
  by (simp_all add: open_dialogs_def send_job_def reveal_hide_def)

lemma handlers_keep_dialogs [simp]:
  "open_dialogs (fst (saveEdit s)) = open_dialogs s" "open_dialogs (fst (saveResourceIdentity s)) = open_dialogs s"
  "open_dialogs (fst (toggleResource r s)) = open_dialogs s" "open_dialogs (fst (removeResource s)) = open_dialogs s"
  "open_dialogs (fst (saveDomain s)) = open_dialogs s" "open_dialogs (fst (saveDomainEdit s)) = open_dialogs s"
  "open_dialogs (fst (removeDomain s)) = open_dialogs s" "open_dialogs (fst (toggleSecrets env s)) = open_dialogs s"
  by (simp_all add: saveEdit_def saveResourceIdentity_def toggleResource_def removeResource_def saveDomain_def saveDomainEdit_def
      removeDomain_def toggleSecrets_def Let_def split_beta split: option.split)
    (simp_all add: open_dialogs_def)

lemma dialogs_keep_dialogs [simp]:
  "open_dialogs (fst (saveResource uuid env s)) = open_dialogs s" "open_dialogs (fst (duplicateSelectedResource uuid s)) = open_dialogs s"
  "open_dialogs (fst (saveFieldEdit env s)) = open_dialogs s" "open_dialogs (fst (clearFieldOverride env field s)) = open_dialogs s"
  "open_dialogs (fst (deleteTenantPermanently env s)) = open_dialogs s"
  by (simp_all add: saveResource_def duplicateSelectedResource_def saveFieldEdit_def clearFieldOverride_def
      deleteTenantPermanently_def Let_def split_beta split: option.split)
    (simp_all add: open_dialogs_def)

lemma input_keeps_dialogs [simp]: "open_dialogs (input i v s) = open_dialogs s"
  by (simp add: input_def open_dialogs_def split: td_input.split)

lemma openers [simp]:
  "open_dialogs (openEdit env s) = open_dialogs s" "open_dialogs (choose_type env key s) = open_dialogs s"
  by (simp_all add: openEdit_def choose_type_def open_dialogs_def split: option.split)

lemma openers_permitted:
  assumes "dialogs_permitted caps s"
  shows "can caps ResourceWritePermission \<Longrightarrow> dialogs_permitted caps (openResourceIdentity r s)"
    and "can caps ResourceWritePermission \<Longrightarrow> dialogs_permitted caps (openDuplicateResource r s)"
    and "can caps ResourceWritePermission \<Longrightarrow> dialogs_permitted caps (requestResourceRemoval r s)"
    and "can caps ResourceWritePermission \<Longrightarrow> dialogs_permitted caps (openFieldEdit field s)"
    and "dialogs_permitted caps (closeDomainEdit s)"
  using assms by (auto simp: dialogs_permitted_def openResourceIdentity_def openDuplicateResource_def requestResourceRemoval_def
      openFieldEdit_def closeDomainEdit_def)

lemma handle_permitted:
  assumes "dialogs_permitted (e_caps env) s" and "gate env s a"
  shows "dialogs_permitted (e_caps env) (fst (handle uuid env a s))"
proof -
  have keep: "dialogs_permitted (e_caps env) s'" if "open_dialogs s' = open_dialogs s" for s'
    using that assms(1) dialogs_permitted_cong by blast
  show ?thesis
    using assms(2)
    by (cases a; simp add: handle_def gate_def Let_def keep openers_permitted [OF assms(1)] assms(1))
      (insert assms(1), auto simp: dialogs_permitted_def)
qed

lemma succeeded_permitted: "dialogs_permitted caps s \<Longrightarrow> dialogs_permitted caps (fst (succeeded j s))"
  by (cases j) (auto simp: succeeded_def dialogs_permitted_def)

lemma failed_dialogs [simp]: "open_dialogs (failed j e s) = open_dialogs s"
  by (simp add: failed_def open_dialogs_def Let_def split: td_job.split)

lemma jobs_dialogs [simp]: "open_dialogs (s\<lparr>jobs := js\<rparr>) = open_dialogs s" "open_dialogs (s\<lparr>reveal_hook := h\<rparr>) = open_dialogs s"
  by (simp_all add: open_dialogs_def)

lemma settle_permitted:
  assumes "dialogs_permitted caps s"
  shows "dialogs_permitted caps (fst (settle i j r s))"
proof -
  have ok: "dialogs_permitted caps s'" if "open_dialogs s' = open_dialogs s" for s'
    using assms that dialogs_permitted_cong by blast
  show ?thesis
    by (cases j; cases r) (simp_all add: settle_def complete_def complete_reveal_def Let_def split_beta succeeded_permitted ok)
qed

text \<open>Under the invariant a control on the screen sends only what the user may ask for, the update of the tenant apart.\<close>

lemma sent_permitted:
  assumes "dialogs_permitted (e_caps env) s" and "gate env s a" and "j \<in> set (sent (snd (handle uuid env a s)))" and "\<not> is_update j"
  shows "can (e_caps env) (job_permission j)"
  using assms
  by (cases a)
    (auto simp: handle_def gate_def dialogs_permitted_def saveEdit_def saveResourceIdentity_def toggleResource_def removeResource_def
      saveDomain_def saveDomainEdit_def removeDomain_def saveResource_def duplicateSelectedResource_def saveFieldEdit_def
      clearFieldOverride_def toggleSecrets_def deleteTenantPermanently_def send_job_def job_permission_def is_update_def Let_def
      split: option.splits if_splits prod.splits)

lemma possible_gate: "possible t fs sc a s \<Longrightarrow> gate (sc_env sc) s a"
  using tenantDetail_pass
  by (fastforce simp: possible_def on_screen_def page_actions_iff passes_def split: td_action.splits)

lemma session_permitted:
  "session t fs uuid i caps evs s \<Longrightarrow> dialogs_permitted caps s \<Longrightarrow>
     j \<in> set (sent (snd (run_page (\<lambda>sc. handle uuid (sc_env sc)) (settle i) jobs evs s))) \<Longrightarrow> \<not> is_update j \<Longrightarrow> can caps (job_permission j)"
proof (induction evs arbitrary: s)
  case (Cons ev evs)
  show ?case
  proof (cases ev)
    case (Act sc a)
    have c: "e_caps (sc_env sc) = caps" and g: "gate (sc_env sc) s a"
      and rest: "session t fs uuid i caps evs (fst (handle uuid (sc_env sc) a s))"
      using Cons.prems(1) possible_gate by (auto simp: Act)
    have "j \<in> set (sent (snd (handle uuid (sc_env sc) a s))) \<or>
        j \<in> set (sent (snd (run_page (\<lambda>sc. handle uuid (sc_env sc)) (settle i) jobs evs (fst (handle uuid (sc_env sc) a s)))))"
      using Cons.prems(3) by (simp add: Act split_beta Let_def)
    then show ?thesis
      using Cons.IH [OF rest _ _ Cons.prems(4)] handle_permitted [OF _ g] sent_permitted [OF _ g _ Cons.prems(4)] Cons.prems(2) c by blast
  next
    case (Answer j' r)
    let ?s1 = "fst (page_step (\<lambda>sc :: td_screen. handle uuid (sc_env sc)) (settle i) jobs (Answer j' r) s)"
    have "dialogs_permitted caps ?s1"
      using settle_permitted [OF Cons.prems(2)] Cons.prems(2) by simp
    moreover have "j \<in> set (sent (snd (run_page (\<lambda>sc. handle uuid (sc_env sc)) (settle i) jobs evs ?s1)))"
      using Cons.prems(3) settle_frame [of i j' r s] by (simp add: Answer split_beta Let_def split: if_splits)
    ultimately show ?thesis
      using Cons.IH [of ?s1] Cons.prems(1,4) by (simp add: Answer)
  qed
qed simp

text \<open>The buttons that send a call, and the target a call needs besides its button.\<close>

definition submits :: "td_action \<Rightarrow> bool" where
  "submits a =
     (case a of SaveEdit \<Rightarrow> True | SaveResource \<Rightarrow> True | SaveIdentity \<Rightarrow> True | ToggleResource _ \<Rightarrow> True | Duplicate \<Rightarrow> True
      | RemoveResource \<Rightarrow> True | SaveFieldEdit \<Rightarrow> True | ClearOverride _ \<Rightarrow> True | SaveDomain \<Rightarrow> True | SaveDomainEdit \<Rightarrow> True
      | td_action.RemoveDomain \<Rightarrow> True | DeleteTenantAction \<Rightarrow> True | _ \<Rightarrow> False)"

definition has_target :: "td_env \<Rightarrow> page \<Rightarrow> td_action \<Rightarrow> bool" where
  "has_target env s a =
     (case a of Duplicate \<Rightarrow> duplicateTarget (ddialog s) \<noteq> None | SaveFieldEdit \<Rightarrow> selectedResource env s \<noteq> None | _ \<Rightarrow> True)"

lemma gated_submit_sends:
  assumes "gate env s a" and "submits a" and "has_target env s a"
  shows "\<exists>j. snd (handle uuid env a s) = [Send j]"
  using assms
  by (cases a)
    (auto simp: gate_def submits_def has_target_def handle_def saveEdit_def saveResourceIdentity_def toggleResource_def removeResource_def
      saveDomain_def saveDomainEdit_def removeDomain_def saveResource_def duplicateSelectedResource_def saveFieldEdit_def
      clearFieldOverride_def deleteTenantPermanently_def send_job_def Let_def split: option.splits if_splits prod.splits)

section \<open>Properties\<close>

text \<open>C10: over every session of a user whose actions are all on the screen when taken, with calls answered in any
  order, each call the page sends is one the user's permissions allow, the update of the tenant's own data apart.\<close>

theorem session_calls_permitted:
  assumes "session t fs uuid i caps evs (initial_page i tok)"
  shows "list_all (\<lambda>j. if is_update j then True else can caps (job_permission j))
    (sent (snd (run_page (\<lambda>sc. handle uuid (sc_env sc)) (settle i) jobs evs (initial_page i tok))))"
proof -
  have "dialogs_permitted caps (initial_page i tok)"
    by (simp add: dialogs_permitted_def initial_page_def)
  with session_permitted [OF assms] show ?thesis by (auto simp: list_all_iff)
qed

text \<open>A button on the screen that is to send a call sends exactly one, whatever the user typed: the checks that
  enable a button are those of its handler. (The duplicate needs its target and a field edit its resource,
  which a refetch can take away under the dialog.)\<close>

theorem enabled_submit_sends:
  assumes "Do a \<in> set (on_screen t fs sc s)" and "submits a" and "has_target (sc_env sc) s a"
  shows "length (sent (snd (handle uuid (sc_env sc) a s))) = 1"
proof -
  have "gate (sc_env sc) s a"
    using assms(1) by (intro possible_gate [of t fs sc]) (simp add: possible_def)
  then obtain j where "snd (handle uuid (sc_env sc) a s) = [Send j]"
    using gated_submit_sends assms(2,3) by blast
  then show ?thesis by simp
qed

definition sample_screen :: "string list \<Rightarrow> string \<Rightarrow> td_screen" where
  "sample_screen permissions status =
     \<lparr>sc_env = sample_env\<lparr>e_caps := AdminCapabilitiesProvider permissions,
        e_tenant := Some \<lparr>t_id = ''t1'', t_slug = ''acme'', t_name = ''Acme'', t_status = status\<rparr>\<rparr>,
      sc_resource_model = \<lparr>tm_state = sample_table,
        tm_columns = [\<lparr>tc_id = ''actions'', tc_label = None, tc_accessor = False, tc_can_sort = False, tc_can_hide = False,
          tc_visible = True, tc_sorted = None\<rparr>],
        tm_filtered_count = 1, tm_page_count = 1, tm_can_previous = False, tm_can_next = False\<rparr>,
      sc_resource_rows = [sample_resource ''active'' ''h''],
      sc_domain_model = \<lparr>tm_state = sample_table, tm_columns = [], tm_filtered_count = 0, tm_page_count = 0,
        tm_can_previous = False, tm_can_next = False\<rparr>,
      sc_domain_rows = []\<rparr>"

abbreviation mute :: translation where "mute \<equiv> \<lambda>key ps. []"

definition sample_session :: "(td_screen, td_action, td_job, api_error + TenantResource list) page_event list" where
  "sample_session = (let sc = sample_screen [''resource.write''] ''active'' in
     [Act sc (SetTab ResourcesTab), Act sc (ToggleResource (sample_resource ''active'' ''h'')),
      Answer (SetStatusJob ''r1'' ''inactive'') (Inr [])])"

lemma session_calls_permitted_witness:
  "let js = sent (snd (run_page (\<lambda>sc. handle show_nat (sc_env sc)) (settle ''t1'') jobs sample_session (initial_page ''t1'' ''k'')))
   in js = [SetStatusJob ''r1'' ''inactive''] \<and>
     list_all (\<lambda>j. if is_update j then True else can (AdminCapabilitiesProvider [''resource.write'']) (job_permission j)) js"
proof -
  have "session mute (\<lambda>s. []) show_nat ''t1'' (AdminCapabilitiesProvider [''resource.write'']) sample_session (initial_page ''t1'' ''k'')"
    by code_simp
  note session_calls_permitted [OF this]
  moreover have "sent (snd (run_page (\<lambda>sc. handle show_nat (sc_env sc)) (settle ''t1'') jobs sample_session (initial_page ''t1'' ''k''))) =
      [SetStatusJob ''r1'' ''inactive'']"
    by code_simp
  ultimately show ?thesis by (simp add: Let_def)
qed

lemma enabled_submit_sends_witness:
  "length (sent (snd (handle show_nat sample_env (ToggleResource (sample_resource ''active'' ''h'')) (initial_page ''t1'' ''k'')))) = 1"
proof -
  let ?sc = "sample_screen [''resource.write''] ''active''"
  have on: "Do (ToggleResource (sample_resource ''active'' ''h'')) \<in> set (on_screen mute (\<lambda>s. []) ?sc ((initial_page ''t1'' ''k'')\<lparr>tab := ResourcesTab\<rparr>))"
    by code_simp
  have "length (sent (snd (handle show_nat (sc_env ?sc) (ToggleResource (sample_resource ''active'' ''h'')) ((initial_page ''t1'' ''k'')\<lparr>tab := ResourcesTab\<rparr>)))) = 1"
    by (rule enabled_submit_sends [OF on]) (simp_all add: submits_def has_target_def)
  then show ?thesis by (simp add: handle_def toggleResource_def send_job_def)
qed

lemma inactive_tenant_alert: "t_status tenant \<noteq> ''active'' \<Longrightarrow> e_tenant env = Some tenant \<Longrightarrow> InactiveTenant \<in> set (attentionCodes (page_overview env s))"
  by (simp add: page_overview_def summarizeTenantOverview_def Let_def)

lemma overview_offers_edit:
  assumes "e_tenant env = Some tenant" and "t_status tenant \<noteq> ''active''"
  shows "Do OpenEdit \<in> set (offered (overviewTab t env s))"
proof -
  have "InactiveTenant \<in> set (attentionCodes (page_overview env s))"
    using inactive_tenant_alert assms by blast
  then show ?thesis
    by (auto simp: overviewTab_def attentionAlert_def attentionAction_def Let_def intro!: bexI [of _ InactiveTenant])
qed

lemma edit_dialog_offers_save:
  "editOpen (tforms s) \<Longrightarrow> js_trim (ef_name (edit (tforms s))) \<noteq> [] \<Longrightarrow> isValidTenantSlug (ef_slug (edit (tforms s))) \<Longrightarrow>
     \<exists>v \<in> set (editTenantDialog t fs s). Do SaveEdit \<in> set (offered v)"
  by (simp add: editTenantDialog_def dialog_def Let_def)

text \<open>The warning about an inactive tenant offers to edit it to every user, also one without the permission to write
  tenants, and what it opens saves.\<close>

theorem inactive_alert_skips_permission:
  assumes "e_tenant (sc_env sc) = Some tenant" and "t_status tenant \<noteq> ''active''" and "tab s = OverviewTab"
    and "js_trim (t_name tenant) \<noteq> []" and "isValidTenantSlug (t_slug tenant)"
  shows "let s' = fst (handle uuid (sc_env sc) OpenEdit s) in
    Do OpenEdit \<in> set (on_screen t fs sc s) \<and> Do SaveEdit \<in> set (on_screen t fs sc s') \<and>
    sent (snd (handle uuid (sc_env sc) SaveEdit s')) =
      [UpdateTenantJob \<lparr>ef_name = t_name tenant, ef_slug = t_slug tenant, ef_status = t_status tenant\<rparr>]"
proof -
  define s' where "s' = openEdit (sc_env sc) s"
  have s': "editOpen (tforms s')" "edit (tforms s') = \<lparr>ef_name = t_name tenant, ef_slug = t_slug tenant, ef_status = t_status tenant\<rparr>"
    using assms(1) by (simp_all add: s'_def openEdit_def)
  have "Do OpenEdit \<in> set (on_screen t fs sc s)"
    unfolding on_screen_def page_actions_iff tenantDetail_def assms(1,3) option.case page_parts_offer tenant_tab.case
    using overview_offers_edit [OF assms(1,2)] by simp
  moreover have "Do SaveEdit \<in> set (on_screen t fs sc s')"
    unfolding on_screen_def page_actions_iff tenantDetail_def assms(1) option.case page_parts_offer set_append bex_Un
    using edit_dialog_offers_save [of s' t fs] s' assms(4,5) by simp
  moreover have "sent (snd (saveEdit s')) = [UpdateTenantJob \<lparr>ef_name = t_name tenant, ef_slug = t_slug tenant, ef_status = t_status tenant\<rparr>]"
    using s' assms(4,5) by (simp add: saveEdit_def send_job_def Let_def)
  ultimately show ?thesis by (simp add: handle_def Let_def s'_def)
qed

lemma inactive_alert_skips_permission_witness:
  "let sc = sample_screen [] ''inactive''; s = initial_page ''t1'' ''k''; s' = fst (handle show_nat (sc_env sc) OpenEdit s) in
    Do OpenEdit \<in> set (on_screen mute (\<lambda>s. []) sc s) \<and> Do SaveEdit \<in> set (on_screen mute (\<lambda>s. []) sc s') \<and>
    sent (snd (handle show_nat (sc_env sc) SaveEdit s')) = [UpdateTenantJob \<lparr>ef_name = ''Acme'', ef_slug = ''acme'', ef_status = ''inactive''\<rparr>]"
proof -
  let ?t = "\<lparr>t_id = ''t1'', t_slug = ''acme'', t_name = ''Acme'', t_status = ''inactive''\<rparr>"
  have "e_tenant (sc_env (sample_screen [] ''inactive'')) = Some ?t" "t_status ?t \<noteq> ''active''" "tab (initial_page ''t1'' ''k'') = OverviewTab"
      "js_trim (t_name ?t) \<noteq> []" "isValidTenantSlug (t_slug ?t)"
    by (simp_all add: sample_screen_def initial_page_def) code_simp+
  from inactive_alert_skips_permission [OF this, of show_nat mute "\<lambda>s. []"] show ?thesis by (simp add: Let_def)
qed

end
