(* ===== verification/KeyedPages.thy ===== *)
theory KeyedPages
  imports Pages Idempotency
begin

text \<open>
  Pages that send calls with idempotency keys. Such a page keeps the attempts not yet known to have
  succeeded, and draws the keys of new ones from the random source. The contract \<open>keyed_page\<close> extends
  \<open>page_machine\<close>: a handler draws at most one key, through one of the stored attempts, and an answer
  only forgets attempts. What follows is proved once: over every run one key stands for one payload.
\<close>

section \<open>Ledgers\<close>

text \<open>The payloads sent with their keys, the attempts stored and the number of keys drawn fit together.\<close>

definition ledger_ok :: "(nat \<Rightarrow> string) \<Rightarrow> (json \<times> string) set \<Rightarrow> IdempotencyAttempt set \<Rightarrow> nat \<Rightarrow> bool" where
  "ledger_ok uuid H stored n \<longleftrightarrow>
     (\<forall>p p' k. (p, k) \<in> H \<longrightarrow> (p', k) \<in> H \<longrightarrow> p = p') \<and>
     (\<forall>(p, k) \<in> H. \<exists>m < n. k = uuid m) \<and>
     (\<forall>a \<in> stored. \<exists>p. (p, attempt_key a) \<in> H \<and> fingerprint a = stringify p)"

lemma ledger_ok_initial: "ledger_ok uuid {} {} n"
  by (simp add: ledger_ok_def)

lemma ledger_ok_forget: "ledger_ok uuid H stored n \<Longrightarrow> stored' \<subseteq> stored \<Longrightarrow> ledger_ok uuid H stored' n"
  by (auto simp: ledger_ok_def)

text \<open>A draw through a stored attempt, or through none.\<close>

definition draws :: "(nat \<Rightarrow> string) \<Rightarrow> json \<Rightarrow> string \<Rightarrow> IdempotencyAttempt set \<Rightarrow> nat \<Rightarrow> IdempotencyAttempt set \<Rightarrow> nat \<Rightarrow> bool" where
  "draws uuid p k stored n stored' n' \<longleftrightarrow>
     (\<exists>attempt sl. (\<forall>a. attempt = Some a \<longrightarrow> a \<in> stored) \<and>
       stableIdempotencyKey uuid p \<lparr>current = attempt, uuids_drawn = n\<rparr> = (k, sl) \<and>
       stored' \<subseteq> stored \<union> set_option (current sl) \<and> n' = uuids_drawn sl)"

lemma stable_draw_cases:
  assumes "stableIdempotencyKey uuid p \<lparr>current = attempt, uuids_drawn = n\<rparr> = (k, sl)"
  obtains (kept) a where "attempt = Some a" "fingerprint a = stringify p" "k = attempt_key a" "current sl = Some a" "uuids_drawn sl = n"
  | (fresh) "k = uuid n" "current sl = Some \<lparr>fingerprint = stringify p, attempt_key = uuid n\<rparr>" "uuids_drawn sl = Suc n"
proof (cases "\<exists>a. attempt = Some a \<and> fingerprint a = stringify p")
  case True
  then show thesis using assms kept by (auto simp: stableIdempotencyKey_def Let_def)
next
  case False
  have "k = uuid n \<and> current sl = Some \<lparr>fingerprint = stringify p, attempt_key = uuid n\<rparr> \<and> uuids_drawn sl = Suc n"
  proof (cases attempt)
    case (Some a)
    with False assms show ?thesis by (auto simp: stableIdempotencyKey_def Let_def)
  qed (use assms in \<open>auto simp: stableIdempotencyKey_def Let_def\<close>)
  then show thesis using fresh by blast
qed

lemma ledger_ok_draw:
  assumes ok: "ledger_ok uuid H stored n" and inj: "inj uuid" and d: "draws uuid p k stored n stored' n'"
  shows "ledger_ok uuid (insert (p, k) H) stored' n'"
proof -
  obtain attempt sl where a: "\<And>a. attempt = Some a \<Longrightarrow> a \<in> stored"
    and sl: "stableIdempotencyKey uuid p \<lparr>current = attempt, uuids_drawn = n\<rparr> = (k, sl)"
    and st: "stored' \<subseteq> stored \<union> set_option (current sl)" and n': "n' = uuids_drawn sl"
    using d unfolding draws_def by blast
  note one = ok [unfolded ledger_ok_def, THEN conjunct1]
  note drawn = ok [unfolded ledger_ok_def, THEN conjunct2, THEN conjunct1]
  note kept' = ok [unfolded ledger_ok_def, THEN conjunct2, THEN conjunct2]
  from sl show ?thesis
  proof (cases rule: stable_draw_cases)
    case (kept b)
    then obtain q where q: "(q, k) \<in> H" "stringify p = stringify q" using a kept' by fastforce
    then have "q = p" by simp
    with q have "(p, k) \<in> H" by simp
    moreover have "stored' \<subseteq> stored" using st kept a by auto
    ultimately show ?thesis using ok kept(5) ledger_ok_forget [OF ok] n' by (simp add: insert_absorb)
  next
    case fresh
    have new: "(q, k) \<notin> H" for q using drawn fresh(1) inj by (force dest: injD)
    have "\<forall>q q' l. (q, l) \<in> insert (p, k) H \<longrightarrow> (q', l) \<in> insert (p, k) H \<longrightarrow> q = q'"
      using one new by blast
    moreover have "\<forall>(q, l) \<in> insert (p, k) H. \<exists>m < n'. l = uuid m"
      using drawn fresh n' by (auto simp: less_Suc_eq)
    moreover have "\<forall>b \<in> stored'. \<exists>q. (q, attempt_key b) \<in> insert (p, k) H \<and> fingerprint b = stringify q"
      using kept' st fresh by fastforce
    ultimately show ?thesis unfolding ledger_ok_def by blast
  qed
qed

section \<open>The contract\<close>

definition keyed_calls :: "('job \<Rightarrow> (json \<times> string) option) \<Rightarrow> 'job list \<Rightarrow> (json \<times> string) set" where
  "keyed_calls keyed js = {pk. \<exists>j \<in> set js. keyed j = Some pk}"

lemma keyed_calls_simps [simp]:
  "keyed_calls keyed [] = {}" "keyed_calls keyed (js @ ks) = keyed_calls keyed js \<union> keyed_calls keyed ks"
  "keyed_calls keyed (j # js) = set_option (keyed j) \<union> keyed_calls keyed js"
  by (auto simp: keyed_calls_def)

locale keyed_page = page_machine handle settle jobs sends valid
  for handle :: "'env \<Rightarrow> 'act \<Rightarrow> 's \<Rightarrow> 's \<times> 'eff list" and settle :: "'job \<Rightarrow> 'ans \<Rightarrow> 's \<Rightarrow> 's \<times> 'eff list"
    and jobs :: "'s \<Rightarrow> 'job list" and sends :: "'eff list \<Rightarrow> 'job list" and valid :: "'job \<Rightarrow> bool" +
  fixes uuid :: "nat \<Rightarrow> string" and stored :: "'s \<Rightarrow> IdempotencyAttempt set" and drawn :: "'s \<Rightarrow> nat"
    and keyed :: "'job \<Rightarrow> (json \<times> string) option"
  assumes handle_keys:
      "keyed_calls keyed (sends (snd (handle env a s))) = {} \<and> stored (fst (handle env a s)) \<subseteq> stored s \<and> drawn (fst (handle env a s)) = drawn s \<or>
       (\<exists>p k. keyed_calls keyed (sends (snd (handle env a s))) = {(p, k)} \<and>
         draws uuid p k (stored s) (drawn s) (stored (fst (handle env a s))) (drawn (fst (handle env a s))))"
    and settle_keys: "stored (fst (settle j r s)) \<subseteq> stored s \<and> drawn (fst (settle j r s)) = drawn s"
begin

lemma step_ledger:
  assumes "inj uuid" and "ledger_ok uuid H (stored s) (drawn s)"
  shows "ledger_ok uuid (H \<union> keyed_calls keyed (sends (snd (page_step handle settle jobs ev s))))
    (stored (fst (page_step handle settle jobs ev s))) (drawn (fst (page_step handle settle jobs ev s)))"
proof (cases ev)
  case (Act env a)
  from handle_keys [of env a s] show ?thesis
  proof
    assume "keyed_calls keyed (sends (snd (handle env a s))) = {} \<and> stored (fst (handle env a s)) \<subseteq> stored s \<and> drawn (fst (handle env a s)) = drawn s"
    then show ?thesis using Act ledger_ok_forget [OF assms(2)] by simp
  next
    assume "\<exists>p k. keyed_calls keyed (sends (snd (handle env a s))) = {(p, k)} \<and>
         draws uuid p k (stored s) (drawn s) (stored (fst (handle env a s))) (drawn (fst (handle env a s)))"
    then show ?thesis using Act ledger_ok_draw [OF assms(2,1)] by auto
  qed
next
  case (Answer j r)
  then show ?thesis
    using settle_keys [of j r s] ledger_ok_forget [OF assms(2)] assms(2) by (simp add: settle_sends sends_Nil)
qed

theorem run_ledger:
  "inj uuid \<Longrightarrow> ledger_ok uuid H (stored s) (drawn s) \<Longrightarrow>
     ledger_ok uuid (H \<union> keyed_calls keyed (sends (snd (run evs s)))) (stored (fst (run evs s))) (drawn (fst (run evs s)))"
proof (induction evs arbitrary: s H)
  case (Cons ev evs)
  let ?s1 = "fst (page_step handle settle jobs ev s)"
  have "ledger_ok uuid (H \<union> keyed_calls keyed (sends (snd (page_step handle settle jobs ev s))) \<union> keyed_calls keyed (sends (snd (run evs ?s1))))
      (stored (fst (run evs ?s1))) (drawn (fst (run evs ?s1)))"
    by (rule Cons.IH [OF Cons.prems(1) step_ledger [OF Cons.prems]])
  moreover have "fst (run (ev # evs) s) = fst (run evs ?s1)" by (simp add: split_beta Let_def)
  moreover have "sends (snd (run (ev # evs) s)) = sends (snd (page_step handle settle jobs ev s)) @ sends (snd (run evs ?s1))"
    by (simp only: sends_run_Cons sends_step)
  ultimately show ?case by (simp add: Un_assoc)
qed (simp add: sends_Nil)

theorem keys_unambiguous:
  assumes "inj uuid" and "stored s = {}"
    and "j \<in> set (sends (snd (run evs s)))" and "j' \<in> set (sends (snd (run evs s)))"
    and "keyed j = Some (p, k)" and "keyed j' = Some (p', k)"
  shows "p = p'"
proof -
  have "ledger_ok uuid {} (stored s) (drawn s)" using assms(2) by (simp add: ledger_ok_initial)
  then have "ledger_ok uuid (keyed_calls keyed (sends (snd (run evs s)))) (stored (fst (run evs s))) (drawn (fst (run evs s)))"
    using run_ledger [OF assms(1), of "{}" s evs] by simp
  moreover have "(p, k) \<in> keyed_calls keyed (sends (snd (run evs s)))" "(p', k) \<in> keyed_calls keyed (sends (snd (run evs s)))"
    using assms(3-6) by (auto simp: keyed_calls_def)
  ultimately show ?thesis unfolding ledger_ok_def by blast
qed

end

end
