(* ===== verification/Numbers.thy ===== *)
theory Numbers
  imports Prelude Complex_Main "HOL-Library.Log_Nat"
begin

text \<open>
  Numbers of the JavaScript standard library: the rounding of a rational to the nearest double, which
  \<open>Number\<close> and a product apply, and the conversion of a string by \<open>Number(s)\<close>. \<open>None\<close> stands for the values
  that are not finite. Facts: rounding keeps the integers below \<open>2\<^sup>5\<^sup>3\<close> and never crosses one, and a decimal
  numeral is read back as its value.
\<close>

section \<open>Doubles and conversions\<close>

definition pow2 :: "int \<Rightarrow> rat" where
  "pow2 i = (if 0 \<le> i then 2 ^ nat i else 1 / 2 ^ nat (- i))"

definition round_half_even :: "rat \<Rightarrow> int" where
  "round_half_even y =
     (let f = \<lfloor>y\<rfloor>; d = y - of_int f in
      if d < 1 / 2 then f else if 1 / 2 < d then f + 1 else if even f then f else f + 1)"

definition ilog2 :: "rat \<Rightarrow> int" where
  "ilog2 x = (let (a, b) = quotient_of x; l = int (floorlog 2 (nat a)) - int (floorlog 2 (nat b)) in
     if pow2 l \<le> x then l else l - 1)"

text \<open>The double nearest to a positive rational below \<open>2\<^sup>1\<^sup>0\<^sup>2\<^sup>4\<close>, ties to the even significand.\<close>

definition js_double_pos :: "rat \<Rightarrow> rat" where
  "js_double_pos x = (let e = max (ilog2 x - 52) (- 1074) in of_int (round_half_even (x / pow2 e)) * pow2 e)"

definition js_double :: "rat \<Rightarrow> rat" where
  "js_double x = (if x = 0 then 0 else if x < 0 then - js_double_pos (- x) else js_double_pos x)"

text \<open>\<open>Number(s)\<close>: an optional radix prefix, or a decimal with an optional sign, fraction and exponent.\<close>

definition digit_of :: "char \<Rightarrow> nat" where
  "digit_of c = (if is_digit c then code c - 48 else if is_lower_az (js_lower_char c) then code (js_lower_char c) - 87 else 255)"

definition radix_value :: "nat \<Rightarrow> string \<Rightarrow> rat option" where
  "radix_value r ds = (if ds \<noteq> [] \<and> list_all (\<lambda>c. digit_of c < r) ds
     then Some (of_nat (foldl (\<lambda>n c. r * n + digit_of c) 0 ds)) else None)"

definition exponent_value :: "string \<Rightarrow> int option" where
  "exponent_value s =
     (case s of [] \<Rightarrow> Some 0
      | c # e \<Rightarrow>
          if js_lower_char c \<noteq> CHR ''e'' then None
          else let (sg, ds) = (case e of [] \<Rightarrow> (1, []) | d # r \<Rightarrow> if d = CHR ''-'' then (- 1, r) else if d = CHR ''+'' then (1, r) else (1, e)) in
            if ds \<noteq> [] \<and> list_all is_digit ds then Some (sg * int (digits_value ds)) else None)"

definition pow10 :: "int \<Rightarrow> rat" where
  "pow10 i = (if 0 \<le> i then 10 ^ nat i else 1 / 10 ^ nat (- i))"

definition decimal_value :: "string \<Rightarrow> rat option" where
  "decimal_value s =
     (let whole = takeWhile is_digit s; rest = dropWhile is_digit s;
          (frac, tail) = (case rest of c # r \<Rightarrow> if c = CHR ''.'' then (takeWhile is_digit r, dropWhile is_digit r) else ([], rest)
            | [] \<Rightarrow> ([], [])) in
      if whole = [] \<and> frac = [] then None
      else map_option (\<lambda>e. of_nat (digits_value (whole @ frac)) * pow10 (e - int (length frac))) (exponent_value tail))"

definition signed_value :: "string \<Rightarrow> rat option" where
  "signed_value s =
     (case s of [] \<Rightarrow> None
      | c # r \<Rightarrow> if c = CHR ''-'' then map_option uminus (decimal_value r)
                 else if c = CHR ''+'' then decimal_value r else decimal_value s)"

definition js_Number :: "string \<Rightarrow> rat option" where
  "js_Number value =
     (let s = js_trim value; p = js_lower (take 2 s) in
      if s = [] then Some 0
      else map_option js_double
        (if p = ''0x'' then radix_value 16 (drop 2 s)
         else if p = ''0o'' then radix_value 8 (drop 2 s)
         else if p = ''0b'' then radix_value 2 (drop 2 s)
         else signed_value s))"

definition isSafeInteger :: "rat option \<Rightarrow> bool" where
  "isSafeInteger v = (case v of Some x \<Rightarrow> of_int \<lfloor>x\<rfloor> = x \<and> \<bar>x\<bar> \<le> 9007199254740991 | None \<Rightarrow> False)"

section \<open>Rounding\<close>

lemma pow2_pos [simp]: "0 < pow2 i"
  by (simp add: pow2_def)

lemma pow2_add: "pow2 (i + int k) = pow2 i * 2 ^ k"
proof (cases "0 \<le> i")
  case True
  then show ?thesis by (simp add: pow2_def nat_add_distrib power_add)
next
  case False
  show ?thesis
  proof (cases "0 \<le> i + int k")
    case True
    then have k: "k = nat (i + int k) + nat (- i)" using False by linarith
    then have "(2 :: rat) ^ k = 2 ^ nat (i + int k) * 2 ^ nat (- i)" by (metis power_add)
    with True False show ?thesis by (simp add: pow2_def)
  next
    case neg: False
    then have "nat (- i) = nat (- (i + int k)) + k" using False by linarith
    then have "(2 :: rat) ^ nat (- i) = 2 ^ nat (- (i + int k)) * 2 ^ k" by (metis power_add)
    with neg False show ?thesis by (simp add: pow2_def)
  qed
qed

lemma pow2_mono: "i \<le> j \<Longrightarrow> pow2 i \<le> pow2 j"
  using pow2_add [of i "nat (j - i)"] by simp

lemma pow2_mono_iff: "pow2 i \<le> pow2 j \<longleftrightarrow> i \<le> j"
proof
  assume "pow2 i \<le> pow2 j"
  show "i \<le> j"
  proof (rule ccontr)
    assume "\<not> i \<le> j"
    then have "pow2 (j + 1) \<le> pow2 i" by (simp add: pow2_mono)
    moreover have "pow2 (j + 1) = 2 * pow2 j" using pow2_add [of j 1] by simp
    ultimately have "2 * pow2 j \<le> pow2 j" using \<open>pow2 i \<le> pow2 j\<close> by linarith
    then show False using pow2_pos [of j] by linarith
  qed
qed (rule pow2_mono)

lemma ilog2_le:
  assumes "0 < x" shows "pow2 (ilog2 x) \<le> x"
proof -
  obtain a b where q: "quotient_of x = (a, b)" by (cases "quotient_of x")
  have b: "0 < b" using quotient_of_denom_pos [OF q] .
  have x: "x = of_int a / of_int b" using quotient_of_div [OF q] .
  have a: "0 < a" using assms b unfolding x by (simp add: zero_less_divide_iff)
  define la lb where "la = floorlog 2 (nat a)" and "lb = floorlog 2 (nat b)"
  have "2 ^ (la - 1) \<le> nat a" "nat b < 2 ^ lb" "0 < la"
    using floorlog_bounds [of "nat a" 2] floorlog_bounds [of "nat b" 2] a b
    by (auto simp: la_def lb_def floorlog_def)
  then have "int (2 ^ (la - 1)) \<le> a" "b < int (2 ^ lb)"
    using a b by linarith+
  then have "of_int (int (2 ^ (la - 1))) \<le> (of_int a :: rat)" "of_int b < (of_int (int (2 ^ lb)) :: rat)"
    unfolding of_int_le_iff of_int_less_iff by simp_all
  then have "(2 :: rat) ^ (la - 1) \<le> of_int a" "of_int b \<le> (2 :: rat) ^ lb" by simp_all
  then have "(2 :: rat) ^ (la - 1) * of_int b \<le> of_int a * 2 ^ lb"
    using a b by (intro mult_mono) auto
  then have low: "(2 :: rat) ^ (la - 1) / 2 ^ lb \<le> x"
    using b unfolding x by (simp add: field_simps)
  have "pow2 (int la - int lb - 1) * 2 ^ lb = 2 ^ (la - 1)"
    using pow2_add [of "int la - int lb - 1" lb] \<open>0 < la\<close> by (simp add: pow2_def nat_diff_distrib)
  then have "pow2 (int la - int lb - 1) = 2 ^ (la - 1) / 2 ^ lb" by (simp add: eq_divide_eq)
  then have "pow2 (int la - int lb - 1) \<le> x" using low by (simp only:)
  then show ?thesis
    by (simp add: ilog2_def q la_def lb_def Let_def)
qed

lemma round_half_even_mono_int: "y \<le> of_int k \<Longrightarrow> round_half_even y \<le> k" "of_int k \<le> y \<Longrightarrow> k \<le> round_half_even y"
  unfolding round_half_even_def Let_def by (auto simp: le_floor_iff) linarith+

lemma round_half_even_int [simp]: "round_half_even (of_int k) = k"
  by (simp add: round_half_even_def)

text \<open>Rounding keeps the integers a double represents, and never crosses one.\<close>

lemma js_double_le_nat:
  assumes "0 < x" and "x \<le> of_nat n" and "n < 2 ^ 53"
  shows "js_double x \<le> of_nat n"
proof -
  define e where "e = max (ilog2 x - 52) (- 1074)"
  have "of_nat n < pow2 53" using assms(3) by (simp add: pow2_def)
  then have "pow2 (ilog2 x) < pow2 53" using ilog2_le [OF assms(1)] assms(2) by linarith
  then have "\<not> 53 \<le> ilog2 x" using pow2_mono [of 53 "ilog2 x"] by linarith
  then have "e \<le> 0" by (simp add: e_def)
  then have e: "pow2 e * 2 ^ nat (- e) = 1" using pow2_add [of e "nat (- e)"] by (simp add: pow2_def)
  define k where "k = int n * 2 ^ nat (- e)"
  have k: "of_int k * pow2 e = of_nat n" using e by (simp add: k_def mult.assoc mult.commute [of "2 ^ nat (- e)"])
  then have "x / pow2 e \<le> of_int k" using assms(2) by (simp add: pos_divide_le_eq)
  then have "round_half_even (x / pow2 e) \<le> k" by (rule round_half_even_mono_int)
  then have "of_int (round_half_even (x / pow2 e)) * pow2 e \<le> of_int k * pow2 e"
    by (intro mult_right_mono) (simp_all add: less_imp_le)
  moreover have "js_double x = of_int (round_half_even (x / pow2 e)) * pow2 e"
    using assms(1) by (simp add: js_double_def js_double_pos_def e_def Let_def)
  ultimately show ?thesis using k by simp
qed

lemma js_double_nat:
  assumes "n < 2 ^ 53" shows "js_double (of_nat n) = of_nat n"
proof (cases "n = 0")
  case False
  define x :: rat where "x = of_nat n"
  have x: "0 < x" using False by (simp add: x_def)
  define e where "e = max (ilog2 x - 52) (- 1074)"
  have "x < pow2 53" using assms by (simp add: pow2_def x_def)
  then have "pow2 (ilog2 x) < pow2 53" using ilog2_le [OF x] by linarith
  then have "\<not> 53 \<le> ilog2 x" using pow2_mono [of 53 "ilog2 x"] by linarith
  then have "e \<le> 0" by (simp add: e_def)
  then have e: "pow2 e * 2 ^ nat (- e) = 1" using pow2_add [of e "nat (- e)"] by (simp add: pow2_def)
  define k where "k = int n * 2 ^ nat (- e)"
  have k: "of_int k * pow2 e = x" using e by (simp add: k_def x_def mult.assoc mult.commute [of "2 ^ nat (- e)"])
  then have "x / pow2 e = of_int k" using less_imp_neq [OF pow2_pos [of e]] by (simp add: eq_divide_eq flip: k)
  then have "js_double x = of_int k * pow2 e"
    using x by (simp add: js_double_def js_double_pos_def e_def Let_def)
  with k show ?thesis by (simp add: x_def)
qed (simp add: js_double_def)

lemma js_double_positive:
  assumes "pow2 (- 1074) \<le> x" shows "0 < js_double x"
proof -
  have x: "0 < x" using assms pow2_pos [of "- 1074"] by linarith
  define e where "e = max (ilog2 x - 52) (- 1074)"
  have "pow2 e \<le> x"
  proof (cases "- 1074 \<le> ilog2 x - 52")
    case True
    then have "pow2 e \<le> pow2 (ilog2 x)" by (intro pow2_mono) (simp add: e_def)
    then show ?thesis using ilog2_le [OF x] by linarith
  qed (use assms in \<open>simp add: e_def\<close>)
  then have "of_int 1 \<le> x / pow2 e" using pow2_pos [of e] by (simp add: field_simps)
  then have "1 \<le> round_half_even (x / pow2 e)" by (rule round_half_even_mono_int)
  then have "(0 :: rat) < of_int (round_half_even (x / pow2 e))" by simp
  then have "0 < of_int (round_half_even (x / pow2 e)) * pow2 e" by simp
  then show ?thesis
    using x by (simp add: js_double_def js_double_pos_def e_def Let_def)
qed

section \<open>Reading a numeral\<close>

lemma js_double_ge_2_53:
  assumes "2 ^ 53 \<le> x" shows "2 ^ 53 \<le> js_double x"
proof -
  have x: "0 < x" using assms by (rule less_le_trans [rotated]) simp
  define e where "e = max (ilog2 x - 52) (- 1074)"
  define y where "y = of_int (round_half_even (x / pow2 e)) * pow2 e"
  have "2 ^ 53 \<le> y"
  proof (cases "e \<le> 0")
    case True
    then have e: "pow2 e * 2 ^ nat (- e) = 1" using pow2_add [of e "nat (- e)"] by (simp add: pow2_def)
    define k where "k = (2 :: int) ^ 53 * 2 ^ nat (- e)"
    have k: "of_int k * pow2 e = 2 ^ 53" using e by (simp add: k_def mult.assoc mult.commute [of "2 ^ nat (- e)"])
    then have "of_int k \<le> x / pow2 e" using assms by (simp add: pos_le_divide_eq)
    then have "k \<le> round_half_even (x / pow2 e)" by (rule round_half_even_mono_int)
    then have "of_int k * pow2 e \<le> y"
      unfolding y_def by (intro mult_right_mono) (simp_all add: less_imp_le)
    then show ?thesis using k by simp
  next
    case False
    then have e: "e = ilog2 x - 52" "53 \<le> ilog2 x" by (auto simp: e_def)
    have split: "pow2 (ilog2 x) = 2 ^ 52 * pow2 e" using pow2_add [of e 52] e by (simp add: mult.commute)
    then have "of_int (2 ^ 52) \<le> x / pow2 e" using ilog2_le [OF x] by (simp add: pos_le_divide_eq)
    then have "2 ^ 52 \<le> round_half_even (x / pow2 e)" by (rule round_half_even_mono_int)
    then have "(2 :: rat) ^ 52 \<le> of_int (round_half_even (x / pow2 e))" using of_int_le_iff [of "2 ^ 52" _, where ?'a = rat] by simp
    then have "2 ^ 52 * pow2 e \<le> y"
      unfolding y_def by (intro mult_right_mono) (simp_all add: less_imp_le)
    moreover have "pow2 53 \<le> pow2 (ilog2 x)" by (rule pow2_mono [OF e(2)])
    ultimately show ?thesis using split by (simp add: pow2_def)
  qed
  then show ?thesis
    using x by (simp add: js_double_def js_double_pos_def e_def y_def Let_def)
qed

lemma js_trim_show_nat [simp]: "js_trim (show_nat n) = show_nat n"
proof (rule js_trim_id)
  fix c assume "c \<in> set (show_nat n)"
  then show "\<not> js_space c" using show_nat_digits [of c n] by (auto simp: is_digit_def js_space_def code_def)
qed

lemma js_Number_show_nat: "js_Number (show_nat n) = Some (js_double (of_nat n))"
proof -
  let ?s = "show_nat n"
  have d: "is_digit c" if "c \<in> set ?s" for c using that by (rule show_nat_digits)
  obtain a r where s: "?s = a # r" by (cases ?s) auto
  have low: "js_lower_char c = c \<and> c \<noteq> CHR ''-'' \<and> c \<noteq> CHR ''+'' \<and> c \<noteq> CHR ''x'' \<and> c \<noteq> CHR ''o'' \<and> c \<noteq> CHR ''b''" if "c \<in> set ?s" for c
    using d [OF that] by (auto simp: is_digit_def js_lower_char_def code_def Let_def)
  have radix: "js_lower (take 2 ?s) \<noteq> [CHR ''0'', x]" if "x \<in> {CHR ''x'', CHR ''o'', CHR ''b''}" for x
  proof (cases r)
    case (Cons b r')
    then show ?thesis using that low [of b] s by (auto simp: js_lower_def numeral_2_eq_2)
  qed (use s in \<open>simp add: js_lower_def\<close>)
  have t: "takeWhile is_digit ?s = ?s" "dropWhile is_digit ?s = []" using d by (auto simp: takeWhile_eq_all_conv)
  have "decimal_value ?s = Some (of_nat n)"
    unfolding decimal_value_def t by (simp add: exponent_value_def pow10_def)
  moreover have "signed_value ?s = decimal_value ?s"
    using low [of a] s by (simp add: signed_value_def)
  ultimately show ?thesis
    using radix by (simp add: js_Number_def Let_def)
qed

end
