(* ===== verification/ApiClients.thy ===== *)
theory ApiClients
  imports KeyedPages I18n Navigation Validation QueryCache Numbers
begin

text \<open>
  The page of the API clients (\<open>web/src/routes/api-clients/-components/page.tsx\<close>): its state, its
  handlers, what follows a call that comes back, and what it renders. After a successful call a
  handler waits for the lists to be fetched again (\<open>await invalidateApiClients\<close>); what it does after
  that is a follow-up, kept in the state until the event \<open>Refreshed\<close>. All idempotency keys of the
  page are drawn from one source, so the number of keys drawn is part of the state. The clock, the
  date functions and the random source are the platform, an argument. Theorems: what is sent, which
  keys, that a token is on display only in the open dialog, and who is offered what.
\<close>

section \<open>State\<close>

record client_policy_form =
  cf_name :: string
  cf_scopes :: "string list"
  cf_rpmLimit :: string
  cf_expirationDays :: string

datatype follow_up = AfterUpdate | AfterCreate | AfterRotate string | AfterRevoke | AfterDelete

datatype client_job =
    CreateClientJob CreateAPIClientInput string
  | UpdateClientJob string CreateAPIClientInput
  | RotateClientJob ApiClient string
  | RevokeClientJob string
  | DeleteClientJob string
  | CopyTokenJob string
  | CopySnippetJob string string

record clients_page =
  helpOpen :: bool
  ac_open :: bool
  cform :: client_policy_form
  editingClient :: "ApiClient option"
  pendingDelete :: "ApiClient option"
  isLifecyclePending :: bool
  ac_token :: string
  isCreating :: bool
  copied :: bool
  copiedSnippet :: string
  ac_error :: string
  createAttempt :: "IdempotencyAttempt option"
  rotateAttempts :: "(string \<times> IdempotencyAttempt) list"
  ac_drawn :: nat
  ac_jobs :: "client_job list"
  refreshing :: "follow_up list"

definition default_scopes :: "string list" where
  "default_scopes = map scope_text [TenantIdentify, ResourceResolve]"

definition initial_clients :: clients_page where
  "initial_clients =
     \<lparr>helpOpen = False, ac_open = False,
      cform = \<lparr>cf_name = [], cf_scopes = default_scopes, cf_rpmLimit = ''300'', cf_expirationDays = ''90''\<rparr>,
      editingClient = None, pendingDelete = None, isLifecyclePending = False, ac_token = [], isCreating = False, copied = False,
      copiedSnippet = [], ac_error = [], createAttempt = None, rotateAttempts = [], ac_drawn = 0, ac_jobs = [], refreshing = []\<rparr>"

record clients_env =
  ce_caps :: AdminCapabilities
  ce_clients :: "ApiClient list option"
  ce_clients_error :: "api_error option"
  ce_settings :: "(string \<times> string) list option"
  ce_now :: int

text \<open>\<open>to_iso\<close> is \<open>new Date(time).toISOString()\<close>, \<^const>\<open>None\<close> where it throws a \<open>RangeError\<close>.\<close>

record clients_platform =
  pf_date_parse :: "string \<Rightarrow> int option"
  pf_to_iso :: "rat \<Rightarrow> string option"
  pf_uuid :: "nat \<Rightarrow> string"

definition page_clients :: "clients_env \<Rightarrow> ApiClient list" where
  "page_clients env = some_or (ce_clients env) []"

definition rpmLimitValid :: "clients_page \<Rightarrow> bool" where
  "rpmLimitValid s = isIntegerInRange (cf_rpmLimit (cform s)) 1 2147483647"

definition clientsVisibleError :: "clients_env \<Rightarrow> clients_page \<Rightarrow> string" where
  "clientsVisibleError env s =
     (if ac_error s \<noteq> [] then ac_error s else case ce_clients_error env of Some e \<Rightarrow> apiErrorMessage e | None \<Rightarrow> [])"

section \<open>Actions and effects\<close>

datatype client_input = ClientNameInput | RpmInput

datatype (plugins only: code) client_action =
    SetHelpOpen bool
  | Start
  | StartEdit ApiClient
  | Create
  | ChangeDialogOpen bool
  | Rotate ApiClient
  | Revoke ApiClient
  | AskDelete ApiClient
  | CancelDelete
  | RemoveClient
  | ToggleScope string
  | ChooseExpiration string
  | Copy
  | CopySnippet string string
  | ClientInput client_input string
  | Refreshed follow_up

datatype client_effect = SendClient client_job | ClientCache "cache_command list" | ClientToast string | ClientErrorToast string

abbreviation on_form :: "(client_policy_form \<Rightarrow> client_policy_form) \<Rightarrow> clients_page \<Rightarrow> clients_page" where
  "on_form \<equiv> cform_update"

definition send_client :: "client_job \<Rightarrow> clients_page \<Rightarrow> clients_page \<times> client_effect list" where
  "send_client j s = (s\<lparr>ac_jobs := ac_jobs s @ [j]\<rparr>, [SendClient j])"

text \<open>A key for a payload, with the attempt kept for it.\<close>

definition draw_key :: "clients_platform \<Rightarrow> json \<Rightarrow> IdempotencyAttempt option \<Rightarrow> nat \<Rightarrow> string \<times> slot" where
  "draw_key pf payload attempt drawn = stableIdempotencyKey (pf_uuid pf) payload \<lparr>current = attempt, uuids_drawn = drawn\<rparr>"

definition rotate_json :: "string \<Rightarrow> json" where
  "rotate_json clientId = JObj [(''clientId'', JStr clientId), (''graceSeconds'', JNum 300)]"

section \<open>Handlers\<close>

definition start_new :: "clients_env \<Rightarrow> clients_page \<Rightarrow> clients_page" where
  "start_new env s =
     (let setting = (\<lambda>key d. case ce_settings env of None \<Rightarrow> d | Some vs \<Rightarrow> some_or (map_of vs key) d) in
      s\<lparr>editingClient := None,
        cform := \<lparr>cf_name = [], cf_scopes = default_scopes, cf_rpmLimit = setting ''api_client_default_rpm'' ''300'',
          cf_expirationDays = setting ''api_client_default_ttl_days'' ''90''\<rparr>,
        ac_token := [], copied := False, ac_error := [], ac_open := True\<rparr>)"

definition DAY_MS :: int where
  "DAY_MS = 24 * 60 * 60 * 1000"

text \<open>The smallest offered term that covers the days left, at least 30; a date that cannot be read counts as the longest.\<close>

definition remaining_term :: "clients_platform \<Rightarrow> int \<Rightarrow> string \<Rightarrow> nat" where
  "remaining_term pf now expires =
     (case pf_date_parse pf expires of
        None \<Rightarrow> 365
      | Some time \<Rightarrow> let remainingDays = max 30 (- ((now - time) div DAY_MS)) in
          some_or (find (\<lambda>days. int days \<ge> remainingDays) [30, 90, 180, 365]) 365)"

definition startEdit :: "clients_platform \<Rightarrow> clients_env \<Rightarrow> ApiClient \<Rightarrow> clients_page \<Rightarrow> clients_page" where
  "startEdit pf env client s =
     s\<lparr>editingClient := Some client,
       cform := \<lparr>cf_name = c_name client, cf_scopes = c_scopes client, cf_rpmLimit = show_int (c_rpm_limit client),
         cf_expirationDays = show_nat (remaining_term pf (ce_now env) (c_expires_at client))\<rparr>,
       ac_token := [], ac_error := [], ac_open := True\<rparr>"

definition expiry :: "clients_platform \<Rightarrow> clients_env \<Rightarrow> clients_page \<Rightarrow> string option" where
  "expiry pf env s =
     (case js_Number (cf_expirationDays (cform s)) of None \<Rightarrow> None
      | Some days \<Rightarrow> pf_to_iso pf (of_int (ce_now env) + days * of_int DAY_MS))"

definition create_client :: "clients_platform \<Rightarrow> clients_env \<Rightarrow> clients_page \<Rightarrow> clients_page \<times> client_effect list" where
  "create_client pf env s =
     (let trimmedName = js_trim (cf_name (cform s)) in
      if trimmedName = [] \<or> \<not> rpmLimitValid s then (s, [])
      else if isDuplicateAPIClientName trimmedName (map c_name (page_clients env)) then (s\<lparr>ac_error := ''errors.conflict''\<rparr>, [])
      else case expiry pf env s of
        None \<Rightarrow> (s\<lparr>ac_error := ''errors.generic'', isCreating := False\<rparr>, [])
      | Some expires \<Rightarrow>
          let s = s\<lparr>isCreating := True, ac_error := []\<rparr>;
              policy = \<lparr>ci_name = trimmedName, ci_scopes = cf_scopes (cform s),
                ci_rpm_limit = int_value (js_trim (cf_rpmLimit (cform s))), ci_expires_at = expires\<rparr>
          in case editingClient s of
            Some client \<Rightarrow> send_client (UpdateClientJob (c_id client) policy) s
          | None \<Rightarrow>
              let (key, a) = draw_key pf (client_json policy) (createAttempt s) (ac_drawn s) in
              send_client (CreateClientJob policy key) (s\<lparr>createAttempt := current a, ac_drawn := uuids_drawn a\<rparr>))"

definition changeDialogOpen :: "bool \<Rightarrow> clients_page \<Rightarrow> clients_page" where
  "changeDialogOpen nextOpen s =
     (if \<not> canChangeAPIClientDialogOpen nextOpen (isCreating s) then s
      else if nextOpen then s\<lparr>ac_open := True\<rparr>
      else on_form (\<lambda>f. f\<lparr>cf_name := []\<rparr>)
        (s\<lparr>ac_open := False, copied := False, ac_error := [], ac_token := [], editingClient := None\<rparr>))"

definition rotate :: "clients_platform \<Rightarrow> ApiClient \<Rightarrow> clients_page \<Rightarrow> clients_page \<times> client_effect list" where
  "rotate pf client s =
     (let (key, a) = draw_key pf (rotate_json (c_id client)) (map_of (rotateAttempts s) (c_id client)) (ac_drawn s) in
      send_client (RotateClientJob client key)
        (s\<lparr>isLifecyclePending := True, ac_error := [],
           rotateAttempts := (case current a of Some x \<Rightarrow> AList.update (c_id client) x (rotateAttempts s) | None \<Rightarrow> rotateAttempts s),
           ac_drawn := uuids_drawn a\<rparr>))"

definition revoke :: "ApiClient \<Rightarrow> clients_page \<Rightarrow> clients_page \<times> client_effect list" where
  "revoke client s = send_client (RevokeClientJob (c_id client)) (s\<lparr>isLifecyclePending := True, ac_error := []\<rparr>)"

definition removeClient :: "clients_page \<Rightarrow> clients_page \<times> client_effect list" where
  "removeClient s =
     (case pendingDelete s of None \<Rightarrow> (s, [])
      | Some client \<Rightarrow> send_client (DeleteClientJob (c_id client)) (s\<lparr>isLifecyclePending := True\<rparr>))"

definition toggleScope :: "string \<Rightarrow> clients_page \<Rightarrow> clients_page" where
  "toggleScope scope s =
     on_form (\<lambda>f. f\<lparr>cf_scopes := (if scope \<in> set (cf_scopes f) then filter (\<lambda>candidate. candidate \<noteq> scope) (cf_scopes f)
       else cf_scopes f @ [scope])\<rparr>) s"

text \<open>What follows once the lists have been fetched again.\<close>

definition refreshed :: "follow_up \<Rightarrow> clients_page \<Rightarrow> clients_page \<times> client_effect list" where
  "refreshed k s =
     (if k \<notin> set (refreshing s) then (s, [])
      else let s = s\<lparr>refreshing := remove1 k (refreshing s)\<rparr> in
        case k of
          AfterUpdate \<Rightarrow> (s\<lparr>isCreating := False\<rparr>, [])
        | AfterCreate \<Rightarrow> (s\<lparr>createAttempt := None, isCreating := False\<rparr>, [])
        | AfterRotate clientId \<Rightarrow>
            (s\<lparr>rotateAttempts := AList.delete clientId (rotateAttempts s), isLifecyclePending := False\<rparr>, [ClientToast ''apiClients.rotated''])
        | AfterRevoke \<Rightarrow> (s\<lparr>isLifecyclePending := False\<rparr>, [ClientToast ''apiClients.statusRevoked''])
        | AfterDelete \<Rightarrow> (s\<lparr>isLifecyclePending := False\<rparr>, [ClientToast ''apiClients.deleted'']))"

definition client_input :: "client_input \<Rightarrow> string \<Rightarrow> clients_page \<Rightarrow> clients_page" where
  "client_input i v s =
     (case i of ClientNameInput \<Rightarrow> on_form (\<lambda>f. f\<lparr>cf_name := v\<rparr>) s | RpmInput \<Rightarrow> on_form (\<lambda>f. f\<lparr>cf_rpmLimit := v\<rparr>) s)"

definition handle_clients ::
  "clients_platform \<Rightarrow> clients_env \<Rightarrow> client_action \<Rightarrow> clients_page \<Rightarrow> clients_page \<times> client_effect list" where
  "handle_clients pf env a s =
     (case a of
        SetHelpOpen b \<Rightarrow> (s\<lparr>helpOpen := b\<rparr>, [])
      | Start \<Rightarrow> (start_new env s, [])
      | StartEdit client \<Rightarrow> (startEdit pf env client s, [])
      | Create \<Rightarrow> create_client pf env s
      | ChangeDialogOpen b \<Rightarrow> (changeDialogOpen b s, [])
      | Rotate client \<Rightarrow> rotate pf client s
      | Revoke client \<Rightarrow> revoke client s
      | AskDelete client \<Rightarrow> (s\<lparr>pendingDelete := Some client\<rparr>, [])
      | CancelDelete \<Rightarrow> (s\<lparr>pendingDelete := None\<rparr>, [])
      | RemoveClient \<Rightarrow> removeClient s
      | ToggleScope scope \<Rightarrow> (toggleScope scope s, [])
      | ChooseExpiration days \<Rightarrow> (on_form (\<lambda>f. f\<lparr>cf_expirationDays := days\<rparr>) s, [])
      | Copy \<Rightarrow> send_client (CopyTokenJob (ac_token s)) s
      | CopySnippet snippet key \<Rightarrow> send_client (CopySnippetJob snippet key) s
      | ClientInput i v \<Rightarrow> (client_input i v s, [])
      | Refreshed k \<Rightarrow> refreshed k s)"

section \<open>When a call comes back\<close>

text \<open>The answer of a creation or a rotation is the token; the other answers are not looked at.\<close>

definition client_succeeded :: "client_job \<Rightarrow> string \<Rightarrow> clients_page \<Rightarrow> clients_page \<times> client_effect list" where
  "client_succeeded j tok s =
     (let refresh = (\<lambda>k s es. (s\<lparr>refreshing := refreshing s @ [k]\<rparr>, es @ [ClientCache invalidateApiClients])) in
      case j of
        CreateClientJob _ _ \<Rightarrow> refresh AfterCreate (s\<lparr>ac_token := tok, ac_open := True\<rparr>) []
      | UpdateClientJob _ _ \<Rightarrow> refresh AfterUpdate (s\<lparr>ac_open := False\<rparr>) [ClientToast ''apiClients.updated'']
      | RotateClientJob client _ \<Rightarrow>
          refresh (AfterRotate (c_id client))
            (on_form (\<lambda>f. f\<lparr>cf_name := c_name client\<rparr>) (s\<lparr>editingClient := None, ac_token := tok, copied := False, ac_open := True\<rparr>)) []
      | RevokeClientJob _ \<Rightarrow> refresh AfterRevoke s []
      | DeleteClientJob _ \<Rightarrow> refresh AfterDelete (s\<lparr>pendingDelete := None\<rparr>) []
      | CopyTokenJob _ \<Rightarrow> (s\<lparr>copied := True, ac_error := []\<rparr>, [])
      | CopySnippetJob _ key \<Rightarrow> (s\<lparr>copiedSnippet := key, ac_error := []\<rparr>, [ClientToast ''apiClients.resolveSnippet.copied'']))"

definition client_failed :: "client_job \<Rightarrow> api_error \<Rightarrow> clients_page \<Rightarrow> clients_page \<times> client_effect list" where
  "client_failed j e s =
     (case j of
        CreateClientJob _ _ \<Rightarrow> (s\<lparr>ac_error := apiErrorMessage e, isCreating := False\<rparr>, [])
      | UpdateClientJob _ _ \<Rightarrow> (s\<lparr>ac_error := apiErrorMessage e, isCreating := False\<rparr>, [])
      | CopyTokenJob _ \<Rightarrow> (s\<lparr>copied := False, ac_error := ''apiClients.copyFailed''\<rparr>, [])
      | CopySnippetJob _ _ \<Rightarrow> (s\<lparr>copiedSnippet := []\<rparr>, [ClientErrorToast ''apiClients.copyFailed''])
      | _ \<Rightarrow> (s\<lparr>ac_error := apiErrorMessage e, isLifecyclePending := False\<rparr>, []))"

definition settle_clients :: "client_job \<Rightarrow> (api_error + string) \<Rightarrow> clients_page \<Rightarrow> clients_page \<times> client_effect list" where
  "settle_clients j result s =
     (let s = s\<lparr>ac_jobs := remove1 j (ac_jobs s)\<rparr> in
      case result of Inl e \<Rightarrow> client_failed j e s | Inr tok \<Rightarrow> client_succeeded j tok s)"

definition client_call :: "client_job \<Rightarrow> api_call option" where
  "client_call j =
     (case j of
        CreateClientJob policy key \<Rightarrow> Some (CreateAPIClient policy (Some key))
      | UpdateClientJob i policy \<Rightarrow> Some (UpdateAPIClient i policy)
      | RotateClientJob client key \<Rightarrow> Some (RotateAPIClient (c_id client) 300 (Some key))
      | RevokeClientJob i \<Rightarrow> Some (RevokeAPIClient i)
      | DeleteClientJob i \<Rightarrow> Some (DeleteAPIClient i)
      | _ \<Rightarrow> None)"


section \<open>The page as a machine\<close>

definition clients_sent :: "client_effect list \<Rightarrow> client_job list" where
  "clients_sent es = concat (map (\<lambda>e. case e of SendClient j \<Rightarrow> [j] | _ \<Rightarrow> []) es)"

definition policy_valid :: "CreateAPIClientInput \<Rightarrow> bool" where
  "policy_valid p \<longleftrightarrow> ci_name p \<noteq> [] \<and> js_trim (ci_name p) = ci_name p \<and> 1 \<le> ci_rpm_limit p \<and> ci_rpm_limit p \<le> 2147483647"

definition client_job_valid :: "client_job \<Rightarrow> bool" where
  "client_job_valid j = (case j of CreateClientJob p _ \<Rightarrow> policy_valid p | UpdateClientJob _ p \<Rightarrow> policy_valid p | _ \<Rightarrow> True)"

text \<open>The calls with an idempotency key: what the key stands for, and the key.\<close>

definition client_keyed :: "client_job \<Rightarrow> (json \<times> string) option" where
  "client_keyed j =
     (case j of CreateClientJob p key \<Rightarrow> Some (client_json p, key) | RotateClientJob c key \<Rightarrow> Some (rotate_json (c_id c), key) | _ \<Rightarrow> None)"

definition stored_attempts :: "clients_page \<Rightarrow> IdempotencyAttempt set" where
  "stored_attempts s = set_option (createAttempt s) \<union> snd ` set (rotateAttempts s)"

lemma clients_sent_simps [simp]:
  "clients_sent [] = []" "clients_sent (SendClient j # es) = j # clients_sent es" "clients_sent (ClientCache c # es) = clients_sent es"
  "clients_sent (ClientToast m # es) = clients_sent es" "clients_sent (ClientErrorToast m # es) = clients_sent es"
  "clients_sent (es @ fs) = clients_sent es @ clients_sent fs"
  by (simp_all add: clients_sent_def)

definition clients_send_ok :: "clients_page \<Rightarrow> clients_page \<times> client_effect list \<Rightarrow> bool" where
  "clients_send_ok s r \<longleftrightarrow> ac_jobs (fst r) = ac_jobs s @ clients_sent (snd r) \<and> list_all client_job_valid (clients_sent (snd r))"

lemma clients_send_ok_simps [simp]:
  "clients_send_ok s (s', []) \<longleftrightarrow> ac_jobs s' = ac_jobs s"
  "clients_send_ok s (s', [ClientToast m]) \<longleftrightarrow> ac_jobs s' = ac_jobs s"
  "clients_send_ok s (send_client j s') \<longleftrightarrow> ac_jobs s' = ac_jobs s \<and> client_job_valid j"
  by (simp_all add: clients_send_ok_def send_client_def)

lemma rpm_in_range: "isIntegerInRange v 1 2147483647 \<Longrightarrow> 1 \<le> int_value (js_trim v) \<and> int_value (js_trim v) \<le> 2147483647"
  by (auto simp: isIntegerInRange_def Let_def split: if_splits)

lemma create_client_sends: "clients_send_ok s (create_client pf env s)"
  by (auto simp: create_client_def client_job_valid_def policy_valid_def rpmLimitValid_def Let_def split_beta dest: rpm_in_range
      split: option.split)

lemma lifecycle_sends:
  "clients_send_ok s (rotate pf c s)" "clients_send_ok s (revoke c s)" "clients_send_ok s (removeClient s)" "clients_send_ok s (refreshed k s)"
  by (auto simp: rotate_def revoke_def removeClient_def refreshed_def client_job_valid_def Let_def split_beta split: option.split follow_up.split)

lemma clients_jobs_local [simp]:
  "ac_jobs (start_new env s) = ac_jobs s" "ac_jobs (startEdit pf env c s) = ac_jobs s" "ac_jobs (changeDialogOpen b s) = ac_jobs s"
  "ac_jobs (toggleScope scope s) = ac_jobs s" "ac_jobs (client_input i v s) = ac_jobs s"
  by (simp_all add: start_new_def startEdit_def changeDialogOpen_def toggleScope_def client_input_def Let_def split: client_input.split)

lemma handle_clients_sends: "clients_send_ok s (handle_clients pf env a s)"
  by (cases a) (simp_all add: handle_clients_def create_client_sends lifecycle_sends client_job_valid_def)

lemma client_answers_frame:
  "ac_jobs (fst (client_succeeded j tok s)) = ac_jobs s" "clients_sent (snd (client_succeeded j tok s)) = []"
  "ac_jobs (fst (client_failed j e s)) = ac_jobs s" "clients_sent (snd (client_failed j e s)) = []"
  by (simp_all add: client_succeeded_def client_failed_def Let_def split: client_job.split)

lemma settle_clients_frame: "ac_jobs (fst (settle_clients j r s)) = remove1 j (ac_jobs s) \<and> clients_sent (snd (settle_clients j r s)) = []"
  by (simp add: settle_clients_def Let_def client_answers_frame split: sum.split)

subsection \<open>Keys\<close>

lemma stored_frame [simp]:
  "stored_attempts (start_new env s) = stored_attempts s" "stored_attempts (startEdit pf env c s) = stored_attempts s"
  "stored_attempts (changeDialogOpen b s) = stored_attempts s" "stored_attempts (toggleScope scope s) = stored_attempts s"
  "stored_attempts (client_input i v s) = stored_attempts s"
  "ac_drawn (start_new env s) = ac_drawn s" "ac_drawn (startEdit pf env c s) = ac_drawn s"
  "ac_drawn (changeDialogOpen b s) = ac_drawn s" "ac_drawn (toggleScope scope s) = ac_drawn s" "ac_drawn (client_input i v s) = ac_drawn s"
  by (simp_all add: stored_attempts_def start_new_def startEdit_def changeDialogOpen_def toggleScope_def client_input_def Let_def
      split: client_input.split)

text \<open>What a handler does to the attempts: nothing but forget, or one draw.\<close>

definition keys_ok :: "clients_platform \<Rightarrow> clients_page \<Rightarrow> clients_page \<times> client_effect list \<Rightarrow> bool" where
  "keys_ok pf s r \<longleftrightarrow>
     keyed_calls client_keyed (clients_sent (snd r)) = {} \<and> stored_attempts (fst r) \<subseteq> stored_attempts s \<and> ac_drawn (fst r) = ac_drawn s \<or>
     (\<exists>p k. keyed_calls client_keyed (clients_sent (snd r)) = {(p, k)} \<and>
       draws (pf_uuid pf) p k (stored_attempts s) (ac_drawn s) (stored_attempts (fst r)) (ac_drawn (fst r)))"

lemma keys_ok_simps [simp]:
  "keys_ok pf s (s', []) \<longleftrightarrow> stored_attempts s' \<subseteq> stored_attempts s \<and> ac_drawn s' = ac_drawn s"
  "keys_ok pf s (s', [ClientToast m]) \<longleftrightarrow> stored_attempts s' \<subseteq> stored_attempts s \<and> ac_drawn s' = ac_drawn s"
  by (simp_all add: keys_ok_def)

lemma keys_ok_plain: "client_keyed j = None \<Longrightarrow> stored_attempts s' \<subseteq> stored_attempts s \<Longrightarrow> ac_drawn s' = ac_drawn s \<Longrightarrow> keys_ok pf s (send_client j s')"
  by (simp add: keys_ok_def send_client_def stored_attempts_def)

lemma keys_ok_draw:
  assumes "client_keyed j = Some (p, k)" and "draw_key pf p attempt (ac_drawn s) = (k, sl)" and "\<And>a. attempt = Some a \<Longrightarrow> a \<in> stored_attempts s"
    and "stored_attempts s' \<subseteq> stored_attempts s \<union> set_option (current sl)" and "ac_drawn s' = uuids_drawn sl"
  shows "keys_ok pf s (send_client j s')"
proof -
  have "draws (pf_uuid pf) p k (stored_attempts s) (ac_drawn s) (stored_attempts s') (ac_drawn s')"
    unfolding draws_def
    by (intro exI [of _ attempt] exI [of _ sl]) (use assms(2-5) in \<open>simp add: draw_key_def\<close>)
  moreover have "stored_attempts (fst (send_client j s')) = stored_attempts s'" "ac_drawn (fst (send_client j s')) = ac_drawn s'"
    by (simp_all add: send_client_def stored_attempts_def)
  ultimately show ?thesis using assms(1) by (auto simp: keys_ok_def send_client_def)
qed

lemma create_client_keys: "keys_ok pf s (create_client pf env s)"
proof -
  have plain: "keys_ok pf s (send_client (UpdateClientJob i p) (s\<lparr>isCreating := True, ac_error := []\<rparr>))" for i p
    by (rule keys_ok_plain) (simp_all add: client_keyed_def stored_attempts_def)
  have draw: "keys_ok pf s (send_client (CreateClientJob p key) (s\<lparr>isCreating := True, ac_error := [], createAttempt := current a, ac_drawn := uuids_drawn a\<rparr>))"
    if "draw_key pf (client_json p) (createAttempt s) (ac_drawn s) = (key, a)" for p key a
    by (rule keys_ok_draw [OF _ that]) (auto simp: client_keyed_def stored_attempts_def)
  show ?thesis
    using plain draw by (auto simp: create_client_def stored_attempts_def Let_def split: option.split prod.split)
qed

lemma rotate_keys: "keys_ok pf s (rotate pf c s)"
proof -
  obtain key a where d: "draw_key pf (rotate_json (c_id c)) (map_of (rotateAttempts s) (c_id c)) (ac_drawn s) = (key, a)" by fastforce
  have upd: "snd ` set (AList.update (c_id c) x xs) \<subseteq> insert x (snd ` set xs)" for x :: IdempotencyAttempt and xs
    by (induction xs) auto
  from d [unfolded draw_key_def] have "\<exists>x. current a = Some x"
    by (cases rule: stable_draw_cases) simp_all
  then obtain x where x: "current a = Some x" ..
  show ?thesis
    unfolding rotate_def d x Let_def prod.case option.case
  proof (rule keys_ok_draw [OF _ d])
    show "attempt \<in> stored_attempts s" if "map_of (rotateAttempts s) (c_id c) = Some attempt" for attempt
      using map_of_SomeD [OF that] by (force simp: stored_attempts_def)
    show "stored_attempts (s\<lparr>isLifecyclePending := True, ac_error := [], rotateAttempts := AList.update (c_id c) x (rotateAttempts s),
        ac_drawn := uuids_drawn a\<rparr>) \<subseteq> stored_attempts s \<union> set_option (current a)"
      using upd [of x "rotateAttempts s"] by (auto simp: stored_attempts_def x)
  qed (simp_all add: client_keyed_def)
qed

lemma lifecycle_keys: "keys_ok pf s (revoke c s)" "keys_ok pf s (removeClient s)" "keys_ok pf s (refreshed k s)"
proof -
  have del: "snd ` set (AList.delete i xs) \<subseteq> snd ` set xs" for i :: string and xs :: "(string \<times> IdempotencyAttempt) list"
    by (auto simp: AList.delete_eq)
  show "keys_ok pf s (revoke c s)" "keys_ok pf s (removeClient s)"
    by (auto simp: revoke_def removeClient_def stored_attempts_def client_keyed_def intro!: keys_ok_plain split: option.split)
  have "stored_attempts (s\<lparr>refreshing := ks, rotateAttempts := AList.delete i (rotateAttempts s), isLifecyclePending := False\<rparr>) \<subseteq> stored_attempts s"
    for ks i using del by (auto simp: stored_attempts_def)
  then show "keys_ok pf s (refreshed k s)"
    by (auto simp: refreshed_def Let_def split: follow_up.split) (simp_all add: stored_attempts_def)
qed

lemma handle_clients_keys: "keys_ok pf s (handle_clients pf env a s)"
proof (cases a)
  case Copy
  then show ?thesis by (auto simp: handle_clients_def client_keyed_def intro!: keys_ok_plain)
next
  case (CopySnippet x y)
  then show ?thesis by (auto simp: handle_clients_def client_keyed_def intro!: keys_ok_plain)
qed (simp_all add: handle_clients_def create_client_keys rotate_keys lifecycle_keys, simp_all add: stored_attempts_def)

lemma settle_clients_keys: "stored_attempts (fst (settle_clients j r s)) \<subseteq> stored_attempts s \<and> ac_drawn (fst (settle_clients j r s)) = ac_drawn s"
  by (simp add: settle_clients_def client_succeeded_def client_failed_def stored_attempts_def Let_def split: sum.split client_job.split)

interpretation clients: keyed_page "handle_clients pf" settle_clients ac_jobs clients_sent client_job_valid "pf_uuid pf" stored_attempts ac_drawn client_keyed
  for pf
proof
  show "keyed_calls client_keyed (clients_sent (snd (handle_clients pf env a s))) = {} \<and>
       stored_attempts (fst (handle_clients pf env a s)) \<subseteq> stored_attempts s \<and> ac_drawn (fst (handle_clients pf env a s)) = ac_drawn s \<or>
     (\<exists>p k. keyed_calls client_keyed (clients_sent (snd (handle_clients pf env a s))) = {(p, k)} \<and>
       draws (pf_uuid pf) p k (stored_attempts s) (ac_drawn s) (stored_attempts (fst (handle_clients pf env a s))) (ac_drawn (fst (handle_clients pf env a s))))"
    for env a s using handle_clients_keys [of pf s env a] unfolding keys_ok_def .
qed (use handle_clients_sends settle_clients_frame settle_clients_keys in \<open>auto simp: clients_send_ok_def list_all_iff\<close>)


section \<open>Properties\<close>

text \<open>C32: whatever the user does and however calls come back, every creation and change of a client the page sends has a
  name without space around it and a limit of requests within 32 bits.\<close>

theorem client_calls_valid:
  "list_all client_job_valid (clients_sent (snd (run_page (handle_clients pf) settle_clients ac_jobs evs s)))"
  using clients.sends_valid by (auto simp: list_all_iff)

text \<open>Over every run of the page one idempotency key stands for one payload: no creation or rotation is ever answered
  with the token of another, whichever of them failed, succeeded or were repeated in between.\<close>

theorem client_keys_unambiguous:
  assumes "inj (pf_uuid pf)"
    and "j \<in> set (clients_sent (snd (run_page (handle_clients pf) settle_clients ac_jobs evs initial_clients)))"
    and "j' \<in> set (clients_sent (snd (run_page (handle_clients pf) settle_clients ac_jobs evs initial_clients)))"
    and "client_keyed j = Some (p, k)" and "client_keyed j' = Some (p', k)"
  shows "p = p'"
  by (rule clients.keys_unambiguous [OF assms(1) _ assms(2-5)]) (simp add: stored_attempts_def initial_clients_def)

definition sample_platform :: clients_platform where
  "sample_platform = \<lparr>pf_date_parse = (\<lambda>_. None), pf_to_iso = (\<lambda>x. Some (show_int \<lfloor>x\<rfloor>)), pf_uuid = show_nat\<rparr>"

definition sample_client :: "string \<Rightarrow> string \<Rightarrow> ApiClient" where
  "sample_client i name =
     \<lparr>c_id = i, c_name = name, c_key_preview = ''tk_1'', c_scopes = [''events:read''], c_rpm_limit = 300, c_expires_at = ''2030'',
      c_last_used_at = None, c_revoked_at = None, c_status = ''active'', c_created_at = None, c_updated_at = None\<rparr>"

definition sample_clients_env :: "int \<Rightarrow> clients_env" where
  "sample_clients_env now =
     \<lparr>ce_caps = default_capabilities, ce_clients = Some [sample_client ''c1'' ''billing''], ce_clients_error = None, ce_settings = None, ce_now = now\<rparr>"

lemma client_keys_unambiguous_witness:
  "let es = snd (run_page (handle_clients sample_platform) settle_clients ac_jobs
       [Act (sample_clients_env 0) (Rotate (sample_client ''c1'' ''billing'')),
        Answer (RotateClientJob (sample_client ''c1'' ''billing'') ''0'') (Inl (ApiError 503 [])),
        Act (sample_clients_env 1) (Rotate (sample_client ''c1'' ''billing''))] initial_clients)
   in RotateClientJob (sample_client ''c1'' ''billing'') ''0'' \<in> set (clients_sent es) \<and>
     (\<forall>j \<in> set (clients_sent es). \<forall>p. client_keyed j = Some (p, ''0'') \<longrightarrow> p = rotate_json ''c1'')"
proof -
  let ?evs = "[Act (sample_clients_env 0) (Rotate (sample_client ''c1'' ''billing'')),
        Answer (RotateClientJob (sample_client ''c1'' ''billing'') ''0'') (Inl (ApiError 503 [])),
        Act (sample_clients_env 1) (Rotate (sample_client ''c1'' ''billing''))]"
  let ?es = "snd (run_page (handle_clients sample_platform) settle_clients ac_jobs ?evs initial_clients)"
  have r: "RotateClientJob (sample_client ''c1'' ''billing'') ''0'' \<in> set (clients_sent ?es)" by code_simp
  have k: "client_keyed (RotateClientJob (sample_client ''c1'' ''billing'') ''0'') = Some (rotate_json ''c1'', ''0'')" by code_simp
  have "p = rotate_json ''c1''" if "j \<in> set (clients_sent ?es)" "client_keyed j = Some (p, ''0'')" for j p
    by (rule client_keys_unambiguous [OF _ that(1) r that(2) k]) (simp add: sample_platform_def inj_def)
  with r show ?thesis unfolding Let_def by blast
qed

text \<open>The sends of a handler, one by one.\<close>

lemma rotate_sends:
  "rotate pf c s = (s1, es) \<Longrightarrow>
     \<exists>key a x. draw_key pf (rotate_json (c_id c)) (map_of (rotateAttempts s) (c_id c)) (ac_drawn s) = (key, a) \<and> current a = Some x \<and>
       es = [SendClient (RotateClientJob c key)] \<and> rotateAttempts s1 = AList.update (c_id c) x (rotateAttempts s) \<and> ac_drawn s1 = uuids_drawn a"
proof -
  assume r: "rotate pf c s = (s1, es)"
  obtain key a where d: "draw_key pf (rotate_json (c_id c)) (map_of (rotateAttempts s) (c_id c)) (ac_drawn s) = (key, a)" by fastforce
  from d [unfolded draw_key_def] have "\<exists>x. current a = Some x" by (cases rule: stable_draw_cases) simp_all
  then obtain x where "current a = Some x" ..
  with r d show ?thesis by (auto simp: rotate_def send_client_def)
qed

lemma create_sends:
  assumes "snd (create_client pf env s) = [SendClient (CreateClientJob p k)]"
  shows "\<exists>a. draw_key pf (client_json p) (createAttempt s) (ac_drawn s) = (k, a) \<and>
      createAttempt (fst (create_client pf env s)) = current a \<and> ac_drawn (fst (create_client pf env s)) = uuids_drawn a \<and>
      expiry pf env s = Some (ci_expires_at p) \<and> ci_name p = js_trim (cf_name (cform s))"
  using assms by (auto simp: create_client_def send_client_def Let_def split: if_splits option.splits prod.splits)

text \<open>A draw for the payload of the attempt in the slot gives its key.\<close>

lemma draw_again:
  assumes "draw_key pf p attempt n = (k, a)" and "current b = current a"
  shows "draw_key pf p (current b) m = (k, \<lparr>current = current b, uuids_drawn = m\<rparr>)"
  using assms(1) [unfolded draw_key_def] by (cases rule: stable_draw_cases) (auto simp: draw_key_def stableIdempotencyKey_def assms(2))

lemma draw_other:
  assumes "inj (pf_uuid pf)" and "draw_key pf p attempt n = (k, a)" and "\<forall>x. attempt = Some x \<longrightarrow> (\<exists>m < n. attempt_key x = pf_uuid pf m)"
    and "draw_key pf q (current a) n' = (l, b)" and "q \<noteq> p" and "uuids_drawn a \<le> n'"
  shows "l \<noteq> k"
proof -
  have k: "\<exists>m < uuids_drawn a. k = pf_uuid pf m" and fp: "\<forall>x. current a = Some x \<longrightarrow> fingerprint x = stringify p"
    using assms(2) [unfolded draw_key_def] assms(3) by (cases rule: stable_draw_cases; auto)+
  from assms(4) [unfolded draw_key_def] have "l = pf_uuid pf n'"
    by (cases rule: stable_draw_cases) (use fp assms(5) in auto)
  with k assms(1,6) show ?thesis by (metis injD leD)
qed


text \<open>Rotating a client again after a rotation failed, whatever else happened to other clients and dialogs meanwhile,
  sends the key of the failed attempt, so the server recognises the retry.\<close>

theorem rotation_retry_same_key:
  assumes "snd (rotate pf c s) = [SendClient (RotateClientJob c k)]"
    and "map_of (rotateAttempts s') (c_id c) =
      map_of (rotateAttempts (fst (settle_clients (RotateClientJob c k) (Inl e) (fst (rotate pf c s))))) (c_id c)"
  shows "snd (rotate pf c s') = [SendClient (RotateClientJob c k)]"
proof -
  obtain s1 es where r: "rotate pf c s = (s1, es)" by fastforce
  obtain a x where d: "draw_key pf (rotate_json (c_id c)) (map_of (rotateAttempts s) (c_id c)) (ac_drawn s) = (k, a)"
    and x: "current a = Some x" and s1: "rotateAttempts s1 = AList.update (c_id c) x (rotateAttempts s)"
    using rotate_sends [OF r] assms(1) r by auto
  have "rotateAttempts (fst (settle_clients (RotateClientJob c k) (Inl e) s1)) = rotateAttempts s1"
    by (simp add: settle_clients_def client_failed_def)
  then have "map_of (rotateAttempts s') (c_id c) = current a"
    using assms(2) r s1 x by (simp add: update_Some_unfold)
  then show ?thesis
    using draw_again [OF d refl] x by (simp add: rotate_def send_client_def split_beta)
qed

lemma rotation_retry_same_key_witness:
  "snd (rotate sample_platform (sample_client ''c1'' ''x'')
      (fst (settle_clients (RotateClientJob (sample_client ''c1'' ''x'') ''0'') (Inl (ApiError 503 []))
        (fst (rotate sample_platform (sample_client ''c1'' ''x'') initial_clients))))) =
    [SendClient (RotateClientJob (sample_client ''c1'' ''x'') ''0'')]"
  by (rule rotation_retry_same_key [OF _ refl]) code_simp

text \<open>The creation of a client sends the time its key expires, counted from the moment of the click, as part of what
  the idempotency key stands for: repeating a failed creation with the form unchanged but at a moment that gives another
  expiry draws a new key, so the server does not recognise the retry.\<close>

theorem creation_retry_new_key:
  assumes "inj (pf_uuid pf)" and "ledger_ok (pf_uuid pf) H (stored_attempts s) (ac_drawn s)"
    and "snd (create_client pf env s) = [SendClient (CreateClientJob p k)]"
    and "s1 = fst (settle_clients (CreateClientJob p k) (Inl e) (fst (create_client pf env s)))"
    and "snd (create_client pf env' s1) = [SendClient (CreateClientJob p' k')]"
    and "expiry pf env' s1 \<noteq> expiry pf env s"
  shows "k' \<noteq> k"
proof -
  obtain a where a: "draw_key pf (client_json p) (createAttempt s) (ac_drawn s) = (k, a)"
    and st: "createAttempt (fst (create_client pf env s)) = current a" "ac_drawn (fst (create_client pf env s)) = uuids_drawn a"
    and x: "expiry pf env s = Some (ci_expires_at p)"
    using create_sends [OF assms(3)] by blast
  have s1: "createAttempt s1 = current a" "ac_drawn s1 = uuids_drawn a"
    using st by (simp_all add: assms(4) settle_clients_def client_failed_def)
  obtain b where b: "draw_key pf (client_json p') (createAttempt s1) (ac_drawn s1) = (k', b)"
    and x': "expiry pf env' s1 = Some (ci_expires_at p')"
    using create_sends [OF assms(5)] by blast
  have "client_json p' \<noteq> client_json p" using assms(6) x x' by (auto simp: client_json_def)
  moreover have "\<exists>m < ac_drawn s. attempt_key y = pf_uuid pf m" if "createAttempt s = Some y" for y
    using assms(2) that unfolding ledger_ok_def stored_attempts_def by fastforce
  ultimately show ?thesis
    using draw_other [OF assms(1) a _ b [unfolded s1(1)]] s1(2) by simp
qed

definition filled_form :: clients_page where
  "filled_form = on_form (\<lambda>f. f\<lparr>cf_name := ''etl''\<rparr>) initial_clients"

definition etl_policy :: "string \<Rightarrow> CreateAPIClientInput" where
  "etl_policy expires = \<lparr>ci_name = ''etl'', ci_scopes = default_scopes, ci_rpm_limit = 300, ci_expires_at = expires\<rparr>"

lemma sample_expiry: "cf_expirationDays (cform s) = show_nat 90 \<Longrightarrow> expiry sample_platform (sample_clients_env now) s = Some (show_int (now + 7776000000))"
  by (simp add: expiry_def js_Number_show_nat js_double_nat sample_platform_def sample_clients_env_def DAY_MS_def del: of_nat_numeral)
     (simp add: floor_add_int [symmetric])

lemma create_client_new:
  assumes "js_trim (cf_name (cform s)) \<noteq> []" and "rpmLimitValid s" and "editingClient s = None"
    and "\<not> isDuplicateAPIClientName (js_trim (cf_name (cform s))) (map c_name (page_clients env))"
    and "expiry pf env s = Some expires"
    and "p = \<lparr>ci_name = js_trim (cf_name (cform s)), ci_scopes = cf_scopes (cform s), ci_rpm_limit = int_value (js_trim (cf_rpmLimit (cform s))), ci_expires_at = expires\<rparr>"
  shows "\<exists>k. snd (create_client pf env s) = [SendClient (CreateClientJob p k)] \<and> cform (fst (create_client pf env s)) = cform s \<and>
    editingClient (fst (create_client pf env s)) = None \<and> k = fst (draw_key pf (client_json p) (createAttempt s) (ac_drawn s))"
  using assms by (auto simp: create_client_def send_client_def Let_def split_beta)

lemma sample_creation:
  assumes "cform s = cform filled_form" and "editingClient s = None"
  shows "\<exists>k. snd (create_client sample_platform (sample_clients_env now) s) = [SendClient (CreateClientJob (etl_policy (show_int (now + 7776000000))) k)] \<and>
    cform (fst (create_client sample_platform (sample_clients_env now) s)) = cform s \<and> editingClient (fst (create_client sample_platform (sample_clients_env now) s)) = None \<and>
    k = fst (draw_key sample_platform (client_json (etl_policy (show_int (now + 7776000000)))) (createAttempt s) (ac_drawn s))"
proof (rule create_client_new)
  have form: "js_trim (cf_name (cform filled_form)) = ''etl''" "cf_scopes (cform filled_form) = default_scopes"
    "int_value (js_trim (cf_rpmLimit (cform filled_form))) = 300" "isIntegerInRange (cf_rpmLimit (cform filled_form)) 1 2147483647"
    by code_simp+
  show "js_trim (cf_name (cform s)) \<noteq> []" "rpmLimitValid s" "editingClient s = None" by (simp_all add: assms form rpmLimitValid_def)
  show "\<not> isDuplicateAPIClientName (js_trim (cf_name (cform s))) (map c_name (page_clients (sample_clients_env now)))"
    unfolding assms(1) form by (simp add: page_clients_def sample_clients_env_def sample_client_def) code_simp
  have "''90'' = show_nat 90" by code_simp
  then show "expiry sample_platform (sample_clients_env now) s = Some (show_int (now + 7776000000))"
    by (intro sample_expiry) (simp add: assms(1) filled_form_def initial_clients_def)
qed (simp add: etl_policy_def assms(1), code_simp)

lemma creation_retry_new_key_witness:
  "\<exists>k k'. snd (create_client sample_platform (sample_clients_env 0) filled_form) = [SendClient (CreateClientJob (etl_policy (show_int 7776000000)) k)] \<and>
     snd (create_client sample_platform (sample_clients_env 1)
       (fst (settle_clients (CreateClientJob (etl_policy (show_int 7776000000)) k) (Inl (ApiError 503 []))
         (fst (create_client sample_platform (sample_clients_env 0) filled_form))))) = [SendClient (CreateClientJob (etl_policy (show_int 7776000001)) k')] \<and> k' \<noteq> k"
proof -
  have ed: "editingClient filled_form = None" by (simp add: filled_form_def initial_clients_def)
  obtain k where first: "snd (create_client sample_platform (sample_clients_env 0) filled_form) = [SendClient (CreateClientJob (etl_policy (show_int 7776000000)) k)]"
    and st: "cform (fst (create_client sample_platform (sample_clients_env 0) filled_form)) = cform filled_form"
      "editingClient (fst (create_client sample_platform (sample_clients_env 0) filled_form)) = None"
    using sample_creation [OF refl ed, of 0] by auto
  define s1 where "s1 = fst (settle_clients (CreateClientJob (etl_policy (show_int 7776000000)) k) (Inl (ApiError 503 []))
      (fst (create_client sample_platform (sample_clients_env 0) filled_form)))"
  have s1: "cform s1 = cform filled_form" "editingClient s1 = None"
    by (simp_all add: s1_def settle_clients_def client_failed_def st)
  obtain k' where second: "snd (create_client sample_platform (sample_clients_env 1) s1) = [SendClient (CreateClientJob (etl_policy (show_int 7776000001)) k')]"
    using sample_creation [OF s1, of 1] by auto
  have days: "''90'' = show_nat 90" by code_simp
  have x: "expiry sample_platform (sample_clients_env now) s = Some (show_int (now + 7776000000))" if "cform s = cform filled_form" for now s
    by (rule sample_expiry) (simp add: that filled_form_def initial_clients_def days)
  have "expiry sample_platform (sample_clients_env 1) s1 \<noteq> expiry sample_platform (sample_clients_env 0) filled_form"
    by (simp add: x s1 show_int_def)
  moreover have "ledger_ok (pf_uuid sample_platform) {} (stored_attempts filled_form) (ac_drawn filled_form)"
    by (simp add: ledger_ok_def stored_attempts_def filled_form_def initial_clients_def)
  ultimately have "k' \<noteq> k"
    using creation_retry_new_key [OF _ _ first s1_def second] by (simp add: sample_platform_def inj_def)
  with first second show ?thesis unfolding s1_def by blast
qed

text \<open>The check for a name already taken compares with every client of the list, the one being edited included:
  saving a client without renaming it always reports a conflict and sends nothing, so scopes, limit and expiry cannot be changed alone.\<close>

theorem edit_without_rename_refused:
  assumes "client \<in> set (page_clients env)" and "js_trim (c_name client) \<noteq> []" and "rpmLimitValid s"
    and "editingClient s = Some client" and "cf_name (cform s) = c_name client"
  shows "create_client pf env s = (s\<lparr>ac_error := ''errors.conflict''\<rparr>, [])"
proof -
  have "isDuplicateAPIClientName (js_trim (c_name client)) (map c_name (page_clients env))"
    using assms(1,2) by (auto simp: isDuplicateAPIClientName_def Let_def js_lower_def list_ex_iff)
  then show ?thesis using assms by (simp add: create_client_def)
qed

lemma edit_without_rename_refused_witness:
  "snd (create_client sample_platform (sample_clients_env 0)
     (toggleScope ''tenant:list'' (startEdit sample_platform (sample_clients_env 0) (sample_client ''c1'' ''billing'') initial_clients))) = []"
proof -
  let ?s = "toggleScope ''tenant:list'' (startEdit sample_platform (sample_clients_env 0) (sample_client ''c1'' ''billing'') initial_clients)"
  have "create_client sample_platform (sample_clients_env 0) ?s = (?s\<lparr>ac_error := ''errors.conflict''\<rparr>, [])"
    by (rule edit_without_rename_refused [of "sample_client ''c1'' ''billing''"]; code_simp)
  then show ?thesis by simp
qed

end
