(* ===== verification/ApiClientsView.thy ===== *)
theory ApiClientsView
  imports ApiClients
begin

text \<open>
  What the page of the API clients renders (the JSX of \<open>web/src/routes/api-clients/-components/page.tsx\<close>)
  with the filters of its table, and the examples of \<open>web/src/lib/consumer-snippets.ts\<close>. \<open>t\<close> is the
  translation, \<open>fs\<close> the page's \<open>formatStatus\<close>, \<open>reference\<close> the time the module was loaded at. The
  rows of the table are TanStack Table's, an argument. The theorems say who is offered what.
\<close>

type_synonym client_control = "(client_action, client_input) control"

type_synonym client_view = "client_control view"

section \<open>The table\<close>

definition MONTH_MS :: int where
  "MONTH_MS = 30 * 24 * 60 * 60 * 1000"

text \<open>A comparison with a date that cannot be read is false.\<close>

definition client_flags :: "clients_platform \<Rightarrow> int \<Rightarrow> ApiClient \<Rightarrow> string list" where
  "client_flags pf reference client =
     (if c_expires_at client \<noteq> [] \<and> (case pf_date_parse pf (c_expires_at client) of Some x \<Rightarrow> x \<le> reference + MONTH_MS | None \<Rightarrow> False)
      then [''expiring''] else []) @
     (case c_last_used_at client of None \<Rightarrow> [''inactive'']
      | Some u \<Rightarrow> if u = [] \<or> (case pf_date_parse pf u of Some x \<Rightarrow> x < reference - MONTH_MS | None \<Rightarrow> False) then [''inactive''] else [])"

definition flags_text :: "clients_platform \<Rightarrow> int \<Rightarrow> ApiClient \<Rightarrow> string" where
  "flags_text pf reference client = js_join '','' (client_flags pf reference client)"

definition scopes_filter :: "ApiClient \<Rightarrow> string list \<Rightarrow> bool" where
  "scopes_filter client v = list_ex (\<lambda>scope. scope \<in> set (c_scopes client)) v"

definition status_filter :: "ApiClient \<Rightarrow> string list \<Rightarrow> bool" where
  "status_filter client v \<longleftrightarrow> c_status client \<in> set v"

definition flags_filter :: "clients_platform \<Rightarrow> int \<Rightarrow> ApiClient \<Rightarrow> string list \<Rightarrow> bool" where
  "flags_filter pf reference client v = list_all (\<lambda>flag. flag \<in> set (js_split CHR '','' (flags_text pf reference client))) v"

definition created_day :: "ApiClient \<Rightarrow> string" where
  "created_day client = take 10 (some_or (c_created_at client) [])"

definition filterClients :: "(string \<Rightarrow> string) \<Rightarrow> ApiClient \<Rightarrow> string \<Rightarrow> bool" where
  "filterClients fs client filterValue =
     (let query = js_lower (js_trim filterValue) in
      query = [] \<or> list_ex (\<lambda>v. js_includes (js_lower v) query)
        [c_name client, c_key_preview client, c_status client, fs (c_status client), created_day client])"

definition dash :: string where
  "dash = [CHR 0x97]"

definition clientActions :: "translation \<Rightarrow> bool \<Rightarrow> ApiClient \<Rightarrow> client_view list" where
  "clientActions t pending client =
     (if c_status client = ''active'' then
        [do_button pending (StartEdit client) [el ''icon'' [(''name'', ''Pencil'')] [], Txt (t ''common.edit'' [])],
         do_button pending (Rotate client) [el ''icon'' [(''name'', ''RefreshCw'')] [], Txt (t ''apiClients.rotate'' [])],
         do_button pending (Revoke client) [el ''icon'' [(''name'', ''Ban'')] [], Txt (t ''apiClients.revoke'' [])]]
      else [do_button pending (AskDelete client) [el ''icon'' [(''name'', ''Trash2'')] [], Txt (t ''common.remove'' [])]])"

definition clientColumns ::
  "translation \<Rightarrow> (string \<Rightarrow> string) \<Rightarrow> clients_platform \<Rightarrow> int \<Rightarrow> AdminCapabilities \<Rightarrow> bool \<Rightarrow> (ApiClient, client_control) column_def list" where
  "clientColumns t fs pf reference caps pending =
     [data_column ''name'' (t ''apiClients.name'' []) (\<lambda>c. [Txt (c_name c)]),
      data_column ''token'' (t ''apiClients.token'' []) (\<lambda>c. if \<not> can caps ApiClientManage then [] else [el ''code'' [] [Txt (c_key_preview c)]]),
      data_column ''created_at'' (t ''apiClients.createdAt'' []) (\<lambda>c. [Txt (if created_day c \<noteq> [] then created_day c else dash)]),
      data_column ''scopes'' (t ''apiClients.scopes'' []) (\<lambda>c. map (\<lambda>scope. el ''badge'' [] [Txt scope]) (c_scopes c)),
      data_column ''rpm_limit'' (t ''apiClients.rpmLimit'' []) (\<lambda>c. [Txt (show_int (c_rpm_limit c))]),
      data_column ''expires_at'' (t ''apiClients.expiration'' []) (\<lambda>c. [Txt (take 10 (c_expires_at c))]),
      data_column ''last_used_at'' (t ''apiClients.lastUsed'' []) (\<lambda>c. [Txt (case c_last_used_at c of Some u \<Rightarrow> take 10 u | None \<Rightarrow> dash)]),
      data_column ''status'' (t ''common.status'' []) (\<lambda>c. [domainStatus (fs (c_status c)) (c_status c)]),
      \<lparr>cd_id = ''flags'', cd_label = t ''apiClients.filters'' [], cd_sorting = False, cd_hiding = False,
       cd_cell = (\<lambda>c. [Txt (flags_text pf reference c)])\<rparr>,
      actions_column (t ''apiClients.actions'' []) (clientActions t pending)]"

definition clients_table_initial :: initial_table where
  "clients_table_initial = \<lparr>init_globalFilter = None, init_pagination = None,
     init_sorting = Some [\<lparr>sort_desc = True, sort_id = ''created_at''\<rparr>], init_columnVisibility = Some [(''flags'', False)]\<rparr>"

definition all_scopes :: "string list" where
  "all_scopes = map scope_text [TenantIdentify, ResourceResolve, EventsRead, TenantList, ResourceWrite]"

definition client_facets :: "translation \<Rightarrow> (string \<Rightarrow> string) \<Rightarrow> facet list" where
  "client_facets t fs =
     [\<lparr>fc_columnId = ''status'', fc_multiple = True,
       fc_options = map (\<lambda>v. \<lparr>fo_label = fs v, fo_value = v\<rparr>) [''active'', ''expired'', ''revoked''], fc_title = t ''apiClients.filterStatus'' []\<rparr>,
      \<lparr>fc_columnId = ''scopes'', fc_multiple = True, fc_options = map (\<lambda>v. \<lparr>fo_label = v, fo_value = v\<rparr>) all_scopes,
       fc_title = t ''apiClients.filterScope'' []\<rparr>,
      \<lparr>fc_columnId = ''flags'', fc_multiple = True,
       fc_options = [\<lparr>fo_label = t ''apiClients.expiringSoon'' [], fo_value = ''expiring''\<rparr>, \<lparr>fo_label = t ''apiClients.inactive'' [], fo_value = ''inactive''\<rparr>],
       fc_title = t ''apiClients.filters'' []\<rparr>]"

section \<open>Dialogs\<close>

definition dq :: string where
  "dq = [CHR 0x22]"

definition next_line :: string where
  "next_line = [CHR 0x5C, CHR 0x0A] @ ''  ''"

record consumer_snippets =
  sn_identify :: string
  sn_byTenantId :: string
  sn_byHostname :: string
  sn_resource :: string

definition consumerSnippets :: consumer_snippets where
  "consumerSnippets =
     (let head = ''curl -H '' @ dq @ ''Authorization: Bearer <token>'' @ dq @ '' '' @ next_line in
      \<lparr>sn_identify = head @ dq @ ''/v1/identify?hostname=<tenant-hostname>'' @ dq,
       sn_byTenantId = head @ ''-H '' @ [CHR 0x27] @ ''If-None-Match: '' @ dq @ ''<etag>'' @ dq @ [CHR 0x27] @ '' '' @ next_line @
         dq @ ''/v1/resolve?tenantId=<tenant-slug>'' @ dq,
       sn_byHostname = head @ dq @ ''/v1/resolve?hostname=<tenant-hostname>'' @ dq,
       sn_resource = head @ dq @ ''/v1/resolve/<tenant-hostname>/resources/<resource-alias>'' @ dq\<rparr>)"

definition snippetExample :: "translation \<Rightarrow> bool \<Rightarrow> string \<Rightarrow> string \<Rightarrow> string \<Rightarrow> string \<Rightarrow> client_view" where
  "snippetExample t isCopied description key snippet title =
     el ''div'' []
       [el ''div'' [] [Txt title], hint description,
        do_button False (CopySnippet snippet key)
          [el ''icon'' [(''name'', if isCopied then ''Check'' else ''Copy'')] [],
           Txt (t (if isCopied then ''apiClients.resolveSnippet.copied'' else ''apiClients.resolveSnippet.copy'') [])],
        el ''pre'' [] [el ''code'' [] [Txt snippet]]]"

definition helpDialog :: "translation \<Rightarrow> clients_page \<Rightarrow> client_view list" where
  "helpDialog t s =
     dialog (helpOpen s) (Do (SetHelpOpen False)) (t ''apiClients.helpTitle'' []) (t ''apiClients.resolveSnippet.description'' [])
       ([el ''div'' [] [el ''icon'' [(''name'', ''ShieldAlert'')] [], Txt (t ''apiClients.clearSecretAccess.title'' []),
          hint (t ''apiClients.clearSecretAccess.description'' [])]] @
        map (\<lambda>(key, name, snippet). snippetExample t (copiedSnippet s = key) (t (''apiClients.resolveSnippet.'' @ name @ ''Description'') [])
            key snippet (t (''apiClients.resolveSnippet.'' @ name @ ''Title'') []))
          [(''identify'', ''edge'', sn_identify consumerSnippets), (''tenantId'', ''tenantId'', sn_byTenantId consumerSnippets),
           (''hostname'', ''hostname'', sn_byHostname consumerSnippets), (''resource'', ''resource'', sn_resource consumerSnippets)])"

definition scopeOption :: "translation \<Rightarrow> clients_page \<Rightarrow> string \<times> string \<Rightarrow> client_view" where
  "scopeOption t s entry = (case entry of (scope, key) \<Rightarrow>
     el ''label'' []
       [Elem ''checkbox'' ([(''aria-label'', t key [])] @ flag ''checked'' (scope \<in> set (cf_scopes (cform s))))
          [(''onCheckedChange'', Do (ToggleScope scope))] [],
        el ''strong'' [] [Txt (t key [])], hint (t (key @ ''Description'') [])])"

definition scope_options :: "(string \<times> string) list" where
  "scope_options = zip all_scopes [''apiClients.scopeIdentify'', ''apiClients.scopeResolve'', ''apiClients.scopeEvents'', ''apiClients.scopeTenantList'',
     ''apiClients.scopeResourceWrite'']"


definition policyFields :: "translation \<Rightarrow> clients_page \<Rightarrow> client_view list" where
  "policyFields t s =
     [el ''div'' [] [label (t ''apiClients.name'' []), text_field ClientNameInput [(''placeholder'', ''billing-service'')] (cf_name (cform s))],
      el ''fieldset'' [] (el ''legend'' [] [Txt (t ''apiClients.scopes'' [])] # map (scopeOption t s) scope_options),
      el ''div'' [] [label (t ''apiClients.rpmLimit'' []),
        text_field RpmInput (flag ''aria-invalid'' (cf_rpmLimit (cform s) \<noteq> [] \<and> \<not> rpmLimitValid s) @
          [(''max'', ''2147483647''), (''min'', ''1''), (''step'', ''1''), (''type'', ''number'')]) (cf_rpmLimit (cform s))],
      el ''div'' [] [label (t ''apiClients.expiration'' []),
        select (\<lambda>days. Do (ChooseExpiration days)) (cf_expirationDays (cform s))
          (map (\<lambda>days. (t ''apiClients.expirationDays'' [(''days'', show_nat days)], show_nat days)) [30, 90, 180, 365])]]"

definition policyDialog :: "translation \<Rightarrow> clients_page \<Rightarrow> client_view list" where
  "policyDialog t s =
     dialog (ac_open s) (Do (ChangeDialogOpen False))
       (t (if editingClient s \<noteq> None then ''apiClients.editTitle'' else ''apiClients.newDialog.title'') []) (t ''apiClients.newDialog.description'' [])
       (policyFields t s @ shown_message t (ac_error s) @
        [do_button False (ChangeDialogOpen False) [Txt (t ''common.cancel'' [])],
         do_button (js_trim (cf_name (cform s)) = [] \<or> cf_scopes (cform s) = [] \<or> \<not> rpmLimitValid s \<or> isCreating s) Create
           [Txt (t (if editingClient s \<noteq> None then ''common.save'' else ''apiClients.generateToken'') [])]])"

definition tokenDialog :: "translation \<Rightarrow> clients_page \<Rightarrow> client_view list" where
  "tokenDialog t s =
     dialog (ac_open s) (Do (ChangeDialogOpen False)) (t ''apiClients.tokenGenerated.title'' []) (t ''apiClients.tokenGenerated.description'' [])
       ([el ''input'' [(''aria-label'', t ''apiClients.token'' []), (''readOnly'', ''true''), (''value'', ac_token s)] [],
         do_button False Copy
           [el ''icon'' [(''name'', if copied s then ''Check'' else ''Copy''), (''aria-label'', t (if copied s then ''apiClients.copied'' else ''apiClients.copy'') [])] []]] @
        shown_message t (ac_error s) @
        [do_button False (ChangeDialogOpen False) [Txt (t ''apiClients.done'' [])]])"

definition deleteClientDialog :: "translation \<Rightarrow> clients_page \<Rightarrow> client_view list" where
  "deleteClientDialog t s =
     confirmDialog (t ''common.cancel'' []) [] (isLifecyclePending s) (t ''common.removeConfirm'' [])
       (t ''apiClients.deleteDescription'' [(''name'', case pendingDelete s of Some c \<Rightarrow> c_name c | None \<Rightarrow> [])])
       (Do RemoveClient) (Do CancelDelete) (pendingDelete s \<noteq> None) (t ''apiClients.deleteTitle'' [])"

section \<open>The page\<close>

definition clients_pending :: "clients_env \<Rightarrow> bool" where
  "clients_pending env \<longleftrightarrow> ce_clients env = None \<and> ce_clients_error env = None"

definition clientsTable ::
  "translation \<Rightarrow> (string \<Rightarrow> string) \<Rightarrow> clients_platform \<Rightarrow> int \<Rightarrow> clients_env \<Rightarrow> table_model \<Rightarrow> ApiClient list \<Rightarrow> clients_page \<Rightarrow>
     client_control grid_action view" where
  "clientsTable t fs pf reference env m rows s =
     (let tr = (\<lambda>key. t key []) in
      if clients_pending env then map_view PageDoes (el ''div'' [(''role'', ''status'')] [Txt (tr ''apiClients.loading'')])
      else render_table (page_sort_labels tr) (page_table_labels tr) (tr ''apiClients.emptyActive'') (\<lambda>_. None)
        (clientColumns t fs pf reference (ce_caps env) (isLifecyclePending s)) m rows
        [dataTableToolbar tr (page_toolbar_labels tr ''apiClients.search'') (client_facets t fs)
          [do_button False (SetHelpOpen True) [el ''icon'' [(''aria-label'', tr ''apiClients.help'')] []]]
          (shown_if (can (ce_caps env) ApiClientManage) (do_button False Start [Txt (tr ''apiClients.new'')])) m])"

definition apiClientsPage ::
  "translation \<Rightarrow> (string \<Rightarrow> string) \<Rightarrow> clients_platform \<Rightarrow> int \<Rightarrow> clients_env \<Rightarrow> table_model \<Rightarrow> ApiClient list \<Rightarrow> clients_page \<Rightarrow>
     client_control grid_action view" where
  "apiClientsPage t fs pf reference env m rows s =
     el ''div'' []
       (map (map_view PageDoes) (shown_if (clientsVisibleError env s \<noteq> []) (el ''alert'' [] [Txt (t (clientsVisibleError env s) [])])) @
        [clientsTable t fs pf reference env m rows s] @
        map (map_view PageDoes)
          (helpDialog t s @ (if ac_token s = [] then policyDialog t s else tokenDialog t s) @ deleteClientDialog t s))"


section \<open>What is on offer\<close>

lemma offered_confirm [simp]:
  "concat (map offered (confirmDialog cancelLabel children confirmDisabled confirmLabel description onConfirm onClose isOpen title)) =
     (if isOpen then onClose # concat (map offered children) @ onClose # (if confirmDisabled then [] else [onConfirm]) else [])"
  by (simp add: confirmDialog_def)

lemma clients_page_offers:
  "c \<in> set (page_actions (apiClientsPage t fs pf reference env m rows s)) \<longleftrightarrow>
     PageDoes c \<in> set (offered (clientsTable t fs pf reference env m rows s)) \<or>
     c \<in> set (concat (map offered (helpDialog t s))) \<or>
     c \<in> set (concat (map offered (if ac_token s = [] then policyDialog t s else tokenDialog t s))) \<or>
     c \<in> set (concat (map offered (deleteClientDialog t s)))"
  by (auto simp: page_actions_iff apiClientsPage_def shown_if_def in_offered_concat)

lemma offered_scopeOption [simp]: "offered (scopeOption t s e) = [Do (ToggleScope (fst e))]"
  by (simp add: scopeOption_def split_beta is_disabled_def flag_def)

lemma policy_dialog_offers:
  "c \<in> set (concat (map offered (policyDialog t s))) \<longleftrightarrow>
     ac_open s \<and>
     (c = Do (ChangeDialogOpen False) \<or> c = TypeIn ClientNameInput \<or> c = TypeIn RpmInput \<or>
      (\<exists>scope \<in> fst ` set scope_options. c = Do (ToggleScope scope)) \<or> (\<exists>days \<in> {30, 90, 180, 365}. c = Do (ChooseExpiration (show_nat days))) \<or>
      c = Do Create \<and> js_trim (cf_name (cform s)) \<noteq> [] \<and> cf_scopes (cform s) \<noteq> [] \<and> rpmLimitValid s \<and> \<not> isCreating s)"
  by (auto simp: policyDialog_def policyFields_def is_disabled_def flag_def comp_def)

lemma help_dialog_offers: "c \<in> set (concat (map offered (helpDialog t s))) \<Longrightarrow> c = Do (SetHelpOpen False) \<or> (\<exists>x y. c = Do (CopySnippet x y))"
  by (auto simp: helpDialog_def snippetExample_def split: if_splits)

lemma token_dialog_offers:
  "c \<in> set (concat (map offered (tokenDialog t s))) \<longleftrightarrow> ac_open s \<and> (c = Do (ChangeDialogOpen False) \<or> c = Do Copy)"
  by (auto simp: tokenDialog_def)

lemma client_cells:
  "(\<exists>d \<in> set (clientColumns t fs pf reference caps pending). \<exists>v \<in> set (cd_cell d client). a \<in> set (offered v)) \<longleftrightarrow>
     (\<exists>v \<in> set (clientActions t pending client). a \<in> set (offered v))"
  by (auto simp: clientColumns_def data_column_def actions_column_def domainStatus_def)

lemma client_actions_offers:
  "(\<exists>v \<in> set (clientActions t pending client). a \<in> set (offered v)) \<longleftrightarrow>
     \<not> pending \<and> (if c_status client = ''active'' then a \<in> {Do (StartEdit client), Do (Rotate client), Do (Revoke client)} else a = Do (AskDelete client))"
  by (auto simp: clientActions_def)

lemma start_offered:
  "Do Start \<in> set (page_actions (apiClientsPage t fs pf reference env m rows s)) \<longleftrightarrow>
     \<not> clients_pending env \<and> can (ce_caps env) ApiClientManage"
proof -
  have cells: "Do Start \<notin> set (offered v)"
    if "v \<in> set (cd_cell d row)" "(c, d) \<in> set (visible_columns (clientColumns t fs pf reference (ce_caps env) (isLifecyclePending s)) m)" for c d row v
    using that client_cells [of t fs pf reference "ce_caps env" "isLifecyclePending s" row "Do Start"]
      client_actions_offers [of t "isLifecyclePending s" row "Do Start"] visible_columns_defs [of c d]
    by (auto split: if_splits)
  have "PageDoes (Do Start) \<in> set (offered (clientsTable t fs pf reference env m rows s)) \<longleftrightarrow> \<not> clients_pending env \<and> can (ce_caps env) ApiClientManage"
    using cells by (auto simp: clientsTable_def render_table_offers toolbar_offers shown_if_def Let_def)
  moreover have "Do Start \<notin> set (concat (map offered (helpDialog t s)))" using help_dialog_offers by blast
  moreover have "Do Start \<notin> set (concat (map offered (if ac_token s = [] then policyDialog t s else tokenDialog t s)))"
    unfolding if_distrib [of "map offered"] if_distrib [of concat] if_distrib [of set]
    using policy_dialog_offers [of "Do Start" t s] token_dialog_offers [of "Do Start" t s] by auto
  moreover have "Do Start \<notin> set (concat (map offered (deleteClientDialog t s)))" by (simp add: deleteClientDialog_def)
  ultimately show ?thesis unfolding clients_page_offers by blast
qed

lemma visible_column:
  assumes "c \<in> set (tm_columns m)" and "tc_visible c" and "find (\<lambda>d. cd_id d = tc_id c) defs = Some d"
  shows "(c, d) \<in> set (visible_columns defs m)"
  using assms by (force simp: visible_columns_def)

lemma row_action_offered:
  assumes "\<not> clients_pending env" and "c \<in> set (tm_columns m)" and "tc_id c = ''actions''" and "tc_visible c"
    and "client \<in> set rows" and "v \<in> set (clientActions t (isLifecyclePending s) client)" and "a \<in> set (offered v)"
  shows "a \<in> set (page_actions (apiClientsPage t fs pf reference env m rows s))"
proof -
  let ?defs = "clientColumns t fs pf reference (ce_caps env) (isLifecyclePending s)"
  have "find (\<lambda>d. cd_id d = tc_id c) ?defs = Some (actions_column (t ''apiClients.actions'' []) (clientActions t (isLifecyclePending s)))"
    by (simp add: clientColumns_def data_column_def actions_column_def assms(3))
  from visible_column [OF assms(2,4) this] have "\<exists>(c, d) \<in> set (visible_columns ?defs m). \<exists>v \<in> set (cd_cell d client). a \<in> set (offered v)"
    using assms(6,7) by (force simp: actions_column_def)
  then have "PageDoes a \<in> set (offered (clientsTable t fs pf reference env m rows s))"
    using assms(1,5) by (auto simp: clientsTable_def render_table_offers Let_def)
  then show ?thesis unfolding clients_page_offers by blast
qed

text \<open>The button that adds a client is on offer exactly with the permission to manage clients, but the buttons of the
  rows are not gated: without it a user is offered editing, rotating and revoking of every active client on
  the page, and removing of every other.\<close>

theorem row_actions_ungated:
  assumes "\<not> clients_pending env" and "c \<in> set (tm_columns m)" and "tc_id c = ''actions''" and "tc_visible c"
    and "\<not> isLifecyclePending s"
  shows "(Do Start \<in> set (page_actions (apiClientsPage t fs pf reference env m rows s)) \<longleftrightarrow> can (ce_caps env) ApiClientManage) \<and>
    list_all (\<lambda>client. set (if c_status client = ''active'' then [Do (StartEdit client), Do (Rotate client), Do (Revoke client)] else [Do (AskDelete client)])
        \<subseteq> set (page_actions (apiClientsPage t fs pf reference env m rows s))) rows"
proof -
  have "a \<in> set (page_actions (apiClientsPage t fs pf reference env m rows s))"
    if "client \<in> set rows" "if c_status client = ''active'' then a \<in> {Do (StartEdit client), Do (Rotate client), Do (Revoke client)} else a = Do (AskDelete client)"
    for client a
  proof -
    have "\<exists>v \<in> set (clientActions t (isLifecyclePending s) client). a \<in> set (offered v)"
      unfolding client_actions_offers using that(2) assms(5) by simp
    then show ?thesis using row_action_offered [OF assms(1-4) that(1)] by blast
  qed
  then show ?thesis
    unfolding start_offered list_all_iff using assms(1) by (auto split: if_splits)
qed


definition sample_columns_model :: table_model where
  "sample_columns_model =
     \<lparr>tm_state = \<lparr>globalFilter = [], columnFilters = [], columnVisibility = [], pagination = \<lparr>pageIndex = 0, pageSize = 10\<rparr>, sorting = []\<rparr>,
      tm_columns = [\<lparr>tc_id = ''actions'', tc_label = None, tc_accessor = False, tc_can_sort = False, tc_can_hide = False, tc_visible = True, tc_sorted = None\<rparr>],
      tm_filtered_count = 1, tm_page_count = 1, tm_can_previous = False, tm_can_next = False\<rparr>"

definition reader_env :: clients_env where
  "reader_env = (sample_clients_env 0)\<lparr>ce_caps := AdminCapabilitiesProvider [''admin.read'']\<rparr>"

lemma row_actions_ungated_witness:
  "let page = apiClientsPage (\<lambda>key ps. key) (\<lambda>v. v) sample_platform 0 reader_env sample_columns_model [sample_client ''c1'' ''billing''] initial_clients in
     Do Start \<notin> set (page_actions page) \<and> Do (Rotate (sample_client ''c1'' ''billing'')) \<in> set (page_actions page)"
proof -
  have "\<not> clients_pending reader_env" by (simp add: clients_pending_def reader_env_def sample_clients_env_def)
  moreover have "hd (tm_columns sample_columns_model) \<in> set (tm_columns sample_columns_model)"
    "tc_id (hd (tm_columns sample_columns_model)) = ''actions''" "tc_visible (hd (tm_columns sample_columns_model))"
    by (simp_all add: sample_columns_model_def)
  moreover have "\<not> isLifecyclePending initial_clients" by (simp add: initial_clients_def)
  ultimately have "(Do Start \<in> set (page_actions (apiClientsPage (\<lambda>key ps. key) (\<lambda>v. v) sample_platform 0 reader_env sample_columns_model [sample_client ''c1'' ''billing''] initial_clients))
        \<longleftrightarrow> can (ce_caps reader_env) ApiClientManage) \<and>
      list_all (\<lambda>client. set (if c_status client = ''active'' then [Do (StartEdit client), Do (Rotate client), Do (Revoke client)] else [Do (AskDelete client)])
        \<subseteq> set (page_actions (apiClientsPage (\<lambda>key ps. key) (\<lambda>v. v) sample_platform 0 reader_env sample_columns_model [sample_client ''c1'' ''billing''] initial_clients)))
        [sample_client ''c1'' ''billing'']"
    by (rule row_actions_ungated)
  moreover have "\<not> can (ce_caps reader_env) ApiClientManage"
    by (simp add: reader_env_def can_def AdminCapabilitiesProvider_def permission_text_def)
  ultimately show ?thesis by (simp add: sample_client_def Let_def)
qed

text \<open>The button of the form is never silent: when it is on offer it sends one call, or the page shows why not.\<close>

lemma generate_answers:
  assumes "Do Create \<in> set (concat (map offered (policyDialog t s)))"
  shows "(\<exists>j. snd (create_client pf env s) = [SendClient j]) \<or> snd (create_client pf env s) = [] \<and> ac_error (fst (create_client pf env s)) \<noteq> []"
proof -
  have "js_trim (cf_name (cform s)) \<noteq> []" "rpmLimitValid s"
    using assms unfolding policy_dialog_offers by auto
  then show ?thesis
    by (simp add: create_client_def send_client_def Let_def split_beta split: option.split)
qed

end
