(* ===== verification/Search.thy ===== *)
theory Search
  imports Prelude
begin

text \<open>
  Searches over finite graphs. The contract \<open>exhaustive_search\<close> says that what a search has found
  contains its start, is closed under the edges and holds only what the edges reach; then it is the
  set of reachable nodes. The scripts under \<open>web/scripts\<close> provide the searches: the consumers of a
  module (\<open>RouteLint\<close>) and the chunks of the initial page load (\<open>BundleBudget\<close>).
\<close>

locale exhaustive_search =
  fixes edge :: "'g \<Rightarrow> 'a \<Rightarrow> 'a \<Rightarrow> bool"
    and start_ok :: "'g \<Rightarrow> 'a \<Rightarrow> bool"
    and found :: "'g \<Rightarrow> 'a \<Rightarrow> 'a set"
  assumes found_start: "start_ok g a \<Longrightarrow> a \<in> found g a"
    and found_closed: "start_ok g a \<Longrightarrow> x \<in> found g a \<Longrightarrow> edge g x y \<Longrightarrow> y \<in> found g a"
    and found_sound: "start_ok g a \<Longrightarrow> x \<in> found g a \<Longrightarrow> (edge g)\<^sup>*\<^sup>* a x"
begin

lemma found_complete: "start_ok g a \<Longrightarrow> (edge g)\<^sup>*\<^sup>* a x \<Longrightarrow> x \<in> found g a"
  by (rotate_tac, induction rule: rtranclp_induct) (auto intro: found_start found_closed)

theorem found_iff: "start_ok g a \<Longrightarrow> x \<in> found g a \<longleftrightarrow> (edge g)\<^sup>*\<^sup>* a x"
  using found_complete found_sound by blast

lemma found_trans: "start_ok g a \<Longrightarrow> start_ok g b \<Longrightarrow> b \<in> found g a \<Longrightarrow> found g b \<subseteq> found g a"
  by (auto simp: found_iff)

end

end
