(* ===== verification/BundleBudget.thy ===== *)
theory BundleBudget
  imports Search
begin

text \<open>
  The bundle budget (\<open>web/scripts/check-bundle-budget.mjs\<close>): the limits of the entry and of every
  chunk, the routes that have to stay lazy, and the chunks the first page load pulls in. The manifest
  of the build is an association list in the order of the file; the sizes of files, raw and
  compressed, are arguments.
\<close>

record manifest_item =
  mi_file :: string
  mi_isEntry :: bool
  mi_isDynamicEntry :: bool
  mi_imports :: "string list"

type_synonym manifest = "(string \<times> manifest_item) list"

record budget_limits =
  limit_entryRaw :: nat
  limit_entryGzip :: nat
  limit_chunkRaw :: nat

definition limits :: budget_limits where
  "limits = \<lparr>limit_entryRaw = 500000, limit_entryGzip = 180000, limit_chunkRaw = 500000\<rparr>"

definition expectedDynamicEntries :: "string list" where
  "expectedDynamicEntries =
     [''src/routes/index/-components/page.tsx'', ''src/routes/tenants/-components/page.tsx'', ''src/routes/tenant-detail/-components/page.tsx'',
      ''src/routes/definitions/-components/page.tsx'', ''src/routes/definition-detail/-components/page.tsx'',
      ''src/routes/api-clients/-components/page.tsx'']"

section \<open>The checks\<close>

definition entry_failures :: "nat \<Rightarrow> nat \<Rightarrow> string list" where
  "entry_failures entryRaw entryGzip =
     (if entryRaw \<ge> limit_entryRaw limits
      then [''entry raw '' @ show_nat entryRaw @ '' B >= '' @ show_nat (limit_entryRaw limits) @ '' B''] else []) @
     (if entryGzip \<ge> limit_entryGzip limits
      then [''entry gzip '' @ show_nat entryGzip @ '' B >= '' @ show_nat (limit_entryGzip limits) @ '' B''] else [])"

text \<open>\<open>assets\<close> are the names and sizes of the files of the assets directory.\<close>

definition chunk_failures :: "(string \<times> nat) list \<Rightarrow> string list" where
  "chunk_failures assets =
     concat (map (\<lambda>(name, raw).
       if js_ends_with name ''.js'' \<and> raw \<ge> limit_chunkRaw limits
       then [''chunk '' @ name @ '' raw '' @ show_nat raw @ '' B >= '' @ show_nat (limit_chunkRaw limits) @ '' B''] else []) assets)"

definition dynamic_failures :: "manifest \<Rightarrow> string list" where
  "dynamic_failures manifest =
     concat (map (\<lambda>source. case map_of manifest source of
         Some item \<Rightarrow> if mi_isDynamicEntry item then [] else [''missing dynamic route entry '' @ source]
       | None \<Rightarrow> [''missing dynamic route entry '' @ source]) expectedDynamicEntries)"

section \<open>The initial graph\<close>

text \<open>The recursive visits, with the visits still to be made as a stack: the keys visited so far, in order, and
  the failures. A key that is not in the manifest is reported at every visit.\<close>

function visit_keys :: "manifest \<Rightarrow> string list \<Rightarrow> string list \<times> string list \<Rightarrow> string list \<times> string list" where
  "visit_keys manifest [] (keys, fs) = (keys, fs)"
| "visit_keys manifest (key # rest) (keys, fs) =
     (if key \<in> set keys then visit_keys manifest rest (keys, fs)
      else case map_of manifest key of
        None \<Rightarrow> visit_keys manifest rest (keys, fs @ [''manifest import '' @ key @ '' is missing''])
      | Some item \<Rightarrow> visit_keys manifest (mi_imports item @ rest) (keys @ [key], fs))"
  by pat_completeness auto
termination
proof (relation "inv_image (less_than <*lex*> less_than)
    (\<lambda>(manifest, stack, keys, fs). (card (dom (map_of manifest) - set keys), length stack))", goal_cases)
  case 4
  then show ?case
    by (auto simp: finite_dom_map_of intro!: psubset_card_mono)
qed auto

definition visitInitialImport :: "manifest \<Rightarrow> string \<Rightarrow> string list \<times> string list \<Rightarrow> string list \<times> string list" where
  "visitInitialImport manifest key st = visit_keys manifest [key] st"

lemma visit_keys_append: "visit_keys manifest (xs @ ys) st = visit_keys manifest ys (visit_keys manifest xs st)"
proof (induction manifest xs st rule: visit_keys.induct)
  case (2 manifest key rest keys fs)
  then show ?case by (simp split: option.split)
qed simp

text \<open>The recursion as the script writes it: a visit calls the visits of the imports in order.\<close>

lemma visitInitialImport_rec:
  "visitInitialImport manifest key (keys, fs) =
     (if key \<in> set keys then (keys, fs)
      else case map_of manifest key of
        None \<Rightarrow> (keys, fs @ [''manifest import '' @ key @ '' is missing''])
      | Some item \<Rightarrow> fold (visitInitialImport manifest) (mi_imports item) (keys @ [key], fs))"
proof -
  have "visit_keys manifest ks st = fold (visitInitialImport manifest) ks st" for ks st
  proof (induction ks arbitrary: st)
    case (Cons k ks)
    then show ?case
      using visit_keys_append [of manifest "[k]" ks st] by (simp add: visitInitialImport_def)
  qed (metis visit_keys.simps(1) prod.exhaust fold_simps(1))
  then show ?thesis
    by (simp add: visitInitialImport_def split: option.split)
qed

record budget_report =
  br_entry_raw :: nat
  br_entry_gzip :: nat
  br_initial_raw :: nat
  br_initial_gzip :: nat
  br_failures :: "string list"

definition initial_total :: "(string \<Rightarrow> nat) \<Rightarrow> manifest \<Rightarrow> string list \<Rightarrow> nat" where
  "initial_total size_of manifest keys =
     sum_list (map (\<lambda>key. case map_of manifest key of
         Some item \<Rightarrow> if js_ends_with (mi_file item) ''.js'' then size_of (mi_file item) else 0 | None \<Rightarrow> 0) keys)"

definition check_budget ::
  "(string \<Rightarrow> nat) \<Rightarrow> (string \<Rightarrow> nat) \<Rightarrow> (string \<times> nat) list \<Rightarrow> manifest \<Rightarrow> string + budget_report" where
  "check_budget raw_size gzip_size assets manifest =
     (case find (\<lambda>(key, item). mi_isEntry item) manifest of
        None \<Rightarrow> Inl ''Vite manifest has no JavaScript entry''
      | Some (entryKey, entry) \<Rightarrow>
          let entryRaw = raw_size (mi_file entry); entryGzip = gzip_size (mi_file entry);
              failures = entry_failures entryRaw entryGzip @ chunk_failures assets @ dynamic_failures manifest;
              (initialKeys, fs) = (if entryKey \<noteq> [] then visitInitialImport manifest entryKey ([], failures) else ([], failures))
          in Inr \<lparr>br_entry_raw = entryRaw, br_entry_gzip = entryGzip,
               br_initial_raw = initial_total raw_size manifest initialKeys,
               br_initial_gzip = initial_total gzip_size manifest initialKeys, br_failures = fs\<rparr>)"

text \<open>The script throws when it has found a failure.\<close>

definition budget_passes :: "string + budget_report \<Rightarrow> bool" where
  "budget_passes r = (case r of Inl _ \<Rightarrow> False | Inr report \<Rightarrow> br_failures report = [])"

section \<open>What the search finds\<close>

definition chunk_edge :: "manifest \<Rightarrow> string \<Rightarrow> string \<Rightarrow> bool" where
  "chunk_edge manifest a b =
     (case map_of manifest a of Some item \<Rightarrow> b \<in> set (mi_imports item) \<and> map_of manifest b \<noteq> None | None \<Rightarrow> False)"

definition in_manifest :: "manifest \<Rightarrow> string \<Rightarrow> bool" where
  "in_manifest manifest a \<longleftrightarrow> map_of manifest a \<noteq> None"

definition initial_keys :: "manifest \<Rightarrow> string \<Rightarrow> string list" where
  "initial_keys manifest a = fst (visitInitialImport manifest a ([], []))"

lemma visit_keys_found:
  assumes "visit_keys manifest stack st = (keys', fs')"
  shows "set (fst st) \<subseteq> set keys' \<and> set stack \<inter> dom (map_of manifest) \<subseteq> set keys' \<and>
    (\<forall>x y. x \<in> set keys' - set (fst st) \<and> chunk_edge manifest x y \<longrightarrow> y \<in> set keys') \<and>
    (\<forall>x \<in> set keys' - set (fst st). \<exists>a \<in> set stack \<inter> dom (map_of manifest). (chunk_edge manifest)\<^sup>*\<^sup>* a x) \<and>
    (distinct (fst st) \<longrightarrow> distinct keys')"
  using assms
proof (induction manifest stack st rule: visit_keys.induct)
  case (2 manifest key rest keys fs)
  show ?case
  proof (cases "key \<in> set keys")
    case True
    then show ?thesis using 2(1) [OF True] 2(4) by simp blast
  next
    case new: False
    show ?thesis
    proof (cases "map_of manifest key")
      case None
      then show ?thesis using 2(2) [OF new None] 2(4) new by (simp add: dom_def)
    next
      case (Some item)
      have step: "(chunk_edge manifest)\<^sup>*\<^sup>* key x" if "b \<in> set (mi_imports item)" "b \<in> dom (map_of manifest)" "(chunk_edge manifest)\<^sup>*\<^sup>* b x" for b x
        using that Some by (intro converse_rtranclp_into_rtranclp [of "chunk_edge manifest" key b]) (auto simp: chunk_edge_def)
      have key: "key \<in> dom (map_of manifest)" using Some by auto
      have IH: "set (keys @ [key]) \<subseteq> set keys' \<and> set (mi_imports item @ rest) \<inter> dom (map_of manifest) \<subseteq> set keys' \<and>
          (\<forall>x y. x \<in> set keys' - set (keys @ [key]) \<and> chunk_edge manifest x y \<longrightarrow> y \<in> set keys') \<and>
          (\<forall>x \<in> set keys' - set (keys @ [key]). \<exists>a \<in> set (mi_imports item @ rest) \<inter> dom (map_of manifest). (chunk_edge manifest)\<^sup>*\<^sup>* a x) \<and>
          (distinct (keys @ [key]) \<longrightarrow> distinct keys')"
        using 2(3) [OF new Some] 2(4) new Some by simp
      have sub: "set (keys @ [key]) \<subseteq> set keys'" "set (mi_imports item @ rest) \<inter> dom (map_of manifest) \<subseteq> set keys'"
        and dist: "distinct (keys @ [key]) \<longrightarrow> distinct keys'"
        using IH by blast+
      have sound: "\<exists>a \<in> set (key # rest) \<inter> dom (map_of manifest). (chunk_edge manifest)\<^sup>*\<^sup>* a x" if x: "x \<in> set keys' - set keys" for x
      proof (cases "x = key")
        case True
        then show ?thesis using key by auto
      next
        case False
        then have "x \<in> set keys' - set (keys @ [key])" using x by simp
        then obtain a where "a \<in> set (mi_imports item @ rest) \<inter> dom (map_of manifest)" "(chunk_edge manifest)\<^sup>*\<^sup>* a x"
          using IH by blast
        then show ?thesis using step key by auto
      qed
      have closed: "y \<in> set keys'" if "x \<in> set keys' - set keys" "chunk_edge manifest x y" for x y
      proof (cases "x = key")
        case True
        with that(2) Some sub(2) show ?thesis by (auto simp: chunk_edge_def)
      next
        case False
        then have "x \<in> set keys' - set (keys @ [key])" using that(1) by simp
        with IH that(2) show ?thesis by blast
      qed
      show ?thesis
        unfolding fst_conv
      proof (intro conjI)
        show "set keys \<subseteq> set keys'" using sub(1) by simp
        show "set (key # rest) \<inter> dom (map_of manifest) \<subseteq> set keys'" using sub by auto
        show "distinct keys \<longrightarrow> distinct keys'" using dist new by simp
        show "\<forall>x y. x \<in> set keys' - set keys \<and> chunk_edge manifest x y \<longrightarrow> y \<in> set keys'"
          using closed by blast
        show "\<forall>x \<in> set keys' - set keys. \<exists>a \<in> set (key # rest) \<inter> dom (map_of manifest). (chunk_edge manifest)\<^sup>*\<^sup>* a x"
          using sound by blast
      qed
    qed
  qed
qed auto

interpretation initial: exhaustive_search chunk_edge in_manifest "\<lambda>manifest a. set (initial_keys manifest a)"
proof
  fix g :: manifest and a x y
  assume a: "in_manifest g a"
  obtain keys fs where v: "visit_keys g [a] ([], []) = (keys, fs)" by fastforce
  note f = visit_keys_found [OF v]
  have k: "initial_keys g a = keys" unfolding initial_keys_def visitInitialImport_def v by simp
  show "a \<in> set (initial_keys g a)"
    using f a by (auto simp: k in_manifest_def)
  show "y \<in> set (initial_keys g a)" if "x \<in> set (initial_keys g a)" "chunk_edge g x y"
    using f that by (simp add: k)
  show "(chunk_edge g)\<^sup>*\<^sup>* a x" if "x \<in> set (initial_keys g a)"
    using f that by (auto simp: k)
qed

text \<open>The failures of the visits: nothing is reported exactly when every import of a chunk visited is in the manifest.\<close>

definition imports_present :: "manifest \<Rightarrow> string \<Rightarrow> bool" where
  "imports_present manifest x = (case map_of manifest x of Some item \<Rightarrow> list_all (in_manifest manifest) (mi_imports item) | None \<Rightarrow> True)"

lemma visit_keys_failures:
  assumes "visit_keys manifest stack st = (keys', fs')" and "\<forall>k \<in> set (fst st). in_manifest manifest k"
  shows "fs' = [] \<longleftrightarrow> snd st = [] \<and> list_all (in_manifest manifest) stack \<and> (\<forall>x \<in> set keys' - set (fst st). imports_present manifest x)"
  using assms
proof (induction manifest stack st rule: visit_keys.induct)
  case (2 manifest key rest keys fs)
  show ?case
  proof (cases "key \<in> set keys")
    case True
    then show ?thesis using 2(1) [OF True] 2(4,5) by simp
  next
    case new: False
    show ?thesis
    proof (cases "map_of manifest key")
      case None
      then show ?thesis using 2(2) [OF new None] 2(4,5) new by (simp add: in_manifest_def)
    next
      case (Some item)
      have IH: "fs' = [] \<longleftrightarrow> fs = [] \<and> list_all (in_manifest manifest) (mi_imports item @ rest) \<and>
          (\<forall>x \<in> set keys' - set (keys @ [key]). imports_present manifest x)"
        using 2(3) [OF new Some] 2(4,5) new Some by (simp add: in_manifest_def [of manifest key])
      have "key \<in> set keys'"
        using visit_keys_found [OF 2(4)] Some by auto
      moreover have "imports_present manifest key \<longleftrightarrow> list_all (in_manifest manifest) (mi_imports item)" "in_manifest manifest key"
        using Some by (simp_all add: imports_present_def in_manifest_def)
      ultimately show ?thesis
        unfolding IH using new by (auto simp: list_all_append)
    qed
  qed
qed auto

lemma initial_failures:
  assumes "in_manifest manifest key"
  shows "snd (visitInitialImport manifest key ([], fs)) = [] \<longleftrightarrow>
    fs = [] \<and> (\<forall>x. (chunk_edge manifest)\<^sup>*\<^sup>* key x \<longrightarrow> imports_present manifest x)"
proof -
  obtain keys0 fs0 where v0: "visit_keys manifest [key] ([], []) = (keys0, fs0)" by fastforce
  obtain keys1 fs1 where v: "visit_keys manifest [key] ([], fs) = (keys1, fs1)" by fastforce
  have reach: "x \<in> set keys1 \<longleftrightarrow> (chunk_edge manifest)\<^sup>*\<^sup>* key x" for x
  proof -
    note f = visit_keys_found [OF v]
    have k: "key \<in> set keys1" using f assms by (auto simp: in_manifest_def)
    have "x \<in> set keys1" if "(chunk_edge manifest)\<^sup>*\<^sup>* key x"
      using that by (induction rule: rtranclp_induct) (use f k in auto)
    moreover have "(chunk_edge manifest)\<^sup>*\<^sup>* key x" if "x \<in> set keys1"
      using f that by auto
    ultimately show ?thesis by blast
  qed
  show ?thesis
    using visit_keys_failures [OF v] assms reach unfolding visitInitialImport_def v by auto
qed

lemma find_entry_in_manifest: "find P manifest = Some (key, item) \<Longrightarrow> in_manifest manifest key"
  by (induction manifest) (auto simp: in_manifest_def split: if_splits)

text \<open>C15: the budget passes exactly when the build has an entry below both limits, every script of the assets is below the
  limit of a chunk, every route expected to be lazy is, and every import of every chunk the first page load reaches is in the
  manifest.\<close>

theorem budget_passes_iff:
  assumes "find (\<lambda>(key, item). mi_isEntry item) manifest = Some (entryKey, entry)" and "entryKey \<noteq> []"
  shows "budget_passes (check_budget raw_size gzip_size assets manifest) \<longleftrightarrow>
    raw_size (mi_file entry) < 500000 \<and> gzip_size (mi_file entry) < 180000 \<and>
    list_all (\<lambda>(name, raw). js_ends_with name ''.js'' \<longrightarrow> raw < 500000) assets \<and>
    list_all (\<lambda>source. case map_of manifest source of Some item \<Rightarrow> mi_isDynamicEntry item | None \<Rightarrow> False) expectedDynamicEntries \<and>
    (\<forall>x. (chunk_edge manifest)\<^sup>*\<^sup>* entryKey x \<longrightarrow> imports_present manifest x)"
proof -
  have e: "entry_failures r g = [] \<longleftrightarrow> r < 500000 \<and> g < 180000" for r g
    by (auto simp: entry_failures_def limits_def)
  have c: "chunk_failures assets = [] \<longleftrightarrow> list_all (\<lambda>(name, raw). js_ends_with name ''.js'' \<longrightarrow> raw < 500000) assets"
    by (auto simp: chunk_failures_def limits_def list_all_iff split: if_splits)
  have d: "dynamic_failures manifest = [] \<longleftrightarrow>
      list_all (\<lambda>source. case map_of manifest source of Some item \<Rightarrow> mi_isDynamicEntry item | None \<Rightarrow> False) expectedDynamicEntries"
    by (auto simp: dynamic_failures_def list_all_iff split: option.splits if_splits)
  show ?thesis
    using initial_failures [OF find_entry_in_manifest [OF assms(1)]] assms
    by (auto simp: check_budget_def budget_passes_def Let_def split_beta e c d)
qed

text \<open>The figure reported for the first page load counts each script reachable from the entry once.\<close>

theorem initial_total_reachable:
  assumes "in_manifest manifest entryKey"
  shows "initial_total size_of manifest (initial_keys manifest entryKey) =
    sum (\<lambda>key. case map_of manifest key of Some item \<Rightarrow> if js_ends_with (mi_file item) ''.js'' then size_of (mi_file item) else 0 | None \<Rightarrow> 0)
      {key. (chunk_edge manifest)\<^sup>*\<^sup>* entryKey key}"
proof -
  obtain keys fs where v: "visit_keys manifest [entryKey] ([], []) = (keys, fs)" by fastforce
  have k: "initial_keys manifest entryKey = keys" unfolding initial_keys_def visitInitialImport_def v by simp
  have "distinct keys" using visit_keys_found [OF v] by simp
  moreover have "set keys = {key. (chunk_edge manifest)\<^sup>*\<^sup>* entryKey key}"
    using initial.found_iff [OF assms] k by auto
  ultimately show ?thesis
    by (simp add: initial_total_def k sum_list_distinct_conv_sum_set)
qed

definition sample_manifest :: manifest where
  "sample_manifest =
     [(''main'', \<lparr>mi_file = ''main.js'', mi_isEntry = True, mi_isDynamicEntry = False, mi_imports = [''vendor'']\<rparr>),
      (''vendor'', \<lparr>mi_file = ''vendor.js'', mi_isEntry = False, mi_isDynamicEntry = False, mi_imports = [''main'']\<rparr>)] @
     map (\<lambda>source. (source, \<lparr>mi_file = ''page.js'', mi_isEntry = False, mi_isDynamicEntry = True, mi_imports = []\<rparr>)) expectedDynamicEntries"

lemma budget_passes_iff_witness:
  "budget_passes (check_budget (\<lambda>f. 499999) (\<lambda>f. 1000) [(''a.css'', 900000)] sample_manifest) \<and> imports_present sample_manifest ''main''"
proof -
  have p: "budget_passes (check_budget (\<lambda>f. 499999) (\<lambda>f. 1000) [(''a.css'', 900000)] sample_manifest)"
    by (simp add: check_budget_def budget_passes_def sample_manifest_def expectedDynamicEntries_def entry_failures_def
        chunk_failures_def dynamic_failures_def initial_keys_def visitInitialImport_def initial_total_def limits_def js_ends_with_def)
  have f: "find (\<lambda>(key, item). mi_isEntry item) sample_manifest =
      Some (''main'', \<lparr>mi_file = ''main.js'', mi_isEntry = True, mi_isDynamicEntry = False, mi_imports = [''vendor'']\<rparr>)"
    by (simp add: sample_manifest_def)
  have ne: "''main'' \<noteq> ([] :: string)" by simp
  have "\<forall>x. (chunk_edge sample_manifest)\<^sup>*\<^sup>* ''main'' x \<longrightarrow> imports_present sample_manifest x"
    using p unfolding budget_passes_iff [OF f ne] by (elim conjE)
  then have "imports_present sample_manifest ''main''" by blast
  with p show ?thesis ..
qed

lemma initial_total_reachable_witness:
  "sum (\<lambda>key. case map_of sample_manifest key of Some item \<Rightarrow> if js_ends_with (mi_file item) ''.js'' then 7 else 0 | None \<Rightarrow> 0)
     {key. (chunk_edge sample_manifest)\<^sup>*\<^sup>* ''main'' key} = (14 :: nat)"
proof -
  have "in_manifest sample_manifest ''main''" by (simp add: in_manifest_def sample_manifest_def)
  from initial_total_reachable [OF this, of "\<lambda>f. 7"]
  have "sum (\<lambda>key. case map_of sample_manifest key of Some item \<Rightarrow> if js_ends_with (mi_file item) ''.js'' then 7 else 0 | None \<Rightarrow> 0)
      {key. (chunk_edge sample_manifest)\<^sup>*\<^sup>* ''main'' key} = initial_total (\<lambda>f. 7) sample_manifest (initial_keys sample_manifest ''main'')"
    by (rule sym)
  also have "\<dots> = 14" by code_simp
  finally show ?thesis .
qed

end
