(* ===== verification/NodePath.thy ===== *)
theory NodePath
  imports Prelude "HOL-Library.Char_ord" "HOL-Library.List_Lexorder"
begin

text \<open>
  What the scripts use of Node's \<open>path\<close> and \<open>fs\<close> modules. An absolute POSIX path is the list of its
  segments, without empty ones, \<open>.\<close> and \<open>..\<close>; a relative path is a string. The file system is a
  tree. Strings are compared by their code units.
\<close>

type_synonym path = "string list"

definition path_text :: "path \<Rightarrow> string" where
  "path_text p = (if p = [] then ''/'' else concat (map (\<lambda>s. ''/'' @ s) p))"

text \<open>Adding the segments of a string to a path.\<close>

fun add_segments :: "path \<Rightarrow> string list \<Rightarrow> path" where
  "add_segments p [] = p"
| "add_segments p (s # ss) =
     (if s = [] \<or> s = ''.'' then add_segments p ss
      else if s = ''..'' then add_segments (butlast p) ss
      else add_segments (p @ [s]) ss)"

definition path_join :: "path \<Rightarrow> string \<Rightarrow> path" where
  "path_join p s = add_segments p (js_split (CHR ''/'') s)"

definition path_resolve :: "path \<Rightarrow> string \<Rightarrow> path" where
  "path_resolve p s = (if js_starts_with s ''/'' then path_join [] s else path_join p s)"

definition path_dirname :: "path \<Rightarrow> path" where
  "path_dirname p = butlast p"

definition path_basename :: "path \<Rightarrow> string" where
  "path_basename p = (if p = [] then [] else last p)"

text \<open>From the last dot on, unless it is the first character.\<close>

definition extname :: "string \<Rightarrow> string" where
  "extname name =
     (let after = takeWhile (\<lambda>c. c \<noteq> CHR ''.'') (rev name) in
      if length after + 1 \<ge> length name \<or> name = ''..'' then [] else CHR ''.'' # rev after)"

definition stem_of :: "string \<Rightarrow> string" where
  "stem_of name = take (length name - length (extname name)) name"

fun common_prefix :: "path \<Rightarrow> path \<Rightarrow> nat" where
  "common_prefix (a # p) (b # q) = (if a = b then Suc (common_prefix p q) else 0)"
| "common_prefix p q = 0"

definition path_relative :: "path \<Rightarrow> path \<Rightarrow> string" where
  "path_relative from to = (let n = common_prefix from to in js_join ''/'' (replicate (length from - n) ''..'' @ drop n to))"

definition isUnder :: "path \<Rightarrow> path \<Rightarrow> bool" where
  "isUnder f dir = (let relPath = path_relative dir f in
     relPath \<noteq> [] \<and> \<not> js_starts_with relPath ''..'' \<and> \<not> js_starts_with relPath ''/'')"

section \<open>The file system\<close>

datatype node = File string | Dir "(string \<times> node) list" | OtherNode

fun lookup_node :: "node \<Rightarrow> path \<Rightarrow> node option" where
  "lookup_node n [] = Some n"
| "lookup_node (Dir es) (s # p) = (case map_of es s of Some n \<Rightarrow> lookup_node n p | None \<Rightarrow> None)"
| "lookup_node n (s # p) = None"

definition existsSync :: "node \<Rightarrow> path \<Rightarrow> bool" where
  "existsSync fs p \<longleftrightarrow> lookup_node fs p \<noteq> None"

definition readFileSync :: "node \<Rightarrow> path \<Rightarrow> string" where
  "readFileSync fs p = (case lookup_node fs p of Some (File s) \<Rightarrow> s | _ \<Rightarrow> [])"

section \<open>Facts\<close>

definition clean_path :: "path \<Rightarrow> bool" where
  "clean_path p \<longleftrightarrow> (\<forall>s \<in> set p. s \<noteq> [] \<and> s \<noteq> ''.'' \<and> s \<noteq> ''..'' \<and> CHR ''/'' \<notin> set s)"

lemma clean_path_simps [simp]:
  "clean_path []" "clean_path (s # p) \<longleftrightarrow> (s \<noteq> [] \<and> s \<noteq> ''.'' \<and> s \<noteq> ''..'' \<and> CHR ''/'' \<notin> set s) \<and> clean_path p"
  "clean_path (p @ q) \<longleftrightarrow> clean_path p \<and> clean_path q"
  by (auto simp: clean_path_def)

lemma clean_butlast: "clean_path p \<Longrightarrow> clean_path (butlast p)"
  by (auto simp: clean_path_def dest: in_set_butlastD)

lemma add_segments_clean: "clean_path p \<Longrightarrow> \<forall>s \<in> set ss. CHR ''/'' \<notin> set s \<Longrightarrow> clean_path (add_segments p ss)"
  by (induction p ss rule: add_segments.induct) (auto simp: clean_butlast)

lemma path_join_clean: "clean_path p \<Longrightarrow> clean_path (path_join p s)"
  unfolding path_join_def by (rule add_segments_clean) (auto dest: js_split_parts)

lemma path_join_segment [simp]: "s \<noteq> [] \<Longrightarrow> s \<noteq> ''.'' \<Longrightarrow> s \<noteq> ''..'' \<Longrightarrow> CHR ''/'' \<notin> set s \<Longrightarrow> path_join p s = p @ [s]"
  by (simp add: path_join_def js_split_no_sep)

lemma common_prefix_append [simp]: "common_prefix p (p @ q) = length p"
  by (induction p) auto

lemma common_prefix_le: "common_prefix p q \<le> length p"
  by (induction p q rule: common_prefix.induct) auto

lemma common_prefix_full: "common_prefix p q = length p \<Longrightarrow> take (length p) q = p"
  by (induction p q rule: common_prefix.induct) (auto split: if_splits)

lemma js_join_hd: "js_join sep (w # ws) = w @ (if ws = [] then [] else sep @ js_join sep ws)"
  by (cases ws) auto

text \<open>A file is under a directory when its path continues the directory's with a segment that does not
  begin with two dots.\<close>

lemma isUnder_iff:
  assumes "clean_path f"
  shows "isUnder f dir \<longleftrightarrow> (\<exists>s q. f = dir @ s # q \<and> \<not> js_starts_with s ''..'')"
proof
  assume u: "isUnder f dir"
  have "common_prefix dir f = length dir"
  proof (rule ccontr)
    assume "common_prefix dir f \<noteq> length dir"
    then obtain k where "length dir - common_prefix dir f = Suc k"
      using common_prefix_le [of dir f] by (metis Suc_diff_Suc le_neq_implies_less)
    then have "js_starts_with (path_relative dir f) ''..''"
      by (simp add: path_relative_def Let_def js_join_hd js_starts_with_prefix)
    with u show False by (simp add: isUnder_def)
  qed
  then have f: "f = dir @ drop (length dir) f" and r: "path_relative dir f = js_join ''/'' (drop (length dir) f)"
    using common_prefix_full [of dir f] by (metis append_take_drop_id, simp add: path_relative_def)
  obtain s q where d: "drop (length dir) f = s # q"
    using u r by (cases "drop (length dir) f") (auto simp: isUnder_def)
  then have "\<not> js_starts_with s ''..''"
    using u unfolding r by (auto simp: isUnder_def js_join_hd js_starts_with_prefix Let_def r)
  with f d show "\<exists>s q. f = dir @ s # q \<and> \<not> js_starts_with s ''..''" by metis
next
  assume "\<exists>s q. f = dir @ s # q \<and> \<not> js_starts_with s ''..''"
  then obtain s q where f: "f = dir @ s # q" and s: "\<not> js_starts_with s ''..''" by blast
  then have c: "s \<noteq> []" "CHR ''/'' \<notin> set s" "s \<noteq> ''.''"
    using assms by simp_all
  obtain a as where sa: "s = a # as" using c by (cases s) auto
  have r: "path_relative dir f = js_join ''/'' (s # q)"
    by (simp add: path_relative_def f Let_def)
  have "\<not> js_starts_with (js_join ''/'' (s # q)) ''..''"
    using s c sa by (cases as) (auto simp: js_join_hd js_starts_with_def)
  moreover have "\<not> js_starts_with (js_join ''/'' (s # q)) ''/''"
    using c sa by (auto simp: js_join_hd js_starts_with_def)
  ultimately show "isUnder f dir"
    using c sa by (simp add: isUnder_def r js_join_hd)
qed

end
