(* ===== verification/RouteLint.thy ===== *)
theory RouteLint
  imports Search NodePath Json
begin

text \<open>
  The route colocation lint (\<open>web/scripts/lint-colocated-routes.mjs\<close>): which files of \<open>src\<close> import
  which, which of them are routes, and which belong next to a single route or above several. The
  file system is an argument, as is \<open>locale_le\<close>, the order of \<open>localeCompare\<close>, and \<open>ARROW\<close>, a character
  outside the character model. The scanners run the script's regular expressions.
\<close>

section \<open>Names and patterns\<close>

definition SOURCE_EXT :: "string list" where
  "SOURCE_EXT = [''.ts'', ''.tsx'', ''.js'', ''.jsx'']"

definition SKIP_DIR_NAMES :: "string list" where
  "SKIP_DIR_NAMES = [''node_modules'', ''dist'', ''build'', ''coverage'', ''paraglide'', ''.git'']"

text \<open>\<open>/\.(?:test|spec)\./\<close> and \<open>/\.d\.ts$/\<close>.\<close>

definition TEST_RE :: "string \<Rightarrow> bool" where
  "TEST_RE s \<longleftrightarrow> js_includes s ''.test.'' \<or> js_includes s ''.spec.''"

definition D_TS_RE :: "string \<Rightarrow> bool" where
  "D_TS_RE s \<longleftrightarrow> js_ends_with s ''.d.ts''"

definition is_word :: "char \<Rightarrow> bool" where
  "is_word c \<longleftrightarrow> is_alnum c \<or> c = CHR ''_''"

definition skip_space :: "string \<Rightarrow> string" where
  "skip_space s = dropWhile js_space s"

definition after_word :: "string list \<Rightarrow> string \<Rightarrow> string list" where
  "after_word ws s = concat (map (\<lambda>w. if js_starts_with s w then [drop (length w) s] else []) ws)"

text \<open>A scan over the positions of a text; the first argument says whether the position is at a word boundary
  (\<open>\b\<close> before a word character: the character before it is not one).\<close>

fun found_at :: "(string \<Rightarrow> bool) \<Rightarrow> bool \<Rightarrow> string \<Rightarrow> bool" where
  "found_at P boundary [] = False"
| "found_at P boundary (c # s) = (boundary \<and> P (c # s) \<or> found_at P (\<not> is_word c) s)"

definition route_factory_here :: "string \<Rightarrow> bool" where
  "route_factory_here s \<longleftrightarrow>
     list_ex (\<lambda>rest. case skip_space rest of c # _ \<Rightarrow> c = CHR ''<'' \<or> c = CHR ''('' | [] \<Rightarrow> False)
       (after_word [''createRoute'', ''createFileRoute'', ''createLazyRoute'', ''createRootRoute'', ''createRootRouteWithContext''] s)"

definition ROUTE_FACTORY_RE :: "string \<Rightarrow> bool" where
  "ROUTE_FACTORY_RE s \<longleftrightarrow> found_at route_factory_here True s"

text \<open>\<open>/\bexport\s+const\s+Route\b/\<close>\<close>

definition spaces_then :: "(string \<Rightarrow> string list) \<Rightarrow> string \<Rightarrow> string list" where
  "spaces_then f s = (case s of c # _ \<Rightarrow> if js_space c then f (skip_space s) else [] | [] \<Rightarrow> [])"

definition route_export_here :: "string \<Rightarrow> bool" where
  "route_export_here s \<longleftrightarrow>
     list_ex (\<lambda>rest. case rest of c # _ \<Rightarrow> \<not> is_word c | [] \<Rightarrow> True)
       (concat (map (spaces_then (\<lambda>s. concat (map (spaces_then (after_word [''Route''])) (after_word [''const''] s)))) (after_word [''export''] s)))"

definition ROUTE_EXPORT_RE :: "string \<Rightarrow> bool" where
  "ROUTE_EXPORT_RE s \<longleftrightarrow> found_at route_export_here True s"

section \<open>Comments and imports\<close>

text \<open>\<open>replace(/\/\*[\s\S]*?\*\//g, "")\<close>: what follows the first \<open>*/\<close>, when there is one.\<close>

fun after_close :: "string \<Rightarrow> string option" where
  "after_close (c # d # s) = (if c = CHR ''*'' \<and> d = CHR ''/'' then Some s else after_close (d # s))"
| "after_close s = None"

lemma after_close_shorter: "after_close s = Some r \<Longrightarrow> length r < length s"
  by (induction s rule: after_close.induct) (auto split: if_splits intro: less_SucI)

function strip_block_comments :: "string \<Rightarrow> string" where
  "strip_block_comments [] = []"
| "strip_block_comments (c # s) =
     (if js_starts_with (c # s) ''/*''
      then case after_close (tl s) of Some r \<Rightarrow> strip_block_comments r | None \<Rightarrow> c # strip_block_comments s
      else c # strip_block_comments s)"
  by pat_completeness auto
termination
  by (relation "measure length") (auto simp: less_Suc_eq_le dest!: after_close_shorter)

definition line_end :: "char \<Rightarrow> bool" where
  "line_end c \<longleftrightarrow> c = CHR 0x0A \<or> c = CHR 0x0D"

text \<open>\<open>replace(/(^|[^:\\])\/\/.*$/gm, "$1")\<close>; the flag says whether the position is the start of a line.\<close>

function strip_line_comments :: "bool \<Rightarrow> string \<Rightarrow> string" where
  "strip_line_comments start [] = []"
| "strip_line_comments start (c # s) =
     (if start \<and> js_starts_with (c # s) ''//'' then strip_line_comments False (dropWhile (\<lambda>c. \<not> line_end c) s)
      else if c \<noteq> CHR '':'' \<and> c \<noteq> CHR 0x5C \<and> js_starts_with s ''//''
      then c # strip_line_comments False (dropWhile (\<lambda>c. \<not> line_end c) s)
      else c # strip_line_comments (line_end c) s)"
  by pat_completeness auto
termination
  by (relation "measure (length \<circ> snd)") (auto simp: less_Suc_eq_le length_dropWhile_le)

definition stripComments :: "string \<Rightarrow> string" where
  "stripComments source = strip_line_comments True (strip_block_comments source)"

definition is_quote :: "char \<Rightarrow> bool" where
  "is_quote c \<longleftrightarrow> c = CHR 0x27 \<or> c = CHR 0x22"

text \<open>\<open>['"]([^'"]+)['"]\<close>: the specifier and what follows it.\<close>

definition quoted :: "string \<Rightarrow> (string \<times> string) option" where
  "quoted s =
     (case s of
        q # r \<Rightarrow>
          let spec = takeWhile (\<lambda>c. \<not> is_quote c) r; rest = dropWhile (\<lambda>c. \<not> is_quote c) r in
          if is_quote q \<and> spec \<noteq> [] \<and> rest \<noteq> [] then Some (spec, tl rest) else None
      | [] \<Rightarrow> None)"

text \<open>The two alternatives of \<open>IMPORT_FROM_RE\<close> at a word boundary, the first that matches.\<close>

definition import_call :: "string \<Rightarrow> (string \<times> string) option" where
  "import_call rest =
     (case skip_space rest of
        c # r \<Rightarrow>
          if c \<noteq> CHR ''('' then None
          else (case quoted (skip_space r) of
            Some (spec, r') \<Rightarrow> (case skip_space r' of d # r'' \<Rightarrow> if d = CHR '')'' then Some (spec, r'') else None | [] \<Rightarrow> None)
          | None \<Rightarrow> None)
      | [] \<Rightarrow> None)"

definition import_here :: "string \<Rightarrow> (string \<times> string) option" where
  "import_here s =
     (case map_option import_call (find (\<lambda>_. True) (after_word [''from'', ''import''] s)) of
        Some (Some m) \<Rightarrow> Some m
      | _ \<Rightarrow>
          (case after_word [''from''] s of
             rest # _ \<Rightarrow> (case rest of c # _ \<Rightarrow> if js_space c then quoted (skip_space rest) else None | [] \<Rightarrow> None)
           | [] \<Rightarrow> None))"

lemma quoted_shorter: "quoted s = Some (spec, r) \<Longrightarrow> length r < length s"
proof -
  assume a: "quoted s = Some (spec, r)"
  then obtain q t where s: "s = q # t" by (cases s) (auto simp: quoted_def)
  with a have "r = tl (dropWhile (\<lambda>c. \<not> is_quote c) t)"
    by (auto simp: quoted_def Let_def split: if_splits)
  then show ?thesis
    using length_dropWhile_le [of "\<lambda>c. \<not> is_quote c" t] by (simp add: s)
qed

lemma skip_space_le: "length (skip_space s) \<le> length s"
  by (simp add: skip_space_def length_dropWhile_le)

lemma import_call_shorter:
  assumes "import_call s = Some (spec, r)"
  shows "length r < length s"
proof -
  obtain c t where s: "skip_space s = c # t"
    using assms by (auto simp: import_call_def split: list.splits)
  obtain spec1 r1 where q: "quoted (skip_space t) = Some (spec1, r1)"
    using assms s by (auto simp: import_call_def split: if_splits option.splits)
  obtain d where d: "skip_space r1 = d # r"
    using assms s q by (auto simp: import_call_def split: list.splits if_splits)
  show ?thesis
    using quoted_shorter [OF q] skip_space_le [of r1] skip_space_le [of t] skip_space_le [of s] by (simp add: s d)
qed

lemma after_word_le: "r \<in> set (after_word ws s) \<Longrightarrow> length r \<le> length s"
  by (auto simp: after_word_def split: if_splits)

lemma import_here_shorter: "import_here s = Some (spec, r) \<Longrightarrow> length r < length s"
proof -
  assume a: "import_here s = Some (spec, r)"
  have "\<exists>t \<in> set (after_word [''from'', ''import''] s) \<union> set (after_word [''from''] s).
      import_call t = Some (spec, r) \<or> quoted (skip_space t) = Some (spec, r)"
    using a by (auto simp: import_here_def find_Some_iff split: option.splits list.splits if_splits)
  then obtain t where "length t \<le> length s" "import_call t = Some (spec, r) \<or> quoted (skip_space t) = Some (spec, r)"
    using after_word_le by blast
  then show ?thesis
    using import_call_shorter [of t spec r] quoted_shorter [of "skip_space t" spec r] skip_space_le [of t] by fastforce
qed

text \<open>The matches from left to right; after a match the scan goes on behind it, where the character before the
  position is the closing quote or parenthesis.\<close>

function import_matches :: "bool \<Rightarrow> string \<Rightarrow> string list" where
  "import_matches boundary [] = []"
| "import_matches boundary (c # s) =
     (case (if boundary then import_here (c # s) else None) of
        Some (spec, r) \<Rightarrow> spec # import_matches True r
      | None \<Rightarrow> import_matches (\<not> is_word c) s)"
  by pat_completeness auto
termination
  by (relation "measure (length \<circ> snd)") (auto dest!: import_here_shorter split: if_splits)

definition importSpecifiers :: "string \<Rightarrow> string list" where
  "importSpecifiers source = import_matches True (stripComments source)"

section \<open>Resolving imports\<close>

definition strip_ext :: "string \<Rightarrow> string" where
  "strip_ext name =
     (case find (js_ends_with name) [''.tsx'', ''.ts'', ''.jsx'', ''.js''] of
        Some e \<Rightarrow> take (length name - length e) name
      | None \<Rightarrow> name)"

definition map_last :: "(string \<Rightarrow> string) \<Rightarrow> path \<Rightarrow> path" where
  "map_last f p = (if p = [] then [] else butlast p @ [f (last p)])"

definition existingSource :: "node \<Rightarrow> path \<Rightarrow> path option" where
  "existingSource fs target =
     (let stripped = map_last strip_ext target;
          candidates = [target] @
            map (\<lambda>e. map_last (\<lambda>name. name @ e) stripped) [''.tsx'', ''.ts'', ''.jsx'', ''.js''] @
            map (path_join (add_segments [] stripped)) [''index.tsx'', ''index.ts'', ''index.jsx'', ''index.js'']
      in find (\<lambda>candidate. existsSync fs candidate \<and> extname (path_basename candidate) \<in> set SOURCE_EXT) candidates)"

definition resolveImport :: "node \<Rightarrow> path \<Rightarrow> string \<Rightarrow> path \<Rightarrow> path option" where
  "resolveImport fs fromFile spec srcDir =
     (if spec = [] \<or> js_starts_with spec [CHR 0x00] then None
      else if js_starts_with spec ''@/'' then existingSource fs (path_join srcDir (drop 2 spec))
      else if js_starts_with spec ''./'' \<or> js_starts_with spec ''../'' then existingSource fs (path_resolve (path_dirname fromFile) spec)
      else None)"

fun walk :: "path \<Rightarrow> node \<Rightarrow> path list" where
  "walk dir (Dir entries) = concat (map (\<lambda>(name, n).
     if js_starts_with name ''.'' \<and> name \<noteq> ''.'' then []
     else case n of
       Dir es \<Rightarrow> if name \<in> set SKIP_DIR_NAMES then [] else walk (dir @ [name]) n
     | File s \<Rightarrow> if D_TS_RE name then [] else if extname name \<notin> set SOURCE_EXT then [] else [dir @ [name]]
     | OtherNode \<Rightarrow> []) entries)"
| "walk dir n = []"

definition listSourceFiles :: "node \<Rightarrow> path \<Rightarrow> path list" where
  "listSourceFiles fs root = sort_key path_text (case lookup_node fs root of Some n \<Rightarrow> walk root n | None \<Rightarrow> [])"

section \<open>Routes\<close>

definition TREE_FILENAMES :: "string list" where
  "TREE_FILENAMES = [''router.tsx'', ''router.ts'', ''routeTree.tsx'', ''routeTree.ts'', ''route-tree.tsx'', ''route-tree.ts'']"

definition routeFilesImportedByTree :: "node \<Rightarrow> path \<Rightarrow> path \<Rightarrow> path list \<Rightarrow> path list" where
  "routeFilesImportedByTree fs srcDir routesDir files =
     concat (map (\<lambda>name.
       let tree = path_join srcDir name in
       if tree \<notin> set files \<and> \<not> existsSync fs tree then []
       else concat (map (\<lambda>spec.
         case resolveImport fs tree spec srcDir of
           Some target \<Rightarrow> if isUnder target routesDir \<and> target \<in> set files then [target] else []
         | None \<Rightarrow> []) (importSpecifiers (readFileSync fs tree)))) TREE_FILENAMES)"

definition hasPrivateSegment :: "string \<Rightarrow> bool" where
  "hasPrivateSegment relPath \<longleftrightarrow> list_ex (\<lambda>part. js_starts_with part ''-'') (js_split (CHR ''/'') relPath)"

definition isRouteModule :: "path \<Rightarrow> path \<Rightarrow> string \<Rightarrow> path list \<Rightarrow> bool" where
  "isRouteModule f routesDir source treeImported =
     (if \<not> isUnder f routesDir then False
      else if TEST_RE (path_text f) then False
      else if hasPrivateSegment (path_relative routesDir f) then False
      else if f \<in> set treeImported then True
      else ROUTE_FACTORY_RE source \<or> ROUTE_EXPORT_RE source)"

definition isRootRoute :: "path \<Rightarrow> bool" where
  "isRootRoute f \<longleftrightarrow> js_starts_with (path_basename f) ''__root''"

definition isCandidate :: "path \<Rightarrow> path \<Rightarrow> path \<Rightarrow> bool" where
  "isCandidate f srcDir routesDir =
     (if isUnder f (srcDir @ [''components'', ''ui'']) then False
      else if list_ex (\<lambda>d. isUnder f (srcDir @ [d])) [''lib'', ''locales'', ''config'', ''types'', ''test''] then False
      else if isUnder f routesDir then True
      else isUnder f (srcDir @ [''components'']) \<or> isUnder f (srcDir @ [''hooks'']))"

section \<open>The consumers of a module\<close>

text \<open>One importer of the module taken from the stack: the modules seen, the routes found and the stack.\<close>

definition visit_importer ::
  "('a \<Rightarrow> bool) \<Rightarrow> ('a \<Rightarrow> bool) \<Rightarrow> 'a \<Rightarrow> 'a list \<times> 'a list \<times> 'a list \<Rightarrow> 'a list \<times> 'a list \<times> 'a list" where
  "visit_importer isTest isRoute importer = (\<lambda>(seen, routes, stack).
     if importer \<in> set seen then (seen, routes, stack)
     else if isTest importer then (seen @ [importer], routes, stack)
     else if isRoute importer then (seen @ [importer], routes @ [importer], stack)
     else (seen @ [importer], routes, stack @ [importer]))"

definition importers_of :: "('a \<times> 'a list) list \<Rightarrow> 'a \<Rightarrow> 'a list" where
  "importers_of reverse a = some_or (map_of reverse a) []"

definition all_importers :: "('a \<times> 'a list) list \<Rightarrow> 'a set" where
  "all_importers reverse = set (concat (map snd reverse))"

lemma importers_subset: "set (importers_of reverse a) \<subseteq> all_importers reverse"
  by (auto simp: importers_of_def all_importers_def split: option.splits dest!: map_of_SomeD) (metis some_or_simps UN_I snd_conv empty_iff list.set(1) map_of_SomeD not_None_eq)

definition search_measure :: "'a set \<Rightarrow> 'a list \<times> 'a list \<times> 'a list \<Rightarrow> nat" where
  "search_measure U = (\<lambda>(seen, routes, stack). card (U - set seen) + length stack)"

lemma visit_measure:
  assumes "importer \<in> U" and "finite U"
  shows "search_measure U (visit_importer isTest isRoute importer st) \<le> search_measure U st"
proof -
  obtain seen routes stack where st: "st = (seen, routes, stack)" by (cases st)
  show ?thesis
  proof (cases "importer \<in> set seen")
    case False
    have "card (U - set (seen @ [importer])) < card (U - set seen)"
      by (rule psubset_card_mono) (use False assms in auto)
    then show ?thesis by (simp add: st visit_importer_def search_measure_def)
  qed (simp add: st visit_importer_def search_measure_def)
qed

lemma visits_measure:
  "set xs \<subseteq> U \<Longrightarrow> finite U \<Longrightarrow> search_measure U (fold (visit_importer isTest isRoute) xs st) \<le> search_measure U st"
proof (induction xs arbitrary: st)
  case (Cons x xs)
  then have "search_measure U (fold (visit_importer isTest isRoute) xs (visit_importer isTest isRoute x st))
      \<le> search_measure U (visit_importer isTest isRoute x st)" by simp
  also have "\<dots> \<le> search_measure U st"
    using Cons.prems by (intro visit_measure) simp_all
  finally show ?case by simp
qed simp

function consumer_loop ::
  "('a \<times> 'a list) list \<Rightarrow> ('a \<Rightarrow> bool) \<Rightarrow> ('a \<Rightarrow> bool) \<Rightarrow> 'a list \<times> 'a list \<times> 'a list \<Rightarrow> 'a list \<times> 'a list" where
  "consumer_loop reverse isTest isRoute (seen, routes, stack) =
     (if stack = [] then (seen, routes)
      else consumer_loop reverse isTest isRoute
        (fold (visit_importer isTest isRoute) (importers_of reverse (last stack)) (seen, routes, butlast stack)))"
  by pat_completeness auto
termination
proof (relation "measure (\<lambda>(reverse, isTest, isRoute, st). search_measure (all_importers reverse) st)")
  fix reverse :: "('a \<times> 'a list) list" and isTest isRoute :: "'a \<Rightarrow> bool" and seen routes stack :: "'a list"
  assume "stack \<noteq> []"
  then have "search_measure (all_importers reverse) (seen, routes, butlast stack) < search_measure (all_importers reverse) (seen, routes, stack)"
    by (cases stack) (simp_all add: search_measure_def)
  with visits_measure [OF importers_subset, of reverse isTest isRoute "last stack" "(seen, routes, butlast stack)"]
  show "((reverse, isTest, isRoute, fold (visit_importer isTest isRoute) (importers_of reverse (last stack)) (seen, routes, butlast stack)),
      reverse, isTest, isRoute, seen, routes, stack) \<in>
      measure (\<lambda>(reverse, isTest, isRoute, st). search_measure (all_importers reverse) st)"
    by (simp add: all_importers_def le_less_trans)
qed simp

definition routeConsumers :: "path \<Rightarrow> (path \<times> path list) list \<Rightarrow> path list \<Rightarrow> path list" where
  "routeConsumers f reverse routeSet =
     sort_key path_text (snd (consumer_loop reverse (\<lambda>p. TEST_RE (path_text p)) (\<lambda>p. p \<in> set routeSet) ([f], [], [f])))"

section \<open>What the search finds\<close>

text \<open>An edge leads from a module to its importers; tests and routes are not followed further.\<close>

definition consumer_edge :: "('a \<times> 'a list) list \<times> ('a \<Rightarrow> bool) \<times> ('a \<Rightarrow> bool) \<Rightarrow> 'a \<Rightarrow> 'a \<Rightarrow> bool" where
  "consumer_edge = (\<lambda>(reverse, isTest, isRoute) a b. b \<in> set (importers_of reverse a) \<and> \<not> isTest a \<and> \<not> isRoute a)"

definition inner :: "('a \<Rightarrow> bool) \<Rightarrow> ('a \<Rightarrow> bool) \<Rightarrow> 'a \<Rightarrow> bool" where
  "inner isTest isRoute a \<longleftrightarrow> \<not> isTest a \<and> \<not> isRoute a"

definition consumer_seen :: "('a \<times> 'a list) list \<times> ('a \<Rightarrow> bool) \<times> ('a \<Rightarrow> bool) \<Rightarrow> 'a \<Rightarrow> 'a set" where
  "consumer_seen = (\<lambda>(reverse, isTest, isRoute) a. set (fst (consumer_loop reverse isTest isRoute ([a], [], [a]))))"

lemma fold_visit:
  assumes "fold (visit_importer isTest isRoute) xs (seen, routes, stack) = (seen', routes', stack')"
  shows "set seen' = set seen \<union> set xs \<and>
    set stack' = set stack \<union> {x \<in> set xs - set seen. inner isTest isRoute x} \<and>
    set routes' = set routes \<union> {x \<in> set xs - set seen. isRoute x \<and> \<not> isTest x} \<and>
    (distinct routes \<and> set routes \<subseteq> set seen \<longrightarrow> distinct routes')"
  using assms
proof (induction xs arbitrary: seen routes stack)
  case (Cons x xs)
  obtain s1 r1 k1 where v: "visit_importer isTest isRoute x (seen, routes, stack) = (s1, r1, k1)" by (metis prod_cases3)
  have IH: "set seen' = set s1 \<union> set xs \<and> set stack' = set k1 \<union> {x \<in> set xs - set s1. inner isTest isRoute x} \<and>
      set routes' = set r1 \<union> {x \<in> set xs - set s1. isRoute x \<and> \<not> isTest x} \<and>
      (distinct r1 \<and> set r1 \<subseteq> set s1 \<longrightarrow> distinct routes')"
    using Cons.prems v by (intro Cons.IH) simp
  show ?case
  proof (cases "x \<in> set seen")
    case True
    with v IH show ?thesis by (auto simp: visit_importer_def)
  next
    case False
    with v IH show ?thesis
      by (auto simp: visit_importer_def inner_def split: if_splits)
  qed
qed simp

text \<open>The invariant of the loop.\<close>

definition loop_ok ::
  "('a \<times> 'a list) list \<Rightarrow> ('a \<Rightarrow> bool) \<Rightarrow> ('a \<Rightarrow> bool) \<Rightarrow> 'a \<Rightarrow> 'a list \<times> 'a list \<times> 'a list \<Rightarrow> bool" where
  "loop_ok reverse isTest isRoute start = (\<lambda>(seen, routes, stack).
     start \<in> set seen \<and> (\<forall>x \<in> set stack. x \<in> set seen \<and> inner isTest isRoute x) \<and>
     (\<forall>x \<in> set seen. (consumer_edge (reverse, isTest, isRoute))\<^sup>*\<^sup>* start x) \<and>
     (\<forall>x \<in> set seen. inner isTest isRoute x \<and> x \<notin> set stack \<longrightarrow> set (importers_of reverse x) \<subseteq> set seen) \<and>
     set routes = {x \<in> set seen. isRoute x \<and> \<not> isTest x} \<and> distinct routes)"

lemma loop_ok_step:
  assumes "loop_ok reverse isTest isRoute start (seen, routes, stack)" and "stack \<noteq> []"
  shows "loop_ok reverse isTest isRoute start
    (fold (visit_importer isTest isRoute) (importers_of reverse (last stack)) (seen, routes, butlast stack))"
proof -
  obtain seen' routes' stack' where f: "fold (visit_importer isTest isRoute) (importers_of reverse (last stack)) (seen, routes, butlast stack) =
      (seen', routes', stack')" by (metis prod_cases3)
  note v = fold_visit [OF f]
  have l: "last stack \<in> set seen" "inner isTest isRoute (last stack)" "set stack = insert (last stack) (set (butlast stack))"
    using assms by (auto simp: loop_ok_def dest: last_in_set) (metis append_butlast_last_id butlast.simps(2) in_set_butlastD set_ConsD rotate1.simps(2) set_rotate1)+
  have reach: "(consumer_edge (reverse, isTest, isRoute))\<^sup>*\<^sup>* start x" if "x \<in> set (importers_of reverse (last stack))" for x
    using assms(1) l that
    by (auto simp: loop_ok_def consumer_edge_def inner_def intro: rtranclp.rtrancl_into_rtrancl)
  show ?thesis
    unfolding f using v assms(1) l reach by (auto simp: loop_ok_def)
qed

lemma loop_result:
  "loop_ok reverse isTest isRoute start st \<Longrightarrow>
     loop_ok reverse isTest isRoute start (fst (consumer_loop reverse isTest isRoute st), snd (consumer_loop reverse isTest isRoute st), [])"
proof (induction reverse isTest isRoute st rule: consumer_loop.induct)
  case (1 reverse isTest isRoute seen routes stack)
  then show ?case using loop_ok_step [of reverse isTest isRoute start seen routes stack] by (cases "stack = []") simp_all
qed

lemma loop_ok_start: "inner isTest isRoute a \<Longrightarrow> loop_ok reverse isTest isRoute a ([a], [], [a])"
  by (auto simp: loop_ok_def inner_def)

declare consumer_loop.simps [simp del]

lemma consumer_loop_ok:
  "inner isTest isRoute a \<Longrightarrow> loop_ok reverse isTest isRoute a
     (fst (consumer_loop reverse isTest isRoute ([a], [], [a])), snd (consumer_loop reverse isTest isRoute ([a], [], [a])), [])"
  by (rule loop_result [OF loop_ok_start])

definition consumer_start :: "('a \<times> 'a list) list \<times> ('a \<Rightarrow> bool) \<times> ('a \<Rightarrow> bool) \<Rightarrow> 'a \<Rightarrow> bool" where
  "consumer_start = (\<lambda>(reverse, isTest, isRoute) a. inner isTest isRoute a)"

interpretation consumers: exhaustive_search consumer_edge consumer_start consumer_seen
proof
  fix g :: "('a \<times> 'a list) list \<times> ('a \<Rightarrow> bool) \<times> ('a \<Rightarrow> bool)" and a x y
  obtain reverse isTest isRoute where g: "g = (reverse, isTest, isRoute)" by (cases g)
  assume "consumer_start g a"
  then have ok: "loop_ok reverse isTest isRoute a
      (fst (consumer_loop reverse isTest isRoute ([a], [], [a])), snd (consumer_loop reverse isTest isRoute ([a], [], [a])), [])"
    using consumer_loop_ok by (simp add: g consumer_start_def)
  show "a \<in> consumer_seen g a"
    using ok by (simp add: g consumer_seen_def loop_ok_def)
  show "y \<in> consumer_seen g a" if "x \<in> consumer_seen g a" "consumer_edge g x y"
    using ok that by (auto simp: g consumer_seen_def loop_ok_def consumer_edge_def inner_def)
  show "(consumer_edge g)\<^sup>*\<^sup>* a x" if "x \<in> consumer_seen g a"
    using ok that by (auto simp: g consumer_seen_def loop_ok_def)
qed

lemma consumers_exact:
  assumes "inner isTest isRoute a"
  shows "set (snd (consumer_loop reverse isTest isRoute ([a], [], [a]))) =
      {r. isRoute r \<and> \<not> isTest r \<and> (consumer_edge (reverse, isTest, isRoute))\<^sup>*\<^sup>* a r}"
    and "distinct (snd (consumer_loop reverse isTest isRoute ([a], [], [a])))"
proof -
  note ok = consumer_loop_ok [OF assms, of reverse]
  have "set (snd (consumer_loop reverse isTest isRoute ([a], [], [a]))) =
      {r \<in> consumer_seen (reverse, isTest, isRoute) a. isRoute r \<and> \<not> isTest r}"
    using ok by (simp add: loop_ok_def consumer_seen_def)
  then show "set (snd (consumer_loop reverse isTest isRoute ([a], [], [a]))) =
      {r. isRoute r \<and> \<not> isTest r \<and> (consumer_edge (reverse, isTest, isRoute))\<^sup>*\<^sup>* a r}"
    using consumers.found_iff [of "(reverse, isTest, isRoute)" a] assms by (auto simp: consumer_start_def)
  show "distinct (snd (consumer_loop reverse isTest isRoute ([a], [], [a])))"
    using ok by (simp add: loop_ok_def)
qed

section \<open>Where a module belongs\<close>

definition routeFolder :: "path \<Rightarrow> path \<Rightarrow> path" where
  "routeFolder routeFile routesDir =
     (let dir = drop (length routesDir) (path_dirname routeFile);
          stem = stem_of (path_basename routeFile) in
      if stem = ''index'' \<or> stem = ''_index'' then routesDir @ dir else routesDir @ dir @ [stem])"

definition isFlatRouteFile :: "path \<Rightarrow> bool" where
  "isFlatRouteFile routeFile = (let stem = stem_of (path_basename routeFile) in
     stem \<noteq> ''index'' \<and> stem \<noteq> ''_index'' \<and> stem \<noteq> ''__root'')"

definition colocatedTarget :: "path \<Rightarrow> path \<Rightarrow> bool" where
  "colocatedTarget f routesDir = (if \<not> isUnder f routesDir then False else hasPrivateSegment (path_relative routesDir f))"

datatype private_kind = HooksKind | QueriesKind | ComponentsKind

definition is_upper_az :: "char \<Rightarrow> bool" where
  "is_upper_az c \<longleftrightarrow> 65 \<le> code c \<and> code c \<le> 90"

definition privateKind :: "path \<Rightarrow> private_kind" where
  "privateKind f =
     (let base = path_basename f; parts = concat (map (js_split (CHR 0x5C)) f) in
      if ''-hooks'' \<in> set parts \<or> ''hooks'' \<in> set parts \<or> js_starts_with base ''use-'' \<or>
         js_starts_with base ''use'' \<and> (case drop 3 base of c # _ \<Rightarrow> is_upper_az c | [] \<Rightarrow> False) then HooksKind
      else if js_includes base ''-queries.'' \<or> js_starts_with base ''queries.'' then QueriesKind
      else ComponentsKind)"

definition suggestedPath :: "path \<Rightarrow> path \<Rightarrow> path \<Rightarrow> path" where
  "suggestedPath f routeFile routesDir =
     (let folder = routeFolder routeFile routesDir; name = path_basename f in
      case privateKind f of
        QueriesKind \<Rightarrow> folder @ [if js_starts_with name ''-'' then name else ''-'' @ name]
      | HooksKind \<Rightarrow> folder @ [''-hooks'', name]
      | ComponentsKind \<Rightarrow> folder @ [''-components'', name])"

definition liftDestination :: "path \<Rightarrow> path \<Rightarrow> path" where
  "liftDestination f srcDir =
     (let name = (if js_starts_with (path_basename f) ''-'' then tl (path_basename f) else path_basename f) in
      case privateKind f of
        HooksKind \<Rightarrow> srcDir @ [''hooks'', name]
      | QueriesKind \<Rightarrow> srcDir @ [''lib'', name]
      | ComponentsKind \<Rightarrow> srcDir @ [''components'', name])"

section \<open>The lint\<close>

datatype finding_kind = Colocate | Lift

record finding =
  fi_kind :: finding_kind
  fi_file :: string
  fi_consumers :: "string list"
  fi_suggested :: string
  fi_convert :: bool

record lint_result =
  lr_appRoot :: path
  lr_srcDir :: path
  lr_routesDir :: path
  lr_routeCount :: nat
  lr_findings :: "finding list"

text \<open>The targets of a file's imports, and the importers of each target in the order they are found.\<close>

definition import_targets :: "node \<Rightarrow> path \<Rightarrow> path list \<Rightarrow> path \<Rightarrow> path list" where
  "import_targets fs srcDir files f =
     concat (map (\<lambda>spec. case resolveImport fs f spec srcDir of
         Some target \<Rightarrow> if target \<in> set files then [target] else []
       | None \<Rightarrow> []) (importSpecifiers (readFileSync fs f)))"

definition add_importer :: "path \<Rightarrow> path \<Rightarrow> (path \<times> path list) list \<Rightarrow> (path \<times> path list) list" where
  "add_importer f target reverse =
     (case map_of reverse target of
        Some importers \<Rightarrow> map (\<lambda>(k, v). if k = target then (k, v @ [f]) else (k, v)) reverse
      | None \<Rightarrow> reverse @ [(target, [f])])"

definition reverse_imports :: "(path \<Rightarrow> path list) \<Rightarrow> path list \<Rightarrow> (path \<times> path list) list" where
  "reverse_imports targets files = fold (\<lambda>f. fold (add_importer f) (targets f)) files []"

definition lint_file ::
  "path \<Rightarrow> path \<Rightarrow> path \<Rightarrow> (path \<times> path list) list \<Rightarrow> path list \<Rightarrow> path \<Rightarrow> finding list" where
  "lint_file appRoot srcDir routesDir reverse routeSet f =
     (if TEST_RE (path_text f) \<or> D_TS_RE (path_text f) then []
      else if f \<in> set routeSet then []
      else if \<not> isCandidate f srcDir routesDir then []
      else
        let consumers = routeConsumers f reverse routeSet in
        if consumers = [] then []
        else
          let pageConsumers = filter (\<lambda>route. \<not> isRootRoute route) consumers; already = colocatedTarget f routesDir in
          if length pageConsumers = 1 then
            let route = hd pageConsumers; dest = suggestedPath f route routesDir in
            if f = dest then []
            else [\<lparr>fi_kind = Colocate, fi_file = path_relative appRoot f, fi_consumers = map (path_relative appRoot) pageConsumers,
                   fi_suggested = path_relative appRoot dest, fi_convert = isFlatRouteFile route\<rparr>]
          else if already \<and> length pageConsumers > 1 then
            [\<lparr>fi_kind = Lift, fi_file = path_relative appRoot f, fi_consumers = map (path_relative appRoot) pageConsumers,
              fi_suggested = path_relative appRoot (liftDestination f srcDir), fi_convert = False\<rparr>]
          else [])"

fun insert_by :: "('a \<Rightarrow> 'a \<Rightarrow> bool) \<Rightarrow> 'a \<Rightarrow> 'a list \<Rightarrow> 'a list" where
  "insert_by le x [] = [x]"
| "insert_by le x (y # ys) = (if le x y then x # y # ys else y # insert_by le x ys)"

definition sort_by :: "('a \<Rightarrow> 'a \<Rightarrow> bool) \<Rightarrow> 'a list \<Rightarrow> 'a list" where
  "sort_by le xs = foldr (insert_by le) xs []"

definition lint_routes :: "node \<Rightarrow> path \<Rightarrow> path \<Rightarrow> path list \<Rightarrow> path list" where
  "lint_routes fs srcDir routesDir files =
     (let treeImported = routeFilesImportedByTree fs srcDir routesDir files in
      filter (\<lambda>f. isRouteModule f routesDir (readFileSync fs f) treeImported) files)"

definition lintColocatedRoutes :: "(string \<Rightarrow> string \<Rightarrow> bool) \<Rightarrow> node \<Rightarrow> path \<Rightarrow> string option \<Rightarrow> string + lint_result" where
  "lintColocatedRoutes locale_le fs cwd src =
     (let srcDir = path_resolve cwd (some_or src ''src''); routesDir = srcDir @ [''routes''] in
      if \<not> existsSync fs srcDir then Inl (''src not found: '' @ path_text srcDir)
      else if \<not> existsSync fs routesDir then Inl (''routes not found: '' @ path_text routesDir)
      else
        let files = listSourceFiles fs srcDir;
            reverse = reverse_imports (import_targets fs srcDir files) files;
            routeFiles = lint_routes fs srcDir routesDir files;
            findings = concat (map (lint_file cwd srcDir routesDir reverse routeFiles) files)
        in Inr \<lparr>lr_appRoot = cwd, lr_srcDir = srcDir, lr_routesDir = routesDir, lr_routeCount = length routeFiles,
             lr_findings = sort_by (\<lambda>a b. locale_le (fi_file a) (fi_file b)) findings\<rparr>)"

section \<open>The reverse map\<close>

lemma importers_of_update:
  "importers_of (map (\<lambda>(k, v). if k = t then (k, v @ [f]) else (k, v)) reverse) x =
     (if x = t \<and> map_of reverse t \<noteq> None then importers_of reverse x @ [f] else importers_of reverse x)"
  by (induction reverse) (auto simp: importers_of_def split: option.splits)

lemma importers_of_add: "importers_of (add_importer f t reverse) x = (if x = t then importers_of reverse x @ [f] else importers_of reverse x)"
proof (cases "map_of reverse t")
  case None
  then have "map_of (reverse @ [(t, [f])]) x = (if x = t then Some [f] else map_of reverse x)"
    by (auto simp: map_add_def split: option.splits)
  with None show ?thesis by (simp add: add_importer_def importers_of_def)
next
  case (Some importers)
  then show ?thesis by (simp add: add_importer_def importers_of_update)
qed

lemma importers_of_adds: "set (importers_of (fold (add_importer f) ts reverse) x) = set (importers_of reverse x) \<union> (if x \<in> set ts then {f} else {})"
  by (induction ts arbitrary: reverse) (auto simp: importers_of_add)

lemma importers_of_reverse_from:
  "set (importers_of (fold (\<lambda>f. fold (add_importer f) (targets f)) files reverse) x) =
     set (importers_of reverse x) \<union> {f \<in> set files. x \<in> set (targets f)}"
  by (induction files arbitrary: reverse) (auto simp: importers_of_adds)

lemma importers_of_reverse: "set (importers_of (reverse_imports targets files) x) = {f \<in> set files. x \<in> set (targets f)}"
  by (simp add: reverse_imports_def importers_of_reverse_from) (simp add: importers_of_def)

section \<open>What the lint reports\<close>

text \<open>A chain of imports from a module up to a route: every module on it before the route is neither a test nor
  a route.\<close>

definition reaches_route :: "(path \<Rightarrow> path list) \<Rightarrow> path list \<Rightarrow> path list \<Rightarrow> path \<Rightarrow> path \<Rightarrow> bool" where
  "reaches_route targets files routes = (\<lambda>a b. b \<in> set files \<and> a \<in> set (targets b) \<and> \<not> TEST_RE (path_text a) \<and> a \<notin> set routes)\<^sup>*\<^sup>*"

definition lint_applies :: "path \<Rightarrow> path \<Rightarrow> path list \<Rightarrow> path \<Rightarrow> bool" where
  "lint_applies srcDir routesDir routes f \<longleftrightarrow>
     \<not> TEST_RE (path_text f) \<and> \<not> D_TS_RE (path_text f) \<and> f \<notin> set routes \<and> isCandidate f srcDir routesDir"

definition page_routes :: "(path \<Rightarrow> path list) \<Rightarrow> path list \<Rightarrow> path list \<Rightarrow> path \<Rightarrow> path set" where
  "page_routes targets files routes f =
     {r. r \<in> set routes \<and> \<not> TEST_RE (path_text r) \<and> \<not> isRootRoute r \<and> reaches_route targets files routes f r}"

lemma routeConsumers_set:
  assumes "\<not> TEST_RE (path_text f)" and "f \<notin> set routes"
  shows "set (routeConsumers f (reverse_imports targets files) routes) =
      {r. r \<in> set routes \<and> \<not> TEST_RE (path_text r) \<and> reaches_route targets files routes f r}"
    and "distinct (routeConsumers f (reverse_imports targets files) routes)"
proof -
  have i: "inner (\<lambda>p. TEST_RE (path_text p)) (\<lambda>p. p \<in> set routes) f"
    using assms by (simp add: inner_def)
  have "consumer_edge (reverse_imports targets files, \<lambda>p. TEST_RE (path_text p), \<lambda>p. p \<in> set routes) =
      (\<lambda>a b. b \<in> set files \<and> a \<in> set (targets b) \<and> \<not> TEST_RE (path_text a) \<and> a \<notin> set routes)"
    by (auto simp: consumer_edge_def importers_of_reverse fun_eq_iff)
  with consumers_exact [OF i, of "reverse_imports targets files"]
  show "set (routeConsumers f (reverse_imports targets files) routes) =
      {r. r \<in> set routes \<and> \<not> TEST_RE (path_text r) \<and> reaches_route targets files routes f r}"
    "distinct (routeConsumers f (reverse_imports targets files) routes)"
    by (simp_all add: routeConsumers_def reaches_route_def)
qed

lemma card_one_list: "distinct xs \<Longrightarrow> length xs = 1 \<Longrightarrow> the_elem (set xs) = hd xs"
  by (cases xs) auto

text \<open>C13: the lint reports a module exactly by the pages that reach it through imports: one page other than the root
  route and not yet at the suggested place means it is to be colocated, several pages and a private folder mean it is to
  be lifted, and everything else is not reported.\<close>

theorem lint_reports_exactly:
  "map fi_kind (lint_file appRoot srcDir routesDir (reverse_imports targets files) routes f) =
     (let pages = page_routes targets files routes f in
      if \<not> lint_applies srcDir routesDir routes f then []
      else if card pages = 1 then (if f = suggestedPath f (the_elem pages) routesDir then [] else [Colocate])
      else if card pages > 1 \<and> colocatedTarget f routesDir then [Lift] else [])"
proof (cases "lint_applies srcDir routesDir routes f")
  case True
  let ?cs = "routeConsumers f (reverse_imports targets files) routes"
  let ?ps = "filter (\<lambda>route. \<not> isRootRoute route) ?cs"
  have set: "set ?ps = page_routes targets files routes f" and d: "distinct ?ps"
    using routeConsumers_set [of f routes targets files] True by (auto simp: lint_applies_def page_routes_def)
  have card: "card (page_routes targets files routes f) = length ?ps"
    using set d by (metis distinct_card)
  have one: "the_elem (page_routes targets files routes f) = hd ?ps" if "length ?ps = 1"
    using card_one_list [OF d that] set by simp
  have empty: "?cs = [] \<Longrightarrow> length ?ps = 0" by simp
  show ?thesis
    using True one by (cases "?cs = []") (auto simp: lint_file_def lint_applies_def card Let_def)
next
  case False
  then show ?thesis by (auto simp: lint_file_def lint_applies_def Let_def)
qed

subsection \<open>Moving twice\<close>

lemma basename_append [simp]: "path_basename (p @ [x]) = x" "path_basename (p @ [x, y]) = y"
  by (simp_all add: path_basename_def)

definition has_hooks :: "path \<Rightarrow> bool" where
  "has_hooks f \<longleftrightarrow> (let parts = concat (map (js_split (CHR 0x5C)) f) in ''-hooks'' \<in> set parts \<or> ''hooks'' \<in> set parts)"

definition hook_name :: "string \<Rightarrow> bool" where
  "hook_name base \<longleftrightarrow> js_starts_with base ''use-'' \<or>
     js_starts_with base ''use'' \<and> (case drop 3 base of c # _ \<Rightarrow> is_upper_az c | [] \<Rightarrow> False)"

definition query_name :: "string \<Rightarrow> bool" where
  "query_name base \<longleftrightarrow> js_includes base ''-queries.'' \<or> js_starts_with base ''queries.''"

lemma privateKind_alt:
  "privateKind f = (if has_hooks f \<or> hook_name (path_basename f) then HooksKind else if query_name (path_basename f) then QueriesKind else ComponentsKind)"
  by (simp add: privateKind_def has_hooks_def hook_name_def query_name_def Let_def)

lemma has_hooks_hooks: "has_hooks (p @ [''-hooks'', name])"
  by (simp add: has_hooks_def js_split_no_sep)

lemma dash_name: "query_name name \<Longrightarrow> query_name (if js_starts_with name ''-'' then name else ''-'' @ name)"
  unfolding query_name_def by (auto simp: js_starts_with_prefix js_includes_sublist intro: sublist_Cons_right [THEN iffD2] prefix_imp_sublist)

lemma dash_not_hook: "js_starts_with name ''-'' \<Longrightarrow> \<not> hook_name name"
  by (auto simp: hook_name_def js_starts_with_prefix prefix_def)

text \<open>Moving a module where the lint says and asking again settles: after the second move the suggestion is where the
  module is, and already after the first unless the folder it moved to made it a hook.\<close>

theorem suggestion_converges:
  "let move = (\<lambda>g. suggestedPath g route routesDir) in
     move (move (move f)) = move (move f) \<and> (move (move f) = move f) = (privateKind (move f) = privateKind f)"
proof -
  let ?folder = "routeFolder route routesDir"
  let ?n = "path_basename f"
  let ?q = "if js_starts_with ?n ''-'' then ?n else ''-'' @ ?n"
  have hooks: "suggestedPath (?folder @ [''-hooks'', x]) route routesDir = ?folder @ [''-hooks'', x]" for x
    using has_hooks_hooks by (simp add: suggestedPath_def privateKind_alt)
  show ?thesis
  proof (cases "privateKind f")
    case HooksKind
    then show ?thesis
      using hooks has_hooks_hooks by (simp add: suggestedPath_def privateKind_alt)
  next
    case QueriesKind
    then have m: "suggestedPath f route routesDir = ?folder @ [?q]" by (simp add: suggestedPath_def Let_def)
    have q: "query_name ?q" "\<not> hook_name ?q" "js_starts_with ?q ''-''"
      using QueriesKind dash_name [of ?n] dash_not_hook [of ?q] by (auto simp: privateKind_alt js_starts_with_prefix split: if_splits)
    show ?thesis
    proof (cases "has_hooks (?folder @ [?q])")
      case True
      then have k: "privateKind (?folder @ [?q]) = HooksKind"
        and s: "suggestedPath (?folder @ [?q]) route routesDir = ?folder @ [''-hooks'', ?q]"
        by (simp_all only: suggestedPath_def privateKind_alt Let_def private_kind.case if_True simp_thms basename_append)
      show ?thesis
        unfolding Let_def m s hooks k QueriesKind by simp
    next
      case False
      then have "privateKind (?folder @ [?q]) = QueriesKind" using q by (simp add: privateKind_alt)
      then have s: "suggestedPath (?folder @ [?q]) route routesDir = ?folder @ [?q]"
        using q(3) by (simp add: suggestedPath_def Let_def)
      show ?thesis
        unfolding Let_def m s \<open>privateKind (?folder @ [?q]) = QueriesKind\<close> QueriesKind by simp
    qed
  next
    case ComponentsKind
    then have m: "suggestedPath f route routesDir = ?folder @ [''-components'', ?n]" by (simp add: suggestedPath_def Let_def)
    have n: "\<not> query_name ?n" "\<not> hook_name ?n" using ComponentsKind by (auto simp: privateKind_alt split: if_splits)
    have k: "privateKind (?folder @ [''-components'', ?n]) = (if has_hooks (?folder @ [''-components'', ?n]) then HooksKind else ComponentsKind)"
      using n by (simp add: privateKind_alt)
    then have s: "suggestedPath (?folder @ [''-components'', ?n]) route routesDir =
        (if has_hooks (?folder @ [''-components'', ?n]) then ?folder @ [''-hooks'', ?n] else ?folder @ [''-components'', ?n])"
      by (simp add: suggestedPath_def Let_def)
    show ?thesis
      by (cases "has_hooks (?folder @ [''-components'', ?n])") (simp_all add: Let_def m s hooks k ComponentsKind)
  qed
qed

section \<open>The command line\<close>

record lint_opts =
  lo_cwd :: path
  lo_src :: "string option"
  lo_json :: bool
  lo_report :: bool
  lo_help :: bool

fun parse_flags :: "path \<Rightarrow> string list \<Rightarrow> lint_opts \<Rightarrow> string + lint_opts" where
  "parse_flags here [] opts = Inr opts"
| "parse_flags here (arg # argv) opts =
     (if arg = ''--help'' \<or> arg = ''-h'' then parse_flags here argv (opts\<lparr>lo_help := True\<rparr>)
      else if arg = ''--json'' then parse_flags here argv (opts\<lparr>lo_json := True\<rparr>)
      else if arg = ''--report'' then parse_flags here argv (opts\<lparr>lo_report := True\<rparr>)
      else if arg = ''--cwd'' then
        (case argv of [] \<Rightarrow> Inr (opts\<lparr>lo_cwd := here\<rparr>) | v # rest \<Rightarrow> parse_flags here rest (opts\<lparr>lo_cwd := path_resolve here v\<rparr>))
      else if arg = ''--src'' then
        (case argv of [] \<Rightarrow> Inr (opts\<lparr>lo_src := None\<rparr>) | v # rest \<Rightarrow> parse_flags here rest (opts\<lparr>lo_src := Some v\<rparr>))
      else if js_starts_with arg ''--cwd='' then parse_flags here argv (opts\<lparr>lo_cwd := path_resolve here (drop 6 arg)\<rparr>)
      else if js_starts_with arg ''--src='' then parse_flags here argv (opts\<lparr>lo_src := Some (drop 6 arg)\<rparr>)
      else Inl (''unknown flag: '' @ arg))"

definition parseArgs :: "path \<Rightarrow> string list \<Rightarrow> string + lint_opts" where
  "parseArgs here argv = parse_flags here argv \<lparr>lo_cwd = here, lo_src = None, lo_json = False, lo_report = False, lo_help = False\<rparr>"

text \<open>\<open>JSON.stringify(value, null, 2)\<close>.\<close>

fun pretty :: "nat \<Rightarrow> json \<Rightarrow> string" where
  "pretty n (JArr xs) =
     (if xs = [] then ''[]''
      else let pad = replicate (n + 2) (CHR '' '') in
        ''['' @ [CHR 0x0A] @ js_join ('','' @ [CHR 0x0A]) (map (\<lambda>x. pad @ pretty (n + 2) x) xs) @ [CHR 0x0A] @ replicate n (CHR '' '') @ '']'')"
| "pretty n (JObj ms) =
     (if ms = [] then ''{}''
      else let pad = replicate (n + 2) (CHR '' '') in
        ''{'' @ [CHR 0x0A] @ js_join ('','' @ [CHR 0x0A]) (map (\<lambda>(k, x). pad @ quote k @ '': '' @ pretty (n + 2) x) ms) @ [CHR 0x0A] @ replicate n (CHR '' '') @ ''}'')"
| "pretty n j = stringify j"

definition finding_json :: "finding \<Rightarrow> json" where
  "finding_json f =
     JObj [(''kind'', JStr (case fi_kind f of Colocate \<Rightarrow> ''colocate'' | Lift \<Rightarrow> ''lift'')), (''file'', JStr (fi_file f)),
       (''consumers'', JArr (map JStr (fi_consumers f))), (''suggested'', JStr (fi_suggested f)), (''convertRouteToFolder'', JBool (fi_convert f))]"

definition result_json :: "lint_result \<Rightarrow> json" where
  "result_json r =
     JObj [(''appRoot'', JStr (path_text (lr_appRoot r))), (''srcDir'', JStr (path_text (lr_srcDir r))),
       (''routesDir'', JStr (path_text (lr_routesDir r))), (''routeCount'', JNum (int (lr_routeCount r))),
       (''findings'', JArr (map finding_json (lr_findings r)))]"

definition finding_lines :: "string \<Rightarrow> finding \<Rightarrow> string list" where
  "finding_lines ARROW f =
     [(if fi_kind f = Lift then ''LIFT     '' else ''COLLOCATE'') @ ''  '' @ fi_file f,
      ''  consumers: '' @ js_join '', '' (fi_consumers f), ''  move to:   '' @ fi_suggested f] @
     (if fi_convert f then
        let route = some_or (case fi_consumers f of c # _ \<Rightarrow> Some c | [] \<Rightarrow> None) []; folder = strip_ext route;
            ext = extname (last (js_split (CHR ''/'') route)) in
        [''  first:     '' @ route @ '' '' @ ARROW @ '' '' @ folder @ ''/index'' @ ext]
      else []) @ [[]]"

definition formatFindings :: "string \<Rightarrow> bool \<Rightarrow> lint_result \<Rightarrow> string" where
  "formatFindings ARROW json r =
     (if json then pretty 0 (result_json r)
      else if lr_findings r = [] then ''colocated-routes: 0 findings ('' @ show_nat (lr_routeCount r) @ '' routes)'' @ [CHR 0x0A]
      else js_join [CHR 0x0A]
        ([''colocated-routes: '' @ show_nat (length (lr_findings r)) @ '' finding(s) ('' @ show_nat (lr_routeCount r) @ '' routes)'', []] @
         concat (map (finding_lines ARROW) (lr_findings r))))"

datatype cli_outcome = Usage | Report string | Failed string

text \<open>\<open>runCli\<close> with the exception handler around it: what is printed and the exit code.\<close>

definition runCli :: "string \<Rightarrow> (string \<Rightarrow> string \<Rightarrow> bool) \<Rightarrow> node \<Rightarrow> path \<Rightarrow> string list \<Rightarrow> cli_outcome \<times> nat" where
  "runCli ARROW locale_le fs here argv =
     (case parseArgs here argv of
        Inl message \<Rightarrow> (Failed message, 2)
      | Inr opts \<Rightarrow>
          if lo_help opts then (Usage, 0)
          else case lintColocatedRoutes locale_le fs (lo_cwd opts) (lo_src opts) of
            Inl message \<Rightarrow> (Failed message, 2)
          | Inr r \<Rightarrow> (Report (formatFindings ARROW (lo_json opts) r), if \<not> lo_report opts \<and> lr_findings r \<noteq> [] then 1 else 0))"

end
