(* ===== verification/ScaleGate.thy ===== *)
theory ScaleGate
  imports Numbers "HOL-Library.Product_Lexorder"
begin

text \<open>
  The scale gate: \<open>web/src/lib/scale-gate.ts\<close>, which reads percentiles and decides whether the full
  lists of the console have to be paginated, and \<open>web/scripts/summarize-scale.mjs\<close>, which turns
  the files of the benchmark into the decision. Durations are rationals, their products rounded
  by \<open>js_double\<close>. Throwing is \<open>Inl\<close> of the message.
\<close>

section \<open>The gate\<close>

record scale_thresholds =
  softItems :: nat
  softPayloadBytes :: nat
  hardItems :: nat
  hardPayloadBytes :: nat
  hardHTTPP95Ms :: rat
  hardBrowserP95Ms :: rat

definition SCALE_THRESHOLDS :: scale_thresholds where
  "SCALE_THRESHOLDS = \<lparr>softItems = 500, softPayloadBytes = 256000, hardItems = 2000, hardPayloadBytes = 512000,
     hardHTTPP95Ms = 300, hardBrowserP95Ms = 150\<rparr>"

record capacity_point =
  cp_cardinality :: nat
  hardTriggers :: "string list"
  softItemCount :: bool
  softPayload :: bool

datatype scale_decision = KEEP_FULL_LISTS | OPEN_PAGINATION_EPIC

definition parseObservedOperationalVolume :: "string option \<Rightarrow> string + nat" where
  "parseObservedOperationalVolume value =
     (case value of None \<Rightarrow> Inr 0
      | Some v \<Rightarrow>
          let parsed = js_Number v in
          if \<not> isSafeInteger parsed \<or> the parsed < 0 \<or> js_trim v = []
          then Inl ''TENANCIT_SCALE_OBSERVED_VOLUME must be a non-negative integer''
          else Inr (nat \<lfloor>the parsed\<rfloor>))"

definition nearestRank :: "rat list \<Rightarrow> rat \<Rightarrow> string + rat" where
  "nearestRank values percentile =
     (if values = [] then Inl ''nearestRank needs at least one sample''
      else if percentile \<le> 0 \<or> percentile > 1 then Inl ''percentile must be in (0, 1]''
      else let sorted = sort values in
        Inr (sorted ! (nat \<lceil>js_double (of_nat (length sorted) * percentile)\<rceil> - 1)))"

text \<open>The sort is by descending cardinality and stable: the first of the greatest points is taken.\<close>

definition operational_point :: "nat \<Rightarrow> capacity_point list \<Rightarrow> capacity_point option" where
  "operational_point observed points =
     (case sort_key (\<lambda>p. - int (cp_cardinality p)) (filter (\<lambda>p. cp_cardinality p \<le> observed) points) of
        [] \<Rightarrow> None | p # _ \<Rightarrow> Some p)"

definition decideScaleGate :: "nat \<Rightarrow> capacity_point list \<Rightarrow> scale_decision" where
  "decideScaleGate observedOperationalVolume capacityPoints =
     (if observedOperationalVolume \<ge> hardItems SCALE_THRESHOLDS then OPEN_PAGINATION_EPIC
      else case operational_point observedOperationalVolume capacityPoints of
        None \<Rightarrow> KEEP_FULL_LISTS
      | Some p \<Rightarrow>
          if length (hardTriggers p) > 0 then OPEN_PAGINATION_EPIC
          else if softItemCount p \<and> softPayload p then OPEN_PAGINATION_EPIC
          else KEEP_FULL_LISTS)"


section \<open>The summary of the measurements\<close>

record http_run =
  hr_bytes :: nat
  hr_p95Ms :: rat

record http_result =
  concurrency1 :: http_run
  concurrency10 :: http_run

text \<open>A file of the benchmark; of the samples of a metric only the percentile is read.\<close>

record measurement =
  m_cardinality :: nat
  m_run :: nat
  m_measuredAt :: string
  m_environment :: "(string \<times> string) list"
  m_http :: "(string \<times> http_result) list"
  m_browser :: "(string \<times> (string \<times> rat) list) list"

text \<open>\<open>bySize\<close>: a map in the order of the first insertion.\<close>

fun push_run :: "measurement \<Rightarrow> (nat \<times> measurement list) list \<Rightarrow> (nat \<times> measurement list) list" where
  "push_run m [] = [(m_cardinality m, [m])]"
| "push_run m ((sz, runs) # rest) =
     (if sz = m_cardinality m then (sz, runs @ [m]) # rest else (sz, runs) # push_run m rest)"

definition by_size :: "measurement list \<Rightarrow> (nat \<times> measurement list) list" where
  "by_size ms = fold push_run ms []"

definition sorted_measurements :: "measurement list \<Rightarrow> measurement list" where
  "sorted_measurements ms = sort_key (\<lambda>m. (m_cardinality m, m_run m)) ms"

definition check_pairs :: "(nat \<times> measurement list) list \<Rightarrow> string option" where
  "check_pairs bySize =
     map_option (\<lambda>(sz, runs). ''cardinality '' @ show_nat sz @ '' needs exactly two measurements'')
       (find (\<lambda>(sz, runs). length runs \<noteq> 2) bySize)"

text \<open>\<open>runs.every(test)\<close> stops at the first run that fails the test; a test that reads a missing key throws.\<close>

fun every_run :: "('a \<Rightarrow> bool option) \<Rightarrow> 'a list \<Rightarrow> bool option" where
  "every_run test [] = Some True"
| "every_run test (r # rs) = (case test r of None \<Rightarrow> None | Some False \<Rightarrow> Some False | Some True \<Rightarrow> every_run test rs)"

definition payload_hard :: "string \<Rightarrow> measurement \<Rightarrow> bool option" where
  "payload_hard endpoint run =
     map_option (\<lambda>h. hr_bytes (concurrency1 h) \<ge> hardPayloadBytes SCALE_THRESHOLDS) (map_of (m_http run) endpoint)"

definition http_hard :: "string \<Rightarrow> measurement \<Rightarrow> bool option" where
  "http_hard endpoint run =
     map_option (\<lambda>h. max (hr_p95Ms (concurrency1 h)) (hr_p95Ms (concurrency10 h)) \<ge> hardHTTPP95Ms SCALE_THRESHOLDS)
       (map_of (m_http run) endpoint)"

definition ui_hard :: "string \<Rightarrow> measurement \<Rightarrow> bool option" where
  "ui_hard surface run =
     map_option (\<lambda>metrics. list_ex (\<lambda>(metric, p95). p95 \<ge> hardBrowserP95Ms SCALE_THRESHOLDS) metrics)
       (map_of (m_browser run) surface)"

definition endpoint_triggers :: "measurement list \<Rightarrow> string \<Rightarrow> string list option" where
  "endpoint_triggers runs endpoint =
     (case every_run (payload_hard endpoint) runs of None \<Rightarrow> None
      | Some payloadConfirmed \<Rightarrow> (case every_run (http_hard endpoint) runs of None \<Rightarrow> None
          | Some httpConfirmed \<Rightarrow> Some
              ((if payloadConfirmed then [endpoint @ '':payload>=500KiB''] else []) @
               (if httpConfirmed then [endpoint @ '':http-p95>=300ms''] else []))))"

definition surface_triggers :: "measurement list \<Rightarrow> string \<Rightarrow> string list option" where
  "surface_triggers runs surface =
     map_option (\<lambda>uiConfirmed. if uiConfirmed then [surface @ '':ui-p95>=150ms''] else []) (every_run (ui_hard surface) runs)"

fun concat_options :: "'a list option list \<Rightarrow> 'a list option" where
  "concat_options [] = Some []"
| "concat_options (x # xs) =
     (case x of None \<Rightarrow> None | Some a \<Rightarrow> map_option (\<lambda>b. a @ b) (concat_options xs))"

definition confirmedCapacityTriggers :: "measurement list \<Rightarrow> string list option" where
  "confirmedCapacityTriggers runs =
     concat_options (map (endpoint_triggers runs) (map fst (m_http (hd runs))) @
                     map (surface_triggers runs) (map fst (m_browser (hd runs))))"

definition payload250KiB :: "measurement list \<Rightarrow> bool" where
  "payload250KiB runs =
     list_all (\<lambda>run. list_ex (\<lambda>(id, h). hr_bytes (concurrency1 h) \<ge> softPayloadBytes SCALE_THRESHOLDS) (m_http run)) runs"

definition capacity_of :: "nat \<times> measurement list \<Rightarrow> capacity_point option" where
  "capacity_of entry = (case entry of (cardinality, runs) \<Rightarrow>
     map_option (\<lambda>triggers. \<lparr>cp_cardinality = cardinality, hardTriggers = triggers,
       softItemCount = cardinality \<ge> softItems SCALE_THRESHOLDS, softPayload = payload250KiB runs\<rparr>)
       (confirmedCapacityTriggers runs))"

record measured_row =
  mr_cardinality :: nat
  mr_run :: nat
  mr_measuredAt :: string
  mr_environment :: "(string \<times> string) list"
  mr_http :: "(string \<times> (nat \<times> rat \<times> rat)) list"
  mr_browser :: "(string \<times> (string \<times> rat) list) list"

definition measured :: "measurement \<Rightarrow> measured_row" where
  "measured m = \<lparr>mr_cardinality = m_cardinality m, mr_run = m_run m, mr_measuredAt = m_measuredAt m, mr_environment = m_environment m,
     mr_http = map (\<lambda>(id, h). (id, (hr_bytes (concurrency1 h), hr_p95Ms (concurrency1 h), hr_p95Ms (concurrency10 h)))) (m_http m),
     mr_browser = m_browser m\<rparr>"

record scale_summary =
  observedOperationalVolume :: nat
  analysisRecommended :: bool
  capacityBreakpoint :: "nat option"
  decision :: scale_decision
  rationale :: string
  s_capacity :: "capacity_point list"
  s_measurements :: "measured_row list"

definition gate_rationale :: "scale_decision \<Rightarrow> string" where
  "gate_rationale d =
     (if d = OPEN_PAGINATION_EPIC then ''The declared operational point confirms a hard trigger or two persistent soft triggers.''
      else ''Synthetic capacity breakpoints do not by themselves prove current operational need; the declared volume remains below the gate.'')"

definition summary_of :: "nat \<Rightarrow> capacity_point list \<Rightarrow> measurement list \<Rightarrow> scale_summary" where
  "summary_of observedVolume capacity measurements =
     (let d = decideScaleGate observedVolume capacity in
      \<lparr>observedOperationalVolume = observedVolume,
       analysisRecommended = list_ex (\<lambda>p. softItemCount p \<or> softPayload p) capacity,
       capacityBreakpoint = map_option cp_cardinality
         (find (\<lambda>p. cp_cardinality p \<ge> hardItems SCALE_THRESHOLDS \<or> length (hardTriggers p) > 0) capacity),
       decision = d,
       rationale = gate_rationale d,
       s_capacity = capacity,
       s_measurements = map measured measurements\<rparr>)"

text \<open>The script up to the first file it writes: the volume of the environment, the argument, the files in the
  order of the directory.\<close>

definition summarize_scale :: "string option \<Rightarrow> string \<Rightarrow> measurement list \<Rightarrow> string + scale_summary" where
  "summarize_scale volume outputDir files =
     (case parseObservedOperationalVolume volume of Inl e \<Rightarrow> Inl e
      | Inr observedVolume \<Rightarrow>
          if outputDir = [] then Inl ''output directory is required''
          else let measurements = sorted_measurements files; bySize = by_size measurements in
            case check_pairs bySize of Some e \<Rightarrow> Inl e
            | None \<Rightarrow>
                (case concat_options (map (\<lambda>entry. map_option (\<lambda>p. [p]) (capacity_of entry)) bySize) of
                   None \<Rightarrow> Inl ''TypeError''
                 | Some capacity \<Rightarrow> Inr (summary_of observedVolume capacity measurements)))"

section \<open>The report\<close>

text \<open>\<open>Math.max\<close> of no value is minus infinity.\<close>

definition max_of :: "'a :: linorder list \<Rightarrow> 'a option" where
  "max_of xs = (case xs of [] \<Rightarrow> None | x # r \<Rightarrow> Some (fold max r x))"

definition toFixed1 :: "rat option \<Rightarrow> string" where
  "toFixed1 v = (case v of None \<Rightarrow> ''-Infinity''
     | Some x \<Rightarrow> let n = nat \<lfloor>10 * \<bar>x\<bar> + 1 / 2\<rfloor> in
         (if x < 0 then ''-'' else []) @ show_nat (n div 10) @ ''.'' @ show_nat (n mod 10))"

definition report_row :: "measured_row \<Rightarrow> string" where
  "report_row r =
     (let maxHTTP = max_of (concat (map (\<lambda>(id, b, p1, p10). [p1, p10]) (mr_http r)));
          maxUI = max_of (concat (map (\<lambda>(id, ms). map snd ms) (mr_browser r)));
          maxBytes = max_of (map (\<lambda>(id, b, p1, p10). b) (mr_http r)) in
      ''| '' @ show_nat (mr_cardinality r) @ '' | '' @ show_nat (mr_run r) @ '' | '' @
      (case maxBytes of None \<Rightarrow> ''-Infinity'' | Some b \<Rightarrow> show_nat b) @ '' | '' @ toFixed1 maxHTTP @ '' | '' @ toFixed1 maxUI @ '' |'')"

definition decision_text :: "scale_decision \<Rightarrow> string" where
  "decision_text d = (case d of KEEP_FULL_LISTS \<Rightarrow> ''KEEP_FULL_LISTS'' | OPEN_PAGINATION_EPIC \<Rightarrow> ''OPEN_PAGINATION_EPIC'')"

definition nl :: string where
  "nl = [CHR 0x0A]"

definition markdown :: "scale_summary \<Rightarrow> string" where
  "markdown s =
     ''# Scale benchmark decision'' @ nl @ nl @
     ''- Declared operational volume: **'' @ show_nat (observedOperationalVolume s) @ ''** records.'' @ nl @
     ''- Decision: **'' @ decision_text (decision s) @ ''**.'' @ nl @
     ''- Synthetic capacity runs are diagnostic; only the declared/observed operational point can open the implementation gate.'' @ nl @ nl @
     ''| Cardinality | Run | Max payload (B) | Max HTTP p95 (ms) | Max UI p95 (ms) |'' @ nl @
     ''|---:|---:|---:|---:|---:|'' @ nl @ js_join nl (map report_row (s_measurements s)) @ nl @ nl @
     rationale s @ nl"


section \<open>Percentiles\<close>

lemma sorted_nth_counts:
  assumes "sorted xs" and "k < length xs"
  shows "Suc k \<le> length (filter (\<lambda>x. x \<le> xs ! k) xs)" and "length (filter (\<lambda>x. x < xs ! k) xs) \<le> k"
proof -
  have "filter (\<lambda>x. x \<le> xs ! k) (take (Suc k) xs) = take (Suc k) xs"
    using assms by (auto simp: filter_id_conv in_set_conv_nth intro!: sorted_nth_mono)
  then have "Suc k = length (filter (\<lambda>x. x \<le> xs ! k) (take (Suc k) xs))"
    using assms(2) by simp
  also have "\<dots> \<le> length (filter (\<lambda>x. x \<le> xs ! k) (take (Suc k) xs @ drop (Suc k) xs))"
    by (simp only: filter_append length_append le_add1)
  finally show "Suc k \<le> length (filter (\<lambda>x. x \<le> xs ! k) xs)" by simp
  have "filter (\<lambda>x. x < xs ! k) (drop k xs) = []"
    using assms by (auto simp: filter_empty_conv in_set_conv_nth not_less intro!: sorted_nth_mono)
  then have "length (filter (\<lambda>x. x < xs ! k) (take k xs @ drop k xs)) = length (filter (\<lambda>x. x < xs ! k) (take k xs))"
    by (simp only: filter_append length_append list.size)
  also have "\<dots> \<le> k" using length_filter_le [of "\<lambda>x. x < xs ! k" "take k xs"] by simp
  finally show "length (filter (\<lambda>x. x < xs ! k) xs) \<le> k" by simp
qed

definition rank_of :: "nat \<Rightarrow> rat \<Rightarrow> nat" where
  "rank_of n percentile = nat \<lceil>js_double (of_nat n * percentile)\<rceil>"

lemma rank_in_range:
  assumes "n \<noteq> 0" and "n < 2 ^ 53" and "pow2 (- 1074) \<le> p" and "p \<le> 1"
  shows "1 \<le> rank_of n p" and "rank_of n p \<le> n"
proof -
  have p: "0 < p" using assms(3) pow2_pos [of "- 1074"] by linarith
  have "1 * p \<le> of_nat n * p" using assms(1) p by (intro mult_right_mono) simp_all
  then have "0 < js_double (of_nat n * p)" using assms(3) by (intro js_double_positive) linarith
  then show "1 \<le> rank_of n p" by (simp add: rank_of_def Suc_le_eq)
  have "of_nat n * p \<le> of_nat n * 1" using assms(4) by (intro mult_left_mono) simp_all
  then have "js_double (of_nat n * p) \<le> of_nat n"
    using assms(1,2) p by (intro js_double_le_nat) simp_all
  then show "rank_of n p \<le> n" by (simp add: rank_of_def ceiling_le_iff nat_le_iff)
qed

text \<open>The nearest rank is a sample of the list, and the rank taken is in range: at least that many samples
  are at most the answer, and fewer are below it.\<close>

theorem nearestRank_order_statistic:
  assumes "values \<noteq> []" and "length values < 2 ^ 53" and "pow2 (- 1074) \<le> p" and "p \<le> 1"
  shows "case nearestRank values p of
      Inr v \<Rightarrow> v \<in> set values \<and> 1 \<le> rank_of (length values) p \<and> rank_of (length values) p \<le> length values \<and>
        rank_of (length values) p \<le> length (filter (\<lambda>x. x \<le> v) values) \<and>
        length (filter (\<lambda>x. x < v) values) < rank_of (length values) p
    | Inl _ \<Rightarrow> False"
proof -
  define k where "k = rank_of (length values) p - 1"
  have r: "1 \<le> rank_of (length values) p" "rank_of (length values) p \<le> length values"
    using rank_in_range [of "length values" p] assms by simp_all
  then have k: "k < length (sort values)" "rank_of (length values) p = Suc k" by (simp_all add: k_def)
  have perm: "length (filter P (sort values)) = length (filter P values)" for P
    by (metis length_sort filter_sort)
  have p: "0 < p" using assms(3) pow2_pos [of "- 1074"] by linarith
  have "nearestRank values p = Inr (sort values ! k)"
    using assms(1,4) p by (simp add: nearestRank_def k_def rank_of_def Let_def)
  moreover have "sort values ! k \<in> set values" using nth_mem [OF k(1)] by simp
  ultimately show ?thesis
    using sorted_nth_counts [OF _ k(1)] r k(2) by (simp add: perm)
qed

lemma nearestRank_order_statistic_witness:
  "case nearestRank [30, 10, 20, 40] (95 / 100) of Inr v \<Rightarrow> v \<in> set [30, 10, 20, 40] | Inl _ \<Rightarrow> False"
proof -
  have "pow2 (- 1074) \<le> pow2 (- 1)" by (rule pow2_mono) simp
  then have "pow2 (- 1074) \<le> 95 / 100" by (simp add: pow2_def)
  from nearestRank_order_statistic [of "[30, 10, 20, 40]" "95 / 100", OF _ _ this] show ?thesis
    by (auto split: sum.splits)
qed


section \<open>The declared volume\<close>

lemma parse_show_nat:
  "parseObservedOperationalVolume (Some (show_nat n)) =
     (if n \<le> 9007199254740991 then Inr n else Inl ''TENANCIT_SCALE_OBSERVED_VOLUME must be a non-negative integer'')"
proof (cases "n \<le> 9007199254740991")
  case True
  then have "js_double (of_nat n) = of_nat n" by (intro js_double_nat) simp
  with True show ?thesis
    by (simp add: parseObservedOperationalVolume_def js_Number_show_nat isSafeInteger_def)
next
  case False
  then have "9007199254740992 \<le> n" by simp
  then have "of_nat 9007199254740992 \<le> (of_nat n :: rat)" by (simp only: of_nat_le_iff)
  then have "2 ^ 53 \<le> (of_nat n :: rat)" by simp
  from js_double_ge_2_53 [OF this] have "9007199254740992 \<le> js_double (of_nat n)" by simp
  then have "\<not> isSafeInteger (Some (js_double (of_nat n)))" by (simp add: isSafeInteger_def)
  with False show ?thesis
    by (simp add: parseObservedOperationalVolume_def js_Number_show_nat)
qed

text \<open>A decimal numeral in the environment is read back as its value when it is a safe integer, and refused when it is greater.\<close>

theorem volume_roundtrip:
  "parseObservedOperationalVolume (Some (show_nat n)) =
     (if n \<le> 9007199254740991 then Inr n else Inl ''TENANCIT_SCALE_OBSERVED_VOLUME must be a non-negative integer'')"
  by (rule parse_show_nat)

section \<open>The decision\<close>

lemma hd_sort_key_max:
  assumes "sort_key f xs = p # rest"
  shows "p \<in> set xs" and "\<forall>q \<in> set xs. f p \<le> f q"
proof -
  have "set (sort_key f xs) = set (p # rest)" using assms by simp
  then have s: "set xs = set (p # rest)" by simp
  then show "p \<in> set xs" by simp
  have "sorted (map f (p # rest))" using sorted_sort_key [of f xs] assms by simp
  then show "\<forall>q \<in> set xs. f p \<le> f q" using s by auto
qed

lemma operational_pointD:
  assumes "operational_point v pts = Some p"
  shows "p \<in> set pts" and "cp_cardinality p \<le> v"
    and "\<And>q. q \<in> set pts \<Longrightarrow> cp_cardinality q \<le> v \<Longrightarrow> cp_cardinality q \<le> cp_cardinality p"
proof -
  obtain rest where "sort_key (\<lambda>p. - int (cp_cardinality p)) (filter (\<lambda>p. cp_cardinality p \<le> v) pts) = p # rest"
    using assms by (auto simp: operational_point_def split: list.splits)
  from hd_sort_key_max [OF this]
  show "p \<in> set pts" "cp_cardinality p \<le> v" "\<And>q. q \<in> set pts \<Longrightarrow> cp_cardinality q \<le> v \<Longrightarrow> cp_cardinality q \<le> cp_cardinality p"
    by auto
qed

lemma operational_point_None: "operational_point v pts = None \<longleftrightarrow> (\<forall>p \<in> set pts. v < cp_cardinality p)"
proof -
  have "operational_point v pts = None \<longleftrightarrow> sort_key (\<lambda>p. - int (cp_cardinality p)) (filter (\<lambda>p. cp_cardinality p \<le> v) pts) = []"
    by (auto simp: operational_point_def split: list.splits)
  also have "\<dots> \<longleftrightarrow> filter (\<lambda>p. cp_cardinality p \<le> v) pts = []"
    by (metis length_0_conv length_sort)
  finally show ?thesis by (auto simp: filter_empty_conv not_le)
qed

text \<open>With one point a cardinality, the operational point is the greatest one the volume reaches.\<close>

lemma operational_point_iff:
  assumes "distinct (map cp_cardinality pts)"
  shows "operational_point v pts = Some p \<longleftrightarrow>
    p \<in> set pts \<and> cp_cardinality p \<le> v \<and> (\<forall>q \<in> set pts. cp_cardinality q \<le> v \<longrightarrow> cp_cardinality q \<le> cp_cardinality p)"
    (is "_ \<longleftrightarrow> ?R p")
proof
  assume "operational_point v pts = Some p"
  then show "?R p" using operational_pointD by blast
next
  assume p: "?R p"
  then obtain q where q: "operational_point v pts = Some q"
    using operational_point_None [of v pts] by (cases "operational_point v pts") (auto simp: not_le)
  with p have "cp_cardinality q = cp_cardinality p" "q \<in> set pts"
    using operational_pointD [OF q] by (auto intro: antisym)
  then have "q = p" using p assms by (auto simp: distinct_map inj_on_def)
  with q show "operational_point v pts = Some p" by simp
qed

lemma gate_opens:
  "decideScaleGate v pts = OPEN_PAGINATION_EPIC \<longleftrightarrow>
     2000 \<le> v \<or> (\<exists>p. operational_point v pts = Some p \<and> (hardTriggers p \<noteq> [] \<or> softItemCount p \<and> softPayload p))"
  by (auto simp: decideScaleGate_def SCALE_THRESHOLDS_def split: option.splits)


section \<open>The decision of the script\<close>

lemma push_run_runs:
  "(\<exists>rs. (c, rs) \<in> set (push_run m bs) \<and> x \<in> set rs) \<longleftrightarrow> (c = m_cardinality m \<and> x = m) \<or> (\<exists>rs. (c, rs) \<in> set bs \<and> x \<in> set rs)"
  by (induction m bs rule: push_run.induct) auto

lemma push_run_keys: "fst ` set (push_run m bs) = insert (m_cardinality m) (fst ` set bs)"
  by (induction m bs rule: push_run.induct) (auto simp: image_iff)

lemma push_run_distinct: "distinct (map fst bs) \<Longrightarrow> distinct (map fst (push_run m bs))"
proof (induction m bs rule: push_run.induct)
  case (2 m sz runs rest)
  then show ?case using push_run_keys [of m rest] by (auto simp: image_iff)
qed simp

lemma by_size_distinct: "distinct (map fst (by_size ms))"
proof -
  have "distinct (map fst bs) \<Longrightarrow> distinct (map fst (fold push_run ms bs))" for bs
    by (induction ms arbitrary: bs) (auto simp: push_run_distinct)
  then show ?thesis by (simp add: by_size_def)
qed

lemma by_size_runs: "(\<exists>rs. (c, rs) \<in> set (by_size ms) \<and> x \<in> set rs) \<longleftrightarrow> x \<in> set ms \<and> c = m_cardinality x"
proof -
  have "(\<exists>rs. (c, rs) \<in> set (fold push_run ms bs) \<and> x \<in> set rs) \<longleftrightarrow>
      (x \<in> set ms \<and> c = m_cardinality x) \<or> (\<exists>rs. (c, rs) \<in> set bs \<and> x \<in> set rs)" for bs
    by (induction ms arbitrary: bs) (auto simp: push_run_runs)
  then show ?thesis by (simp add: by_size_def)
qed

definition runs_of :: "measurement list \<Rightarrow> nat \<Rightarrow> measurement set" where
  "runs_of files c = {m \<in> set files. m_cardinality m = c}"

lemma by_size_entry:
  assumes "(c, rs) \<in> set (by_size ms)" shows "set rs = runs_of ms c"
proof (rule set_eqI)
  fix x
  have "x \<in> set rs" if "(c, rs') \<in> set (by_size ms)" "x \<in> set rs'" for rs'
    using that assms eq_key_imp_eq_value [OF by_size_distinct] by metis
  then show "x \<in> set rs \<longleftrightarrow> x \<in> runs_of ms c"
    using by_size_runs [of c ms x] assms by (auto simp: runs_of_def)
qed

lemma every_run_True: "every_run test rs = Some True \<longleftrightarrow> (\<forall>r \<in> set rs. test r = Some True)"
  by (induction test rs rule: every_run.induct) (auto split: option.splits bool.splits)

lemma concat_options_Some:
  "concat_options os = Some xs \<Longrightarrow> (\<forall>x \<in> set os. x \<noteq> None) \<and> xs = concat (map the os)"
  by (induction os arbitrary: xs) (auto split: option.splits)

lemma concat_options_map:
  assumes "concat_options (map f xs @ map g ys) = Some zs"
  shows "zs \<noteq> [] \<longleftrightarrow> (\<exists>x \<in> set xs. \<exists>t. f x = Some t \<and> t \<noteq> []) \<or> (\<exists>y \<in> set ys. \<exists>t. g y = Some t \<and> t \<noteq> [])"
proof -
  from concat_options_Some [OF assms]
  have some: "\<And>x. x \<in> set xs \<Longrightarrow> \<exists>t. f x = Some t" "\<And>y. y \<in> set ys \<Longrightarrow> \<exists>t. g y = Some t"
    and zs: "zs = concat (map (\<lambda>x. the (f x)) xs) @ concat (map (\<lambda>y. the (g y)) ys)"
    by (auto simp: comp_def)
  have "zs \<noteq> [] \<longleftrightarrow> (\<exists>x \<in> set xs. the (f x) \<noteq> []) \<or> (\<exists>y \<in> set ys. the (g y) \<noteq> [])"
    by (simp add: zs)
  also have "(\<exists>x \<in> set xs. the (f x) \<noteq> []) \<longleftrightarrow> (\<exists>x \<in> set xs. \<exists>t. f x = Some t \<and> t \<noteq> [])"
    by (rule bex_cong [OF refl]) (use some(1) in force)
  also have "(\<exists>y \<in> set ys. the (g y) \<noteq> []) \<longleftrightarrow> (\<exists>y \<in> set ys. \<exists>t. g y = Some t \<and> t \<noteq> [])"
    by (rule bex_cong [OF refl]) (use some(2) in force)
  finally show ?thesis .
qed

lemma endpoint_triggered:
  "(\<exists>t. endpoint_triggers runs e = Some t \<and> t \<noteq> []) \<Longrightarrow>
     every_run (payload_hard e) runs = Some True \<or> every_run (http_hard e) runs = Some True"
  by (auto simp: endpoint_triggers_def split: option.splits if_splits)

lemma endpoint_trigger:
  assumes "endpoint_triggers runs e \<noteq> None"
    and "every_run (payload_hard e) runs = Some True \<or> every_run (http_hard e) runs = Some True"
  shows "\<exists>t. endpoint_triggers runs e = Some t \<and> t \<noteq> []"
  using assms by (auto simp: endpoint_triggers_def split: option.splits)

lemma surface_triggered: "(\<exists>t. surface_triggers runs x = Some t \<and> t \<noteq> []) \<longleftrightarrow> every_run (ui_hard x) runs = Some True"
  by (auto simp: surface_triggers_def split: if_splits)

text \<open>What the files of a cardinality confirm: the same endpoint, or the same surface, past the limit in every run.\<close>

definition hard_confirmed :: "measurement set \<Rightarrow> bool" where
  "hard_confirmed runs \<longleftrightarrow>
     (\<exists>endpoint. (\<forall>r \<in> runs. \<exists>h. map_of (m_http r) endpoint = Some h \<and> 512000 \<le> hr_bytes (concurrency1 h)) \<or>
       (\<forall>r \<in> runs. \<exists>h. map_of (m_http r) endpoint = Some h \<and> 300 \<le> max (hr_p95Ms (concurrency1 h)) (hr_p95Ms (concurrency10 h)))) \<or>
     (\<exists>surface. \<forall>r \<in> runs. \<exists>ms. map_of (m_browser r) surface = Some ms \<and> (\<exists>(metric, p95) \<in> set ms. 150 \<le> p95))"

definition soft_confirmed :: "nat \<Rightarrow> measurement set \<Rightarrow> bool" where
  "soft_confirmed c runs \<longleftrightarrow> 500 \<le> c \<and> (\<forall>r \<in> runs. \<exists>(id, h) \<in> set (m_http r). 256000 \<le> hr_bytes (concurrency1 h))"

lemma confirmed_triggers:
  assumes "confirmedCapacityTriggers runs = Some ts" and "runs \<noteq> []"
  shows "ts \<noteq> [] \<longleftrightarrow> hard_confirmed (set runs)"
proof -
  let ?p = "\<lambda>e. every_run (payload_hard e) runs" and ?h = "\<lambda>e. every_run (http_hard e) runs" and ?u = "\<lambda>s. every_run (ui_hard s) runs"
  have hd: "hd runs \<in> set runs" using assms(2) by simp
  note c = assms(1) [unfolded confirmedCapacityTriggers_def]
  have e: "endpoint_triggers runs x \<noteq> None" if "x \<in> set (map fst (m_http (hd runs)))" for x
    using concat_options_Some [OF c] that by auto
  have "ts \<noteq> [] \<longleftrightarrow> (\<exists>e \<in> set (map fst (m_http (hd runs))). ?p e = Some True \<or> ?h e = Some True) \<or>
      (\<exists>x \<in> set (map fst (m_browser (hd runs))). ?u x = Some True)"
    unfolding concat_options_map [OF c] surface_triggered
    using e endpoint_triggered [of runs] endpoint_trigger [of runs] by metis
  also have "\<dots> \<longleftrightarrow> (\<exists>e. ?p e = Some True \<or> ?h e = Some True) \<or> (\<exists>x. ?u x = Some True)"
  proof -
    have "e \<in> set (map fst (m_http (hd runs)))" if "?p e = Some True \<or> ?h e = Some True" for e
      using that hd by (force simp: every_run_True payload_hard_def http_hard_def dest: map_of_SomeD)
    moreover have "x \<in> set (map fst (m_browser (hd runs)))" if "?u x = Some True" for x
      using that hd by (force simp: every_run_True ui_hard_def dest: map_of_SomeD)
    ultimately show ?thesis by blast
  qed
  also have "\<dots> \<longleftrightarrow> hard_confirmed (set runs)"
    by (simp add: every_run_True payload_hard_def http_hard_def ui_hard_def hard_confirmed_def SCALE_THRESHOLDS_def list_ex_iff)
  finally show ?thesis .
qed

definition operational_cardinality :: "nat \<Rightarrow> measurement list \<Rightarrow> nat \<Rightarrow> bool" where
  "operational_cardinality observed files c \<longleftrightarrow>
     c \<in> m_cardinality ` set files \<and> c \<le> observed \<and> (\<forall>m \<in> set files. m_cardinality m \<le> observed \<longrightarrow> m_cardinality m \<le> c)"


lemma capacity_list:
  assumes "concat_options (map (\<lambda>entry. map_option (\<lambda>p. [p]) (capacity_of entry)) bs) = Some ps"
  shows "map Some ps = map capacity_of bs"
  using assms by (induction bs arbitrary: ps) (auto split: option.splits)

lemma capacity_of_Some:
  "capacity_of e = Some p \<longleftrightarrow> (\<exists>ts. confirmedCapacityTriggers (snd e) = Some ts \<and>
     p = \<lparr>cp_cardinality = fst e, hardTriggers = ts, softItemCount = fst e \<ge> 500, softPayload = payload250KiB (snd e)\<rparr>)"
  by (cases e) (auto simp: capacity_of_def SCALE_THRESHOLDS_def)

lemma capacity_cardinalities:
  assumes "map Some ps = map capacity_of bs" shows "map cp_cardinality ps = map fst bs"
  using assms
proof (induction ps arbitrary: bs)
  case (Cons q ps)
  then obtain e es where bs: "bs = e # es" and q: "capacity_of e = Some q" "map Some ps = map capacity_of es"
    by (cases bs) auto
  have "cp_cardinality q = fst e" using q(1) unfolding capacity_of_Some by auto
  with bs Cons.IH [OF q(2)] show ?case by simp
qed simp

lemma capacity_point_of:
  assumes "map Some ps = map capacity_of (by_size ms)" and "p \<in> set ps"
  shows "runs_of ms (cp_cardinality p) \<noteq> {}"
    and "hardTriggers p \<noteq> [] \<longleftrightarrow> hard_confirmed (runs_of ms (cp_cardinality p))"
    and "softItemCount p \<and> softPayload p \<longleftrightarrow> soft_confirmed (cp_cardinality p) (runs_of ms (cp_cardinality p))"
proof -
  have "Some p \<in> set (map Some ps)" using assms(2) by simp
  then obtain c rs where e: "(c, rs) \<in> set (by_size ms)" and p: "capacity_of (c, rs) = Some p"
    unfolding assms(1) by auto
  from p obtain ts where ts: "confirmedCapacityTriggers rs = Some ts"
    and p': "p = \<lparr>cp_cardinality = c, hardTriggers = ts, softItemCount = c \<ge> 500, softPayload = payload250KiB rs\<rparr>"
    unfolding capacity_of_Some by auto
  then have c: "cp_cardinality p = c" by simp
  have rs: "set rs = runs_of ms c" by (rule by_size_entry [OF e])
  have ne: "rs \<noteq> []"
  proof -
    have "[] \<notin> snd ` set (push_run m bs)" if "[] \<notin> snd ` set bs" for m bs
      using that by (induction m bs rule: push_run.induct) auto
    then have "[] \<notin> snd ` set (fold push_run ms bs)" if "[] \<notin> snd ` set bs" for bs
      using that by (induction ms arbitrary: bs) auto
    then have "[] \<notin> snd ` set (by_size ms)" by (simp add: by_size_def)
    with e show ?thesis by force
  qed
  then show "runs_of ms (cp_cardinality p) \<noteq> {}" using rs c by (metis set_empty)
  show "hardTriggers p \<noteq> [] \<longleftrightarrow> hard_confirmed (runs_of ms (cp_cardinality p))"
    using confirmed_triggers [OF ts ne] rs c p' by simp
  show "softItemCount p \<and> softPayload p \<longleftrightarrow> soft_confirmed (cp_cardinality p) (runs_of ms (cp_cardinality p))"
    using p' by (simp add: rs soft_confirmed_def payload250KiB_def SCALE_THRESHOLDS_def list_all_iff list_ex_iff split_beta)
qed

lemma capacity_covers:
  assumes "map Some ps = map capacity_of (by_size ms)"
  shows "cp_cardinality ` set ps = m_cardinality ` set ms"
proof -
  have "fst ` set (fold push_run ms bs) = m_cardinality ` set ms \<union> fst ` set bs" for bs
    by (induction ms arbitrary: bs) (auto simp: push_run_keys)
  then have "fst ` set (by_size ms) = m_cardinality ` set ms" by (simp add: by_size_def)
  then show ?thesis
    using capacity_cardinalities [OF assms] by (metis set_map)
qed

lemma operational_point_cardinality:
  assumes "map Some ps = map capacity_of (by_size ms)"
  shows "(\<exists>p. operational_point v ps = Some p \<and> P (cp_cardinality p)) \<longleftrightarrow> (\<exists>c. operational_cardinality v ms c \<and> P c)"
proof -
  have "distinct (map cp_cardinality ps)"
    using capacity_cardinalities [OF assms] by_size_distinct by simp
  note iff = operational_point_iff [OF this]
  have "(\<exists>p. operational_point v ps = Some p \<and> P (cp_cardinality p)) \<longleftrightarrow>
      (\<exists>c \<in> cp_cardinality ` set ps. c \<le> v \<and> (\<forall>d \<in> cp_cardinality ` set ps. d \<le> v \<longrightarrow> d \<le> c) \<and> P c)"
    unfolding iff by blast
  then show ?thesis
    unfolding capacity_covers [OF assms] operational_cardinality_def by blast
qed

lemma sorted_measurements_set: "runs_of (sorted_measurements files) = runs_of files"
    "operational_cardinality v (sorted_measurements files) = operational_cardinality v files"
  by (auto simp: sorted_measurements_def runs_of_def operational_cardinality_def fun_eq_iff)

lemma decision_iff:
  assumes "map Some ps = map capacity_of (by_size ms)"
  shows "decideScaleGate v ps = OPEN_PAGINATION_EPIC \<longleftrightarrow>
     2000 \<le> v \<or> (\<exists>c. operational_cardinality v ms c \<and> (hard_confirmed (runs_of ms c) \<or> soft_confirmed c (runs_of ms c)))"
proof -
  have "(\<exists>p. operational_point v ps = Some p \<and> (hardTriggers p \<noteq> [] \<or> softItemCount p \<and> softPayload p)) \<longleftrightarrow>
      (\<exists>p. operational_point v ps = Some p \<and>
        (hard_confirmed (runs_of ms (cp_cardinality p)) \<or> soft_confirmed (cp_cardinality p) (runs_of ms (cp_cardinality p))))"
    using capacity_point_of(2,3) [OF assms] operational_pointD(1) by metis
  then show ?thesis
    unfolding gate_opens
    by (simp only: operational_point_cardinality [OF assms, of v "\<lambda>c. hard_confirmed (runs_of ms c) \<or> soft_confirmed c (runs_of ms c)"])
qed

text \<open>C14: the script opens the gate exactly when the declared volume is at least 2000 records, or the greatest
  measured cardinality the volume reaches confirms a hard trigger in all its runs or both soft ones. Measurements of
  greater cardinalities never open it.\<close>

theorem scale_gate_opens_iff:
  assumes "summarize_scale volume outputDir files = Inr s"
  shows "parseObservedOperationalVolume volume = Inr (observedOperationalVolume s) \<and>
    (decision s = OPEN_PAGINATION_EPIC \<longleftrightarrow>
      2000 \<le> observedOperationalVolume s \<or>
      (\<exists>c. operational_cardinality (observedOperationalVolume s) files c \<and>
        (hard_confirmed (runs_of files c) \<or> soft_confirmed c (runs_of files c))))"
proof -
  let ?ms = "sorted_measurements files"
  obtain v ps where v: "parseObservedOperationalVolume volume = Inr v"
    and c: "concat_options (map (\<lambda>entry. map_option (\<lambda>p. [p]) (capacity_of entry)) (by_size ?ms)) = Some ps"
    and s: "s = summary_of v ps ?ms"
    using assms by (auto simp: summarize_scale_def Let_def split: sum.splits option.splits if_splits)
  have "observedOperationalVolume s = v" "decision s = decideScaleGate v ps"
    by (simp_all add: s summary_of_def Let_def)
  then show ?thesis
    using v decision_iff [OF capacity_list [OF c], of v] by (simp only: sorted_measurements_set)
qed

definition sample_measurement :: "nat \<Rightarrow> nat \<Rightarrow> nat \<Rightarrow> measurement" where
  "sample_measurement cardinality run bytes =
     \<lparr>m_cardinality = cardinality, m_run = run, m_measuredAt = ''t'', m_environment = [],
      m_http = [(''tenants'', \<lparr>concurrency1 = \<lparr>hr_bytes = bytes, hr_p95Ms = 20\<rparr>, concurrency10 = \<lparr>hr_bytes = bytes, hr_p95Ms = 40\<rparr>\<rparr>)],
      m_browser = [(''desktop-tenants'', [(''render'', 30)])]\<rparr>"

lemma scale_gate_opens_iff_witness:
  "\<exists>s. summarize_scale (Some (show_nat 700)) ''out''
     [sample_measurement 1000 2 10, sample_measurement 500 1 600000, sample_measurement 1000 1 10, sample_measurement 500 2 600000] = Inr s \<and>
     decision s = OPEN_PAGINATION_EPIC"
proof -
  let ?files = "[sample_measurement 1000 2 10, sample_measurement 500 1 600000, sample_measurement 1000 1 10, sample_measurement 500 2 600000]"
  have "\<exists>s. summarize_scale (Some (show_nat 700)) ''out'' ?files = Inr s \<and> observedOperationalVolume s = 700"
    by (simp add: summarize_scale_def parse_show_nat sample_measurement_def sorted_measurements_def by_size_def check_pairs_def
        capacity_of_def confirmedCapacityTriggers_def endpoint_triggers_def surface_triggers_def payload_hard_def http_hard_def
        ui_hard_def SCALE_THRESHOLDS_def summary_of_def Let_def)
  then obtain s where s: "summarize_scale (Some (show_nat 700)) ''out'' ?files = Inr s" and v: "observedOperationalVolume s = 700"
    by blast
  have "operational_cardinality 700 ?files 500" by (simp add: operational_cardinality_def sample_measurement_def)
  moreover have "hard_confirmed (runs_of ?files 500)"
    unfolding hard_confirmed_def
    by (intro disjI1 exI [of _ "''tenants''"]) (auto simp: runs_of_def sample_measurement_def)
  ultimately have "decision s = OPEN_PAGINATION_EPIC"
    using scale_gate_opens_iff [OF s] v by metis
  with s show ?thesis by blast
qed

end
