(* ===== verification/LockedPages.thy ===== *)
theory LockedPages
  imports Pages
begin

text \<open>
  Sessions: runs of a page in which every action of the user is possible at its time, that is, asked
  for by a control on the screen. The contract \<open>locked_page\<close> is that of a page for a user without the
  permission its changes need: what is on the screen then sends nothing and opens nothing. The theories
  of the pages interpret it with their own screens.
\<close>

fun page_session ::
  "('env \<Rightarrow> 'act \<Rightarrow> 's \<Rightarrow> bool) \<Rightarrow> ('env \<Rightarrow> 'act \<Rightarrow> 's \<Rightarrow> 's \<times> 'eff list) \<Rightarrow> ('job \<Rightarrow> 'ans \<Rightarrow> 's \<Rightarrow> 's \<times> 'eff list) \<Rightarrow> ('s \<Rightarrow> 'job list) \<Rightarrow>
     ('env, 'act, 'job, 'ans) page_event list \<Rightarrow> 's \<Rightarrow> bool" where
  "page_session possible handle settle jobs [] s = True"
| "page_session possible handle settle jobs (ev # evs) s =
     ((case ev of Act env a \<Rightarrow> possible env a s | Answer j r \<Rightarrow> True) \<and>
      page_session possible handle settle jobs evs (fst (page_step handle settle jobs ev s)))"

lemma run_page_append:
  "run_page handle settle jobs (evs @ fs) s =
     (let (s1, es1) = run_page handle settle jobs evs s; (s2, es2) = run_page handle settle jobs fs s1 in (s2, es1 @ es2))"
  by (induction evs arbitrary: s) (simp_all add: case_prod_beta Let_def)

lemma page_session_append:
  "page_session possible handle settle jobs (evs @ fs) s \<longleftrightarrow>
     page_session possible handle settle jobs evs s \<and> page_session possible handle settle jobs fs (fst (run_page handle settle jobs evs s))"
  by (induction evs arbitrary: s) (auto simp: case_prod_beta Let_def)

lemma page_session_invariant:
  assumes "\<And>env a s. I s \<Longrightarrow> possible env a s \<Longrightarrow> I (fst (handle env a s))"
    and "\<And>j r s. I s \<Longrightarrow> j \<in> set (jobs s) \<Longrightarrow> I (fst (settle j r s))"
  shows "page_session possible handle settle jobs evs s \<Longrightarrow> I s \<Longrightarrow> I (fst (run_page handle settle jobs evs s))"
proof (induction evs arbitrary: s)
  case (Cons ev evs)
  then have "I (fst (page_step handle settle jobs ev s))" using assms by (cases ev) auto
  with Cons show ?case by (simp add: case_prod_beta Let_def)
qed simp

text \<open>An action is possible when a control on offer asks for it; what is typed is up to the user.\<close>

definition asks_for :: "('i \<Rightarrow> string \<Rightarrow> 'a) \<Rightarrow> ('a, 'i) control list \<Rightarrow> 'a \<Rightarrow> bool" where
  "asks_for typed controls a \<longleftrightarrow> Do a \<in> set controls \<or> (\<exists>i v. TypeIn i \<in> set controls \<and> a = typed i v)"

locale locked_page = page_machine handle settle jobs sends valid
  for handle :: "'env \<Rightarrow> 'act \<Rightarrow> 's \<Rightarrow> 's \<times> 'eff list" and settle :: "'job \<Rightarrow> 'ans \<Rightarrow> 's \<Rightarrow> 's \<times> 'eff list"
    and jobs :: "'s \<Rightarrow> 'job list" and sends :: "'eff list \<Rightarrow> 'job list" and valid :: "'job \<Rightarrow> bool" +
  fixes possible :: "'env \<Rightarrow> 'act \<Rightarrow> 's \<Rightarrow> bool" and locked :: "'s \<Rightarrow> bool"
  assumes handle_locked: "locked s \<Longrightarrow> possible env a s \<Longrightarrow> locked (fst (handle env a s)) \<and> sends (snd (handle env a s)) = []"
    and settle_locked: "locked s \<Longrightarrow> locked (fst (settle j r s))"
begin

theorem session_sends_nothing:
  "page_session possible handle settle jobs evs s \<Longrightarrow> locked s \<Longrightarrow> sends (snd (run evs s)) = [] \<and> locked (fst (run evs s))"
proof (induction evs arbitrary: s)
  case (Cons ev evs)
  let ?s1 = "fst (page_step handle settle jobs ev s)"
  have step: "locked ?s1 \<and> sends (snd (page_step handle settle jobs ev s)) = []"
    using Cons.prems by (cases ev) (auto simp: handle_locked settle_locked settle_sends sends_Nil)
  moreover have "page_session possible handle settle jobs evs ?s1" using Cons.prems by simp
  ultimately have "sends (snd (run evs ?s1)) = [] \<and> locked (fst (run evs ?s1))" using Cons.IH by blast
  moreover have "fst (run (ev # evs) s) = fst (run evs ?s1)" by (simp add: split_beta Let_def)
  moreover have "sends (snd (run (ev # evs) s)) = sends (snd (page_step handle settle jobs ev s)) @ sends (snd (run evs ?s1))"
    by (simp only: sends_run_Cons sends_step)
  ultimately show ?case using step by simp
qed (simp add: sends_Nil)

end

end
