(* ===== verification/DefinitionDetail.thy ===== *)
theory DefinitionDetail
  imports LockedPages I18n Navigation Validation QueryCache
begin

text \<open>
  The page of one resource definition (\<open>web/src/routes/definition-detail/-components/page.tsx\<close> and
  \<open>definition-field-edit-dialog.tsx\<close>, with the menu of \<open>components/definition-actions.tsx\<close>): state,
  handlers, what follows an answer, and what it renders. The answer of a job is the settling of
  \<open>mutateAsync\<close>, which includes the mutation's \<open>onSuccess\<close>. Theorems: what is sent is checked, and a
  user who may not write resources cannot make the page send anything.
\<close>

section \<open>State\<close>

record field_form =
  ff_key :: string
  ff_label :: string
  ff_dataType :: string
  ff_required :: bool
  ff_isSecret :: bool

definition EMPTY_FIELD :: field_form where
  "EMPTY_FIELD = \<lparr>ff_key = [], ff_label = [], ff_dataType = ''string'', ff_required = False, ff_isSecret = False\<rparr>"

record DefinitionFieldEditForm =
  fm_label :: string
  fm_required :: bool

record definition_form =
  df_name :: string
  df_description :: string

datatype definition_job =
    AddFieldJob field_form
  | DeleteFieldJob string
  | UpdateFieldMetaJob string DefinitionFieldEditForm
  | DefinitionStatusJob string
  | UpdateDefinitionJob definition_form
  | DeleteDefinitionJob

record definition_page =
  dp_error :: string
  dp_fieldError :: string
  dp_open :: bool
  dp_form :: field_form
  dp_editingField :: "Field option"
  dp_fieldEditForm :: DefinitionFieldEditForm
  dp_fieldEditError :: string
  dp_pendingField :: "Field option"
  dp_editOpen :: bool
  dp_removeOpen :: bool
  dp_editForm :: definition_form
  dp_jobs :: "definition_job list"

definition initial_definition :: definition_page where
  "initial_definition =
     \<lparr>dp_error = [], dp_fieldError = [], dp_open = False, dp_form = EMPTY_FIELD, dp_editingField = None,
      dp_fieldEditForm = \<lparr>fm_label = [], fm_required = False\<rparr>, dp_fieldEditError = [], dp_pendingField = None, dp_editOpen = False,
      dp_removeOpen = False, dp_editForm = \<lparr>df_name = [], df_description = []\<rparr>, dp_jobs = []\<rparr>"

record definition_env =
  de_caps :: AdminCapabilities
  de_detail :: "DefinitionDetail option"
  de_pending :: bool
  de_error :: "api_error option"

definition fieldKeyValid :: "definition_page \<Rightarrow> bool" where
  "fieldKeyValid s = isValidDefinitionKey (ff_key (dp_form s))"

definition definitionVisibleError :: "definition_env \<Rightarrow> definition_page \<Rightarrow> string" where
  "definitionVisibleError env s =
     (if dp_error s \<noteq> [] then dp_error s else case de_error env of Some e \<Rightarrow> apiErrorMessage e | None \<Rightarrow> [])"

section \<open>Handlers\<close>

datatype definition_input = FieldKeyInput | FieldLabelInput | MetaLabelInput | DefinitionNameInput | DefinitionDescriptionInput

datatype (plugins only: code) definition_action =
    OpenNewField | SetNewFieldOpen bool | SetDataType string | ToggleRequired | ToggleSecret | AddField
  | AskRemoveField Field | CancelRemoveField | RemoveField
  | OpenFieldEditor Field | ToggleMetaRequired | CloseFieldEditor | SaveField
  | ToggleStatus | OpenEditor | SetEditorOpen bool | SaveDefinition
  | SetRemoveOpen bool | RemoveDefinition
  | DefinitionInput definition_input string
  | ToDefinitions

datatype definition_effect = SendDefinition definition_job | DefinitionCache "cache_command list" | DefinitionToast string | DefinitionGoTo string

definition send_definition :: "definition_job \<Rightarrow> definition_page \<Rightarrow> definition_page \<times> definition_effect list" where
  "send_definition j s = (s\<lparr>dp_jobs := dp_jobs s @ [j]\<rparr>, [SendDefinition j])"

definition addField :: "definition_page \<Rightarrow> definition_page \<times> definition_effect list" where
  "addField s =
     (if \<not> fieldKeyValid s then (s, [])
      else if js_trim (ff_key (dp_form s)) = [] then (s, [])
      else send_definition (AddFieldJob (dp_form s)) s)"

definition removeField :: "definition_page \<Rightarrow> definition_page \<times> definition_effect list" where
  "removeField s = (case dp_pendingField s of None \<Rightarrow> (s, []) | Some f \<Rightarrow> send_definition (DeleteFieldJob (f_id f)) s)"

definition openFieldEditor :: "Field \<Rightarrow> definition_page \<Rightarrow> definition_page" where
  "openFieldEditor field s =
     s\<lparr>dp_fieldEditError := [], dp_fieldEditForm := \<lparr>fm_label = f_label field, fm_required = f_required field\<rparr>, dp_editingField := Some field\<rparr>"

definition saveField :: "definition_page \<Rightarrow> definition_page \<times> definition_effect list" where
  "saveField s =
     (case dp_editingField s of None \<Rightarrow> (s, []) | Some f \<Rightarrow> send_definition (UpdateFieldMetaJob (f_id f) (dp_fieldEditForm s)) s)"

definition toggleStatus :: "definition_env \<Rightarrow> definition_page \<Rightarrow> definition_page \<times> definition_effect list" where
  "toggleStatus env s =
     (case de_detail env of None \<Rightarrow> (s, [])
      | Some detail \<Rightarrow>
          send_definition (DefinitionStatusJob (if d_status (dd_definition detail) = ''active'' then ''inactive'' else ''active'')) s)"

definition openEditor :: "definition_env \<Rightarrow> definition_page \<Rightarrow> definition_page" where
  "openEditor env s =
     (case de_detail env of None \<Rightarrow> s
      | Some detail \<Rightarrow>
          s\<lparr>dp_error := [], dp_editForm := \<lparr>df_name = d_name (dd_definition detail), df_description = d_description (dd_definition detail)\<rparr>,
            dp_editOpen := True\<rparr>)"

definition saveDefinition :: "definition_page \<Rightarrow> definition_page \<times> definition_effect list" where
  "saveDefinition s =
     (if js_trim (df_name (dp_editForm s)) = [] then (s, []) else send_definition (UpdateDefinitionJob (dp_editForm s)) s)"

definition definition_input :: "definition_input \<Rightarrow> string \<Rightarrow> definition_page \<Rightarrow> definition_page" where
  "definition_input i v s =
     (case i of
        FieldKeyInput \<Rightarrow> s\<lparr>dp_form := (dp_form s)\<lparr>ff_key := v\<rparr>\<rparr>
      | FieldLabelInput \<Rightarrow> s\<lparr>dp_form := (dp_form s)\<lparr>ff_label := v\<rparr>\<rparr>
      | MetaLabelInput \<Rightarrow> s\<lparr>dp_fieldEditForm := (dp_fieldEditForm s)\<lparr>fm_label := v\<rparr>\<rparr>
      | DefinitionNameInput \<Rightarrow> s\<lparr>dp_editForm := (dp_editForm s)\<lparr>df_name := v\<rparr>\<rparr>
      | DefinitionDescriptionInput \<Rightarrow> s\<lparr>dp_editForm := (dp_editForm s)\<lparr>df_description := v\<rparr>\<rparr>)"

definition handle_definition :: "definition_env \<Rightarrow> definition_action \<Rightarrow> definition_page \<Rightarrow> definition_page \<times> definition_effect list" where
  "handle_definition env a s =
     (case a of
        OpenNewField \<Rightarrow> (s\<lparr>dp_form := EMPTY_FIELD, dp_fieldError := [], dp_open := True\<rparr>, [])
      | SetNewFieldOpen b \<Rightarrow> (s\<lparr>dp_open := b\<rparr>, [])
      | SetDataType v \<Rightarrow> (s\<lparr>dp_form := (dp_form s)\<lparr>ff_dataType := v\<rparr>\<rparr>, [])
      | ToggleRequired \<Rightarrow> (s\<lparr>dp_form := (dp_form s)\<lparr>ff_required := \<not> ff_required (dp_form s)\<rparr>\<rparr>, [])
      | ToggleSecret \<Rightarrow> (s\<lparr>dp_form := (dp_form s)\<lparr>ff_isSecret := \<not> ff_isSecret (dp_form s)\<rparr>\<rparr>, [])
      | AddField \<Rightarrow> addField s
      | AskRemoveField f \<Rightarrow> (s\<lparr>dp_pendingField := Some f\<rparr>, [])
      | CancelRemoveField \<Rightarrow> (s\<lparr>dp_pendingField := None\<rparr>, [])
      | RemoveField \<Rightarrow> removeField s
      | OpenFieldEditor f \<Rightarrow> (openFieldEditor f s, [])
      | ToggleMetaRequired \<Rightarrow> (s\<lparr>dp_fieldEditForm := (dp_fieldEditForm s)\<lparr>fm_required := \<not> fm_required (dp_fieldEditForm s)\<rparr>\<rparr>, [])
      | CloseFieldEditor \<Rightarrow> (s\<lparr>dp_editingField := None, dp_fieldEditError := []\<rparr>, [])
      | SaveField \<Rightarrow> saveField s
      | ToggleStatus \<Rightarrow> toggleStatus env s
      | OpenEditor \<Rightarrow> (openEditor env s, [])
      | SetEditorOpen b \<Rightarrow> (s\<lparr>dp_editOpen := b\<rparr>, [])
      | SaveDefinition \<Rightarrow> saveDefinition s
      | SetRemoveOpen b \<Rightarrow> (s\<lparr>dp_removeOpen := b\<rparr>, [])
      | RemoveDefinition \<Rightarrow> send_definition DeleteDefinitionJob s
      | DefinitionInput i v \<Rightarrow> (definition_input i v s, [])
      | ToDefinitions \<Rightarrow> (s, [DefinitionGoTo ''/resource-definitions'']))"

section \<open>When a call comes back\<close>

definition definition_commands :: "string \<Rightarrow> definition_job \<Rightarrow> cache_command list" where
  "definition_commands i j =
     (case j of DeleteDefinitionJob \<Rightarrow> invalidateAllTenantResources | _ \<Rightarrow> invalidateDefinition i @ invalidateAllTenantResources)"

definition definition_succeeded :: "definition_job \<Rightarrow> definition_page \<Rightarrow> definition_page \<times> definition_effect list" where
  "definition_succeeded j s =
     (case j of
        AddFieldJob _ \<Rightarrow> (s\<lparr>dp_form := EMPTY_FIELD, dp_fieldError := [], dp_open := False\<rparr>, [DefinitionToast ''definitionDetail.fieldAdded''])
      | DeleteFieldJob _ \<Rightarrow> (s\<lparr>dp_error := [], dp_pendingField := None\<rparr>, [DefinitionToast ''definitionDetail.fieldRemoved''])
      | UpdateFieldMetaJob _ _ \<Rightarrow> (s\<lparr>dp_editingField := None, dp_fieldEditError := []\<rparr>, [DefinitionToast ''definitionDetail.fieldUpdated''])
      | DefinitionStatusJob next' \<Rightarrow>
          (s\<lparr>dp_error := []\<rparr>, [DefinitionToast (if next' = ''active'' then ''definitionDetail.statusActivated'' else ''definitionDetail.statusDeactivated'')])
      | UpdateDefinitionJob _ \<Rightarrow> (s\<lparr>dp_editOpen := False, dp_error := []\<rparr>, [DefinitionToast ''definitionDetail.updated''])
      | DeleteDefinitionJob \<Rightarrow>
          (s\<lparr>dp_removeOpen := False\<rparr>, [DefinitionToast ''definitionDetail.removed'', DefinitionGoTo ''/resource-definitions'']))"

definition definition_failed :: "definition_job \<Rightarrow> api_error \<Rightarrow> definition_page \<Rightarrow> definition_page" where
  "definition_failed j e s =
     (let m = apiErrorMessage e in
      case j of
        AddFieldJob _ \<Rightarrow> s\<lparr>dp_fieldError := m\<rparr>
      | UpdateFieldMetaJob _ _ \<Rightarrow> s\<lparr>dp_fieldEditError := m\<rparr>
      | DeleteDefinitionJob \<Rightarrow> s\<lparr>dp_removeOpen := False, dp_error := m\<rparr>
      | _ \<Rightarrow> s\<lparr>dp_error := m\<rparr>)"

definition settle_definition :: "string \<Rightarrow> definition_job \<Rightarrow> (api_error + unit) \<Rightarrow> definition_page \<Rightarrow> definition_page \<times> definition_effect list" where
  "settle_definition i j result s =
     (let s = s\<lparr>dp_jobs := remove1 j (dp_jobs s)\<rparr> in
      case result of
        Inl e \<Rightarrow> (definition_failed j e s, [])
      | Inr _ \<Rightarrow> let (s', es) = definition_succeeded j s in (s', DefinitionCache (definition_commands i j) # es))"

definition definition_call :: "string \<Rightarrow> definition_job \<Rightarrow> api_call" where
  "definition_call i j =
     (case j of
        AddFieldJob f \<Rightarrow> api_call.AddField i (ff_key f) (Some (ff_label f)) (Some (ff_dataType f)) (Some (ff_required f)) (Some (ff_isSecret f))
      | DeleteFieldJob fieldId \<Rightarrow> DeleteField i fieldId
      | UpdateFieldMetaJob fieldId f \<Rightarrow> UpdateDefinitionField i fieldId (fm_label f) (fm_required f)
      | DefinitionStatusJob status \<Rightarrow> SetDefinitionStatus i status
      | UpdateDefinitionJob f \<Rightarrow> UpdateDefinition i (df_name f) (df_description f)
      | DeleteDefinitionJob \<Rightarrow> DeleteDefinition i)"


section \<open>The page\<close>

type_synonym definition_view = "(definition_action, definition_input) control view"

definition definitionActions :: "translation \<Rightarrow> Definition \<Rightarrow> 'a \<Rightarrow> 'a \<Rightarrow> 'a \<Rightarrow> ('a, 'i) control view" where
  "definitionActions t d onEdit onRemove onToggleStatus =
     el ''menu'' [(''aria-label'', t ''common.actions'' [])]
       [do_button False onEdit [Txt (t ''common.edit'' [])],
        do_button False onToggleStatus
          [el ''icon'' [(''name'', if d_status d = ''active'' then ''PowerOff'' else ''Power'')] [],
           Txt (t (if d_status d = ''active'' then ''definitionDetail.deactivate'' else ''definitionDetail.activate'') [])],
        do_button False onRemove [Txt (t ''common.remove'' [])]]"

definition dash_text :: "'a view" where
  "dash_text = Txt [CHR 0x97]"

definition fieldRow :: "translation \<Rightarrow> AdminCapabilities \<Rightarrow> Field \<Rightarrow> definition_view" where
  "fieldRow t caps f =
     el ''tr'' []
       [el ''code'' [] [Txt (f_key f)], (if f_label f \<noteq> [] then Txt (f_label f) else dash_text), el ''code'' [] [Txt (f_data_type f)],
        (if f_required f then el ''icon'' [(''name'', ''Check'')] [] else dash_text),
        (if f_is_secret f then el ''icon'' [(''name'', ''Check'')] [] else dash_text),
        el ''td'' [] (if can caps ResourceWritePermission then
          [do_button False (OpenFieldEditor f) [el ''icon'' [(''aria-label'', t ''definitionDetail.editFieldAction'' [(''key'', f_key f)])] []],
           do_button False (AskRemoveField f) [el ''icon'' [(''title'', t ''common.remove'' [])] []]] else [])]"

definition fieldsCard :: "translation \<Rightarrow> AdminCapabilities \<Rightarrow> Field list \<Rightarrow> definition_view" where
  "fieldsCard t caps items =
     el ''card'' []
       ([el ''h3'' [] [Txt (t ''definitionDetail.fieldsTitle'' [])], hint (t ''definitionDetail.fieldsDescription'' [])] @
        (if items = [] then [hint (t ''definitionDetail.emptyDescription'' [])]
         else el ''tr'' [] (map (\<lambda>k. el ''th'' [] [Txt (t k [])])
            [''common.key'', ''common.label'', ''common.type'', ''definitionDetail.requiredTitle'', ''common.secret'', ''common.actions'']) #
           map (fieldRow t caps) items))"

definition check_box :: "bool \<Rightarrow> 'a \<Rightarrow> string \<Rightarrow> ('a, 'i) control view" where
  "check_box isChecked a name = Elem ''checkbox'' ([(''id'', name)] @ flag ''checked'' isChecked) [(''onCheckedChange'', Do a)] []"

definition data_types :: "translation \<Rightarrow> (string \<times> string) list" where
  "data_types t = [(t ''definitionDetail.dataTypeString'' [], ''string''), (t ''definitionDetail.dataTypeInt'' [], ''int''), (t ''definitionDetail.dataTypeBool'' [], ''bool'')]"

definition addFieldPending :: "definition_page \<Rightarrow> bool" where
  "addFieldPending s = list_ex (\<lambda>j. case j of AddFieldJob _ \<Rightarrow> True | _ \<Rightarrow> False) (dp_jobs s)"

definition updateFieldPending :: "definition_page \<Rightarrow> bool" where
  "updateFieldPending s = list_ex (\<lambda>j. case j of UpdateFieldMetaJob _ _ \<Rightarrow> True | _ \<Rightarrow> False) (dp_jobs s)"

definition updateDefinitionPending :: "definition_page \<Rightarrow> bool" where
  "updateDefinitionPending s = list_ex (\<lambda>j. case j of UpdateDefinitionJob _ \<Rightarrow> True | _ \<Rightarrow> False) (dp_jobs s)"

definition deleteDefinitionPending :: "definition_page \<Rightarrow> bool" where
  "deleteDefinitionPending s = list_ex (\<lambda>j. j = DeleteDefinitionJob) (dp_jobs s)"

definition newFieldDialog :: "translation \<Rightarrow> definition_page \<Rightarrow> definition_view list" where
  "newFieldDialog t s =
     (let f = dp_form s; ok = fieldKeyValid s in
      dialog (dp_open s) (Do (SetNewFieldOpen False)) (t ''definitionDetail.newField'' []) (t ''definitionDetail.newFieldDescription'' [])
        ([label (t ''common.key'' []),
          text_field FieldKeyInput (flag ''aria-invalid'' (ff_key f \<noteq> [] \<and> \<not> ok) @ [(''maxLength'', ''63''), (''placeholder'', ''host'')]) (ff_key f),
          hint (t ''validation.definitionKey'' []),
          label (t ''common.label'' []), text_field FieldLabelInput [(''placeholder'', ''Host'')] (ff_label f),
          label (t ''common.type'' []), select (\<lambda>v. Do (SetDataType v)) (ff_dataType f) (data_types t),
          label (t ''definitionDetail.requiredTitle'' []), hint (t ''definitionDetail.requiredDescription'' []),
          check_box (ff_required f) ToggleRequired ''definition-field-required'',
          label (t ''common.secret'' []), hint (t ''definitionDetail.secretDescription'' []),
          check_box (ff_isSecret f) ToggleSecret ''definition-field-secret''] @
         shown_message t (dp_fieldError s) @
         [do_button False (SetNewFieldOpen False) [Txt (t ''common.cancel'' [])],
          do_button (\<not> ok \<or> addFieldPending s) AddField [Txt (t ''definitionDetail.addField'' [])]]))"

text \<open>Key, type and secrecy of a field are shown but not editable.\<close>

definition fieldEditDialog :: "translation \<Rightarrow> string \<Rightarrow> Field option \<Rightarrow> DefinitionFieldEditForm \<Rightarrow> bool \<Rightarrow> definition_view list" where
  "fieldEditDialog t message field form isSaving =
     (case field of None \<Rightarrow> []
      | Some f \<Rightarrow>
          let dataTypeLabel = t (if f_data_type f = ''bool'' then ''definitionDetail.dataTypeBool''
                else if f_data_type f = ''int'' then ''definitionDetail.dataTypeInt'' else ''definitionDetail.dataTypeString'') [] in
          dialog True (Do CloseFieldEditor) (t ''definitionDetail.editFieldTitle'' []) (t ''definitionDetail.editFieldDescription'' [(''key'', f_key f)])
            ([label (t ''common.key'' []), el ''input'' [(''disabled'', ''true''), (''value'', f_key f)] [],
              label (t ''common.label'' []), text_field MetaLabelInput [(''maxLength'', ''120'')] (fm_label form),
              label (t ''common.type'' []), el ''input'' [(''disabled'', ''true''), (''value'', dataTypeLabel)] [],
              check_box (fm_required form) ToggleMetaRequired ''definition-field-edit-required'', label (t ''definitionDetail.requiredTitle'' []),
              el ''checkbox'' (flag ''checked'' (f_is_secret f) @ [(''disabled'', ''true'')]) [], label (t ''common.secret'' [])] @
             shown_message t message @
             [do_button False CloseFieldEditor [Txt (t ''common.cancel'' [])],
              do_button isSaving SaveField [Txt (t ''common.save'' [])]]))"

definition editDefinitionDialog :: "translation \<Rightarrow> Definition \<Rightarrow> definition_page \<Rightarrow> definition_view list" where
  "editDefinitionDialog t d s =
     dialog (dp_editOpen s) (Do (SetEditorOpen False)) (t ''definitionDetail.editTitle'' []) (t ''definitionDetail.editDescription'' [(''key'', d_key d)])
       ([label (t ''common.name'' []), text_field DefinitionNameInput [(''maxLength'', ''120'')] (df_name (dp_editForm s)),
         label (t ''common.description'' []), text_field DefinitionDescriptionInput [(''maxLength'', ''500'')] (df_description (dp_editForm s))] @
        shown_message t (dp_error s) @
        [do_button False (SetEditorOpen False) [Txt (t ''common.cancel'' [])],
         do_button (js_trim (df_name (dp_editForm s)) = [] \<or> updateDefinitionPending s) SaveDefinition [Txt (t ''common.save'' [])]])"

definition definitionRemovals :: "translation \<Rightarrow> Definition \<Rightarrow> definition_page \<Rightarrow> definition_view list" where
  "definitionRemovals t d s =
     confirmDialog (t ''common.cancel'' []) [] False (t ''common.removeConfirm'' [])
       (t ''definitionDetail.removeFieldDescription'' [(''fieldKey'', case dp_pendingField s of Some f \<Rightarrow> f_key f | None \<Rightarrow> [])])
       (Do RemoveField) (Do CancelRemoveField) (dp_pendingField s \<noteq> None) (t ''definitionDetail.removeFieldTitle'' []) @
     confirmDialog (t ''common.cancel'' []) [] (deleteDefinitionPending s) (t ''common.removeConfirm'' [])
       (t ''definitionDetail.removeDescription'' [(''name'', d_name d)])
       (Do RemoveDefinition) (Do (SetRemoveOpen False)) (dp_removeOpen s) (t ''definitionDetail.removeTitle'' [])"

definition definitionDetailPage :: "translation \<Rightarrow> (string \<Rightarrow> string) \<Rightarrow> definition_env \<Rightarrow> definition_page \<Rightarrow> definition_view" where
  "definitionDetailPage t fs env s =
     (let message = definitionVisibleError env s; alert = shown_if (message \<noteq> []) (el ''alert'' [] [Txt (t message [])]) in
      case de_detail env of
        None \<Rightarrow>
          el ''div'' [] (alert @
            [hint (t (if de_pending env then ''common.loading'' else if message \<noteq> [] then ''definitionDetail.loadError'' else ''definitionDetail.notFound'') []),
             do_button False ToDefinitions [Txt (t ''definitionDetail.back'' [])]])
      | Some detail \<Rightarrow>
          let d = dd_definition detail in
          el ''div'' [] (alert @
            [do_button False ToDefinitions [Txt (t ''definitions.title'' [])], el ''h1'' [] [Txt (d_name d)], el ''code'' [] [Txt (d_key d)],
             domainStatus (fs (d_status d)) (d_status d)] @
            (if can (de_caps env) ResourceWritePermission then
               [do_button False OpenNewField [Txt (t ''definitionDetail.newField'' [])],
                definitionActions t d OpenEditor (SetRemoveOpen True) ToggleStatus] else []) @
            [fieldsCard t (de_caps env) (dd_fields detail)] @
            newFieldDialog t s @ fieldEditDialog t (dp_fieldEditError s) (dp_editingField s) (dp_fieldEditForm s) (updateFieldPending s) @
            editDefinitionDialog t d s @ definitionRemovals t d s))"


section \<open>The page as a machine\<close>

definition definition_sent :: "definition_effect list \<Rightarrow> definition_job list" where
  "definition_sent es = concat (map (\<lambda>e. case e of SendDefinition j \<Rightarrow> [j] | _ \<Rightarrow> []) es)"

definition definition_job_valid :: "definition_job \<Rightarrow> bool" where
  "definition_job_valid j =
     (case j of AddFieldJob f \<Rightarrow> isValidDefinitionKey (ff_key f) | UpdateDefinitionJob f \<Rightarrow> js_trim (df_name f) \<noteq> []
      | DefinitionStatusJob status \<Rightarrow> status \<in> set [''active'', ''inactive''] | _ \<Rightarrow> True)"

lemma definition_sent_simps [simp]:
  "definition_sent [] = []" "definition_sent (SendDefinition j # es) = j # definition_sent es"
  "definition_sent (DefinitionCache c # es) = definition_sent es" "definition_sent (DefinitionToast m # es) = definition_sent es"
  "definition_sent (DefinitionGoTo p # es) = definition_sent es" "definition_sent (es @ fs) = definition_sent es @ definition_sent fs"
  by (simp_all add: definition_sent_def)

lemma handle_definition_sends:
  "dp_jobs (fst (handle_definition env a s)) = dp_jobs s @ definition_sent (snd (handle_definition env a s)) \<and>
     list_all definition_job_valid (definition_sent (snd (handle_definition env a s)))"
  by (cases a)
    (simp_all add: handle_definition_def addField_def removeField_def openFieldEditor_def saveField_def toggleStatus_def openEditor_def
      saveDefinition_def definition_input_def send_definition_def definition_job_valid_def fieldKeyValid_def
      split: option.split definition_input.split)

lemma settle_definition_frame:
  "dp_jobs (fst (settle_definition i j r s)) = remove1 j (dp_jobs s) \<and> definition_sent (snd (settle_definition i j r s)) = []"
  by (simp add: settle_definition_def definition_succeeded_def definition_failed_def Let_def split_beta split: sum.split definition_job.split)

interpretation definition_machine: page_machine handle_definition "settle_definition i" dp_jobs definition_sent definition_job_valid for i
  using handle_definition_sends settle_definition_frame by unfold_locales (auto simp: list_all_iff)

section \<open>Readers\<close>

definition definition_dialogs_closed :: "definition_page \<Rightarrow> bool" where
  "definition_dialogs_closed s \<longleftrightarrow>
     \<not> dp_open s \<and> dp_editingField s = None \<and> dp_pendingField s = None \<and> \<not> dp_editOpen s \<and> \<not> dp_removeOpen s"

text \<open>What a user without the permission to write resources can do.\<close>

definition definition_reader ::
  "translation \<Rightarrow> (string \<Rightarrow> string) \<Rightarrow> definition_env \<Rightarrow> definition_action \<Rightarrow> definition_page \<Rightarrow> bool" where
  "definition_reader t fs env a s \<longleftrightarrow>
     \<not> can (de_caps env) ResourceWritePermission \<and> asks_for DefinitionInput (offered (definitionDetailPage t fs env s)) a"

lemma offered_fields_reader: "\<not> can caps ResourceWritePermission \<Longrightarrow> offered (fieldsCard t caps items) = []"
  by (simp add: fieldsCard_def fieldRow_def dash_text_def comp_def)

lemma offered_reader:
  assumes "definition_dialogs_closed s" and "\<not> can (de_caps env) ResourceWritePermission"
  shows "set (offered (definitionDetailPage t fs env s)) \<subseteq> {Do ToDefinitions}"
  using assms
  by (auto simp: definitionDetailPage_def definition_dialogs_closed_def offered_fields_reader newFieldDialog_def fieldEditDialog_def
      editDefinitionDialog_def definitionRemovals_def confirmDialog_def domainStatus_def Let_def split: option.splits)

lemma definition_reader_action:
  "definition_reader t fs env a s \<Longrightarrow> definition_dialogs_closed s \<Longrightarrow> a = ToDefinitions"
  using offered_reader [of s env t fs] by (auto simp: definition_reader_def asks_for_def)

interpretation definition_locked: locked_page handle_definition "settle_definition i" dp_jobs definition_sent definition_job_valid
  "definition_reader t fs" definition_dialogs_closed for i t fs
proof
  show "definition_dialogs_closed (fst (handle_definition env a s)) \<and> definition_sent (snd (handle_definition env a s)) = []"
    if "definition_dialogs_closed s" "definition_reader t fs env a s" for s env a
    using that definition_reader_action [OF that(2,1)] by (simp add: handle_definition_def)
  show "definition_dialogs_closed (fst (settle_definition i j r s))" if "definition_dialogs_closed s" for j r s
    using that by (simp add: settle_definition_def definition_succeeded_def definition_failed_def definition_dialogs_closed_def Let_def split_beta
        split: sum.split definition_job.split)
qed

text \<open>A user without the permission to write resources, using what is on the page, never makes it send a call.\<close>

theorem definition_reader_sends_nothing:
  assumes "page_session (definition_reader t fs) handle_definition (settle_definition i) dp_jobs evs initial_definition"
  shows "definition_sent (snd (run_page handle_definition (settle_definition i) dp_jobs evs initial_definition)) = []"
  using definition_locked.session_sends_nothing [OF assms] by (simp add: definition_dialogs_closed_def initial_definition_def)

lemma definition_reader_sends_nothing_witness:
  "definition_sent (snd (run_page handle_definition (settle_definition ''d1'') dp_jobs
     [Act \<lparr>de_caps = AdminCapabilitiesProvider [''admin.read''], de_detail = None, de_pending = False, de_error = None\<rparr> ToDefinitions]
     initial_definition)) = []"
proof (rule definition_reader_sends_nothing [of "\<lambda>k ps. k" "\<lambda>v. v"])
  show "page_session (definition_reader (\<lambda>k ps. k) (\<lambda>v. v)) handle_definition (settle_definition ''d1'') dp_jobs
     [Act \<lparr>de_caps = AdminCapabilitiesProvider [''admin.read''], de_detail = None, de_pending = False, de_error = None\<rparr> ToDefinitions]
     initial_definition"
    by (simp add: definition_reader_def asks_for_def definitionDetailPage_def can_def AdminCapabilitiesProvider_def permission_text_def Let_def)
qed

text \<open>Every call the page sends is checked: a field has a valid key, a definition a name.\<close>

theorem definition_calls_valid:
  "list_all definition_job_valid (definition_sent (snd (run_page handle_definition (settle_definition i) dp_jobs evs s)))"
  using definition_machine.sends_valid by (auto simp: list_all_iff)

end
