(* ===== verification/Definitions.thy ===== *)
theory Definitions
  imports DefinitionDetail
begin

text \<open>
  The page of the resource definitions (\<open>web/src/routes/definitions/-components/page.tsx\<close>): the cards,
  the creation, and editing, switching and removing from the card's menu. A creation that succeeds
  goes to the page of the new definition. The last section compares what the two pages mark stale for
  the same change.
\<close>

section \<open>State\<close>

record new_definition =
  nd_key :: string
  nd_name :: string
  nd_description :: string

datatype definitions_job =
    CreateDefinitionJob new_definition
  | EditDefinitionJob string definition_form
  | SwitchDefinitionJob string string
  | RemoveDefinitionJob string

record definitions_page =
  ds_error :: string
  ds_open :: bool
  ds_form :: new_definition
  ds_editing :: "Definition option"
  ds_removing :: "Definition option"
  ds_editForm :: definition_form
  ds_jobs :: "definitions_job list"

definition empty_definition :: new_definition where
  "empty_definition = \<lparr>nd_key = [], nd_name = [], nd_description = []\<rparr>"

definition initial_definitions :: definitions_page where
  "initial_definitions =
     \<lparr>ds_error = [], ds_open = False, ds_form = empty_definition, ds_editing = None, ds_removing = None,
      ds_editForm = \<lparr>df_name = [], df_description = []\<rparr>, ds_jobs = []\<rparr>"

record definitions_env =
  dl_caps :: AdminCapabilities
  dl_defs :: "Definition list option"
  dl_error :: "api_error option"

definition page_defs :: "definitions_env \<Rightarrow> Definition list" where
  "page_defs env = some_or (dl_defs env) []"

definition defs_pending :: "definitions_env \<Rightarrow> bool" where
  "defs_pending env \<longleftrightarrow> dl_defs env = None \<and> dl_error env = None"

definition newKeyValid :: "definitions_page \<Rightarrow> bool" where
  "newKeyValid s = isValidDefinitionKey (nd_key (ds_form s))"

definition definitionsVisibleError :: "definitions_env \<Rightarrow> definitions_page \<Rightarrow> string" where
  "definitionsVisibleError env s =
     (if ds_error s \<noteq> [] then ds_error s else case dl_error env of Some e \<Rightarrow> apiErrorMessage e | None \<Rightarrow> [])"

section \<open>Handlers\<close>

datatype definitions_input = NewKeyInput | NewNameInput | NewDescriptionInput | CardNameInput | CardDescriptionInput

datatype definitions_action =
    OpenNew | SetNewOpen bool | CreateDefinitionAction
  | RequestEdit Definition | CloseEdit | SaveCard
  | ToggleDefinition Definition
  | RequestRemove Definition | CloseRemove | RemoveCard
  | OpenDefinition string
  | DefinitionsInput definitions_input string

datatype definitions_effect =
    SendDefinitions definitions_job | DefinitionsCache "cache_command list" | DefinitionsToast string | DefinitionsGoTo string

definition send_definitions :: "definitions_job \<Rightarrow> definitions_page \<Rightarrow> definitions_page \<times> definitions_effect list" where
  "send_definitions j s = (s\<lparr>ds_jobs := ds_jobs s @ [j]\<rparr>, [SendDefinitions j])"

definition createDefinition :: "definitions_page \<Rightarrow> definitions_page \<times> definitions_effect list" where
  "createDefinition s =
     (if \<not> newKeyValid s \<or> js_trim (nd_name (ds_form s)) = [] then (s, []) else send_definitions (CreateDefinitionJob (ds_form s)) s)"

definition requestEdit :: "Definition \<Rightarrow> definitions_page \<Rightarrow> definitions_page" where
  "requestEdit d s =
     s\<lparr>ds_error := [], ds_editForm := \<lparr>df_name = d_name d, df_description = d_description d\<rparr>, ds_editing := Some d\<rparr>"

definition saveCard :: "definitions_page \<Rightarrow> definitions_page \<times> definitions_effect list" where
  "saveCard s =
     (case ds_editing s of None \<Rightarrow> (s, [])
      | Some d \<Rightarrow> if js_trim (df_name (ds_editForm s)) = [] then (s, []) else send_definitions (EditDefinitionJob (d_id d) (ds_editForm s)) s)"

definition toggleDefinition :: "Definition \<Rightarrow> definitions_page \<Rightarrow> definitions_page \<times> definitions_effect list" where
  "toggleDefinition d s =
     send_definitions (SwitchDefinitionJob (d_id d) (if d_status d = ''active'' then ''inactive'' else ''active'')) s"

definition removeCard :: "definitions_page \<Rightarrow> definitions_page \<times> definitions_effect list" where
  "removeCard s = (case ds_removing s of None \<Rightarrow> (s, []) | Some d \<Rightarrow> send_definitions (RemoveDefinitionJob (d_id d)) s)"

definition definitions_input :: "definitions_input \<Rightarrow> string \<Rightarrow> definitions_page \<Rightarrow> definitions_page" where
  "definitions_input i v s =
     (case i of
        NewKeyInput \<Rightarrow> s\<lparr>ds_form := (ds_form s)\<lparr>nd_key := v\<rparr>\<rparr>
      | NewNameInput \<Rightarrow> s\<lparr>ds_form := (ds_form s)\<lparr>nd_name := v\<rparr>\<rparr>
      | NewDescriptionInput \<Rightarrow> s\<lparr>ds_form := (ds_form s)\<lparr>nd_description := v\<rparr>\<rparr>
      | CardNameInput \<Rightarrow> s\<lparr>ds_editForm := (ds_editForm s)\<lparr>df_name := v\<rparr>\<rparr>
      | CardDescriptionInput \<Rightarrow> s\<lparr>ds_editForm := (ds_editForm s)\<lparr>df_description := v\<rparr>\<rparr>)"

definition handle_definitions :: "definitions_env \<Rightarrow> definitions_action \<Rightarrow> definitions_page \<Rightarrow> definitions_page \<times> definitions_effect list" where
  "handle_definitions env a s =
     (case a of
        OpenNew \<Rightarrow> (s\<lparr>ds_error := [], ds_open := True\<rparr>, [])
      | SetNewOpen b \<Rightarrow> (s\<lparr>ds_error := (if b then ds_error s else []), ds_open := b\<rparr>, [])
      | CreateDefinitionAction \<Rightarrow> createDefinition s
      | RequestEdit d \<Rightarrow> (requestEdit d s, [])
      | CloseEdit \<Rightarrow> (s\<lparr>ds_editing := None\<rparr>, [])
      | SaveCard \<Rightarrow> saveCard s
      | ToggleDefinition d \<Rightarrow> toggleDefinition d s
      | RequestRemove d \<Rightarrow> (s\<lparr>ds_removing := Some d\<rparr>, [])
      | CloseRemove \<Rightarrow> (s\<lparr>ds_removing := None\<rparr>, [])
      | RemoveCard \<Rightarrow> removeCard s
      | OpenDefinition i \<Rightarrow> (s, [DefinitionsGoTo (''/resource-definitions/'' @ i)])
      | DefinitionsInput i v \<Rightarrow> (definitions_input i v s, []))"

text \<open>What follows a success: the answer of a creation is the id of the new definition.\<close>

definition definitions_commands :: "definitions_job \<Rightarrow> cache_command list" where
  "definitions_commands j =
     (case j of EditDefinitionJob _ _ \<Rightarrow> invalidateDefinitions | _ \<Rightarrow> invalidateDefinitions @ invalidateAllTenantResources)"

definition definitions_succeeded :: "definitions_job \<Rightarrow> string \<Rightarrow> definitions_page \<Rightarrow> definitions_page \<times> definitions_effect list" where
  "definitions_succeeded j created s =
     (case j of
        CreateDefinitionJob _ \<Rightarrow>
          (s\<lparr>ds_error := [], ds_form := empty_definition, ds_open := False\<rparr>, [DefinitionsGoTo (''/resource-definitions/'' @ created)])
      | EditDefinitionJob _ _ \<Rightarrow> (s\<lparr>ds_editing := None, ds_error := []\<rparr>, [DefinitionsToast ''definitionDetail.updated''])
      | SwitchDefinitionJob _ status \<Rightarrow>
          (s\<lparr>ds_error := []\<rparr>, [DefinitionsToast (if status = ''active'' then ''definitionDetail.statusActivated'' else ''definitionDetail.statusDeactivated'')])
      | RemoveDefinitionJob _ \<Rightarrow> (s\<lparr>ds_removing := None, ds_error := []\<rparr>, [DefinitionsToast ''definitionDetail.removed'']))"

definition definitions_failed :: "definitions_job \<Rightarrow> api_error \<Rightarrow> definitions_page \<Rightarrow> definitions_page" where
  "definitions_failed j e s =
     (case j of RemoveDefinitionJob _ \<Rightarrow> s\<lparr>ds_removing := None, ds_error := apiErrorMessage e\<rparr> | _ \<Rightarrow> s\<lparr>ds_error := apiErrorMessage e\<rparr>)"

definition settle_definitions :: "definitions_job \<Rightarrow> (api_error + string) \<Rightarrow> definitions_page \<Rightarrow> definitions_page \<times> definitions_effect list" where
  "settle_definitions j result s =
     (let s = s\<lparr>ds_jobs := remove1 j (ds_jobs s)\<rparr> in
      case result of
        Inl e \<Rightarrow> (definitions_failed j e s, [])
      | Inr created \<Rightarrow> let (s', es) = definitions_succeeded j created s in (s', DefinitionsCache (definitions_commands j) # es))"

definition definitions_call :: "definitions_job \<Rightarrow> api_call" where
  "definitions_call j =
     (case j of
        CreateDefinitionJob f \<Rightarrow> CreateDefinition (nd_key f) (nd_name f) (Some (nd_description f)) None
      | EditDefinitionJob i f \<Rightarrow> UpdateDefinition i (df_name f) (df_description f)
      | SwitchDefinitionJob i status \<Rightarrow> SetDefinitionStatus i status
      | RemoveDefinitionJob i \<Rightarrow> DeleteDefinition i)"

section \<open>What it renders\<close>

type_synonym definitions_view = "(definitions_action, definitions_input) control view"

definition defIcon :: "string \<Rightarrow> string" where
  "defIcon key =
     (if key = ''minio'' \<or> js_includes key ''s3'' \<or> js_includes key ''storage'' then ''HardDrive''
      else if key = ''smtp'' \<or> js_includes key ''mail'' then ''Mail''
      else if key = ''postgres'' \<or> js_includes key ''db'' \<or> js_includes key ''sql'' then ''Database''
      else ''Box'')"

definition definitionCard :: "translation \<Rightarrow> (string \<Rightarrow> string) \<Rightarrow> AdminCapabilities \<Rightarrow> Definition \<Rightarrow> definitions_view" where
  "definitionCard t fs caps d =
     Elem ''card'' [(''role'', ''link''), (''aria-label'', t ''definitionDetail.open'' [(''name'', d_name d)])]
       [(''onClick'', Do (OpenDefinition (d_id d))), (''onKeyDown'', Do (OpenDefinition (d_id d)))]
       ([el ''icon'' [(''name'', defIcon (d_key d))] [], domainStatus (fs (d_status d)) (d_status d)] @
        shown_if (can caps ResourceWritePermission) (definitionActions t d (RequestEdit d) (RequestRemove d) (ToggleDefinition d)) @
        [el ''h3'' [] [Txt (d_name d)], hint (if d_description d \<noteq> [] then d_description d else t ''definitions.emptyDescription'' []),
         el ''code'' [] [Txt (d_key d)],
         Txt (t ''definitions.footerCounts'' [(''fieldCount'', show_nat (some_or (d_fieldCount d) 0)), (''secretCount'', show_nat (some_or (d_secretCount d) 0))])])"

definition newDefinitionButton :: "translation \<Rightarrow> AdminCapabilities \<Rightarrow> definitions_view list" where
  "newDefinitionButton t caps = shown_if (can caps ResourceWritePermission) (do_button False OpenNew [Txt (t ''definitions.new'' [])])"

definition definitionsGrid :: "translation \<Rightarrow> (string \<Rightarrow> string) \<Rightarrow> definitions_env \<Rightarrow> definitions_page \<Rightarrow> definitions_view list" where
  "definitionsGrid t fs env s =
     (if defs_pending env then [el ''div'' [(''role'', ''status'')] [Txt (t ''common.loading'' [])]]
      else if definitionsVisibleError env s \<noteq> [] \<and> page_defs env = [] then []
      else if page_defs env = [] then [el ''div'' [] (hint (t ''definitions.empty'' []) # newDefinitionButton t (dl_caps env))]
      else [el ''div'' [] (map (definitionCard t fs (dl_caps env)) (page_defs env))])"

definition createDefinitionPending :: "definitions_page \<Rightarrow> bool" where
  "createDefinitionPending s = list_ex (\<lambda>j. case j of CreateDefinitionJob _ \<Rightarrow> True | _ \<Rightarrow> False) (ds_jobs s)"

definition saveCardPending :: "definitions_page \<Rightarrow> bool" where
  "saveCardPending s = list_ex (\<lambda>j. case j of EditDefinitionJob _ _ \<Rightarrow> True | _ \<Rightarrow> False) (ds_jobs s)"

definition removeCardPending :: "definitions_page \<Rightarrow> bool" where
  "removeCardPending s = list_ex (\<lambda>j. case j of RemoveDefinitionJob _ \<Rightarrow> True | _ \<Rightarrow> False) (ds_jobs s)"

definition newDefinitionDialog :: "translation \<Rightarrow> definitions_env \<Rightarrow> definitions_page \<Rightarrow> definitions_view list" where
  "newDefinitionDialog t env s =
     (let f = ds_form s; ok = newKeyValid s in
      dialog (ds_open s) (Do (SetNewOpen False)) (t ''definitions.newDialog.title'' []) (t ''definitions.newDialog.description'' [])
        ([label (t ''common.key'' []),
          text_field NewKeyInput (flag ''aria-invalid'' (nd_key f \<noteq> [] \<and> \<not> ok) @ [(''maxLength'', ''63''), (''placeholder'', ''postgres'')]) (nd_key f),
          hint (t ''validation.definitionKey'' []),
          label (t ''common.name'' []), text_field NewNameInput [(''placeholder'', ''PostgreSQL Connection'')] (nd_name f),
          label (t ''common.description'' []),
          text_field NewDescriptionInput [(''placeholder'', ''Conex'' @ [CHR 0xE3] @ ''o de banco por tenant'')] (nd_description f)] @
         shown_message t (definitionsVisibleError env s) @
         [do_button False (SetNewOpen False) [Txt (t ''common.cancel'' [])],
          do_button (\<not> ok \<or> js_trim (nd_name f) = [] \<or> createDefinitionPending s) CreateDefinitionAction [Txt (t ''definitions.create'' [])]]))"

definition editCardDialog :: "translation \<Rightarrow> definitions_page \<Rightarrow> definitions_view list" where
  "editCardDialog t s =
     dialog (ds_editing s \<noteq> None) (Do CloseEdit) (t ''definitionDetail.editTitle'' [])
       (t ''definitionDetail.editDescription'' [(''key'', case ds_editing s of Some d \<Rightarrow> d_key d | None \<Rightarrow> [])])
       ([label (t ''common.name'' []), text_field CardNameInput [(''maxLength'', ''120'')] (df_name (ds_editForm s)),
         label (t ''common.description'' []), text_field CardDescriptionInput [(''maxLength'', ''500'')] (df_description (ds_editForm s))] @
        shown_message t (ds_error s) @
        [do_button False CloseEdit [Txt (t ''common.cancel'' [])],
         do_button (js_trim (df_name (ds_editForm s)) = [] \<or> saveCardPending s) SaveCard [Txt (t ''common.save'' [])]])"

definition removeCardDialog :: "translation \<Rightarrow> definitions_page \<Rightarrow> definitions_view list" where
  "removeCardDialog t s =
     confirmDialog (t ''common.cancel'' []) [] (removeCardPending s) (t ''common.removeConfirm'' [])
       (t ''definitionDetail.removeDescription'' [(''name'', case ds_removing s of Some d \<Rightarrow> d_name d | None \<Rightarrow> [])])
       (Do RemoveCard) (Do CloseRemove) (ds_removing s \<noteq> None) (t ''definitionDetail.removeTitle'' [])"

definition definitionsPage :: "translation \<Rightarrow> (string \<Rightarrow> string) \<Rightarrow> definitions_env \<Rightarrow> definitions_page \<Rightarrow> definitions_view" where
  "definitionsPage t fs env s =
     el ''div'' []
       (newDefinitionButton t (dl_caps env) @
        shown_if (definitionsVisibleError env s \<noteq> []) (el ''alert'' [] [Txt (t (definitionsVisibleError env s) [])]) @
        definitionsGrid t fs env s @ newDefinitionDialog t env s @ editCardDialog t s @ removeCardDialog t s)"

section \<open>The page as a machine\<close>

definition definitions_sent :: "definitions_effect list \<Rightarrow> definitions_job list" where
  "definitions_sent es = concat (map (\<lambda>e. case e of SendDefinitions j \<Rightarrow> [j] | _ \<Rightarrow> []) es)"

definition definitions_job_valid :: "definitions_job \<Rightarrow> bool" where
  "definitions_job_valid j =
     (case j of CreateDefinitionJob f \<Rightarrow> isValidDefinitionKey (nd_key f) \<and> js_trim (nd_name f) \<noteq> []
      | EditDefinitionJob _ f \<Rightarrow> js_trim (df_name f) \<noteq> [] | SwitchDefinitionJob _ status \<Rightarrow> status \<in> set [''active'', ''inactive''] | _ \<Rightarrow> True)"

lemma definitions_sent_simps [simp]:
  "definitions_sent [] = []" "definitions_sent (SendDefinitions j # es) = j # definitions_sent es"
  "definitions_sent (DefinitionsCache c # es) = definitions_sent es" "definitions_sent (DefinitionsToast m # es) = definitions_sent es"
  "definitions_sent (DefinitionsGoTo p # es) = definitions_sent es" "definitions_sent (es @ fs) = definitions_sent es @ definitions_sent fs"
  by (simp_all add: definitions_sent_def)

lemma handle_definitions_sends:
  "ds_jobs (fst (handle_definitions env a s)) = ds_jobs s @ definitions_sent (snd (handle_definitions env a s)) \<and>
     list_all definitions_job_valid (definitions_sent (snd (handle_definitions env a s)))"
  by (cases a)
    (simp_all add: handle_definitions_def createDefinition_def requestEdit_def saveCard_def toggleDefinition_def removeCard_def
      definitions_input_def send_definitions_def definitions_job_valid_def newKeyValid_def split: option.split definitions_input.split)

lemma settle_definitions_frame:
  "ds_jobs (fst (settle_definitions j r s)) = remove1 j (ds_jobs s) \<and> definitions_sent (snd (settle_definitions j r s)) = []"
  by (simp add: settle_definitions_def definitions_succeeded_def definitions_failed_def Let_def split_beta split: sum.split definitions_job.split)

interpretation definitions_machine: page_machine handle_definitions settle_definitions ds_jobs definitions_sent definitions_job_valid
  using handle_definitions_sends settle_definitions_frame by unfold_locales (auto simp: list_all_iff)

definition definitions_dialogs_closed :: "definitions_page \<Rightarrow> bool" where
  "definitions_dialogs_closed s \<longleftrightarrow> \<not> ds_open s \<and> ds_editing s = None \<and> ds_removing s = None"

definition definitions_reader ::
  "translation \<Rightarrow> (string \<Rightarrow> string) \<Rightarrow> definitions_env \<Rightarrow> definitions_action \<Rightarrow> definitions_page \<Rightarrow> bool" where
  "definitions_reader t fs env a s \<longleftrightarrow>
     \<not> can (dl_caps env) ResourceWritePermission \<and> asks_for DefinitionsInput (offered (definitionsPage t fs env s)) a"

lemma offered_card_reader: "\<not> can caps ResourceWritePermission \<Longrightarrow> set (offered (definitionCard t fs caps d)) \<subseteq> range (Do \<circ> OpenDefinition)"
  by (auto simp: definitionCard_def domainStatus_def is_disabled_def)

lemma offered_definitions_reader:
  assumes "definitions_dialogs_closed s" and "\<not> can (dl_caps env) ResourceWritePermission"
  shows "set (offered (definitionsPage t fs env s)) \<subseteq> range (Do \<circ> OpenDefinition)"
  using assms offered_card_reader [OF assms(2), of t fs]
  by (auto simp: definitionsPage_def definitions_dialogs_closed_def definitionsGrid_def newDefinitionButton_def newDefinitionDialog_def
      editCardDialog_def removeCardDialog_def confirmDialog_def Let_def split: if_splits)

interpretation definitions_locked: locked_page handle_definitions settle_definitions ds_jobs definitions_sent definitions_job_valid
  "definitions_reader t fs" definitions_dialogs_closed for t fs
proof
  show "definitions_dialogs_closed (fst (handle_definitions env a s)) \<and> definitions_sent (snd (handle_definitions env a s)) = []"
    if "definitions_dialogs_closed s" "definitions_reader t fs env a s" for s env a
  proof -
    have "\<exists>i. a = OpenDefinition i"
      using that(2) offered_definitions_reader [OF that(1), of env t fs] by (auto simp: definitions_reader_def asks_for_def)
    then show ?thesis using that(1) by (auto simp: handle_definitions_def)
  qed
  show "definitions_dialogs_closed (fst (settle_definitions j r s))" if "definitions_dialogs_closed s" for j r s
    using that by (simp add: settle_definitions_def definitions_succeeded_def definitions_failed_def definitions_dialogs_closed_def Let_def split_beta
        split: sum.split definitions_job.split)
qed


text \<open>A user without the permission to write resources, using what is on the page, never makes it send a call.\<close>

theorem definitions_reader_sends_nothing:
  assumes "page_session (definitions_reader t fs) handle_definitions settle_definitions ds_jobs evs initial_definitions"
  shows "definitions_sent (snd (run_page handle_definitions settle_definitions ds_jobs evs initial_definitions)) = []"
  using definitions_locked.session_sends_nothing [OF assms] by (simp add: definitions_dialogs_closed_def initial_definitions_def)

definition reader_definitions_env :: definitions_env where
  "reader_definitions_env =
     \<lparr>dl_caps = AdminCapabilitiesProvider [''admin.read''],
      dl_defs = Some [\<lparr>d_id = ''d1'', d_key = ''db'', d_name = ''DB'', d_description = [], d_icon = [], d_status = ''active'', d_fieldCount = None, d_secretCount = None\<rparr>],
      dl_error = None\<rparr>"

lemma definitions_reader_sends_nothing_witness:
  "definitions_sent (snd (run_page handle_definitions settle_definitions ds_jobs [Act reader_definitions_env (OpenDefinition ''d1'')] initial_definitions)) = []"
proof (rule definitions_reader_sends_nothing [of "\<lambda>k ps. k" "\<lambda>v. v"])
  show "page_session (definitions_reader (\<lambda>k ps. k) (\<lambda>v. v)) handle_definitions settle_definitions ds_jobs
     [Act reader_definitions_env (OpenDefinition ''d1'')] initial_definitions"
    by (simp add: definitions_reader_def asks_for_def definitionsPage_def definitionsGrid_def definitionCard_def reader_definitions_env_def
        defs_pending_def page_defs_def definitionsVisibleError_def initial_definitions_def can_def AdminCapabilitiesProvider_def permission_text_def
        is_disabled_def newDefinitionButton_def)
qed

text \<open>Every call the page sends is checked: a definition has a valid key and a name.\<close>

theorem definitions_calls_valid:
  "list_all definitions_job_valid (definitions_sent (snd (run_page handle_definitions settle_definitions ds_jobs evs s)))"
  using definitions_machine.sends_valid by (auto simp: list_all_iff)

section \<open>The two pages compared\<close>

lemma invalidates_append: "invalidates matches (cs @ ds) k \<longleftrightarrow> invalidates matches cs k \<or> invalidates matches ds k"
  by (auto simp: invalidates_def)

text \<open>The two pages do not agree on what a change makes stale. A definition removed on its own page leaves the list of
  definitions and the overview fresh, so the page it then goes to still shows it until the entry ages; the same removal on
  the list marks both. A definition edited on the list leaves its own page and the resources fresh; the same edit on its page marks them.\<close>

theorem definition_pages_disagree:
  assumes matches: "\<And>f k. matches f k = prefix f k"
  shows "{q. invalidates matches (definition_commands i DeleteDefinitionJob) (adminQueryKeys q)} = insert QTenantResourcesRoot (range QTenantResources) \<and>
    {q. invalidates matches (definitions_commands (RemoveDefinitionJob i)) (adminQueryKeys q)} =
      {QDefinitions, QOverview} \<union> insert QTenantResourcesRoot (range QTenantResources) \<and>
    {q. invalidates matches (definition_commands i (UpdateDefinitionJob f)) (adminQueryKeys q)} =
      {QDefinition i, QDefinitions, QOverview} \<union> insert QTenantResourcesRoot (range QTenantResources) \<and>
    {q. invalidates matches (definitions_commands (EditDefinitionJob i f)) (adminQueryKeys q)} = {QDefinitions, QOverview}"
  by (simp add: set_eq_iff invalidates_def command_defs definition_commands_def definitions_commands_def matches image_iff disj_ac)

lemma definition_pages_disagree_witness:
  "QDefinitions \<notin> {q. invalidates prefix (definition_commands ''d1'' DeleteDefinitionJob) (adminQueryKeys q)}"
  using definition_pages_disagree [of prefix "''d1''" "\<lparr>df_name = [], df_description = []\<rparr>"] by auto

end
