(* ===== verification/TenantsPage.thy ===== *)
theory TenantsPage
  imports KeyedPages LockedPages I18n Navigation Validation QueryCache
begin

text \<open>
  The page of the tenants (\<open>web/src/routes/tenants/-components/page.tsx\<close>): the table, whose rows open a
  tenant, and the creation of one. After a creation the handler waits for the lists to be fetched
  again and then opens the new tenant; until then (the event \<open>TenantsRefreshed\<close>) the form is still
  on screen and can be submitted again. Theorems: one key stands for one form, such a second submission
  sends the key of the first, and a user who may not write tenants cannot make the page send anything.
\<close>

section \<open>State and handlers\<close>

record tenant_form =
  tf_slug :: string
  tf_name :: string

datatype tenants_job = CreateTenantJob tenant_form string

record tenants_page =
  tp_open :: bool
  tp_form :: tenant_form
  tp_error :: string
  tp_createAttempt :: "IdempotencyAttempt option"
  tp_drawn :: nat
  tp_jobs :: "tenants_job list"
  tp_created :: "string list"

definition empty_tenant :: tenant_form where
  "empty_tenant = \<lparr>tf_slug = [], tf_name = []\<rparr>"

definition initial_tenants :: tenants_page where
  "initial_tenants = \<lparr>tp_open = False, tp_form = empty_tenant, tp_error = [], tp_createAttempt = None, tp_drawn = 0, tp_jobs = [], tp_created = []\<rparr>"

record tenants_env =
  te_caps :: AdminCapabilities
  te_tenants :: "Tenant list option"
  te_error :: "api_error option"

definition tenantsPageError :: "tenants_env \<Rightarrow> string" where
  "tenantsPageError env = (case te_error env of Some e \<Rightarrow> apiErrorMessage e | None \<Rightarrow> [])"

definition slugValid :: "tenants_page \<Rightarrow> bool" where
  "slugValid s = isValidTenantSlug (tf_slug (tp_form s))"

datatype tenants_input = NewTenantName | NewTenantSlug

datatype tenants_action =
    OpenNewTenant
  | SetTenantOpen bool
  | CreateTenantAction
  | OpenTenant string
  | TenantsInput tenants_input string
  | TenantsRefreshed string

datatype tenants_effect = SendTenants tenants_job | TenantsCache "cache_command list" | TenantsGoTo string

definition tenant_form_json :: "tenant_form \<Rightarrow> json" where
  "tenant_form_json f = JObj [(''slug'', JStr (tf_slug f)), (''name'', JStr (tf_name f))]"

definition createTenant :: "(nat \<Rightarrow> string) \<Rightarrow> tenants_page \<Rightarrow> tenants_page \<times> tenants_effect list" where
  "createTenant uuid s =
     (if \<not> slugValid s \<or> js_trim (tf_name (tp_form s)) = [] then (s, [])
      else let (key, a) = stableIdempotencyKey uuid (tenant_form_json (tp_form s)) \<lparr>current = tp_createAttempt s, uuids_drawn = tp_drawn s\<rparr>;
               j = CreateTenantJob (tp_form s) key in
        (s\<lparr>tp_error := [], tp_createAttempt := current a, tp_drawn := uuids_drawn a, tp_jobs := tp_jobs s @ [j]\<rparr>, [SendTenants j]))"

definition tenants_refreshed :: "string \<Rightarrow> tenants_page \<Rightarrow> tenants_page \<times> tenants_effect list" where
  "tenants_refreshed i s =
     (if i \<notin> set (tp_created s) then (s, [])
      else (s\<lparr>tp_created := remove1 i (tp_created s), tp_form := empty_tenant, tp_open := False, tp_createAttempt := None\<rparr>,
        [TenantsGoTo (''/tenants/'' @ i)]))"

definition handle_tenants :: "(nat \<Rightarrow> string) \<Rightarrow> tenants_env \<Rightarrow> tenants_action \<Rightarrow> tenants_page \<Rightarrow> tenants_page \<times> tenants_effect list" where
  "handle_tenants uuid env a s =
     (case a of
        OpenNewTenant \<Rightarrow> (s\<lparr>tp_error := [], tp_open := True\<rparr>, [])
      | SetTenantOpen b \<Rightarrow> (s\<lparr>tp_open := b\<rparr>, [])
      | CreateTenantAction \<Rightarrow> createTenant uuid s
      | OpenTenant i \<Rightarrow> (s, [TenantsGoTo (''/tenants/'' @ i)])
      | TenantsInput i v \<Rightarrow>
          (s\<lparr>tp_form := (case i of NewTenantName \<Rightarrow> (tp_form s)\<lparr>tf_name := v\<rparr> | NewTenantSlug \<Rightarrow> (tp_form s)\<lparr>tf_slug := v\<rparr>)\<rparr>, [])
      | TenantsRefreshed i \<Rightarrow> tenants_refreshed i s)"

text \<open>The answer of a creation is the id of the tenant.\<close>

definition settle_tenants :: "tenants_job \<Rightarrow> (api_error + string) \<Rightarrow> tenants_page \<Rightarrow> tenants_page \<times> tenants_effect list" where
  "settle_tenants j result s =
     (let s = s\<lparr>tp_jobs := remove1 j (tp_jobs s)\<rparr> in
      case result of
        Inl e \<Rightarrow> (s\<lparr>tp_error := apiErrorMessage e\<rparr>, [])
      | Inr created \<Rightarrow> (s\<lparr>tp_created := tp_created s @ [created]\<rparr>, [TenantsCache invalidateTenants]))"

definition tenants_call :: "tenants_job \<Rightarrow> api_call" where
  "tenants_call j = (case j of CreateTenantJob f key \<Rightarrow> CreateTenant (tf_slug f) (tf_name f) (Some key))"

section \<open>What it renders\<close>

type_synonym tenants_control = "(tenants_action, tenants_input) control"

definition tenantsColumns :: "translation \<Rightarrow> (string \<Rightarrow> string) \<Rightarrow> (Tenant, tenants_control) column_def list" where
  "tenantsColumns t fs =
     [data_column ''name'' (t ''common.name'' []) (\<lambda>r. [Txt (t_name r)]),
      data_column ''slug'' (t ''common.slug'' []) (\<lambda>r. [el ''code'' [] [Txt (t_slug r)]]),
      data_column ''status'' (t ''common.status'' []) (\<lambda>r. [domainStatus (fs (t_status r)) (t_status r)]),
      \<lparr>cd_id = ''actions'', cd_label = [], cd_sorting = False, cd_hiding = True, cd_cell = (\<lambda>r. [el ''icon'' [(''name'', ''ChevronRight'')] []])\<rparr>]"

definition filterTenants :: "(string \<Rightarrow> string) \<Rightarrow> Tenant \<Rightarrow> string \<Rightarrow> bool" where
  "filterTenants fs tenant filterValue =
     (let query = js_lower (js_trim filterValue) in
      if query = [] then True
      else js_includes (js_lower (t_name tenant)) query \<or> js_includes (js_lower (t_slug tenant)) query \<or>
        query \<in> set (map js_lower [t_status tenant, fs (t_status tenant)]))"

definition tenants_table_initial :: initial_table where
  "tenants_table_initial = \<lparr>init_globalFilter = None, init_pagination = None,
     init_sorting = Some [\<lparr>sort_desc = False, sort_id = ''name''\<rparr>], init_columnVisibility = None\<rparr>"

definition newTenantDialog :: "translation \<Rightarrow> tenants_page \<Rightarrow> tenants_control view list" where
  "newTenantDialog t s =
     dialog (tp_open s) (Do (SetTenantOpen False)) (t ''tenants.newDialog.title'' []) (t ''tenants.newDialog.description'' [])
       ([label (t ''common.name'' []), text_field NewTenantName [(''placeholder'', ''Acme Corp'')] (tf_name (tp_form s)),
         label (t ''common.slug'' []),
         text_field NewTenantSlug (flag ''aria-invalid'' (tf_slug (tp_form s) \<noteq> [] \<and> \<not> slugValid s) @ [(''maxLength'', ''63''), (''placeholder'', ''acme'')])
           (tf_slug (tp_form s)),
         hint (t ''validation.tenantSlug'' [])] @
        shown_message t (tp_error s) @
        [do_button False (SetTenantOpen False) [Txt (t ''common.cancel'' [])],
         do_button (\<not> slugValid s \<or> js_trim (tf_name (tp_form s)) = [] \<or> tp_jobs s \<noteq> []) CreateTenantAction [Txt (t ''tenants.create'' [])]])"

definition tenantsTable ::
  "translation \<Rightarrow> (string \<Rightarrow> string) \<Rightarrow> tenants_env \<Rightarrow> table_model \<Rightarrow> Tenant list \<Rightarrow> tenants_control grid_action view list" where
  "tenantsTable t fs env m rows =
     (let tr = (\<lambda>key. t key []) in
      if te_tenants env = None \<and> te_error env = None then [map_view PageDoes (el ''div'' [(''role'', ''status'')] [Txt (tr ''common.loading'')])]
      else if tenantsPageError env \<noteq> [] \<and> some_or (te_tenants env) [] = [] then []
      else [render_table (page_sort_labels tr) (page_table_labels tr) (tr ''tenants.empty'') (\<lambda>r. Some (Do (OpenTenant (t_id r))))
        (tenantsColumns t fs) m rows
        [dataTableToolbar tr (page_toolbar_labels tr ''tenants.search'') [] []
          (shown_if (can (te_caps env) TenantWrite) (do_button False OpenNewTenant [Txt (tr ''tenants.new'')])) m]])"

definition tenantsPage ::
  "translation \<Rightarrow> (string \<Rightarrow> string) \<Rightarrow> tenants_env \<Rightarrow> table_model \<Rightarrow> Tenant list \<Rightarrow> tenants_page \<Rightarrow> tenants_control grid_action view" where
  "tenantsPage t fs env m rows s =
     el ''div'' []
       (map (map_view PageDoes) (shown_if (tenantsPageError env \<noteq> []) (el ''alert'' [] [Txt (t (tenantsPageError env) [])])) @
        tenantsTable t fs env m rows @ map (map_view PageDoes) (newTenantDialog t s))"

section \<open>The page as a machine\<close>

definition tenants_sent :: "tenants_effect list \<Rightarrow> tenants_job list" where
  "tenants_sent es = concat (map (\<lambda>e. case e of SendTenants j \<Rightarrow> [j] | _ \<Rightarrow> []) es)"

definition tenants_job_valid :: "tenants_job \<Rightarrow> bool" where
  "tenants_job_valid j = (case j of CreateTenantJob f _ \<Rightarrow> isValidTenantSlug (tf_slug f) \<and> js_trim (tf_name f) \<noteq> [])"

definition tenants_keyed :: "tenants_job \<Rightarrow> (json \<times> string) option" where
  "tenants_keyed j = (case j of CreateTenantJob f key \<Rightarrow> Some (tenant_form_json f, key))"

definition tenants_stored :: "tenants_page \<Rightarrow> IdempotencyAttempt set" where
  "tenants_stored s = set_option (tp_createAttempt s)"

lemma tenants_sent_simps [simp]:
  "tenants_sent [] = []" "tenants_sent (SendTenants j # es) = j # tenants_sent es" "tenants_sent (TenantsCache c # es) = tenants_sent es"
  "tenants_sent (TenantsGoTo p # es) = tenants_sent es" "tenants_sent (es @ fs) = tenants_sent es @ tenants_sent fs"
  by (simp_all add: tenants_sent_def)

lemma handle_tenants_sends:
  "tp_jobs (fst (handle_tenants uuid env a s)) = tp_jobs s @ tenants_sent (snd (handle_tenants uuid env a s)) \<and>
     list_all tenants_job_valid (tenants_sent (snd (handle_tenants uuid env a s)))"
  by (cases a) (simp_all add: handle_tenants_def createTenant_def tenants_refreshed_def tenants_job_valid_def slugValid_def Let_def split_beta)

lemma settle_tenants_frame: "tp_jobs (fst (settle_tenants j r s)) = remove1 j (tp_jobs s) \<and> tenants_sent (snd (settle_tenants j r s)) = []"
  by (simp add: settle_tenants_def Let_def split: sum.split)

lemma create_tenant_keys:
  assumes "slugValid s" and "js_trim (tf_name (tp_form s)) \<noteq> []"
  shows "\<exists>p k. keyed_calls tenants_keyed (tenants_sent (snd (createTenant uuid s))) = {(p, k)} \<and>
    draws uuid p k (tenants_stored s) (tp_drawn s) (tenants_stored (fst (createTenant uuid s))) (tp_drawn (fst (createTenant uuid s)))"
proof -
  obtain k sl where d: "stableIdempotencyKey uuid (tenant_form_json (tp_form s)) \<lparr>current = tp_createAttempt s, uuids_drawn = tp_drawn s\<rparr> = (k, sl)"
    by fastforce
  have "draws uuid (tenant_form_json (tp_form s)) k (tenants_stored s) (tp_drawn s) (set_option (current sl)) (uuids_drawn sl)"
    unfolding draws_def by (intro exI [of _ "tp_createAttempt s"] exI [of _ sl]) (use d in \<open>auto simp: tenants_stored_def\<close>)
  then show ?thesis using assms d by (auto simp: createTenant_def tenants_keyed_def tenants_stored_def Let_def)
qed

interpretation tenants_machine: keyed_page "handle_tenants uuid" settle_tenants tp_jobs tenants_sent tenants_job_valid uuid tenants_stored tp_drawn tenants_keyed
  for uuid
proof
  show "keyed_calls tenants_keyed (tenants_sent (snd (handle_tenants uuid env a s))) = {} \<and>
       tenants_stored (fst (handle_tenants uuid env a s)) \<subseteq> tenants_stored s \<and> tp_drawn (fst (handle_tenants uuid env a s)) = tp_drawn s \<or>
     (\<exists>p k. keyed_calls tenants_keyed (tenants_sent (snd (handle_tenants uuid env a s))) = {(p, k)} \<and>
       draws uuid p k (tenants_stored s) (tp_drawn s) (tenants_stored (fst (handle_tenants uuid env a s))) (tp_drawn (fst (handle_tenants uuid env a s))))"
    for env a s
  proof (cases "a = CreateTenantAction \<and> slugValid s \<and> js_trim (tf_name (tp_form s)) \<noteq> []")
    case True
    then show ?thesis using create_tenant_keys [of s uuid] by (auto simp: handle_tenants_def)
  next
    case False
    then show ?thesis
      by (cases a) (auto simp: handle_tenants_def createTenant_def tenants_refreshed_def tenants_stored_def)
  qed
  show "tenants_stored (fst (settle_tenants j r s)) \<subseteq> tenants_stored s \<and> tp_drawn (fst (settle_tenants j r s)) = tp_drawn s" for j r s
    by (simp add: settle_tenants_def tenants_stored_def Let_def split: sum.split)
qed (use handle_tenants_sends settle_tenants_frame in \<open>auto simp: list_all_iff\<close>)

section \<open>Readers\<close>

text \<open>What a user sees at one moment: the environment and the rows of the table.\<close>

record tenants_screen =
  ts_env :: tenants_env
  ts_model :: table_model
  ts_rows :: "Tenant list"

definition tenants_reader :: "translation \<Rightarrow> (string \<Rightarrow> string) \<Rightarrow> tenants_screen \<Rightarrow> tenants_action \<Rightarrow> tenants_page \<Rightarrow> bool" where
  "tenants_reader t fs sc a s \<longleftrightarrow>
     \<not> can (te_caps (ts_env sc)) TenantWrite \<and>
     asks_for TenantsInput (page_actions (tenantsPage t fs (ts_env sc) (ts_model sc) (ts_rows sc) s)) a"

lemma tenants_cells: "d \<in> set (tenantsColumns t fs) \<Longrightarrow> v \<in> set (cd_cell d r) \<Longrightarrow> offered v = []"
  by (auto simp: tenantsColumns_def data_column_def domainStatus_def)

lemma offered_tenants_reader:
  assumes "\<not> tp_open s" and "\<not> can (te_caps env) TenantWrite"
  shows "set (page_actions (tenantsPage t fs env m rows s)) \<subseteq> range (Do \<circ> OpenTenant)"
proof
  fix c assume "c \<in> set (page_actions (tenantsPage t fs env m rows s))"
  then have "\<exists>v \<in> set (tenantsTable t fs env m rows). PageDoes c \<in> set (offered v)"
    using assms(1) by (auto simp: page_actions_iff tenantsPage_def newTenantDialog_def dialog_def shown_if_def split: if_splits)
  then show "c \<in> range (Do \<circ> OpenTenant)"
    using assms(2)
    by (fastforce simp: tenantsTable_def render_table_offers toolbar_offers shown_if_def Let_def split: if_splits
        dest: visible_columns_defs tenants_cells)
qed

interpretation tenants_locked: locked_page "\<lambda>sc. handle_tenants uuid (ts_env sc)" settle_tenants tp_jobs tenants_sent tenants_job_valid
  "tenants_reader t fs" "\<lambda>s. \<not> tp_open s" for uuid t fs
proof
  show "\<not> tp_open (fst (handle_tenants uuid (ts_env sc) a s)) \<and> tenants_sent (snd (handle_tenants uuid (ts_env sc) a s)) = []"
    if "\<not> tp_open s" "tenants_reader t fs sc a s" for s sc a
  proof -
    have "\<exists>i. a = OpenTenant i"
      using that(2) offered_tenants_reader [OF that(1), of "ts_env sc" t fs "ts_model sc" "ts_rows sc"]
      by (auto simp: tenants_reader_def asks_for_def)
    then show ?thesis using that(1) by (auto simp: handle_tenants_def)
  qed
  show "\<not> tp_open (fst (settle_tenants j r s))" if "\<not> tp_open s" for j r s
    using that by (simp add: settle_tenants_def Let_def split: sum.split)
qed (use handle_tenants_sends settle_tenants_frame in \<open>auto simp: list_all_iff\<close>)


text \<open>A user without the permission to write tenants, using what is on the page, never makes it send a call,
  whatever the answers of calls are.\<close>

theorem tenants_reader_sends_nothing:
  assumes "page_session (tenants_reader t fs) (\<lambda>sc. handle_tenants uuid (ts_env sc)) settle_tenants tp_jobs evs initial_tenants"
  shows "tenants_sent (snd (run_page (\<lambda>sc. handle_tenants uuid (ts_env sc)) settle_tenants tp_jobs evs initial_tenants)) = []"
  using tenants_locked.session_sends_nothing [OF assms] by (simp add: initial_tenants_def)

definition sample_tenant :: Tenant where
  "sample_tenant = \<lparr>t_id = ''t1'', t_slug = ''acme'', t_name = ''Acme'', t_status = ''active''\<rparr>"

definition reader_screen :: tenants_screen where
  "reader_screen =
     \<lparr>ts_env = \<lparr>te_caps = AdminCapabilitiesProvider [''admin.read''], te_tenants = Some [sample_tenant], te_error = None\<rparr>,
      ts_model = \<lparr>tm_state = useDataTable tenants_table_initial no_preferences, tm_columns = [], tm_filtered_count = 1, tm_page_count = 1,
        tm_can_previous = False, tm_can_next = False\<rparr>,
      ts_rows = [sample_tenant]\<rparr>"

lemma tenants_reader_sends_nothing_witness:
  "tenants_sent (snd (run_page (\<lambda>sc. handle_tenants show_nat (ts_env sc)) settle_tenants tp_jobs [Act reader_screen (OpenTenant ''t1'')]
     initial_tenants)) = []"
proof (rule tenants_reader_sends_nothing [of "\<lambda>key ps. key" "\<lambda>v. v"])
  show "page_session (tenants_reader (\<lambda>key ps. key) (\<lambda>v. v)) (\<lambda>sc. handle_tenants show_nat (ts_env sc)) settle_tenants tp_jobs
      [Act reader_screen (OpenTenant ''t1'')] initial_tenants"
    by (auto simp: tenants_reader_def asks_for_def page_actions_iff tenantsPage_def tenantsTable_def render_table_offers reader_screen_def
        sample_tenant_def can_def AdminCapabilitiesProvider_def permission_text_def tenantsPageError_def initial_tenants_def Let_def)
qed

section \<open>Submitting again\<close>

lemma create_tenant_sends:
  assumes "snd (createTenant uuid s) = [SendTenants (CreateTenantJob f k)]"
  obtains a where "slugValid s" "js_trim (tf_name (tp_form s)) \<noteq> []" "f = tp_form s"
    "stableIdempotencyKey uuid (tenant_form_json f) \<lparr>current = tp_createAttempt s, uuids_drawn = tp_drawn s\<rparr> = (k, a)"
    "tp_createAttempt (fst (createTenant uuid s)) = current a" "tp_drawn (fst (createTenant uuid s)) = uuids_drawn a"
proof -
  obtain k' a where d: "stableIdempotencyKey uuid (tenant_form_json (tp_form s)) \<lparr>current = tp_createAttempt s, uuids_drawn = tp_drawn s\<rparr> = (k', a)"
    by fastforce
  show thesis by (rule that [of a]) (use assms d in \<open>auto simp: createTenant_def Let_def split: if_splits\<close>)
qed

lemma create_tenant_again:
  assumes "snd (createTenant uuid s) = [SendTenants (CreateTenantJob f k)]"
    and "tp_createAttempt s' = tp_createAttempt (fst (createTenant uuid s))" and "tp_form s' = f"
  shows "snd (createTenant uuid s') = [SendTenants (CreateTenantJob f k)]"
proof -
  from assms(1) obtain a where a: "slugValid s" "js_trim (tf_name f) \<noteq> []" "f = tp_form s"
    "stableIdempotencyKey uuid (tenant_form_json f) \<lparr>current = tp_createAttempt s, uuids_drawn = tp_drawn s\<rparr> = (k, a)"
    "tp_createAttempt s' = current a"
    using assms(2) by (elim create_tenant_sends) auto
  from a(4) have "\<exists>b. stableIdempotencyKey uuid (tenant_form_json f) \<lparr>current = current a, uuids_drawn = tp_drawn s'\<rparr> = (k, b)"
    by (cases rule: stable_draw_cases) (auto simp: stableIdempotencyKey_def)
  then show ?thesis using a assms(3) by (auto simp: createTenant_def slugValid_def Let_def)
qed

definition leaves_attempt :: "(tenants_env, tenants_action, tenants_job, api_error + string) page_event \<Rightarrow> bool" where
  "leaves_attempt ev = 
     (case ev of Act env a \<Rightarrow> (case a of CreateTenantAction \<Rightarrow> False | TenantsRefreshed i \<Rightarrow> False | _ \<Rightarrow> True) | Answer j r \<Rightarrow> True)"

lemma run_leaves_attempt:
  "list_all leaves_attempt evs \<Longrightarrow>
     tp_createAttempt (fst (run_page (handle_tenants uuid) settle_tenants tp_jobs evs s)) = tp_createAttempt s"
proof (induction evs arbitrary: s)
  case (Cons ev evs)
  have "tp_createAttempt (fst (page_step (handle_tenants uuid) settle_tenants tp_jobs ev s)) = tp_createAttempt s"
    using Cons.prems
    by (auto simp: leaves_attempt_def handle_tenants_def settle_tenants_def Let_def split: page_event.splits tenants_action.splits sum.split)
  then show ?case using Cons by (simp add: split_beta Let_def)
qed simp

text \<open>A form submitted again sends the key of the first submission, whether that one failed or is answered and the lists are
  still being fetched, and whatever was typed, closed and opened meanwhile, as long as the form holds the same content and was
  not submitted with another: the server recognises the second creation as the first.\<close>

theorem tenant_resubmission_same_key:
  assumes "snd (createTenant uuid s) = [SendTenants (CreateTenantJob f k)]" and "list_all leaves_attempt evs"
    and "s' = fst (run_page (handle_tenants uuid) settle_tenants tp_jobs evs (fst (createTenant uuid s)))" and "tp_form s' = f"
  shows "snd (createTenant uuid s') = [SendTenants (CreateTenantJob f k)]"
  by (rule create_tenant_again [OF assms(1)]) (use assms(2-4) in \<open>simp_all add: run_leaves_attempt\<close>)

definition sample_form :: tenant_form where
  "sample_form = \<lparr>tf_slug = ''acme'', tf_name = ''Acme''\<rparr>"

lemma tenant_resubmission_same_key_witness:
  "let s = initial_tenants\<lparr>tp_open := True, tp_form := sample_form\<rparr>;
       s' = fst (run_page (handle_tenants show_nat) settle_tenants tp_jobs
         [Answer (CreateTenantJob sample_form ''0'') (Inl (ApiError 503 [])), Act (ts_env reader_screen) (SetTenantOpen False)]
         (fst (createTenant show_nat s)))
   in snd (createTenant show_nat s') = [SendTenants (CreateTenantJob sample_form ''0'')]"
  unfolding Let_def
  by (rule tenant_resubmission_same_key [OF _ _ refl]) code_simp+

end
