(* ===== verification/SettingsPage.thy ===== *)
theory SettingsPage
  imports LockedPages I18n Navigation Validation QueryCache
begin

text \<open>
  The page of the settings (\<open>web/src/routes/settings/-components/page.tsx\<close>): four sections of fields,
  each saved on its own under the revision of the snapshot last read. Edits are kept in a draft that
  starts as a copy of all values. A save that fails reads the settings again; the draft stays.
  Theorems: what is sent has passed the checks of the definitions, a save that succeeds leaves the
  other sections' edits, who may not manage settings cannot change anything, and the draft defeats the
  revision: what another administrator saved meanwhile is overwritten by the next save.
\<close>

section \<open>State\<close>

datatype settings_section = Security | Retention | ApiClientsSection | Console

definition section_text :: "settings_section \<Rightarrow> string" where
  "section_text c =
     (case c of Security \<Rightarrow> ''security'' | Retention \<Rightarrow> ''retention'' | ApiClientsSection \<Rightarrow> ''apiClients'' | Console \<Rightarrow> ''console'')"

definition SECTION_KEYS :: "(settings_section \<times> string list) list" where
  "SECTION_KEYS =
     [(Security, [''session_absolute_hours'', ''session_idle_minutes'']),
      (Retention, [''usage_retention_months'', ''audit_retention_days'', ''webhook_delivery_retention_days'', ''outbox_event_retention_days'']),
      (ApiClientsSection, [''api_client_default_rpm'', ''api_client_default_ttl_days'']),
      (Console, [''default_locale''])]"

text \<open>A save under way: its section, the keys it sends with their values, and the revision it is for.\<close>

datatype settings_job = SaveSettingsJob settings_section "(string \<times> string) list" int

record settings_page =
  sg_draft :: "(string \<times> string) list option"
  sg_saving :: "settings_section option"
  sg_jobs :: "settings_job list"
  sg_rereading :: nat

definition initial_settings :: settings_page where
  "initial_settings = \<lparr>sg_draft = None, sg_saving = None, sg_jobs = [], sg_rereading = 0\<rparr>"

record settings_env =
  se_caps :: AdminCapabilities
  se_data :: "AdminSettingsSnapshot option"
  se_error :: "api_error option"

definition settings_values :: "settings_env \<Rightarrow> settings_page \<Rightarrow> (string \<times> string) list" where
  "settings_values env s =
     (case sg_draft s of Some d \<Rightarrow> d | None \<Rightarrow> (case se_data env of Some d \<Rightarrow> ss_values d | None \<Rightarrow> []))"

text \<open>\<open>new Map(\<dots>)\<close> keeps the last definition of a key.\<close>

definition setting_definition :: "settings_env \<Rightarrow> string \<Rightarrow> AdminSettingDefinition option" where
  "setting_definition env k =
     (case se_data env of None \<Rightarrow> None | Some d \<Rightarrow> map_of (rev (map (\<lambda>def. (sd_key def, def)) (ss_definitions d))) k)"

definition settingsError :: "settings_env \<Rightarrow> string" where
  "settingsError env = (case se_error env of Some e \<Rightarrow> apiErrorMessage e | None \<Rightarrow> [])"

definition settingValid :: "settings_env \<Rightarrow> settings_page \<Rightarrow> string \<Rightarrow> bool" where
  "settingValid env s k =
     (let v = some_or (map_of (settings_values env s) k) [] in
      case setting_definition env k of
        None \<Rightarrow> False
      | Some d \<Rightarrow>
          if sd_type d = EnumSetting then v \<in> set (some_or (sd_options d) [])
          else case (sd_minimum d, sd_maximum d) of
            (Some lo, Some hi) \<Rightarrow> isIntegerInRange v lo hi
          | _ \<Rightarrow> False)"

section \<open>Handlers\<close>

text \<open>\<open>SettingsReread\<close> is the end of the read that follows a failed save.\<close>

datatype settings_action = SaveSection settings_section | EditSetting string string | SettingsReread

datatype settings_effect =
  SendSettings settings_job | SettingsData AdminSettingsSnapshot | SettingsCache "cache_command list" | SettingsToast string

text \<open>A key without a value is left out of the body: \<open>JSON.stringify\<close> drops it.\<close>

definition setting_updates :: "(string \<times> string) list \<Rightarrow> string list \<Rightarrow> (string \<times> string) list" where
  "setting_updates vs keys = concat (map (\<lambda>k. case map_of vs k of Some v \<Rightarrow> [(k, v)] | None \<Rightarrow> []) keys)"

definition saveSection :: "settings_env \<Rightarrow> settings_section \<Rightarrow> string list \<Rightarrow> settings_page \<Rightarrow> settings_page \<times> settings_effect list" where
  "saveSection env c keys s =
     (case se_data env of
        None \<Rightarrow> (s, [])
      | Some d \<Rightarrow>
          if \<not> list_all (settingValid env s) keys then (s, [])
          else let j = SaveSettingsJob c (setting_updates (settings_values env s) keys) (ss_revision d) in
            (s\<lparr>sg_saving := Some c, sg_jobs := sg_jobs s @ [j]\<rparr>, [SendSettings j]))"

definition editSetting :: "settings_env \<Rightarrow> string \<Rightarrow> string \<Rightarrow> settings_page \<Rightarrow> settings_page" where
  "editSetting env k v s = s\<lparr>sg_draft := Some (AList.update k v (settings_values env s))\<rparr>"

definition handle_settings :: "settings_env \<Rightarrow> settings_action \<Rightarrow> settings_page \<Rightarrow> settings_page \<times> settings_effect list" where
  "handle_settings env a s =
     (case a of
        SaveSection c \<Rightarrow> saveSection env c (some_or (map_of SECTION_KEYS c) []) s
      | EditSetting k v \<Rightarrow> (editSetting env k v s, [])
      | SettingsReread \<Rightarrow> (if sg_rereading s = 0 then s else s\<lparr>sg_rereading := sg_rereading s - 1, sg_saving := None\<rparr>, []))"

text \<open>\<open>next[key] = updated.values[key]\<close> for the keys of the section.\<close>

definition take_saved :: "(string \<times> string) list \<Rightarrow> string list \<Rightarrow> (string \<times> string) list \<Rightarrow> (string \<times> string) list" where
  "take_saved updated keys draft =
     fold (\<lambda>k next. case map_of updated k of Some v \<Rightarrow> AList.update k v next | None \<Rightarrow> AList.delete k next) keys draft"

definition settle_settings :: "settings_job \<Rightarrow> (api_error + AdminSettingsSnapshot) \<Rightarrow> settings_page \<Rightarrow> settings_page \<times> settings_effect list" where
  "settle_settings j result s =
     (let s = s\<lparr>sg_jobs := remove1 j (sg_jobs s)\<rparr> in
      case j of SaveSettingsJob c updates revision \<Rightarrow>
        (case result of
           Inr updated \<Rightarrow>
             (s\<lparr>sg_draft := map_option (take_saved (ss_values updated) (some_or (map_of SECTION_KEYS c) [])) (sg_draft s), sg_saving := None\<rparr>,
              [SettingsData updated, SettingsToast ''settings.saved''])
         | Inl e \<Rightarrow>
             (s\<lparr>sg_rereading := Suc (sg_rereading s)\<rparr>,
              [SettingsToast (apiErrorMessage e), SettingsCache [InvalidateMatching (adminQueryKeys QSettings)]])))"

definition settings_call :: "settings_job \<Rightarrow> api_call" where
  "settings_call j = (case j of SaveSettingsJob c updates revision \<Rightarrow> UpdateSettings updates revision)"

section \<open>What it renders\<close>

type_synonym settings_view = "(settings_action, string) control view"

definition option_label :: "string \<Rightarrow> string \<Rightarrow> string" where
  "option_label k opt =
     (if k = ''default_locale'' then (case find (\<lambda>(l, loc). locale_value loc = opt) LOCALE_OPTIONS of Some (l, loc) \<Rightarrow> l | None \<Rightarrow> opt)
      else opt)"

definition settingField :: "translation \<Rightarrow> settings_env \<Rightarrow> settings_page \<Rightarrow> string \<Rightarrow> settings_view list" where
  "settingField t env s k =
     (case setting_definition env k of
        None \<Rightarrow> []
      | Some d \<Rightarrow>
          let locked = flag ''disabled'' (\<not> can (se_caps env) SettingsManage);
              v = some_or (map_of (settings_values env s) k) [] in
          [el ''div'' []
             [label (t (''settings.field.'' @ k) []),
              if sd_type d = EnumSetting then
                Elem ''combobox'' (locked @ [(''aria-label'', t (''settings.field.'' @ k) []), (''value'', v)]) []
                  (map (\<lambda>opt. Elem ''option'' [] [(''onValueChange'', Do (EditSetting k opt))] [Txt (option_label k opt)]) (some_or (sd_options d) []))
              else
                text_field k (flag ''aria-invalid'' (\<not> settingValid env s k) @ locked @
                   (case sd_maximum d of Some hi \<Rightarrow> [(''max'', show_int hi)] | None \<Rightarrow> []) @
                   (case sd_minimum d of Some lo \<Rightarrow> [(''min'', show_int lo)] | None \<Rightarrow> []) @ [(''step'', ''1''), (''type'', ''number'')]) v,
              hint (t (''settings.hint.'' @ k) [])]])"

definition settingsSection :: "translation \<Rightarrow> settings_env \<Rightarrow> settings_page \<Rightarrow> settings_section \<times> string list \<Rightarrow> settings_view" where
  "settingsSection t env s ck =
     (case ck of (c, keys) \<Rightarrow>
       el ''card'' []
         ([el ''h3'' [] [Txt (t (''settings.section.'' @ section_text c) [])],
           hint (t (''settings.section.'' @ section_text c @ ''Description'') [])] @
          concat (map (settingField t env s) keys) @
          shown_if (can (se_caps env) SettingsManage)
            (do_button (sg_saving s \<noteq> None \<or> se_data env = None \<or> \<not> list_all (settingValid env s) keys) (SaveSection c)
              [Txt (if sg_saving s = Some c then t ''settings.saving'' [] else t ''common.save'' [])])))"

definition settingsPage :: "translation \<Rightarrow> settings_env \<Rightarrow> settings_page \<Rightarrow> settings_view" where
  "settingsPage t env s =
     (if se_data env = None \<and> se_error env = None then el ''div'' [(''role'', ''status'')] [Txt (t ''common.loading'' [])]
      else el ''div'' []
        (shown_if (settingsError env \<noteq> []) (el ''alert'' [] [Txt (t (settingsError env) [])]) @
         map (settingsSection t env s) SECTION_KEYS @
         [hint (t ''settings.revision'' [(''revision'', show_int (case se_data env of Some d \<Rightarrow> ss_revision d | None \<Rightarrow> 0))])]))"

section \<open>The page as a machine\<close>

definition settings_sent :: "settings_effect list \<Rightarrow> settings_job list" where
  "settings_sent es = concat (map (\<lambda>e. case e of SendSettings j \<Rightarrow> [j] | _ \<Rightarrow> []) es)"

text \<open>A save sends keys of its section only.\<close>

definition settings_job_valid :: "settings_job \<Rightarrow> bool" where
  "settings_job_valid j =
     (case j of SaveSettingsJob c updates revision \<Rightarrow> list_all (\<lambda>(k, v). k \<in> set (some_or (map_of SECTION_KEYS c) [])) updates)"

lemma settings_sent_simps [simp]:
  "settings_sent [] = []" "settings_sent (SendSettings j # es) = j # settings_sent es" "settings_sent (SettingsData d # es) = settings_sent es"
  "settings_sent (SettingsCache c # es) = settings_sent es" "settings_sent (SettingsToast m # es) = settings_sent es"
  "settings_sent (es @ fs) = settings_sent es @ settings_sent fs"
  by (simp_all add: settings_sent_def)

lemma in_setting_updates: "(k, v) \<in> set (setting_updates vs keys) \<longleftrightarrow> k \<in> set keys \<and> map_of vs k = Some v"
  by (induction keys) (auto simp: setting_updates_def split: option.splits)

lemma map_of_setting_updates: "map_of (setting_updates vs keys) k = (if k \<in> set keys then map_of vs k else None)"
  by (induction keys) (auto simp: setting_updates_def map_add_def split: option.splits)

lemma handle_settings_sends:
  "sg_jobs (fst (handle_settings env a s)) = sg_jobs s @ settings_sent (snd (handle_settings env a s)) \<and>
     list_all settings_job_valid (settings_sent (snd (handle_settings env a s)))"
  by (cases a)
    (auto simp: handle_settings_def saveSection_def editSetting_def settings_job_valid_def list_all_iff in_setting_updates Let_def split: option.split)

lemma settle_settings_frame:
  "sg_jobs (fst (settle_settings j r s)) = remove1 j (sg_jobs s) \<and> settings_sent (snd (settle_settings j r s)) = []"
  by (simp add: settle_settings_def Let_def split: sum.split settings_job.split)

interpretation settings_machine: page_machine handle_settings settle_settings sg_jobs settings_sent settings_job_valid
  using handle_settings_sends settle_settings_frame by unfold_locales (auto simp: list_all_iff)

section \<open>What is sent\<close>

definition setting_fits :: "AdminSettingDefinition \<Rightarrow> string \<Rightarrow> bool" where
  "setting_fits d v =
     (if sd_type d = EnumSetting then v \<in> set (some_or (sd_options d) [])
      else case (sd_minimum d, sd_maximum d) of (Some lo, Some hi) \<Rightarrow> isIntegerInRange v lo hi | _ \<Rightarrow> False)"

lemma settingValid_fits:
  "settingValid env s k \<longleftrightarrow> (\<exists>d. setting_definition env k = Some d \<and> setting_fits d (some_or (map_of (settings_values env s) k) []))"
  by (cases "setting_definition env k") (simp_all add: settingValid_def setting_fits_def Let_def)

lemma save_section_sends:
  assumes "SendSettings j \<in> set (snd (handle_settings env a s))"
  obtains c d where "a = SaveSection c" "se_data env = Some d" "list_all (settingValid env s) (some_or (map_of SECTION_KEYS c) [])"
    "j = SaveSettingsJob c (setting_updates (settings_values env s) (some_or (map_of SECTION_KEYS c) [])) (ss_revision d)"
    "fst (handle_settings env a s) = s\<lparr>sg_saving := Some c, sg_jobs := sg_jobs s @ [j]\<rparr>"
proof (cases a)
  case (SaveSection c)
  then show thesis using assms that by (simp add: handle_settings_def saveSection_def Let_def split: option.splits if_splits)
qed (use assms in \<open>simp_all add: handle_settings_def\<close>)

text \<open>A save sends keys of its section, each with a value its definition admits - an option of the enumeration, or an
  integer between the limits - under the revision of the snapshot on screen.\<close>

theorem settings_save_checked:
  assumes "SendSettings (SaveSettingsJob c updates revision) \<in> set (snd (handle_settings env a s))" and "(k, v) \<in> set updates"
  shows "k \<in> set (some_or (map_of SECTION_KEYS c) []) \<and> map_option ss_revision (se_data env) = Some revision \<and>
    (\<exists>d. setting_definition env k = Some d \<and> setting_fits d v)"
  using assms(1)
proof (rule save_section_sends)
  fix c' d
  assume d: "se_data env = Some d" "list_all (settingValid env s) (some_or (map_of SECTION_KEYS c') [])"
    "SaveSettingsJob c updates revision = SaveSettingsJob c' (setting_updates (settings_values env s) (some_or (map_of SECTION_KEYS c') [])) (ss_revision d)"
  with assms(2) have "k \<in> set (some_or (map_of SECTION_KEYS c) [])" "map_of (settings_values env s) k = Some v"
    by (simp_all add: in_setting_updates)
  with d show ?thesis by (auto simp: list_all_iff settingValid_fits)
qed

section \<open>After an answer\<close>

lemma map_of_take_saved: "map_of (take_saved u keys d) k = (if k \<in> set keys then map_of u k else map_of d k)"
  by (induction keys arbitrary: d) (auto simp: take_saved_def update_conv' delete_conv' split: option.split)

text \<open>A save that succeeds takes the values of its section from the answer and leaves the edits of every other key, and
  ends; a save that fails keeps every edit and stays under way until the settings have been read again.\<close>

theorem settings_answer:
  "let ok = fst (settle_settings (SaveSettingsJob c updates revision) (Inr snapshot) s);
       failed = fst (settle_settings (SaveSettingsJob c updates revision) (Inl e) s) in
     sg_saving ok = None \<and>
     map_option map_of (sg_draft ok) =
       map_option (\<lambda>d k. if k \<in> set (some_or (map_of SECTION_KEYS c) []) then map_of (ss_values snapshot) k else map_of d k) (sg_draft s) \<and>
     sg_draft failed = sg_draft s \<and> sg_saving failed = sg_saving s \<and> sg_saving (fst (handle_settings env SettingsReread failed)) = None"
  by (cases "sg_draft s") (simp_all add: settle_settings_def handle_settings_def Let_def map_of_take_saved fun_eq_iff)

section \<open>Readers\<close>

definition settings_reader :: "translation \<Rightarrow> settings_env \<Rightarrow> settings_action \<Rightarrow> settings_page \<Rightarrow> bool" where
  "settings_reader t env a s \<longleftrightarrow> \<not> can (se_caps env) SettingsManage \<and> asks_for EditSetting (offered (settingsPage t env s)) a"

lemma offered_settings_reader: "\<not> can (se_caps env) SettingsManage \<Longrightarrow> offered (settingsPage t env s) = []"
proof -
  assume "\<not> can (se_caps env) SettingsManage"
  then have "offered (settingsSection t env s ck) = []" for ck
    by (auto simp: settingsSection_def settingField_def Let_def split: prod.split option.split)
  then show ?thesis by (simp add: settingsPage_def)
qed

interpretation settings_locked: locked_page handle_settings settle_settings sg_jobs settings_sent settings_job_valid
  "settings_reader t" "\<lambda>s. sg_draft s = None" for t
proof
  show "sg_draft (fst (handle_settings env a s)) = None \<and> settings_sent (snd (handle_settings env a s)) = []"
    if "sg_draft s = None" "settings_reader t env a s" for s env a
    using that by (auto simp: settings_reader_def asks_for_def offered_settings_reader)
  show "sg_draft (fst (settle_settings j r s)) = None" if "sg_draft s = None" for j r s
    using that by (simp add: settle_settings_def Let_def split: settings_job.split sum.split)
qed

text \<open>A user who may not manage settings is offered no control at all, whatever the state of the page, and nothing
  such a user does makes the page send a save or starts a draft.\<close>

theorem settings_reader_sends_nothing:
  assumes "page_session (settings_reader t) handle_settings settle_settings sg_jobs evs initial_settings"
  shows "settings_sent (snd (run_page handle_settings settle_settings sg_jobs evs initial_settings)) = [] \<and>
    sg_draft (fst (run_page handle_settings settle_settings sg_jobs evs initial_settings)) = None \<and>
    (\<not> can (se_caps env) SettingsManage \<longrightarrow> offered (settingsPage t env s) = [])"
  using settings_locked.session_sends_nothing [OF assms] by (simp add: initial_settings_def offered_settings_reader)

definition integer_setting :: "string \<Rightarrow> int \<Rightarrow> int \<Rightarrow> AdminSettingDefinition" where
  "integer_setting k lo hi =
     \<lparr>sd_key = k, sd_type = IntegerSetting, sd_default_value = [], sd_owner = [], sd_minimum = Some lo, sd_maximum = Some hi, sd_options = None\<rparr>"

definition sample_settings :: "int \<Rightarrow> string \<Rightarrow> string \<Rightarrow> settings_env" where
  "sample_settings revision hours minutes =
     \<lparr>se_caps = default_capabilities,
      se_data = Some \<lparr>ss_revision = revision,
        ss_values = [(''session_absolute_hours'', hours), (''session_idle_minutes'', minutes)],
        ss_definitions = [integer_setting ''session_absolute_hours'' 1 24, integer_setting ''session_idle_minutes'' 5 60]\<rparr>,
      se_error = None\<rparr>"

section \<open>The draft and the revision\<close>

definition is_draft_of :: "AdminSettingsSnapshot \<Rightarrow> string \<Rightarrow> settings_page \<Rightarrow> bool" where
  "is_draft_of d k s \<longleftrightarrow> (\<exists>vs. sg_draft s = Some vs \<and> (\<forall>k'. k' \<noteq> k \<longrightarrow> map_of vs k' = map_of (ss_values d) k'))"

lemma edit_starts_draft:
  "sg_draft s = None \<Longrightarrow> se_data env = Some d \<Longrightarrow> is_draft_of d k (fst (handle_settings env (EditSetting k v) s))"
  by (auto simp: is_draft_of_def handle_settings_def editSetting_def settings_values_def update_conv')

lemma draft_survives:
  "is_draft_of d k s \<Longrightarrow> is_draft_of d k (fst (handle_settings env (SaveSection c) s))"
  "is_draft_of d k s \<Longrightarrow> is_draft_of d k (fst (handle_settings env SettingsReread s))"
  "is_draft_of d k s \<Longrightarrow> is_draft_of d k (fst (settle_settings j (Inl e) s))"
  by (auto simp: is_draft_of_def handle_settings_def saveSection_def settle_settings_def Let_def split: option.split settings_job.split)

text \<open>C25: an edit copies every value of the snapshot into the draft, and a save that is refused, for whatever reason and so also with
  412, by which the server says that another administrator saved first, reads the new revision but keeps the draft. Saving again
  sends, under the new revision, the old value of a setting of the section that this user never touched, and so undoes the other
  administrator's change: the revision check does not prevent it.\<close>

theorem stale_draft_overwrites:
  assumes "sg_draft s = None" and "se_data env = Some d" and "se_data env' = Some d'"
    and "s1 = fst (handle_settings env (SaveSection c) (fst (handle_settings env (EditSetting k v) s)))"
    and "s2 = fst (handle_settings env' SettingsReread (fst (settle_settings j (Inl refusal) s1)))"
    and "SendSettings (SaveSettingsJob c updates revision) \<in> set (snd (handle_settings env' (SaveSection c) s2))"
    and "k' \<in> set (some_or (map_of SECTION_KEYS c) [])" and "k' \<noteq> k"
  shows "revision = ss_revision d' \<and> map_of updates k' = map_of (ss_values d) k'"
proof -
  have "is_draft_of d k s2"
    unfolding assms(4,5) using assms(1,2) by (intro draft_survives edit_starts_draft)
  then have "map_of (settings_values env' s2) k' = map_of (ss_values d) k'"
    using assms(8) by (auto simp: is_draft_of_def settings_values_def)
  note kept = this
  from assms(6) show ?thesis
  proof (rule save_section_sends)
    fix c' e
    assume "se_data env' = Some e"
      "SaveSettingsJob c updates revision = SaveSettingsJob c' (setting_updates (settings_values env' s2) (some_or (map_of SECTION_KEYS c') [])) (ss_revision e)"
    with assms(3,7) kept show ?thesis by (simp add: map_of_setting_updates)
  qed
qed

definition sample_saved :: settings_page where
  "sample_saved = fst (handle_settings (sample_settings 1 ''8'' ''30'') (SaveSection Security)
     (fst (handle_settings (sample_settings 1 ''8'' ''30'') (EditSetting ''session_absolute_hours'' ''9'') initial_settings)))"

definition sample_updates :: "(string \<times> string) list" where
  "sample_updates = [(''session_absolute_hours'', ''9''), (''session_idle_minutes'', ''30'')]"

definition sample_conflict :: settings_page where
  "sample_conflict = fst (handle_settings (sample_settings 2 ''8'' ''15'') SettingsReread
     (fst (settle_settings (SaveSettingsJob Security sample_updates 1) (Inl (ApiError 412 ''settings_revision_conflict'')) sample_saved)))"

lemma stale_draft_overwrites_witness:
  "settings_sent (snd (handle_settings (sample_settings 2 ''8'' ''15'') (SaveSection Security) sample_conflict)) =
     [SaveSettingsJob Security sample_updates 2] \<and> map_of sample_updates ''session_idle_minutes'' = Some ''30''"
proof -
  have sent: "SendSettings (SaveSettingsJob Security sample_updates 2) \<in>
      set (snd (handle_settings (sample_settings 2 ''8'' ''15'') (SaveSection Security) sample_conflict))"
    by code_simp
  have "map_of sample_updates ''session_idle_minutes'' = map_of (ss_values (the (se_data (sample_settings 1 ''8'' ''30'')))) ''session_idle_minutes''"
    by (rule stale_draft_overwrites [OF _ _ _ sample_saved_def sample_conflict_def sent, THEN conjunct2])
      (simp_all add: initial_settings_def sample_settings_def SECTION_KEYS_def)
  moreover have "settings_sent (snd (handle_settings (sample_settings 2 ''8'' ''15'') (SaveSection Security) sample_conflict)) =
      [SaveSettingsJob Security sample_updates 2]"
    by code_simp
  ultimately show ?thesis by (simp add: sample_settings_def)
qed

lemma settings_reader_sends_nothing_witness:
  "settings_sent (snd (run_page handle_settings settle_settings sg_jobs [Answer (SaveSettingsJob Console [] 1) (Inl (ApiError 412 ''settings_revision_conflict''))] initial_settings)) = []"
  by (rule settings_reader_sends_nothing [of "\<lambda>key ps. key", THEN conjunct1]) simp

lemma settings_save_checked_witness:
  "''session_absolute_hours'' \<in> set (some_or (map_of SECTION_KEYS Security) []) \<and>
    setting_fits (integer_setting ''session_absolute_hours'' 1 24) ''9''"
proof -
  let ?e = "sample_settings 1 ''9'' ''30''"
  let ?u = "[(''session_absolute_hours'', ''9''), (''session_idle_minutes'', ''30'')]"
  have "SendSettings (SaveSettingsJob Security ?u 1) \<in> set (snd (handle_settings ?e (SaveSection Security) initial_settings))"
    by code_simp
  from settings_save_checked [OF this, of "''session_absolute_hours''" "''9''"] show ?thesis
    by (simp add: sample_settings_def setting_definition_def integer_setting_def)
qed

end
