(* ===== verification/Integrations.thy ===== *)
theory Integrations
  imports LockedPages I18n Navigation Validation QueryCache
begin

text \<open>
  The page of the webhooks (\<open>web/src/routes/integrations/-components/page.tsx\<close>): the targets and the
  deliveries in two tabs, the creation of a target, switching one on and off, and sending a dead
  delivery again. A call that succeeds waits until both lists have been fetched again
  (\<open>WebhooksRefreshed\<close>). The secret a creation answers is shown in a dialog of its own.
  Theorems: what is sent has been checked, one creation at a time, and the secret is on screen only
  between the answer and the closing of its dialog. \<open>parseURL\<close> is the platform's \<open>new URL\<close>.
\<close>

section \<open>State and handlers\<close>

datatype webhook_job =
    CreateTargetJob string string WebhookFormat
  | SwitchTargetJob string TargetStatus
  | ReplayDeliveryJob string

datatype webhooks_tab = TargetsTab | DeliveriesTab

record webhooks_page =
  createOpen :: bool
  wh_name :: string
  wh_url :: string
  wh_format :: WebhookFormat
  createdTarget :: "CreatedWebhookTarget option"
  wh_pending :: bool
  wh_tab :: webhooks_tab
  wh_jobs :: "webhook_job list"
  wh_refreshing :: "webhook_job list"

definition initial_webhooks :: webhooks_page where
  "initial_webhooks =
     \<lparr>createOpen = False, wh_name = [], wh_url = [], wh_format = Generic, createdTarget = None, wh_pending = False,
      wh_tab = TargetsTab, wh_jobs = [], wh_refreshing = []\<rparr>"

record webhooks_env =
  we_targets :: "WebhookTarget list option"
  we_deliveries :: "WebhookDelivery list option"
  we_targets_error :: "api_error option"
  we_deliveries_error :: "api_error option"

definition webhookURLValid :: "(string \<Rightarrow> url option) \<Rightarrow> webhooks_page \<Rightarrow> bool" where
  "webhookURLValid parseURL s = isValidWebhookURL parseURL (wh_url s)"

datatype webhooks_input = TargetName | TargetURL

datatype webhooks_action =
    OpenCreateTarget | SetCreateOpen bool | CreateTargetAction
  | ToggleTarget WebhookTarget
  | ReplayDelivery string
  | PickFormat WebhookFormat
  | CloseSecret
  | SetWebhooksTab webhooks_tab
  | WebhooksInput webhooks_input string
  | WebhooksRefreshed webhook_job

datatype webhooks_effect = SendWebhook webhook_job | WebhooksCache "cache_command list" | WebhooksToast string

definition refreshWebhookQueries :: "cache_command list" where
  "refreshWebhookQueries = [InvalidateMatching (adminQueryKeys QWebhookTargets), InvalidateMatching (adminQueryKeys QWebhookDeliveries)]"

definition send_webhook :: "webhook_job \<Rightarrow> webhooks_page \<Rightarrow> webhooks_page \<times> webhooks_effect list" where
  "send_webhook j s = (s\<lparr>wh_jobs := wh_jobs s @ [j]\<rparr>, [SendWebhook j])"

definition createTarget :: "(string \<Rightarrow> url option) \<Rightarrow> webhooks_page \<Rightarrow> webhooks_page \<times> webhooks_effect list" where
  "createTarget parseURL s =
     (if js_trim (wh_name s) = [] \<or> \<not> webhookURLValid parseURL s then (s, [])
      else send_webhook (CreateTargetJob (wh_name s) (wh_url s) (wh_format s)) (s\<lparr>wh_pending := True\<rparr>))"

definition toggleTarget :: "WebhookTarget \<Rightarrow> webhooks_page \<Rightarrow> webhooks_page \<times> webhooks_effect list" where
  "toggleTarget target s =
     send_webhook (SwitchTargetJob (wt_id target) (if wt_status target = TargetActive then TargetDisabled else TargetActive)) s"

text \<open>What a handler does once the lists are fetched again.\<close>

definition webhooks_refreshed :: "webhook_job \<Rightarrow> webhooks_page \<Rightarrow> webhooks_page \<times> webhooks_effect list" where
  "webhooks_refreshed j s =
     (if j \<notin> set (wh_refreshing s) then (s, [])
      else let s = s\<lparr>wh_refreshing := remove1 j (wh_refreshing s)\<rparr> in
        case j of
          CreateTargetJob _ _ _ \<Rightarrow> (s\<lparr>wh_pending := False\<rparr>, [WebhooksToast ''integrations.created''])
        | SwitchTargetJob _ _ \<Rightarrow> (s, [])
        | ReplayDeliveryJob _ \<Rightarrow> (s, [WebhooksToast ''integrations.replayed'']))"

definition handle_webhooks :: "(string \<Rightarrow> url option) \<Rightarrow> webhooks_env \<Rightarrow> webhooks_action \<Rightarrow> webhooks_page \<Rightarrow> webhooks_page \<times> webhooks_effect list" where
  "handle_webhooks parseURL env a s =
     (case a of
        OpenCreateTarget \<Rightarrow> (s\<lparr>createOpen := True\<rparr>, [])
      | SetCreateOpen b \<Rightarrow> (s\<lparr>createOpen := b\<rparr>, [])
      | CreateTargetAction \<Rightarrow> createTarget parseURL s
      | ToggleTarget target \<Rightarrow> toggleTarget target s
      | ReplayDelivery i \<Rightarrow> send_webhook (ReplayDeliveryJob i) s
      | PickFormat f \<Rightarrow> (s\<lparr>wh_format := f\<rparr>, [])
      | CloseSecret \<Rightarrow> (s\<lparr>createdTarget := None\<rparr>, [])
      | SetWebhooksTab x \<Rightarrow> (s\<lparr>wh_tab := x\<rparr>, [])
      | WebhooksInput i v \<Rightarrow> ((case i of TargetName \<Rightarrow> s\<lparr>wh_name := v\<rparr> | TargetURL \<Rightarrow> s\<lparr>wh_url := v\<rparr>), [])
      | WebhooksRefreshed j \<Rightarrow> webhooks_refreshed j s)"

text \<open>The answer of a creation is the target with its secret; the others answer nothing the page reads.\<close>

definition settle_webhooks :: "webhook_job \<Rightarrow> (api_error + CreatedWebhookTarget option) \<Rightarrow> webhooks_page \<Rightarrow> webhooks_page \<times> webhooks_effect list" where
  "settle_webhooks j result s =
     (let s = s\<lparr>wh_jobs := remove1 j (wh_jobs s)\<rparr> in
      case result of
        Inl e \<Rightarrow> ((case j of CreateTargetJob _ _ _ \<Rightarrow> s\<lparr>wh_pending := False\<rparr> | _ \<Rightarrow> s), [WebhooksToast (apiErrorMessage e)])
      | Inr created \<Rightarrow>
          let s = s\<lparr>wh_refreshing := wh_refreshing s @ [j]\<rparr> in
          ((case j of CreateTargetJob _ _ _ \<Rightarrow> s\<lparr>createdTarget := created, createOpen := False, wh_name := [], wh_url := []\<rparr> | _ \<Rightarrow> s),
           [WebhooksCache refreshWebhookQueries]))"

definition webhook_call :: "webhook_job \<Rightarrow> api_call" where
  "webhook_call j =
     (case j of
        CreateTargetJob name u f \<Rightarrow> CreateWebhookTarget name u f
      | SwitchTargetJob i status \<Rightarrow> SetWebhookTargetStatus i status
      | ReplayDeliveryJob i \<Rightarrow> ReplayWebhookDelivery i)"

section \<open>What it renders\<close>

type_synonym webhooks_control = "(webhooks_action, webhooks_input) control"

definition targetColumns :: "translation \<Rightarrow> (WebhookTarget, webhooks_control) column_def list" where
  "targetColumns t =
     [data_column ''name'' (t ''integrations.name'' []) (\<lambda>r. [Txt (wt_name r)]),
      data_column ''endpoint'' (t ''integrations.endpoint'' []) (\<lambda>r. [el ''code'' [] [Txt (wt_endpoint r)]]),
      data_column ''format'' (t ''integrations.format'' []) (\<lambda>r. [badge ''outline'' (format_text (wt_format r))]),
      data_column ''status'' (t ''common.status'' [])
        (\<lambda>r. [badge (if wt_status r = TargetActive then ''default'' else ''secondary'') (target_status_text (wt_status r))]),
      actions_column []
        (\<lambda>r. [do_button False (ToggleTarget r) [Txt (t (if wt_status r = TargetActive then ''integrations.disable'' else ''integrations.enable'') [])]])]"

definition delivery_status_text :: "DeliveryStatus \<Rightarrow> string" where
  "delivery_status_text d =
     (case d of DPending \<Rightarrow> ''pending'' | DDelivering \<Rightarrow> ''delivering'' | DRetry \<Rightarrow> ''retry'' | DDelivered \<Rightarrow> ''delivered'' | DDeadLetter \<Rightarrow> ''dead_letter'')"

definition deliveryColumns :: "translation \<Rightarrow> (WebhookDelivery, webhooks_control) column_def list" where
  "deliveryColumns t =
     [data_column ''event_type'' (t ''integrations.event'' []) (\<lambda>r. [Txt (wd_event_type r)]),
      data_column ''target_name'' (t ''integrations.target'' []) (\<lambda>r. [Txt (wd_target_name r)]),
      data_column ''status'' (t ''common.status'' [])
        (\<lambda>r. [badge (if wd_status r = DDelivered then ''default'' else if wd_status r = DDeadLetter then ''destructive'' else ''secondary'')
          (delivery_status_text (wd_status r))]),
      data_column ''attempt_count'' (t ''integrations.attempts'' []) (\<lambda>r. [Txt (show_nat (wd_attempt_count r))]),
      actions_column []
        (\<lambda>r. shown_if (wd_status r = DDeadLetter)
          (button [(''aria-label'', t ''integrations.replay'' [])] (Do (ReplayDelivery (wd_id r))) [el ''icon'' [(''name'', ''RefreshCw'')] []]))]"

definition newTargetDialog :: "translation \<Rightarrow> (string \<Rightarrow> url option) \<Rightarrow> webhooks_page \<Rightarrow> webhooks_control view list" where
  "newTargetDialog t parseURL s =
     (let ok = webhookURLValid parseURL s in
      dialog (createOpen s) (Do (SetCreateOpen False)) (t ''integrations.new'' []) (t ''integrations.newDescription'' [])
        [label (t ''integrations.name'' []), text_field TargetName [(''aria-label'', t ''integrations.name'' [])] (wh_name s),
         label (t ''integrations.url'' []),
         text_field TargetURL
           (flag ''aria-invalid'' (wh_url s \<noteq> [] \<and> \<not> ok) @
            [(''aria-label'', t ''integrations.url'' []), (''placeholder'', ''https://receiver.example/webhooks/tenancit''), (''type'', ''url'')]) (wh_url s),
         hint (t ''validation.webhookURL'' []),
         select (Do \<circ> PickFormat) (format_text (wh_format s))
           [(t ''integrations.formatGeneric'' [], Generic), (''Slack'', Slack), (''Discord'', Discord), (''Microsoft Teams'', Teams)],
         do_button False (SetCreateOpen False) [Txt (t ''common.cancel'' [])],
         do_button (wh_pending s \<or> js_trim (wh_name s) = [] \<or> \<not> ok) CreateTargetAction [Txt (t ''common.save'' [])]])"

definition secretDialog :: "translation \<Rightarrow> webhooks_page \<Rightarrow> webhooks_control view list" where
  "secretDialog t s =
     dialog (createdTarget s \<noteq> None) (Do CloseSecret) (t ''integrations.secretTitle'' []) (t ''integrations.secretDescription'' [])
       [el ''input'' [(''aria-label'', t ''integrations.signingSecret'' []), (''readOnly'', ''true''),
          (''value'', case createdTarget s of Some c \<Rightarrow> wt_signing_secret c | None \<Rightarrow> [])] [],
        do_button False CloseSecret [Txt (t ''integrations.done'' [])]]"

text \<open>The page shows one table at a time, the one of the tab chosen; \<open>m\<close> is its model.\<close>

definition webhooksTable ::
  "translation \<Rightarrow> table_model \<Rightarrow> WebhookTarget list \<Rightarrow> WebhookDelivery list \<Rightarrow> webhooks_page \<Rightarrow> webhooks_control grid_action view" where
  "webhooksTable t m targets deliveries s =
     (let tr = (\<lambda>key. t key []); tool = (\<lambda>empty search trailing.
        [dataTableToolbar tr ((page_toolbar_labels tr search)\<lparr>tl_empty := tr empty\<rparr>) [] [] trailing m]) in
      case wh_tab s of
        TargetsTab \<Rightarrow>
          render_table (page_sort_labels tr) (page_table_labels tr) (tr ''dataTable.noResults'') (\<lambda>r. None) (targetColumns t) m targets
            (tool ''integrations.emptyTargets'' ''integrations.searchTargets'' [do_button False OpenCreateTarget [Txt (tr ''integrations.new'')]])
      | DeliveriesTab \<Rightarrow>
          render_table (page_sort_labels tr) (page_table_labels tr) (tr ''dataTable.noResults'') (\<lambda>r. None) (deliveryColumns t) m deliveries
            (tool ''integrations.emptyDeliveries'' ''integrations.searchDeliveries'' []))"

definition webhooksError :: "webhooks_env \<Rightarrow> string" where
  "webhooksError env =
     (case we_targets_error env of Some e \<Rightarrow> apiErrorMessage e
      | None \<Rightarrow> (case we_deliveries_error env of Some e \<Rightarrow> apiErrorMessage e | None \<Rightarrow> []))"

definition integrationsPage ::
  "translation \<Rightarrow> (string \<Rightarrow> url option) \<Rightarrow> webhooks_env \<Rightarrow> table_model \<Rightarrow> WebhookTarget list \<Rightarrow> WebhookDelivery list \<Rightarrow> webhooks_page \<Rightarrow>
     webhooks_control grid_action view" where
  "integrationsPage t parseURL env m targets deliveries s =
     el ''div'' []
       (map (map_view PageDoes)
          (shown_if (webhooksError env \<noteq> []) (el ''alert'' [] [Txt (t (webhooksError env) [])]) @
           [do_button False (SetWebhooksTab TargetsTab) [Txt (t ''integrations.targets'' [])],
            do_button False (SetWebhooksTab DeliveriesTab) [Txt (t ''integrations.deliveries'' [])]]) @
        [webhooksTable t m targets deliveries s] @
        map (map_view PageDoes) (newTargetDialog t parseURL s @ secretDialog t s))"

section \<open>The page as a machine\<close>

definition webhooks_sent :: "webhooks_effect list \<Rightarrow> webhook_job list" where
  "webhooks_sent es = concat (map (\<lambda>e. case e of SendWebhook j \<Rightarrow> [j] | _ \<Rightarrow> []) es)"

definition webhook_job_valid :: "(string \<Rightarrow> url option) \<Rightarrow> webhook_job \<Rightarrow> bool" where
  "webhook_job_valid parseURL j =
     (case j of CreateTargetJob name u f \<Rightarrow> js_trim name \<noteq> [] \<and> isValidWebhookURL parseURL u | _ \<Rightarrow> True)"

lemma webhooks_sent_simps [simp]:
  "webhooks_sent [] = []" "webhooks_sent (SendWebhook j # es) = j # webhooks_sent es" "webhooks_sent (WebhooksCache c # es) = webhooks_sent es"
  "webhooks_sent (WebhooksToast m # es) = webhooks_sent es" "webhooks_sent (es @ fs) = webhooks_sent es @ webhooks_sent fs"
  by (simp_all add: webhooks_sent_def)

lemmas webhook_handlers = handle_webhooks_def createTarget_def toggleTarget_def send_webhook_def webhooks_refreshed_def

lemma handle_webhooks_sends:
  "wh_jobs (fst (handle_webhooks parseURL env a s)) = wh_jobs s @ webhooks_sent (snd (handle_webhooks parseURL env a s)) \<and>
     list_all (webhook_job_valid parseURL) (webhooks_sent (snd (handle_webhooks parseURL env a s)))"
  by (cases a)
    (simp_all add: webhook_handlers webhook_job_valid_def webhookURLValid_def Let_def split: webhooks_input.split webhook_job.split)

lemma settle_webhooks_frame:
  "wh_jobs (fst (settle_webhooks j r s)) = remove1 j (wh_jobs s) \<and> webhooks_sent (snd (settle_webhooks j r s)) = []"
  by (simp add: settle_webhooks_def Let_def split: sum.split webhook_job.split)

interpretation webhooks_machine: page_machine "handle_webhooks parseURL" settle_webhooks wh_jobs webhooks_sent "webhook_job_valid parseURL"
  for parseURL
  using handle_webhooks_sends settle_webhooks_frame by unfold_locales (auto simp: list_all_iff)

section \<open>One creation at a time\<close>

record webhooks_screen =
  ws_env :: webhooks_env
  ws_model :: table_model
  ws_targets :: "WebhookTarget list"
  ws_deliveries :: "WebhookDelivery list"

text \<open>The user does what a control asks for; the end of a refresh is not the user's.\<close>

definition webhooks_possible ::
  "translation \<Rightarrow> (string \<Rightarrow> url option) \<Rightarrow> webhooks_screen \<Rightarrow> webhooks_action \<Rightarrow> webhooks_page \<Rightarrow> bool" where
  "webhooks_possible t parseURL sc a s \<longleftrightarrow>
     (case a of WebhooksRefreshed j \<Rightarrow> True
      | _ \<Rightarrow> asks_for WebhooksInput (page_actions (integrationsPage t parseURL (ws_env sc) (ws_model sc) (ws_targets sc) (ws_deliveries sc) s)) a)"

definition is_creation :: "webhook_job \<Rightarrow> bool" where
  "is_creation j = (case j of CreateTargetJob name u f \<Rightarrow> True | _ \<Rightarrow> False)"

definition how_many :: "webhook_job list \<Rightarrow> nat" where
  "how_many js = length (filter is_creation js)"

definition creations :: "webhooks_page \<Rightarrow> nat" where
  "creations s = how_many (wh_jobs s) + how_many (wh_refreshing s)"

lemma is_creation_simps [simp]:
  "is_creation (CreateTargetJob name u f)" "\<not> is_creation (SwitchTargetJob i status)" "\<not> is_creation (ReplayDeliveryJob i)"
  by (simp_all add: is_creation_def)

lemma how_many_simps [simp]:
  "how_many [] = 0" "how_many (js @ ks) = how_many js + how_many ks" "how_many (j # js) = (if is_creation j then 1 else 0) + how_many js"
  by (simp_all add: how_many_def)

lemma how_many_remove1: "j \<in> set js \<Longrightarrow> how_many js = (if is_creation j then 1 else 0) + how_many (remove1 j js)"
  by (induction js) auto

lemma webhooks_cells:
  "d \<in> set (targetColumns t) \<Longrightarrow> v \<in> set (cd_cell d r) \<Longrightarrow> Do CreateTargetAction \<notin> set (offered v)"
  "d' \<in> set (deliveryColumns t) \<Longrightarrow> v \<in> set (cd_cell d' r') \<Longrightarrow> Do CreateTargetAction \<notin> set (offered v)"
  by (auto simp: targetColumns_def deliveryColumns_def data_column_def actions_column_def shown_if_def split: if_splits)

lemma create_offered:
  "Do CreateTargetAction \<in> set (page_actions (integrationsPage t parseURL env m targets deliveries s)) \<Longrightarrow> \<not> wh_pending s"
  by (auto simp: page_actions_iff integrationsPage_def webhooksTable_def render_table_offers toolbar_offers newTargetDialog_def secretDialog_def
      dialog_def shown_if_def select_def is_disabled_def Let_def split: if_splits webhooks_tab.splits
      dest: visible_columns_defs webhooks_cells)

definition one_creation :: "webhooks_page \<Rightarrow> bool" where
  "one_creation s \<longleftrightarrow> creations s = (if wh_pending s then 1 else 0)"

lemma handle_one_creation:
  assumes "one_creation s" and "webhooks_possible t parseURL sc a s"
  shows "one_creation (fst (handle_webhooks parseURL (ws_env sc) a s))"
proof (cases a)
  case CreateTargetAction
  then have "\<not> wh_pending s"
    using assms(2) create_offered by (auto simp: webhooks_possible_def asks_for_def)
  then show ?thesis using assms(1) CreateTargetAction by (simp add: webhook_handlers one_creation_def creations_def)
next
  case (WebhooksRefreshed j)
  show ?thesis
  proof (cases "j \<in> set (wh_refreshing s)")
    case True
    from how_many_remove1 [OF this] show ?thesis
      using assms(1) WebhooksRefreshed by (cases j) (simp_all add: webhook_handlers one_creation_def creations_def split: if_splits)
  qed (use assms(1) WebhooksRefreshed in \<open>simp add: webhook_handlers one_creation_def creations_def\<close>)
qed (use assms(1) in \<open>auto simp: webhook_handlers one_creation_def creations_def split: webhooks_input.split\<close>)

lemma settle_one_creation:
  assumes "one_creation s" and "j \<in> set (wh_jobs s)"
  shows "one_creation (fst (settle_webhooks j r s))"
  using assms(1) how_many_remove1 [OF assms(2)]
  by (cases j; cases r) (simp_all add: settle_webhooks_def one_creation_def creations_def Let_def split: if_splits)

text \<open>C27: a target is created once at a time: while a creation is under way, or answered with the lists still being fetched
  again, the page offers no second one, whatever else is switched, sent again, typed, opened or closed; the pending flag
  counts the creations exactly.\<close>

theorem one_creation_at_a_time:
  assumes "page_session (webhooks_possible t parseURL) (\<lambda>sc. handle_webhooks parseURL (ws_env sc)) settle_webhooks wh_jobs evs initial_webhooks"
    and "s = fst (run_page (\<lambda>sc. handle_webhooks parseURL (ws_env sc)) settle_webhooks wh_jobs evs initial_webhooks)"
  shows "creations s = (if wh_pending s then 1 else 0)"
proof -
  have "one_creation s"
    unfolding assms(2)
    by (rule page_session_invariant [of one_creation, OF handle_one_creation settle_one_creation assms(1)])
      (simp_all add: one_creation_def creations_def initial_webhooks_def)
  then show ?thesis by (simp add: one_creation_def)
qed

definition sample_webhooks :: webhooks_screen where
  "sample_webhooks =
     \<lparr>ws_env = \<lparr>we_targets = Some [], we_deliveries = Some [], we_targets_error = None, we_deliveries_error = None\<rparr>,
      ws_model = \<lparr>tm_state = useDataTable \<lparr>init_globalFilter = None, init_pagination = None, init_sorting = None, init_columnVisibility = None\<rparr> no_preferences,
        tm_columns = [], tm_filtered_count = 0, tm_page_count = 0, tm_can_previous = False, tm_can_next = False\<rparr>,
      ws_targets = [], ws_deliveries = []\<rparr>"

definition sample_url :: "string \<Rightarrow> url option" where
  "sample_url u = (if u = ''https://a.example/'' then Some \<lparr>protocol = ''https:'', username = [], password = [], hostname = ''a.example'', hash = []\<rparr> else None)"

definition sample_creation :: "(webhooks_screen, webhooks_action, webhook_job, api_error + CreatedWebhookTarget option) page_event list" where
  "sample_creation =
     [Act sample_webhooks OpenCreateTarget, Act sample_webhooks (WebhooksInput TargetName ''n''),
      Act sample_webhooks (WebhooksInput TargetURL ''https://a.example/''), Act sample_webhooks CreateTargetAction]"

lemma one_creation_at_a_time_witness:
  "creations (fst (run_page (\<lambda>sc. handle_webhooks sample_url (ws_env sc)) settle_webhooks wh_jobs sample_creation initial_webhooks)) = 1"
proof -
  have "isValidWebhookURL sample_url ''https://a.example/''" by code_simp
  moreover have "js_trim ''n'' = ''n''" by code_simp
  ultimately have session: "page_session (webhooks_possible (\<lambda>key ps. key) sample_url) (\<lambda>sc. handle_webhooks sample_url (ws_env sc)) settle_webhooks wh_jobs
      sample_creation initial_webhooks"
    by (simp add: sample_creation_def webhooks_possible_def asks_for_def page_actions_iff integrationsPage_def webhooksTable_def render_table_offers
        toolbar_offers newTargetDialog_def webhookURLValid_def initial_webhooks_def handle_webhooks_def createTarget_def send_webhook_def dialog_def image_iff bex_Un
        sample_webhooks_def Let_def)
  have "wh_pending (fst (run_page (\<lambda>sc. handle_webhooks sample_url (ws_env sc)) settle_webhooks wh_jobs sample_creation initial_webhooks))"
    by code_simp
  with one_creation_at_a_time [OF session refl] show ?thesis by simp
qed

section \<open>The secret\<close>

definition answers_secret :: "CreatedWebhookTarget \<Rightarrow> (webhooks_env, webhooks_action, webhook_job, api_error + CreatedWebhookTarget option) page_event \<Rightarrow> bool" where
  "answers_secret c ev = (case ev of Answer (CreateTargetJob name u f) (Inr (Some c')) \<Rightarrow> c' = c | _ \<Rightarrow> False)"

lemma created_target_step:
  assumes "createdTarget (fst (page_step (handle_webhooks parseURL) settle_webhooks wh_jobs ev s)) = Some c" and "\<not> answers_secret c ev"
  shows "createdTarget s = Some c \<and> (\<forall>env. ev \<noteq> Act env CloseSecret)"
proof (cases ev)
  case (Act env a)
  then show ?thesis using assms(1)
    by (cases a) (auto simp: webhook_handlers Let_def split: if_splits webhooks_input.splits webhook_job.splits)
next
  case (Answer j r)
  then show ?thesis using assms
    by (auto simp: settle_webhooks_def answers_secret_def Let_def split: if_splits sum.splits webhook_job.splits)
qed

lemma secret_shown_while_open:
  assumes "createdTarget (fst (run_page (handle_webhooks parseURL) settle_webhooks wh_jobs evs s)) = Some c" and "createdTarget s = None"
  shows "\<exists>before ev after. evs = before @ ev # after \<and> answers_secret c ev \<and> (\<forall>env. Act env CloseSecret \<notin> set after)"
  using assms(1)
proof (induction evs rule: rev_induct)
  case Nil
  then show ?case using assms(2) by simp
next
  case (snoc ev evs)
  let ?s = "fst (run_page (handle_webhooks parseURL) settle_webhooks wh_jobs evs s)"
  have last: "createdTarget (fst (page_step (handle_webhooks parseURL) settle_webhooks wh_jobs ev ?s)) = Some c"
    using snoc.prems by (simp add: run_page_append case_prod_beta Let_def)
  show ?case
  proof (cases "answers_secret c ev")
    case True
    then show ?thesis by (intro exI [of _ evs] exI [of _ ev] exI [of _ "[]"]) simp
  next
    case False
    then have kept: "createdTarget ?s = Some c" "\<forall>env. ev \<noteq> Act env CloseSecret" using created_target_step [OF last] by blast+
    obtain before ev' after where "evs = before @ ev' # after" "answers_secret c ev'" "\<forall>env. Act env CloseSecret \<notin> set after"
      using snoc.IH [OF kept(1)] by blast
    then show ?thesis using kept(2) by (intro exI [of _ before] exI [of _ ev'] exI [of _ "after @ [ev]"]) auto
  qed
qed

text \<open>C26: when the signing secret of a target is on screen, a creation answered it and its dialog has not been closed since:
  closing the dialog, by its button or otherwise, forgets the secret for good.\<close>

theorem signing_secret_forgotten:
  assumes "s' = fst (run_page (handle_webhooks parseURL) settle_webhooks wh_jobs evs initial_webhooks)" and "secretDialog t s' \<noteq> []"
  shows "\<exists>c before ev after. createdTarget s' = Some c \<and> evs = before @ ev # after \<and> answers_secret c ev \<and>
    (\<forall>env. Act env CloseSecret \<notin> set after)"
proof -
  obtain c where c: "createdTarget s' = Some c"
    using assms(2) by (auto simp: secretDialog_def dialog_def shown_if_def split: if_splits)
  with secret_shown_while_open [of parseURL evs initial_webhooks c] assms(1) show ?thesis by (auto simp: initial_webhooks_def)
qed

definition sample_target :: CreatedWebhookTarget where
  "sample_target =
     \<lparr>wt_id = ''w1'', wt_name = ''n'', wt_format = Generic, wt_status = TargetActive, wt_endpoint = ''https://a.example/'', wt_consecutive_failures = 0,
      wt_circuit_open_until = None, wt_created_at = [], wt_updated_at = [], wt_signing_secret = ''s''\<rparr>"

lemma signing_secret_forgotten_witness:
  "\<exists>c before ev after. createdTarget (fst (run_page (handle_webhooks sample_url) settle_webhooks wh_jobs
       [Act (ws_env sample_webhooks) (WebhooksInput TargetName ''n''), Act (ws_env sample_webhooks) (WebhooksInput TargetURL ''https://a.example/''),
        Act (ws_env sample_webhooks) CreateTargetAction, Answer (CreateTargetJob ''n'' ''https://a.example/'' Generic) (Inr (Some sample_target))]
       initial_webhooks)) = Some c \<and>
     [Act (ws_env sample_webhooks) (WebhooksInput TargetName ''n''), Act (ws_env sample_webhooks) (WebhooksInput TargetURL ''https://a.example/''),
        Act (ws_env sample_webhooks) CreateTargetAction, Answer (CreateTargetJob ''n'' ''https://a.example/'' Generic) (Inr (Some sample_target))] =
       before @ ev # after \<and> answers_secret c ev \<and> (\<forall>env. Act env CloseSecret \<notin> set after)"
  by (rule signing_secret_forgotten [of _ sample_url _ "\<lambda>key ps. key", OF refl]) code_simp

end
