(* ===== verification/UsagePage.thy ===== *)
theory UsagePage
  imports Pages I18n TenantOverview
begin

text \<open>
  The page of the usage of API clients (\<open>web/src/routes/usage/-components/page.tsx\<close>) and the choice of
  its month (\<open>month-year-nav.tsx\<close>): the filters, the totals and the daily chart. A moment is looked at
  by its local year and month only. \<open>date-fns\<close> is an argument, \<open>date_fns\<close>; the bars of the chart are
  Recharts'. The month is written by \<open>monthToString\<close> only, so \<open>Number\<close> of its parts is \<open>int_value\<close>.
  Theorems: the month and the range asked for come back from its text, and every request counted in the
  total is drawn on exactly one day of the chart.
\<close>

section \<open>Months\<close>

record local_month =
  lm_year :: int
  lm_month :: nat

text \<open>\<open>new Date(year, month, 1)\<close>: the years 0 to 99 are those of the twentieth century.\<close>

definition js_year :: "int \<Rightarrow> int" where
  "js_year y = (if 0 \<le> y \<and> y \<le> 99 then 1900 + y else y)"

definition first_of_month :: "int \<Rightarrow> nat \<Rightarrow> local_month" where
  "first_of_month y m = \<lparr>lm_year = js_year y, lm_month = m\<rparr>"

definition monthToString :: "local_month \<Rightarrow> string" where
  "monthToString d = show_int (lm_year d) @ ''-'' @ pad2 (lm_month d + 1)"

definition month_parts :: "string \<Rightarrow> int \<times> nat" where
  "month_parts month =
     (case map int_value (js_split (CHR ''-'') month) of y # v # _ \<Rightarrow> (y, nat v) | _ \<Rightarrow> (0, 0))"

definition stringToMonth :: "string \<Rightarrow> local_month" where
  "stringToMonth month = (let (y, v) = month_parts month in first_of_month y (v - 1))"

definition monthRange :: "string \<Rightarrow> string \<times> string" where
  "monthRange month =
     (let (y, v) = month_parts month in
      (month @ ''-01'', iso_day (js_year y) (v - 1) (days_in_month (js_year y) (v - 1))))"

section \<open>State\<close>

datatype picker_view = MonthsView | YearsView

record usage_page =
  um_month :: string
  um_client :: string
  um_operation :: string
  nv_open :: bool
  nv_year :: int
  nv_view :: picker_view

definition ALL_OPTION :: string where
  "ALL_OPTION = ''all''"

definition operation_text :: "UsageOperation \<Rightarrow> string" where
  "operation_text x = (case x of Identify \<Rightarrow> ''identify'' | Resolve \<Rightarrow> ''resolve'')"

definition initial_usage :: "local_month \<Rightarrow> usage_page" where
  "initial_usage now =
     \<lparr>um_month = monthToString now, um_client = ALL_OPTION, um_operation = ALL_OPTION, nv_open = False, nv_year = lm_year now, nv_view = MonthsView\<rparr>"

record usage_env =
  ue_usage :: "APIClientUsageRecord list option"
  ue_usage_error :: "api_error option"
  ue_clients :: "ApiClient list option"
  ue_clients_error :: "api_error option"
  ue_today :: local_month

definition usage_rows :: "usage_env \<Rightarrow> APIClientUsageRecord list" where
  "usage_rows env = some_or (ue_usage env) []"

definition usage_clients :: "usage_env \<Rightarrow> ApiClient list" where
  "usage_clients env = some_or (ue_clients env) []"

definition selectedClientID :: "usage_env \<Rightarrow> usage_page \<Rightarrow> string" where
  "selectedClientID env s =
     (if um_client s = ALL_OPTION \<or> list_ex (\<lambda>client. c_id client = um_client s) (usage_clients env) then um_client s else ALL_OPTION)"

definition filtered_usage :: "usage_env \<Rightarrow> usage_page \<Rightarrow> APIClientUsageRecord list" where
  "filtered_usage env s =
     filter (\<lambda>row. (selectedClientID env s = ALL_OPTION \<or> u_api_client_id row = selectedClientID env s) \<and>
       (um_operation s = ALL_OPTION \<or> operation_text (u_operation row) = um_operation s)) (usage_rows env)"

section \<open>Handlers\<close>

text \<open>The picker is mounted again for every value and every opening.\<close>

datatype usage_action =
    SetMonth local_month | PickMonth local_month | PickClient string | PickOperation string
  | SetPickerOpen bool | MovePicker int | TogglePickerView | PickYear int

definition mount_picker :: "usage_page \<Rightarrow> usage_page" where
  "mount_picker s = s\<lparr>nv_year := lm_year (stringToMonth (um_month s)), nv_view := MonthsView\<rparr>"

definition handle_usage :: "usage_action \<Rightarrow> usage_page \<Rightarrow> usage_page" where
  "handle_usage a s =
     (case a of
        SetMonth d \<Rightarrow> mount_picker (s\<lparr>um_month := monthToString d\<rparr>)
      | PickMonth d \<Rightarrow> mount_picker (s\<lparr>um_month := monthToString d, nv_open := False\<rparr>)
      | PickClient v \<Rightarrow> s\<lparr>um_client := v\<rparr>
      | PickOperation v \<Rightarrow> s\<lparr>um_operation := v\<rparr>
      | SetPickerOpen b \<Rightarrow> mount_picker (s\<lparr>nv_open := b\<rparr>)
      | MovePicker n \<Rightarrow> s\<lparr>nv_year := nv_year s + n\<rparr>
      | TogglePickerView \<Rightarrow> s\<lparr>nv_view := (if nv_view s = MonthsView then YearsView else MonthsView)\<rparr>
      | PickYear y \<Rightarrow> s\<lparr>nv_year := y, nv_view := MonthsView\<rparr>)"

section \<open>Figures\<close>

record chart_day =
  cd_day :: string
  cd_identify :: nat
  cd_resolve :: nat

definition add_row :: "APIClientUsageRecord \<Rightarrow> (string \<times> (nat \<times> nat)) list \<Rightarrow> (string \<times> (nat \<times> nat)) list" where
  "add_row row byDay =
     (let (i, r) = some_or (map_of byDay (u_day row)) (0, 0) in
      AList.update (u_day row)
        (case u_operation row of Identify \<Rightarrow> (i + u_request_count row, r) | Resolve \<Rightarrow> (i, r + u_request_count row)) byDay)"

definition usage_chart :: "APIClientUsageRecord list \<Rightarrow> string \<Rightarrow> chart_day list" where
  "usage_chart rows month =
     (let (y, v) = month_parts month; byDay = fold add_row rows [] in
      map (\<lambda>index. let day = pad2 (index + 1); (i, r) = some_or (map_of byDay (month @ ''-'' @ day)) (0, 0) in
          \<lparr>cd_day = day, cd_identify = i, cd_resolve = r\<rparr>)
        [0 ..< days_in_month (js_year y) (v - 1)])"

record usage_totals =
  to_requests :: nat
  to_errors :: nat
  to_limited :: nat

definition usage_totals_of :: "APIClientUsageRecord list \<Rightarrow> usage_totals" where
  "usage_totals_of rows =
     foldl (\<lambda>acc row. \<lparr>to_requests = to_requests acc + u_request_count row,
         to_errors = to_errors acc + (if u_status_class row \<ge> 4 then u_request_count row else 0),
         to_limited = to_limited acc + u_rate_limited_count row\<rparr>)
       \<lparr>to_requests = 0, to_errors = 0, to_limited = 0\<rparr> rows"

definition showIdentify :: "usage_page \<Rightarrow> bool" where
  "showIdentify s \<longleftrightarrow> um_operation s = ALL_OPTION \<or> um_operation s = ''identify''"

definition showResolve :: "usage_page \<Rightarrow> bool" where
  "showResolve s \<longleftrightarrow> um_operation s = ALL_OPTION \<or> um_operation s = ''resolve''"

definition chartTotal :: "usage_env \<Rightarrow> usage_page \<Rightarrow> nat" where
  "chartTotal env s =
     foldl (\<lambda>total day. total + (if showIdentify s then cd_identify day else 0) + (if showResolve s then cd_resolve day else 0)) 0
       (usage_chart (filtered_usage env s) (um_month s))"

definition usageError :: "usage_env \<Rightarrow> string" where
  "usageError env =
     (case ue_usage_error env of Some e \<Rightarrow> apiErrorMessage e
      | None \<Rightarrow> (case ue_clients_error env of Some e \<Rightarrow> apiErrorMessage e | None \<Rightarrow> []))"

text \<open>The days written under the axis of a chart of \<open>n\<close> days.\<close>

definition tick_text :: "nat \<Rightarrow> string \<Rightarrow> string" where
  "tick_text n v = (let day = digits_value v in if day = 1 \<or> day = n \<or> day mod 5 = 0 then v else [])"

section \<open>What it renders\<close>

record date_fns =
  df_addMonths :: "local_month \<Rightarrow> int \<Rightarrow> local_month"
  df_format :: "local_month \<Rightarrow> string \<Rightarrow> string"
  df_isSameMonth :: "local_month \<Rightarrow> local_month \<Rightarrow> bool"

definition YEARS_PER_PAGE :: int where
  "YEARS_PER_PAGE = 12"

definition pageStartOf :: "int \<Rightarrow> int" where
  "pageStartOf y = y div YEARS_PER_PAGE * YEARS_PER_PAGE"

definition capitalize :: "string \<Rightarrow> string" where
  "capitalize v = (case v of [] \<Rightarrow> [] | c # cs \<Rightarrow> js_upper_char c @ cs)"

definition picker_years :: "int \<Rightarrow> int list" where
  "picker_years y = map (\<lambda>index. pageStartOf y + int index) [0 ..< 12]"

definition icon_button :: "string \<Rightarrow> string \<Rightarrow> 'a \<Rightarrow> 'a view" where
  "icon_button name icon a = button [(''aria-label'', name)] a [el ''icon'' [(''name'', icon)] []]"

definition monthYearPicker :: "translation \<Rightarrow> date_fns \<Rightarrow> local_month \<Rightarrow> usage_page \<Rightarrow> usage_action view" where
  "monthYearPicker t df selected s =
     (let year = nv_year s; step = (if nv_view s = YearsView then YEARS_PER_PAGE else 1) in
      el ''div'' []
        ([icon_button (t ''usage.prevYear'' []) ''ChevronLeft'' (MovePicker (- step)),
          button [] TogglePickerView
            [Txt (if nv_view s = YearsView then show_int (pageStartOf year) @ [CHR 0x96] @ show_int (pageStartOf year + YEARS_PER_PAGE - 1) else show_int year)],
          icon_button (t ''usage.nextYear'' []) ''ChevronRight'' (MovePicker step)] @
         (if nv_view s = YearsView then
            map (\<lambda>y. button [(''variant'', if y = lm_year selected then ''secondary'' else ''ghost'')] (PickYear y) [Txt (show_int y)]) (picker_years year)
          else
            map (\<lambda>m. button [(''variant'', if m = lm_month selected \<and> year = lm_year selected then ''secondary'' else ''ghost'')]
                (PickMonth (first_of_month year m)) [Txt (capitalize (df_format df (first_of_month year m) ''LLL''))]) [0 ..< 12])))"

definition monthYearNav :: "translation \<Rightarrow> date_fns \<Rightarrow> local_month \<Rightarrow> usage_page \<Rightarrow> usage_action view" where
  "monthYearNav t df today s =
     (let v = stringToMonth (um_month s) in
      el ''div'' []
        ([icon_button (t ''usage.prevMonth'' []) ''ChevronLeft'' (SetMonth (df_addMonths df v (- 1))),
          button [(''aria-label'', t ''usage.month'' [])] (SetPickerOpen (\<not> nv_open s)) [Txt (capitalize (df_format df v ''MMM yyyy''))]] @
         shown_if (nv_open s) (monthYearPicker t df v s) @
         [icon_button (t ''usage.nextMonth'' []) ''ChevronRight'' (SetMonth (df_addMonths df v 1)),
          button (flag ''disabled'' (df_isSameMonth df v today)) (SetMonth (first_of_month (lm_year today) (lm_month today))) [Txt (t ''usage.today'' [])]]))"

definition usageChart :: "translation \<Rightarrow> usage_env \<Rightarrow> usage_page \<Rightarrow> usage_action view" where
  "usageChart t env s =
     (let chart = usage_chart (filtered_usage env s) (um_month s) in
      if ue_usage env = None \<and> ue_usage_error env = None then hint (t ''common.loading'' [])
      else if chartTotal env s = 0 then el ''empty'' [] [el ''title'' [] [Txt (t ''usage.daily'' [])], hint (t ''usage.empty'' [])]
      else el ''BarChart'' []
        (map (\<lambda>day. el ''day'' [(''tick'', tick_text (length chart) (cd_day day))]
            (shown_if (showIdentify s) (el ''bar'' [(''key'', ''identify''), (''label'', t ''usage.operationIdentify'' [])] [Txt (show_nat (cd_identify day))]) @
             shown_if (showResolve s) (el ''bar'' [(''key'', ''resolve''), (''label'', t ''usage.operationResolve'' [])] [Txt (show_nat (cd_resolve day))]))) chart))"

definition usagePage :: "translation \<Rightarrow> date_fns \<Rightarrow> usage_env \<Rightarrow> usage_page \<Rightarrow> usage_action view" where
  "usagePage t df env s =
     (let totals = usage_totals_of (filtered_usage env s) in
      el ''div'' []
        ([monthYearNav t df (ue_today env) s,
          select PickClient (selectedClientID env s)
            ((t ''usage.allClients'' [], ALL_OPTION) # map (\<lambda>client. (c_name client, c_id client)) (usage_clients env)),
          select PickOperation (um_operation s)
            [(t ''usage.allOperations'' [], ALL_OPTION), (t ''usage.operationIdentify'' [], ''identify''), (t ''usage.operationResolve'' [], ''resolve'')]] @
         shown_if (usageError env \<noteq> []) (el ''alert'' [] [el ''title'' [] [Txt (t ''errors.server'' [])], Txt (t (usageError env) [])]) @
         [statCard (t ''usage.requestsHint'' []) ''Activity'' (t ''usage.requests'' []) (show_nat (to_requests totals)),
          statCard (t ''usage.errorsHint'' []) ''CircleAlert'' (t ''usage.errors'' []) (show_nat (to_errors totals)),
          statCard (t ''usage.limitedHint'' []) ''Ban'' (t ''usage.limited'' []) (show_nat (to_limited totals)),
          usageChart t env s]))"

section \<open>Months and their text\<close>

lemma minus_no_digit: "\<not> is_digit (CHR ''-'')"
  by code_simp

lemma show_nat_no_minus: "CHR ''-'' \<notin> set (show_nat n)"
  by (rule show_nat_no_char [OF minus_no_digit])

lemma pad2_digits: "CHR ''-'' \<notin> set (pad2 n)"
  by (simp add: pad2_def show_nat_no_minus)

lemma digits_value_zero: "digits_value (CHR ''0'' # s) = digits_value s"
  by (simp add: digits_value_def) code_simp

lemma digits_value_pad2 [simp]: "digits_value (pad2 n) = n"
  by (simp add: pad2_def digits_value_zero)

lemma pad2_inject [simp]: "pad2 m = pad2 n \<longleftrightarrow> m = n"
  by (metis digits_value_pad2)

lemma int_value_digits: "CHR ''-'' \<notin> set ds \<Longrightarrow> int_value ds = int (digits_value ds)"
  by (cases ds) (auto simp: int_value_def digits_value_def)

lemma show_nat_1: "show_nat (Suc 0) = ''1''"
  by code_simp

lemma length_show_nat_step: "10 \<le> n \<Longrightarrow> length (show_nat n) = Suc (length (show_nat (n div 10)))"
  by (subst show_nat.simps) simp

lemma length_show_nat_4:
  assumes "1000 \<le> n" and "n \<le> 9999"
  shows "length (show_nat n) = 4"
proof -
  define a b c where "a = n div 10" and "b = a div 10" and "c = b div 10"
  have "100 \<le> a" "a \<le> 999" using assms unfolding a_def by linarith+
  then have "10 \<le> b" "b \<le> 99" unfolding b_def by linarith+
  then have "c < 10" unfolding c_def by linarith
  then have "length (show_nat c) = 1" by (subst show_nat.simps) simp
  then show ?thesis
    using \<open>100 \<le> a\<close> \<open>10 \<le> b\<close> assms(1) length_show_nat_step [of n] length_show_nat_step [of a] length_show_nat_step [of b]
    by (simp add: a_def [symmetric] b_def [symmetric] c_def [symmetric])
qed

lemma month_parts_text:
  assumes "0 \<le> lm_year d"
  shows "month_parts (monthToString d) = (lm_year d, lm_month d + 1)"
  using assms pad2_digits show_nat_no_minus
  by (simp add: month_parts_def monthToString_def show_int_def js_split_append_sep js_split_no_sep int_value_digits)

text \<open>C39: the text of a month gives the month back, and the range asked of the server for it is that of its first and last day.\<close>

theorem month_roundtrip:
  assumes "100 \<le> lm_year d" and "lm_month d < 12"
  shows "stringToMonth (monthToString d) = d \<and>
    monthRange (monthToString d) = (monthToString d @ ''-01'', iso_day (lm_year d) (lm_month d) (days_in_month (lm_year d) (lm_month d))) \<and>
    (1000 \<le> lm_year d \<and> lm_year d \<le> 9999 \<longrightarrow> fst (monthRange (monthToString d)) = iso_day (lm_year d) (lm_month d) 1)"
proof -
  have "month_parts (monthToString d) = (lm_year d, lm_month d + 1)" "js_year (lm_year d) = lm_year d"
    using assms by (simp_all add: month_parts_text js_year_def)
  moreover have "1000 \<le> lm_year d \<Longrightarrow> lm_year d \<le> 9999 \<Longrightarrow> pad4 (lm_year d) = show_int (lm_year d)"
    using length_show_nat_4 [of "nat (lm_year d)"] by (simp add: pad4_def show_int_def)
  ultimately show ?thesis
    by (simp add: stringToMonth_def monthRange_def first_of_month_def iso_day_def monthToString_def pad2_def show_nat_1)
qed

section \<open>The chart\<close>

definition requests_on :: "APIClientUsageRecord list \<Rightarrow> string \<Rightarrow> UsageOperation \<Rightarrow> nat" where
  "requests_on rows day x = sum_list (map (\<lambda>row. if u_day row = day \<and> u_operation row = x then u_request_count row else 0) rows)"

lemma by_day:
  "some_or (map_of (fold add_row rows byDay) day) (0, 0) =
     (fst (some_or (map_of byDay day) (0, 0)) + requests_on rows day Identify,
      snd (some_or (map_of byDay day) (0, 0)) + requests_on rows day Resolve)"
proof (induction rows arbitrary: byDay)
  case (Cons row rows)
  have "some_or (map_of (add_row row byDay) day) (0, 0) =
      (fst (some_or (map_of byDay day) (0, 0)) + requests_on [row] day Identify,
       snd (some_or (map_of byDay day) (0, 0)) + requests_on [row] day Resolve)"
    by (cases "u_operation row") (simp_all add: add_row_def requests_on_def update_conv' Let_def split_beta)
  with Cons [of "add_row row byDay"] show ?case by (simp add: requests_on_def)
qed (simp add: requests_on_def)

definition month_days :: "local_month \<Rightarrow> nat" where
  "month_days d = days_in_month (lm_year d) (lm_month d)"

definition day_text :: "local_month \<Rightarrow> nat \<Rightarrow> string" where
  "day_text d i = monthToString d @ ''-'' @ pad2 (i + 1)"

lemma usage_chart_days:
  assumes "100 \<le> lm_year d"
  shows "usage_chart rows (monthToString d) =
    map (\<lambda>i. \<lparr>cd_day = pad2 (i + 1), cd_identify = requests_on rows (day_text d i) Identify, cd_resolve = requests_on rows (day_text d i) Resolve\<rparr>)
      [0 ..< month_days d]"
  using assms by (simp add: usage_chart_def month_parts_text js_year_def month_days_def day_text_def by_day Let_def)

lemma foldl_sum: "foldl (\<lambda>total x. total + f x + g x) n xs = (n :: nat) + sum_list (map (\<lambda>x. f x + g x) xs)"
  by (induction xs arbitrary: n) simp_all

lemma totals_requests: "to_requests (usage_totals_of rows) = sum_list (map u_request_count rows)"
proof -
  have "to_requests (foldl (\<lambda>acc row. \<lparr>to_requests = to_requests acc + u_request_count row,
      to_errors = to_errors acc + (if u_status_class row \<ge> 4 then u_request_count row else 0),
      to_limited = to_limited acc + u_rate_limited_count row\<rparr>) a rows) = to_requests a + sum_list (map u_request_count rows)" for a
    by (induction rows arbitrary: a) simp_all
  then show ?thesis by (simp add: usage_totals_of_def)
qed

lemma total_usage: "totalUsageRequests rows = sum_list (map u_request_count rows)"
proof -
  have "foldl (\<lambda>total r. total + u_request_count r) n rows = n + sum_list (map u_request_count rows)" for n
    by (induction rows arbitrary: n) simp_all
  from this [of 0] show ?thesis by (simp add: totalUsageRequests_def)
qed

lemma one_day:
  assumes "\<And>i j. D i = D j \<Longrightarrow> i = j"
  shows "(\<Sum>i < (n :: nat). if x = D i then c else 0) = (if x \<in> D ` {..< n} then c else (0 :: nat))"
proof (cases "x \<in> D ` {..< n}")
  case True
  then obtain k where k: "k < n" "x = D k" by auto
  then have "(\<Sum>i < n. if x = D i then c else 0) = (\<Sum>i < n. if k = i then c else 0)"
    by (intro sum.cong) (auto dest: assms)
  with k show ?thesis by (simp add: True)
qed (auto intro: sum.neutral)

lemma sum_days:
  "(\<Sum>i < n. sum_list (map (\<lambda>row. if u_day row = D i then f row else (0 :: nat)) rows)) =
     sum_list (map (\<lambda>row. \<Sum>i < n. if u_day row = D i then f row else 0) rows)"
  by (induction rows) (simp_all add: sum.distrib)

lemma shown_operations:
  assumes "um_operation s = ALL_OPTION \<or> operation_text x = um_operation s"
  shows "x = Identify \<Longrightarrow> showIdentify s" "x = Resolve \<Longrightarrow> showResolve s"
  using assms by (auto simp: showIdentify_def showResolve_def operation_text_def)

lemma shown_requests:
  assumes "\<forall>row \<in> set rows. um_operation s = ALL_OPTION \<or> operation_text (u_operation row) = um_operation s"
  shows "(if showIdentify s then requests_on rows day Identify else 0) + (if showResolve s then requests_on rows day Resolve else 0) =
    sum_list (map (\<lambda>row. if u_day row = day then u_request_count row else 0) rows)"
  using assms
proof (induction rows)
  case (Cons row rows)
  then have "u_operation row = Identify \<Longrightarrow> showIdentify s" "u_operation row = Resolve \<Longrightarrow> showResolve s"
    using shown_operations [of s "u_operation row"] by auto
  moreover have "requests_on (row # rows) day x = (if u_day row = day \<and> u_operation row = x then u_request_count row else 0) + requests_on rows day x" for x
    by (simp add: requests_on_def)
  ultimately show ?case
    using Cons by (cases "u_operation row") (simp_all split: if_splits)
qed (simp add: requests_on_def)

lemma chart_total:
  assumes "um_month s = monthToString d" and "100 \<le> lm_year d"
  shows "chartTotal env s =
    sum_list (map (\<lambda>row. if u_day row \<in> day_text d ` {..< month_days d} then u_request_count row else 0) (filtered_usage env s))"
proof -
  let ?rows = "filtered_usage env s"
  have "\<forall>row \<in> set ?rows. um_operation s = ALL_OPTION \<or> operation_text (u_operation row) = um_operation s"
    by (auto simp: filtered_usage_def)
  note shown = shown_requests [OF this]
  have "chartTotal env s = (\<Sum>i < month_days d. sum_list (map (\<lambda>row. if u_day row = day_text d i then u_request_count row else 0) ?rows))"
    by (simp add: chartTotal_def foldl_sum assms usage_chart_days comp_def shown interv_sum_list_conv_sum_set_nat lessThan_atLeast0 cong: if_cong)
  moreover have "day_text d i = day_text d j \<Longrightarrow> i = j" for i j by (simp add: day_text_def)
  ultimately show ?thesis by (simp add: sum_days one_day)
qed

text \<open>C29: with every record in the month asked for, the days of the chart add up to the requests of the totals, whatever client and
  operation are chosen: nothing counted is left out of the chart, or drawn twice. Without a filter this is also the figure of the
  overview page for these records.\<close>

theorem chart_complete:
  assumes "um_month s = monthToString d" and "100 \<le> lm_year d"
    and "\<forall>row \<in> set (usage_rows env). u_day row \<in> day_text d ` {..< month_days d}"
  shows "chartTotal env s = to_requests (usage_totals_of (filtered_usage env s)) \<and>
    (um_client s = ALL_OPTION \<and> um_operation s = ALL_OPTION \<longrightarrow> chartTotal env s = totalUsageRequests (usage_rows env))"
proof -
  have in_month: "\<forall>row \<in> set (filtered_usage env s). u_day row \<in> day_text d ` {..< month_days d}"
    using assms(3) by (simp add: filtered_usage_def)
  then have "chartTotal env s = sum_list (map u_request_count (filtered_usage env s))"
    unfolding chart_total [OF assms(1,2)] by (intro arg_cong [of _ _ sum_list]) simp
  then show ?thesis
    by (auto simp: totals_requests total_usage filtered_usage_def selectedClientID_def)
qed

text \<open>The years the picker shows contain its year, every year is on one page only, and one page further are the years that follow.\<close>

theorem picker_pages:
  "y \<in> set (picker_years y) \<and> length (picker_years y) = 12 \<and>
   (y' \<in> set (picker_years y) \<longleftrightarrow> picker_years y' = picker_years y) \<and>
   picker_years (y + YEARS_PER_PAGE) = map (\<lambda>x. x + 12) (picker_years y)"
proof -
  have years: "set (picker_years z) = {x. pageStartOf z \<le> x \<and> x < pageStartOf z + 12}" for z
  proof (intro set_eqI iffI)
    fix x assume "x \<in> {x. pageStartOf z \<le> x \<and> x < pageStartOf z + 12}"
    then show "x \<in> set (picker_years z)"
      unfolding picker_years_def set_map set_upt by (intro image_eqI [of _ _ "nat (x - pageStartOf z)"]) auto
  qed (auto simp: picker_years_def)
  have page: "x \<in> set (picker_years z) \<longleftrightarrow> pageStartOf x = pageStartOf z" for x z
  proof -
    have x: "x div 12 * 12 \<le> x" "x < x div 12 * 12 + 12"
      using div_mult_mod_eq [of x 12] pos_mod_bound [of 12 x] pos_mod_sign [of 12 x] by linarith+
    have "z div 12 * 12 \<le> x \<and> x < z div 12 * 12 + 12 \<Longrightarrow> x div 12 = z div 12" using x by linarith
    then show ?thesis unfolding years pageStartOf_def YEARS_PER_PAGE_def mem_Collect_eq using x by fastforce
  qed
  have start: "hd (picker_years z) = pageStartOf z" for z
    by (simp add: picker_years_def upt_conv_Cons)
  have "picker_years y' = picker_years y \<longleftrightarrow> pageStartOf y' = pageStartOf y"
    using start by (metis picker_years_def)
  moreover have "pageStartOf (y + YEARS_PER_PAGE) = pageStartOf y + 12"
    by (simp add: pageStartOf_def YEARS_PER_PAGE_def div_add_self2)
  ultimately show ?thesis using page [of y y] page [of y' y] by (simp add: picker_years_def)
qed

lemma month_roundtrip_witness: "stringToMonth (monthToString \<lparr>lm_year = 2024, lm_month = 1\<rparr>) = \<lparr>lm_year = 2024, lm_month = 1\<rparr>"
  using month_roundtrip [of "\<lparr>lm_year = 2024, lm_month = 1\<rparr>"] by simp

definition sample_usage :: usage_env where
  "sample_usage =
     \<lparr>ue_usage = Some
        [\<lparr>u_day = ''2024-02-29'', u_api_client_id = ''c1'', u_operation = Identify, u_status_class = 2, u_request_count = 3, u_rate_limited_count = 0, u_client_name = None\<rparr>,
         \<lparr>u_day = ''2024-02-29'', u_api_client_id = ''c1'', u_operation = Resolve, u_status_class = 4, u_request_count = 2, u_rate_limited_count = 0, u_client_name = None\<rparr>],
      ue_usage_error = None, ue_clients = None, ue_clients_error = None, ue_today = \<lparr>lm_year = 2024, lm_month = 1\<rparr>\<rparr>"

lemma chart_complete_witness:
  "chartTotal sample_usage (initial_usage \<lparr>lm_year = 2024, lm_month = 1\<rparr>) = totalUsageRequests (usage_rows sample_usage)"
proof -
  have "''2024-02-29'' = day_text \<lparr>lm_year = 2024, lm_month = 1\<rparr> 28"
    by (simp add: day_text_def monthToString_def show_int_def pad2_def show_nat.simps) code_simp
  moreover have "28 < month_days \<lparr>lm_year = 2024, lm_month = 1\<rparr>"
    by (simp add: month_days_def days_in_month_def leap_year_def)
  ultimately have "\<forall>row \<in> set (usage_rows sample_usage). u_day row \<in> day_text \<lparr>lm_year = 2024, lm_month = 1\<rparr> ` {..< month_days \<lparr>lm_year = 2024, lm_month = 1\<rparr>}"
    by (auto simp: usage_rows_def sample_usage_def)
  then show ?thesis
    by (intro chart_complete [THEN conjunct2, THEN mp, of _ "\<lparr>lm_year = 2024, lm_month = 1\<rparr>"]) (simp_all add: initial_usage_def)
qed

end
