(* ===== verification/SessionsPage.thy ===== *)
theory SessionsPage
  imports LockedPages I18n QueryCache
begin

text \<open>
  The page of the administrators' sessions (\<open>web/src/routes/sessions/-components/page.tsx\<close>): the table,
  whose rows offer to revoke a session that is active and not the current one, and the confirmation.
  A revocation that succeeds waits until the list has been fetched again (\<open>SessionsRefreshed\<close>).
  Theorems: over every session of on-screen actions only sessions that a row offered are revoked,
  never the one in use as the list showed it, and one at a time. \<open>fmt\<close> is how the platform shows a
  time in the language chosen.
\<close>

section \<open>State and handlers\<close>

datatype revoke_job = RevokeJob string

record sessions_page =
  revokeTarget :: "AdminSessionView option"
  sp_pending :: bool
  sp_jobs :: "revoke_job list"
  sp_refreshing :: nat

definition initial_sessions :: sessions_page where
  "initial_sessions = \<lparr>revokeTarget = None, sp_pending = False, sp_jobs = [], sp_refreshing = 0\<rparr>"

record sessions_env =
  se_sessions :: "AdminSessionView list option"
  se_sessions_error :: "api_error option"

definition sessionsError :: "sessions_env \<Rightarrow> string" where
  "sessionsError env = (case se_sessions_error env of Some e \<Rightarrow> apiErrorMessage e | None \<Rightarrow> [])"

datatype sessions_action = AskRevoke AdminSessionView | CloseRevoke | ConfirmRevoke | SessionsRefreshed

datatype sessions_effect = SendRevoke revoke_job | SessionsCache "cache_command list" | SessionsToast string

definition revoke_session :: "sessions_page \<Rightarrow> sessions_page \<times> sessions_effect list" where
  "revoke_session s =
     (case revokeTarget s of
        None \<Rightarrow> (s, [])
      | Some v \<Rightarrow> (s\<lparr>sp_pending := True, sp_jobs := sp_jobs s @ [RevokeJob (sv_id v)]\<rparr>, [SendRevoke (RevokeJob (sv_id v))]))"

definition handle_sessions :: "sessions_action \<Rightarrow> sessions_page \<Rightarrow> sessions_page \<times> sessions_effect list" where
  "handle_sessions a s =
     (case a of
        AskRevoke v \<Rightarrow> (s\<lparr>revokeTarget := Some v\<rparr>, [])
      | CloseRevoke \<Rightarrow> (s\<lparr>revokeTarget := None\<rparr>, [])
      | ConfirmRevoke \<Rightarrow> revoke_session s
      | SessionsRefreshed \<Rightarrow>
          (if sp_refreshing s = 0 then s else s\<lparr>sp_refreshing := sp_refreshing s - 1, sp_pending := False\<rparr>, []))"

definition settle_sessions :: "revoke_job \<Rightarrow> (api_error + unit) \<Rightarrow> sessions_page \<Rightarrow> sessions_page \<times> sessions_effect list" where
  "settle_sessions j result s =
     (let s = s\<lparr>sp_jobs := remove1 j (sp_jobs s)\<rparr> in
      case result of
        Inl e \<Rightarrow> (s\<lparr>sp_pending := False\<rparr>, [SessionsToast (apiErrorMessage e)])
      | Inr _ \<Rightarrow>
          (s\<lparr>revokeTarget := None, sp_refreshing := Suc (sp_refreshing s)\<rparr>,
           [SessionsToast ''sessions.revoked'', SessionsCache [InvalidateMatching (adminQueryKeys QSessions)]]))"

definition revoke_call :: "revoke_job \<Rightarrow> api_call" where
  "revoke_call j = (case j of RevokeJob i \<Rightarrow> RevokeAdminSession i)"

section \<open>What it renders\<close>

type_synonym sessions_control = "(sessions_action, unit) control"

definition principal_text :: "AdminSessionView \<Rightarrow> string" where
  "principal_text v = (if sv_label v \<noteq> [] then sv_label v else sv_subject v)"

definition session_status_text :: "SessionStatus \<Rightarrow> string" where
  "session_status_text x = (case x of SActive \<Rightarrow> ''active'' | SRevoked \<Rightarrow> ''revoked'' | SExpired \<Rightarrow> ''expired'' | SIdleExpired \<Rightarrow> ''idle_expired'')"

definition revocable :: "AdminSessionView \<Rightarrow> bool" where
  "revocable v \<longleftrightarrow> \<not> (sv_current v \<or> sv_status v \<noteq> SActive)"

definition sessionsColumns :: "translation \<Rightarrow> (string \<Rightarrow> string) \<Rightarrow> (AdminSessionView, sessions_control) column_def list" where
  "sessionsColumns t fmt =
     [data_column ''principal'' (t ''sessions.principal'' [])
        (\<lambda>r. Txt (principal_text r) # shown_if (sv_current r) (badge ''secondary'' (t ''sessions.current'' []))),
      data_column ''roles'' (t ''sessions.roles'' []) (\<lambda>r. map (badge ''outline'') (sv_roles r)),
      data_column ''last_used_at'' (t ''sessions.lastUsed'' []) (\<lambda>r. [Txt (fmt (sv_last_used_at r))]),
      data_column ''expires_at'' (t ''sessions.expires'' []) (\<lambda>r. [Txt (fmt (sv_expires_at r))]),
      data_column ''status'' (t ''common.status'' [])
        (\<lambda>r. [badge (if sv_status r = SActive then ''default'' else ''secondary'') (t (''sessions.status.'' @ session_status_text (sv_status r)) [])]),
      actions_column (t ''common.actions'' [])
        (\<lambda>r. shown_if (revocable r) (button [(''aria-label'', t ''sessions.revoke'' [])] (Do (AskRevoke r)) [el ''icon'' [(''name'', ''LogOut'')] []]))]"

definition sessions_table_initial :: initial_table where
  "sessions_table_initial = \<lparr>init_globalFilter = None, init_pagination = Some \<lparr>pageIndex = 0, pageSize = 10\<rparr>,
     init_sorting = Some [\<lparr>sort_desc = True, sort_id = ''last_used_at''\<rparr>], init_columnVisibility = None\<rparr>"

definition revokeDialog :: "translation \<Rightarrow> sessions_page \<Rightarrow> sessions_control view list" where
  "revokeDialog t s =
     (let target = (case revokeTarget s of Some v \<Rightarrow> [Txt (sv_issuer v), Txt '' / '', Txt (sv_subject v)] | None \<Rightarrow> [Txt '' / '']) in
      confirmDialog (t ''common.cancel'' []) [el ''div'' [] target] (sp_pending s) (t ''sessions.revoke'' [])
        (t ''sessions.revokeDescription'' [(''name'', case revokeTarget s of Some v \<Rightarrow> principal_text v | None \<Rightarrow> [])])
        (Do ConfirmRevoke) (Do CloseRevoke) (revokeTarget s \<noteq> None) (t ''sessions.revokeTitle'' []))"

definition sessionsTable ::
  "translation \<Rightarrow> (string \<Rightarrow> string) \<Rightarrow> sessions_env \<Rightarrow> table_model \<Rightarrow> AdminSessionView list \<Rightarrow> sessions_control grid_action view" where
  "sessionsTable t fmt env m rows =
     (let tr = (\<lambda>key. t key []) in
      if se_sessions env = None \<and> se_sessions_error env = None then map_view PageDoes (el ''div'' [(''role'', ''status'')] [Txt (tr ''common.loading'')])
      else render_table (page_sort_labels tr) (page_table_labels tr) (tr ''sessions.empty'') (\<lambda>r. None) (sessionsColumns t fmt) m rows
        [dataTableToolbar tr ((page_toolbar_labels tr ''sessions.search'')\<lparr>tl_empty := tr ''sessions.empty''\<rparr>) [] [] [] m])"

definition sessionsPage ::
  "translation \<Rightarrow> (string \<Rightarrow> string) \<Rightarrow> sessions_env \<Rightarrow> table_model \<Rightarrow> AdminSessionView list \<Rightarrow> sessions_page \<Rightarrow>
     sessions_control grid_action view" where
  "sessionsPage t fmt env m rows s =
     el ''div'' []
       (map (map_view PageDoes) (shown_if (sessionsError env \<noteq> []) (el ''alert'' [] [Txt (t (sessionsError env) [])])) @
        [sessionsTable t fmt env m rows] @ map (map_view PageDoes) (revokeDialog t s))"

section \<open>The page as a machine\<close>

definition sessions_sent :: "sessions_effect list \<Rightarrow> revoke_job list" where
  "sessions_sent es = concat (map (\<lambda>e. case e of SendRevoke j \<Rightarrow> [j] | _ \<Rightarrow> []) es)"

lemma sessions_sent_simps [simp]:
  "sessions_sent [] = []" "sessions_sent (SendRevoke j # es) = j # sessions_sent es" "sessions_sent (SessionsCache c # es) = sessions_sent es"
  "sessions_sent (SessionsToast m # es) = sessions_sent es" "sessions_sent (es @ fs) = sessions_sent es @ sessions_sent fs"
  by (simp_all add: sessions_sent_def)

text \<open>What the user sees at one moment.\<close>

record sessions_screen =
  ss_env :: sessions_env
  ss_model :: table_model
  ss_rows :: "AdminSessionView list"

lemma handle_sessions_sends:
  "sp_jobs (fst (handle_sessions a s)) = sp_jobs s @ sessions_sent (snd (handle_sessions a s))"
  by (simp add: handle_sessions_def revoke_session_def split: sessions_action.split option.split)

lemma settle_sessions_frame:
  "sp_jobs (fst (settle_sessions j r s)) = remove1 j (sp_jobs s) \<and> sessions_sent (snd (settle_sessions j r s)) = []"
  by (simp add: settle_sessions_def Let_def split: sum.split)

interpretation sessions_machine: page_machine "\<lambda>sc :: sessions_screen. handle_sessions" settle_sessions sp_jobs sessions_sent "\<lambda>j. True"
  using handle_sessions_sends settle_sessions_frame by unfold_locales auto

definition sessions_possible :: "translation \<Rightarrow> (string \<Rightarrow> string) \<Rightarrow> sessions_screen \<Rightarrow> sessions_action \<Rightarrow> sessions_page \<Rightarrow> bool" where
  "sessions_possible t fmt sc a s \<longleftrightarrow>
     a = SessionsRefreshed \<or> Do a \<in> set (page_actions (sessionsPage t fmt (ss_env sc) (ss_model sc) (ss_rows sc) s))"

section \<open>What is revoked\<close>

lemma sessions_cells:
  "d \<in> set (sessionsColumns t fmt) \<Longrightarrow> v \<in> set (cd_cell d r) \<Longrightarrow> Do a \<in> set (offered v) \<Longrightarrow> a = AskRevoke r \<and> revocable r"
  by (auto simp: sessionsColumns_def data_column_def actions_column_def shown_if_def split: if_splits)

lemma sessions_offers:
  assumes "Do a \<in> set (page_actions (sessionsPage t fmt env m rows s))"
  shows "a = CloseRevoke \<or> a = ConfirmRevoke \<and> \<not> sp_pending s \<or> (\<exists>v \<in> set rows. a = AskRevoke v \<and> revocable v)"
  using assms
  by (auto simp: page_actions_iff sessionsPage_def sessionsTable_def revokeDialog_def confirmDialog_def shown_if_def render_table_offers
      toolbar_offers is_disabled_def flag_def Let_def split: if_splits option.splits dest: visible_columns_defs sessions_cells)

text \<open>The sessions the rows have offered to revoke so far.\<close>

definition asked :: "(sessions_screen, sessions_action, revoke_job, api_error + unit) page_event list \<Rightarrow> AdminSessionView set" where
  "asked evs = {v. \<exists>sc. Act sc (AskRevoke v) \<in> set evs \<and> v \<in> set (ss_rows sc) \<and> revocable v}"

lemma asked_simps [simp]: "asked [] = {}" "asked (evs @ fs) = asked evs \<union> asked fs" "asked (Answer j r # evs) = asked evs"
  by (auto simp: asked_def)

definition run_sessions where
  "run_sessions = run_page (\<lambda>sc :: sessions_screen. handle_sessions) settle_sessions sp_jobs"

lemma revoked_was_asked:
  "page_session (sessions_possible t fmt) (\<lambda>sc. handle_sessions) settle_sessions sp_jobs evs initial_sessions \<Longrightarrow>
     set_option (revokeTarget (fst (run_sessions evs initial_sessions))) \<subseteq> asked evs \<and>
     set (sessions_sent (snd (run_sessions evs initial_sessions))) \<subseteq> (RevokeJob \<circ> sv_id) ` asked evs"
proof (induction evs rule: rev_induct)
  case Nil
  then show ?case by (simp add: run_sessions_def initial_sessions_def)
next
  case (snoc ev evs)
  let ?s = "fst (run_sessions evs initial_sessions)"
  have ev: "case ev of Act sc a \<Rightarrow> sessions_possible t fmt sc a ?s | Answer j r \<Rightarrow> True"
    and IH: "set_option (revokeTarget ?s) \<subseteq> asked evs" "set (sessions_sent (snd (run_sessions evs initial_sessions))) \<subseteq> (RevokeJob \<circ> sv_id) ` asked evs"
    using snoc unfolding run_sessions_def by (simp_all add: page_session_append)
  have step: "set_option (revokeTarget (fst (page_step (\<lambda>sc. handle_sessions) settle_sessions sp_jobs ev ?s))) \<subseteq> asked (evs @ [ev]) \<and>
      set (sessions_sent (snd (page_step (\<lambda>sc. handle_sessions) settle_sessions sp_jobs ev ?s))) \<subseteq> (RevokeJob \<circ> sv_id) ` asked (evs @ [ev])"
  proof (cases ev)
    case (Act sc a)
    then have a: "a = SessionsRefreshed \<or> a = CloseRevoke \<or> a = ConfirmRevoke \<or> (\<exists>v \<in> set (ss_rows sc). a = AskRevoke v \<and> revocable v)"
      using ev sessions_offers [of a t fmt "ss_env sc" "ss_model sc" "ss_rows sc" ?s] by (auto simp: sessions_possible_def)
    then show ?thesis
      using Act IH(1) by (auto simp: handle_sessions_def revoke_session_def asked_def split: option.splits)
  next
    case (Answer j r)
    then show ?thesis using IH(1) by (auto simp: settle_sessions_def Let_def split: sum.splits)
  qed
  then show ?case
    using IH(2) by (auto simp: run_sessions_def run_page_append case_prod_beta Let_def)
qed

text \<open>C28: over every session of on-screen actions, a session is revoked only after a row that showed it active and not the current
  one offered to: the page never revokes the administrator's own session as the list shows it, nor one that has ended.\<close>

theorem revokes_only_offered:
  assumes "page_session (sessions_possible t fmt) (\<lambda>sc. handle_sessions) settle_sessions sp_jobs evs initial_sessions"
    and "RevokeJob i \<in> set (sessions_sent (snd (run_page (\<lambda>sc. handle_sessions) settle_sessions sp_jobs evs initial_sessions)))"
  shows "\<exists>sc v. Act sc (AskRevoke v) \<in> set evs \<and> v \<in> set (ss_rows sc) \<and> sv_id v = i \<and> \<not> sv_current v \<and> sv_status v = SActive"
  using revoked_was_asked [OF assms(1)] assms(2) by (fastforce simp: run_sessions_def asked_def revocable_def)

definition sample_session_view :: AdminSessionView where
  "sample_session_view =
     \<lparr>sv_id = ''s1'', sv_issuer = ''i'', sv_subject = ''u'', sv_label = [], sv_roles = [''viewer''], sv_created_at = [], sv_last_used_at = [],
      sv_expires_at = [], sv_idle_expires_at = [], sv_revoked_at = None, sv_status = SActive, sv_current = False\<rparr>"

definition sample_sessions :: sessions_screen where
  "sample_sessions =
     \<lparr>ss_env = \<lparr>se_sessions = Some [sample_session_view], se_sessions_error = None\<rparr>,
      ss_model = \<lparr>tm_state = useDataTable sessions_table_initial no_preferences,
        tm_columns = [\<lparr>tc_id = ''actions'', tc_label = None, tc_accessor = False, tc_can_sort = False, tc_can_hide = False, tc_visible = True, tc_sorted = None\<rparr>],
        tm_filtered_count = 1, tm_page_count = 1, tm_can_previous = False, tm_can_next = False\<rparr>,
      ss_rows = [sample_session_view]\<rparr>"

definition sample_revocation :: "(sessions_screen, sessions_action, revoke_job, api_error + unit) page_event list" where
  "sample_revocation = [Act sample_sessions (AskRevoke sample_session_view), Act sample_sessions ConfirmRevoke]"

lemma sample_revocation_session:
  "page_session (sessions_possible (\<lambda>key ps. key) (\<lambda>v. v)) (\<lambda>sc. handle_sessions) settle_sessions sp_jobs sample_revocation initial_sessions"
  by (simp add: sample_revocation_def sessions_possible_def page_actions_iff sessionsPage_def sessionsTable_def revokeDialog_def confirmDialog_def
      render_table_offers toolbar_offers sample_sessions_def sample_session_view_def handle_sessions_def initial_sessions_def
      visible_columns_def sessionsColumns_def data_column_def actions_column_def revocable_def shown_if_def Let_def)

lemma revokes_only_offered_witness:
  "\<exists>sc v. Act sc (AskRevoke v) \<in> set sample_revocation \<and> v \<in> set (ss_rows sc) \<and> sv_id v = ''s1'' \<and> \<not> sv_current v \<and> sv_status v = SActive"
  by (rule revokes_only_offered [OF sample_revocation_session]) code_simp

section \<open>One at a time\<close>

lemma sessions_pending_step:
  assumes "length (sp_jobs s) + sp_refreshing s = (if sp_pending s then 1 else 0)" and "sessions_possible t fmt sc a s"
  shows "length (sp_jobs (fst (handle_sessions a s))) + sp_refreshing (fst (handle_sessions a s)) = (if sp_pending (fst (handle_sessions a s)) then 1 else 0)"
  using assms sessions_offers [of a t fmt "ss_env sc" "ss_model sc" "ss_rows sc" s]
  by (cases "sp_jobs s") (auto simp: sessions_possible_def handle_sessions_def revoke_session_def split: if_splits option.splits)

lemma sessions_pending_answer:
  assumes "length (sp_jobs s) + sp_refreshing s = (if sp_pending s then 1 else 0)" and "j \<in> set (sp_jobs s)"
  shows "length (sp_jobs (fst (settle_sessions j r s))) + sp_refreshing (fst (settle_sessions j r s)) = (if sp_pending (fst (settle_sessions j r s)) then 1 else 0)"
  using assms length_remove1 [of j "sp_jobs s"]
  by (cases "sp_jobs s") (auto simp: settle_sessions_def Let_def split: if_splits sum.splits)

text \<open>At most one revocation is under way, counted until the list has been fetched again, and the pending flag says whether.\<close>

theorem one_revocation:
  assumes "page_session (sessions_possible t fmt) (\<lambda>sc. handle_sessions) settle_sessions sp_jobs evs initial_sessions"
    and "s = fst (run_page (\<lambda>sc. handle_sessions) settle_sessions sp_jobs evs initial_sessions)"
  shows "length (sp_jobs s) + sp_refreshing s = (if sp_pending s then 1 else 0)"
  unfolding assms(2)
  by (rule page_session_invariant [of "\<lambda>s. length (sp_jobs s) + sp_refreshing s = (if sp_pending s then 1 else 0)", OF sessions_pending_step sessions_pending_answer assms(1)])
    (simp_all add: initial_sessions_def)

lemma one_revocation_witness:
  "length (sp_jobs (fst (run_page (\<lambda>sc. handle_sessions) settle_sessions sp_jobs sample_revocation initial_sessions))) = 1"
proof -
  have "sp_pending (fst (run_page (\<lambda>sc. handle_sessions) settle_sessions sp_jobs sample_revocation initial_sessions)) \<and>
      sp_refreshing (fst (run_page (\<lambda>sc. handle_sessions) settle_sessions sp_jobs sample_revocation initial_sessions)) = 0"
    by code_simp
  with one_revocation [OF sample_revocation_session refl] show ?thesis by simp
qed

end
