(* ===== verification/AuditPage.thy ===== *)
theory AuditPage
  imports LockedPages I18n Validation QueryCache
begin

text \<open>
  The page of the audit (\<open>web/src/routes/audit-events/-components/page.tsx\<close>): the health of the
  partitions and the events in two tabs, and the export of the last day, asked for, watched until it is
  ready and downloaded once. The query of the export's status is TanStack's: \<open>av_export\<close> is its last
  answer for the export the page holds, and \<open>exportPolled\<close> whether the page keeps asking.
  Theorems: asking is permitted and its window is fixed at mounting, and what is shown of an export is
  the last answer even after the download: it is offered again, and the page goes on asking.
\<close>

section \<open>State\<close>

datatype audit_job = CreateExportJob AuditFilters ExportFormat string | DownloadExportJob AuditExportJob

datatype audit_tab = OverviewAuditTab | EventsAuditTab

record audit_page =
  exportJob :: "AuditExportJob option"
  auditWindow :: "string \<times> string"
  audit_tab_of :: audit_tab
  au_export_error :: "api_error option"
  au_jobs :: "audit_job list"
  au_drawn :: nat

text \<open>\<open>to_iso\<close> is \<open>toISOString\<close> of a time in milliseconds; \<open>now\<close> is the time of mounting.\<close>

definition initial_audit :: "(int \<Rightarrow> string) \<Rightarrow> int \<Rightarrow> audit_page" where
  "initial_audit to_iso now =
     \<lparr>exportJob = None, auditWindow = (to_iso (now - 24 * 60 * 60 * 1000), to_iso now), audit_tab_of = OverviewAuditTab,
      au_export_error = None, au_jobs = [], au_drawn = 0\<rparr>"

record audit_env =
  av_session :: "AdminSession option"
  av_events :: "AdminAuditPage option"
  av_events_error :: "api_error option"
  av_health :: "AuditHealth option"
  av_health_error :: "api_error option"
  av_export :: "AuditExportJob option"

definition canExport :: "audit_env \<Rightarrow> bool" where
  "canExport env = (case av_session env of None \<Rightarrow> True | Some session \<Rightarrow> ''audit.export'' \<in> set (as_permissions session))"

definition audit_query :: "audit_page \<Rightarrow> (string \<times> string) list" where
  "audit_query s = [(''limit'', ''200''), (''from'', fst (auditWindow s)), (''to'', snd (auditWindow s))]"

text \<open>\<open>enabled\<close> of the status query.\<close>

definition exportPolled :: "audit_page \<Rightarrow> bool" where
  "exportPolled s = (case exportJob s of None \<Rightarrow> False | Some job \<Rightarrow> ex_status job \<notin> {ExReady, ExFailed, ExExpired})"

definition currentExport :: "audit_env \<Rightarrow> audit_page \<Rightarrow> AuditExportJob option" where
  "currentExport env s = (case av_export env of Some job \<Rightarrow> Some job | None \<Rightarrow> exportJob s)"

definition audit_events :: "audit_env \<Rightarrow> AdminAuditEvent list" where
  "audit_events env = (case av_events env of Some p \<Rightarrow> ap_events p | None \<Rightarrow> [])"

definition overviewError :: "audit_env \<Rightarrow> string" where
  "overviewError env = (case av_health_error env of Some e \<Rightarrow> apiErrorMessage e | None \<Rightarrow> [])"

definition eventsError :: "audit_env \<Rightarrow> audit_page \<Rightarrow> string" where
  "eventsError env s =
     (case av_events_error env of Some e \<Rightarrow> apiErrorMessage e
      | None \<Rightarrow> (case au_export_error s of Some e \<Rightarrow> apiErrorMessage e | None \<Rightarrow> []))"

section \<open>Handlers\<close>

datatype audit_action = RequestExport | ConsumeExport AuditExportJob | SetAuditTab audit_tab

datatype audit_effect = SendAudit audit_job | DownloadBlob string

definition export_filters :: "audit_page \<Rightarrow> AuditFilters" where
  "export_filters s =
     \<lparr>fl_from = fst (auditWindow s), fl_to = snd (auditWindow s), fl_action = None, fl_target_type = None, fl_result = None\<rparr>"

definition request_export :: "(nat \<Rightarrow> string) \<Rightarrow> audit_page \<Rightarrow> audit_page \<times> audit_effect list" where
  "request_export uuid s =
     (let j = CreateExportJob (export_filters s) Csv (uuid (au_drawn s)) in
      (s\<lparr>au_export_error := None, au_drawn := Suc (au_drawn s), au_jobs := au_jobs s @ [j]\<rparr>, [SendAudit j]))"

definition handle_audit :: "(nat \<Rightarrow> string) \<Rightarrow> audit_env \<Rightarrow> audit_action \<Rightarrow> audit_page \<Rightarrow> audit_page \<times> audit_effect list" where
  "handle_audit uuid env a s =
     (case a of
        RequestExport \<Rightarrow> request_export uuid s
      | ConsumeExport job \<Rightarrow> (s\<lparr>au_jobs := au_jobs s @ [DownloadExportJob job]\<rparr>, [SendAudit (DownloadExportJob job)])
      | SetAuditTab x \<Rightarrow> (s\<lparr>audit_tab_of := x\<rparr>, []))"

text \<open>What comes back is the export, with the time; a download answers the file, and nobody handles its failure.\<close>

datatype audit_answer = ExportCreated AuditExportJob | Downloaded string

definition export_file :: "AuditExportJob \<Rightarrow> string" where
  "export_file job = ''tenancit-audit.'' @ export_format_text (ex_format job)"

definition settle_audit :: "audit_job \<Rightarrow> (api_error + audit_answer) \<Rightarrow> audit_page \<Rightarrow> audit_page \<times> audit_effect list" where
  "settle_audit j result s =
     (let s = s\<lparr>au_jobs := remove1 j (au_jobs s)\<rparr> in
      case (j, result) of
        (CreateExportJob _ _ _, Inl e) \<Rightarrow> (s\<lparr>au_export_error := Some e\<rparr>, [])
      | (CreateExportJob _ _ _, Inr (ExportCreated job)) \<Rightarrow> (s\<lparr>exportJob := Some job\<rparr>, [])
      | (DownloadExportJob job, Inr (Downloaded now)) \<Rightarrow>
          (s\<lparr>exportJob := Some (job\<lparr>ex_status := ExExpired, ex_downloaded_at := Some now\<rparr>)\<rparr>, [DownloadBlob (export_file job)])
      | _ \<Rightarrow> (s, []))"

text \<open>A download is not a call of the table of endpoints.\<close>

definition audit_call :: "audit_job \<Rightarrow> api_call option" where
  "audit_call j = (case j of CreateExportJob filters f key \<Rightarrow> Some (CreateAuditExport filters f key) | DownloadExportJob job \<Rightarrow> None)"

section \<open>What it renders\<close>

type_synonym audit_control = "(audit_action, unit) control"

definition result_text :: "AuditResult \<Rightarrow> string" where
  "result_text r = (case r of Success \<Rightarrow> ''success'' | Denied \<Rightarrow> ''denied'' | Failure \<Rightarrow> ''error'')"

definition export_status_text :: "ExportStatus \<Rightarrow> string" where
  "export_status_text x =
     (case x of ExPending \<Rightarrow> ''pending'' | ExProcessing \<Rightarrow> ''processing'' | ExReady \<Rightarrow> ''ready'' | ExFailed \<Rightarrow> ''failed'' | ExExpired \<Rightarrow> ''expired'')"

definition auditColumns :: "translation \<Rightarrow> (string \<Rightarrow> string) \<Rightarrow> (AdminAuditEvent, audit_control) column_def list" where
  "auditColumns t fmt =
     [data_column ''occurred_at'' (t ''audit.when'' []) (\<lambda>r. [Txt (fmt (ae_occurred_at r))]),
      data_column ''actor'' (t ''audit.actor'' []) (\<lambda>r. [el ''code'' [] [Txt (ae_actor_kind r @ ''/'' @ ae_actor_subject r)]]),
      data_column ''action'' (t ''audit.action'' []) (\<lambda>r. [Txt (ae_action r)]),
      data_column ''target'' (t ''audit.target'' []) (\<lambda>r. [el ''code'' [] [Txt (ae_target_type r @ '':'' @ ae_target_id r)]]),
      data_column ''result'' (t ''audit.result'' []) (\<lambda>r. [domainStatus (result_text (ae_result r)) (result_text (ae_result r))]),
      data_column ''request_id'' (t ''audit.request'' []) (\<lambda>r. [el ''code'' [] [Txt (ae_request_id r)]])]"

definition result_filter :: "AdminAuditEvent \<Rightarrow> string list \<Rightarrow> bool" where
  "result_filter r chosen \<longleftrightarrow> result_text (ae_result r) \<in> set chosen"

definition audit_table_initial :: initial_table where
  "audit_table_initial = \<lparr>init_globalFilter = None, init_pagination = Some \<lparr>pageIndex = 0, pageSize = 10\<rparr>,
     init_sorting = Some [\<lparr>sort_desc = True, sort_id = ''occurred_at''\<rparr>], init_columnVisibility = None\<rparr>"

definition result_facet :: "translation \<Rightarrow> facet" where
  "result_facet t =
     \<lparr>fc_columnId = ''result'', fc_multiple = True, fc_options = map (\<lambda>v. \<lparr>fo_label = v, fo_value = v\<rparr>) [''success'', ''denied'', ''error''],
      fc_title = t ''audit.result'' []\<rparr>"

definition dash_or :: "('a \<Rightarrow> string) \<Rightarrow> 'a option \<Rightarrow> string" where
  "dash_or f x = (case x of Some v \<Rightarrow> f v | None \<Rightarrow> [CHR 0x97])"

definition auditOverview :: "translation \<Rightarrow> (string \<Rightarrow> string) \<Rightarrow> audit_env \<Rightarrow> 'p view list \<Rightarrow> 'p view list" where
  "auditOverview t day env holdsDialog =
     [el ''div'' [] (hint (t ''audit.actorNotice'' []) # holdsDialog)] @
     shown_if (overviewError env \<noteq> []) (el ''alert'' [] [Txt (t (overviewError env) [])]) @
     [statCard (t ''audit.partitionHealthHint'' []) ''ShieldCheck'' (t ''audit.partitionHealth'' [])
        (case av_health env of Some h \<Rightarrow> if ah_future_through h \<noteq> [] then day (ah_future_through h) else [CHR 0x97] | None \<Rightarrow> [CHR 0x97]),
      statCard (t ''audit.defaultRowsHint'' []) ''FileClock'' (t ''audit.defaultRows'' []) (dash_or (show_nat \<circ> ah_default_rows) (av_health env)),
      statCard (t ''audit.legalHoldsHint'' []) ''Gavel'' (t ''audit.legalHolds'' []) (dash_or (show_nat \<circ> ah_active_legal_holds) (av_health env))]"

definition exportNotice :: "translation \<Rightarrow> audit_env \<Rightarrow> audit_page \<Rightarrow> audit_control view list" where
  "exportNotice t env s =
     (case currentExport env s of
        None \<Rightarrow> []
      | Some job \<Rightarrow>
          [el ''alert'' []
             (Txt (t ''audit.exportStatus'' [(''status'', export_status_text (ex_status job)), (''rows'', show_nat (some_or (ex_row_count job) 0))]) #
              shown_if (ex_status job = ExReady) (do_button False (ConsumeExport job) [Txt (t ''audit.download'' [])]))])"

definition exportPending :: "audit_page \<Rightarrow> bool" where
  "exportPending s = list_ex (\<lambda>j. case j of CreateExportJob _ _ _ \<Rightarrow> True | _ \<Rightarrow> False) (au_jobs s)"

definition exportButton :: "translation \<Rightarrow> audit_env \<Rightarrow> audit_page \<Rightarrow> audit_control view list" where
  "exportButton t env s =
     shown_if (canExport env)
       (button ([(''aria-label'', t ''audit.export'' []), (''title'', t ''audit.export'' [])] @ flag ''disabled'' (exportPending s)) (Do RequestExport)
         [el ''icon'' [(''name'', ''Download'')] []])"

definition eventsTable ::
  "translation \<Rightarrow> (string \<Rightarrow> string) \<Rightarrow> audit_env \<Rightarrow> table_model \<Rightarrow> AdminAuditEvent list \<Rightarrow> audit_page \<Rightarrow> audit_control grid_action view list" where
  "eventsTable t fmt env m rows s =
     (let tr = (\<lambda>key. t key []) in
      if av_events env = None \<and> av_events_error env = None then [map_view PageDoes (el ''div'' [(''role'', ''status'')] [Txt (tr ''common.loading'')])]
      else if eventsError env s \<noteq> [] \<and> audit_events env = [] then []
      else [render_table (page_sort_labels tr) (page_table_labels tr) (tr ''audit.empty'') (\<lambda>r. None) (auditColumns t fmt) m rows
        [dataTableToolbar tr
          ((page_toolbar_labels tr [])\<lparr>tl_search := tr ''audit.action'' @ '', '' @ tr ''audit.target'' @ '', '' @ tr ''audit.request''\<rparr>)
          [result_facet t] (exportButton t env s) [] m]])"

definition auditPage ::
  "translation \<Rightarrow> (string \<Rightarrow> string) \<Rightarrow> (string \<Rightarrow> string) \<Rightarrow> audit_env \<Rightarrow> table_model \<Rightarrow> AdminAuditEvent list \<Rightarrow> audit_control view list \<Rightarrow> audit_page \<Rightarrow>
     audit_control grid_action view" where
  "auditPage t fmt day env m rows holdsDialog s =
     el ''div'' []
       (map (map_view PageDoes)
          [do_button False (SetAuditTab OverviewAuditTab) [Txt (t ''audit.overviewTab'' [])],
           do_button False (SetAuditTab EventsAuditTab) [Txt (t ''audit.eventsTab'' [])]] @
        (case audit_tab_of s of
           OverviewAuditTab \<Rightarrow> map (map_view PageDoes) (auditOverview t day env holdsDialog)
         | EventsAuditTab \<Rightarrow>
             map (map_view PageDoes)
               (exportNotice t env s @ shown_if (eventsError env s \<noteq> []) (el ''alert'' [] [Txt (t (eventsError env s) [])])) @
             eventsTable t fmt env m rows s))"

section \<open>The page as a machine\<close>

definition audit_sent :: "audit_effect list \<Rightarrow> audit_job list" where
  "audit_sent es = concat (map (\<lambda>e. case e of SendAudit j \<Rightarrow> [j] | _ \<Rightarrow> []) es)"

lemma audit_sent_simps [simp]:
  "audit_sent [] = []" "audit_sent (SendAudit j # es) = j # audit_sent es" "audit_sent (DownloadBlob f # es) = audit_sent es"
  "audit_sent (es @ fs) = audit_sent es @ audit_sent fs"
  by (simp_all add: audit_sent_def)

lemma handle_audit_sends: "au_jobs (fst (handle_audit uuid env a s)) = au_jobs s @ audit_sent (snd (handle_audit uuid env a s))"
  by (simp add: handle_audit_def request_export_def Let_def split: audit_action.split)

lemma settle_audit_frame:
  "au_jobs (fst (settle_audit j r s)) = remove1 j (au_jobs s) \<and> audit_sent (snd (settle_audit j r s)) = [] \<and>
     auditWindow (fst (settle_audit j r s)) = auditWindow s \<and> au_drawn (fst (settle_audit j r s)) = au_drawn s"
  by (simp add: settle_audit_def Let_def split: sum.split audit_job.split audit_answer.split)

interpretation audit_machine: page_machine "handle_audit uuid" settle_audit au_jobs audit_sent "\<lambda>j. True" for uuid
  using handle_audit_sends settle_audit_frame by unfold_locales auto

section \<open>What is asked for\<close>

definition export_keys :: "audit_job list \<Rightarrow> string list" where
  "export_keys js = concat (map (\<lambda>j. case j of CreateExportJob _ _ key \<Rightarrow> [key] | _ \<Rightarrow> []) js)"

lemma export_keys_simps [simp]:
  "export_keys [] = []" "export_keys (CreateExportJob filters x key # js) = key # export_keys js"
  "export_keys (DownloadExportJob job # js) = export_keys js" "export_keys (js @ ks) = export_keys js @ export_keys ks"
  by (simp_all add: export_keys_def)

lemma export_run:
  "let r = run_page (handle_audit uuid) settle_audit au_jobs evs s in
     auditWindow (fst r) = auditWindow s \<and> au_drawn s \<le> au_drawn (fst r) \<and>
     export_keys (audit_sent (snd r)) = map uuid [au_drawn s ..< au_drawn (fst r)] \<and>
     (\<forall>filters x key. CreateExportJob filters x key \<in> set (audit_sent (snd r)) \<longrightarrow> filters = export_filters s \<and> x = Csv)"
proof (induction evs arbitrary: s)
  case (Cons ev evs)
  let ?s1 = "fst (page_step (handle_audit uuid) settle_audit au_jobs ev s)"
  let ?es = "audit_sent (snd (page_step (handle_audit uuid) settle_audit au_jobs ev s))"
  have step: "auditWindow ?s1 = auditWindow s \<and> (au_drawn ?s1 = au_drawn s \<and> export_keys ?es = [] \<and> (\<forall>filters x key. CreateExportJob filters x key \<notin> set ?es) \<or>
      au_drawn ?s1 = Suc (au_drawn s) \<and> ?es = [CreateExportJob (export_filters s) Csv (uuid (au_drawn s))])"
  proof (cases ev)
    case (Act env a)
    then show ?thesis by (cases a) (simp_all add: handle_audit_def request_export_def Let_def)
  qed (simp add: settle_audit_frame)
  then have "export_filters ?s1 = export_filters s" by (simp add: export_filters_def)
  with step Cons [of ?s1] show ?case
    by (auto simp: Let_def case_prod_beta upt_conv_Cons)
qed simp

text \<open>Every export asked for is of the day before the page was mounted, in the format CSV, and the requests carry the keys
  of the random source in order, a new one each: asking again after a failure is a new request to the server, unlike on the
  pages that keep their attempts.\<close>

theorem exports_asked:
  assumes "inj uuid"
  shows "let sent = audit_sent (snd (run_page (handle_audit uuid) settle_audit au_jobs evs (initial_audit to_iso now))) in
    distinct (export_keys sent) \<and> (\<exists>n. export_keys sent = map uuid [0 ..< n]) \<and>
    (\<forall>filters x key. CreateExportJob filters x key \<in> set sent \<longrightarrow>
      fl_from filters = to_iso (now - 86400000) \<and> fl_to filters = to_iso now \<and> x = Csv)"
proof -
  let ?r = "run_page (handle_audit uuid) settle_audit au_jobs evs (initial_audit to_iso now)"
  have r: "export_keys (audit_sent (snd ?r)) = map uuid [0 ..< au_drawn (fst ?r)]"
    "\<forall>filters x key. CreateExportJob filters x key \<in> set (audit_sent (snd ?r)) \<longrightarrow> filters = export_filters (initial_audit to_iso now) \<and> x = Csv"
    using export_run [of uuid evs "initial_audit to_iso now"] by (auto simp: Let_def initial_audit_def)
  have "distinct (map uuid [0 ..< au_drawn (fst ?r)])"
    using inj_on_subset [OF assms subset_UNIV] by (simp add: distinct_map)
  moreover have "fl_from (export_filters (initial_audit to_iso now)) = to_iso (now - 86400000)"
      "fl_to (export_filters (initial_audit to_iso now)) = to_iso now"
    by (simp_all add: export_filters_def initial_audit_def)
  ultimately show ?thesis unfolding Let_def using r by metis
qed

section \<open>After the download\<close>

definition answers_export :: "(audit_env, audit_action, audit_job, api_error + audit_answer) page_event \<Rightarrow> bool" where
  "answers_export ev = (case ev of Act env a \<Rightarrow> False | Answer j r \<Rightarrow> (case r of Inl e \<Rightarrow> False | Inr x \<Rightarrow> True))"

lemma export_job_step:
  "\<not> answers_export ev \<Longrightarrow> exportJob (fst (page_step (handle_audit uuid) settle_audit au_jobs ev s)) = exportJob s"
  by (cases ev)
    (auto simp: answers_export_def handle_audit_def request_export_def settle_audit_def Let_def split: audit_action.split sum.splits audit_job.split)

lemma export_job_run:
  "list_all (\<lambda>ev. \<not> answers_export ev) evs \<Longrightarrow> exportJob (fst (run_page (handle_audit uuid) settle_audit au_jobs evs s)) = exportJob s"
  by (induction evs arbitrary: s) (simp_all add: export_job_step case_prod_beta Let_def)

text \<open>The page goes on asking for the status of an export until a download or another export is answered, even when the
  answers have long said that it failed: they are shown but not looked at.\<close>

theorem failed_export_polled:
  assumes "exportPolled s" and "list_all (\<lambda>ev. \<not> answers_export ev) evs"
    and "av_export env = Some job" and "ex_status job = ExFailed"
  shows "let s' = fst (run_page (handle_audit uuid) settle_audit au_jobs evs s) in
    exportPolled s' \<and> map_option ex_status (currentExport env s') = Some ExFailed"
  using assms by (simp add: exportPolled_def export_job_run currentExport_def)

text \<open>An export whose answer said that it is ready stays on offer after it has been downloaded: the download marks the
  export the page holds as expired, but the answer shown is the older one, and nothing asks for a new one.\<close>

theorem downloaded_export_offered:
  assumes "av_export env = Some job" and "ex_status job = ExReady"
    and "s' = fst (settle_audit (DownloadExportJob job) (Inr (Downloaded now)) s)" and "audit_tab_of s = EventsAuditTab"
  shows "map_option ex_status (exportJob s') = Some ExExpired \<and> \<not> exportPolled s' \<and>
    Do (ConsumeExport job) \<in> set (page_actions (auditPage t fmt day env m rows holdsDialog s'))"
  using assms by (simp add: settle_audit_def exportPolled_def page_actions_iff auditPage_def exportNotice_def currentExport_def Let_def)

definition sample_export :: "ExportStatus \<Rightarrow> AuditExportJob" where
  "sample_export status =
     \<lparr>ex_id = ''e1'', ex_idempotency_key = ''k'', ex_filters = export_filters (initial_audit show_int 86400000), ex_format = Csv, ex_status = status,
      ex_row_count = None, ex_created_at = [], ex_completed_at = None, ex_expires_at = [], ex_downloaded_at = None\<rparr>"

definition sample_audit_env :: "ExportStatus \<Rightarrow> audit_env" where
  "sample_audit_env status =
     \<lparr>av_session = None, av_events = None, av_events_error = None, av_health = None, av_health_error = None,
      av_export = Some (sample_export status)\<rparr>"

lemma exports_asked_witness:
  "distinct (export_keys (audit_sent (snd (run_page (handle_audit show_nat) settle_audit au_jobs
     [Act (sample_audit_env ExFailed) RequestExport, Act (sample_audit_env ExFailed) RequestExport] (initial_audit show_int 86400000)))))"
  using exports_asked [of show_nat "[Act (sample_audit_env ExFailed) RequestExport, Act (sample_audit_env ExFailed) RequestExport]" show_int 86400000]
  by (simp add: Let_def inj_def)

lemma failed_export_polled_witness:
  "let s' = fst (run_page (handle_audit show_nat) settle_audit au_jobs [Act (sample_audit_env ExFailed) (SetAuditTab EventsAuditTab)]
       (initial_audit show_int 86400000\<lparr>exportJob := Some (sample_export ExPending)\<rparr>)) in
     exportPolled s' \<and> map_option ex_status (currentExport (sample_audit_env ExFailed) s') = Some ExFailed"
  by (rule failed_export_polled [where job = "sample_export ExFailed"])
    (simp_all add: sample_audit_env_def sample_export_def exportPolled_def answers_export_def)

lemma downloaded_export_offered_witness:
  "Do (ConsumeExport (sample_export ExReady)) \<in> set (page_actions (auditPage (\<lambda>key ps. key) (\<lambda>v. v) (\<lambda>v. v) (sample_audit_env ExReady)
     (\<lparr>tm_state = useDataTable audit_table_initial no_preferences, tm_columns = [], tm_filtered_count = 0, tm_page_count = 0,
        tm_can_previous = False, tm_can_next = False\<rparr>) [] []
     (fst (settle_audit (DownloadExportJob (sample_export ExReady)) (Inr (Downloaded [])) (initial_audit show_int 0\<lparr>audit_tab_of := EventsAuditTab\<rparr>)))))"
  by (rule downloaded_export_offered [OF _ _ refl, THEN conjunct2, THEN conjunct2]) (simp_all add: sample_audit_env_def sample_export_def)

end
