(* ===== verification/LegalHolds.thy ===== *)
theory LegalHolds
  imports LockedPages I18n Validation QueryCache
begin

text \<open>
  The dialog of the legal holds of the audit (\<open>web/src/routes/audit-events/-components/audit-legal-holds-dialog.tsx\<close>):
  the holds, the creation of one for a window and a reason, and their release. The times are entered as
  local date-times: \<open>to_iso\<close> is \<open>toISOString\<close> of a time in milliseconds and \<open>date_parse\<close> is
  \<open>Date.parse\<close>, which reads a date-time without a zone in the local one.
  Theorems: what is created has been checked, who may not manage the audit sees nothing, and the window
  the form proposes is written in UTC but read as local time, so it is off by the zone's offset.
\<close>

section \<open>State\<close>

datatype hold_job = CreateHoldJob string string string | ReleaseHoldJob string

record holds_dialog =
  hd_open :: bool
  hd_from :: string
  hd_to :: string
  hd_reason :: string
  hd_create_error :: "api_error option"
  hd_release_error :: "api_error option"
  hd_jobs :: "hold_job list"
  hd_refreshing :: "hold_job list"

definition localDateTime :: "(int \<Rightarrow> string) \<Rightarrow> int \<Rightarrow> string" where
  "localDateTime to_iso time = take 16 (to_iso time)"

definition WEEK_MS :: int where
  "WEEK_MS = 7 * 24 * 60 * 60 * 1000"

definition initial_holds :: "(int \<Rightarrow> string) \<Rightarrow> int \<Rightarrow> holds_dialog" where
  "initial_holds to_iso now =
     \<lparr>hd_open = False, hd_from = localDateTime to_iso (now - WEEK_MS), hd_to = localDateTime to_iso now, hd_reason = [],
      hd_create_error = None, hd_release_error = None, hd_jobs = [], hd_refreshing = []\<rparr>"

record holds_env =
  he_session :: "AdminSession option"
  he_holds :: "AuditLegalHold list option"
  he_error :: "api_error option"

definition validWindow :: "(string \<Rightarrow> int option) \<Rightarrow> holds_dialog \<Rightarrow> bool" where
  "validWindow date_parse s = isValidDateRange date_parse (hd_from s) (hd_to s)"

definition holdsError :: "holds_env \<Rightarrow> holds_dialog \<Rightarrow> api_error option" where
  "holdsError env s =
     (case he_error env of Some e \<Rightarrow> Some e | None \<Rightarrow> (case hd_create_error s of Some e \<Rightarrow> Some e | None \<Rightarrow> hd_release_error s))"

definition hidden_for :: "AdminSession option \<Rightarrow> bool" where
  "hidden_for x = (case x of None \<Rightarrow> False | Some session \<Rightarrow> ''audit.manage'' \<notin> set (as_permissions session))"

section \<open>Handlers\<close>

datatype holds_input = HoldFrom | HoldTo | HoldReason

datatype holds_action = SetHoldsOpen bool | CreateHold | ReleaseHold string | HoldsInput holds_input string | HoldsRefreshed hold_job

datatype holds_effect = SendHold hold_job | HoldsCache "cache_command list"

text \<open>\<open>new Date(\<dots>).toISOString()\<close> throws on a date that is none, which the mutation keeps as its error.\<close>

definition create_hold :: "(int \<Rightarrow> string) \<Rightarrow> (string \<Rightarrow> int option) \<Rightarrow> holds_dialog \<Rightarrow> holds_dialog \<times> holds_effect list" where
  "create_hold to_iso date_parse s =
     (let s = s\<lparr>hd_create_error := None\<rparr> in
      case (date_parse (hd_from s), date_parse (hd_to s)) of
        (Some from, Some until) \<Rightarrow>
          let j = CreateHoldJob (to_iso from) (to_iso until) (js_trim (hd_reason s)) in
          (s\<lparr>hd_jobs := hd_jobs s @ [j]\<rparr>, [SendHold j])
      | _ \<Rightarrow> (s\<lparr>hd_create_error := Some (FetchError ''Invalid time value'')\<rparr>, []))"

definition holds_input :: "holds_input \<Rightarrow> string \<Rightarrow> holds_dialog \<Rightarrow> holds_dialog" where
  "holds_input i v s =
     (case i of HoldFrom \<Rightarrow> s\<lparr>hd_from := v\<rparr> | HoldTo \<Rightarrow> s\<lparr>hd_to := v\<rparr> | HoldReason \<Rightarrow> s\<lparr>hd_reason := v\<rparr>)"

definition handle_holds ::
  "(int \<Rightarrow> string) \<Rightarrow> (string \<Rightarrow> int option) \<Rightarrow> holds_env \<Rightarrow> holds_action \<Rightarrow> holds_dialog \<Rightarrow> holds_dialog \<times> holds_effect list" where
  "handle_holds to_iso date_parse env a s =
     (case a of
        SetHoldsOpen b \<Rightarrow> (s\<lparr>hd_open := b\<rparr>, [])
      | CreateHold \<Rightarrow> create_hold to_iso date_parse s
      | ReleaseHold i \<Rightarrow> (s\<lparr>hd_release_error := None, hd_jobs := hd_jobs s @ [ReleaseHoldJob i]\<rparr>, [SendHold (ReleaseHoldJob i)])
      | HoldsInput i v \<Rightarrow> (holds_input i v s, [])
      | HoldsRefreshed j \<Rightarrow> (s\<lparr>hd_refreshing := remove1 j (hd_refreshing s)\<rparr>, []))"

definition holds_commands :: "cache_command list" where
  "holds_commands = [InvalidateMatching [''admin'', ''audit-legal-holds''], InvalidateMatching [''admin'', ''audit-health'']]"

definition settle_holds :: "hold_job \<Rightarrow> (api_error + unit) \<Rightarrow> holds_dialog \<Rightarrow> holds_dialog \<times> holds_effect list" where
  "settle_holds j result s =
     (let s = s\<lparr>hd_jobs := remove1 j (hd_jobs s)\<rparr> in
      case result of
        Inl e \<Rightarrow> ((case j of CreateHoldJob _ _ _ \<Rightarrow> s\<lparr>hd_create_error := Some e\<rparr> | ReleaseHoldJob _ \<Rightarrow> s\<lparr>hd_release_error := Some e\<rparr>), [])
      | Inr _ \<Rightarrow>
          let s = s\<lparr>hd_refreshing := hd_refreshing s @ [j]\<rparr> in
          ((case j of CreateHoldJob _ _ _ \<Rightarrow> s\<lparr>hd_reason := []\<rparr> | ReleaseHoldJob _ \<Rightarrow> s), [HoldsCache holds_commands]))"

definition hold_call :: "hold_job \<Rightarrow> api_call" where
  "hold_call j = (case j of CreateHoldJob from until reason \<Rightarrow> CreateAuditLegalHold from until reason | ReleaseHoldJob i \<Rightarrow> ReleaseAuditLegalHold i)"

section \<open>What it renders\<close>

type_synonym holds_control = "(holds_action, holds_input) control"

text \<open>A mutation is pending until its query refresh is over.\<close>

definition is_hold_creation :: "hold_job \<Rightarrow> bool" where
  "is_hold_creation j = (case j of CreateHoldJob _ _ _ \<Rightarrow> True | ReleaseHoldJob _ \<Rightarrow> False)"

definition createHoldPending :: "holds_dialog \<Rightarrow> bool" where
  "createHoldPending s = list_ex is_hold_creation (hd_jobs s @ hd_refreshing s)"

definition releasePending :: "holds_dialog \<Rightarrow> bool" where
  "releasePending s = list_ex (\<lambda>j. \<not> is_hold_creation j) (hd_jobs s @ hd_refreshing s)"

definition holdRow :: "translation \<Rightarrow> (string \<Rightarrow> string) \<Rightarrow> holds_dialog \<Rightarrow> AuditLegalHold \<Rightarrow> holds_control view" where
  "holdRow t fmt s hold =
     el ''div'' []
       [hint (lh_reason hold), Txt (fmt (lh_from hold) @ '' '' @ [CHR 0x97] @ '' '' @ fmt (lh_to hold)),
        if lh_released_at hold \<notin> {None, Some []} then el ''span'' [] [Txt (t ''audit.holdReleased'' [])]
        else do_button (releasePending s) (ReleaseHold (lh_id hold)) [Txt (t ''audit.releaseHold'' [])]]"

definition auditLegalHoldsDialog ::
  "translation \<Rightarrow> (string \<Rightarrow> string) \<Rightarrow> (string \<Rightarrow> int option) \<Rightarrow> holds_env \<Rightarrow> holds_dialog \<Rightarrow> holds_control view list" where
  "auditLegalHoldsDialog t fmt date_parse env s =
     (let ok = validWindow date_parse s in
      if hidden_for (he_session env) then []
      else do_button False (SetHoldsOpen True) [Txt (t ''audit.manageHolds'' [])] #
        dialog (hd_open s) (Do (SetHoldsOpen False)) (t ''audit.legalHolds'' []) (t ''audit.legalHoldDescription'' [])
          ((case holdsError env s of Some e \<Rightarrow> [el ''alert'' [] [Txt (t (apiErrorMessage e) [])]] | None \<Rightarrow> []) @
           [label (t ''audit.holdFrom'' []), text_field HoldFrom (flag ''aria-invalid'' (\<not> ok) @ [(''type'', ''datetime-local'')]) (hd_from s),
            label (t ''audit.holdTo'' []), text_field HoldTo (flag ''aria-invalid'' (\<not> ok) @ [(''type'', ''datetime-local'')]) (hd_to s)] @
           shown_if (\<not> ok) (hint (t ''validation.dateRange'' [])) @
           [label (t ''audit.holdReason'' []), text_field HoldReason [(''maxLength'', ''500'')] (hd_reason s),
            do_button (js_trim (hd_reason s) = [] \<or> \<not> ok \<or> createHoldPending s) CreateHold [Txt (t ''audit.createHold'' [])],
            el ''div'' []
              (map (holdRow t fmt s) (some_or (he_holds env) []) @
               shown_if (he_holds env = Some []) (hint (t ''audit.noHolds'' [])))] @
           [do_button False (SetHoldsOpen False) [Txt (t ''common.cancel'' [])]]))"

section \<open>The dialog as a machine\<close>

definition holds_sent :: "holds_effect list \<Rightarrow> hold_job list" where
  "holds_sent es = concat (map (\<lambda>e. case e of SendHold j \<Rightarrow> [j] | _ \<Rightarrow> []) es)"

lemma holds_sent_simps [simp]:
  "holds_sent [] = []" "holds_sent (SendHold j # es) = j # holds_sent es" "holds_sent (HoldsCache c # es) = holds_sent es"
  "holds_sent (es @ fs) = holds_sent es @ holds_sent fs"
  by (simp_all add: holds_sent_def)

lemma handle_holds_sends:
  "hd_jobs (fst (handle_holds to_iso date_parse env a s)) = hd_jobs s @ holds_sent (snd (handle_holds to_iso date_parse env a s))"
  by (cases a) (simp_all add: handle_holds_def create_hold_def holds_input_def Let_def split: option.split holds_input.split)

lemma settle_holds_frame:
  "hd_jobs (fst (settle_holds j r s)) = remove1 j (hd_jobs s) \<and> holds_sent (snd (settle_holds j r s)) = []"
  by (simp add: settle_holds_def Let_def split: sum.split hold_job.split)

interpretation holds_machine: page_machine "handle_holds to_iso date_parse" settle_holds hd_jobs holds_sent "\<lambda>j. True" for to_iso date_parse
  using handle_holds_sends settle_holds_frame by unfold_locales auto

definition holds_possible ::
  "translation \<Rightarrow> (string \<Rightarrow> string) \<Rightarrow> (string \<Rightarrow> int option) \<Rightarrow> holds_env \<Rightarrow> holds_action \<Rightarrow> holds_dialog \<Rightarrow> bool" where
  "holds_possible t fmt date_parse env a s \<longleftrightarrow>
     (\<exists>j. a = HoldsRefreshed j) \<or> asks_for HoldsInput (concat (map offered (auditLegalHoldsDialog t fmt date_parse env s))) a"

text \<open>Not managing the audit, a user has nothing to do here.\<close>

definition holds_reader ::
  "translation \<Rightarrow> (string \<Rightarrow> string) \<Rightarrow> (string \<Rightarrow> int option) \<Rightarrow> holds_env \<Rightarrow> holds_action \<Rightarrow> holds_dialog \<Rightarrow> bool" where
  "holds_reader t fmt date_parse env a s \<longleftrightarrow> hidden_for (he_session env) \<and> holds_possible t fmt date_parse env a s"

interpretation holds_locked: locked_page "handle_holds to_iso date_parse" settle_holds hd_jobs holds_sent "\<lambda>j. True"
  "holds_reader t fmt date_parse" "\<lambda>s. True" for to_iso date_parse t fmt
  by unfold_locales (auto simp: holds_reader_def holds_possible_def asks_for_def auditLegalHoldsDialog_def handle_holds_def)

section \<open>What is created\<close>

lemma create_hold_offered:
  assumes "holds_possible t fmt date_parse env CreateHold s"
  shows "js_trim (hd_reason s) \<noteq> [] \<and> validWindow date_parse s \<and> \<not> createHoldPending s"
  using assms
  by (auto simp: holds_possible_def asks_for_def auditLegalHoldsDialog_def holdRow_def shown_if_def dialog_def
      is_disabled_def flag_def Let_def split: if_splits option.splits)

text \<open>A hold that a control on screen creates has a reason and a window whose start is before its end, and no other hold is
  being created.\<close>

theorem created_hold_checked:
  assumes "holds_possible t fmt date_parse env a s"
    and "SendHold (CreateHoldJob from until reason) \<in> set (snd (handle_holds to_iso date_parse env a s))"
  shows "\<exists>x y. from = to_iso x \<and> until = to_iso y \<and> x < y \<and> reason = js_trim (hd_reason s) \<and> reason \<noteq> [] \<and> \<not> createHoldPending s"
proof -
  have a: "a = CreateHold" using assms(2) by (cases a) (auto simp: handle_holds_def)
  from create_hold_offered [OF assms(1) [unfolded a]] assms(2) show ?thesis
    by (auto simp: a handle_holds_def create_hold_def validWindow_def isValidDateRange_def Let_def split: option.splits)
qed

definition sample_iso :: "int \<Rightarrow> string" where
  "sample_iso time =
     (if time = 1767873600000 then ''2026-01-08T12:00:00.000Z'' else if time = 1767268800000 then ''2026-01-01T12:00:00.000Z''
      else if time = 1767884400000 then ''2026-01-08T15:00:00.000Z'' else ''2026-01-01T15:00:00.000Z'')"

text \<open>\<open>Date.parse\<close> three hours west of Greenwich.\<close>

definition sample_date_parse :: "string \<Rightarrow> int option" where
  "sample_date_parse v =
     (if v = ''2026-01-08T12:00'' then Some 1767884400000 else if v = ''2026-01-01T12:00'' then Some 1767279600000 else None)"

definition sample_holds_env :: holds_env where
  "sample_holds_env = \<lparr>he_session = None, he_holds = Some [], he_error = None\<rparr>"

definition sample_holds :: holds_dialog where
  "sample_holds = initial_holds sample_iso 1767873600000\<lparr>hd_open := True, hd_reason := ''r''\<rparr>"

lemma sample_hold_possible: "holds_possible (\<lambda>key ps. key) (\<lambda>v. v) sample_date_parse sample_holds_env CreateHold sample_holds"
proof -
  have "js_trim ''r'' \<noteq> []" by code_simp
  then show ?thesis
    by (simp add: holds_possible_def asks_for_def auditLegalHoldsDialog_def dialog_def validWindow_def isValidDateRange_def sample_holds_def
        sample_holds_env_def initial_holds_def localDateTime_def WEEK_MS_def sample_iso_def sample_date_parse_def hidden_for_def
        createHoldPending_def is_disabled_def flag_def Let_def)
qed

lemma sample_hold_sent:
  "handle_holds sample_iso sample_date_parse sample_holds_env CreateHold sample_holds =
     (sample_holds\<lparr>hd_jobs := [CreateHoldJob ''2026-01-01T15:00:00.000Z'' ''2026-01-08T15:00:00.000Z'' ''r'']\<rparr>,
      [SendHold (CreateHoldJob ''2026-01-01T15:00:00.000Z'' ''2026-01-08T15:00:00.000Z'' ''r'')])"
  by code_simp

lemma created_hold_checked_witness:
  "\<exists>x y. ''2026-01-01T15:00:00.000Z'' = sample_iso x \<and> ''2026-01-08T15:00:00.000Z'' = sample_iso y \<and> x < y"
  using created_hold_checked [OF sample_hold_possible, of "''2026-01-01T15:00:00.000Z''" "''2026-01-08T15:00:00.000Z''" "''r''" sample_iso]
  by (auto simp: sample_hold_sent)

section \<open>The window proposed\<close>

text \<open>The form proposes the last week, written as UTC text without a zone; \<open>Date.parse\<close> reads such a text as local time. So, left
  as it is, the hold created covers the last week moved by the offset of the zone: west of Greenwich it ends in the future and
  leaves out its first hours, east of it the last hours are not held.\<close>

theorem proposed_window_shifted:
  assumes "\<And>time. time \<in> {now - WEEK_MS, now} \<Longrightarrow> date_parse (take 16 (to_iso time)) = Some (time - time mod 60000 + offset)"
    and "s = initial_holds to_iso now\<lparr>hd_open := True, hd_reason := reason\<rparr>" and "js_trim reason \<noteq> []" and "\<not> hidden_for (he_session env)"
  shows "holds_possible t fmt date_parse env CreateHold s \<and>
    snd (handle_holds to_iso date_parse env CreateHold s) =
      [SendHold (CreateHoldJob (to_iso (now - WEEK_MS - now mod 60000 + offset)) (to_iso (now - now mod 60000 + offset)) (js_trim reason))]"
proof -
  have "(now - WEEK_MS) mod 60000 = now mod 60000" by (simp add: WEEK_MS_def mod_diff_eq [symmetric])
  then have d: "date_parse (localDateTime to_iso (now - WEEK_MS)) = Some (now - WEEK_MS - now mod 60000 + offset)"
      "date_parse (localDateTime to_iso now) = Some (now - now mod 60000 + offset)"
    using assms(1) by (simp_all add: localDateTime_def)
  then have "validWindow date_parse s" by (simp add: assms(2) validWindow_def isValidDateRange_def initial_holds_def WEEK_MS_def)
  then show ?thesis
    using assms(3,4) d
    by (simp add: assms(2) holds_possible_def asks_for_def auditLegalHoldsDialog_def handle_holds_def create_hold_def initial_holds_def
        createHoldPending_def Let_def)
qed

lemma proposed_window_shifted_witness:
  "snd (handle_holds sample_iso sample_date_parse sample_holds_env CreateHold sample_holds) =
     [SendHold (CreateHoldJob ''2026-01-01T15:00:00.000Z'' ''2026-01-08T15:00:00.000Z'' ''r'')]"
proof -
  have "js_trim ''r'' = ''r''" by code_simp
  moreover have "sample_date_parse (take 16 (sample_iso time)) = Some (time - time mod 60000 + 10800000)"
    if "time \<in> {1767873600000 - WEEK_MS, 1767873600000}" for time
    using that by (auto simp: sample_iso_def sample_date_parse_def WEEK_MS_def)
  ultimately show ?thesis
    using proposed_window_shifted [of 1767873600000 sample_date_parse sample_iso 10800000 sample_holds "''r''" sample_holds_env
        "\<lambda>key ps. key" "\<lambda>v. v"]
    by (simp add: sample_holds_def sample_iso_def sample_holds_env_def WEEK_MS_def hidden_for_def)
qed

end
