(* ===== verification/Dashboards.thy ===== *)
theory Dashboards
  imports Pages I18n TenantOverview QueryCache
begin

text \<open>
  The two pages of figures: the overview (\<open>web/src/routes/index/-components/page.tsx\<close>) and the health of
  the operations (\<open>web/src/routes/operations-health/-components/page.tsx\<close>). They keep no state of their
  own: they show what the queries have answered. \<open>today\<close> is the date of the render, \<open>now\<close> its
  time in milliseconds, \<open>fmt\<close> how the platform writes a time in the language chosen.
  Theorem: what the health page counts and colours.
\<close>

section \<open>Queries\<close>

definition health_interval :: "bool \<Rightarrow> nat option" where
  "health_interval visible = (if visible then Some 30000 else None)"

definition usage_interval :: "bool \<Rightarrow> nat option" where
  "usage_interval visible = (if visible then Some 60000 else None)"

definition usage_key :: "utc_date \<Rightarrow> string list" where
  "usage_key today = (let monthRange = currentUTCMonthRange today in adminQueryKeys (QApiClientUsage (fst monthRange) (snd monthRange)))"

record overview_env =
  ov_data :: "Overview option"
  ov_error :: "api_error option"
  ov_clients :: "ApiClient list option"
  ov_usage :: "APIClientUsageRecord list option"
  ov_health :: "OperationalHealth option"

record health_env =
  hv_health :: "OperationalHealth option"
  hv_error :: "api_error option"

section \<open>Texts\<close>

definition health_text :: "Health \<Rightarrow> string" where
  "health_text h = (case h of Healthy \<Rightarrow> ''healthy'' | Degraded \<Rightarrow> ''degraded'' | Unavailable \<Rightarrow> ''unavailable'')"

definition effective_text :: "EffectiveStatus \<Rightarrow> string" where
  "effective_text x =
     (case x of Stale \<Rightarrow> ''stale''
      | Effective r \<Rightarrow> (case r of ReportHealthy \<Rightarrow> ''healthy'' | ReportDegraded \<Rightarrow> ''degraded'' | ReportFailed \<Rightarrow> ''failed''))"

definition kind_text :: "ReportKind \<Rightarrow> string" where
  "kind_text k = (case k of Backup \<Rightarrow> ''backup'' | Restore \<Rightarrow> ''restore'' | Rewrap \<Rightarrow> ''rewrap'' | Migration \<Rightarrow> ''migration'')"

definition statusVariant :: "string \<Rightarrow> string" where
  "statusVariant status =
     (if status = ''healthy'' then ''default'' else if status = ''degraded'' \<or> status = ''stale'' then ''secondary'' else ''destructive'')"

definition status_key :: "string \<Rightarrow> string" where
  "status_key status = ''operationsHealth.status.'' @ status"

section \<open>The overview\<close>

definition authOrLoadMessage :: "string \<Rightarrow> translation \<Rightarrow> string" where
  "authOrLoadMessage message t = (if js_starts_with message ''401:'' then t ''overview.authRequired'' [] else t ''overview.loadError'' [])"

definition shown_error :: "translation \<Rightarrow> api_error option \<Rightarrow> string" where
  "shown_error t failure = (case failure of Some e \<Rightarrow> t (apiErrorMessage e) [] | None \<Rightarrow> [])"

definition or_dash :: "('a \<Rightarrow> string) \<Rightarrow> 'a option \<Rightarrow> string" where
  "or_dash f x = (case x of Some v \<Rightarrow> f v | None \<Rightarrow> [CHR 0x97])"

definition overviewPage ::
  "(string \<Rightarrow> int option) \<Rightarrow> translation \<Rightarrow> int \<Rightarrow> overview_env \<Rightarrow> 'a view" where
  "overviewPage date_parse t now env =
     (let tr = (\<lambda>key. t key []) in
      el ''div'' []
        (case ov_data env of
           None \<Rightarrow>
             [el ''card'' [] [Txt (if ov_error env = None then tr ''overview.loading'' else authOrLoadMessage (shown_error t (ov_error env)) t)]]
         | Some x \<Rightarrow>
             [statCard (t ''overview.totalTenants'' [(''count'', show_nat (ov_tenants x))]) ''Building2'' (tr ''overview.activeTenants'') (show_nat (ov_activeTenants x)),
              statCard (tr ''overview.domainHint'') ''Globe'' (tr ''overview.domains'') (show_nat (ov_domains x)),
              statCard (tr ''overview.resourceHint'') ''Database'' (tr ''overview.resources'') (show_nat (ov_resources x)),
              statCard (tr ''overview.typeHint'') ''Boxes'' (tr ''overview.activeDefinitions'') (show_nat (ov_activeDefinitions x)),
              statCard (tr ''overview.operationalHealthHint'') ''Activity'' (tr ''overview.operationalHealth'')
                (or_dash (\<lambda>h. tr (status_key (health_text (oh_status h)))) (ov_health env)),
              statCard (tr ''overview.monthRequestsHint'') ''BarChart3'' (tr ''overview.monthRequests'')
                (or_dash (\<lambda>rows. show_nat (totalUsageRequests rows)) (ov_usage env)),
              statCard (tr ''overview.expiringKeysHint'') ''FileKey2'' (tr ''overview.expiringKeys'')
                (or_dash (\<lambda>clients. show_nat (countExpiringAPIClients date_parse clients now 30)) (ov_clients env)),
              statCard (tr ''overview.deadLettersHint'') ''CircleAlert'' (tr ''overview.deadLetters'')
                (or_dash (\<lambda>h. show_nat (oq_webhook_dead_letter (oh_queues h))) (ov_health env))]))"

section \<open>The health of the operations\<close>

definition inFlight :: "OperationalHealth option \<Rightarrow> nat" where
  "inFlight health =
     (case health of Some h \<Rightarrow> oq_webhook_pending (oh_queues h) + oq_webhook_retry (oh_queues h) | None \<Rightarrow> 0)"

definition component_row :: "(string \<Rightarrow> string) \<Rightarrow> OperationalComponent \<Rightarrow> 'a view" where
  "component_row tr c =
     el ''tr'' []
       [el ''td'' [] [Txt (oc_name c)],
        el ''td'' [] [badge (statusVariant (health_text (oc_status c))) (tr (status_key (health_text (oc_status c))))],
        el ''td'' [] [Txt (show_nat (oc_latency_ms c) @ '' ms'')]]"

definition report_row :: "(string \<Rightarrow> string) \<Rightarrow> (string \<Rightarrow> string) \<Rightarrow> OperationalReport \<Rightarrow> 'a view" where
  "report_row tr fmt r =
     el ''tr'' []
       [el ''td'' [] [Txt (tr (''operationsHealth.kind.'' @ kind_text (or_kind r)))],
        el ''td'' [] [el ''code'' [] [Txt (or_source r)]],
        el ''td'' [] [badge (statusVariant (effective_text (or_effective_status r))) (tr (status_key (effective_text (or_effective_status r))))],
        el ''td'' [] [Txt (fmt (or_occurred_at r))],
        el ''td'' [] [Txt (fmt (or_fresh_until r))]]"

definition health_table :: "string \<Rightarrow> string list \<Rightarrow> string \<Rightarrow> 'a view list \<Rightarrow> 'a view" where
  "health_table title heads nothing rows =
     el ''card'' []
       [el ''title'' [] [Txt title],
        el ''table'' []
          (el ''tr'' [] (map (\<lambda>h. el ''th'' [] [Txt h]) heads) # rows @
           shown_if (rows = []) (el ''tr'' [] [el ''td'' [(''colSpan'', show_nat (length heads))] [Txt nothing]]))]"

definition operationsHealthPage :: "translation \<Rightarrow> (string \<Rightarrow> string) \<Rightarrow> health_env \<Rightarrow> 'a view" where
  "operationsHealthPage t fmt env =
     (let tr = (\<lambda>key. t key []); health = hv_health env;
          components = (case health of Some h \<Rightarrow> oh_components h | None \<Rightarrow> []);
          reports = (case health of Some h \<Rightarrow> oh_reports h | None \<Rightarrow> []) in
      el ''div'' []
        ((case hv_error env of Some e \<Rightarrow> [el ''alert'' [] [Txt (tr (apiErrorMessage e))]] | None \<Rightarrow> []) @
         [statCard (tr ''operationsHealth.overallHint'') ''Activity'' (tr ''operationsHealth.overall'')
            (tr (status_key (case health of Some h \<Rightarrow> health_text (oh_status h) | None \<Rightarrow> ''unavailable''))),
          statCard (tr ''operationsHealth.dependenciesHint'') ''Database'' (tr ''operationsHealth.dependencies'') (show_nat (length components)),
          statCard (tr ''operationsHealth.inFlightHint'') ''RefreshCw'' (tr ''operationsHealth.inFlight'') (show_nat (inFlight health)),
          statCard (tr ''operationsHealth.deadLettersHint'') ''CircleAlert'' (tr ''operationsHealth.deadLetters'')
            (show_nat (case health of Some h \<Rightarrow> oq_webhook_dead_letter (oh_queues h) | None \<Rightarrow> 0)),
          health_table (tr ''operationsHealth.dependencies'') [tr ''operationsHealth.component'', tr ''common.status'', tr ''operationsHealth.latency'']
            (tr ''operationsHealth.noDependencies'') (map (component_row tr) components),
          health_table (tr ''operationsHealth.reports'')
            [tr ''operationsHealth.kind'', tr ''operationsHealth.source'', tr ''common.status'', tr ''operationsHealth.occurredAt'', tr ''operationsHealth.freshUntil'']
            (tr ''operationsHealth.noReports'') (map (report_row tr fmt) reports)]))"

section \<open>What is red\<close>

fun badges :: "string \<Rightarrow> 'a view \<Rightarrow> nat" where
  "badges variant (Txt s) = 0"
| "badges variant (Elem tag attrs handlers children) =
     (if tag = ''badge'' \<and> map_of attrs ''variant'' = Some variant then 1 else 0) + sum_list (map (badges variant) children)"

lemma badges_el [simp]:
  "badges variant (el tag attrs children) =
     (if tag = ''badge'' \<and> map_of attrs ''variant'' = Some variant then 1 else 0) + sum_list (map (badges variant) children)"
  by (simp add: el_def)

lemma badges_card [simp]: "badges variant (statCard h i l v) = 0"
  by (simp add: statCard_def)

lemma sum_list_indicator: "sum_list (map (\<lambda>x. if P x then 1 else 0) xs) = length (filter P xs)"
  by (induction xs) simp_all

lemma badges_component: "badges ''destructive'' (component_row tr c) = (if oc_status c = Unavailable then 1 else 0)"
  by (simp add: component_row_def badge_def statusVariant_def health_text_def split: Health.split)

lemma badges_report: "badges ''destructive'' (report_row tr fmt r) = (if or_effective_status r = Effective ReportFailed then 1 else 0)"
  by (simp add: report_row_def badge_def statusVariant_def effective_text_def split: EffectiveStatus.split ReportStatus.split)

lemma badges_table: "badges variant (health_table title heads nothing rows) = sum_list (map (badges variant) rows)"
  by (simp add: health_table_def shown_if_def comp_def)

text \<open>The red badges of the health page are those of the dependencies that are unavailable and of the reports that failed: a
  degraded dependency and a report that is stale are never shown as failures, and none of the failures is shown otherwise.\<close>

theorem failures_red:
  "badges ''destructive'' (operationsHealthPage t fmt env) =
     (case hv_health env of None \<Rightarrow> 0
      | Some h \<Rightarrow> length (filter (\<lambda>c. oc_status c = Unavailable) (oh_components h)) +
          length (filter (\<lambda>r. or_effective_status r = Effective ReportFailed) (oh_reports h)))"
  by (auto simp: operationsHealthPage_def badges_table comp_def badges_component badges_report sum_list_indicator Let_def split: option.splits)

end
