(* ===== verification/Catalog.thy ===== *)
theory Catalog
  imports I18n
begin

text \<open>
  The catalogs of messages of \<open>web/src/lib/i18n.tsx\<close>, in Portuguese, English and Spanish, key by key, in
  parts of at most 133 entries. A character outside ASCII is written by its code in Windows-1252.
  What the pages rely on is in the theory Translations.
\<close>

section \<open>The messages\<close>

definition ptBR_1 :: "(string \<times> string) list" where
  "ptBR_1 =
     [(''apiClients.actions'', ''A'' @ [CHR 0xE7, CHR 0xF5] @ ''es''),
      (''apiClients.clearSecretAccess.description'', ''Estas chaves chamam /v1/resolve, que retorna segredos descriptografados sobre TLS. O token s'' @ [CHR 0xF3] @ '' '' @ [CHR 0xE9] @ '' exibido uma vez, na cria'' @ [CHR 0xE7, CHR 0xE3] @ ''o.''),
      (''apiClients.clearSecretAccess.title'', ''Acesso a segredos em claro''),
      (''apiClients.copied'', ''Copiado''),
      (''apiClients.copy'', ''Copiar''),
      (''apiClients.copyFailed'', ''N'' @ [CHR 0xE3] @ ''o foi poss'' @ [CHR 0xED] @ ''vel copiar. Selecione e copie manualmente.''),
      (''apiClients.createdAt'', ''Criado em''),
      (''apiClients.description'', ''Chaves de servi'' @ [CHR 0xE7] @ ''o para consumo server-to-server.''),
      (''apiClients.done'', ''Concluir''),
      (''apiClients.emptyActive'', ''Nenhuma chave ativa.''),
      (''apiClients.generateToken'', ''Gerar token''),
      (''apiClients.help'', ''Ajuda''),
      (''apiClients.filters'', ''Filtros''),
      (''apiClients.helpTitle'', ''Como consumir chaves de API''),
      (''apiClients.loading'', ''Carregando chaves de API...''),
      (''apiClients.name'', ''Nome''),
      (''apiClients.scopes'', ''Permiss'' @ [CHR 0xF5] @ ''es''),
      (''apiClients.scopeIdentify'', ''Identificar tenant''),
      (''apiClients.scopeIdentifyDescription'', ''Permite identificar o tenant, sem retornar recursos ou segredos.''),
      (''apiClients.scopeResolve'', ''Resolver recursos''),
      (''apiClients.scopeResolveDescription'', ''Permite obter configura'' @ [CHR 0xE7, CHR 0xF5] @ ''es, incluindo campos secretos descriptografados.''),
      (''apiClients.scopeEvents'', ''Ler eventos''),
      (''apiClients.scopeEventsDescription'', ''Permite consumir o change feed sem acessar configura'' @ [CHR 0xE7, CHR 0xF5] @ ''es ou secrets.''),
      (''apiClients.scopeTenantList'', ''Listar tenants''),
      (''apiClients.scopeTenantListDescription'', ''Permite enumerar identidades de tenants (slug, nome, status) '' @ [CHR 0x97] @ '' nunca recursos ou secrets.''),
      (''apiClients.scopeResourceWrite'', ''Escrever valores''),
      (''apiClients.scopeResourceWriteDescription'', ''Permite atualizar valores de campos N'' @ [CHR 0xC3] @ ''O-secretos de resources existentes.''),
      (''apiClients.rpmLimit'', ''Limite por minuto''),
      (''apiClients.expiration'', ''Expira'' @ [CHR 0xE7, CHR 0xE3] @ ''o''),
      (''apiClients.expirationDays'', ''{days} dias''),
      (''apiClients.lastUsed'', [CHR 0xDA] @ ''ltimo uso''),
      (''apiClients.filterStatus'', ''Filtrar por status''),
      (''apiClients.allStatuses'', ''Todos os status''),
      (''apiClients.filterScope'', ''Filtrar por permiss'' @ [CHR 0xE3] @ ''o''),
      (''apiClients.allScopes'', ''Todas as permiss'' @ [CHR 0xF5] @ ''es''),
      (''apiClients.expiringSoon'', ''Expira em 30 dias''),
      (''apiClients.inactive'', ''Inativa h'' @ [CHR 0xE1] @ '' 30 dias''),
      (''apiClients.rotate'', ''Rotacionar chave''),
      (''apiClients.rotated'', ''Chave rotacionada. Copie o novo token agora.''),
      (''apiClients.updated'', ''Pol'' @ [CHR 0xED] @ ''tica da chave atualizada.''),
      (''apiClients.deleted'', ''Chave removida.''),
      (''apiClients.editTitle'', ''Editar chave de API''),
      (''apiClients.deleteTitle'', ''Remover chave de API''),
      (''apiClients.deleteDescription'', ''Remover permanentemente a chave revogada {name}? O hist'' @ [CHR 0xF3] @ ''rico de uso e auditoria ser'' @ [CHR 0xE1] @ '' preservado.''),
      (''apiClients.new'', ''Nova chave''),
      (''apiClients.newDialog.description'', ''O token ser'' @ [CHR 0xE1] @ '' exibido uma '' @ [CHR 0xFA] @ ''nica vez ap'' @ [CHR 0xF3] @ ''s a cria'' @ [CHR 0xE7, CHR 0xE3] @ ''o.''),
      (''apiClients.newDialog.title'', ''Nova chave de API''),
      (''apiClients.reactivate'', ''Reativar''),
      (''apiClients.revoke'', ''Revogar''),
      (''apiClients.search'', ''Buscar por nome, data ou status...''),
      (''apiClients.resolveSnippet.copy'', ''Copiar snippet''),
      (''apiClients.resolveSnippet.copied'', ''Snippet copiado''),
      (''apiClients.resolveSnippet.description'', ''Use uma chave ativa para identificar o tenant na borda sem acessar segredos; resolva a configura'' @ [CHR 0xE7, CHR 0xE3] @ ''o no app pelo tenantId.''),
      (''apiClients.resolveSnippet.edgeDescription'', ''A borda obt'' @ [CHR 0xE9] @ ''m apenas o slug do tenant; nenhum recurso ou segredo '' @ [CHR 0xE9] @ '' retornado.''),
      (''apiClients.resolveSnippet.edgeTitle'', ''1. Identificar na borda (sem segredos)''),
      (''apiClients.resolveSnippet.fullDescription'', ''Retorna todos os recursos ativos do tenant.''),
      (''apiClients.resolveSnippet.fullTitle'', ''Tenant completo''),
      (''apiClients.resolveSnippet.resourceDescription'', ''Retorna apenas uma defini'' @ [CHR 0xE7, CHR 0xE3] @ ''o de recurso do tenant.''),
      (''apiClients.resolveSnippet.resourceTitle'', ''Recurso espec'' @ [CHR 0xED] @ ''fico''),
      (''apiClients.resolveSnippet.tenantIdDescription'', ''O app resolve pelo slug injetado e revalida com ETag sem armazenar o corpo secreto no cache HTTP.''),
      (''apiClients.resolveSnippet.tenantIdTitle'', ''2. Resolver no app por tenantId''),
      (''apiClients.resolveSnippet.hostnameDescription'', ''Alternativa simples que resolve todos os recursos diretamente pelo hostname e retorna segredos.''),
      (''apiClients.resolveSnippet.hostnameTitle'', ''Alternativa: resolver por hostname''),
      (''apiClients.resolveSnippet.title'', ''Exemplo de consumo''),
      (''apiClients.statusReactivated'', ''Chave reativada.''),
      (''apiClients.statusRevoked'', ''Chave revogada.''),
      (''apiClients.title'', ''Chaves de API''),
      (''apiClients.token'', ''Token''),
      (''apiClients.tokenGenerated.description'', ''Copie agora; n'' @ [CHR 0xE3] @ ''o ser'' @ [CHR 0xE1] @ '' poss'' @ [CHR 0xED] @ ''vel visualiz'' @ [CHR 0xE1] @ ''-lo novamente.''),
      (''apiClients.tokenGenerated.title'', ''Token gerado''),
      (''app.subtitle'', ''Console admin''),
      (''app.title'', ''Tenancit''),
      (''auth.description'', ''Informe o token administrativo do Tenancit.''),
      (''auth.enter'', ''Entrar''),
      (''auth.hideToken'', ''Ocultar token''),
      (''auth.invalidToken'', ''Token inv'' @ [CHR 0xE1] @ ''lido ou expirado. Informe um token administrativo v'' @ [CHR 0xE1] @ ''lido.''),
      (''auth.loading'', ''Verificando o acesso administrativo'' @ [CHR 0x85]),
      (''auth.oidcDescription'', ''Entre com sua identidade corporativa.''),
      (''auth.oidcEnter'', ''Entrar com SSO''),
      (''auth.oidcSession'', ''Sess'' @ [CHR 0xE3] @ ''o corporativa''),
      (''auth.requiredAccess'', ''Informe o token administrativo para acessar o painel.''),
      (''auth.requiredContinue'', ''Informe o token administrativo para continuar.''),
      (''auth.retry'', ''Tentar novamente''),
      (''auth.sessionExpired'', ''Sua sess'' @ [CHR 0xE3] @ ''o expirou. Entre novamente.''),
      (''auth.showToken'', ''Mostrar token''),
      (''auth.sharedCredential'', ''Credencial administrativa''),
      (''auth.sharedToken'', ''Token compartilhado''),
      (''auth.title'', ''Acesso administrativo''),
      (''auth.token'', ''Token''),
      (''auth.unavailable'', ''N'' @ [CHR 0xE3] @ ''o foi poss'' @ [CHR 0xED] @ ''vel verificar o modo de autentica'' @ [CHR 0xE7, CHR 0xE3] @ ''o.''),
      (''common.actions'', ''A'' @ [CHR 0xE7, CHR 0xF5] @ ''es''),
      (''common.add'', ''Adicionar''),
      (''common.back'', ''Voltar''),
      (''common.cancel'', ''Cancelar''),
      (''common.close'', ''Fechar''),
      (''common.create'', ''Criar''),
      (''common.description'', ''Descri'' @ [CHR 0xE7, CHR 0xE3] @ ''o''),
      (''common.dismiss'', ''Dispensar''),
      (''common.edit'', ''Editar''),
      (''common.field'', ''Campo''),
      (''common.hide'', ''Ocultar''),
      (''common.hostname'', ''Hostname''),
      (''common.key'', ''Key''),
      (''common.label'', ''Label''),
      (''common.name'', ''Nome''),
      (''common.loading'', ''Carregando...''),
      (''common.remove'', ''Remover''),
      (''common.removeConfirm'', ''Remover''),
      (''common.review'', ''Revisar''),
      (''common.reveal'', ''Revelar''),
      (''common.save'', ''Salvar''),
      (''common.secret'', ''Segredo''),
      (''common.slug'', ''Slug''),
      (''common.status'', ''Status''),
      (''common.type'', ''Tipo''),
      (''common.value'', ''Valor''),
      (''validation.dateRange'', ''A data final deve ser posterior '' @ [CHR 0xE0] @ '' data inicial.''),
      (''validation.definitionKey'', ''Use at'' @ [CHR 0xE9] @ '' 63 caracteres: comece com uma letra min'' @ [CHR 0xFA] @ ''scula e use apenas letras min'' @ [CHR 0xFA] @ ''sculas, n'' @ [CHR 0xFA] @ ''meros, h'' @ [CHR 0xED] @ ''fen ou sublinhado.''),
      (''validation.boolean'', ''Use true ou false.''),
      (''validation.hostname'', ''Use apenas labels DNS com letras, n'' @ [CHR 0xFA] @ ''meros e h'' @ [CHR 0xED] @ ''fens, como app.exemplo.com.''),
      (''validation.integer'', ''Informe um n'' @ [CHR 0xFA] @ ''mero inteiro, sem casas decimais.''),
      (''validation.tenantSlug'', ''Use at'' @ [CHR 0xE9] @ '' 63 caracteres com letras min'' @ [CHR 0xFA] @ ''sculas, n'' @ [CHR 0xFA] @ ''meros e h'' @ [CHR 0xED] @ ''fens simples entre palavras.''),
      (''validation.webhookURL'', ''Use uma URL HTTPS sem credenciais nem fragmento. HTTP '' @ [CHR 0xE9] @ '' aceito apenas em localhost.''),
      (''dataTable.firstPage'', ''Primeira p'' @ [CHR 0xE1] @ ''gina''),
      (''dataTable.item'', ''item''),
      (''dataTable.items'', ''itens''),
      (''dataTable.lastPage'', [CHR 0xDA] @ ''ltima p'' @ [CHR 0xE1] @ ''gina''),
      (''dataTable.nextPage'', ''Pr'' @ [CHR 0xF3] @ ''xima p'' @ [CHR 0xE1] @ ''gina''),
      (''dataTable.page'', ''P'' @ [CHR 0xE1] @ ''gina''),
      (''dataTable.pageOf'', ''de''),
      (''dataTable.previousPage'', ''P'' @ [CHR 0xE1] @ ''gina anterior''),
      (''dataTable.rowsPerPage'', ''Linhas por p'' @ [CHR 0xE1] @ ''gina''),
      (''dataTable.sortAsc'', ''Ordenar crescente'')]"

definition ptBR_2 :: "(string \<times> string) list" where
  "ptBR_2 =
     [(''dataTable.sortDesc'', ''Ordenar decrescente''),
      (''dataTable.sortReset'', ''Limpar ordena'' @ [CHR 0xE7, CHR 0xE3] @ ''o''),
      (''dataTable.sort'', ''Ordenar''),
      (''dataTable.sortBy'', ''Ordenar por''),
      (''dataTable.ascending'', ''Crescente''),
      (''dataTable.descending'', ''Decrescente''),
      (''dataTable.columns'', ''Colunas''),
      (''dataTable.clearFilters'', ''Limpar filtros''),
      (''dataTable.resetPreferences'', ''Restaurar tabela''),
      (''dataTable.noResults'', ''Nenhum resultado.''),
      (''definitionDetail.activate'', ''Ativar''),
      (''definitionDetail.addField'', ''Adicionar campo''),
      (''definitionDetail.back'', ''Voltar''),
      (''definitionDetail.dataTypeBool'', ''Booleano''),
      (''definitionDetail.dataTypeInt'', ''Inteiro''),
      (''definitionDetail.dataTypeString'', ''Texto''),
      (''definitionDetail.deactivate'', ''Desativar''),
      (''definitionDetail.emptyDescription'', ''Nenhum campo. Adicione os campos que comp'' @ [CHR 0xF5] @ ''em este recurso.''),
      (''definitionDetail.editDescription'', ''Atualize o nome e a descri'' @ [CHR 0xE7, CHR 0xE3] @ ''o. A chave t'' @ [CHR 0xE9] @ ''cnica {key} permanece imut'' @ [CHR 0xE1] @ ''vel.''),
      (''definitionDetail.editFieldAction'', ''Editar campo {key}''),
      (''definitionDetail.editFieldDescription'', ''Atualize o label e a obrigatoriedade de {key}. Para alterar chave, tipo ou segredo, crie um novo campo e migre os valores.''),
      (''definitionDetail.editFieldTitle'', ''Editar campo''),
      (''definitionDetail.editTitle'', ''Editar defini'' @ [CHR 0xE7, CHR 0xE3] @ ''o''),
      (''definitionDetail.fieldAdded'', ''Campo adicionado.''),
      (''definitionDetail.fieldRemoved'', ''Campo removido.''),
      (''definitionDetail.fieldUpdated'', ''Campo atualizado.''),
      (''definitionDetail.fieldsDescription'', ''Defini'' @ [CHR 0xE7, CHR 0xE3] @ ''o din'' @ [CHR 0xE2] @ ''mica dos campos deste tipo de recurso.''),
      (''definitionDetail.fieldsTitle'', ''Campos''),
      (''definitionDetail.loadError'', ''N'' @ [CHR 0xE3] @ ''o foi poss'' @ [CHR 0xED] @ ''vel carregar a defini'' @ [CHR 0xE7, CHR 0xE3] @ ''o.''),
      (''definitionDetail.newField'', ''Novo campo''),
      (''definitionDetail.newFieldDescription'', ''Adicione um campo a este tipo de recurso.''),
      (''definitionDetail.notFound'', ''Defini'' @ [CHR 0xE7, CHR 0xE3] @ ''o n'' @ [CHR 0xE3] @ ''o encontrada.''),
      (''definitionDetail.open'', ''Abrir defini'' @ [CHR 0xE7, CHR 0xE3] @ ''o {name}''),
      (''definitionDetail.removeDescription'', ''A defini'' @ [CHR 0xE7, CHR 0xE3] @ ''o {name} ser'' @ [CHR 0xE1] @ '' removida. A remo'' @ [CHR 0xE7, CHR 0xE3] @ ''o n'' @ [CHR 0xE3] @ ''o '' @ [CHR 0xE9] @ '' permitida enquanto houver recursos vinculados.''),
      (''definitionDetail.removeTitle'', ''Remover defini'' @ [CHR 0xE7, CHR 0xE3] @ ''o?''),
      (''definitionDetail.removed'', ''Defini'' @ [CHR 0xE7, CHR 0xE3] @ ''o removida.''),
      (''definitionDetail.removeFieldDescription'', ''O campo {fieldKey} ser'' @ [CHR 0xE1] @ '' removido desta defini'' @ [CHR 0xE7, CHR 0xE3] @ ''o. Isso pode afetar recursos e formul'' @ [CHR 0xE1] @ ''rios que dependem dele.''),
      (''definitionDetail.removeFieldTitle'', ''Remover campo?''),
      (''definitionDetail.requiredDescription'', ''Exigido na cria'' @ [CHR 0xE7, CHR 0xE3] @ ''o do recurso.''),
      (''definitionDetail.requiredTitle'', ''Obrigat'' @ [CHR 0xF3] @ ''rio''),
      (''definitionDetail.secretDescription'', ''Criptografado com AES-256-GCM.''),
      (''definitionDetail.statusActivated'', ''Defini'' @ [CHR 0xE7, CHR 0xE3] @ ''o ativada.''),
      (''definitionDetail.statusDeactivated'', ''Defini'' @ [CHR 0xE7, CHR 0xE3] @ ''o desativada.''),
      (''definitionDetail.updated'', ''Defini'' @ [CHR 0xE7, CHR 0xE3] @ ''o atualizada.''),
      (''definitions.create'', ''Criar defini'' @ [CHR 0xE7, CHR 0xE3] @ ''o''),
      (''definitions.description'', ''Cat'' @ [CHR 0xE1] @ ''logo de tipos de recurso e seus campos.''),
      (''definitions.empty'', ''Nenhuma defini'' @ [CHR 0xE7, CHR 0xE3] @ ''o ainda.''),
      (''definitions.emptyDescription'', ''Sem descri'' @ [CHR 0xE7, CHR 0xE3] @ ''o.''),
      (''definitions.footerCounts'', ''Campos: {fieldCount} '' @ [CHR 0xB7] @ '' Segredos: {secretCount}''),
      (''definitions.new'', ''Nova defini'' @ [CHR 0xE7, CHR 0xE3] @ ''o''),
      (''definitions.newDialog.description'', ''Defina um tipo de recurso. Os campos s'' @ [CHR 0xE3] @ ''o adicionados em seguida.''),
      (''definitions.newDialog.title'', ''Nova defini'' @ [CHR 0xE7, CHR 0xE3] @ ''o''),
      (''definitions.title'', ''Defini'' @ [CHR 0xE7, CHR 0xF5] @ ''es de recurso''),
      (''errors.conflict'', ''J'' @ [CHR 0xE1] @ '' existe um registro com esse valor. Verifique se n'' @ [CHR 0xE3] @ ''o est'' @ [CHR 0xE1] @ '' duplicando.''),
      (''errors.definitionInUse'', ''Esta defini'' @ [CHR 0xE7, CHR 0xE3] @ ''o ainda possui recursos vinculados. Remova ou migre esses recursos antes de exclu'' @ [CHR 0xED] @ ''-la.''),
      (''errors.forbidden'', ''Voc'' @ [CHR 0xEA] @ '' n'' @ [CHR 0xE3] @ ''o possui permiss'' @ [CHR 0xE3] @ ''o para esta a'' @ [CHR 0xE7, CHR 0xE3] @ ''o.''),
      (''errors.generic'', ''Algo deu errado. Tente novamente.''),
      (''errors.invalidData'', ''Dados inv'' @ [CHR 0xE1] @ ''lidos. Revise os campos.''),
      (''errors.notFound'', ''Registro n'' @ [CHR 0xE3] @ ''o encontrado.''),
      (''errors.precondition'', ''Os dados mudaram em outra sess'' @ [CHR 0xE3] @ ''o. Revise e tente novamente.''),
      (''errors.server'', ''Erro no servidor. Tente novamente em instantes.''),
      (''errors.timeout'', ''A solicita'' @ [CHR 0xE7, CHR 0xE3] @ ''o demorou demais. Verifique a conex'' @ [CHR 0xE3] @ ''o e tente novamente.''),
      (''nav.apiClients'', ''Chaves de API''),
      (''nav.usage'', ''Uso mensal''),
      (''nav.audit'', ''Auditoria''),
      (''nav.sessions'', ''Sess'' @ [CHR 0xF5] @ ''es ativas''),
      (''nav.settings'', ''Configura'' @ [CHR 0xE7, CHR 0xF5] @ ''es''),
      (''nav.integrations'', ''Webhooks''),
      (''nav.health'', ''Sa'' @ [CHR 0xFA] @ ''de''),
      (''operationsHealth.component'', ''Componente''),
      (''operationsHealth.deadLetters'', ''Dead letters''),
      (''operationsHealth.deadLettersHint'', ''entregas que exigem interven'' @ [CHR 0xE7, CHR 0xE3] @ ''o''),
      (''operationsHealth.dependencies'', ''Depend'' @ [CHR 0xEA] @ ''ncias''),
      (''operationsHealth.dependenciesHint'', ''servi'' @ [CHR 0xE7] @ ''os externos monitorados''),
      (''operationsHealth.description'', ''Readiness s'' @ [CHR 0xED] @ ''ncrona, filas e evid'' @ [CHR 0xEA] @ ''ncias recentes de jobs operacionais.''),
      (''operationsHealth.freshUntil'', ''V'' @ [CHR 0xE1] @ ''lido at'' @ [CHR 0xE9]),
      (''operationsHealth.inFlight'', ''Entregas em tr'' @ [CHR 0xE2] @ ''nsito''),
      (''operationsHealth.inFlightHint'', ''pendentes ou em nova tentativa''),
      (''operationsHealth.kind'', ''Tipo''),
      (''operationsHealth.kind.backup'', ''Backup''),
      (''operationsHealth.kind.migration'', ''Migra'' @ [CHR 0xE7, CHR 0xE3] @ ''o''),
      (''operationsHealth.kind.restore'', ''Restore''),
      (''operationsHealth.kind.rewrap'', ''Rewrap''),
      (''operationsHealth.latency'', ''Lat'' @ [CHR 0xEA] @ ''ncia''),
      (''operationsHealth.noDependencies'', ''Nenhuma depend'' @ [CHR 0xEA] @ ''ncia configurada.''),
      (''operationsHealth.noReports'', ''Nenhum report operacional recebido.''),
      (''operationsHealth.occurredAt'', ''Executado em''),
      (''operationsHealth.overall'', ''Estado geral''),
      (''operationsHealth.overallHint'', ''readiness combinada das depend'' @ [CHR 0xEA] @ ''ncias''),
      (''operationsHealth.reports'', ''Reports operacionais''),
      (''operationsHealth.source'', ''Origem''),
      (''operationsHealth.status.degraded'', ''degradado''),
      (''operationsHealth.status.failed'', ''falhou''),
      (''operationsHealth.status.healthy'', ''saud'' @ [CHR 0xE1] @ ''vel''),
      (''operationsHealth.status.stale'', ''desatualizado''),
      (''operationsHealth.status.unavailable'', ''indispon'' @ [CHR 0xED] @ ''vel''),
      (''operationsHealth.title'', ''Sa'' @ [CHR 0xFA] @ ''de operacional''),
      (''integrations.attempts'', ''Tentativas''),
      (''integrations.activeTargets'', ''Destinos ativos''),
      (''integrations.created'', ''Destino criado.''),
      (''integrations.deliveries'', ''Entregas''),
      (''integrations.delivered'', ''Entregues''),
      (''integrations.deadLetters'', ''Dead letters''),
      (''integrations.description'', ''Webhooks assinados, tentativas e dead letters.''),
      (''integrations.disable'', ''Desativar''),
      (''integrations.done'', ''Conclu'' @ [CHR 0xED] @ ''do''),
      (''integrations.emptyDeliveries'', ''Nenhuma entrega encontrada.''),
      (''integrations.emptyTargets'', ''Nenhum destino configurado.''),
      (''integrations.enable'', ''Ativar''),
      (''integrations.endpoint'', ''Endpoint''),
      (''integrations.event'', ''Evento''),
      (''integrations.format'', ''Formato''),
      (''integrations.formatGeneric'', ''Gen'' @ [CHR 0xE9] @ ''rico''),
      (''integrations.inFlight'', ''Pendentes e retentativas''),
      (''integrations.name'', ''Nome''),
      (''integrations.new'', ''Novo webhook''),
      (''integrations.newDescription'', ''Cadastre um receiver HTTPS. URL completa e secret permanecem cifrados.''),
      (''integrations.openCircuits'', ''{count} circuitos abertos''),
      (''integrations.replay'', ''Reprocessar entrega''),
      (''integrations.replayed'', ''Entrega reenfileirada.''),
      (''integrations.searchDeliveries'', ''Buscar entregas'' @ [CHR 0x85]),
      (''integrations.searchTargets'', ''Buscar destinos'' @ [CHR 0x85]),
      (''integrations.secretDescription'', ''Copie agora. O secret n'' @ [CHR 0xE3] @ ''o ser'' @ [CHR 0xE1] @ '' exibido novamente.''),
      (''integrations.secretTitle'', ''Signing secret gerado''),
      (''integrations.signingSecret'', ''Signing secret''),
      (''integrations.target'', ''Destino''),
      (''integrations.targets'', ''Destinos''),
      (''integrations.title'', ''Webhooks e integra'' @ [CHR 0xE7, CHR 0xF5] @ ''es''),
      (''integrations.url'', ''URL do receiver''),
      (''usage.title'', ''Uso das chaves de API''),
      (''usage.description'', ''Volume operacional agregado por chave, opera'' @ [CHR 0xE7, CHR 0xE3] @ ''o e dia UTC.''),
      (''usage.month'', ''M'' @ [CHR 0xEA] @ ''s''),
      (''usage.prevMonth'', ''M'' @ [CHR 0xEA] @ ''s anterior'')]"

definition ptBR_3 :: "(string \<times> string) list" where
  "ptBR_3 =
     [(''usage.nextMonth'', ''Pr'' @ [CHR 0xF3] @ ''ximo m'' @ [CHR 0xEA] @ ''s''),
      (''usage.prevYear'', ''Ano anterior''),
      (''usage.nextYear'', ''Pr'' @ [CHR 0xF3] @ ''ximo ano''),
      (''usage.today'', ''Hoje''),
      (''usage.client'', ''Chave''),
      (''usage.allClients'', ''Todas as chaves''),
      (''usage.operation'', ''Opera'' @ [CHR 0xE7, CHR 0xE3] @ ''o''),
      (''usage.operationIdentify'', ''Identifica'' @ [CHR 0xE7, CHR 0xE3] @ ''o''),
      (''usage.operationResolve'', ''Resolu'' @ [CHR 0xE7, CHR 0xE3] @ ''o''),
      (''usage.allOperations'', ''Todas as opera'' @ [CHR 0xE7, CHR 0xF5] @ ''es''),
      (''usage.requests'', ''Requisi'' @ [CHR 0xE7, CHR 0xF5] @ ''es''),
      (''usage.requestsHint'', ''no per'' @ [CHR 0xED] @ ''odo e filtros selecionados''),
      (''usage.errors'', ''Erros''),
      (''usage.errorsHint'', ''respostas HTTP 4xx e 5xx''),
      (''usage.limited'', ''Limitadas''),
      (''usage.limitedHint'', ''recusadas pelo limite de requisi'' @ [CHR 0xE7, CHR 0xF5] @ ''es''),
      (''usage.daily'', ''Uso di'' @ [CHR 0xE1] @ ''rio''),
      (''usage.empty'', ''Nenhum uso registrado neste per'' @ [CHR 0xED] @ ''odo.''),
      (''audit.title'', ''Auditoria administrativa''),
      (''audit.description'', ''Trilha append-only das a'' @ [CHR 0xE7, CHR 0xF5] @ ''es administrativas e revela'' @ [CHR 0xE7, CHR 0xF5] @ ''es de segredos.''),
      (''audit.action'', ''A'' @ [CHR 0xE7, CHR 0xE3] @ ''o''),
      (''audit.target'', ''Alvo''),
      (''audit.result'', ''Resultado''),
      (''audit.allResults'', ''Todos os resultados''),
      (''audit.actorNotice'', ''Enquanto o login usa o token compartilhado, a trilha identifica a credencial administrativa, n'' @ [CHR 0xE3] @ ''o uma pessoa.''),
      (''audit.when'', ''Quando''),
      (''audit.actor'', ''Ator''),
      (''audit.request'', ''Request ID''),
      (''audit.empty'', ''Nenhum evento encontrado.''),
      (''audit.next'', ''Pr'' @ [CHR 0xF3] @ ''xima p'' @ [CHR 0xE1] @ ''gina''),
      (''audit.previous'', ''P'' @ [CHR 0xE1] @ ''gina anterior''),
      (''audit.applyFilters'', ''Aplicar filtros''),
      (''audit.export'', ''Exportar trilha''),
      (''audit.download'', ''Baixar uma vez''),
      (''audit.exportStatus'', ''Exporta'' @ [CHR 0xE7, CHR 0xE3] @ ''o: {status} '' @ [CHR 0xB7] @ '' {rows} eventos''),
      (''audit.partitionHealth'', ''Parti'' @ [CHR 0xE7, CHR 0xF5] @ ''es at'' @ [CHR 0xE9]),
      (''audit.overviewTab'', ''Vis'' @ [CHR 0xE3] @ ''o geral''),
      (''audit.eventsTab'', ''Eventos''),
      (''audit.partitionHealthHint'', ''particionamento preparado at'' @ [CHR 0xE9] @ '' esta data''),
      (''audit.defaultRows'', ''Eventos no legado''),
      (''audit.defaultRowsHint'', ''eventos ainda na parti'' @ [CHR 0xE7, CHR 0xE3] @ ''o padr'' @ [CHR 0xE3] @ ''o''),
      (''audit.legalHolds'', ''Legal holds ativos''),
      (''audit.legalHoldsHint'', ''reten'' @ [CHR 0xE7, CHR 0xF5] @ ''es que impedem o descarte''),
      (''audit.manageHolds'', ''Gerenciar legal holds''),
      (''audit.legalHoldDescription'', ''Preserve janelas sob investiga'' @ [CHR 0xE7, CHR 0xE3] @ ''o antes que a reten'' @ [CHR 0xE7, CHR 0xE3] @ ''o remova parti'' @ [CHR 0xE7, CHR 0xF5] @ ''es.''),
      (''audit.holdFrom'', ''In'' @ [CHR 0xED] @ ''cio''),
      (''audit.holdTo'', ''Fim''),
      (''audit.holdReason'', ''Motivo e refer'' @ [CHR 0xEA] @ ''ncia''),
      (''audit.createHold'', ''Criar legal hold''),
      (''audit.releaseHold'', ''Liberar''),
      (''audit.holdReleased'', ''Liberado''),
      (''audit.noHolds'', ''Nenhum legal hold registrado.''),
      (''nav.definitions'', ''Recursos''),
      (''nav.logout'', ''Sair''),
      (''nav.account'', ''Conta''),
      (''nav.management'', ''Gest'' @ [CHR 0xE3] @ ''o''),
      (''nav.operations'', ''Opera'' @ [CHR 0xE7, CHR 0xE3] @ ''o''),
      (''nav.security'', ''Seguran'' @ [CHR 0xE7] @ ''a''),
      (''nav.system'', ''Sistema''),
      (''sessions.current'', ''Atual''),
      (''sessions.description'', ''Revogue acessos individuais sem afetar a sess'' @ [CHR 0xE3] @ ''o atual.''),
      (''sessions.empty'', ''Nenhuma sess'' @ [CHR 0xE3] @ ''o encontrada.''),
      (''sessions.expires'', ''Expira em''),
      (''sessions.lastUsed'', [CHR 0xDA] @ ''ltimo uso''),
      (''sessions.principal'', ''Principal''),
      (''sessions.revoke'', ''Revogar sess'' @ [CHR 0xE3] @ ''o''),
      (''sessions.revokeDescription'', ''Revogar a sess'' @ [CHR 0xE3] @ ''o de {name}? O acesso ser'' @ [CHR 0xE1] @ '' encerrado imediatamente.''),
      (''sessions.revoked'', ''Sess'' @ [CHR 0xE3] @ ''o revogada.''),
      (''sessions.revokeTitle'', ''Revogar sess'' @ [CHR 0xE3] @ ''o''),
      (''sessions.roles'', ''Pap'' @ [CHR 0xE9] @ ''is''),
      (''sessions.search'', ''Buscar por pessoa, subject ou issuer'' @ [CHR 0x85]),
      (''sessions.status.active'', ''ativa''),
      (''sessions.status.expired'', ''expirada''),
      (''sessions.status.idle_expired'', ''inativa expirada''),
      (''sessions.status.revoked'', ''revogada''),
      (''sessions.title'', ''Sess'' @ [CHR 0xF5] @ ''es administrativas''),
      (''settings.description'', ''Pol'' @ [CHR 0xED] @ ''ticas runtime n'' @ [CHR 0xE3] @ ''o secretas, versionadas e auditadas.''),
      (''settings.field.api_client_default_rpm'', ''RPM padr'' @ [CHR 0xE3] @ ''o de novas chaves''),
      (''settings.field.api_client_default_ttl_days'', ''Validade padr'' @ [CHR 0xE3] @ ''o de novas chaves (dias)''),
      (''settings.field.audit_retention_days'', ''Reten'' @ [CHR 0xE7, CHR 0xE3] @ ''o da auditoria (dias)''),
      (''settings.field.default_locale'', ''Idioma padr'' @ [CHR 0xE3] @ ''o''),
      (''settings.field.session_absolute_hours'', ''Dura'' @ [CHR 0xE7, CHR 0xE3] @ ''o m'' @ [CHR 0xE1] @ ''xima da sess'' @ [CHR 0xE3] @ ''o (horas)''),
      (''settings.field.session_idle_minutes'', ''Inatividade m'' @ [CHR 0xE1] @ ''xima (minutos)''),
      (''settings.field.usage_retention_months'', ''Reten'' @ [CHR 0xE7, CHR 0xE3] @ ''o de uso (meses)''),
      (''settings.field.webhook_delivery_retention_days'', ''Reten'' @ [CHR 0xE7, CHR 0xE3] @ ''o de entregas webhook (dias)''),
      (''settings.field.outbox_event_retention_days'', ''Reten'' @ [CHR 0xE7, CHR 0xE3] @ ''o do change feed (dias)''),
      (''settings.hint.api_client_default_rpm'', ''Sugest'' @ [CHR 0xE3] @ ''o aplicada ao formul'' @ [CHR 0xE1] @ ''rio de cria'' @ [CHR 0xE7, CHR 0xE3] @ ''o; n'' @ [CHR 0xE3] @ ''o altera chaves existentes.''),
      (''settings.hint.api_client_default_ttl_days'', ''Sugest'' @ [CHR 0xE3] @ ''o para novas chaves; tokens existentes n'' @ [CHR 0xE3] @ ''o s'' @ [CHR 0xE3] @ ''o prorrogados.''),
      (''settings.hint.audit_retention_days'', ''Pol'' @ [CHR 0xED] @ ''tica usada pelo job de reten'' @ [CHR 0xE7, CHR 0xE3] @ ''o da trilha administrativa.''),
      (''settings.hint.default_locale'', ''Prefer'' @ [CHR 0xEA] @ ''ncia inicial quando o navegador ainda n'' @ [CHR 0xE3] @ ''o escolheu um idioma.''),
      (''settings.hint.session_absolute_hours'', ''Aplicada a novas sess'' @ [CHR 0xF5] @ ''es; nunca ultrapassada pela expira'' @ [CHR 0xE7, CHR 0xE3] @ ''o por inatividade.''),
      (''settings.hint.session_idle_minutes'', ''Reavaliada durante o uso e limitada pela dura'' @ [CHR 0xE7, CHR 0xE3] @ ''o absoluta.''),
      (''settings.hint.usage_retention_months'', ''Aplicada pelo job UTC de reten'' @ [CHR 0xE7, CHR 0xE3] @ ''o de telemetria.''),
      (''settings.hint.webhook_delivery_retention_days'', ''Remove entregas conclu'' @ [CHR 0xED] @ ''das e dead letters ap'' @ [CHR 0xF3] @ ''s a janela.''),
      (''settings.hint.outbox_event_retention_days'', ''Remove eventos sem entregas pendentes ap'' @ [CHR 0xF3] @ ''s a janela.''),
      (''settings.owner'', ''Respons'' @ [CHR 0xE1] @ ''vel: {owner}''),
      (''settings.revision'', ''Revis'' @ [CHR 0xE3] @ ''o {revision}''),
      (''settings.saved'', ''Configura'' @ [CHR 0xE7, CHR 0xF5] @ ''es salvas.''),
      (''settings.saving'', ''Salvando'' @ [CHR 0x85]),
      (''settings.section.apiClients'', ''Chaves de API''),
      (''settings.section.apiClientsDescription'', ''Defaults seguros para novas credenciais de servi'' @ [CHR 0xE7] @ ''o.''),
      (''settings.section.console'', ''Console''),
      (''settings.section.consoleDescription'', ''Prefer'' @ [CHR 0xEA] @ ''ncias iniciais da experi'' @ [CHR 0xEA] @ ''ncia administrativa.''),
      (''settings.section.retention'', ''Reten'' @ [CHR 0xE7, CHR 0xE3] @ ''o''),
      (''settings.section.retentionDescription'', ''Janelas expl'' @ [CHR 0xED] @ ''citas para telemetria e auditoria.''),
      (''settings.section.security'', ''Seguran'' @ [CHR 0xE7] @ ''a''),
      (''settings.section.securityDescription'', ''Expira'' @ [CHR 0xE7, CHR 0xE3] @ ''o e inatividade de sess'' @ [CHR 0xF5] @ ''es humanas.''),
      (''settings.title'', ''Configura'' @ [CHR 0xE7, CHR 0xF5] @ ''es operacionais''),
      (''nav.overview'', ''Vis'' @ [CHR 0xE3] @ ''o geral''),
      (''nav.tenants'', ''Tenants''),
      (''overview.activeDefinitions'', ''Defini'' @ [CHR 0xE7, CHR 0xF5] @ ''es ativas''),
      (''overview.activeTenants'', ''Tenants ativos''),
      (''overview.authRequired'', ''Autentica'' @ [CHR 0xE7, CHR 0xE3] @ ''o administrativa necess'' @ [CHR 0xE1] @ ''ria.''),
      (''overview.description'', ''Configura'' @ [CHR 0xE7, CHR 0xE3] @ ''o multi-tenant de recursos por cliente.''),
      (''overview.domainHint'', ''hostnames mapeados''),
      (''overview.domains'', ''Dom'' @ [CHR 0xED] @ ''nios''),
      (''overview.loadError'', ''N'' @ [CHR 0xE3] @ ''o foi poss'' @ [CHR 0xED] @ ''vel carregar a vis'' @ [CHR 0xE3] @ ''o geral.''),
      (''overview.loading'', ''Carregando vis'' @ [CHR 0xE3] @ ''o geral...''),
      (''overview.resourceCount'', ''{count} recursos''),
      (''overview.resourceHint'', ''inst'' @ [CHR 0xE2] @ ''ncias ativas''),
      (''overview.resources'', ''Recursos provisionados''),
      (''overview.totalTenants'', ''{count} no total''),
      (''overview.typeHint'', ''tipos de recurso''),
      (''overview.title'', ''Vis'' @ [CHR 0xE3] @ ''o geral''),
      (''overview.operationalHealth'', ''Sa'' @ [CHR 0xFA] @ ''de operacional''),
      (''overview.operationalHealthHint'', ''Postgres, Valkey e evid'' @ [CHR 0xEA] @ ''ncias operacionais''),
      (''overview.monthRequests'', ''Requisi'' @ [CHR 0xE7, CHR 0xF5] @ ''es no m'' @ [CHR 0xEA] @ ''s''),
      (''overview.monthRequestsHint'', ''todas as chaves, m'' @ [CHR 0xEA] @ ''s UTC atual''),
      (''overview.expiringKeys'', ''Chaves expirando''),
      (''overview.expiringKeysHint'', ''ativas com vencimento nos pr'' @ [CHR 0xF3] @ ''ximos 30 dias''),
      (''overview.deadLetters'', ''Dead letters''),
      (''overview.deadLettersHint'', ''entregas que exigem interven'' @ [CHR 0xE7, CHR 0xE3] @ ''o''),
      (''preferences.darkMode'', ''Ativar modo escuro'')]"

definition ptBR_4 :: "(string \<times> string) list" where
  "ptBR_4 =
     [(''preferences.language'', ''Idioma''),
      (''preferences.lightMode'', ''Ativar modo claro''),
      (''preferences.theme'', ''Tema''),
      (''preferences.theme.dark'', ''Escuro''),
      (''preferences.theme.light'', ''Claro''),
      (''preferences.theme.system'', ''Sistema''),
      (''status.active'', ''ativo''),
      (''status.inactive'', ''inativo''),
      (''status.revoked'', ''revogado''),
      (''tenantDetail.addDomain'', ''Adicionar dom'' @ [CHR 0xED] @ ''nio''),
      (''tenantDetail.addResource'', ''Adicionar recurso''),
      (''tenantDetail.addResourceDialog.description'', ''Escolha um tipo, defina um alias '' @ [CHR 0xFA] @ ''nico e use valores pr'' @ [CHR 0xF3] @ ''prios ou herde de outro recurso.''),
      (''tenantDetail.addResourceDialog.empty'', ''N'' @ [CHR 0xE3] @ ''o h'' @ [CHR 0xE1] @ '' defini'' @ [CHR 0xE7, CHR 0xF5] @ ''es de recurso ativas.''),
      (''tenantDetail.addResourceDialog.title'', ''Adicionar recurso''),
      (''tenantDetail.backToTenants'', ''Voltar para Tenants''),
      (''tenantDetail.confirmRemoveDomainDescription'', ''O hostname {hostname} deixar'' @ [CHR 0xE1] @ '' de resolver para este tenant imediatamente.''),
      (''tenantDetail.confirmRemoveDomainTitle'', ''Remover dom'' @ [CHR 0xED] @ ''nio?''),
      (''tenantDetail.confirmRemoveResourceDescription'', ''O recurso {resourceName} ser'' @ [CHR 0xE1] @ '' removido deste tenant. Aplica'' @ [CHR 0xE7, CHR 0xF5] @ ''es consumidoras podem perder essa configura'' @ [CHR 0xE7, CHR 0xE3] @ ''o.''),
      (''tenantDetail.confirmRemoveResourceTitle'', ''Remover recurso?''),
      (''tenantDetail.deactivate'', ''Desativar''),
      (''tenantDetail.duplicate'', ''Duplicar''),
      (''tenantDetail.duplicateDescription'', ''Cria uma c'' @ [CHR 0xF3] @ ''pia independente com os valores efetivos atuais. Mudan'' @ [CHR 0xE7] @ ''as futuras no original n'' @ [CHR 0xE3] @ ''o ser'' @ [CHR 0xE3] @ ''o herdadas.''),
      (''tenantDetail.duplicateHint'', ''Use um alias '' @ [CHR 0xFA] @ ''nico para identificar a nova c'' @ [CHR 0xF3] @ ''pia independente.''),
      (''tenantDetail.duplicateTitle'', ''Duplicar recurso''),
      (''tenantDetail.dangerZone.description'', ''A desativa'' @ [CHR 0xE7, CHR 0xE3] @ ''o '' @ [CHR 0xE9] @ '' revers'' @ [CHR 0xED] @ ''vel. A exclus'' @ [CHR 0xE3] @ ''o abaixo '' @ [CHR 0xE9] @ '' permanente e remove dom'' @ [CHR 0xED] @ ''nios, recursos e valores secretos.''),
      (''tenantDetail.dangerZone.title'', ''Zona de perigo''),
      (''tenantDetail.deleteAction'', ''Excluir tenant permanentemente''),
      (''tenantDetail.deleteConfirm'', ''Excluir permanentemente''),
      (''tenantDetail.deleteDescription'', ''Esta a'' @ [CHR 0xE7, CHR 0xE3] @ ''o n'' @ [CHR 0xE3] @ ''o pode ser desfeita. O tenant {slug}, seus dom'' @ [CHR 0xED] @ ''nios, recursos e valores secretos ser'' @ [CHR 0xE3] @ ''o removidos em cascata.''),
      (''tenantDetail.deleteInputLabelPrefix'', ''Digite''),
      (''tenantDetail.deleteInputLabelSuffix'', ''para confirmar''),
      (''tenantDetail.deleteInputPlaceholder'', ''slug do tenant''),
      (''tenantDetail.deleteTitle'', ''Excluir tenant permanentemente?''),
      (''tenantDetail.deleted'', ''Tenant exclu'' @ [CHR 0xED] @ ''do permanentemente.''),
      (''tenantDetail.domainAdded'', ''Dom'' @ [CHR 0xED] @ ''nio adicionado.''),
      (''tenantDetail.domainRemoved'', ''Dom'' @ [CHR 0xED] @ ''nio removido.''),
      (''tenantDetail.domainUpdated'', ''Dom'' @ [CHR 0xED] @ ''nio atualizado.''),
      (''tenantDetail.domainsDescription'', ''Hostnames que resolvem para este tenant.''),
      (''tenantDetail.domainsEmpty'', ''Nenhum dom'' @ [CHR 0xED] @ ''nio. Adicione ao menos um para resolver o tenant.''),
      (''tenantDetail.domainsSearch'', ''Buscar por hostname...''),
      (''tenantDetail.editDomainDescription'', ''Altere o hostname que resolve para este tenant.''),
      (''tenantDetail.editDomainTitle'', ''Renomear dom'' @ [CHR 0xED] @ ''nio''),
      (''tenantDetail.renameDomain'', ''Renomear''),
      (''tenantDetail.domainsTab'', ''Dom'' @ [CHR 0xED] @ ''nios''),
      (''tenantDetail.editDescription'', ''Atualize os dados do cliente.''),
      (''tenantDetail.editFieldDescription'', ''Atualize o valor de {field}. Valores secretos n'' @ [CHR 0xE3] @ ''o s'' @ [CHR 0xE3] @ ''o preenchidos no formul'' @ [CHR 0xE1] @ ''rio.''),
      (''tenantDetail.editFieldTitle'', ''Editar campo''),
      (''tenantDetail.editTitle'', ''Editar tenant''),
      (''tenantDetail.enableSecretReveal'', ''Habilitar revela'' @ [CHR 0xE7, CHR 0xE3] @ ''o de segredos''),
      (''tenantDetail.fieldsColumn'', ''Campos''),
      (''tenantDetail.fieldCount.many'', ''{count} campos''),
      (''tenantDetail.fieldCount.one'', ''{count} campo''),
      (''tenantDetail.headerDescription'', ''Identificador {slug}. Gerencie a configura'' @ [CHR 0xE7, CHR 0xE3] @ ''o, os recursos e os dom'' @ [CHR 0xED] @ ''nios deste tenant.''),
      (''tenantDetail.hideSecrets'', ''Ocultar segredos''),
      (''tenantDetail.loadError'', ''N'' @ [CHR 0xE3] @ ''o foi poss'' @ [CHR 0xED] @ ''vel carregar o tenant.''),
      (''tenantDetail.newDomainDescription'', ''Hostname exato que resolve para este tenant.''),
      (''tenantDetail.newDomainTitle'', ''Adicionar dom'' @ [CHR 0xED] @ ''nio''),
      (''tenantDetail.noResource'', ''Nenhum recurso''),
      (''tenantDetail.noResourceDescription'', ''Este tenant ainda n'' @ [CHR 0xE3] @ ''o tem recursos provisionados.''),
      (''tenantDetail.notFound'', ''Tenant n'' @ [CHR 0xE3] @ ''o encontrado.''),
      (''tenantDetail.overviewTab'', ''Vis'' @ [CHR 0xE3] @ ''o geral''),
      (''tenantDetail.reactivate'', ''Reativar''),
      (''tenantDetail.attention.description'', ''Pend'' @ [CHR 0xEA] @ ''ncias que afetam o consumo ou merecem revis'' @ [CHR 0xE3] @ ''o operacional.''),
      (''tenantDetail.attention.emptyDescription'', ''Dom'' @ [CHR 0xED] @ ''nio, estado e recursos essenciais est'' @ [CHR 0xE3] @ ''o configurados.''),
      (''tenantDetail.attention.emptyTitle'', ''Nenhuma pend'' @ [CHR 0xEA] @ ''ncia encontrada''),
      (''tenantDetail.attention.inactive_resources.description'', ''Recursos desativados n'' @ [CHR 0xE3] @ ''o s'' @ [CHR 0xE3] @ ''o retornados pela Consumer API.''),
      (''tenantDetail.attention.inactive_resources.title'', ''{count} recurso(s) inativo(s)''),
      (''tenantDetail.attention.inactive_tenant.description'', ''Um tenant inativo n'' @ [CHR 0xE3] @ ''o pode ser resolvido pelas aplica'' @ [CHR 0xE7, CHR 0xF5] @ ''es consumidoras.''),
      (''tenantDetail.attention.inactive_tenant.title'', ''Tenant inativo''),
      (''tenantDetail.attention.incomplete_resources.description'', ''Existem recursos com campos obrigat'' @ [CHR 0xF3] @ ''rios sem valor.''),
      (''tenantDetail.attention.incomplete_resources.title'', ''{count} configura'' @ [CHR 0xE7, CHR 0xE3] @ ''o('' @ [CHR 0xF5] @ ''es) incompleta(s)''),
      (''tenantDetail.attention.missing_active_resource.description'', ''Adicione ou reative um recurso para disponibilizar configura'' @ [CHR 0xE7, CHR 0xE3] @ ''o ao consumidor.''),
      (''tenantDetail.attention.missing_active_resource.title'', ''Nenhum recurso ativo''),
      (''tenantDetail.attention.missing_domain.description'', ''Sem hostname, a aplica'' @ [CHR 0xE7, CHR 0xE3] @ ''o n'' @ [CHR 0xE3] @ ''o consegue identificar este tenant por dom'' @ [CHR 0xED] @ ''nio.''),
      (''tenantDetail.attention.missing_domain.title'', ''Nenhum dom'' @ [CHR 0xED] @ ''nio cadastrado''),
      (''tenantDetail.attention.title'', ''Itens que exigem aten'' @ [CHR 0xE7, CHR 0xE3] @ ''o''),
      (''tenantDetail.readiness.attention'', ''Aten'' @ [CHR 0xE7, CHR 0xE3] @ ''o''),
      (''tenantDetail.readiness.completeHint'', ''todos os campos obrigat'' @ [CHR 0xF3] @ ''rios est'' @ [CHR 0xE3] @ ''o preenchidos''),
      (''tenantDetail.readiness.domains'', ''Dom'' @ [CHR 0xED] @ ''nios''),
      (''tenantDetail.readiness.incomplete'', ''Incompleto''),
      (''tenantDetail.readiness.incompleteHint'', ''revise os campos obrigat'' @ [CHR 0xF3] @ ''rios ausentes''),
      (''tenantDetail.readiness.incompleteResources'', ''Configura'' @ [CHR 0xE7, CHR 0xF5] @ ''es incompletas''),
      (''tenantDetail.readiness.missingDomain'', ''adicione um dom'' @ [CHR 0xED] @ ''nio''),
      (''tenantDetail.readiness.missingResource'', ''adicione um recurso ativo''),
      (''tenantDetail.readiness.ready'', ''Pronto''),
      (''tenantDetail.readiness.requirementsHint'', ''{count} de {total} requisitos essenciais atendidos''),
      (''tenantDetail.readiness.resources'', ''Recursos ativos/total''),
      (''tenantDetail.readiness.resourcesHint'', ''inst'' @ [CHR 0xE2] @ ''ncias dispon'' @ [CHR 0xED] @ ''veis para configura'' @ [CHR 0xE7, CHR 0xE3] @ ''o''),
      (''tenantDetail.readiness.title'', ''Prontid'' @ [CHR 0xE3] @ ''o para consumo''),
      (''tenantDetail.resourceAdded'', ''Recurso adicionado.''),
      (''tenantDetail.editResourceIdentityTitle'', ''Editar recurso''),
      (''tenantDetail.editResourceIdentityDescription'', ''Atualize o nome exibido e o alias '' @ [CHR 0xFA] @ ''nico usado pela Consumer API.''),
      (''tenantDetail.resourceAlias'', ''Alias''),
      (''tenantDetail.resourceAliasHint'', ''Identificador '' @ [CHR 0xFA] @ ''nico usado pela Consumer API, como postgres.agility.''),
      (''tenantDetail.resourceNameHint'', ''Nome leg'' @ [CHR 0xED] @ ''vel para identificar esta inst'' @ [CHR 0xE2] @ ''ncia no console.''),
      (''tenantDetail.resourceUpdated'', ''Nome e alias atualizados.''),
      (''tenantDetail.resourceDuplicated'', ''Recurso duplicado como c'' @ [CHR 0xF3] @ ''pia independente.''),
      (''tenantDetail.resourceFieldUpdated'', ''Campo atualizado.''),
      (''tenantDetail.resourceFieldInherited'', ''O campo voltou a herdar o valor da origem.''),
      (''tenantDetail.resourceDetailsDescription'', ''Tipo {type} '' @ [CHR 0xB7] @ '' alias {alias}. Consulte os campos e valores deste recurso.''),
      (''tenantDetail.resourceLinkedDescription'', ''Vinculado a {source}. Valores sem override acompanham a origem.''),
      (''tenantDetail.resourceOrigin'', ''Origem dos valores''),
      (''tenantDetail.resourceRemoved'', ''Recurso removido.''),
      (''tenantDetail.resourceStatusActivated'', ''Recurso reativado.''),
      (''tenantDetail.resourceStatusDeactivated'', ''Recurso desativado.''),
      (''tenantDetail.resourceType'', ''Tipo de recurso''),
      (''tenantDetail.independent'', ''Independente''),
      (''tenantDetail.independentHint'', ''Os valores pertencem apenas a este recurso.''),
      (''tenantDetail.inheritPlaceholder'', ''Deixe vazio para herdar''),
      (''tenantDetail.inherited'', ''herdado''),
      (''tenantDetail.linked'', ''Vinculado''),
      (''tenantDetail.linkedHint'', ''Campos vazios herdam a origem; valores preenchidos s'' @ [CHR 0xE3] @ ''o overrides locais.''),
      (''tenantDetail.linkTo'', ''Vincular a {alias}''),
      (''tenantDetail.resourcesTab'', ''Recursos''),
      (''tenantDetail.resourcesSearch'', ''Buscar por nome, tipo ou status...''),
      (''tenantDetail.secretsDisabled'', ''Segredos ocultados.''),
      (''tenantDetail.secretsEnabled'', ''Revela'' @ [CHR 0xE7, CHR 0xE3] @ ''o por campo habilitada.''),
      (''tenantDetail.secretsColumn'', ''Segredos''),
      (''tenantDetail.useSource'', ''Usar valor da origem''),
      (''tenantDetail.secretCount.many'', ''{count} segredos''),
      (''tenantDetail.secretCount.one'', ''{count} segredo''),
      (''tenantDetail.saveResource'', ''Salvar recurso''),
      (''tenantDetail.selectResource'', ''Selecione...''),
      (''tenantDetail.updated'', ''Tenant atualizado.''),
      (''tenants.create'', ''Criar tenant''),
      (''tenants.description'', ''Clientes e seus dom'' @ [CHR 0xED] @ ''nios.''),
      (''tenants.empty'', ''Nenhum tenant encontrado.''),
      (''tenants.new'', ''Novo tenant''),
      (''tenants.newDialog.description'', ''Cadastre um cliente. Dom'' @ [CHR 0xED] @ ''nios e recursos s'' @ [CHR 0xE3] @ ''o adicionados em seguida.''),
      (''tenants.newDialog.title'', ''Novo tenant''),
      (''tenants.search'', ''Buscar por nome ou slug...''),
      (''tenants.title'', ''Tenants'')]"

definition ptBR :: "(string \<times> string) list" where
  "ptBR = ptBR_1 @ ptBR_2 @ ptBR_3 @ ptBR_4"

definition enUS_1 :: "(string \<times> string) list" where
  "enUS_1 =
     [(''apiClients.actions'', ''Actions''),
      (''apiClients.clearSecretAccess.description'', ''These keys call /v1/resolve, which returns decrypted secrets over TLS. The token is shown only once, when it is created.''),
      (''apiClients.clearSecretAccess.title'', ''Clear secret access''),
      (''apiClients.copied'', ''Copied''),
      (''apiClients.copy'', ''Copy''),
      (''apiClients.copyFailed'', ''Could not copy. Select and copy it manually.''),
      (''apiClients.createdAt'', ''Created at''),
      (''apiClients.description'', ''Service keys for server-to-server usage.''),
      (''apiClients.done'', ''Done''),
      (''apiClients.emptyActive'', ''No active keys.''),
      (''apiClients.generateToken'', ''Generate token''),
      (''apiClients.help'', ''Help''),
      (''apiClients.filters'', ''Filters''),
      (''apiClients.helpTitle'', ''How to consume API keys''),
      (''apiClients.loading'', ''Loading API keys...''),
      (''apiClients.name'', ''Name''),
      (''apiClients.scopes'', ''Permissions''),
      (''apiClients.scopeIdentify'', ''Identify tenant''),
      (''apiClients.scopeIdentifyDescription'', ''Allows tenant identification without returning resources or secrets.''),
      (''apiClients.scopeResolve'', ''Resolve resources''),
      (''apiClients.scopeResolveDescription'', ''Allows configuration retrieval, including decrypted secret fields.''),
      (''apiClients.scopeEvents'', ''Read events''),
      (''apiClients.scopeEventsDescription'', ''Allows consuming the change feed without accessing configuration or secrets.''),
      (''apiClients.scopeTenantList'', ''List tenants''),
      (''apiClients.scopeTenantListDescription'', ''Allows enumerating tenant identities (slug, name, status) '' @ [CHR 0x97] @ '' never resources or secrets.''),
      (''apiClients.scopeResourceWrite'', ''Write values''),
      (''apiClients.scopeResourceWriteDescription'', ''Allows updating values of NON-secret fields on existing resources.''),
      (''apiClients.rpmLimit'', ''Requests per minute''),
      (''apiClients.expiration'', ''Expiration''),
      (''apiClients.expirationDays'', ''{days} days''),
      (''apiClients.lastUsed'', ''Last used''),
      (''apiClients.filterStatus'', ''Filter by status''),
      (''apiClients.allStatuses'', ''All statuses''),
      (''apiClients.filterScope'', ''Filter by permission''),
      (''apiClients.allScopes'', ''All permissions''),
      (''apiClients.expiringSoon'', ''Expires within 30 days''),
      (''apiClients.inactive'', ''Inactive for 30 days''),
      (''apiClients.rotate'', ''Rotate key''),
      (''apiClients.rotated'', ''Key rotated. Copy the new token now.''),
      (''apiClients.updated'', ''Key policy updated.''),
      (''apiClients.deleted'', ''Key removed.''),
      (''apiClients.editTitle'', ''Edit API key''),
      (''apiClients.deleteTitle'', ''Remove API key''),
      (''apiClients.deleteDescription'', ''Permanently remove revoked key {name}? Usage and audit history will be preserved.''),
      (''apiClients.new'', ''New API key''),
      (''apiClients.newDialog.description'', ''The token will be shown only once after creation.''),
      (''apiClients.newDialog.title'', ''New API key''),
      (''apiClients.reactivate'', ''Reactivate''),
      (''apiClients.revoke'', ''Revoke''),
      (''apiClients.search'', ''Search by name, date, or status...''),
      (''apiClients.resolveSnippet.copy'', ''Copy snippet''),
      (''apiClients.resolveSnippet.copied'', ''Snippet copied''),
      (''apiClients.resolveSnippet.description'', ''Use an active key to identify the tenant at the edge without touching secrets, then resolve configuration in the app by tenantId.''),
      (''apiClients.resolveSnippet.edgeDescription'', ''The edge receives only the tenant slug; no resources or secrets are returned.''),
      (''apiClients.resolveSnippet.edgeTitle'', ''1. Identify at the edge (no secrets)''),
      (''apiClients.resolveSnippet.fullDescription'', ''Returns all active resources for the tenant.''),
      (''apiClients.resolveSnippet.fullTitle'', ''Full tenant''),
      (''apiClients.resolveSnippet.resourceDescription'', ''Returns only one resource definition for the tenant.''),
      (''apiClients.resolveSnippet.resourceTitle'', ''Specific resource''),
      (''apiClients.resolveSnippet.tenantIdDescription'', ''The app resolves by the injected slug and revalidates with ETag without storing the secret body in the HTTP cache.''),
      (''apiClients.resolveSnippet.tenantIdTitle'', ''2. Resolve in the app by tenantId''),
      (''apiClients.resolveSnippet.hostnameDescription'', ''A simple alternative that resolves all resources directly by hostname and returns secrets.''),
      (''apiClients.resolveSnippet.hostnameTitle'', ''Alternative: resolve by hostname''),
      (''apiClients.resolveSnippet.title'', ''Consumer example''),
      (''apiClients.statusReactivated'', ''Key reactivated.''),
      (''apiClients.statusRevoked'', ''Key revoked.''),
      (''apiClients.title'', ''API Keys''),
      (''apiClients.token'', ''Token''),
      (''apiClients.tokenGenerated.description'', ''Copy it now; it cannot be viewed again.''),
      (''apiClients.tokenGenerated.title'', ''Generated token''),
      (''app.subtitle'', ''Admin Console''),
      (''app.title'', ''Tenancit''),
      (''auth.description'', ''Enter the Tenancit admin token.''),
      (''auth.enter'', ''Enter''),
      (''auth.hideToken'', ''Hide token''),
      (''auth.invalidToken'', ''Invalid or expired token. Enter a valid admin token.''),
      (''auth.loading'', ''Checking administrative access'' @ [CHR 0x85]),
      (''auth.oidcDescription'', ''Sign in with your corporate identity.''),
      (''auth.oidcEnter'', ''Sign in with SSO''),
      (''auth.oidcSession'', ''Corporate session''),
      (''auth.requiredAccess'', ''Enter the admin token to access the console.''),
      (''auth.requiredContinue'', ''Enter the admin token to continue.''),
      (''auth.retry'', ''Try again''),
      (''auth.sessionExpired'', ''Your session has expired. Sign in again.''),
      (''auth.showToken'', ''Show token''),
      (''auth.sharedCredential'', ''Administrative credential''),
      (''auth.sharedToken'', ''Shared token''),
      (''auth.title'', ''Administrative access''),
      (''auth.token'', ''Token''),
      (''auth.unavailable'', ''The authentication mode could not be verified.''),
      (''common.actions'', ''Actions''),
      (''common.add'', ''Add''),
      (''common.back'', ''Back''),
      (''common.cancel'', ''Cancel''),
      (''common.close'', ''Close''),
      (''common.create'', ''Create''),
      (''common.description'', ''Description''),
      (''common.dismiss'', ''Dismiss''),
      (''common.edit'', ''Edit''),
      (''common.field'', ''Field''),
      (''common.hide'', ''Hide''),
      (''common.hostname'', ''Hostname''),
      (''common.key'', ''Key''),
      (''common.label'', ''Label''),
      (''common.name'', ''Name''),
      (''common.loading'', ''Loading...''),
      (''common.remove'', ''Remove''),
      (''common.removeConfirm'', ''Remove''),
      (''common.review'', ''Review''),
      (''common.reveal'', ''Reveal''),
      (''common.save'', ''Save''),
      (''common.secret'', ''Secret''),
      (''common.slug'', ''Slug''),
      (''common.status'', ''Status''),
      (''common.type'', ''Type''),
      (''common.value'', ''Value''),
      (''validation.dateRange'', ''The end date must be later than the start date.''),
      (''validation.definitionKey'', ''Use up to 63 characters: start with a lowercase letter and use only lowercase letters, numbers, hyphens, or underscores.''),
      (''validation.boolean'', ''Use true or false.''),
      (''validation.hostname'', ''Use only DNS labels with letters, numbers, and hyphens, such as app.example.com.''),
      (''validation.integer'', ''Enter a whole number without decimal places.''),
      (''validation.tenantSlug'', ''Use up to 63 characters with lowercase letters, numbers, and single hyphens between words.''),
      (''validation.webhookURL'', ''Use an HTTPS URL without credentials or a fragment. HTTP is accepted only on localhost.''),
      (''dataTable.firstPage'', ''First page''),
      (''dataTable.item'', ''item''),
      (''dataTable.items'', ''items''),
      (''dataTable.lastPage'', ''Last page''),
      (''dataTable.nextPage'', ''Next page''),
      (''dataTable.page'', ''Page''),
      (''dataTable.pageOf'', ''of''),
      (''dataTable.previousPage'', ''Previous page''),
      (''dataTable.rowsPerPage'', ''Rows per page''),
      (''dataTable.sortAsc'', ''Sort ascending'')]"

definition enUS_2 :: "(string \<times> string) list" where
  "enUS_2 =
     [(''dataTable.sortDesc'', ''Sort descending''),
      (''dataTable.sortReset'', ''Clear sorting''),
      (''dataTable.sort'', ''Sort''),
      (''dataTable.sortBy'', ''Sort by''),
      (''dataTable.ascending'', ''Ascending''),
      (''dataTable.descending'', ''Descending''),
      (''dataTable.columns'', ''Columns''),
      (''dataTable.clearFilters'', ''Clear filters''),
      (''dataTable.resetPreferences'', ''Reset table''),
      (''dataTable.noResults'', ''No results.''),
      (''definitionDetail.activate'', ''Activate''),
      (''definitionDetail.addField'', ''Add field''),
      (''definitionDetail.back'', ''Back''),
      (''definitionDetail.dataTypeBool'', ''Boolean''),
      (''definitionDetail.dataTypeInt'', ''Integer''),
      (''definitionDetail.dataTypeString'', ''Text''),
      (''definitionDetail.deactivate'', ''Deactivate''),
      (''definitionDetail.emptyDescription'', ''No fields. Add the fields that make up this resource.''),
      (''definitionDetail.editDescription'', ''Update the name and description. The technical key {key} remains immutable.''),
      (''definitionDetail.editFieldAction'', ''Edit field {key}''),
      (''definitionDetail.editFieldDescription'', ''Update the label and requirement for {key}. To change key, type, or secret storage, create a new field and migrate the values.''),
      (''definitionDetail.editFieldTitle'', ''Edit field''),
      (''definitionDetail.editTitle'', ''Edit definition''),
      (''definitionDetail.fieldAdded'', ''Field added.''),
      (''definitionDetail.fieldRemoved'', ''Field removed.''),
      (''definitionDetail.fieldUpdated'', ''Field updated.''),
      (''definitionDetail.fieldsDescription'', ''Dynamic field definition for this resource type.''),
      (''definitionDetail.fieldsTitle'', ''Fields''),
      (''definitionDetail.loadError'', ''Could not load the definition.''),
      (''definitionDetail.newField'', ''New field''),
      (''definitionDetail.newFieldDescription'', ''Add a field to this resource type.''),
      (''definitionDetail.notFound'', ''Definition not found.''),
      (''definitionDetail.open'', ''Open definition {name}''),
      (''definitionDetail.removeDescription'', ''The {name} definition will be removed. Removal is blocked while resources are linked to it.''),
      (''definitionDetail.removeTitle'', ''Remove definition?''),
      (''definitionDetail.removed'', ''Definition removed.''),
      (''definitionDetail.removeFieldDescription'', ''The field {fieldKey} will be removed from this definition. This can affect resources and forms that depend on it.''),
      (''definitionDetail.removeFieldTitle'', ''Remove field?''),
      (''definitionDetail.requiredDescription'', ''Required when creating the resource.''),
      (''definitionDetail.requiredTitle'', ''Required''),
      (''definitionDetail.secretDescription'', ''Encrypted with AES-256-GCM.''),
      (''definitionDetail.statusActivated'', ''Definition activated.''),
      (''definitionDetail.statusDeactivated'', ''Definition deactivated.''),
      (''definitionDetail.updated'', ''Definition updated.''),
      (''definitions.create'', ''Create definition''),
      (''definitions.description'', ''Catalog of resource types and their fields.''),
      (''definitions.empty'', ''No definitions yet.''),
      (''definitions.emptyDescription'', ''No description.''),
      (''definitions.footerCounts'', ''Fields: {fieldCount} '' @ [CHR 0xB7] @ '' Secrets: {secretCount}''),
      (''definitions.new'', ''New definition''),
      (''definitions.newDialog.description'', ''Define a resource type. Fields are added next.''),
      (''definitions.newDialog.title'', ''New definition''),
      (''definitions.title'', ''Resource Definitions''),
      (''errors.conflict'', ''A record with this value already exists. Check for duplicates.''),
      (''errors.definitionInUse'', ''This definition still has linked resources. Remove or migrate those resources before deleting it.''),
      (''errors.forbidden'', ''You do not have permission for this action.''),
      (''errors.generic'', ''Something went wrong. Please try again.''),
      (''errors.invalidData'', ''Invalid data. Review the fields.''),
      (''errors.notFound'', ''Record not found.''),
      (''errors.precondition'', ''The data changed in another session. Review it and try again.''),
      (''errors.server'', ''Server error. Please try again shortly.''),
      (''errors.timeout'', ''The request took too long. Check the connection and try again.''),
      (''nav.apiClients'', ''API Keys''),
      (''nav.usage'', ''Monthly usage''),
      (''nav.audit'', ''Audit''),
      (''nav.sessions'', ''Active sessions''),
      (''nav.settings'', ''Settings''),
      (''nav.integrations'', ''Webhooks''),
      (''nav.health'', ''Health''),
      (''operationsHealth.component'', ''Component''),
      (''operationsHealth.deadLetters'', ''Dead letters''),
      (''operationsHealth.deadLettersHint'', ''deliveries requiring intervention''),
      (''operationsHealth.dependencies'', ''Dependencies''),
      (''operationsHealth.dependenciesHint'', ''monitored external services''),
      (''operationsHealth.description'', ''Synchronous readiness, queues, and recent evidence from operational jobs.''),
      (''operationsHealth.freshUntil'', ''Fresh until''),
      (''operationsHealth.inFlight'', ''Deliveries in flight''),
      (''operationsHealth.inFlightHint'', ''pending or waiting for another attempt''),
      (''operationsHealth.kind'', ''Kind''),
      (''operationsHealth.kind.backup'', ''Backup''),
      (''operationsHealth.kind.migration'', ''Migration''),
      (''operationsHealth.kind.restore'', ''Restore''),
      (''operationsHealth.kind.rewrap'', ''Rewrap''),
      (''operationsHealth.latency'', ''Latency''),
      (''operationsHealth.noDependencies'', ''No dependencies configured.''),
      (''operationsHealth.noReports'', ''No operational reports received.''),
      (''operationsHealth.occurredAt'', ''Occurred at''),
      (''operationsHealth.overall'', ''Overall status''),
      (''operationsHealth.overallHint'', ''combined readiness of dependencies''),
      (''operationsHealth.reports'', ''Operational reports''),
      (''operationsHealth.source'', ''Source''),
      (''operationsHealth.status.degraded'', ''degraded''),
      (''operationsHealth.status.failed'', ''failed''),
      (''operationsHealth.status.healthy'', ''healthy''),
      (''operationsHealth.status.stale'', ''stale''),
      (''operationsHealth.status.unavailable'', ''unavailable''),
      (''operationsHealth.title'', ''Operational health''),
      (''integrations.attempts'', ''Attempts''),
      (''integrations.activeTargets'', ''Active targets''),
      (''integrations.created'', ''Target created.''),
      (''integrations.deliveries'', ''Deliveries''),
      (''integrations.delivered'', ''Delivered''),
      (''integrations.deadLetters'', ''Dead letters''),
      (''integrations.description'', ''Signed webhooks, retries, and dead letters.''),
      (''integrations.disable'', ''Disable''),
      (''integrations.done'', ''Done''),
      (''integrations.emptyDeliveries'', ''No deliveries found.''),
      (''integrations.emptyTargets'', ''No targets configured.''),
      (''integrations.enable'', ''Enable''),
      (''integrations.endpoint'', ''Endpoint''),
      (''integrations.event'', ''Event''),
      (''integrations.format'', ''Format''),
      (''integrations.formatGeneric'', ''Generic''),
      (''integrations.inFlight'', ''Pending and retries''),
      (''integrations.name'', ''Name''),
      (''integrations.new'', ''New webhook''),
      (''integrations.newDescription'', ''Register an HTTPS receiver. The full URL and secret remain encrypted.''),
      (''integrations.openCircuits'', ''{count} open circuits''),
      (''integrations.replay'', ''Replay delivery''),
      (''integrations.replayed'', ''Delivery queued again.''),
      (''integrations.searchDeliveries'', ''Search deliveries'' @ [CHR 0x85]),
      (''integrations.searchTargets'', ''Search targets'' @ [CHR 0x85]),
      (''integrations.secretDescription'', ''Copy it now. The secret will not be shown again.''),
      (''integrations.secretTitle'', ''Signing secret generated''),
      (''integrations.signingSecret'', ''Signing secret''),
      (''integrations.target'', ''Target''),
      (''integrations.targets'', ''Targets''),
      (''integrations.title'', ''Webhooks and integrations''),
      (''integrations.url'', ''Receiver URL''),
      (''usage.title'', ''API key usage''),
      (''usage.description'', ''Operational volume aggregated by key, operation, and UTC day.''),
      (''usage.month'', ''Month''),
      (''usage.prevMonth'', ''Previous month'')]"

definition enUS_3 :: "(string \<times> string) list" where
  "enUS_3 =
     [(''usage.nextMonth'', ''Next month''),
      (''usage.prevYear'', ''Previous year''),
      (''usage.nextYear'', ''Next year''),
      (''usage.today'', ''Today''),
      (''usage.client'', ''Key''),
      (''usage.allClients'', ''All keys''),
      (''usage.operation'', ''Operation''),
      (''usage.operationIdentify'', ''Identify''),
      (''usage.operationResolve'', ''Resolve''),
      (''usage.allOperations'', ''All operations''),
      (''usage.requests'', ''Requests''),
      (''usage.requestsHint'', ''in the selected period and filters''),
      (''usage.errors'', ''Errors''),
      (''usage.errorsHint'', ''HTTP 4xx and 5xx responses''),
      (''usage.limited'', ''Rate limited''),
      (''usage.limitedHint'', ''rejected by the request limit''),
      (''usage.daily'', ''Daily usage''),
      (''usage.empty'', ''No usage recorded in this period.''),
      (''audit.title'', ''Administrative audit''),
      (''audit.description'', ''Append-only trail of administrative actions and secret reveals.''),
      (''audit.action'', ''Action''),
      (''audit.target'', ''Target''),
      (''audit.result'', ''Result''),
      (''audit.allResults'', ''All results''),
      (''audit.actorNotice'', ''While sign-in uses the shared token, the trail identifies the administrative credential, not a person.''),
      (''audit.when'', ''When''),
      (''audit.actor'', ''Actor''),
      (''audit.request'', ''Request ID''),
      (''audit.empty'', ''No events found.''),
      (''audit.next'', ''Next page''),
      (''audit.previous'', ''Previous page''),
      (''audit.applyFilters'', ''Apply filters''),
      (''audit.export'', ''Export trail''),
      (''audit.download'', ''Download once''),
      (''audit.exportStatus'', ''Export: {status} '' @ [CHR 0xB7] @ '' {rows} events''),
      (''audit.partitionHealth'', ''Partitions through''),
      (''audit.overviewTab'', ''Overview''),
      (''audit.eventsTab'', ''Events''),
      (''audit.partitionHealthHint'', ''partitioning prepared through this date''),
      (''audit.defaultRows'', ''Legacy events''),
      (''audit.defaultRowsHint'', ''events still in the default partition''),
      (''audit.legalHolds'', ''Active legal holds''),
      (''audit.legalHoldsHint'', ''retention holds preventing disposal''),
      (''audit.manageHolds'', ''Manage legal holds''),
      (''audit.legalHoldDescription'', ''Preserve investigation windows before retention removes partitions.''),
      (''audit.holdFrom'', ''Start''),
      (''audit.holdTo'', ''End''),
      (''audit.holdReason'', ''Reason and reference''),
      (''audit.createHold'', ''Create legal hold''),
      (''audit.releaseHold'', ''Release''),
      (''audit.holdReleased'', ''Released''),
      (''audit.noHolds'', ''No legal holds recorded.''),
      (''nav.definitions'', ''Resources''),
      (''nav.logout'', ''Log out''),
      (''nav.account'', ''Account''),
      (''nav.management'', ''Management''),
      (''nav.operations'', ''Operations''),
      (''nav.security'', ''Security''),
      (''nav.system'', ''System''),
      (''sessions.current'', ''Current''),
      (''sessions.description'', ''Revoke individual access without affecting the current session.''),
      (''sessions.empty'', ''No sessions found.''),
      (''sessions.expires'', ''Expires''),
      (''sessions.lastUsed'', ''Last used''),
      (''sessions.principal'', ''Principal''),
      (''sessions.revoke'', ''Revoke session''),
      (''sessions.revokeDescription'', ''Revoke the session for {name}? Access will end immediately.''),
      (''sessions.revoked'', ''Session revoked.''),
      (''sessions.revokeTitle'', ''Revoke session''),
      (''sessions.roles'', ''Roles''),
      (''sessions.search'', ''Search by person, subject, or issuer'' @ [CHR 0x85]),
      (''sessions.status.active'', ''active''),
      (''sessions.status.expired'', ''expired''),
      (''sessions.status.idle_expired'', ''idle expired''),
      (''sessions.status.revoked'', ''revoked''),
      (''sessions.title'', ''Administrative sessions''),
      (''settings.description'', ''Versioned and audited non-secret runtime policies.''),
      (''settings.field.api_client_default_rpm'', ''Default RPM for new keys''),
      (''settings.field.api_client_default_ttl_days'', ''Default lifetime for new keys (days)''),
      (''settings.field.audit_retention_days'', ''Audit retention (days)''),
      (''settings.field.default_locale'', ''Default language''),
      (''settings.field.session_absolute_hours'', ''Maximum session duration (hours)''),
      (''settings.field.session_idle_minutes'', ''Maximum inactivity (minutes)''),
      (''settings.field.usage_retention_months'', ''Usage retention (months)''),
      (''settings.field.webhook_delivery_retention_days'', ''Webhook delivery retention (days)''),
      (''settings.field.outbox_event_retention_days'', ''Change feed retention (days)''),
      (''settings.hint.api_client_default_rpm'', ''Suggested by the create form; existing keys are unchanged.''),
      (''settings.hint.api_client_default_ttl_days'', ''Suggested for new keys; existing tokens are not extended.''),
      (''settings.hint.audit_retention_days'', ''Policy used by the administrative audit retention job.''),
      (''settings.hint.default_locale'', ''Initial preference when the browser has not selected a language.''),
      (''settings.hint.session_absolute_hours'', ''Applied to new sessions and never exceeded by idle expiry.''),
      (''settings.hint.session_idle_minutes'', ''Re-evaluated during use and capped by absolute duration.''),
      (''settings.hint.usage_retention_months'', ''Applied by the UTC telemetry retention job.''),
      (''settings.hint.webhook_delivery_retention_days'', ''Removes completed deliveries and dead letters after the window.''),
      (''settings.hint.outbox_event_retention_days'', ''Removes events without pending deliveries after the window.''),
      (''settings.owner'', ''Owner: {owner}''),
      (''settings.revision'', ''Revision {revision}''),
      (''settings.saved'', ''Settings saved.''),
      (''settings.saving'', ''Saving'' @ [CHR 0x85]),
      (''settings.section.apiClients'', ''API keys''),
      (''settings.section.apiClientsDescription'', ''Safe defaults for new service credentials.''),
      (''settings.section.console'', ''Console''),
      (''settings.section.consoleDescription'', ''Initial preferences for the administrative experience.''),
      (''settings.section.retention'', ''Retention''),
      (''settings.section.retentionDescription'', ''Explicit windows for telemetry and auditing.''),
      (''settings.section.security'', ''Security''),
      (''settings.section.securityDescription'', ''Human session expiration and inactivity.''),
      (''settings.title'', ''Operational settings''),
      (''nav.overview'', ''Overview''),
      (''nav.tenants'', ''Tenants''),
      (''overview.activeDefinitions'', ''Active definitions''),
      (''overview.activeTenants'', ''Active tenants''),
      (''overview.authRequired'', ''Administrative authentication is required.''),
      (''overview.description'', ''Multi-tenant resource configuration by client.''),
      (''overview.domainHint'', ''mapped hostnames''),
      (''overview.domains'', ''Domains''),
      (''overview.loadError'', ''Could not load the overview.''),
      (''overview.loading'', ''Loading overview...''),
      (''overview.resourceCount'', ''{count} resources''),
      (''overview.resourceHint'', ''active instances''),
      (''overview.resources'', ''Provisioned resources''),
      (''overview.totalTenants'', ''{count} total''),
      (''overview.typeHint'', ''resource types''),
      (''overview.title'', ''Overview''),
      (''overview.operationalHealth'', ''Operational health''),
      (''overview.operationalHealthHint'', ''Postgres, Valkey, and operational evidence''),
      (''overview.monthRequests'', ''Requests this month''),
      (''overview.monthRequestsHint'', ''all keys, current UTC month''),
      (''overview.expiringKeys'', ''Expiring keys''),
      (''overview.expiringKeysHint'', ''active keys expiring in the next 30 days''),
      (''overview.deadLetters'', ''Dead letters''),
      (''overview.deadLettersHint'', ''deliveries requiring intervention''),
      (''preferences.darkMode'', ''Turn on dark mode'')]"

definition enUS_4 :: "(string \<times> string) list" where
  "enUS_4 =
     [(''preferences.language'', ''Language''),
      (''preferences.lightMode'', ''Turn on light mode''),
      (''preferences.theme'', ''Theme''),
      (''preferences.theme.dark'', ''Dark''),
      (''preferences.theme.light'', ''Light''),
      (''preferences.theme.system'', ''System''),
      (''status.active'', ''active''),
      (''status.inactive'', ''inactive''),
      (''status.revoked'', ''revoked''),
      (''tenantDetail.addDomain'', ''Add domain''),
      (''tenantDetail.addResource'', ''Add resource''),
      (''tenantDetail.addResourceDialog.description'', ''Choose a type, define a unique alias, and use local values or inherit from another resource.''),
      (''tenantDetail.addResourceDialog.empty'', ''There are no active resource definitions.''),
      (''tenantDetail.addResourceDialog.title'', ''Add resource''),
      (''tenantDetail.backToTenants'', ''Back to Tenants''),
      (''tenantDetail.confirmRemoveDomainDescription'', ''The hostname {hostname} will stop resolving to this tenant immediately.''),
      (''tenantDetail.confirmRemoveDomainTitle'', ''Remove domain?''),
      (''tenantDetail.confirmRemoveResourceDescription'', ''The resource {resourceName} will be removed from this tenant. Consumer applications can lose this configuration.''),
      (''tenantDetail.confirmRemoveResourceTitle'', ''Remove resource?''),
      (''tenantDetail.deactivate'', ''Deactivate''),
      (''tenantDetail.duplicate'', ''Duplicate''),
      (''tenantDetail.duplicateDescription'', ''Creates an independent copy with the current effective values. Future source changes will not be inherited.''),
      (''tenantDetail.duplicateHint'', ''Use a unique alias for the new independent copy.''),
      (''tenantDetail.duplicateTitle'', ''Duplicate resource''),
      (''tenantDetail.dangerZone.description'', ''Deactivation is reversible. The deletion below is permanent and removes domains, resources, and secret values.''),
      (''tenantDetail.dangerZone.title'', ''Danger zone''),
      (''tenantDetail.deleteAction'', ''Delete tenant permanently''),
      (''tenantDetail.deleteConfirm'', ''Delete permanently''),
      (''tenantDetail.deleteDescription'', ''This action cannot be undone. Tenant {slug}, its domains, resources, and secret values will be removed by cascade.''),
      (''tenantDetail.deleteInputLabelPrefix'', ''Type''),
      (''tenantDetail.deleteInputLabelSuffix'', ''to confirm''),
      (''tenantDetail.deleteInputPlaceholder'', ''tenant slug''),
      (''tenantDetail.deleteTitle'', ''Delete tenant permanently?''),
      (''tenantDetail.deleted'', ''Tenant permanently deleted.''),
      (''tenantDetail.domainAdded'', ''Domain added.''),
      (''tenantDetail.domainRemoved'', ''Domain removed.''),
      (''tenantDetail.domainUpdated'', ''Domain updated.''),
      (''tenantDetail.domainsDescription'', ''Hostnames that resolve to this tenant.''),
      (''tenantDetail.domainsEmpty'', ''No domains. Add at least one to resolve the tenant.''),
      (''tenantDetail.domainsSearch'', ''Search by hostname...''),
      (''tenantDetail.editDomainDescription'', ''Change the hostname that resolves to this tenant.''),
      (''tenantDetail.editDomainTitle'', ''Rename domain''),
      (''tenantDetail.renameDomain'', ''Rename''),
      (''tenantDetail.domainsTab'', ''Domains''),
      (''tenantDetail.editDescription'', ''Update the client data.''),
      (''tenantDetail.editFieldDescription'', ''Update the value of {field}. Secret values are never prefilled in the form.''),
      (''tenantDetail.editFieldTitle'', ''Edit field''),
      (''tenantDetail.editTitle'', ''Edit tenant''),
      (''tenantDetail.enableSecretReveal'', ''Enable secret reveal''),
      (''tenantDetail.fieldsColumn'', ''Fields''),
      (''tenantDetail.fieldCount.many'', ''{count} fields''),
      (''tenantDetail.fieldCount.one'', ''{count} field''),
      (''tenantDetail.headerDescription'', ''Identifier {slug}. Manage this tenant'' @ [CHR 0x27] @ ''s configuration, resources, and domains.''),
      (''tenantDetail.hideSecrets'', ''Hide secrets''),
      (''tenantDetail.loadError'', ''Could not load the tenant.''),
      (''tenantDetail.newDomainDescription'', ''Exact hostname that resolves to this tenant.''),
      (''tenantDetail.newDomainTitle'', ''Add domain''),
      (''tenantDetail.noResource'', ''No resources''),
      (''tenantDetail.noResourceDescription'', ''This tenant does not have provisioned resources yet.''),
      (''tenantDetail.notFound'', ''Tenant not found.''),
      (''tenantDetail.overviewTab'', ''Overview''),
      (''tenantDetail.reactivate'', ''Reactivate''),
      (''tenantDetail.attention.description'', ''Issues that affect consumption or deserve operational review.''),
      (''tenantDetail.attention.emptyDescription'', ''Domain, status, and essential resources are configured.''),
      (''tenantDetail.attention.emptyTitle'', ''No issues found''),
      (''tenantDetail.attention.inactive_resources.description'', ''Inactive resources are not returned by the Consumer API.''),
      (''tenantDetail.attention.inactive_resources.title'', ''{count} inactive resource(s)''),
      (''tenantDetail.attention.inactive_tenant.description'', ''An inactive tenant cannot be resolved by consuming applications.''),
      (''tenantDetail.attention.inactive_tenant.title'', ''Inactive tenant''),
      (''tenantDetail.attention.incomplete_resources.description'', ''Some resources have required fields without a value.''),
      (''tenantDetail.attention.incomplete_resources.title'', ''{count} incomplete configuration(s)''),
      (''tenantDetail.attention.missing_active_resource.description'', ''Add or reactivate a resource to make configuration available to consumers.''),
      (''tenantDetail.attention.missing_active_resource.title'', ''No active resources''),
      (''tenantDetail.attention.missing_domain.description'', ''Without a hostname, applications cannot identify this tenant by domain.''),
      (''tenantDetail.attention.missing_domain.title'', ''No registered domains''),
      (''tenantDetail.attention.title'', ''Items requiring attention''),
      (''tenantDetail.readiness.attention'', ''Attention''),
      (''tenantDetail.readiness.completeHint'', ''all required fields are filled''),
      (''tenantDetail.readiness.domains'', ''Domains''),
      (''tenantDetail.readiness.incomplete'', ''Incomplete''),
      (''tenantDetail.readiness.incompleteHint'', ''review missing required fields''),
      (''tenantDetail.readiness.incompleteResources'', ''Incomplete configurations''),
      (''tenantDetail.readiness.missingDomain'', ''add a domain''),
      (''tenantDetail.readiness.missingResource'', ''add an active resource''),
      (''tenantDetail.readiness.ready'', ''Ready''),
      (''tenantDetail.readiness.requirementsHint'', ''{count} of {total} essential requirements met''),
      (''tenantDetail.readiness.resources'', ''Active/total resources''),
      (''tenantDetail.readiness.resourcesHint'', ''instances available for configuration''),
      (''tenantDetail.readiness.title'', ''Consumption readiness''),
      (''tenantDetail.resourceAdded'', ''Resource added.''),
      (''tenantDetail.editResourceIdentityTitle'', ''Edit resource''),
      (''tenantDetail.editResourceIdentityDescription'', ''Update the display name and the unique alias used by the Consumer API.''),
      (''tenantDetail.resourceAlias'', ''Alias''),
      (''tenantDetail.resourceAliasHint'', ''Unique identifier used by the Consumer API, such as postgres.agility.''),
      (''tenantDetail.resourceNameHint'', ''Readable name used to identify this instance in the console.''),
      (''tenantDetail.resourceUpdated'', ''Name and alias updated.''),
      (''tenantDetail.resourceDuplicated'', ''Resource duplicated as an independent copy.''),
      (''tenantDetail.resourceFieldUpdated'', ''Field updated.''),
      (''tenantDetail.resourceFieldInherited'', ''The field now inherits from the source again.''),
      (''tenantDetail.resourceDetailsDescription'', ''Type {type} '' @ [CHR 0xB7] @ '' alias {alias}. Review this resource'' @ [CHR 0x27] @ ''s fields and values.''),
      (''tenantDetail.resourceLinkedDescription'', ''Linked to {source}. Values without an override follow the source.''),
      (''tenantDetail.resourceOrigin'', ''Value source''),
      (''tenantDetail.resourceRemoved'', ''Resource removed.''),
      (''tenantDetail.resourceStatusActivated'', ''Resource reactivated.''),
      (''tenantDetail.resourceStatusDeactivated'', ''Resource deactivated.''),
      (''tenantDetail.resourceType'', ''Resource type''),
      (''tenantDetail.independent'', ''Independent''),
      (''tenantDetail.independentHint'', ''Values belong only to this resource.''),
      (''tenantDetail.inheritPlaceholder'', ''Leave empty to inherit''),
      (''tenantDetail.inherited'', ''inherited''),
      (''tenantDetail.linked'', ''Linked''),
      (''tenantDetail.linkedHint'', ''Empty fields inherit the source; filled values are local overrides.''),
      (''tenantDetail.linkTo'', ''Link to {alias}''),
      (''tenantDetail.resourcesTab'', ''Resources''),
      (''tenantDetail.resourcesSearch'', ''Search by name, type, or status...''),
      (''tenantDetail.secretsDisabled'', ''Secrets hidden.''),
      (''tenantDetail.secretsEnabled'', ''Field-level reveal enabled.''),
      (''tenantDetail.secretsColumn'', ''Secrets''),
      (''tenantDetail.useSource'', ''Use source value''),
      (''tenantDetail.secretCount.many'', ''{count} secrets''),
      (''tenantDetail.secretCount.one'', ''{count} secret''),
      (''tenantDetail.saveResource'', ''Save resource''),
      (''tenantDetail.selectResource'', ''Select...''),
      (''tenantDetail.updated'', ''Tenant updated.''),
      (''tenants.create'', ''Create tenant''),
      (''tenants.description'', ''Clients and their domains.''),
      (''tenants.empty'', ''No tenants found.''),
      (''tenants.new'', ''New tenant''),
      (''tenants.newDialog.description'', ''Register a client. Domains and resources are added next.''),
      (''tenants.newDialog.title'', ''New tenant''),
      (''tenants.search'', ''Search by name or slug...''),
      (''tenants.title'', ''Tenants'')]"

definition enUS :: "(string \<times> string) list" where
  "enUS = enUS_1 @ enUS_2 @ enUS_3 @ enUS_4"

definition esES_1 :: "(string \<times> string) list" where
  "esES_1 =
     [(''apiClients.actions'', ''Acciones''),
      (''apiClients.clearSecretAccess.description'', ''Estas claves llaman a /v1/resolve, que devuelve secretos descifrados sobre TLS. El token solo se muestra una vez, al crearlo.''),
      (''apiClients.clearSecretAccess.title'', ''Acceso a secretos en claro''),
      (''apiClients.copied'', ''Copiado''),
      (''apiClients.copy'', ''Copiar''),
      (''apiClients.copyFailed'', ''No se pudo copiar. Selecci'' @ [CHR 0xF3] @ ''nalo y c'' @ [CHR 0xF3] @ ''pialo manualmente.''),
      (''apiClients.createdAt'', ''Creado el''),
      (''apiClients.description'', ''Claves de servicio para consumo server-to-server.''),
      (''apiClients.done'', ''Finalizar''),
      (''apiClients.emptyActive'', ''Ninguna clave activa.''),
      (''apiClients.generateToken'', ''Generar token''),
      (''apiClients.help'', ''Ayuda''),
      (''apiClients.filters'', ''Filtros''),
      (''apiClients.helpTitle'', ''C'' @ [CHR 0xF3] @ ''mo consumir claves de API''),
      (''apiClients.loading'', ''Cargando claves de API...''),
      (''apiClients.name'', ''Nombre''),
      (''apiClients.scopes'', ''Permisos''),
      (''apiClients.scopeIdentify'', ''Identificar tenant''),
      (''apiClients.scopeIdentifyDescription'', ''Permite identificar el tenant sin devolver recursos ni secretos.''),
      (''apiClients.scopeResolve'', ''Resolver recursos''),
      (''apiClients.scopeResolveDescription'', ''Permite obtener configuraciones, incluidos campos secretos descifrados.''),
      (''apiClients.scopeEvents'', ''Leer eventos''),
      (''apiClients.scopeEventsDescription'', ''Permite consumir el change feed sin acceder a configuraciones ni secretos.''),
      (''apiClients.scopeTenantList'', ''Listar tenants''),
      (''apiClients.scopeTenantListDescription'', ''Permite enumerar identidades de tenants (slug, nombre, estado) '' @ [CHR 0x97] @ '' nunca recursos ni secretos.''),
      (''apiClients.scopeResourceWrite'', ''Escribir valores''),
      (''apiClients.scopeResourceWriteDescription'', ''Permite actualizar valores de campos NO secretos en resources existentes.''),
      (''apiClients.rpmLimit'', ''L'' @ [CHR 0xED] @ ''mite por minuto''),
      (''apiClients.expiration'', ''Expiraci'' @ [CHR 0xF3] @ ''n''),
      (''apiClients.expirationDays'', ''{days} d'' @ [CHR 0xED] @ ''as''),
      (''apiClients.lastUsed'', [CHR 0xDA] @ ''ltimo uso''),
      (''apiClients.filterStatus'', ''Filtrar por estado''),
      (''apiClients.allStatuses'', ''Todos los estados''),
      (''apiClients.filterScope'', ''Filtrar por permiso''),
      (''apiClients.allScopes'', ''Todos los permisos''),
      (''apiClients.expiringSoon'', ''Expira en 30 d'' @ [CHR 0xED] @ ''as''),
      (''apiClients.inactive'', ''Inactiva durante 30 d'' @ [CHR 0xED] @ ''as''),
      (''apiClients.rotate'', ''Rotar clave''),
      (''apiClients.rotated'', ''Clave rotada. Copia el nuevo token ahora.''),
      (''apiClients.updated'', ''Pol'' @ [CHR 0xED] @ ''tica de la clave actualizada.''),
      (''apiClients.deleted'', ''Clave eliminada.''),
      (''apiClients.editTitle'', ''Editar clave de API''),
      (''apiClients.deleteTitle'', ''Eliminar clave de API''),
      (''apiClients.deleteDescription'', [CHR 0xBF] @ ''Eliminar permanentemente la clave revocada {name}? Se conservar'' @ [CHR 0xE1] @ ''n el uso y la auditor'' @ [CHR 0xED] @ ''a.''),
      (''apiClients.new'', ''Nueva clave''),
      (''apiClients.newDialog.description'', ''El token se mostrar'' @ [CHR 0xE1] @ '' una sola vez despu'' @ [CHR 0xE9] @ ''s de la creaci'' @ [CHR 0xF3] @ ''n.''),
      (''apiClients.newDialog.title'', ''Nueva clave de API''),
      (''apiClients.reactivate'', ''Reactivar''),
      (''apiClients.revoke'', ''Revocar''),
      (''apiClients.search'', ''Buscar por nombre, fecha o estado...''),
      (''apiClients.resolveSnippet.copy'', ''Copiar snippet''),
      (''apiClients.resolveSnippet.copied'', ''Snippet copiado''),
      (''apiClients.resolveSnippet.description'', ''Usa una clave activa para identificar el tenant en el borde sin tocar secretos y resuelve la configuraci'' @ [CHR 0xF3] @ ''n en la app por tenantId.''),
      (''apiClients.resolveSnippet.edgeDescription'', ''El borde recibe solo el slug del tenant; no devuelve recursos ni secretos.''),
      (''apiClients.resolveSnippet.edgeTitle'', ''1. Identificar en el borde (sin secretos)''),
      (''apiClients.resolveSnippet.fullDescription'', ''Devuelve todos los recursos activos del tenant.''),
      (''apiClients.resolveSnippet.fullTitle'', ''Tenant completo''),
      (''apiClients.resolveSnippet.resourceDescription'', ''Devuelve solo una definici'' @ [CHR 0xF3] @ ''n de recurso del tenant.''),
      (''apiClients.resolveSnippet.resourceTitle'', ''Recurso espec'' @ [CHR 0xED] @ ''fico''),
      (''apiClients.resolveSnippet.tenantIdDescription'', ''La app resuelve por el slug inyectado y revalida con ETag sin guardar el cuerpo secreto en la cach'' @ [CHR 0xE9] @ '' HTTP.''),
      (''apiClients.resolveSnippet.tenantIdTitle'', ''2. Resolver en la app por tenantId''),
      (''apiClients.resolveSnippet.hostnameDescription'', ''Alternativa simple que resuelve todos los recursos directamente por hostname y devuelve secretos.''),
      (''apiClients.resolveSnippet.hostnameTitle'', ''Alternativa: resolver por hostname''),
      (''apiClients.resolveSnippet.title'', ''Ejemplo de consumo''),
      (''apiClients.statusReactivated'', ''Clave reactivada.''),
      (''apiClients.statusRevoked'', ''Clave revocada.''),
      (''apiClients.title'', ''Claves de API''),
      (''apiClients.token'', ''Token''),
      (''apiClients.tokenGenerated.description'', ''C'' @ [CHR 0xF3] @ ''pialo ahora; no podr'' @ [CHR 0xE1] @ ''s verlo nuevamente.''),
      (''apiClients.tokenGenerated.title'', ''Token generado''),
      (''app.subtitle'', ''Consola admin''),
      (''app.title'', ''Tenancit''),
      (''auth.description'', ''Informa el token administrativo de Tenancit.''),
      (''auth.enter'', ''Entrar''),
      (''auth.hideToken'', ''Ocultar token''),
      (''auth.invalidToken'', ''Token inv'' @ [CHR 0xE1] @ ''lido o vencido. Informa un token administrativo v'' @ [CHR 0xE1] @ ''lido.''),
      (''auth.loading'', ''Verificando el acceso administrativo'' @ [CHR 0x85]),
      (''auth.oidcDescription'', ''Inicia sesi'' @ [CHR 0xF3] @ ''n con tu identidad corporativa.''),
      (''auth.oidcEnter'', ''Entrar con SSO''),
      (''auth.oidcSession'', ''Sesi'' @ [CHR 0xF3] @ ''n corporativa''),
      (''auth.requiredAccess'', ''Informa el token administrativo para acceder al panel.''),
      (''auth.requiredContinue'', ''Informa el token administrativo para continuar.''),
      (''auth.retry'', ''Intentar de nuevo''),
      (''auth.sessionExpired'', ''Tu sesi'' @ [CHR 0xF3] @ ''n ha vencido. Inicia sesi'' @ [CHR 0xF3] @ ''n nuevamente.''),
      (''auth.showToken'', ''Mostrar token''),
      (''auth.sharedCredential'', ''Credencial administrativa''),
      (''auth.sharedToken'', ''Token compartido''),
      (''auth.title'', ''Acceso administrativo''),
      (''auth.token'', ''Token''),
      (''auth.unavailable'', ''No se pudo verificar el modo de autenticaci'' @ [CHR 0xF3] @ ''n.''),
      (''common.actions'', ''Acciones''),
      (''common.add'', ''Agregar''),
      (''common.back'', ''Volver''),
      (''common.cancel'', ''Cancelar''),
      (''common.close'', ''Cerrar''),
      (''common.create'', ''Crear''),
      (''common.description'', ''Descripci'' @ [CHR 0xF3] @ ''n''),
      (''common.dismiss'', ''Descartar''),
      (''common.edit'', ''Editar''),
      (''common.field'', ''Campo''),
      (''common.hide'', ''Ocultar''),
      (''common.hostname'', ''Hostname''),
      (''common.key'', ''Key''),
      (''common.label'', ''Label''),
      (''common.name'', ''Nombre''),
      (''common.loading'', ''Cargando...''),
      (''common.remove'', ''Eliminar''),
      (''common.removeConfirm'', ''Eliminar''),
      (''common.review'', ''Revisar''),
      (''common.reveal'', ''Revelar''),
      (''common.save'', ''Guardar''),
      (''common.secret'', ''Secreto''),
      (''common.slug'', ''Slug''),
      (''common.status'', ''Status''),
      (''common.type'', ''Tipo''),
      (''common.value'', ''Valor''),
      (''validation.dateRange'', ''La fecha final debe ser posterior a la fecha inicial.''),
      (''validation.definitionKey'', ''Usa hasta 63 caracteres: comienza con una letra min'' @ [CHR 0xFA] @ ''scula y usa solo letras min'' @ [CHR 0xFA] @ ''sculas, n'' @ [CHR 0xFA] @ ''meros, guiones o guiones bajos.''),
      (''validation.boolean'', ''Usa true o false.''),
      (''validation.hostname'', ''Usa solo labels DNS con letras, n'' @ [CHR 0xFA] @ ''meros y guiones, como app.ejemplo.com.''),
      (''validation.integer'', ''Introduce un n'' @ [CHR 0xFA] @ ''mero entero, sin decimales.''),
      (''validation.tenantSlug'', ''Usa hasta 63 caracteres con letras min'' @ [CHR 0xFA] @ ''sculas, n'' @ [CHR 0xFA] @ ''meros y guiones simples entre palabras.''),
      (''validation.webhookURL'', ''Usa una URL HTTPS sin credenciales ni fragmento. HTTP se acepta solo en localhost.''),
      (''dataTable.firstPage'', ''Primera p'' @ [CHR 0xE1] @ ''gina''),
      (''dataTable.item'', ''elemento''),
      (''dataTable.items'', ''elementos''),
      (''dataTable.lastPage'', [CHR 0xDA] @ ''ltima p'' @ [CHR 0xE1] @ ''gina''),
      (''dataTable.nextPage'', ''P'' @ [CHR 0xE1] @ ''gina siguiente''),
      (''dataTable.page'', ''P'' @ [CHR 0xE1] @ ''gina''),
      (''dataTable.pageOf'', ''de''),
      (''dataTable.previousPage'', ''P'' @ [CHR 0xE1] @ ''gina anterior''),
      (''dataTable.rowsPerPage'', ''Filas por p'' @ [CHR 0xE1] @ ''gina''),
      (''dataTable.sortAsc'', ''Ordenar ascendente'')]"

definition esES_2 :: "(string \<times> string) list" where
  "esES_2 =
     [(''dataTable.sortDesc'', ''Ordenar descendente''),
      (''dataTable.sortReset'', ''Limpiar ordenaci'' @ [CHR 0xF3] @ ''n''),
      (''dataTable.sort'', ''Ordenar''),
      (''dataTable.sortBy'', ''Ordenar por''),
      (''dataTable.ascending'', ''Ascendente''),
      (''dataTable.descending'', ''Descendente''),
      (''dataTable.columns'', ''Columnas''),
      (''dataTable.clearFilters'', ''Limpiar filtros''),
      (''dataTable.resetPreferences'', ''Restablecer tabla''),
      (''dataTable.noResults'', ''Sin resultados.''),
      (''definitionDetail.activate'', ''Activar''),
      (''definitionDetail.addField'', ''Agregar campo''),
      (''definitionDetail.back'', ''Volver''),
      (''definitionDetail.dataTypeBool'', ''Booleano''),
      (''definitionDetail.dataTypeInt'', ''Entero''),
      (''definitionDetail.dataTypeString'', ''Texto''),
      (''definitionDetail.deactivate'', ''Desactivar''),
      (''definitionDetail.emptyDescription'', ''Ning'' @ [CHR 0xFA] @ ''n campo. Agrega los campos que componen este recurso.''),
      (''definitionDetail.editDescription'', ''Actualiza el nombre y la descripci'' @ [CHR 0xF3] @ ''n. La clave t'' @ [CHR 0xE9] @ ''cnica {key} permanece inmutable.''),
      (''definitionDetail.editFieldAction'', ''Editar campo {key}''),
      (''definitionDetail.editFieldDescription'', ''Actualiza la etiqueta y la obligatoriedad de {key}. Para cambiar la clave, el tipo o el almacenamiento secreto, crea un campo nuevo y migra los valores.''),
      (''definitionDetail.editFieldTitle'', ''Editar campo''),
      (''definitionDetail.editTitle'', ''Editar definici'' @ [CHR 0xF3] @ ''n''),
      (''definitionDetail.fieldAdded'', ''Campo agregado.''),
      (''definitionDetail.fieldRemoved'', ''Campo eliminado.''),
      (''definitionDetail.fieldUpdated'', ''Campo actualizado.''),
      (''definitionDetail.fieldsDescription'', ''Definici'' @ [CHR 0xF3] @ ''n din'' @ [CHR 0xE1] @ ''mica de los campos de este tipo de recurso.''),
      (''definitionDetail.fieldsTitle'', ''Campos''),
      (''definitionDetail.loadError'', ''No se pudo cargar la definici'' @ [CHR 0xF3] @ ''n.''),
      (''definitionDetail.newField'', ''Nuevo campo''),
      (''definitionDetail.newFieldDescription'', ''Agrega un campo a este tipo de recurso.''),
      (''definitionDetail.notFound'', ''Definici'' @ [CHR 0xF3] @ ''n no encontrada.''),
      (''definitionDetail.open'', ''Abrir definici'' @ [CHR 0xF3] @ ''n {name}''),
      (''definitionDetail.removeDescription'', ''La definici'' @ [CHR 0xF3] @ ''n {name} ser'' @ [CHR 0xE1] @ '' eliminada. La eliminaci'' @ [CHR 0xF3] @ ''n no est'' @ [CHR 0xE1] @ '' permitida mientras haya recursos vinculados.''),
      (''definitionDetail.removeTitle'', [CHR 0xBF] @ ''Eliminar definici'' @ [CHR 0xF3] @ ''n?''),
      (''definitionDetail.removed'', ''Definici'' @ [CHR 0xF3] @ ''n eliminada.''),
      (''definitionDetail.removeFieldDescription'', ''El campo {fieldKey} se eliminar'' @ [CHR 0xE1] @ '' de esta definici'' @ [CHR 0xF3] @ ''n. Esto puede afectar recursos y formularios que dependen de '' @ [CHR 0xE9] @ ''l.''),
      (''definitionDetail.removeFieldTitle'', [CHR 0xBF] @ ''Eliminar campo?''),
      (''definitionDetail.requiredDescription'', ''Exigido al crear el recurso.''),
      (''definitionDetail.requiredTitle'', ''Obligatorio''),
      (''definitionDetail.secretDescription'', ''Cifrado con AES-256-GCM.''),
      (''definitionDetail.statusActivated'', ''Definici'' @ [CHR 0xF3] @ ''n activada.''),
      (''definitionDetail.statusDeactivated'', ''Definici'' @ [CHR 0xF3] @ ''n desactivada.''),
      (''definitionDetail.updated'', ''Definici'' @ [CHR 0xF3] @ ''n actualizada.''),
      (''definitions.create'', ''Crear definici'' @ [CHR 0xF3] @ ''n''),
      (''definitions.description'', ''Cat'' @ [CHR 0xE1] @ ''logo de tipos de recurso y sus campos.''),
      (''definitions.empty'', ''A'' @ [CHR 0xFA] @ ''n no hay definiciones.''),
      (''definitions.emptyDescription'', ''Sin descripci'' @ [CHR 0xF3] @ ''n.''),
      (''definitions.footerCounts'', ''Campos: {fieldCount} '' @ [CHR 0xB7] @ '' Secretos: {secretCount}''),
      (''definitions.new'', ''Nueva definici'' @ [CHR 0xF3] @ ''n''),
      (''definitions.newDialog.description'', ''Define un tipo de recurso. Los campos se agregan despu'' @ [CHR 0xE9] @ ''s.''),
      (''definitions.newDialog.title'', ''Nueva definici'' @ [CHR 0xF3] @ ''n''),
      (''definitions.title'', ''Definiciones de recurso''),
      (''errors.conflict'', ''Ya existe un registro con ese valor. Verifica si no est'' @ [CHR 0xE1] @ '' duplicado.''),
      (''errors.definitionInUse'', ''Esta definici'' @ [CHR 0xF3] @ ''n todav'' @ [CHR 0xED] @ ''a tiene recursos vinculados. Elimina o migra esos recursos antes de borrarla.''),
      (''errors.forbidden'', ''No tienes permiso para esta acci'' @ [CHR 0xF3] @ ''n.''),
      (''errors.generic'', ''Algo sali'' @ [CHR 0xF3] @ '' mal. Int'' @ [CHR 0xE9] @ ''ntalo de nuevo.''),
      (''errors.invalidData'', ''Datos inv'' @ [CHR 0xE1] @ ''lidos. Revisa los campos.''),
      (''errors.notFound'', ''Registro no encontrado.''),
      (''errors.precondition'', ''Los datos cambiaron en otra sesi'' @ [CHR 0xF3] @ ''n. Rev'' @ [CHR 0xED] @ ''salos e int'' @ [CHR 0xE9] @ ''ntalo de nuevo.''),
      (''errors.server'', ''Error del servidor. Int'' @ [CHR 0xE9] @ ''ntalo en unos instantes.''),
      (''errors.timeout'', ''La solicitud tard'' @ [CHR 0xF3] @ '' demasiado. Verifica la conexi'' @ [CHR 0xF3] @ ''n e int'' @ [CHR 0xE9] @ ''ntalo nuevamente.''),
      (''nav.apiClients'', ''Claves de API''),
      (''nav.usage'', ''Uso mensual''),
      (''nav.audit'', ''Auditor'' @ [CHR 0xED] @ ''a''),
      (''nav.sessions'', ''Sesiones activas''),
      (''nav.settings'', ''Configuraci'' @ [CHR 0xF3] @ ''n''),
      (''nav.integrations'', ''Webhooks''),
      (''nav.health'', ''Salud''),
      (''operationsHealth.component'', ''Componente''),
      (''operationsHealth.deadLetters'', ''Dead letters''),
      (''operationsHealth.deadLettersHint'', ''entregas que requieren intervenci'' @ [CHR 0xF3] @ ''n''),
      (''operationsHealth.dependencies'', ''Dependencias''),
      (''operationsHealth.dependenciesHint'', ''servicios externos supervisados''),
      (''operationsHealth.description'', ''Readiness s'' @ [CHR 0xED] @ ''ncrona, colas y evidencia reciente de jobs operativos.''),
      (''operationsHealth.freshUntil'', ''V'' @ [CHR 0xE1] @ ''lido hasta''),
      (''operationsHealth.inFlight'', ''Entregas en tr'' @ [CHR 0xE1] @ ''nsito''),
      (''operationsHealth.inFlightHint'', ''pendientes o esperando otro intento''),
      (''operationsHealth.kind'', ''Tipo''),
      (''operationsHealth.kind.backup'', ''Backup''),
      (''operationsHealth.kind.migration'', ''Migraci'' @ [CHR 0xF3] @ ''n''),
      (''operationsHealth.kind.restore'', ''Restore''),
      (''operationsHealth.kind.rewrap'', ''Rewrap''),
      (''operationsHealth.latency'', ''Latencia''),
      (''operationsHealth.noDependencies'', ''No hay dependencias configuradas.''),
      (''operationsHealth.noReports'', ''No se recibieron reports operativos.''),
      (''operationsHealth.occurredAt'', ''Ejecutado en''),
      (''operationsHealth.overall'', ''Estado general''),
      (''operationsHealth.overallHint'', ''disponibilidad combinada de las dependencias''),
      (''operationsHealth.reports'', ''Reports operativos''),
      (''operationsHealth.source'', ''Origen''),
      (''operationsHealth.status.degraded'', ''degradado''),
      (''operationsHealth.status.failed'', ''fall'' @ [CHR 0xF3]),
      (''operationsHealth.status.healthy'', ''saludable''),
      (''operationsHealth.status.stale'', ''desactualizado''),
      (''operationsHealth.status.unavailable'', ''no disponible''),
      (''operationsHealth.title'', ''Salud operativa''),
      (''integrations.attempts'', ''Intentos''),
      (''integrations.activeTargets'', ''Destinos activos''),
      (''integrations.created'', ''Destino creado.''),
      (''integrations.deliveries'', ''Entregas''),
      (''integrations.delivered'', ''Entregadas''),
      (''integrations.deadLetters'', ''Dead letters''),
      (''integrations.description'', ''Webhooks firmados, reintentos y dead letters.''),
      (''integrations.disable'', ''Desactivar''),
      (''integrations.done'', ''Listo''),
      (''integrations.emptyDeliveries'', ''No se encontraron entregas.''),
      (''integrations.emptyTargets'', ''No hay destinos configurados.''),
      (''integrations.enable'', ''Activar''),
      (''integrations.endpoint'', ''Endpoint''),
      (''integrations.event'', ''Evento''),
      (''integrations.format'', ''Formato''),
      (''integrations.formatGeneric'', ''Gen'' @ [CHR 0xE9] @ ''rico''),
      (''integrations.inFlight'', ''Pendientes y reintentos''),
      (''integrations.name'', ''Nombre''),
      (''integrations.new'', ''Nuevo webhook''),
      (''integrations.newDescription'', ''Registra un receiver HTTPS. La URL completa y el secret permanecen cifrados.''),
      (''integrations.openCircuits'', ''{count} circuitos abiertos''),
      (''integrations.replay'', ''Reprocesar entrega''),
      (''integrations.replayed'', ''Entrega encolada nuevamente.''),
      (''integrations.searchDeliveries'', ''Buscar entregas'' @ [CHR 0x85]),
      (''integrations.searchTargets'', ''Buscar destinos'' @ [CHR 0x85]),
      (''integrations.secretDescription'', ''C'' @ [CHR 0xF3] @ ''pialo ahora. El secret no se mostrar'' @ [CHR 0xE1] @ '' nuevamente.''),
      (''integrations.secretTitle'', ''Signing secret generado''),
      (''integrations.signingSecret'', ''Signing secret''),
      (''integrations.target'', ''Destino''),
      (''integrations.targets'', ''Destinos''),
      (''integrations.title'', ''Webhooks e integraciones''),
      (''integrations.url'', ''URL del receiver''),
      (''usage.title'', ''Uso de claves de API''),
      (''usage.description'', ''Volumen operativo agregado por clave, operaci'' @ [CHR 0xF3] @ ''n y d'' @ [CHR 0xED] @ ''a UTC.''),
      (''usage.month'', ''Mes''),
      (''usage.prevMonth'', ''Mes anterior'')]"

definition esES_3 :: "(string \<times> string) list" where
  "esES_3 =
     [(''usage.nextMonth'', ''Mes siguiente''),
      (''usage.prevYear'', ''A'' @ [CHR 0xF1] @ ''o anterior''),
      (''usage.nextYear'', ''A'' @ [CHR 0xF1] @ ''o siguiente''),
      (''usage.today'', ''Hoy''),
      (''usage.client'', ''Clave''),
      (''usage.allClients'', ''Todas las claves''),
      (''usage.operation'', ''Operaci'' @ [CHR 0xF3] @ ''n''),
      (''usage.operationIdentify'', ''Identificaci'' @ [CHR 0xF3] @ ''n''),
      (''usage.operationResolve'', ''Resoluci'' @ [CHR 0xF3] @ ''n''),
      (''usage.allOperations'', ''Todas las operaciones''),
      (''usage.requests'', ''Solicitudes''),
      (''usage.requestsHint'', ''en el per'' @ [CHR 0xED] @ ''odo y filtros seleccionados''),
      (''usage.errors'', ''Errores''),
      (''usage.errorsHint'', ''respuestas HTTP 4xx y 5xx''),
      (''usage.limited'', ''Limitadas''),
      (''usage.limitedHint'', ''rechazadas por el l'' @ [CHR 0xED] @ ''mite de solicitudes''),
      (''usage.daily'', ''Uso diario''),
      (''usage.empty'', ''No hay uso registrado en este per'' @ [CHR 0xED] @ ''odo.''),
      (''audit.title'', ''Auditor'' @ [CHR 0xED] @ ''a administrativa''),
      (''audit.description'', ''Registro append-only de acciones administrativas y revelaciones de secretos.''),
      (''audit.action'', ''Acci'' @ [CHR 0xF3] @ ''n''),
      (''audit.target'', ''Objetivo''),
      (''audit.result'', ''Resultado''),
      (''audit.allResults'', ''Todos los resultados''),
      (''audit.actorNotice'', ''Mientras el acceso use el token compartido, el registro identifica la credencial administrativa, no a una persona.''),
      (''audit.when'', ''Cu'' @ [CHR 0xE1] @ ''ndo''),
      (''audit.actor'', ''Actor''),
      (''audit.request'', ''Request ID''),
      (''audit.empty'', ''No se encontraron eventos.''),
      (''audit.next'', ''P'' @ [CHR 0xE1] @ ''gina siguiente''),
      (''audit.previous'', ''P'' @ [CHR 0xE1] @ ''gina anterior''),
      (''audit.applyFilters'', ''Aplicar filtros''),
      (''audit.export'', ''Exportar registro''),
      (''audit.download'', ''Descargar una vez''),
      (''audit.exportStatus'', ''Exportaci'' @ [CHR 0xF3] @ ''n: {status} '' @ [CHR 0xB7] @ '' {rows} eventos''),
      (''audit.partitionHealth'', ''Particiones hasta''),
      (''audit.overviewTab'', ''Visi'' @ [CHR 0xF3] @ ''n general''),
      (''audit.eventsTab'', ''Eventos''),
      (''audit.partitionHealthHint'', ''particionado preparado hasta esta fecha''),
      (''audit.defaultRows'', ''Eventos heredados''),
      (''audit.defaultRowsHint'', ''eventos a'' @ [CHR 0xFA] @ ''n en la partici'' @ [CHR 0xF3] @ ''n predeterminada''),
      (''audit.legalHolds'', ''Legal holds activos''),
      (''audit.legalHoldsHint'', ''retenciones que impiden el descarte''),
      (''audit.manageHolds'', ''Gestionar legal holds''),
      (''audit.legalHoldDescription'', ''Conserva ventanas bajo investigaci'' @ [CHR 0xF3] @ ''n antes de que la retenci'' @ [CHR 0xF3] @ ''n elimine particiones.''),
      (''audit.holdFrom'', ''Inicio''),
      (''audit.holdTo'', ''Fin''),
      (''audit.holdReason'', ''Motivo y referencia''),
      (''audit.createHold'', ''Crear legal hold''),
      (''audit.releaseHold'', ''Liberar''),
      (''audit.holdReleased'', ''Liberado''),
      (''audit.noHolds'', ''No hay legal holds registrados.''),
      (''nav.definitions'', ''Recursos''),
      (''nav.logout'', ''Salir''),
      (''nav.account'', ''Cuenta''),
      (''nav.management'', ''Gesti'' @ [CHR 0xF3] @ ''n''),
      (''nav.operations'', ''Operaci'' @ [CHR 0xF3] @ ''n''),
      (''nav.security'', ''Seguridad''),
      (''nav.system'', ''Sistema''),
      (''sessions.current'', ''Actual''),
      (''sessions.description'', ''Revoca accesos individuales sin afectar la sesi'' @ [CHR 0xF3] @ ''n actual.''),
      (''sessions.empty'', ''No se encontraron sesiones.''),
      (''sessions.expires'', ''Vence''),
      (''sessions.lastUsed'', [CHR 0xDA] @ ''ltimo uso''),
      (''sessions.principal'', ''Principal''),
      (''sessions.revoke'', ''Revocar sesi'' @ [CHR 0xF3] @ ''n''),
      (''sessions.revokeDescription'', [CHR 0xBF] @ ''Revocar la sesi'' @ [CHR 0xF3] @ ''n de {name}? El acceso terminar'' @ [CHR 0xE1] @ '' inmediatamente.''),
      (''sessions.revoked'', ''Sesi'' @ [CHR 0xF3] @ ''n revocada.''),
      (''sessions.revokeTitle'', ''Revocar sesi'' @ [CHR 0xF3] @ ''n''),
      (''sessions.roles'', ''Roles''),
      (''sessions.search'', ''Buscar por persona, subject o issuer'' @ [CHR 0x85]),
      (''sessions.status.active'', ''activa''),
      (''sessions.status.expired'', ''vencida''),
      (''sessions.status.idle_expired'', ''inactiva vencida''),
      (''sessions.status.revoked'', ''revocada''),
      (''sessions.title'', ''Sesiones administrativas''),
      (''settings.description'', ''Pol'' @ [CHR 0xED] @ ''ticas runtime no secretas, versionadas y auditadas.''),
      (''settings.field.api_client_default_rpm'', ''RPM predeterminado de nuevas claves''),
      (''settings.field.api_client_default_ttl_days'', ''Validez predeterminada de nuevas claves (d'' @ [CHR 0xED] @ ''as)''),
      (''settings.field.audit_retention_days'', ''Retenci'' @ [CHR 0xF3] @ ''n de auditor'' @ [CHR 0xED] @ ''a (d'' @ [CHR 0xED] @ ''as)''),
      (''settings.field.default_locale'', ''Idioma predeterminado''),
      (''settings.field.session_absolute_hours'', ''Duraci'' @ [CHR 0xF3] @ ''n m'' @ [CHR 0xE1] @ ''xima de sesi'' @ [CHR 0xF3] @ ''n (horas)''),
      (''settings.field.session_idle_minutes'', ''Inactividad m'' @ [CHR 0xE1] @ ''xima (minutos)''),
      (''settings.field.usage_retention_months'', ''Retenci'' @ [CHR 0xF3] @ ''n de uso (meses)''),
      (''settings.field.webhook_delivery_retention_days'', ''Retenci'' @ [CHR 0xF3] @ ''n de entregas webhook (d'' @ [CHR 0xED] @ ''as)''),
      (''settings.field.outbox_event_retention_days'', ''Retenci'' @ [CHR 0xF3] @ ''n del change feed (d'' @ [CHR 0xED] @ ''as)''),
      (''settings.hint.api_client_default_rpm'', ''Sugerencia del formulario; no cambia claves existentes.''),
      (''settings.hint.api_client_default_ttl_days'', ''Sugerencia para nuevas claves; no extiende tokens existentes.''),
      (''settings.hint.audit_retention_days'', ''Pol'' @ [CHR 0xED] @ ''tica usada por el job de retenci'' @ [CHR 0xF3] @ ''n de auditor'' @ [CHR 0xED] @ ''a.''),
      (''settings.hint.default_locale'', ''Preferencia inicial si el navegador a'' @ [CHR 0xFA] @ ''n no eligi'' @ [CHR 0xF3] @ '' un idioma.''),
      (''settings.hint.session_absolute_hours'', ''Se aplica a nuevas sesiones y limita la expiraci'' @ [CHR 0xF3] @ ''n por inactividad.''),
      (''settings.hint.session_idle_minutes'', ''Se reeval'' @ [CHR 0xFA] @ ''a durante el uso y respeta la duraci'' @ [CHR 0xF3] @ ''n absoluta.''),
      (''settings.hint.usage_retention_months'', ''Se aplica por el job UTC de retenci'' @ [CHR 0xF3] @ ''n de telemetr'' @ [CHR 0xED] @ ''a.''),
      (''settings.hint.webhook_delivery_retention_days'', ''Elimina entregas completadas y dead letters despu'' @ [CHR 0xE9] @ ''s de la ventana.''),
      (''settings.hint.outbox_event_retention_days'', ''Elimina eventos sin entregas pendientes despu'' @ [CHR 0xE9] @ ''s de la ventana.''),
      (''settings.owner'', ''Responsable: {owner}''),
      (''settings.revision'', ''Revisi'' @ [CHR 0xF3] @ ''n {revision}''),
      (''settings.saved'', ''Configuraci'' @ [CHR 0xF3] @ ''n guardada.''),
      (''settings.saving'', ''Guardando'' @ [CHR 0x85]),
      (''settings.section.apiClients'', ''Claves de API''),
      (''settings.section.apiClientsDescription'', ''Valores seguros para nuevas credenciales de servicio.''),
      (''settings.section.console'', ''Consola''),
      (''settings.section.consoleDescription'', ''Preferencias iniciales de la experiencia administrativa.''),
      (''settings.section.retention'', ''Retenci'' @ [CHR 0xF3] @ ''n''),
      (''settings.section.retentionDescription'', ''Ventanas expl'' @ [CHR 0xED] @ ''citas para telemetr'' @ [CHR 0xED] @ ''a y auditor'' @ [CHR 0xED] @ ''a.''),
      (''settings.section.security'', ''Seguridad''),
      (''settings.section.securityDescription'', ''Expiraci'' @ [CHR 0xF3] @ ''n e inactividad de sesiones humanas.''),
      (''settings.title'', ''Configuraci'' @ [CHR 0xF3] @ ''n operativa''),
      (''nav.overview'', ''Vista general''),
      (''nav.tenants'', ''Tenants''),
      (''overview.activeDefinitions'', ''Definiciones activas''),
      (''overview.activeTenants'', ''Tenants activos''),
      (''overview.authRequired'', ''Se requiere autenticaci'' @ [CHR 0xF3] @ ''n administrativa.''),
      (''overview.description'', ''Configuraci'' @ [CHR 0xF3] @ ''n multi-tenant de recursos por cliente.''),
      (''overview.domainHint'', ''hostnames mapeados''),
      (''overview.domains'', ''Dominios''),
      (''overview.loadError'', ''No se pudo cargar la vista general.''),
      (''overview.loading'', ''Cargando vista general...''),
      (''overview.resourceCount'', ''{count} recursos''),
      (''overview.resourceHint'', ''instancias activas''),
      (''overview.resources'', ''Recursos provisionados''),
      (''overview.totalTenants'', ''{count} en total''),
      (''overview.typeHint'', ''tipos de recurso''),
      (''overview.title'', ''Vista general''),
      (''overview.operationalHealth'', ''Salud operativa''),
      (''overview.operationalHealthHint'', ''Postgres, Valkey y evidencias operativas''),
      (''overview.monthRequests'', ''Solicitudes del mes''),
      (''overview.monthRequestsHint'', ''todas las claves, mes UTC actual''),
      (''overview.expiringKeys'', ''Claves por vencer''),
      (''overview.expiringKeysHint'', ''activas con vencimiento en los pr'' @ [CHR 0xF3] @ ''ximos 30 d'' @ [CHR 0xED] @ ''as''),
      (''overview.deadLetters'', ''Dead letters''),
      (''overview.deadLettersHint'', ''entregas que requieren intervenci'' @ [CHR 0xF3] @ ''n''),
      (''preferences.darkMode'', ''Activar modo oscuro'')]"

definition esES_4 :: "(string \<times> string) list" where
  "esES_4 =
     [(''preferences.language'', ''Idioma''),
      (''preferences.lightMode'', ''Activar modo claro''),
      (''preferences.theme'', ''Tema''),
      (''preferences.theme.dark'', ''Oscuro''),
      (''preferences.theme.light'', ''Claro''),
      (''preferences.theme.system'', ''Sistema''),
      (''status.active'', ''activo''),
      (''status.inactive'', ''inactivo''),
      (''status.revoked'', ''revocado''),
      (''tenantDetail.addDomain'', ''Agregar dominio''),
      (''tenantDetail.addResource'', ''Agregar recurso''),
      (''tenantDetail.addResourceDialog.description'', ''Elige un tipo, define un alias '' @ [CHR 0xFA] @ ''nico y usa valores propios o heredados de otro recurso.''),
      (''tenantDetail.addResourceDialog.empty'', ''No hay definiciones de recurso activas.''),
      (''tenantDetail.addResourceDialog.title'', ''Agregar recurso''),
      (''tenantDetail.backToTenants'', ''Volver a Tenants''),
      (''tenantDetail.confirmRemoveDomainDescription'', ''El hostname {hostname} dejar'' @ [CHR 0xE1] @ '' de resolver a este tenant inmediatamente.''),
      (''tenantDetail.confirmRemoveDomainTitle'', [CHR 0xBF] @ ''Eliminar dominio?''),
      (''tenantDetail.confirmRemoveResourceDescription'', ''El recurso {resourceName} se eliminar'' @ [CHR 0xE1] @ '' de este tenant. Las aplicaciones consumidoras pueden perder esta configuraci'' @ [CHR 0xF3] @ ''n.''),
      (''tenantDetail.confirmRemoveResourceTitle'', [CHR 0xBF] @ ''Eliminar recurso?''),
      (''tenantDetail.deactivate'', ''Desactivar''),
      (''tenantDetail.duplicate'', ''Duplicar''),
      (''tenantDetail.duplicateDescription'', ''Crea una copia independiente con los valores efectivos actuales. Los cambios futuros del origen no se heredar'' @ [CHR 0xE1] @ ''n.''),
      (''tenantDetail.duplicateHint'', ''Usa un alias '' @ [CHR 0xFA] @ ''nico para la nueva copia independiente.''),
      (''tenantDetail.duplicateTitle'', ''Duplicar recurso''),
      (''tenantDetail.dangerZone.description'', ''La desactivaci'' @ [CHR 0xF3] @ ''n es reversible. La eliminaci'' @ [CHR 0xF3] @ ''n siguiente es permanente y borra dominios, recursos y valores secretos.''),
      (''tenantDetail.dangerZone.title'', ''Zona de peligro''),
      (''tenantDetail.deleteAction'', ''Eliminar tenant permanentemente''),
      (''tenantDetail.deleteConfirm'', ''Eliminar permanentemente''),
      (''tenantDetail.deleteDescription'', ''Esta acci'' @ [CHR 0xF3] @ ''n no se puede deshacer. El tenant {slug}, sus dominios, recursos y valores secretos se eliminar'' @ [CHR 0xE1] @ ''n en cascada.''),
      (''tenantDetail.deleteInputLabelPrefix'', ''Escribe''),
      (''tenantDetail.deleteInputLabelSuffix'', ''para confirmar''),
      (''tenantDetail.deleteInputPlaceholder'', ''slug del tenant''),
      (''tenantDetail.deleteTitle'', [CHR 0xBF] @ ''Eliminar tenant permanentemente?''),
      (''tenantDetail.deleted'', ''Tenant eliminado permanentemente.''),
      (''tenantDetail.domainAdded'', ''Dominio agregado.''),
      (''tenantDetail.domainRemoved'', ''Dominio eliminado.''),
      (''tenantDetail.domainUpdated'', ''Dominio actualizado.''),
      (''tenantDetail.domainsDescription'', ''Hostnames que resuelven a este tenant.''),
      (''tenantDetail.domainsEmpty'', ''Ning'' @ [CHR 0xFA] @ ''n dominio. Agrega al menos uno para resolver el tenant.''),
      (''tenantDetail.domainsSearch'', ''Buscar por hostname...''),
      (''tenantDetail.editDomainDescription'', ''Cambia el hostname que resuelve hacia este tenant.''),
      (''tenantDetail.editDomainTitle'', ''Renombrar dominio''),
      (''tenantDetail.renameDomain'', ''Renombrar''),
      (''tenantDetail.domainsTab'', ''Dominios''),
      (''tenantDetail.editDescription'', ''Actualiza los datos del cliente.''),
      (''tenantDetail.editFieldDescription'', ''Actualiza el valor de {field}. Los valores secretos nunca se completan previamente en el formulario.''),
      (''tenantDetail.editFieldTitle'', ''Editar campo''),
      (''tenantDetail.editTitle'', ''Editar tenant''),
      (''tenantDetail.enableSecretReveal'', ''Habilitar revelaci'' @ [CHR 0xF3] @ ''n de secretos''),
      (''tenantDetail.fieldsColumn'', ''Campos''),
      (''tenantDetail.fieldCount.many'', ''{count} campos''),
      (''tenantDetail.fieldCount.one'', ''{count} campo''),
      (''tenantDetail.headerDescription'', ''Identificador {slug}. Gestiona la configuraci'' @ [CHR 0xF3] @ ''n, los recursos y los dominios de este tenant.''),
      (''tenantDetail.hideSecrets'', ''Ocultar secretos''),
      (''tenantDetail.loadError'', ''No se pudo cargar el tenant.''),
      (''tenantDetail.newDomainDescription'', ''Hostname exacto que resuelve a este tenant.''),
      (''tenantDetail.newDomainTitle'', ''Agregar dominio''),
      (''tenantDetail.noResource'', ''Ning'' @ [CHR 0xFA] @ ''n recurso''),
      (''tenantDetail.noResourceDescription'', ''Este tenant todav'' @ [CHR 0xED] @ ''a no tiene recursos provisionados.''),
      (''tenantDetail.notFound'', ''Tenant no encontrado.''),
      (''tenantDetail.overviewTab'', ''Visi'' @ [CHR 0xF3] @ ''n general''),
      (''tenantDetail.reactivate'', ''Reactivar''),
      (''tenantDetail.attention.description'', ''Pendientes que afectan el consumo o merecen revisi'' @ [CHR 0xF3] @ ''n operativa.''),
      (''tenantDetail.attention.emptyDescription'', ''El dominio, el estado y los recursos esenciales est'' @ [CHR 0xE1] @ ''n configurados.''),
      (''tenantDetail.attention.emptyTitle'', ''No se encontraron pendientes''),
      (''tenantDetail.attention.inactive_resources.description'', ''Los recursos inactivos no son devueltos por la Consumer API.''),
      (''tenantDetail.attention.inactive_resources.title'', ''{count} recurso(s) inactivo(s)''),
      (''tenantDetail.attention.inactive_tenant.description'', ''Un tenant inactivo no puede ser resuelto por las aplicaciones consumidoras.''),
      (''tenantDetail.attention.inactive_tenant.title'', ''Tenant inactivo''),
      (''tenantDetail.attention.incomplete_resources.description'', ''Hay recursos con campos obligatorios sin valor.''),
      (''tenantDetail.attention.incomplete_resources.title'', ''{count} configuraci'' @ [CHR 0xF3] @ ''n(es) incompleta(s)''),
      (''tenantDetail.attention.missing_active_resource.description'', ''Agrega o reactiva un recurso para disponibilizar configuraci'' @ [CHR 0xF3] @ ''n al consumidor.''),
      (''tenantDetail.attention.missing_active_resource.title'', ''Ning'' @ [CHR 0xFA] @ ''n recurso activo''),
      (''tenantDetail.attention.missing_domain.description'', ''Sin hostname, la aplicaci'' @ [CHR 0xF3] @ ''n no puede identificar este tenant por dominio.''),
      (''tenantDetail.attention.missing_domain.title'', ''Ning'' @ [CHR 0xFA] @ ''n dominio registrado''),
      (''tenantDetail.attention.title'', ''Elementos que requieren atenci'' @ [CHR 0xF3] @ ''n''),
      (''tenantDetail.readiness.attention'', ''Atenci'' @ [CHR 0xF3] @ ''n''),
      (''tenantDetail.readiness.completeHint'', ''todos los campos obligatorios est'' @ [CHR 0xE1] @ ''n completos''),
      (''tenantDetail.readiness.domains'', ''Dominios''),
      (''tenantDetail.readiness.incomplete'', ''Incompleto''),
      (''tenantDetail.readiness.incompleteHint'', ''revisa los campos obligatorios faltantes''),
      (''tenantDetail.readiness.incompleteResources'', ''Configuraciones incompletas''),
      (''tenantDetail.readiness.missingDomain'', ''agrega un dominio''),
      (''tenantDetail.readiness.missingResource'', ''agrega un recurso activo''),
      (''tenantDetail.readiness.ready'', ''Listo''),
      (''tenantDetail.readiness.requirementsHint'', ''{count} de {total} requisitos esenciales cumplidos''),
      (''tenantDetail.readiness.resources'', ''Recursos activos/total''),
      (''tenantDetail.readiness.resourcesHint'', ''instancias disponibles para configuraci'' @ [CHR 0xF3] @ ''n''),
      (''tenantDetail.readiness.title'', ''Preparaci'' @ [CHR 0xF3] @ ''n para consumo''),
      (''tenantDetail.resourceAdded'', ''Recurso agregado.''),
      (''tenantDetail.editResourceIdentityTitle'', ''Editar recurso''),
      (''tenantDetail.editResourceIdentityDescription'', ''Actualiza el nombre visible y el alias '' @ [CHR 0xFA] @ ''nico usado por la Consumer API.''),
      (''tenantDetail.resourceAlias'', ''Alias''),
      (''tenantDetail.resourceAliasHint'', ''Identificador '' @ [CHR 0xFA] @ ''nico usado por la Consumer API, como postgres.agility.''),
      (''tenantDetail.resourceNameHint'', ''Nombre legible para identificar esta instancia en la consola.''),
      (''tenantDetail.resourceUpdated'', ''Nombre y alias actualizados.''),
      (''tenantDetail.resourceDuplicated'', ''Recurso duplicado como copia independiente.''),
      (''tenantDetail.resourceFieldUpdated'', ''Campo actualizado.''),
      (''tenantDetail.resourceFieldInherited'', ''El campo volvi'' @ [CHR 0xF3] @ '' a heredar el valor del origen.''),
      (''tenantDetail.resourceDetailsDescription'', ''Tipo {type} '' @ [CHR 0xB7] @ '' alias {alias}. Consulta los campos y valores de este recurso.''),
      (''tenantDetail.resourceLinkedDescription'', ''Vinculado a {source}. Los valores sin override siguen al origen.''),
      (''tenantDetail.resourceOrigin'', ''Origen de los valores''),
      (''tenantDetail.resourceRemoved'', ''Recurso eliminado.''),
      (''tenantDetail.resourceStatusActivated'', ''Recurso reactivado.''),
      (''tenantDetail.resourceStatusDeactivated'', ''Recurso desactivado.''),
      (''tenantDetail.resourceType'', ''Tipo de recurso''),
      (''tenantDetail.independent'', ''Independiente''),
      (''tenantDetail.independentHint'', ''Los valores pertenecen solo a este recurso.''),
      (''tenantDetail.inheritPlaceholder'', ''Deja vac'' @ [CHR 0xED] @ ''o para heredar''),
      (''tenantDetail.inherited'', ''heredado''),
      (''tenantDetail.linked'', ''Vinculado''),
      (''tenantDetail.linkedHint'', ''Los campos vac'' @ [CHR 0xED] @ ''os heredan el origen; los valores informados son overrides locales.''),
      (''tenantDetail.linkTo'', ''Vincular a {alias}''),
      (''tenantDetail.resourcesTab'', ''Recursos''),
      (''tenantDetail.resourcesSearch'', ''Buscar por nombre, tipo o estado...''),
      (''tenantDetail.secretsDisabled'', ''Secretos ocultos.''),
      (''tenantDetail.secretsEnabled'', ''Revelaci'' @ [CHR 0xF3] @ ''n por campo habilitada.''),
      (''tenantDetail.secretsColumn'', ''Secretos''),
      (''tenantDetail.useSource'', ''Usar valor del origen''),
      (''tenantDetail.secretCount.many'', ''{count} secretos''),
      (''tenantDetail.secretCount.one'', ''{count} secreto''),
      (''tenantDetail.saveResource'', ''Guardar recurso''),
      (''tenantDetail.selectResource'', ''Selecciona...''),
      (''tenantDetail.updated'', ''Tenant actualizado.''),
      (''tenants.create'', ''Crear tenant''),
      (''tenants.description'', ''Clientes y sus dominios.''),
      (''tenants.empty'', ''No se encontraron tenants.''),
      (''tenants.new'', ''Nuevo tenant''),
      (''tenants.newDialog.description'', ''Registra un cliente. Los dominios y recursos se agregan despu'' @ [CHR 0xE9] @ ''s.''),
      (''tenants.newDialog.title'', ''Nuevo tenant''),
      (''tenants.search'', ''Buscar por nombre o slug...''),
      (''tenants.title'', ''Tenants'')]"

definition esES :: "(string \<times> string) list" where
  "esES = esES_1 @ esES_2 @ esES_3 @ esES_4"

definition MESSAGES :: "Locale \<Rightarrow> catalog" where
  "MESSAGES l = (case l of EnUS \<Rightarrow> enUS | EsES \<Rightarrow> esES | PtBR \<Rightarrow> ptBR)"

end
