(* ===== verification/Translations.thy ===== *)
theory Translations
  imports Catalog SettingsPage SessionsPage Dashboards TenantDetailView
begin

text \<open>
  What the pages rely on of the catalogs of messages (\<open>web/src/lib/i18n.tsx\<close>): the three have the same keys
  with the same parameters, so that no translation falls back to Portuguese, every key that is put
  together from a value of the API is in them, and no error message looks like an HTTP status.
\<close>

section \<open>The three catalogs\<close>

text \<open>Whether a text has an opening brace, by the bits of its characters, and whether two texts have the same parameters.\<close>

fun has_brace :: "string \<Rightarrow> bool" where
  "has_brace [] = False"
| "has_brace (Char a b c d e f g h # s) = (if a \<and> b \<and> \<not> c \<and> d \<and> e \<and> f \<and> g \<and> \<not> h then True else has_brace s)"

lemma has_brace_iff: "has_brace s \<longleftrightarrow> CHR ''{'' \<in> set s"
  by (induction s rule: has_brace.induct) auto

lemma placeholders_none: "\<not> has_brace s \<Longrightarrow> placeholders s = []"
  unfolding has_brace_iff by (induction s) (auto simp: Let_def)

definition agree :: "string \<times> string \<Rightarrow> string \<times> string \<Rightarrow> bool" where
  "agree x y \<longleftrightarrow> fst x = fst y \<and> (if has_brace (snd x) \<or> has_brace (snd y) then placeholders (snd x) = placeholders (snd y) else True)"

lemmas agree_simps = agree_def has_brace.simps list.rel_inject list_all2_Nil fst_conv snd_conv append.simps if_True if_False simp_thms

lemma word_letters: "list_all word_char ''abcdefghijklmnopqrstuvwxyzABCDEFGHIJKLMNOPQRSTUVWXYZ0123456789_''" "\<not> word_char (CHR ''}'')"
  by code_simp+

lemma placeholders_skip: "c \<noteq> CHR ''{'' \<Longrightarrow> placeholders (c # s) = placeholders s"
  by (simp add: Let_def)

lemma placeholders_open:
  "placeholders (CHR ''{'' # s) =
     (if takeWhile word_char s \<noteq> [] \<and> dropWhile word_char s \<noteq> [] \<and> hd (dropWhile word_char s) = CHR ''}''
      then takeWhile word_char s # placeholders (tl (dropWhile word_char s)) else placeholders s)"
  by (simp add: Let_def)

lemmas placeholders_simps = placeholders_skip placeholders_open placeholders.simps(1) word_letters [simplified]

lemma english_1: "list_all2 agree ptBR_1 enUS_1"
  by (simp only: ptBR_1_def enUS_1_def agree_simps) (simp add: placeholders_simps del: placeholders.simps(2))

lemma english_2: "list_all2 agree ptBR_2 enUS_2"
  by (simp only: ptBR_2_def enUS_2_def agree_simps) (simp add: placeholders_simps del: placeholders.simps(2))

lemma english_3: "list_all2 agree ptBR_3 enUS_3"
  by (simp only: ptBR_3_def enUS_3_def agree_simps) (simp add: placeholders_simps del: placeholders.simps(2))

lemma english_4: "list_all2 agree ptBR_4 enUS_4"
  by (simp only: ptBR_4_def enUS_4_def agree_simps) (simp add: placeholders_simps del: placeholders.simps(2))

lemma spanish_1: "list_all2 agree ptBR_1 esES_1"
  by (simp only: ptBR_1_def esES_1_def agree_simps) (simp add: placeholders_simps del: placeholders.simps(2))

lemma spanish_2: "list_all2 agree ptBR_2 esES_2"
  by (simp only: ptBR_2_def esES_2_def agree_simps) (simp add: placeholders_simps del: placeholders.simps(2))

lemma spanish_3: "list_all2 agree ptBR_3 esES_3"
  by (simp only: ptBR_3_def esES_3_def agree_simps) (simp add: placeholders_simps del: placeholders.simps(2))

lemma spanish_4: "list_all2 agree ptBR_4 esES_4"
  by (simp only: ptBR_4_def esES_4_def agree_simps) (simp add: placeholders_simps del: placeholders.simps(2))

lemma catalogs_agree: "list_all2 agree (MESSAGES PtBR) (MESSAGES l)"
proof (cases l)
  case PtBR
  then show ?thesis by (simp add: list.rel_refl agree_def)
next
  case EnUS
  then show ?thesis
    by (simp add: MESSAGES_def ptBR_def enUS_def list_all2_appendI english_1 english_2 english_3 english_4)
next
  case EsES
  then show ?thesis
    by (simp add: MESSAGES_def ptBR_def esES_def list_all2_appendI spanish_1 spanish_2 spanish_3 spanish_4)
qed

lemma agree_placeholders: "agree x y \<Longrightarrow> fst x = fst y \<and> placeholders (snd x) = placeholders (snd y)"
  by (auto simp: agree_def placeholders_none split: if_splits)

lemma agree_map_of:
  "list_all2 agree xs ys \<Longrightarrow> map_option placeholders (map_of xs key) = map_option placeholders (map_of ys key)"
  by (induction rule: list_all2_induct) (auto dest!: agree_placeholders)

lemma catalog_parameters:
  "map_option placeholders (map_of (MESSAGES l) key) = map_option placeholders (map_of (MESSAGES PtBR) key)"
  by (rule agree_map_of [OF catalogs_agree, symmetric])

text \<open>C16: the catalogs of the three languages have the same keys, and for each key the same parameters in the same order: a
  translation never falls back to Portuguese, and what one language shows of the values, the others show.\<close>

theorem translations_complete:
  "(map_of (MESSAGES l) key \<noteq> None \<longleftrightarrow> hasTranslation MESSAGES key) \<and>
   translate MESSAGES l key ps = map_option (\<lambda>template. interpolate template ps) (map_of (MESSAGES l) key) \<and>
   map_option placeholders (map_of (MESSAGES l) key) = map_option placeholders (map_of (MESSAGES l') key)"
proof -
  have "map_of (MESSAGES l) key = None \<longleftrightarrow> map_of (MESSAGES PtBR) key = None"
    using catalog_parameters [of l key] by (metis map_option_is_None)
  then show ?thesis
    using catalog_parameters [of l key] catalog_parameters [of l' key]
    by (cases "map_of (MESSAGES l) key") (simp_all add: hasTranslation_def translate_def)
qed

section \<open>Keys put together from values\<close>

definition keys_in :: "string list \<Rightarrow> (string \<times> string) list \<Rightarrow> bool" where
  "keys_in ks es \<longleftrightarrow> set ks \<subseteq> fst ` set es"

lemma keys_in_nil: "keys_in [] es"
  by (simp add: keys_in_def)

lemma keys_in_take: "keys_in ks es \<Longrightarrow> keys_in (key # ks) ((key, v) # es)"
  by (auto simp: keys_in_def)

lemma keys_in_skip: "keys_in ks es \<Longrightarrow> keys_in ks (e # es)"
  by (auto simp: keys_in_def)

lemma translated:
  assumes "keys_in ks ptBR_1 \<or> keys_in ks ptBR_2 \<or> keys_in ks ptBR_3 \<or> keys_in ks ptBR_4"
  shows "list_all (hasTranslation MESSAGES) ks"
proof -
  have "set ks \<subseteq> fst ` set ptBR"
    using assms unfolding ptBR_def keys_in_def by (auto simp: image_Un)
  then show ?thesis
    by (auto simp: list_all_iff hasTranslation_def map_of_eq_None_iff MESSAGES_def)
qed

lemma keys_in_1:
  "keys_in
     [''auth.invalidToken'']
     ptBR_1"
  unfolding ptBR_1_def by (rule keys_in_nil keys_in_take keys_in_skip)+

lemma keys_in_2:
  "keys_in
     [''errors.conflict'', ''errors.definitionInUse'', ''errors.forbidden'', ''errors.generic'', ''errors.invalidData'',
      ''errors.notFound'', ''errors.precondition'', ''errors.server'', ''errors.timeout'', ''operationsHealth.kind.backup'',
      ''operationsHealth.kind.migration'', ''operationsHealth.kind.restore'', ''operationsHealth.kind.rewrap'',
      ''operationsHealth.status.degraded'', ''operationsHealth.status.failed'', ''operationsHealth.status.healthy'',
      ''operationsHealth.status.stale'', ''operationsHealth.status.unavailable'']
     ptBR_2"
  unfolding ptBR_2_def by (rule keys_in_nil keys_in_take keys_in_skip)+

lemma keys_in_3:
  "keys_in
     [''sessions.status.active'', ''sessions.status.expired'', ''sessions.status.idle_expired'', ''sessions.status.revoked'',
      ''settings.field.api_client_default_rpm'', ''settings.field.api_client_default_ttl_days'',
      ''settings.field.audit_retention_days'', ''settings.field.default_locale'', ''settings.field.session_absolute_hours'',
      ''settings.field.session_idle_minutes'', ''settings.field.usage_retention_months'',
      ''settings.field.webhook_delivery_retention_days'', ''settings.field.outbox_event_retention_days'',
      ''settings.hint.api_client_default_rpm'', ''settings.hint.api_client_default_ttl_days'',
      ''settings.hint.audit_retention_days'', ''settings.hint.default_locale'', ''settings.hint.session_absolute_hours'',
      ''settings.hint.session_idle_minutes'', ''settings.hint.usage_retention_months'',
      ''settings.hint.webhook_delivery_retention_days'', ''settings.hint.outbox_event_retention_days'',
      ''settings.section.apiClients'', ''settings.section.apiClientsDescription'', ''settings.section.console'',
      ''settings.section.consoleDescription'', ''settings.section.retention'', ''settings.section.retentionDescription'',
      ''settings.section.security'', ''settings.section.securityDescription'', ''overview.loadError'']
     ptBR_3"
  unfolding ptBR_3_def by (rule keys_in_nil keys_in_take keys_in_skip)+

lemma keys_in_4:
  "keys_in
     [''tenantDetail.attention.inactive_resources.description'', ''tenantDetail.attention.inactive_resources.title'',
      ''tenantDetail.attention.inactive_tenant.description'', ''tenantDetail.attention.inactive_tenant.title'',
      ''tenantDetail.attention.incomplete_resources.description'', ''tenantDetail.attention.incomplete_resources.title'',
      ''tenantDetail.attention.missing_active_resource.description'', ''tenantDetail.attention.missing_active_resource.title'',
      ''tenantDetail.attention.missing_domain.description'', ''tenantDetail.attention.missing_domain.title'',
      ''tenantDetail.readiness.attention'', ''tenantDetail.readiness.incomplete'', ''tenantDetail.readiness.ready'']
     ptBR_4"
  unfolding ptBR_4_def by (rule keys_in_nil keys_in_take keys_in_skip)+

lemmas built_keys =
  keys_in_1 [THEN disjI1, THEN translated, unfolded list.pred_inject]
  keys_in_2 [THEN disjI1, THEN disjI2, THEN translated, unfolded list.pred_inject]
  keys_in_3 [THEN disjI1, THEN disjI2, THEN disjI2, THEN translated, unfolded list.pred_inject]
  keys_in_4 [THEN disjI2, THEN disjI2, THEN disjI2, THEN translated, unfolded list.pred_inject]

text \<open>C17: every key that the pages put together from a value of the API is in the catalogs: the states of sessions, of dependencies
  and of reports, the kinds of reports, the readiness of a tenant and what it needs, and the sections and settings; and so
  are the messages of all errors. \<open>translate\<close> throws on a key it does not have, so none of these pages breaks.\<close>

theorem built_keys_translated:
  "hasTranslation MESSAGES (''sessions.status.'' @ session_status_text x) \<and>
   hasTranslation MESSAGES (status_key (health_text h)) \<and> hasTranslation MESSAGES (status_key (effective_text r)) \<and>
   hasTranslation MESSAGES (''operationsHealth.kind.'' @ kind_text k) \<and>
   hasTranslation MESSAGES (''tenantDetail.readiness.'' @ readiness_text d) \<and>
   hasTranslation MESSAGES (''tenantDetail.attention.'' @ attention_text c @ ''.title'') \<and>
   hasTranslation MESSAGES (''tenantDetail.attention.'' @ attention_text c @ ''.description'') \<and>
   hasTranslation MESSAGES (''settings.section.'' @ section_text z) \<and>
   hasTranslation MESSAGES (''settings.section.'' @ section_text z @ ''Description'') \<and>
   list_all (\<lambda>name. hasTranslation MESSAGES (''settings.field.'' @ name) \<and> hasTranslation MESSAGES (''settings.hint.'' @ name))
     (concat (map snd SECTION_KEYS)) \<and>
   hasTranslation MESSAGES (apiErrorMessage e)"
proof -
  have "hasTranslation MESSAGES (''sessions.status.'' @ session_status_text x)"
    by (cases x) (simp_all add: built_keys session_status_text_def)
  moreover have "hasTranslation MESSAGES (status_key (health_text h))"
    by (cases h) (simp_all add: built_keys status_key_def health_text_def)
  moreover have "hasTranslation MESSAGES (status_key (effective_text r))"
    by (simp add: built_keys status_key_def effective_text_def split: EffectiveStatus.split ReportStatus.split)
  moreover have "hasTranslation MESSAGES (''operationsHealth.kind.'' @ kind_text k)"
    by (cases k) (simp_all add: built_keys kind_text_def)
  moreover have "hasTranslation MESSAGES (''tenantDetail.readiness.'' @ readiness_text d)"
    by (cases d) (simp_all add: built_keys readiness_text_def)
  moreover have "hasTranslation MESSAGES (''tenantDetail.attention.'' @ attention_text c @ ''.title'') \<and>
      hasTranslation MESSAGES (''tenantDetail.attention.'' @ attention_text c @ ''.description'')"
    by (cases c) (simp_all add: built_keys attention_text_def)
  moreover have "hasTranslation MESSAGES (''settings.section.'' @ section_text z) \<and>
      hasTranslation MESSAGES (''settings.section.'' @ section_text z @ ''Description'')"
    by (cases z) (simp_all add: built_keys section_text_def)
  moreover have "list_all (\<lambda>name. hasTranslation MESSAGES (''settings.field.'' @ name) \<and> hasTranslation MESSAGES (''settings.hint.'' @ name))
      (concat (map snd SECTION_KEYS))"
    by (simp add: built_keys SECTION_KEYS_def)
  moreover have "hasTranslation MESSAGES (apiErrorMessage e)"
    by (cases e) (simp_all add: built_keys apiErrorMessage_def)
  ultimately show ?thesis by blast
qed

section \<open>The message of the overview\<close>

definition ordinary :: "string \<Rightarrow> bool" where
  "ordinary v = (case v of [] \<Rightarrow> True | c # cs \<Rightarrow> c \<noteq> CHR ''4'' \<and> c \<noteq> CHR ''{'')"

definition ordinary_errors :: "(string \<times> string) list \<Rightarrow> bool" where
  "ordinary_errors es = list_all (\<lambda>e. js_starts_with (fst e) ''errors.'' \<or> fst e = ''auth.invalidToken'' \<longrightarrow> ordinary (snd e)) es"

lemma ordinary_ptBR: "ordinary_errors ptBR_1" "ordinary_errors ptBR_2" "ordinary_errors ptBR_3" "ordinary_errors ptBR_4"
  by code_simp+

lemma ordinary_enUS: "ordinary_errors enUS_1" "ordinary_errors enUS_2" "ordinary_errors enUS_3" "ordinary_errors enUS_4"
  by code_simp+

lemma ordinary_esES: "ordinary_errors esES_1" "ordinary_errors esES_2" "ordinary_errors esES_3" "ordinary_errors esES_4"
  by code_simp+

lemma ordinary_messages: "ordinary_errors (MESSAGES l)"
  using ordinary_ptBR ordinary_enUS ordinary_esES
  by (simp add: MESSAGES_def ptBR_def enUS_def esES_def ordinary_errors_def split: Locale.split)

lemma error_message_keys: "js_starts_with (apiErrorMessage e) ''errors.'' \<or> apiErrorMessage e = ''auth.invalidToken''"
  by (cases e) (simp_all add: apiErrorMessage_def js_starts_with_def)

lemma ordinary_interpolated: "ordinary v \<Longrightarrow> \<not> js_starts_with (interpolate v ps) ''401:''"
  by (cases v) (auto simp: ordinary_def js_starts_with_def)

text \<open>How a page writes a message in a language; \<open>translate\<close> throws on a key that no catalog has, which is \<open>[]\<close> here.\<close>

definition translation_in :: "Locale \<Rightarrow> translation" where
  "translation_in l key ps = some_or (translate MESSAGES l key ps) []"

lemma error_message_ordinary: "\<not> js_starts_with (translation_in l (apiErrorMessage e) ps) ''401:''"
proof (cases "map_of (MESSAGES l) (apiErrorMessage e)")
  case None
  then have "map_of (MESSAGES PtBR) (apiErrorMessage e) = None"
    using catalog_parameters [of l "apiErrorMessage e"] by simp
  with None show ?thesis by (simp add: translation_in_def translate_def js_starts_with_def)
next
  case (Some v)
  then have "ordinary v"
    using map_of_SomeD [OF Some] ordinary_messages [of l] error_message_keys [of e]
    by (fastforce simp: ordinary_errors_def list_all_iff)
  with Some ordinary_interpolated show ?thesis by (simp add: translation_in_def translate_def)
qed

text \<open>C40: the overview never says that the administrator has to sign in: it looks for \<open>401:\<close> in front of the message of the error,
  but that message has been translated before, and no message of a catalog starts so. An expired session is shown as
  a failure to load, in every language.\<close>

theorem sign_in_never_asked:
  "authOrLoadMessage (shown_error (translation_in l) failure) (translation_in l) = translation_in l ''overview.loadError'' []"
proof (cases failure)
  case None
  then show ?thesis by (simp add: authOrLoadMessage_def shown_error_def js_starts_with_def)
next
  case (Some e)
  then show ?thesis by (simp add: authOrLoadMessage_def shown_error_def error_message_ordinary)
qed

end
