(* ===== verification/Sidebar.thy ===== *)
theory Sidebar
  imports AppShell
begin

text \<open>
  The frame of the navigation (\<open>web/src/components/ui/sidebar.tsx\<close>) and the size of the screen it asks for
  (\<open>web/src/hooks/use-mobile.ts\<close>): the provider with its two switches, one for the wide screen and
  one for the sheet of a narrow one, what changes them, and the parts that render by them. The media query
  is an argument of the mount and an event afterwards. The parts that only add classes are left out.
  Theorems: the switches follow the toggles made on their size of screen, the navigation of a narrow screen is
  within reach only while its sheet is open and closes it, and the cookie that is to keep the state is never read.
\<close>

section \<open>State\<close>

record sidebar_props =
  pr_defaultOpen :: bool
  pr_open :: "bool option"
  pr_onOpenChange :: bool

text \<open>What \<open>SidebarProvider\<close> is given where the shell uses it.\<close>

definition shell_sidebar :: sidebar_props where
  "shell_sidebar = \<lparr>pr_defaultOpen = True, pr_open = None, pr_onOpenChange = False\<rparr>"

record sidebar =
  sb_open :: bool
  sb_openMobile :: bool
  sb_isMobile :: bool

definition SIDEBAR_COOKIE_NAME :: string where
  "SIDEBAR_COOKIE_NAME = ''sidebar_state''"

definition SIDEBAR_COOKIE_MAX_AGE :: nat where
  "SIDEBAR_COOKIE_MAX_AGE = 60 * 60 * 24 * 7"

definition SIDEBAR_KEYBOARD_SHORTCUT :: string where
  "SIDEBAR_KEYBOARD_SHORTCUT = ''b''"

text \<open>\<open>matches\<close> is the media query \<open>(max-width: 767px)\<close> when the component is mounted.\<close>

definition mount_sidebar :: "sidebar_props \<Rightarrow> bool \<Rightarrow> sidebar" where
  "mount_sidebar props matches = \<lparr>sb_open = pr_defaultOpen props, sb_openMobile = False, sb_isMobile = matches\<rparr>"

definition sidebar_is_open :: "sidebar_props \<Rightarrow> sidebar \<Rightarrow> bool" where
  "sidebar_is_open props s = some_or (pr_open props) (sb_open s)"

definition sidebar_state_text :: "sidebar_props \<Rightarrow> sidebar \<Rightarrow> string" where
  "sidebar_state_text props s = (if sidebar_is_open props s then ''expanded'' else ''collapsed'')"

section \<open>What changes it\<close>

datatype sidebar_effect = OpenChange bool | SetCookie string | PreventDefault

definition bool_text :: "bool \<Rightarrow> string" where
  "bool_text b = (if b then ''true'' else ''false'')"

definition sidebar_cookie :: "bool \<Rightarrow> string" where
  "sidebar_cookie b =
     SIDEBAR_COOKIE_NAME @ ''='' @ bool_text b @ ''; path=/; max-age='' @ show_nat SIDEBAR_COOKIE_MAX_AGE"

text \<open>\<open>setOpen\<close> takes a value or a function of the value shown.\<close>

definition set_open :: "sidebar_props \<Rightarrow> (bool \<Rightarrow> bool) \<Rightarrow> sidebar \<Rightarrow> sidebar \<times> sidebar_effect list" where
  "set_open props f s =
     (let openState = f (sidebar_is_open props s) in
      if pr_onOpenChange props then (s, [OpenChange openState, SetCookie (sidebar_cookie openState)])
      else (s\<lparr>sb_open := openState\<rparr>, [SetCookie (sidebar_cookie openState)]))"

definition toggle_sidebar :: "sidebar_props \<Rightarrow> sidebar \<Rightarrow> sidebar \<times> sidebar_effect list" where
  "toggle_sidebar props s =
     (if sb_isMobile s then (s\<lparr>sb_openMobile := \<not> sb_openMobile s\<rparr>, []) else set_open props Not s)"

datatype sidebar_action =
    SetSidebar bool | SetSheet bool | ToggleFrame | KeyDown string bool bool | MediaChange bool | ChooseEntry

definition handle_sidebar :: "sidebar_props \<Rightarrow> sidebar_action \<Rightarrow> sidebar \<Rightarrow> sidebar \<times> sidebar_effect list" where
  "handle_sidebar props a s =
     (case a of
        SetSidebar b \<Rightarrow> set_open props (\<lambda>_. b) s
      | SetSheet b \<Rightarrow> (s\<lparr>sb_openMobile := b\<rparr>, [])
      | ToggleFrame \<Rightarrow> toggle_sidebar props s
      | KeyDown key meta ctrl \<Rightarrow>
          (if key = SIDEBAR_KEYBOARD_SHORTCUT \<and> (meta \<or> ctrl)
           then (let (s', es) = toggle_sidebar props s in (s', PreventDefault # es)) else (s, []))
      | MediaChange matches \<Rightarrow> (s\<lparr>sb_isMobile := matches\<rparr>, [])
      | ChooseEntry \<Rightarrow> (if sb_isMobile s then s\<lparr>sb_openMobile := False\<rparr> else s, []))"

fun run_sidebar :: "sidebar_props \<Rightarrow> sidebar_action list \<Rightarrow> sidebar \<Rightarrow> sidebar \<times> sidebar_effect list" where
  "run_sidebar props [] s = (s, [])"
| "run_sidebar props (a # as) s =
     (let (s', es) = handle_sidebar props a s; (s'', es') = run_sidebar props as s' in (s'', es @ es'))"

section \<open>What it renders\<close>

datatype 'a sidebar_control = Frame sidebar_action | Inside 'a

datatype collapsible = Offcanvas | CollapseIcon | Uncollapsible

definition collapsible_text :: "collapsible \<Rightarrow> string" where
  "collapsible_text c = (case c of Offcanvas \<Rightarrow> ''offcanvas'' | CollapseIcon \<Rightarrow> ''icon'' | Uncollapsible \<Rightarrow> ''none'')"

definition sidebarFrame ::
  "string \<Rightarrow> string \<Rightarrow> collapsible \<Rightarrow> sidebar_props \<Rightarrow> sidebar \<Rightarrow> 'a sidebar_control view list \<Rightarrow> 'a sidebar_control view list" where
  "sidebarFrame side variant c props s children =
     (if c = Uncollapsible then [el ''aside'' [] children]
      else if sb_isMobile s then
        shown_if (sb_openMobile s)
          (Elem ''sheet'' [(''data-mobile'', ''true''), (''side'', side)] [(''onClose'', Frame (SetSheet False))]
            [el ''title'' [] [Txt ''Sidebar''], Txt ''Displays the mobile sidebar.'', el ''div'' [] children])
      else
        [el ''aside''
           [(''data-state'', sidebar_state_text props s),
            (''data-collapsible'', if sidebar_is_open props s then [] else collapsible_text c), (''data-variant'', variant), (''data-side'', side)]
           [el ''div'' [] children]])"

definition sidebarTrigger :: "'a sidebar_control view" where
  "sidebarTrigger = button [] (Frame ToggleFrame) [el ''icon'' [(''name'', ''PanelLeft'')] [], Txt ''Toggle Sidebar'']"

definition sidebarRail :: "'a sidebar_control view" where
  "sidebarRail = button [(''aria-label'', ''Toggle Sidebar''), (''title'', ''Toggle Sidebar'')] (Frame ToggleFrame) []"

text \<open>A menu button asks for what is inside it and, on a narrow screen, closes the sheet; its tooltip, empty for none,
  is hidden unless the wide sidebar is collapsed.\<close>

definition menuButton ::
  "sidebar_props \<Rightarrow> sidebar \<Rightarrow> bool \<Rightarrow> string \<Rightarrow> (string \<times> string) list \<Rightarrow> 'a \<Rightarrow> 'a sidebar_control view list \<Rightarrow> 'a sidebar_control view list" where
  "menuButton props s isActive tooltip attrs a children =
     Elem ''menubutton'' (attrs @ flag ''active'' isActive) [(''onClick'', Frame ChooseEntry), (''onClick'', Inside a)] children #
     shown_if (tooltip \<noteq> [])
       (el ''tooltip'' (flag ''hidden'' (sidebar_is_open props s \<or> sb_isMobile s)) [Txt tooltip])"

section \<open>The navigation of the shell in its frame\<close>

text \<open>What the shell puts into the frame: its groups with a menu button for each destination.\<close>

definition navEntries ::
  "(string \<Rightarrow> string) \<Rightarrow> sidebar_props \<Rightarrow> sidebar \<Rightarrow> string list \<Rightarrow> string \<Rightarrow> string sidebar_control view list" where
  "navEntries t props s permissions pathname =
     map (\<lambda>group. el ''group'' []
         (el ''grouplabel'' [] [Txt (t (group_label group))] #
          concat (map (\<lambda>item. menuButton props s (nav_active pathname item) (t (nav_label item))
              [(''aria-label'', t (nav_label item)), (''to'', nav_to item)] (nav_to item) [Txt (t (nav_label item))]) (group_items group))))
       (visibleNavGroups permissions)"

definition shellNavigation ::
  "(string \<Rightarrow> string) \<Rightarrow> sidebar_props \<Rightarrow> sidebar \<Rightarrow> string list \<Rightarrow> string \<Rightarrow> string sidebar_control view list" where
  "shellNavigation t props s permissions pathname =
     sidebarFrame ''left'' ''sidebar'' Offcanvas props s (navEntries t props s permissions pathname) @ [sidebarTrigger]"

text \<open>The destinations of a view.\<close>

definition destinations :: "'a sidebar_control view list \<Rightarrow> 'a set" where
  "destinations vs = {a. Inside a \<in> set (concat (map offered vs))}"

text \<open>On a narrow screen no destination is within reach while the sheet is closed, every destination within reach has its permission
  on any screen, and choosing one closes the sheet.\<close>

theorem narrow_navigation:
  "(sb_isMobile s \<and> \<not> sb_openMobile s \<longrightarrow> destinations (shellNavigation t props s permissions pathname) = {}) \<and>
   destinations (shellNavigation t props s permissions pathname) \<subseteq> nav_to ` set (concat (map group_items (visibleNavGroups permissions))) \<and>
   (sb_isMobile s \<longrightarrow> destinations (shellNavigation t props (fst (handle_sidebar props ChooseEntry s)) permissions pathname) = {})"
proof -
  have closed: "destinations (shellNavigation t props s' permissions pathname) = {}" if "sb_isMobile s'" "\<not> sb_openMobile s'" for s'
    using that by (auto simp: destinations_def shellNavigation_def sidebarFrame_def sidebarTrigger_def shown_if_def)
  moreover have "destinations (shellNavigation t props s permissions pathname) \<subseteq> nav_to ` set (concat (map group_items (visibleNavGroups permissions)))"
    by (auto simp: destinations_def shellNavigation_def sidebarFrame_def sidebarTrigger_def shown_if_def navEntries_def menuButton_def
        split: if_splits)
  ultimately show ?thesis by (simp add: handle_sidebar_def)
qed

lemma narrow_navigation_witness:
  "destinations (shellNavigation (\<lambda>key. key) shell_sidebar (mount_sidebar shell_sidebar True) [''tenant.read''] ''/'') = {}"
  using narrow_navigation [of "mount_sidebar shell_sidebar True" "\<lambda>key. key" shell_sidebar "[''tenant.read'']" "''/''"]
  by (simp add: mount_sidebar_def)

section \<open>The switches\<close>

text \<open>What is meant: two switches, of which the one of the present size of screen is flipped.\<close>

definition toggles :: "sidebar_action \<Rightarrow> bool" where
  "toggles a = (case a of ToggleFrame \<Rightarrow> True | KeyDown key meta ctrl \<Rightarrow> key = ''b'' \<and> (meta \<or> ctrl) | _ \<Rightarrow> False)"

fun wide_switch :: "bool \<Rightarrow> sidebar_action list \<Rightarrow> bool \<Rightarrow> bool" where
  "wide_switch mobile [] b = b"
| "wide_switch mobile (a # as) b =
     wide_switch (case a of MediaChange m \<Rightarrow> m | _ \<Rightarrow> mobile) as
       (case a of SetSidebar v \<Rightarrow> v | _ \<Rightarrow> if toggles a \<and> \<not> mobile then \<not> b else b)"

definition cookies_of :: "sidebar_effect list \<Rightarrow> string list" where
  "cookies_of es = concat (map (\<lambda>e. case e of SetCookie c \<Rightarrow> [c] | _ \<Rightarrow> []) es)"

lemma cookies_of_simps [simp]:
  "cookies_of [] = []" "cookies_of (SetCookie c # es) = c # cookies_of es" "cookies_of (OpenChange b # es) = cookies_of es"
  "cookies_of (PreventDefault # es) = cookies_of es" "cookies_of (es @ fs) = cookies_of es @ cookies_of fs"
  by (simp_all add: cookies_of_def)

lemma sidebar_step:
  "sb_open (fst (handle_sidebar shell_sidebar a s)) = (case a of SetSidebar v \<Rightarrow> v | _ \<Rightarrow> if toggles a \<and> \<not> sb_isMobile s then \<not> sb_open s else sb_open s) \<and>
   sb_isMobile (fst (handle_sidebar shell_sidebar a s)) = (case a of MediaChange m \<Rightarrow> m | _ \<Rightarrow> sb_isMobile s) \<and>
   (cookies_of (snd (handle_sidebar shell_sidebar a s)) = [] \<and> sb_open (fst (handle_sidebar shell_sidebar a s)) = sb_open s \<or>
    cookies_of (snd (handle_sidebar shell_sidebar a s)) = [sidebar_cookie (sb_open (fst (handle_sidebar shell_sidebar a s)))])"
  by (cases a)
    (auto simp: handle_sidebar_def toggle_sidebar_def set_open_def shell_sidebar_def sidebar_is_open_def toggles_def SIDEBAR_KEYBOARD_SHORTCUT_def Let_def)

text \<open>Over every sequence of clicks, keys and changes of the screen the sidebar of the shell is the wide switch, and the last cookie it wrote
  says how it is; but the cookie is not read by anything: mounted again, whatever it says, the sidebar is open.\<close>

theorem sidebar_forgotten:
  "let r = run_sidebar shell_sidebar as (mount_sidebar shell_sidebar matches) in
     sb_open (fst r) = wide_switch matches as True \<and>
     last (sidebar_cookie True # cookies_of (snd r)) = sidebar_cookie (sb_open (fst r)) \<and>
     sidebar_is_open shell_sidebar (mount_sidebar shell_sidebar matches')"
proof -
  have "sb_open (fst (run_sidebar shell_sidebar as s)) = wide_switch (sb_isMobile s) as (sb_open s) \<and>
      last (sidebar_cookie (sb_open s) # cookies_of (snd (run_sidebar shell_sidebar as s))) = sidebar_cookie (sb_open (fst (run_sidebar shell_sidebar as s)))" for s
  proof (induction as arbitrary: s)
    case (Cons a as)
    define s1 es where "s1 = fst (handle_sidebar shell_sidebar a s)" and "es = snd (handle_sidebar shell_sidebar a s)"
    have run: "fst (run_sidebar shell_sidebar (a # as) s) = fst (run_sidebar shell_sidebar as s1)"
      "cookies_of (snd (run_sidebar shell_sidebar (a # as) s)) = cookies_of es @ cookies_of (snd (run_sidebar shell_sidebar as s1))"
      by (simp_all add: s1_def es_def case_prod_beta Let_def)
    have "wide_switch (sb_isMobile s) (a # as) (sb_open s) = wide_switch (sb_isMobile s1) as (sb_open s1)"
      using sidebar_step [of a s] by (simp add: s1_def)
    moreover have "last (sidebar_cookie (sb_open s) # cookies_of es @ cs) = last (sidebar_cookie (sb_open s1) # cs)" for cs
      using sidebar_step [of a s] unfolding s1_def [symmetric] es_def [symmetric] by (elim conjE disjE) simp_all
    ultimately show ?case using Cons [of s1] unfolding run by simp
  qed simp
  from this [of "mount_sidebar shell_sidebar matches"] show ?thesis
    by (simp add: mount_sidebar_def shell_sidebar_def sidebar_is_open_def Let_def)
qed

end
