(* ===== verification/Captures.thy ===== *)
theory Captures
  imports Json
begin

text \<open>
  Regular expressions with capture groups, searched for in a text: the fragment of JavaScript's
  \<open>match\<close> and \<open>matchAll\<close> the scripts use. The matcher tries the alternatives in the order of the
  language (greedy repetitions first) and knows the character before the place it is at, which
  the anchors \<open>^\<close> (in multi-line mode) and \<open>\b\<close> look at. Both searches end: the functions are total.
\<close>

section \<open>Patterns\<close>

datatype cap_rx =
    CEmpty
  | CChar "char \<Rightarrow> bool"
  | CSeq cap_rx cap_rx
  | CAlt cap_rx cap_rx
  | CStar cap_rx
  | CGroup cap_rx
  | CLineStart
  | CLineEnd
  | CWordBoundary

definition CPlus :: "cap_rx \<Rightarrow> cap_rx" where
  "CPlus r = CSeq r (CStar r)"

primrec CLit :: "string \<Rightarrow> cap_rx" where
  "CLit [] = CEmpty"
| "CLit (c # s) = CSeq (CChar (\<lambda>d. d = c)) (CLit s)"

text \<open>A literal under the flag \<open>i\<close>.\<close>

primrec CLitI :: "string \<Rightarrow> cap_rx" where
  "CLitI [] = CEmpty"
| "CLitI (c # s) = CSeq (CChar (\<lambda>d. js_lower_char d = js_lower_char c)) (CLitI s)"

fun CSeqs :: "cap_rx list \<Rightarrow> cap_rx" where
  "CSeqs [] = CEmpty"
| "CSeqs (r # rs) = CSeq r (CSeqs rs)"

definition line_end :: "char \<Rightarrow> bool" where
  "line_end c \<longleftrightarrow> c = CHR 0x0A \<or> c = CHR 0x0D"

definition word_letter :: "char \<Rightarrow> bool" where
  "word_letter c \<longleftrightarrow> is_alnum c \<or> c = CHR ''_''"

section \<open>Matching at a place\<close>

text \<open>The character before the place after \<open>u\<close> has been consumed, and what is next to a place.\<close>

definition char_before :: "char option \<Rightarrow> string \<Rightarrow> char option" where
  "char_before p u = (if u = [] then p else Some (last u))"

definition next_char :: "string \<Rightarrow> char option" where
  "next_char s = (case s of [] \<Rightarrow> None | c # cs \<Rightarrow> Some c)"

definition holds_of :: "(char \<Rightarrow> bool) \<Rightarrow> char option \<Rightarrow> bool" where
  "holds_of P x = (case x of None \<Rightarrow> False | Some c \<Rightarrow> P c)"

text \<open>The matches at the start of \<open>s\<close>, best first: what is consumed, what the groups captured, and the rest.\<close>

function matches :: "cap_rx \<Rightarrow> char option \<Rightarrow> string \<Rightarrow> (string \<times> string list \<times> string) list" where
  "matches CEmpty p s = [([], [], s)]"
| "matches (CChar P) p s = (case s of [] \<Rightarrow> [] | c # cs \<Rightarrow> if P c then [([c], [], cs)] else [])"
| "matches (CSeq a b) p s =
     concat (map (\<lambda>(u, c, rest). map (\<lambda>(v, d, rest'). (u @ v, c @ d, rest')) (matches b (char_before p u) rest)) (matches a p s))"
| "matches (CAlt a b) p s = matches a p s @ matches b p s"
| "matches (CStar a) p s =
     concat (map (\<lambda>(u, c, rest).
         if length rest < length s then map (\<lambda>(v, d, rest'). (u @ v, c @ d, rest')) (matches (CStar a) (char_before p u) rest) else [])
       (matches a p s)) @ [([], [], s)]"
| "matches (CGroup a) p s = map (\<lambda>(u, c, rest). (u, u # c, rest)) (matches a p s)"
| "matches CLineStart p s = (if p = None \<or> holds_of line_end p then [([], [], s)] else [])"
| "matches CLineEnd p s = (if s = [] \<or> holds_of line_end (next_char s) then [([], [], s)] else [])"
| "matches CWordBoundary p s = (if holds_of word_letter p \<noteq> holds_of word_letter (next_char s) then [([], [], s)] else [])"
  by pat_completeness auto
termination
  by (relation "inv_image (less_than <*lex*> less_than) (\<lambda>(r, p, s). (size r, length s))") auto

declare matches.simps(5) [simp del]

section \<open>Searching\<close>

text \<open>\<open>source.match(r)\<close>: the groups of the first place that matches.\<close>

fun match_first :: "cap_rx \<Rightarrow> char option \<Rightarrow> string \<Rightarrow> string list option" where
  "match_first r p s =
     (case matches r p s of
        (u, c, rest) # _ \<Rightarrow> Some c
      | [] \<Rightarrow> (case s of [] \<Rightarrow> None | x # cs \<Rightarrow> match_first r (Some x) cs))"

declare match_first.simps [simp del]

definition rx_found :: "cap_rx \<Rightarrow> string \<Rightarrow> bool" where
  "rx_found r s \<longleftrightarrow> match_first r None s \<noteq> None"

text \<open>\<open>source.matchAll(r)\<close>: the search goes on after each match, a place further when it was empty.\<close>

function match_all :: "cap_rx \<Rightarrow> char option \<Rightarrow> string \<Rightarrow> string list list" where
  "match_all r p s =
     (case matches r p s of
        (u, c, rest) # _ \<Rightarrow>
          c # (if u \<noteq> [] \<and> length rest < length s then match_all r (char_before p u) rest
               else case s of [] \<Rightarrow> [] | x # cs \<Rightarrow> match_all r (Some x) cs)
      | [] \<Rightarrow> (case s of [] \<Rightarrow> [] | x # cs \<Rightarrow> match_all r (Some x) cs))"
  by pat_completeness auto
termination
  by (relation "measure (\<lambda>(r, p, s). length s)") auto

declare match_all.simps [simp del]

lemma matches_split: "(u, c, rest) \<in> set (matches r p s) \<Longrightarrow> u @ rest = s"
proof (induction r p s arbitrary: u c rest rule: matches.induct)
  case (3 a b p s)
  then show ?case by fastforce
next
  case (5 a p s)
  have "(u1 @ v) @ rest = s"
    if "(u1, c1, r1) \<in> set (matches a p s)" and "length r1 < length s" and "(v, d, rest) \<in> set (matches (CStar a) (char_before p u1) r1)"
    for u1 c1 r1 v d
    using 5(1) [OF that(1)] 5(2) [OF that(1) refl refl that(2,3)] by simp
  then show ?case using 5(3) unfolding matches.simps(5) [of a p s] by (auto split: if_splits)
qed (auto split: list.splits if_splits)

lemma matches_consume: "(u, c, rest) \<in> set (matches r p s) \<Longrightarrow> u \<noteq> [] \<Longrightarrow> length rest < length s"
  using matches_split by fastforce

end
