(* ===== verification/E2eCatalog.thy ===== *)
theory E2eCatalog
  imports Captures "HOL-Library.AList" "HOL-Library.Multiset" "HOL-Library.List_Lexorder" "HOL-Library.Char_ord"
begin

text \<open>
  The check of the end-to-end catalog (\<open>scripts/check-e2e-catalog.ts\<close>): the flows written in Markdown, the
  calls of \<open>flowStep\<close> in the specs, and the table of the README have to agree. The files are an
  argument; an error is a value of \<open>catalog_error\<close>, and what is printed is left out. The numbers in the
  sources are read as natural numbers.
  Theorem: a catalog is accepted exactly when the calls in the specs are the steps of the
  confirmed flows, each once, and the README has one row for each of these flows, with its steps, its
  spec and the tag of that spec.
\<close>

section \<open>Files and what is found in them\<close>

text \<open>The entries of the two directories, with their texts; \<open>cf_spec_file\<close> reads a file by its name in the directory of the specs.\<close>

record catalog_files =
  cf_flows :: "(string \<times> string) list"
  cf_specs :: "(string \<times> string) list"
  cf_readme :: "string option"
  cf_spec_file :: "string \<Rightarrow> string option"
  cf_runner :: string
  cf_playwright :: string

record e2e_flow =
  fw_id :: string
  fw_path :: string
  fw_steps :: "nat list"
  fw_draft :: bool

record spec_step =
  ss_flowId :: string
  ss_number :: nat
  ss_path :: string

record readme_row =
  rr_flowId :: string
  rr_spec :: string
  rr_stepPattern :: string
  rr_tier :: string
  rr_firstStep :: nat
  rr_lastStep :: nat

datatype (plugins only: code) catalog_error =
    NoId string | IdDiffers string string | DuplicateId string string | NoSteps string | StepOutOfOrder string nat nat
  | FlowCount nat | StepCount nat
  | RawToken string | UnknownFlow string string | StepOutOfRange string string nat nat | DuplicateStep string string string
  | MissingStep string | CallCount nat
  | NoReadme | NoRows | DuplicateRow string | UnknownRow string | RowInterval string nat nat nat | RowPattern string string
  | SpecMissing string | TierDiffers string string "string list" | SpecDiffers string string "string list"
  | RowMissing string | RowCount nat
  | CleanupMissing | TracesOn

definition EXPECTED_FLOWS :: nat where
  "EXPECTED_FLOWS = 20"

definition EXPECTED_STEPS :: nat where
  "EXPECTED_STEPS = 147"

definition CSpaces :: cap_rx where
  "CSpaces = CStar (CChar js_space)"

definition not_in :: "string \<Rightarrow> char \<Rightarrow> bool" where
  "not_in cs c \<longleftrightarrow> c \<notin> set cs"

definition quotes :: "string \<Rightarrow> cap_rx" where
  "quotes cs = CChar (\<lambda>c. c \<in> set cs)"

definition dquote_char :: char where
  "dquote_char = CHR 0x22"

definition squote_char :: char where
  "squote_char = CHR 0x27"

definition FLOW_ID :: cap_rx where
  "FLOW_ID = CSeqs [CLineStart, CLit ''id:'', CSpaces, CGroup (CPlus (CChar (\<lambda>c. \<not> js_space c))), CSpaces, CLineEnd]"

definition FLOW_STATUS :: cap_rx where
  "FLOW_STATUS = CSeqs [CLineStart, CLit ''status:'', CSpaces, CGroup (CAlt (CLit ''confirmed'') (CLit ''draft'')), CSpaces, CLineEnd]"

definition FLOW_STEP :: cap_rx where
  "FLOW_STEP =
     CSeqs [CLineStart, CGroup (CPlus (CChar is_digit)), CLit ''.'', CPlus (CChar js_space), CLit ''(`'', CPlus (CChar (not_in ''`'')), CLit ''`)'',
       CPlus (CChar js_space)]"

definition TOKEN_MATCHER :: cap_rx where
  "TOKEN_MATCHER =
     CSeqs [CLitI ''.to'', CAlt (CLitI ''HaveValue'') (CAlt (CLitI ''Equal'') (CLitI ''Be'')), CLit ''('',
       CStar (CChar (not_in [CHR 0x0A, CHR '')''])), CWordBoundary, CLitI ''token'', CWordBoundary]"

definition FLOW_CALL :: cap_rx where
  "FLOW_CALL =
     CSeqs [CWordBoundary, CLit ''flowStep('', CSpaces,
       quotes [dquote_char, squote_char], CGroup (CPlus (CChar (not_in [dquote_char, squote_char]))), quotes [dquote_char, squote_char],
       CSpaces, CLit '','', CSpaces, CGroup (CPlus (CChar is_digit)), CSpaces, CLit '','', CSpaces,
       quotes [dquote_char, squote_char, CHR ''`''], CPlus (CChar (not_in [dquote_char, squote_char, CHR ''`''])),
       quotes [dquote_char, squote_char, CHR ''`''], CSpaces, CLit '','']"

definition code_cell :: "cap_rx \<Rightarrow> cap_rx" where
  "code_cell r = CSeqs [CLit ''|'', CSpaces, CLit ''`'', CGroup r, CLit ''`'', CSpaces]"

definition README_ROW :: cap_rx where
  "README_ROW =
     CSeqs [CLineStart, code_cell (CPlus (CChar (not_in ''`''))), code_cell (CSeq (CPlus (CChar (not_in ''`''))) (CLit ''.e2e.test.ts'')),
       code_cell (CPlus (CChar (not_in ''`''))), code_cell (CAlt (CLit ''pr-critical'') (CLit ''full'')),
       CLit ''|'', CSpaces, CGroup (CPlus (CChar is_digit)), CSpaces, quotes [CHR 0x96, CHR ''-''], CSpaces, CGroup (CPlus (CChar is_digit)), CSpaces,
       CLit ''|'', CLineEnd]"

definition SPEC_TAG :: cap_rx where
  "SPEC_TAG =
     CSeqs [CWordBoundary, CLit ''tag:'', CSpaces, quotes [dquote_char, squote_char], CLit ''@'', CGroup (CAlt (CLit ''pr-critical'') (CLit ''full'')),
       quotes [dquote_char, squote_char]]"

definition TRACE_OFF :: cap_rx where
  "TRACE_OFF = CSeqs [CWordBoundary, CLit ''trace:'', CSpaces, quotes [dquote_char, squote_char], CLit ''off'', quotes [dquote_char, squote_char]]"

definition CLEANUP :: string where
  "CLEANUP =
     ''find '' @ [dquote_char] @ ''$output_dir'' @ [dquote_char] @ '' -type f -name '' @ [squote_char] @ ''error-context.md'' @ [squote_char] @ '' -delete''"

section \<open>The flows\<close>

definition err_if :: "bool \<Rightarrow> catalog_error \<Rightarrow> catalog_error list" where
  "err_if b e = (if b then [e] else [])"

definition listed :: "string \<Rightarrow> (string \<times> string) list \<Rightarrow> (string \<times> string) list" where
  "listed ext entries = sort_key fst (filter (\<lambda>e. js_ends_with (fst e) ext) entries)"

definition flow_id :: "string \<Rightarrow> string option" where
  "flow_id source = map_option hd (match_first FLOW_ID None source)"

definition flow_steps :: "string \<Rightarrow> nat list" where
  "flow_steps source = map (\<lambda>m. digits_value (hd m)) (match_all FLOW_STEP None source)"

definition flow_draft :: "string \<Rightarrow> bool" where
  "flow_draft source \<longleftrightarrow> map_option hd (match_first FLOW_STATUS None source) = Some ''draft''"

definition out_of_order :: "string \<Rightarrow> nat list \<Rightarrow> catalog_error list" where
  "out_of_order path steps = concat (map (\<lambda>(index, number). err_if (number \<noteq> index + 1) (StepOutOfOrder path number (index + 1))) (enumerate 0 steps))"

definition flow_name :: "string \<Rightarrow> string" where
  "flow_name name = take (length name - 3) name"

definition read_flow ::
  "string \<times> string \<Rightarrow> (string \<times> e2e_flow) list \<times> catalog_error list \<Rightarrow> (string \<times> e2e_flow) list \<times> catalog_error list" where
  "read_flow entry acc =
     (let (name, source) = entry; (flows, errs) = acc in
      case flow_id source of
        None \<Rightarrow> (flows, errs @ [NoId name])
      | Some i \<Rightarrow>
          let steps = flow_steps source in
          (AList.update i \<lparr>fw_id = i, fw_path = name, fw_steps = steps, fw_draft = flow_draft source\<rparr> flows,
           errs @ err_if (i \<noteq> flow_name name) (IdDiffers name i) @ err_if (map_of flows i \<noteq> None) (DuplicateId name i) @
             err_if (steps = []) (NoSteps name) @ out_of_order name steps))"

definition readFlows :: "(string \<times> string) list \<Rightarrow> (string \<times> e2e_flow) list \<times> catalog_error list" where
  "readFlows entries = fold read_flow (listed ''.md'' entries) ([], [])"

definition confirmed :: "(string \<times> e2e_flow) list \<Rightarrow> (string \<times> e2e_flow) list" where
  "confirmed flows = filter (\<lambda>(i, f). \<not> fw_draft f) flows"

section \<open>The specs\<close>

definition spec_calls :: "string \<times> string \<Rightarrow> spec_step list" where
  "spec_calls entry =
     map (\<lambda>m. \<lparr>ss_flowId = hd m, ss_number = digits_value (m ! 1), ss_path = fst entry\<rparr>) (match_all FLOW_CALL None (snd entry))"

definition readSpecSteps :: "(string \<times> string) list \<Rightarrow> spec_step list \<times> catalog_error list" where
  "readSpecSteps entries =
     (let specs = listed ''.e2e.test.ts'' entries in
      (concat (map spec_calls specs), concat (map (\<lambda>(name, source). err_if (rx_found TOKEN_MATCHER source) (RawToken name)) specs)))"

definition step_key :: "string \<Rightarrow> nat \<Rightarrow> string" where
  "step_key i n = i @ ''#'' @ show_nat n"

definition check_step ::
  "(string \<times> e2e_flow) list \<Rightarrow> spec_step \<Rightarrow> (string \<times> string) list \<times> catalog_error list \<Rightarrow> (string \<times> string) list \<times> catalog_error list" where
  "check_step flows step acc =
     (let (owners, errs) = acc in
      case map_of flows (ss_flowId step) of
        None \<Rightarrow> (owners, errs @ [UnknownFlow (ss_path step) (ss_flowId step)])
      | Some flow \<Rightarrow>
          let errs = errs @ err_if (ss_number step < 1 \<or> ss_number step > length (fw_steps flow))
                (StepOutOfRange (ss_path step) (ss_flowId step) (ss_number step) (length (fw_steps flow)));
              key = step_key (ss_flowId step) (ss_number step) in
          case map_of owners key of
            Some owner \<Rightarrow> (owners, errs @ [DuplicateStep (ss_path step) key owner])
          | None \<Rightarrow> (AList.update key (ss_path step) owners, errs))"

definition check_steps :: "(string \<times> e2e_flow) list \<Rightarrow> spec_step list \<Rightarrow> (string \<times> string) list \<times> catalog_error list" where
  "check_steps flows steps = fold (check_step flows) steps ([], [])"

definition missing_steps :: "(string \<times> e2e_flow) list \<Rightarrow> (string \<times> string) list \<Rightarrow> catalog_error list" where
  "missing_steps flows owners =
     concat (map (\<lambda>(i, flow). concat (map (\<lambda>n. let key = step_key (fw_id flow) n in err_if (map_of owners key = None) (MissingStep key)) (fw_steps flow))) flows)"

section \<open>The README\<close>

definition readme_row_of :: "string list \<Rightarrow> readme_row" where
  "readme_row_of m =
     \<lparr>rr_flowId = m ! 0, rr_spec = m ! 1, rr_stepPattern = m ! 2, rr_tier = m ! 3,
      rr_firstStep = digits_value (m ! 4), rr_lastStep = digits_value (m ! 5)\<rparr>"

definition readReadme :: "string option \<Rightarrow> readme_row list \<times> catalog_error list" where
  "readReadme readme =
     (case readme of
        None \<Rightarrow> ([], [NoReadme])
      | Some source \<Rightarrow> let rows = map readme_row_of (match_all README_ROW None source) in (rows, err_if (rows = []) NoRows))"

definition step_pattern :: "string \<Rightarrow> string" where
  "step_pattern i = ''['' @ i @ ''#N] t'' @ [CHR 0xED] @ ''tulo''"

definition spec_tiers :: "string \<Rightarrow> string list" where
  "spec_tiers source = map hd (match_all SPEC_TAG None source)"

definition mapped_specs :: "spec_step list \<Rightarrow> string \<Rightarrow> string list" where
  "mapped_specs steps i = remdups (map ss_path (filter (\<lambda>step. ss_flowId step = i) steps))"

definition row_errors :: "catalog_files \<Rightarrow> spec_step list \<Rightarrow> e2e_flow \<Rightarrow> readme_row \<Rightarrow> catalog_error list" where
  "row_errors files steps flow row =
     (let i = rr_flowId row; mapped = mapped_specs steps i in
      err_if (rr_firstStep row \<noteq> 1 \<or> rr_lastStep row \<noteq> length (fw_steps flow)) (RowInterval i (rr_firstStep row) (rr_lastStep row) (length (fw_steps flow))) @
      err_if (rr_stepPattern row \<noteq> step_pattern i) (RowPattern i (rr_stepPattern row)) @
      (case cf_spec_file files (rr_spec row) of
         None \<Rightarrow> [SpecMissing (rr_spec row)]
       | Some source \<Rightarrow>
           let tiers = spec_tiers source in
           err_if (length tiers \<noteq> 1 \<or> hd tiers \<noteq> rr_tier row) (TierDiffers i (rr_tier row) tiers)) @
      err_if (length mapped \<noteq> 1 \<or> rr_spec row \<notin> set mapped) (SpecDiffers i (rr_spec row) mapped))"

definition check_row ::
  "catalog_files \<Rightarrow> (string \<times> e2e_flow) list \<Rightarrow> spec_step list \<Rightarrow> readme_row \<Rightarrow> string list \<times> catalog_error list \<Rightarrow> string list \<times> catalog_error list" where
  "check_row files flows steps row acc =
     (let (seen, errs) = acc; errs = errs @ err_if (rr_flowId row \<in> set seen) (DuplicateRow (rr_flowId row));
        seen = (if rr_flowId row \<in> set seen then seen else seen @ [rr_flowId row]) in
      case map_of flows (rr_flowId row) of
        None \<Rightarrow> (seen, errs @ [UnknownRow (rr_flowId row)])
      | Some flow \<Rightarrow> (seen, errs @ row_errors files steps flow row))"

definition check_rows :: "catalog_files \<Rightarrow> (string \<times> e2e_flow) list \<Rightarrow> spec_step list \<Rightarrow> readme_row list \<Rightarrow> string list \<times> catalog_error list" where
  "check_rows files flows steps rows = fold (check_row files flows steps) rows ([], [])"

section \<open>The check\<close>

record catalog_summary =
  cs_flows :: nat
  cs_steps :: nat
  cs_critical :: nat
  cs_full :: nat
  cs_drafts :: nat

definition tier_count :: "string \<Rightarrow> readme_row list \<Rightarrow> nat" where
  "tier_count tier rows = length (filter (\<lambda>row. rr_tier row = tier) rows)"

definition catalog_errors :: "catalog_files \<Rightarrow> catalog_error list" where
  "catalog_errors files =
     (let (allFlows, flowErrors) = readFlows (cf_flows files); flows = confirmed allFlows;
          total = sum_list (map (\<lambda>(i, f). length (fw_steps f)) flows);
          (steps, specErrors) = readSpecSteps (cf_specs files);
          (owners, stepErrors) = check_steps flows steps;
          (rows, readmeErrors) = readReadme (cf_readme files);
          (seen, rowErrors) = check_rows files flows steps rows in
      flowErrors @ err_if (length flows \<noteq> EXPECTED_FLOWS) (FlowCount (length flows)) @ err_if (total \<noteq> EXPECTED_STEPS) (StepCount total) @
      specErrors @ stepErrors @ missing_steps flows owners @ err_if (length steps \<noteq> EXPECTED_STEPS) (CallCount (length steps)) @
      readmeErrors @ rowErrors @ concat (map (\<lambda>(i, f). err_if (fw_id f \<notin> set seen) (RowMissing (fw_id f))) flows) @
      err_if (length rows \<noteq> EXPECTED_FLOWS) (RowCount (length rows)) @
      err_if (\<not> js_includes (cf_runner files) CLEANUP) CleanupMissing @ err_if (\<not> rx_found TRACE_OFF (cf_playwright files)) TracesOn)"

definition check_e2e_catalog :: "catalog_files \<Rightarrow> catalog_error list + catalog_summary" where
  "check_e2e_catalog files =
     (let errs = catalog_errors files; allFlows = fst (readFlows (cf_flows files)); rows = fst (readReadme (cf_readme files)) in
      if errs \<noteq> [] then Inl errs
      else Inr \<lparr>cs_flows = length (confirmed allFlows), cs_steps = length (fst (readSpecSteps (cf_specs files))),
                cs_critical = tier_count ''pr-critical'' rows, cs_full = tier_count ''full'' rows,
                cs_drafts = length (filter (\<lambda>(i, f). fw_draft f) allFlows)\<rparr>)"

section \<open>What an accepted catalog is\<close>

lemma err_if_Nil [simp]: "err_if b e = [] \<longleftrightarrow> \<not> b"
  by (simp add: err_if_def)

definition flow_of :: "string \<times> string \<Rightarrow> string \<times> e2e_flow" where
  "flow_of entry =
     (flow_name (fst entry),
      \<lparr>fw_id = flow_name (fst entry), fw_path = fst entry, fw_steps = flow_steps (snd entry), fw_draft = flow_draft (snd entry)\<rparr>)"

definition flow_file_ok :: "string \<times> string \<Rightarrow> bool" where
  "flow_file_ok entry \<longleftrightarrow>
     flow_id (snd entry) = Some (flow_name (fst entry)) \<and> flow_steps (snd entry) \<noteq> [] \<and>
     flow_steps (snd entry) = [1 ..< Suc (length (flow_steps (snd entry)))]"

lemma out_of_order_Nil: "out_of_order path steps = [] \<longleftrightarrow> steps = [1 ..< Suc (length steps)]"
proof -
  have "out_of_order path steps = [] \<longleftrightarrow> (\<forall>x \<in> set (enumerate 0 steps). snd x = Suc (fst x))"
    by (simp add: out_of_order_def case_prod_beta)
  also have "\<dots> \<longleftrightarrow> (\<forall>k < length steps. steps ! k = Suc k)"
    by (simp add: all_set_conv_all_nth nth_enumerate_eq)
  also have "\<dots> \<longleftrightarrow> steps = [1 ..< Suc (length steps)]"
    by (subst list_eq_iff_nth_eq) (simp add: nth_upt del: upt_Suc)
  finally show ?thesis .
qed

lemma update_new: "map_of xs k = None \<Longrightarrow> AList.update k v xs = xs @ [(k, v)]"
  by (induction xs) (auto split: if_splits)

lemma map_of_None_iff: "map_of xs k = None \<longleftrightarrow> k \<notin> set (map fst xs)"
  by (simp add: map_of_eq_None_iff)

text \<open>
  The three loops of the check have one shape: they go over a list, keep the entry of each element under a
  key, and report an element that is not good in itself or whose key was there before.
\<close>

locale first_come =
  fixes step :: "'x \<Rightarrow> 'b list \<times> 'e list \<Rightarrow> 'b list \<times> 'e list"
    and good :: "'x \<Rightarrow> bool"
    and added :: "'x \<Rightarrow> 'b"
    and key :: "'b \<Rightarrow> 'k"
  assumes step_silent: "snd (step x (acc, errs)) = [] \<longleftrightarrow> errs = [] \<and> good x \<and> key (added x) \<notin> key ` set acc"
    and step_adds: "good x \<Longrightarrow> key (added x) \<notin> key ` set acc \<Longrightarrow> fst (step x (acc, errs)) = acc @ [added x]"
begin

lemma loop_silent:
  "snd (fold step xs (acc, errs)) = [] \<longleftrightarrow>
     errs = [] \<and> list_all good xs \<and> distinct (map (\<lambda>x. key (added x)) xs) \<and> set (map (\<lambda>x. key (added x)) xs) \<inter> key ` set acc = {}"
proof (induction xs arbitrary: acc errs)
  case (Cons x xs)
  obtain acc' errs' where step: "step x (acc, errs) = (acc', errs')" by fastforce
  have errs': "errs' = [] \<longleftrightarrow> errs = [] \<and> good x \<and> key (added x) \<notin> key ` set acc"
    using step_silent [of x acc errs] step by simp
  show ?case
  proof (cases "errs' = []")
    case True
    then have "acc' = acc @ [added x]" using errs' step_adds [of x acc errs] step by simp
    then show ?thesis using True errs' Cons [of acc' errs'] step by auto
  next
    case False
    then show ?thesis using errs' Cons [of acc' errs'] step by auto
  qed
qed simp

lemma loop_adds: "snd (fold step xs (acc, errs)) = [] \<Longrightarrow> fst (fold step xs (acc, errs)) = acc @ map added xs"
proof (induction xs arbitrary: acc errs)
  case (Cons x xs)
  obtain acc' errs' where step: "step x (acc, errs) = (acc', errs')" by fastforce
  then have "errs' = []" using Cons.prems loop_silent [of xs acc' errs'] by simp
  then have "acc' = acc @ [added x]"
    using step_silent [of x acc errs] step_adds [of x acc errs] step by simp
  then show ?case using Cons step by simp
qed simp

end

interpretation flow_loop: first_come read_flow flow_file_ok flow_of fst
proof
  fix e acc errs
  show "snd (read_flow e (acc, errs)) = [] \<longleftrightarrow> errs = [] \<and> flow_file_ok e \<and> fst (flow_of e) \<notin> fst ` set acc"
    by (cases e; cases "flow_id (snd e)")
      (auto simp: read_flow_def flow_file_ok_def flow_of_def out_of_order_Nil Let_def map_of_eq_None_iff)
  show "fst (read_flow e (acc, errs)) = acc @ [flow_of e]" if "flow_file_ok e" "fst (flow_of e) \<notin> fst ` set acc"
    using that by (cases e) (simp add: read_flow_def flow_file_ok_def flow_of_def Let_def update_new map_of_eq_None_iff)
qed

section \<open>The steps\<close>

definition step_fits :: "(string \<times> e2e_flow) list \<Rightarrow> spec_step \<Rightarrow> bool" where
  "step_fits flows step \<longleftrightarrow>
     (case map_of flows (ss_flowId step) of None \<Rightarrow> False | Some flow \<Rightarrow> 1 \<le> ss_number step \<and> ss_number step \<le> length (fw_steps flow))"

definition key_of :: "spec_step \<Rightarrow> string" where
  "key_of step = step_key (ss_flowId step) (ss_number step)"

definition owner_of :: "spec_step \<Rightarrow> string \<times> string" where
  "owner_of step = (key_of step, ss_path step)"

interpretation step_loop: first_come "check_step flows" "step_fits flows" owner_of fst for flows
proof
  fix step acc errs
  show "snd (check_step flows step (acc, errs)) = [] \<longleftrightarrow> errs = [] \<and> step_fits flows step \<and> fst (owner_of step) \<notin> fst ` set acc"
    by (auto simp: check_step_def step_fits_def owner_of_def key_of_def Let_def map_of_eq_None_iff [symmetric] split: option.splits)
  show "fst (check_step flows step (acc, errs)) = acc @ [owner_of step]" if "step_fits flows step" "fst (owner_of step) \<notin> fst ` set acc"
    using that
    by (auto simp: check_step_def step_fits_def owner_of_def key_of_def Let_def map_of_eq_None_iff [symmetric] update_new split: option.splits)
qed

definition step_pair :: "spec_step \<Rightarrow> string \<times> nat" where
  "step_pair step = (ss_flowId step, ss_number step)"

text \<open>The steps of the flows, each with the flow it is of.\<close>

definition steps_of :: "(string \<times> e2e_flow) list \<Rightarrow> (string \<times> nat) list" where
  "steps_of flows = concat (map (\<lambda>(i, f). map (Pair i) [1 ..< Suc (length (fw_steps f))]) flows)"

lemma step_key_inject [simp]: "step_key i m = step_key j n \<longleftrightarrow> i = j \<and> m = n"
proof
  assume eq: "step_key i m = step_key j n"
  have "\<not> is_digit (CHR ''#'')" by code_simp
  then have no: "\<And>k. CHR ''#'' \<notin> set (rev (show_nat k))" by (simp add: show_nat_no_char)
  then have split: "takeWhile (\<lambda>c. c \<noteq> CHR ''#'') (rev (step_key i k)) = rev (show_nat k)" for i k
    by (simp add: step_key_def) (subst takeWhile_append2; auto)
  have "rev (show_nat m) = rev (show_nat n)" using split [of i m] split [of j n] eq by simp
  then have "m = n" by simp
  then show "i = j \<and> m = n" using eq by (simp add: step_key_def)
qed simp

definition good_flows :: "(string \<times> e2e_flow) list \<Rightarrow> bool" where
  "good_flows flows \<longleftrightarrow> distinct (map fst flows) \<and>
     (\<forall>(i, f) \<in> set flows. fw_id f = i \<and> fw_steps f \<noteq> [] \<and> fw_steps f = [1 ..< Suc (length (fw_steps f))])"

lemma steps_of_set: "set (steps_of flows) = {(i, n). \<exists>f. (i, f) \<in> set flows \<and> 1 \<le> n \<and> n \<le> length (fw_steps f)}"
proof -
  have "set (steps_of flows) = (\<Union>(i, f) \<in> set flows. Pair i ` {1 ..< Suc (length (fw_steps f))})"
    by (auto simp: steps_of_def simp del: upt_Suc)
  then show ?thesis by (auto simp: less_Suc_eq_le)
qed

lemma in_steps_of: "(i, n) \<in> set (steps_of flows) \<longleftrightarrow> (\<exists>f. (i, f) \<in> set flows \<and> 1 \<le> n \<and> n \<le> length (fw_steps f))"
  by (simp add: steps_of_set)

lemma distinct_steps_of: "distinct (map fst flows) \<Longrightarrow> distinct (steps_of flows)"
proof (induction flows)
  case (Cons x flows)
  obtain i f where x: "x = (i, f)" by fastforce
  have rest: "steps_of (x # flows) = map (Pair i) [1 ..< Suc (length (fw_steps f))] @ steps_of flows"
    by (simp add: steps_of_def x)
  have "set (map (Pair i) [1 ..< Suc (length (fw_steps f))]) \<inter> set (steps_of flows) = {}"
    using Cons.prems by (force simp: in_steps_of x)
  then show ?case using Cons by (simp add: rest distinct_map inj_on_def del: upt_Suc)
qed (simp add: steps_of_def)

lemma step_fits_iff:
  assumes "good_flows flows"
  shows "step_fits flows step \<longleftrightarrow> step_pair step \<in> set (steps_of flows)"
proof -
  have "distinct (map fst flows)" using assms by (simp add: good_flows_def)
  then have entry: "(i, f) \<in> set flows \<longleftrightarrow> map_of flows i = Some f" for i f by simp
  show ?thesis unfolding step_fits_def step_pair_def in_steps_of entry by (simp split: option.split)
qed

lemma missing_steps_Nil:
  assumes "good_flows flows"
  shows "missing_steps flows (map owner_of steps) = [] \<longleftrightarrow> set (steps_of flows) \<subseteq> set (map step_pair steps)"
proof -
  have owners: "map_of (map owner_of steps) (step_key i n) = None \<longleftrightarrow> (i, n) \<notin> set (map step_pair steps)" for i n
    by (auto simp: map_of_eq_None_iff owner_of_def key_of_def step_pair_def image_iff)
  have fields: "fw_id f = i \<and> (n \<in> set (fw_steps f) \<longleftrightarrow> 1 \<le> n \<and> n \<le> length (fw_steps f))" if "(i, f) \<in> set flows" for i f n
  proof -
    from assms that have "fw_id f = i" and steps: "fw_steps f = [1 ..< Suc (length (fw_steps f))]" by (auto simp: good_flows_def)
    moreover have "n \<in> set (fw_steps f) \<longleftrightarrow> 1 \<le> n \<and> n \<le> length (fw_steps f)"
      by (subst steps) (simp add: less_Suc_eq_le del: upt_Suc)
    ultimately show ?thesis by blast
  qed
  have "missing_steps flows (map owner_of steps) = [] \<longleftrightarrow>
      (\<forall>x \<in> set flows. \<forall>n \<in> set (fw_steps (snd x)). (fw_id (snd x), n) \<in> set (map step_pair steps))"
    by (simp add: missing_steps_def owners Let_def case_prod_beta)
  also have "\<dots> \<longleftrightarrow> (\<forall>x \<in> set flows. \<forall>n. 1 \<le> n \<and> n \<le> length (fw_steps (snd x)) \<longrightarrow> (fst x, n) \<in> set (map step_pair steps))"
    using fields by (intro ball_cong) (auto simp: prod_eq_iff)
  also have "\<dots> \<longleftrightarrow> set (steps_of flows) \<subseteq> set (map step_pair steps)"
    unfolding steps_of_set subset_iff Ball_def split_paired_All by (simp del: set_map) blast
  finally show ?thesis .
qed

lemma steps_checked:
  assumes "good_flows flows"
  shows "list_all (step_fits flows) steps \<and> distinct (map key_of steps) \<and> missing_steps flows (map owner_of steps) = [] \<longleftrightarrow>
    mset (map step_pair steps) = mset (steps_of flows)"
proof -
  have "map key_of steps = map (\<lambda>(i, n). step_key i n) (map step_pair steps)"
    by (simp add: key_of_def step_pair_def)
  moreover have "inj_on (\<lambda>(i, n). step_key i n) A" for A by (auto simp: inj_on_def)
  ultimately have keys: "distinct (map key_of steps) \<longleftrightarrow> distinct (map step_pair steps)" by (simp only: distinct_map) simp
  have d: "distinct (steps_of flows)" using assms by (simp add: good_flows_def distinct_steps_of)
  have "list_all (step_fits flows) steps \<longleftrightarrow> set (map step_pair steps) \<subseteq> set (steps_of flows)"
    using step_fits_iff [OF assms] by (auto simp: list_all_iff)
  then have "list_all (step_fits flows) steps \<and> distinct (map key_of steps) \<and> missing_steps flows (map owner_of steps) = [] \<longleftrightarrow>
      distinct (map step_pair steps) \<and> set (map step_pair steps) = set (steps_of flows)"
    using keys missing_steps_Nil [OF assms] by blast
  also have "\<dots> \<longleftrightarrow> mset (map step_pair steps) = mset (steps_of flows)"
    using d set_eq_iff_mset_eq_distinct [of "map step_pair steps" "steps_of flows"] mset_eq_imp_distinct_iff by blast
  finally show ?thesis .
qed

section \<open>The rows\<close>

definition row_good :: "catalog_files \<Rightarrow> (string \<times> e2e_flow) list \<Rightarrow> spec_step list \<Rightarrow> readme_row \<Rightarrow> bool" where
  "row_good files flows steps row \<longleftrightarrow>
     (case map_of flows (rr_flowId row) of None \<Rightarrow> False | Some flow \<Rightarrow> row_errors files steps flow row = [])"

interpretation row_loop: first_come "check_row files flows steps" "row_good files flows steps" rr_flowId "\<lambda>i. i" for files flows steps
proof
  fix row acc errs
  show "snd (check_row files flows steps row (acc, errs)) = [] \<longleftrightarrow> errs = [] \<and> row_good files flows steps row \<and> rr_flowId row \<notin> (\<lambda>i. i) ` set acc"
    by (auto simp: check_row_def row_good_def Let_def split: option.splits)
  show "fst (check_row files flows steps row (acc, errs)) = acc @ [rr_flowId row]"
    if "row_good files flows steps row" "rr_flowId row \<notin> (\<lambda>i. i) ` set acc"
    using that by (auto simp: check_row_def row_good_def Let_def split: option.splits)
qed

text \<open>A row has the interval of its flow, the pattern, the tag of its spec, and all calls of the flow are in that spec.\<close>

definition row_fits :: "catalog_files \<Rightarrow> (string \<times> e2e_flow) list \<Rightarrow> spec_step list \<Rightarrow> readme_row \<Rightarrow> bool" where
  "row_fits files flows steps row \<longleftrightarrow>
     rr_firstStep row = 1 \<and> map_option (\<lambda>f. length (fw_steps f)) (map_of flows (rr_flowId row)) = Some (rr_lastStep row) \<and>
     rr_stepPattern row = step_pattern (rr_flowId row) \<and>
     map_option spec_tiers (cf_spec_file files (rr_spec row)) = Some [rr_tier row] \<and>
     ss_path ` {step \<in> set steps. ss_flowId step = rr_flowId row} = {rr_spec row}"

lemma single_member: "length (remdups xs) = 1 \<and> x \<in> set xs \<longleftrightarrow> set xs = {x}"
proof -
  have "length (remdups xs) = card (set xs)" by (simp add: length_remdups_card_conv)
  then show ?thesis by (auto simp: card_1_singleton_iff)
qed

lemma mapped_single:
  "length (mapped_specs steps i) = 1 \<and> p \<in> set (mapped_specs steps i) \<longleftrightarrow> ss_path ` {step \<in> set steps. ss_flowId step = i} = {p}"
proof -
  have "set (map ss_path (filter (\<lambda>step. ss_flowId step = i) steps)) = ss_path ` {step \<in> set steps. ss_flowId step = i}" by auto
  then show ?thesis using single_member [of "map ss_path (filter (\<lambda>step. ss_flowId step = i) steps)" p]
    by (simp add: mapped_specs_def)
qed

lemma single_list: "length xs = 1 \<and> hd xs = x \<longleftrightarrow> xs = [x]"
  by (cases xs) auto

lemma row_good_iff: "row_good files flows steps row \<longleftrightarrow> row_fits files flows steps row"
proof (cases "map_of flows (rr_flowId row)")
  case None
  then show ?thesis by (simp add: row_good_def row_fits_def)
next
  case (Some flow)
  have "row_errors files steps flow row = [] \<longleftrightarrow>
      rr_firstStep row = 1 \<and> rr_lastStep row = length (fw_steps flow) \<and> rr_stepPattern row = step_pattern (rr_flowId row) \<and>
      (case cf_spec_file files (rr_spec row) of None \<Rightarrow> False | Some source \<Rightarrow> length (spec_tiers source) = 1 \<and> hd (spec_tiers source) = rr_tier row) \<and>
      length (mapped_specs steps (rr_flowId row)) = 1 \<and> rr_spec row \<in> set (mapped_specs steps (rr_flowId row))"
    by (auto simp: row_errors_def Let_def split: option.splits)
  then show ?thesis
    unfolding mapped_single single_list using Some by (auto simp: row_good_def row_fits_def split: option.splits)
qed

lemma row_fits_flow: "row_fits files flows steps row \<Longrightarrow> rr_flowId row \<in> fst ` set flows"
proof -
  assume "row_fits files flows steps row"
  then obtain z where "map_of flows (rr_flowId row) = Some z" by (auto simp: row_fits_def)
  then show ?thesis by (metis map_of_SomeD fst_conv image_eqI)
qed

lemma rows_checked:
  assumes "distinct (map fst flows)"
  shows "list_all (row_good files flows steps) rows \<and> distinct (map rr_flowId rows) \<and> set (map fst flows) \<subseteq> set (map rr_flowId rows) \<longleftrightarrow>
    mset (map rr_flowId rows) = mset (map fst flows) \<and> list_all (row_fits files flows steps) rows"
proof -
  have "list_all (row_fits files flows steps) rows \<Longrightarrow> set (map rr_flowId rows) \<subseteq> set (map fst flows)"
    using row_fits_flow [of files flows steps] by (simp add: list_all_iff image_subset_iff)
  moreover have "distinct (map rr_flowId rows) \<and> set (map rr_flowId rows) = set (map fst flows) \<longleftrightarrow> mset (map rr_flowId rows) = mset (map fst flows)"
    using assms set_eq_iff_mset_eq_distinct [of "map rr_flowId rows" "map fst flows"] mset_eq_imp_distinct_iff by blast
  ultimately show ?thesis unfolding row_good_iff by blast
qed

section \<open>Acceptance\<close>

definition readme_rows :: "catalog_files \<Rightarrow> readme_row list" where
  "readme_rows files = (case cf_readme files of None \<Rightarrow> [] | Some source \<Rightarrow> map readme_row_of (match_all README_ROW None source))"

lemma good_flow_files: "list_all flow_file_ok entries \<Longrightarrow> distinct (map (\<lambda>e. fst (flow_of e)) entries) \<Longrightarrow> good_flows (confirmed (map flow_of entries))"
proof -
  assume ok: "list_all flow_file_ok entries" and d: "distinct (map (\<lambda>e. fst (flow_of e)) entries)"
  have "distinct (map fst (map flow_of entries))" using d by (simp add: comp_def)
  then have "distinct (map fst (confirmed (map flow_of entries)))" by (simp add: confirmed_def distinct_map_filter)
  moreover have "fw_id f = i \<and> fw_steps f \<noteq> [] \<and> fw_steps f = [1 ..< Suc (length (fw_steps f))]" if "(i, f) \<in> set (map flow_of entries)" for i f
    using that ok by (auto simp: flow_of_def flow_file_ok_def list_all_iff simp del: upt_Suc)
  ultimately show ?thesis by (auto simp: good_flows_def confirmed_def simp del: upt_Suc)
qed

lemma length_steps_of: "length (steps_of flows) = sum_list (map (\<lambda>(i, f). length (fw_steps f)) flows)"
  by (simp add: steps_of_def length_concat comp_def case_prod_unfold del: upt_Suc)

text \<open>The parts of the check that are under way once the flow files are in order.\<close>

lemma steps_part:
  assumes "good_flows flows"
  shows "snd (check_steps flows steps) = [] \<and> missing_steps flows (fst (check_steps flows steps)) = [] \<longleftrightarrow>
    mset (map step_pair steps) = mset (steps_of flows)"
proof -
  have silent: "snd (check_steps flows steps) = [] \<longleftrightarrow> list_all (step_fits flows) steps \<and> distinct (map key_of steps)"
    unfolding check_steps_def by (simp add: step_loop.loop_silent owner_of_def)
  have "snd (check_steps flows steps) = [] \<Longrightarrow> fst (check_steps flows steps) = map owner_of steps"
    unfolding check_steps_def using step_loop.loop_adds [of flows steps "[]" "[]"] by simp
  then show ?thesis using silent steps_checked [OF assms, of steps] by metis
qed

lemma rows_part:
  assumes "good_flows flows"
  shows "snd (check_rows files flows steps rows) = [] \<and> list_all (\<lambda>x. fw_id (snd x) \<in> set (fst (check_rows files flows steps rows))) flows \<longleftrightarrow>
    mset (map rr_flowId rows) = mset (map fst flows) \<and> list_all (row_fits files flows steps) rows"
proof -
  have silent: "snd (check_rows files flows steps rows) = [] \<longleftrightarrow> list_all (row_good files flows steps) rows \<and> distinct (map rr_flowId rows)"
    unfolding check_rows_def by (simp add: row_loop.loop_silent)
  have seen: "snd (check_rows files flows steps rows) = [] \<Longrightarrow> fst (check_rows files flows steps rows) = map rr_flowId rows"
    unfolding check_rows_def using row_loop.loop_adds [of files flows steps rows "[]" "[]"] by simp
  have ids: "list_all (\<lambda>x. fw_id (snd x) \<in> A) flows \<longleftrightarrow> set (map fst flows) \<subseteq> A" for A
    using assms by (fastforce simp: good_flows_def list_all_iff)
  have "distinct (map fst flows)" using assms by (simp add: good_flows_def)
  from rows_checked [OF this, of files steps rows] show ?thesis using silent seen ids by metis
qed

lemma catalog_parts:
  assumes "specs = listed ''.e2e.test.ts'' (cf_specs files)" and "steps = concat (map spec_calls specs)" and "rows = readme_rows files"
    and "F = fold read_flow (listed ''.md'' (cf_flows files)) ([], [])" and "flows = confirmed (fst F)"
  shows "(\<exists>summary. check_e2e_catalog files = Inr summary) \<longleftrightarrow>
      snd F = [] \<and> length flows = EXPECTED_FLOWS \<and> length (steps_of flows) = EXPECTED_STEPS \<and>
      list_all (\<lambda>e. \<not> rx_found TOKEN_MATCHER (snd e)) specs \<and>
      (snd (check_steps flows steps) = [] \<and> missing_steps flows (fst (check_steps flows steps)) = []) \<and> length steps = EXPECTED_STEPS \<and>
      (snd (check_rows files flows steps rows) = [] \<and> list_all (\<lambda>x. fw_id (snd x) \<in> set (fst (check_rows files flows steps rows))) flows) \<and>
      length rows = EXPECTED_FLOWS \<and> js_includes (cf_runner files) CLEANUP \<and> rx_found TRACE_OFF (cf_playwright files)"
proof -
  have read: "fst (readReadme (cf_readme files)) = rows" "rows \<noteq> [] \<Longrightarrow> snd (readReadme (cf_readme files)) = []"
    by (cases "cf_readme files"; simp add: readReadme_def assms(3) readme_rows_def Let_def)+
  have "length rows = EXPECTED_FLOWS \<Longrightarrow> snd (readReadme (cf_readme files)) = []"
    using read(2) by (cases rows) (simp_all add: EXPECTED_FLOWS_def)
  then show ?thesis
    by (auto simp: check_e2e_catalog_def catalog_errors_def readFlows_def readSpecSteps_def assms(4) [symmetric] assms(5) [symmetric]
        assms(1) [symmetric] assms(2) [symmetric] read(1) length_steps_of list_all_iff Let_def case_prod_beta)
qed

text \<open>C20: the catalog is accepted exactly when every flow file is named by its id and numbers its steps from one, the confirmed flows
  and their steps are as many as expected, the calls of \<open>flowStep\<close> in the specs are these steps, each once, no spec compares a
  token, the README has exactly one row for each flow, with its interval, its pattern, the tag of its spec and the
  only spec its calls are in, the runner removes the error contexts and traces are off.\<close>

theorem catalog_accepted_iff:
  "(\<exists>summary. check_e2e_catalog files = Inr summary) \<longleftrightarrow>
   (let entries = listed ''.md'' (cf_flows files); flows = confirmed (map flow_of entries);
        specs = listed ''.e2e.test.ts'' (cf_specs files); steps = concat (map spec_calls specs); rows = readme_rows files in
    list_all flow_file_ok entries \<and> distinct (map (\<lambda>e. flow_name (fst e)) entries) \<and>
    length flows = EXPECTED_FLOWS \<and> length (steps_of flows) = EXPECTED_STEPS \<and>
    mset (map step_pair steps) = mset (steps_of flows) \<and>
    list_all (\<lambda>e. \<not> rx_found TOKEN_MATCHER (snd e)) specs \<and>
    mset (map rr_flowId rows) = mset (map fst flows) \<and> list_all (row_fits files flows steps) rows \<and>
    js_includes (cf_runner files) CLEANUP \<and> rx_found TRACE_OFF (cf_playwright files))"
proof -
  define entries where "entries = listed ''.md'' (cf_flows files)"
  define flows where "flows = confirmed (map flow_of entries)"
  define specs where "specs = listed ''.e2e.test.ts'' (cf_specs files)"
  define steps where "steps = concat (map spec_calls specs)"
  define rows where "rows = readme_rows files"
  define F where "F = fold read_flow entries ([], [])"
  define order where "order \<longleftrightarrow> list_all flow_file_ok entries \<and> distinct (map (\<lambda>e. flow_name (fst e)) entries)"
  have order: "snd F = [] \<longleftrightarrow> order"
    unfolding F_def order_def by (simp add: flow_loop.loop_silent flow_of_def)
  have flows: "confirmed (fst F) = flows" if order
    using that order flow_loop.loop_adds [of entries "[]" "[]"] by (simp add: F_def flows_def)
  have good: "good_flows flows" if order
    using that good_flow_files [of entries] by (simp add: flows_def order_def flow_of_def)
  have "mset (map step_pair steps) = mset (steps_of flows) \<Longrightarrow> length steps = length (steps_of flows)"
    and "mset (map rr_flowId rows) = mset (map fst flows) \<Longrightarrow> length rows = length flows"
    by (metis length_map size_mset)+
  then have "(\<exists>summary. check_e2e_catalog files = Inr summary) \<longleftrightarrow>
      order \<and> length flows = EXPECTED_FLOWS \<and> length (steps_of flows) = EXPECTED_STEPS \<and>
      mset (map step_pair steps) = mset (steps_of flows) \<and> list_all (\<lambda>e. \<not> rx_found TOKEN_MATCHER (snd e)) specs \<and>
      mset (map rr_flowId rows) = mset (map fst flows) \<and> list_all (row_fits files flows steps) rows \<and>
      js_includes (cf_runner files) CLEANUP \<and> rx_found TRACE_OFF (cf_playwright files)"
    using catalog_parts [OF specs_def steps_def rows_def F_def [unfolded entries_def] refl] order flows steps_part [OF good, of steps]
      rows_part [OF good, of files steps rows]
    by (cases order) auto
  then show ?thesis
    unfolding Let_def entries_def flows_def specs_def steps_def rows_def order_def by simp
qed

end
