(* ===== verification/System.thy ===== *)
theory System
  imports AppShell QueryCache TenantsPage ApiClients
begin

text \<open>
  The parts together. What a page hands to the client of the API as a call, \<open>req\<close> turns into a request with the
  credentials of that moment; what the client does with a response reaches the shell through the events of the
  window, and the query cache through its listeners on the same events. The definitions composed are those of \<open>AdminApi\<close>,
  \<open>AppShell\<close>, \<open>QueryCache\<close> and of the pages; the theorems follow a submission from the form to the request, and a refused
  request from the response to the screen.
\<close>

section \<open>From the job of a page to the request\<close>

text \<open>Of what a call puts into a request only the credentials depend on the state of the client.\<close>

lemma call_request:
  assumes "call_start c uuid sig base st = (Inr (f, q), st')"
  shows "buildAdminEndpoint (BASE @ fst (api c uuid)) base = Inr (q_url q) \<and>
    q_method q = some_or (i_method (snd (api c uuid))) ''GET'' \<and> q_body q = i_body (snd (api c uuid)) \<and>
    map_of (q_headers q) ''Idempotency-Key'' = map_of (rev (i_headers (snd (api c uuid)))) ''Idempotency-Key''"
proof -
  have m: "q_method q = some_or (i_method (snd (api c uuid))) ''GET'' \<and> q_body q = i_body (snd (api c uuid))"
    using assms by (cases "api c uuid") (auto simp: call_start_def req_start_def Let_def split: sum.splits)
  from assms show ?thesis
    by (rule call_startE) (simp add: m map_of_spread map_of_auth_headers map_add_def split: option.split)
qed

text \<open>The part of a request that the server compares when it recognises a repeated one.\<close>

definition request_content :: "http_request \<Rightarrow> string \<times> string \<times> string option \<times> string option" where
  "request_content q = (q_method q, q_url q, q_body q, map_of (q_headers q) ''Idempotency-Key'')"

lemma same_call_same_content:
  assumes "call_start c u sig base st = (Inr (f, q), st1)" and "call_start c u' sig' base st' = (Inr (f', q'), st1')"
    and "api c u = api c u'"
  shows "request_content q' = request_content q"
  using call_request [OF assms(1)] call_request [OF assms(2)] assms(3) by (simp add: request_content_def)

section \<open>A creation sent again\<close>

text \<open>C7: a creation of a tenant that is submitted again reaches the server as the same request, whatever happened between: the
  answer may have been lost or have been 401 and the user may have signed in again with another token or session, the dialog may have
  been closed, opened and typed into. As long as the form holds the same content and no other was submitted, method,
  address, body and idempotency key are those of the first request; only the credentials are those of the moment.\<close>

theorem resubmission_same_request:
  assumes "snd (createTenant uuid s) = [SendTenants j]" and "list_all leaves_attempt evs"
    and "s' = fst (run_page (handle_tenants uuid) settle_tenants tp_jobs evs (fst (createTenant uuid s)))"
    and "tp_form s' = tp_form s" and "snd (createTenant uuid s') = [SendTenants j']"
    and "call_start (tenants_call j) u sig base st = (Inr (f, q), st1)"
    and "call_start (tenants_call j') u' sig' base st' = (Inr (f', q'), st1')"
  shows "request_content q' = request_content q"
proof -
  obtain form k where j: "j = CreateTenantJob form k" by (cases j)
  have form: "form = tp_form s" using assms(1) unfolding j by (rule create_tenant_sends)
  have "snd (createTenant uuid s') = [SendTenants (CreateTenantJob form k)]"
    by (rule create_tenant_again [OF assms(1) [unfolded j]]) (use assms(2-4) form in \<open>simp_all add: run_leaves_attempt\<close>)
  then have "j' = j" using assms(5) j by simp
  moreover have "api (tenants_call j) u = api (tenants_call j) u'" by (simp add: j tenants_call_def some_or_def)
  ultimately show ?thesis using same_call_same_content [OF assms(6)] assms(7) by blast
qed

lemma call_sent:
  assumes "readRuntimeBasePath base = Inr b"
  obtains f q st' where "call_start c uuid sig base st = (Inr (f, q), st')"
proof -
  have "\<nexists>e st'. call_start c uuid sig base st = (Inl e, st')" using assms by (simp add: call_always_sent)
  then show thesis using that by (metis prod.collapse sum.exhaust_sel)
qed

definition resubmitted :: "tenants_page" where
  "resubmitted = initial_tenants\<lparr>tp_open := True, tp_form := sample_form\<rparr>"

text \<open>The first request is refused with the token it was made with; the second is made with another token.\<close>

lemma resubmission_same_request_witness:
  "\<exists>f q st1 f' q' st1'.
     call_start (CreateTenant ''acme'' ''Acme'' (Some ''0'')) ''u'' None None (setAdminToken ''old'' no_client) = (Inr (f, q), st1) \<and>
     call_start (CreateTenant ''acme'' ''Acme'' (Some ''0'')) ''v'' None None (setAdminToken ''new'' no_client) = (Inr (f', q'), st1') \<and>
     request_content q' = request_content q"
proof -
  let ?evs = "[Answer (CreateTenantJob sample_form ''0'') (Inl (ApiError 401 [])), Act (ts_env reader_screen) (SetTenantOpen False),
    Act (ts_env reader_screen) OpenNewTenant]"
  let ?s' = "fst (run_page (handle_tenants show_nat) settle_tenants tp_jobs ?evs (fst (createTenant show_nat resubmitted)))"
  have runs: "snd (createTenant show_nat resubmitted) = [SendTenants (CreateTenantJob sample_form ''0'')]"
    "list_all leaves_attempt ?evs" "tp_form ?s' = tp_form resubmitted"
    "snd (createTenant show_nat ?s') = [SendTenants (CreateTenantJob sample_form ''0'')]" by code_simp+
  have c: "tenants_call (CreateTenantJob sample_form ''0'') = CreateTenant ''acme'' ''Acme'' (Some ''0'')"
    by (simp add: tenants_call_def sample_form_def)
  have b: "\<exists>b. readRuntimeBasePath None = Inr b" by (simp add: readRuntimeBasePath_def)
  obtain f q st1 where 1: "call_start (tenants_call (CreateTenantJob sample_form ''0'')) ''u'' None None (setAdminToken ''old'' no_client) = (Inr (f, q), st1)"
    using b call_sent by blast
  obtain f' q' st1' where 2: "call_start (tenants_call (CreateTenantJob sample_form ''0'')) ''v'' None None (setAdminToken ''new'' no_client) = (Inr (f', q'), st1')"
    using b call_sent by blast
  have "request_content q' = request_content q"
    by (rule resubmission_same_request [OF runs(1,2) refl runs(3,4) 1 2])
  with 1 2 show ?thesis unfolding c by blast
qed

text \<open>Which jobs of the page of the API clients become requests with a key, and that payload and key determine the call.\<close>

lemma keyed_header:
  assumes "client_call j = Some c" and "map_of (rev (i_headers (snd (api c u)))) ''Idempotency-Key'' = Some k"
  obtains p where "client_keyed j = Some (p, k)"
  using assms by (cases j) (auto simp: client_call_def client_keyed_def send_def no_init_def with_key_def)

lemma keyed_same_call:
  assumes "client_keyed j = Some (p, k)" and "client_keyed j' = Some (p, k)" and "client_call j = Some c" and "client_call j' = Some c'"
  shows "api c u = api c' u'"
  using assms by (cases j; cases j') (auto simp: client_call_def client_keyed_def client_json_def rotate_json_def)

text \<open>C6: among all the requests one visit to the page of the API clients makes, two with the same idempotency key are the same
  request: same method, address and body. A creation, a rotation, a retry and whatever was answered in between are all covered; the requests
  may be made under different credentials. The server never answers one of them with the stored result of a different one.\<close>

theorem same_key_same_request:
  assumes "inj (pf_uuid pf)"
    and "j \<in> set (clients_sent (snd (run_page (handle_clients pf) settle_clients ac_jobs evs initial_clients)))"
    and "j' \<in> set (clients_sent (snd (run_page (handle_clients pf) settle_clients ac_jobs evs initial_clients)))"
    and "client_call j = Some c" and "client_call j' = Some c'"
    and "call_start c u sig base st = (Inr (f, q), st1)" and "call_start c' u' sig' base st' = (Inr (f', q'), st1')"
    and "map_of (q_headers q) ''Idempotency-Key'' = Some k" and "map_of (q_headers q') ''Idempotency-Key'' = Some k"
  shows "request_content q' = request_content q"
proof -
  note q = call_request [OF assms(6)] and q' = call_request [OF assms(7)]
  from assms(4,8) q obtain p where p: "client_keyed j = Some (p, k)" by (auto elim: keyed_header)
  from assms(5,9) q' obtain p' where p': "client_keyed j' = Some (p', k)" by (auto elim: keyed_header)
  have "p = p'"
    by (rule clients.keys_unambiguous [OF assms(1) _ assms(2,3) p p']) (simp add: stored_attempts_def initial_clients_def)
  with p p' assms(4,5) have "api c u = api c' u'" by (auto intro: keyed_same_call)
  with q q' assms(8,9) show ?thesis by (simp add: request_content_def)
qed

text \<open>A rotation that failed and is tried again under another token.\<close>

lemma same_key_same_request_witness:
  "\<exists>f q st1 f' q' st1'.
     call_start (RotateAPIClient ''c1'' 300 (Some ''0'')) ''u'' None None (setAdminToken ''old'' no_client) = (Inr (f, q), st1) \<and>
     call_start (RotateAPIClient ''c1'' 300 (Some ''0'')) ''v'' None None (setAdminToken ''new'' no_client) = (Inr (f', q'), st1') \<and>
     request_content q' = request_content q"
proof -
  let ?j = "RotateClientJob (sample_client ''c1'' ''billing'') ''0''" and ?c = "RotateAPIClient ''c1'' 300 (Some ''0'')"
  let ?evs = "[Act (sample_clients_env 0) (Rotate (sample_client ''c1'' ''billing'')), Answer ?j (Inl (ApiError 503 [])),
    Act (sample_clients_env 1) (Rotate (sample_client ''c1'' ''billing''))]"
  have sent: "?j \<in> set (clients_sent (snd (run_page (handle_clients sample_platform) settle_clients ac_jobs ?evs initial_clients)))" by code_simp
  have c: "client_call ?j = Some ?c" by (simp add: client_call_def sample_client_def)
  have inj: "inj (pf_uuid sample_platform)" by (simp add: sample_platform_def inj_def)
  have b: "\<exists>b. readRuntimeBasePath None = Inr b" by (simp add: readRuntimeBasePath_def)
  obtain f q st1 where 1: "call_start ?c ''u'' None None (setAdminToken ''old'' no_client) = (Inr (f, q), st1)" using b call_sent by blast
  obtain f' q' st1' where 2: "call_start ?c ''v'' None None (setAdminToken ''new'' no_client) = (Inr (f', q'), st1')" using b call_sent by blast
  have key: "map_of (rev (i_headers (snd (api ?c x)))) ''Idempotency-Key'' = Some ''0''" for x
    by (simp add: send_def no_init_def with_key_def)
  have "request_content q' = request_content q"
    by (rule same_key_same_request [OF inj sent sent c c 1 2, of "''0''"]) (use call_request [OF 1] call_request [OF 2] key in simp_all)
  with 1 2 show ?thesis by blast
qed

section \<open>A refused request\<close>

text \<open>C3: when the server refuses a request that was made while a page was shown, the shell leaves the page: it shows the sign-in screen of
  its mode with the reason, the credential that was refused is gone from the client, so no later request carries it, and the
  events of the same moment make the listeners of the cache cancel, reset and drop every query, so nothing that was read with that credential
  is left. This spans the client, the events, the shell and the cache, for every interleaving before.\<close>

theorem refused_request_ends_session:
  assumes "shell_reachable s0" and "screen_of s0 = Content" and "call_start c u sig base (client s0) = (Inr (f, q), st0)"
    and "shell_reachable s" and "screen_of s = Content" and "oidc_mode s = oidc_mode s0"
    and "p_status res = 401" and "s' = run_client_op (\<lambda>st. snd (req_finish f (Inr res) st)) s"
    and matches: "\<And>f k. matches f k = prefix f k"
  shows "screen_of s' = (if oidc_mode s0 then OIDCScreen else TokenScreen) \<and>
    authMessageKey s' = Some (if oidc_mode s0 then SessionExpired else InvalidToken) \<and>
    currentAdminSession (client s') = None \<and> (if oidc_mode s0 then adminSession s' = None else getAdminToken (client s') = []) \<and>
    (\<exists>es. dispatched (client s') = dispatched (client s) @ es \<and>
      (\<forall>q. removes matches (on_events es) (adminQueryKeys q) \<and> resets matches (on_events es) (adminQueryKeys q) \<and>
        cancels matches (on_events es) (adminQueryKeys q)))"
proof -
  have ok0: "shell_ok s0" and ok: "shell_ok s" using assms(1,4) shell_invariant by blast+
  have f: "n_session f = currentAdminSession (client s0)" using assms(3) by (auto elim: call_startE)
  have s': "s' = requestAdminAuth (if n_session f = None then InvalidToken else SessionExpired)
      (s\<lparr>client := cleanup (n_timer f) (handle_401 (n_session f) (client s))\<rparr>)"
    unfolding assms(8) by (rule run_client_401) (use assms(7) in simp)
  have err: "\<not> authLoadError s" using assms(5) by (auto simp: screen_of_def split: if_splits)
  show ?thesis
  proof (cases "oidc_mode s0")
    case True
    then obtain x where n: "n_session f = Some x" using assms(2) ok0 f by (auto simp: shell_ok_def elim!: screen_content_cases)
    have cfg: "map_option ac_mode (authConfig s) = Some Oidc" using True assms(6) by (simp add: oidc_mode_def)
    have s1: "screen_of s' = OIDCScreen" "authMessageKey s' = Some SessionExpired" "currentAdminSession (client s') = None" "adminSession s' = None"
      "dispatched (client s') = dispatched (client s) @ [SessionChange, AuthRequired SessionExpired]"
      using True n err cfg assms(6) unfolding s' requestAdminAuth_def
      by (auto simp: showAdminAuth_simp frame_simps screen_of_def consumePendingAdminAuthMessage_def)
         (simp_all add: handle_401_def notifyAdminAuthRequired_def setAdminSession_def dispatch_event_def)
    with True show ?thesis using on_events_clear [of "[SessionChange, AuthRequired SessionExpired]" matches, OF _ matches] by auto
  next
    case False
    then have n: "n_session f = None" using ok0 f by (simp add: shell_ok_def)
    have cfg: "map_option ac_mode (authConfig s) = Some LegacySharedToken" using False assms(5,6) by (auto elim: screen_content_cases)
    have cur: "currentAdminSession (client s) = None" using ok False assms(6) by (simp add: shell_ok_def)
    have s1: "screen_of s' = TokenScreen" "authMessageKey s' = Some InvalidToken" "currentAdminSession (client s') = None"
      "getAdminToken (client s') = []" "dispatched (client s') = dispatched (client s) @ [AuthRequired InvalidToken, TokenChange]"
      using False n err cfg cur assms(6) unfolding s' requestAdminAuth_def
      by (auto simp: showAdminAuth_simp frame_simps screen_of_def consumePendingAdminAuthMessage_def clearAdminToken_def getAdminToken_def dispatch_event_def)
         (simp_all add: handle_401_def notifyAdminAuthRequired_def setAdminSession_def dispatch_event_def)
    with False show ?thesis using on_events_clear [of "[AuthRequired InvalidToken, TokenChange]" matches, OF _ matches] by auto
  qed
qed

lemma refused_request_ends_session_witness:
  "let s' = run_client_op (\<lambda>st. snd (req_finish \<lparr>n_session = None, n_timer = 0, n_signal = None, n_timedOut = False, n_aborted = False\<rparr>
       (Inr \<lparr>p_status = 401, p_json = None\<rparr>) st)) sample_shell
   in screen_of s' = TokenScreen \<and> getAdminToken (client s') = []"
proof -
  have legacy: "oidc_mode sample_shell = False" "currentAdminSession (client sample_shell) = None" "next_timer (client sample_shell) = 0" by code_simp+
  have b: "\<exists>b. readRuntimeBasePath None = Inr b" by (simp add: readRuntimeBasePath_def)
  obtain f q st where c: "call_start ListTenants ''u'' None None (client sample_shell) = (Inr (f, q), st)"
    using b call_sent by blast
  then have f: "f = \<lparr>n_session = None, n_timer = 0, n_signal = None, n_timedOut = False, n_aborted = False\<rparr>"
    using legacy by (auto elim: call_startE)
  show ?thesis
    using refused_request_ends_session [OF sample_shell_reachable _ c sample_shell_reachable _ refl _ refl, of "\<lparr>p_status = 401, p_json = None\<rparr>" prefix]
      sample_shell_content legacy(1) by (simp add: f Let_def)
qed

end
