(* ===== verification/Benchmark.thy ===== *)
theory Benchmark
  imports ScaleGate Json Navigation Translations QueryCache
begin

text \<open>
  The scale benchmark (\<open>web/scripts/benchmark-scale.mjs\<close>): what it asks the server and the browser to do, which of the
  times it reads become samples, and the file it writes. The server, the clock and the browser are arguments: a fetch is
  given by the times it starts and ends and its response, a step of the browser by whether it fails. The loop of batches would not
  end for a concurrency of zero and is a partial function. Theorems: a measurement has exactly a hundred samples in batches that
  respect the concurrency, the browser is closed on every path, its labels are those of the catalog, and the summary
  of \<open>ScaleGate\<close> comes to a decision on the files whenever the cardinality determines the profiles.
\<close>

section \<open>Arguments\<close>

record bench_args =
  ba_baseURL :: string
  ba_adminToken :: string
  ba_cardinality :: rat
  ba_run :: rat
  ba_outputPath :: string

datatype (plugins only: code) bench_error =
    MissingArguments
  | FetchRejected string
  | BadStatus string nat
  | NotJSON
  | NoMember
  | WrongCount string "json option" rat
  | NoSamples string
  | BrowserFailed string

text \<open>\<open>!value\<close> for a string that may be undefined, and for its number; a number that is not finite counts as
  missing here.\<close>

definition given :: "string option \<Rightarrow> string option" where
  "given v = (case v of Some s \<Rightarrow> if s \<noteq> [] then Some s else None | None \<Rightarrow> None)"

definition given_number :: "string option \<Rightarrow> rat option" where
  "given_number v = (case v of Some s \<Rightarrow> (case js_Number s of Some n \<Rightarrow> if n \<noteq> 0 then Some n else None | None \<Rightarrow> None) | None \<Rightarrow> None)"

definition bench_arguments ::
  "string option \<Rightarrow> string option \<Rightarrow> string option \<Rightarrow> string option \<Rightarrow> string option \<Rightarrow> bench_error + bench_args" where
  "bench_arguments baseURL adminToken cardinality run outputPath =
     (case (given baseURL, given adminToken, given_number cardinality, given_number run, given outputPath) of
        (Some u, Some tok, Some c, Some r, Some p) \<Rightarrow>
          Inr \<lparr>ba_baseURL = u, ba_adminToken = tok, ba_cardinality = c, ba_run = r, ba_outputPath = p\<rparr>
      | _ \<Rightarrow> Inl MissingArguments)"

definition endpoints :: "(string \<times> string) list" where
  "endpoints =
     [(''tenants'', ''/v1/admin/tenants''), (''definitions'', ''/v1/admin/resource-definitions''),
      (''api-clients'', ''/v1/admin/api-clients''), (''overview'', ''/v1/admin/overview'')]"

section \<open>Samples\<close>

record sample_summary =
  sm_count :: nat
  sm_p50Ms :: rat
  sm_p95Ms :: rat
  sm_maxMs :: "rat option"

text \<open>The numerals of the program are doubles.\<close>

definition summary :: "rat list \<Rightarrow> bench_error + sample_summary" where
  "summary samples =
     (case nearestRank samples (js_double (1 / 2)) of
        Inl e \<Rightarrow> Inl (NoSamples e)
      | Inr p50 \<Rightarrow> (case nearestRank samples (js_double (95 / 100)) of
          Inl e \<Rightarrow> Inl (NoSamples e)
        | Inr p95 \<Rightarrow> Inr \<lparr>sm_count = length samples, sm_p50Ms = p50, sm_p95Ms = p95, sm_maxMs = max_of samples\<rparr>))"

definition elapsed :: "rat \<Rightarrow> rat \<Rightarrow> rat" where
  "elapsed started finished = js_double (finished - started)"

section \<open>One request\<close>

record bench_request =
  br_url :: string
  br_headers :: "(string \<times> string) list"

definition bench_fetch :: "bench_args \<Rightarrow> string \<Rightarrow> bench_request" where
  "bench_fetch a path =
     \<lparr>br_url = ba_baseURL a @ path,
      br_headers = [(''Accept'', ''application/json''), (''Accept-Encoding'', ''identity''), (''Authorization'', ''Bearer '' @ ba_adminToken a)]\<rparr>"

text \<open>What a request meets: when it starts and when its body has been read, and a rejection or the status, the
  number of bytes and the parsed body (\<^const>\<open>None\<close> where the text is not JSON).\<close>

record fetch_answer =
  fa_started :: rat
  fa_finished :: rat
  fa_result :: "string + nat \<times> nat \<times> json option"

text \<open>\<open>Array.isArray(decoded) ? decoded.length : decoded.tenantCards?.length\<close>, \<^const>\<open>None\<close> for undefined.\<close>

definition response_cardinality :: "json \<Rightarrow> bench_error + json option" where
  "response_cardinality decoded =
     (case decoded of
        JArr xs \<Rightarrow> Inr (Some (JNum (int (length xs))))
      | JNull \<Rightarrow> Inl NoMember
      | JObj ms \<Rightarrow> Inr
          (case json_get ''tenantCards'' decoded of
             Some (JArr xs) \<Rightarrow> Some (JNum (int (length xs)))
           | Some (JStr s) \<Rightarrow> Some (JNum (int (length s)))
           | Some (JObj ks) \<Rightarrow> json_get ''length'' (JObj ks)
           | _ \<Rightarrow> None)
      | _ \<Rightarrow> Inr None)"

definition is_number :: "json option \<Rightarrow> rat \<Rightarrow> bool" where
  "is_number j c \<longleftrightarrow> (case j of Some (JNum n) \<Rightarrow> of_int n = c | _ \<Rightarrow> False)"

definition timedFetch :: "rat \<Rightarrow> string \<Rightarrow> fetch_answer \<Rightarrow> bench_error + nat \<times> rat" where
  "timedFetch cardinality path a =
     (case fa_result a of
        Inl m \<Rightarrow> Inl (FetchRejected m)
      | Inr (status, bytes, body) \<Rightarrow>
          if \<not> (200 \<le> status \<and> status \<le> 299) then Inl (BadStatus path status)
          else case body of None \<Rightarrow> Inl NotJSON
          | Some decoded \<Rightarrow> (case response_cardinality decoded of Inl e \<Rightarrow> Inl e
              | Inr n \<Rightarrow> if \<not> is_number n cardinality then Inl (WrongCount path n cardinality)
                  else Inr (bytes, elapsed (fa_started a) (fa_finished a))))"

section \<open>A hundred of them\<close>

text \<open>\<open>Promise.all\<close>: the results in order, or the rejection that came first.\<close>

definition promise_all :: "(rat \<times> ('e + 'a)) list \<Rightarrow> 'e + 'a list" where
  "promise_all rs =
     (case sort_key fst (filter (\<lambda>r. isl (snd r)) rs) of
        r # _ \<Rightarrow> Inl (projl (snd r))
      | [] \<Rightarrow> Inr (map (\<lambda>r. projr (snd r)) rs))"

record http_batch =
  hb_durationMs :: rat
  hb_requests :: nat
  hb_throughputPerSecond :: "rat option"

record http_state =
  hs_samples :: "rat list"
  hs_bytes :: nat
  hs_batches :: "http_batch list"

record http_measurement =
  hm_batches :: "http_batch list"
  hm_bytes :: nat
  hm_concurrency :: nat
  hm_samples :: "rat list"
  hm_summary :: sample_summary

text \<open>\<open>fetch path concurrency n\<close> is what the n-th request of a measurement meets, \<open>batch path concurrency n\<close> the times
  read before and after the n-th batch.\<close>

record bench_world =
  bw_fetch :: "string \<Rightarrow> nat \<Rightarrow> nat \<Rightarrow> fetch_answer"
  bw_batch :: "string \<Rightarrow> nat \<Rightarrow> nat \<Rightarrow> rat \<times> rat"

fun warm_up :: "rat \<Rightarrow> string \<Rightarrow> fetch_answer list \<Rightarrow> bench_error + unit" where
  "warm_up cardinality path [] = Inr ()"
| "warm_up cardinality path (a # as) =
     (case timedFetch cardinality path a of Inl e \<Rightarrow> Inl e | Inr _ \<Rightarrow> warm_up cardinality path as)"

definition throughput :: "nat \<Rightarrow> rat \<Rightarrow> rat option" where
  "throughput batchSize durationMs = (if durationMs = 0 then None else Some (js_double (of_nat (batchSize * 1000) / durationMs)))"

definition run_batch :: "rat \<Rightarrow> bench_world \<Rightarrow> string \<Rightarrow> nat \<Rightarrow> http_state \<Rightarrow> bench_error + http_state" where
  "run_batch cardinality w path concurrency s =
     (let done = length (hs_samples s);
          batchSize = min concurrency (100 - done);
          answers = map (bw_fetch w path concurrency) [10 + done..<10 + done + batchSize];
          (started, finished) = bw_batch w path concurrency (length (hs_batches s)) in
      case promise_all (map (\<lambda>a. (fa_finished a, timedFetch cardinality path a)) answers) of
        Inl e \<Rightarrow> Inl e
      | Inr batch \<Rightarrow> Inr
          \<lparr>hs_samples = hs_samples s @ map snd batch,
           hs_bytes = (if batch = [] then hs_bytes s else fst (last batch)),
           hs_batches = hs_batches s @ [\<lparr>hb_durationMs = elapsed started finished, hb_requests = batchSize,
             hb_throughputPerSecond = throughput batchSize (elapsed started finished)\<rparr>]\<rparr>)"

partial_function (option) batches ::
  "rat \<Rightarrow> bench_world \<Rightarrow> string \<Rightarrow> nat \<Rightarrow> http_state \<Rightarrow> (bench_error + http_state) option" where
  "batches cardinality w path concurrency s =
     (if length (hs_samples s) < 100
      then (case run_batch cardinality w path concurrency s of
          Inl e \<Rightarrow> Some (Inl e)
        | Inr s' \<Rightarrow> batches cardinality w path concurrency s')
      else Some (Inr s))"

definition measureHTTP :: "rat \<Rightarrow> bench_world \<Rightarrow> string \<Rightarrow> nat \<Rightarrow> (bench_error + http_measurement) option" where
  "measureHTTP cardinality w path concurrency =
     (case warm_up cardinality path (map (bw_fetch w path concurrency) [0..<10]) of
        Inl e \<Rightarrow> Some (Inl e)
      | Inr _ \<Rightarrow> (case batches cardinality w path concurrency \<lparr>hs_samples = [], hs_bytes = 0, hs_batches = []\<rparr> of
          None \<Rightarrow> None
        | Some (Inl e) \<Rightarrow> Some (Inl e)
        | Some (Inr s) \<Rightarrow> Some (case summary (hs_samples s) of
            Inl e \<Rightarrow> Inl e
          | Inr sm \<Rightarrow> Inr \<lparr>hm_batches = hs_batches s, hm_bytes = hs_bytes s, hm_concurrency = concurrency,
              hm_samples = hs_samples s, hm_summary = sm\<rparr>)))"

declare upt_rec_numeral [simp del]

lemma all_Inr: "list_all (\<lambda>x. \<not> isl x) ys \<longleftrightarrow> (\<exists>xs. ys = map Inr xs)"
proof
  assume "list_all (\<lambda>x. \<not> isl x) ys"
  then have "ys = map Inr (map projr ys)" by (induction ys) (simp_all add: sum.collapse(2))
  then show "\<exists>xs. ys = map Inr xs" by blast
qed (auto simp: list_all_iff)

lemma promise_all_Inr: "promise_all rs = Inr bs \<longleftrightarrow> map snd rs = map Inr bs"
proof (cases "list_all (\<lambda>x. \<not> isl x) (map snd rs)")
  case True
  then obtain xs where xs: "map snd rs = map Inr xs" using all_Inr by blast
  have "filter (\<lambda>r. isl (snd r)) rs = []" using True by (auto simp: list_all_iff filter_empty_conv)
  then have "promise_all rs = Inr (map projr (map snd rs))" by (simp add: promise_all_def comp_def)
  then show ?thesis unfolding xs by (simp add: comp_def inj_map_eq_map)
next
  case False
  then have "filter (\<lambda>r. isl (snd r)) rs \<noteq> []" by (auto simp: list_all_iff filter_empty_conv)
  then have "sort_key fst (filter (\<lambda>r. isl (snd r)) rs) \<noteq> []" by (metis length_0_conv length_sort)
  then have "promise_all rs \<noteq> Inr bs" by (auto simp: promise_all_def split: list.split)
  moreover have "map snd rs \<noteq> map Inr bs" using False all_Inr by metis
  ultimately show ?thesis by simp
qed

abbreviation answers :: "rat \<Rightarrow> bench_world \<Rightarrow> string \<Rightarrow> nat \<Rightarrow> nat list \<Rightarrow> (bench_error + nat \<times> rat) list" where
  "answers cardinality w path concurrency ns \<equiv> map (\<lambda>n. timedFetch cardinality path (bw_fetch w path concurrency n)) ns"

lemma warm_up_ok: "warm_up cardinality path as = Inr () \<longleftrightarrow> list_all (\<lambda>a. \<not> isl (timedFetch cardinality path a)) as"
  by (induction as) (auto split: sum.split)

lemma run_batch_ok:
  assumes "length (hs_samples s) < 100" and "run_batch cardinality w path concurrency s = r"
  defines "k \<equiv> min concurrency (100 - length (hs_samples s))" and "n \<equiv> 10 + length (hs_samples s)"
  shows "case r of
      Inl e \<Rightarrow> \<exists>x \<in> set (answers cardinality w path concurrency [n..<n + k]). isl x
    | Inr t \<Rightarrow> \<exists>xs b. answers cardinality w path concurrency [n..<n + k] = map Inr xs \<and> hs_samples t = hs_samples s @ map snd xs \<and>
        hs_bytes t = (if xs = [] then hs_bytes s else fst (last xs)) \<and> hs_batches t = hs_batches s @ [b] \<and> hb_requests b = k"
proof -
  let ?rs = "map (\<lambda>a. (fa_finished a, timedFetch cardinality path a)) (map (bw_fetch w path concurrency) [n..<n + k])"
  have snd: "map snd ?rs = answers cardinality w path concurrency [n..<n + k]" by simp
  show ?thesis
  proof (cases "promise_all ?rs")
    case (Inl e)
    then have "\<nexists>xs. answers cardinality w path concurrency [n..<n + k] = map Inr xs"
      using promise_all_Inr [of ?rs] unfolding snd by simp
    then have "\<exists>x \<in> set (answers cardinality w path concurrency [n..<n + k]). isl x"
      using all_Inr [of "answers cardinality w path concurrency [n..<n + k]"] unfolding list_all_iff by blast
    moreover have "r = Inl e" using assms(2) Inl by (simp add: run_batch_def Let_def k_def n_def split_beta)
    ultimately show ?thesis by simp
  next
    case (Inr xs)
    then have "answers cardinality w path concurrency [n..<n + k] = map Inr xs" using promise_all_Inr [of ?rs xs] unfolding snd by simp
    moreover have "\<exists>d th. r = Inr \<lparr>hs_samples = hs_samples s @ map snd xs, hs_bytes = (if xs = [] then hs_bytes s else fst (last xs)),
        hs_batches = hs_batches s @ [\<lparr>hb_durationMs = d, hb_requests = k, hb_throughputPerSecond = th\<rparr>]\<rparr>"
      using assms(2) Inr by (auto simp: run_batch_def Let_def k_def n_def split_beta)
    ultimately show ?thesis by auto
  qed
qed

text \<open>The loop ends for a positive concurrency, since every batch adds a sample.\<close>

lemma batches_ok:
  assumes "0 < concurrency" and "length (hs_samples s) \<le> 100"
  shows "\<exists>r. batches cardinality w path concurrency s = Some r \<and>
    (case r of
      Inl e \<Rightarrow> \<exists>x \<in> set (answers cardinality w path concurrency [10 + length (hs_samples s)..<110]). isl x
    | Inr t \<Rightarrow> \<exists>xs bs. answers cardinality w path concurrency [10 + length (hs_samples s)..<110] = map Inr xs \<and>
        hs_samples t = hs_samples s @ map snd xs \<and> hs_bytes t = (if xs = [] then hs_bytes s else fst (last xs)) \<and>
        hs_batches t = hs_batches s @ bs \<and> sum_list (map hb_requests bs) = 100 - length (hs_samples s) \<and>
        list_all (\<lambda>b. 0 < hb_requests b \<and> hb_requests b \<le> concurrency) bs)"
  using assms(2)
proof (induction "100 - length (hs_samples s)" arbitrary: s rule: less_induct)
  case less
  let ?A = "answers cardinality w path concurrency"
  define l where "l = length (hs_samples s)"
  show ?case
  proof (cases "l < 100")
    case False
    then have "batches cardinality w path concurrency s = Some (Inr s)" "l = 100"
      using less.prems by (simp_all add: l_def batches.simps)
    then show ?thesis unfolding l_def by auto
  next
    case True
    define k where "k = min concurrency (100 - l)"
    have k: "0 < k" "k \<le> concurrency" "l + k \<le> 100" using assms(1) True by (auto simp: k_def)
    have split: "[10 + l..<110] = [10 + l..<10 + l + k] @ [10 + (l + k)..<110]"
      using k(3) upt_add_eq_append [of "10 + l" "10 + l + k" "110 - (10 + l + k)"] by (simp add: add.assoc)
    note b = run_batch_ok [where cardinality = cardinality and w = w and path = path and concurrency = concurrency, OF True [unfolded l_def] refl, folded l_def, folded k_def]
    show ?thesis
    proof (cases "run_batch cardinality w path concurrency s")
      case (Inl e)
      then show ?thesis using b True unfolding l_def [symmetric] split by (auto simp: batches.simps l_def k_def)
    next
      case (Inr t)
      then obtain xs c where t: "?A [10 + l..<10 + l + k] = map Inr xs" "hs_samples t = hs_samples s @ map snd xs"
        "hs_bytes t = (if xs = [] then hs_bytes s else fst (last xs))" "hs_batches t = hs_batches s @ [c]" "hb_requests c = k"
        using b by auto
      have xs: "length xs = k" using arg_cong [OF t(1), of length] by simp
      then have lt: "length (hs_samples t) = l + k" using t(2) by (simp add: l_def)
      have lt2: "100 - length (hs_samples t) < 100 - length (hs_samples s)" "length (hs_samples t) \<le> 100"
        using lt k True by (simp_all add: l_def)
      have step: "batches cardinality w path concurrency s = batches cardinality w path concurrency t"
        using True Inr by (simp add: l_def batches.simps [of _ _ _ _ s])
      obtain r where r: "batches cardinality w path concurrency t = Some r"
        and res: "case r of Inl e \<Rightarrow> \<exists>x \<in> set (?A [10 + (l + k)..<110]). isl x
          | Inr u \<Rightarrow> \<exists>ys bs. ?A [10 + (l + k)..<110] = map Inr ys \<and> hs_samples u = hs_samples t @ map snd ys \<and>
              hs_bytes u = (if ys = [] then hs_bytes t else fst (last ys)) \<and> hs_batches u = hs_batches t @ bs \<and>
              sum_list (map hb_requests bs) = 100 - (l + k) \<and> list_all (\<lambda>b. 0 < hb_requests b \<and> hb_requests b \<le> concurrency) bs"
        using less.hyps [OF lt2, unfolded lt] by blast
      show ?thesis
      proof (cases r)
        case (Inl e)
        then show ?thesis using step r res unfolding l_def [symmetric] split by auto
      next
        case (Inr u)
        with res obtain ys bs where u: "?A [10 + (l + k)..<110] = map Inr ys" "hs_samples u = hs_samples t @ map snd ys"
          "hs_bytes u = (if ys = [] then hs_bytes t else fst (last ys))" "hs_batches u = hs_batches t @ bs"
          "sum_list (map hb_requests bs) = 100 - (l + k)" "list_all (\<lambda>b. 0 < hb_requests b \<and> hb_requests b \<le> concurrency) bs" by auto
        have "?A [10 + l..<110] = map Inr (xs @ ys)" unfolding split map_append t(1) u(1) ..
        moreover have "hs_bytes u = (if xs @ ys = [] then hs_bytes s else fst (last (xs @ ys)))" using t(3) u(3) by simp
        moreover have "sum_list (map hb_requests (c # bs)) = 100 - l" using t(5) u(5) k by simp
        moreover have "list_all (\<lambda>b. 0 < hb_requests b \<and> hb_requests b \<le> concurrency) (c # bs)" using t(5) u(6) k by simp
        moreover have "hs_samples u = hs_samples s @ map snd (xs @ ys)" "hs_batches u = hs_batches s @ (c # bs)" using t u by simp_all
        ultimately have "\<exists>xs bs. ?A [10 + l..<110] = map Inr xs \<and> hs_samples u = hs_samples s @ map snd xs \<and>
            hs_bytes u = (if xs = [] then hs_bytes s else fst (last xs)) \<and> hs_batches u = hs_batches s @ bs \<and>
            sum_list (map hb_requests bs) = 100 - l \<and> list_all (\<lambda>b. 0 < hb_requests b \<and> hb_requests b \<le> concurrency) bs" by blast
        then show ?thesis using step r Inr unfolding l_def [symmetric] by (intro exI [of _ "Inr u"] conjI) simp_all
      qed
    qed
  qed
qed

lemma js_double_dyadic:
  assumes "0 < x" and "of_nat n / 2 ^ m \<le> x" and "x < 2 ^ (53 - m)" and "m \<le> 53"
  shows "of_nat n / 2 ^ m \<le> js_double x"
proof -
  define e where "e = max (ilog2 x - 52) (- 1074)"
  have "x < pow2 (53 - int m)" using assms(3,4) by (simp add: pow2_def nat_diff_distrib)
  then have "pow2 (ilog2 x) < pow2 (53 - int m)" using ilog2_le [OF assms(1)] by linarith
  then have "\<not> 53 - int m \<le> ilog2 x" using pow2_mono [of "53 - int m" "ilog2 x"] by linarith
  then have em: "e \<le> - int m" using assms(4) by (simp add: e_def)
  then have e: "pow2 e * 2 ^ nat (- e) = 1" using pow2_add [of e "nat (- e)"] by (simp add: pow2_def)
  define j where "j = nat (- e) - m"
  have "nat (- e) = j + m" using em by (simp add: j_def)
  then have e': "pow2 e * 2 ^ j * 2 ^ m = 1" using e by (simp add: power_add mult.assoc)
  define k where "k = int n * 2 ^ j"
  have "of_nat n = of_nat n * (pow2 e * 2 ^ j * 2 ^ m)" using e' by simp
  then have k: "of_int k * pow2 e = of_nat n / 2 ^ m" by (simp add: k_def eq_divide_eq ac_simps)
  then have "of_int k \<le> x / pow2 e" using assms(2) by (simp add: pos_le_divide_eq)
  then have "k \<le> round_half_even (x / pow2 e)" by (rule round_half_even_mono_int)
  then have "of_int k * pow2 e \<le> of_int (round_half_even (x / pow2 e)) * pow2 e"
    by (intro mult_right_mono) (simp_all add: less_imp_le)
  moreover have "js_double x = of_int (round_half_even (x / pow2 e)) * pow2 e"
    using assms(1) by (simp add: js_double_def js_double_pos_def e_def Let_def)
  ultimately show ?thesis using k by simp
qed

lemma rank_of:
  assumes "of_nat k < (x :: rat)" and "x \<le> of_nat (Suc k)"
  shows "nat \<lceil>x\<rceil> - 1 = k"
proof -
  have "\<lceil>x\<rceil> = int (Suc k)" using assms by (intro ceiling_unique) simp_all
  then show ?thesis by simp
qed

lemma ranks:
  "nat \<lceil>js_double (100 * js_double (1 / 2))\<rceil> - 1 = 49" "nat \<lceil>js_double (100 * js_double (95 / 100))\<rceil> - 1 = 94"
  "nat \<lceil>js_double (30 * js_double (1 / 2))\<rceil> - 1 = 14" "nat \<lceil>js_double (30 * js_double (95 / 100))\<rceil> - 1 = 28"
proof -
  have h: "js_double (1 / 2) = 1 / 2" by code_simp
  have d: "945 / 1000 \<le> js_double (95 / 100)" "js_double (95 / 100) \<le> 95 / 100" by code_simp+
  show "nat \<lceil>js_double (100 * js_double (1 / 2))\<rceil> - 1 = 49" "nat \<lceil>js_double (30 * js_double (1 / 2))\<rceil> - 1 = 14"
    using js_double_nat [of 50] js_double_nat [of 15] by (simp_all add: h)
  have "94 < js_double (100 * js_double (95 / 100))" "28 < js_double (30 * js_double (95 / 100))"
    using js_double_dyadic [of "100 * js_double (95 / 100)" 189 1] js_double_dyadic [of "30 * js_double (95 / 100)" 113 2] d by simp_all
  moreover have "js_double (100 * js_double (95 / 100)) \<le> 95" "js_double (30 * js_double (95 / 100)) \<le> 29"
    using js_double_le_nat [of "100 * js_double (95 / 100)" 95] js_double_le_nat [of "30 * js_double (95 / 100)" 29] d by simp_all
  ultimately show "nat \<lceil>js_double (100 * js_double (95 / 100))\<rceil> - 1 = 94" "nat \<lceil>js_double (30 * js_double (95 / 100))\<rceil> - 1 = 28"
    by (intro rank_of; simp)+
qed
lemma summary_of_samples:
  assumes "xs \<noteq> []"
  shows "summary xs = Inr \<lparr>sm_count = length xs,
    sm_p50Ms = sort xs ! (nat \<lceil>js_double (of_nat (length xs) * js_double (1 / 2))\<rceil> - 1),
    sm_p95Ms = sort xs ! (nat \<lceil>js_double (of_nat (length xs) * js_double (95 / 100))\<rceil> - 1), sm_maxMs = Some (Max (set xs))\<rparr>"
proof -
  have d: "\<not> js_double (1 / 2) \<le> 0" "\<not> 1 < js_double (1 / 2)" "\<not> js_double (95 / 100) \<le> 0" "\<not> 1 < js_double (95 / 100)" by code_simp+
  from assms have "max_of xs = Some (Max (set xs))" by (cases xs) (simp_all add: max_of_def Max.set_eq_fold [symmetric])
  with d assms show ?thesis by (simp add: summary_def nearestRank_def Let_def)
qed

lemma summary_percentiles:
  "length xs = 100 \<Longrightarrow> summary xs = Inr \<lparr>sm_count = 100, sm_p50Ms = sort xs ! 49, sm_p95Ms = sort xs ! 94, sm_maxMs = Some (Max (set xs))\<rparr>"
  "length xs = 30 \<Longrightarrow> summary xs = Inr \<lparr>sm_count = 30, sm_p50Ms = sort xs ! 14, sm_p95Ms = sort xs ! 28, sm_maxMs = Some (Max (set xs))\<rparr>"
proof -
  have r: "of_nat 100 = (100 :: rat)" "of_nat 30 = (30 :: rat)" by simp_all
  show "summary xs = Inr \<lparr>sm_count = 100, sm_p50Ms = sort xs ! 49, sm_p95Ms = sort xs ! 94, sm_maxMs = Some (Max (set xs))\<rparr>" if l: "length xs = 100"
  proof -
    have "xs \<noteq> []" using l by auto
    show ?thesis unfolding summary_of_samples [OF \<open>xs \<noteq> []\<close>] l r ranks ..
  qed
  show "summary xs = Inr \<lparr>sm_count = 30, sm_p50Ms = sort xs ! 14, sm_p95Ms = sort xs ! 28, sm_maxMs = Some (Max (set xs))\<rparr>" if l: "length xs = 30"
  proof -
    have "xs \<noteq> []" using l by auto
    show ?thesis unfolding summary_of_samples [OF \<open>xs \<noteq> []\<close>] l r ranks ..
  qed
qed

lemma measurement_result:
  assumes "0 < concurrency"
  shows "\<exists>r. measureHTTP cardinality w path concurrency = Some r \<and>
    (case r of
      Inl e \<Rightarrow> list_ex isl (answers cardinality w path concurrency [0..<110])
    | Inr m \<Rightarrow> \<exists>xs. answers cardinality w path concurrency [0..<110] = map Inr xs \<and> hm_samples m = map snd (drop 10 xs) \<and>
        length (hm_samples m) = 100 \<and> hm_bytes m = fst (last xs) \<and> hm_concurrency m = concurrency \<and>
        sum_list (map hb_requests (hm_batches m)) = 100 \<and>
        list_all (\<lambda>b. 0 < hb_requests b \<and> hb_requests b \<le> concurrency) (hm_batches m) \<and>
        hm_summary m = \<lparr>sm_count = 100, sm_p50Ms = sort (hm_samples m) ! 49, sm_p95Ms = sort (hm_samples m) ! 94,
          sm_maxMs = Some (Max (set (hm_samples m)))\<rparr>)"
proof -
  let ?A = "answers cardinality w path concurrency" and ?s = "\<lparr>hs_samples = [], hs_bytes = 0, hs_batches = []\<rparr>"
  let ?warm = "map (bw_fetch w path concurrency) [0..<10]"
  have upt: "[0..<110] = [0..<10] @ [10..<110]" using upt_add_eq_append [of 0 10 100] by simp
  show ?thesis
  proof (cases "warm_up cardinality path ?warm")
    case (Inl e)
    then have "\<exists>x \<in> set (?A [0..<10]). isl x" using warm_up_ok [of cardinality path ?warm] by (auto simp: list_all_iff)
    then show ?thesis unfolding upt by (auto simp: measureHTTP_def Inl list_ex_iff)
  next
    case (Inr u)
    then have "list_all (\<lambda>x. \<not> isl x) (?A [0..<10])"
      using warm_up_ok [of cardinality path ?warm] Inr by (simp add: list.pred_map comp_def )
    then obtain ws where ws: "?A [0..<10] = map Inr ws" using all_Inr by blast
    have lws: "length ws = 10" using arg_cong [OF ws, of length] by simp
    obtain r where r: "batches cardinality w path concurrency ?s = Some r"
      and res: "case r of Inl e \<Rightarrow> \<exists>x \<in> set (?A [10..<110]). isl x
        | Inr t \<Rightarrow> \<exists>xs bs. ?A [10..<110] = map Inr xs \<and> hs_samples t = map snd xs \<and> hs_bytes t = (if xs = [] then 0 else fst (last xs)) \<and>
            hs_batches t = bs \<and> sum_list (map hb_requests bs) = 100 \<and> list_all (\<lambda>b. 0 < hb_requests b \<and> hb_requests b \<le> concurrency) bs"
      using batches_ok [OF assms, of ?s cardinality w path] by (auto simp only: http_state.simps list.size append_Nil diff_zero add_0_right le0 simp_thms)
    show ?thesis
    proof (cases r)
      case (Inl e)
      then show ?thesis using res r Inr unfolding upt by (auto simp: measureHTTP_def list_ex_iff)
    next
      case (Inr t)
      with res obtain xs where t: "?A [10..<110] = map Inr xs" "hs_samples t = map snd xs" "hs_bytes t = (if xs = [] then 0 else fst (last xs))"
        "sum_list (map hb_requests (hs_batches t)) = 100" "list_all (\<lambda>b. 0 < hb_requests b \<and> hb_requests b \<le> concurrency) (hs_batches t)" by auto
      have lxs: "length xs = 100" using arg_cong [OF t(1), of length] by simp
      then have "xs \<noteq> []" by auto
      have "?A [0..<110] = map Inr (ws @ xs)" unfolding upt map_append ws t(1) ..
      moreover have "drop 10 (ws @ xs) = xs" "last (ws @ xs) = last xs" using lws \<open>xs \<noteq> []\<close> by simp_all
      moreover have "length (map snd xs) = 100" using lxs by simp
      ultimately show ?thesis
        using r Inr t \<open>warm_up cardinality path ?warm = Inr u\<close> \<open>xs \<noteq> []\<close> summary_percentiles [of "map snd xs"]
        by (auto simp: measureHTTP_def lxs intro!: exI [of _ "ws @ xs"])
    qed
  qed
qed

text \<open>C21: the measurement of an endpoint returns for every positive concurrency. It fails only when one of its 110 requests fails, and
  otherwise its samples are the durations of exactly the hundred requests after the ten warm-ups, in order, made in batches that
  together have a hundred requests and none more than the concurrency; the size is that of the last response, and the percentiles are the 50th
  and the 95th of the hundred in order.\<close>

theorem measurement_complete:
  assumes "0 < concurrency"
  shows "\<exists>r. measureHTTP cardinality w path concurrency = Some r \<and>
    (case r of
      Inl e \<Rightarrow> list_ex isl (answers cardinality w path concurrency [0..<110])
    | Inr m \<Rightarrow> \<exists>xs. answers cardinality w path concurrency [0..<110] = map Inr xs \<and> hm_samples m = map snd (drop 10 xs) \<and>
        length (hm_samples m) = 100 \<and> hm_bytes m = fst (last xs) \<and> hm_concurrency m = concurrency \<and>
        sum_list (map hb_requests (hm_batches m)) = 100 \<and>
        list_all (\<lambda>b. 0 < hb_requests b \<and> hb_requests b \<le> concurrency) (hm_batches m) \<and>
        hm_summary m = \<lparr>sm_count = 100, sm_p50Ms = sort (hm_samples m) ! 49, sm_p95Ms = sort (hm_samples m) ! 94,
          sm_maxMs = Some (Max (set (hm_samples m)))\<rparr>)"
  by (rule measurement_result [OF assms])

definition steady_world :: bench_world where
  "steady_world =
     \<lparr>bw_fetch = (\<lambda>path c n. \<lparr>fa_started = of_nat n, fa_finished = of_nat n + 20, fa_result = Inr (200, 512, Some (JArr [JNull]))\<rparr>),
      bw_batch = (\<lambda>path c n. (of_nat n, of_nat n + 25))\<rparr>"

lemma steady_answers: "timedFetch 1 path (bw_fetch steady_world path c n) = Inr (512, 20)"
proof -
  have "js_double 20 = 20" by code_simp
  then show ?thesis by (simp add: timedFetch_def steady_world_def response_cardinality_def is_number_def elapsed_def)
qed

lemma measurement_complete_witness:
  "\<exists>m. measureHTTP 1 steady_world ''/v1/admin/tenants'' 7 = Some (Inr m) \<and> length (hm_samples m) = 100"
proof -
  have seven: "0 < (7 :: nat)" by simp
  have ok: "\<not> list_ex isl (answers 1 steady_world ''/v1/admin/tenants'' 7 [0..<110])" by (simp add: list_ex_iff steady_answers)
  show ?thesis
    using measurement_complete [OF seven, of 1 steady_world "''/v1/admin/tenants''"] ok
    by (elim exE conjE) (auto split: sum.splits)
qed

section \<open>The browser\<close>

record bench_profile =
  bp_id :: string
  bp_renderIterations :: nat
  bp_renderWarmups :: nat
  bp_width :: nat
  bp_height :: nat

datatype surface_kind = RenderSurface | TableSurface string string

record bench_surface =
  sf_apiPath :: string
  sf_id :: string
  sf_path :: string
  sf_heading :: string
  sf_kind :: surface_kind

text \<open>A table has the text the benchmark filters by and the label of its search field.\<close>

definition surfaces :: "bench_surface list" where
  "surfaces =
     [\<lparr>sf_apiPath = ''/v1/admin/overview'', sf_id = ''overview'', sf_path = ''/'',
       sf_heading = ''Vis'' @ [CHR 0xE3] @ ''o geral'', sf_kind = RenderSurface\<rparr>,
      \<lparr>sf_apiPath = ''/v1/admin/resource-definitions'', sf_id = ''definitions'', sf_path = ''/resource-definitions'',
       sf_heading = ''Defini'' @ [CHR 0xE7, CHR 0xF5] @ ''es de recurso'', sf_kind = RenderSurface\<rparr>,
      \<lparr>sf_apiPath = ''/v1/admin/tenants'', sf_id = ''tenants'', sf_path = ''/tenants'', sf_heading = ''Tenants'',
       sf_kind = TableSurface ''Benchmark Tenant 00001'' ''Buscar por nome ou slug...''\<rparr>,
      \<lparr>sf_apiPath = ''/v1/admin/api-clients'', sf_id = ''api-clients'', sf_path = ''/api-clients'', sf_heading = ''Chaves de API'',
       sf_kind = TableSurface ''Benchmark Client 00001'' ''Buscar por nome, data ou status...''\<rparr>]"

definition desktop :: bench_profile where
  "desktop = \<lparr>bp_id = ''desktop'', bp_renderIterations = 35, bp_renderWarmups = 5, bp_width = 1440, bp_height = 900\<rparr>"

definition mobile :: bench_profile where
  "mobile = \<lparr>bp_id = ''mobile'', bp_renderIterations = 35, bp_renderWarmups = 5, bp_width = 390, bp_height = 844\<rparr>"

definition is_mobile :: "bench_profile \<Rightarrow> bool" where
  "is_mobile p \<longleftrightarrow> bp_id p = ''mobile''"

text \<open>What the page's storage holds before its first script runs.\<close>

definition init_storage :: "bench_args \<Rightarrow> (string \<times> string) list" where
  "init_storage a = [(''tenancitAdminToken'', ba_adminToken a)]"

datatype browser_action =
    Visit string string
  | SetViewport nat nat
  | Settle nat
  | FillSearch string string
  | SetSearch string string
  | ClickSort
  | EvaluateSort
  | CloseBrowser

text \<open>The launch, the opening of the page, the n-th visit (navigation and heading), the n-th other step and the
  closing may each fail; the clock is read in order.\<close>

record browser_world =
  wb_launch :: "string option"
  wb_open :: "string option"
  wb_visit :: "nat \<Rightarrow> string option"
  wb_step :: "nat \<Rightarrow> string option"
  wb_clock :: "nat \<Rightarrow> rat"
  wb_close :: "string option"

record browser_state =
  bs_visits :: nat
  bs_steps :: nat
  bs_reads :: nat
  bs_actions :: "browser_action list"

type_synonym 'a driving = "browser_state \<Rightarrow> (bench_error + 'a) \<times> browser_state"

definition done_with :: "'a \<Rightarrow> 'a driving" where
  "done_with x = (\<lambda>s. (Inr x, s))"

definition and_then :: "'a driving \<Rightarrow> ('a \<Rightarrow> 'b driving) \<Rightarrow> 'b driving" where
  "and_then m f = (\<lambda>s. case m s of (Inl e, s') \<Rightarrow> (Inl e, s') | (Inr x, s') \<Rightarrow> f x s')"

fun each :: "('i \<Rightarrow> 'a driving) \<Rightarrow> 'i list \<Rightarrow> 'a list driving" where
  "each f [] = done_with []"
| "each f (i # is) = and_then (f i) (\<lambda>x. and_then (each f is) (\<lambda>xs. done_with (x # xs)))"

definition read_clock :: "browser_world \<Rightarrow> rat driving" where
  "read_clock w = (\<lambda>s. (Inr (wb_clock w (bs_reads s)), s\<lparr>bs_reads := Suc (bs_reads s)\<rparr>))"

definition driver_step :: "browser_world \<Rightarrow> browser_action \<Rightarrow> unit driving" where
  "driver_step w a =
     (\<lambda>s. (case wb_step w (bs_steps s) of Some e \<Rightarrow> Inl (BrowserFailed e) | None \<Rightarrow> Inr (),
       s\<lparr>bs_steps := Suc (bs_steps s), bs_actions := bs_actions s @ [a]\<rparr>))"

definition afterRender :: "unit driving" where
  "afterRender = (\<lambda>s. (Inr (), s\<lparr>bs_actions := bs_actions s @ [Settle 16]\<rparr>))"

definition visit_once :: "browser_world \<Rightarrow> string \<Rightarrow> string \<Rightarrow> browser_state \<Rightarrow> string option \<times> browser_state" where
  "visit_once w url heading s =
     (wb_visit w (bs_visits s), s\<lparr>bs_visits := Suc (bs_visits s), bs_actions := bs_actions s @ [Visit url heading]\<rparr>)"

text \<open>Two attempts; the error of the second is thrown.\<close>

definition visit_page :: "browser_world \<Rightarrow> string \<Rightarrow> string \<Rightarrow> unit driving" where
  "visit_page w url heading s =
     (case visit_once w url heading s of
        (None, s1) \<Rightarrow> (Inr (), s1)
      | (Some _, s1) \<Rightarrow> (case visit_once w url heading s1 of
          (None, s2) \<Rightarrow> (Inr (), s2)
        | (Some e, s2) \<Rightarrow> (Inl (BrowserFailed e), s2)))"

text \<open>The sample of a step, once the warm-ups are over.\<close>

definition sample_since :: "browser_world \<Rightarrow> bool \<Rightarrow> rat \<Rightarrow> rat list driving" where
  "sample_since w counts started =
     (if counts then and_then (read_clock w) (\<lambda>t. done_with [elapsed started t]) else done_with [])"

definition render_once :: "browser_world \<Rightarrow> bench_profile \<Rightarrow> string \<Rightarrow> string \<Rightarrow> nat \<Rightarrow> rat list driving" where
  "render_once w p url heading i =
     and_then (read_clock w) (\<lambda>started.
     and_then (if is_mobile p then driver_step w (SetViewport (if i mod 2 = 0 then 391 else 390) 844) else visit_page w url heading) (\<lambda>_.
     and_then afterRender (\<lambda>_. sample_since w (bp_renderWarmups p \<le> i) started)))"

definition interact_once :: "browser_world \<Rightarrow> bench_profile \<Rightarrow> string \<Rightarrow> string \<Rightarrow> nat \<Rightarrow> (rat list \<times> rat list) driving" where
  "interact_once w p filterValue searchLabel i =
     and_then (read_clock w) (\<lambda>started.
     let nextFilter = (if i mod 2 = 0 then filterValue else []) in
     and_then (driver_step w (if is_mobile p then SetSearch searchLabel nextFilter else FillSearch searchLabel nextFilter)) (\<lambda>_.
     and_then afterRender (\<lambda>_.
     and_then (sample_since w (5 \<le> i) started) (\<lambda>filtered.
     and_then (read_clock w) (\<lambda>started.
     and_then (driver_step w (if is_mobile p then EvaluateSort else ClickSort)) (\<lambda>_.
     and_then afterRender (\<lambda>_.
     and_then (sample_since w (5 \<le> i) started) (\<lambda>sorted. done_with (filtered, sorted)))))))))"

type_synonym metrics = "(string \<times> rat list \<times> sample_summary) list"

definition metric :: "string \<Rightarrow> rat list \<Rightarrow> metrics driving" where
  "metric name samples = (\<lambda>s. (case summary samples of Inl e \<Rightarrow> Inl e | Inr sm \<Rightarrow> Inr [(name, samples, sm)], s))"

definition measure_surface :: "browser_world \<Rightarrow> bench_args \<Rightarrow> bench_profile \<Rightarrow> bench_surface \<Rightarrow> (string \<times> metrics) driving" where
  "measure_surface w a p sf =
     (let url = ba_baseURL a @ sf_path sf in
      and_then (if is_mobile p then visit_page w url (sf_heading sf) else done_with ()) (\<lambda>_.
      and_then (each (render_once w p url (sf_heading sf)) [0..<bp_renderIterations p]) (\<lambda>rendered.
      and_then (metric ''render'' (concat rendered)) (\<lambda>render.
      and_then
        (case sf_kind sf of
           RenderSurface \<Rightarrow> done_with []
         | TableSurface filterValue searchLabel \<Rightarrow>
             and_then (each (interact_once w p filterValue searchLabel) [0..<35]) (\<lambda>samples.
             and_then (metric ''filter'' (concat (map fst samples))) (\<lambda>f.
             and_then (metric ''sort'' (concat (map snd samples))) (\<lambda>so. done_with (f @ so)))))
        (\<lambda>table. done_with (bp_id p @ ''-'' @ sf_id sf, render @ table))))))"

text \<open>The page is opened outside the \<open>try\<close>, so a browser whose page does not open is not closed. A failure to close is
  thrown instead of what the body threw.\<close>

definition measureBrowser :: "browser_world \<Rightarrow> bench_args \<Rightarrow> bench_profile \<Rightarrow> (string \<times> metrics) list driving" where
  "measureBrowser w a p s =
     (case wb_launch w of Some e \<Rightarrow> (Inl (BrowserFailed e), s)
      | None \<Rightarrow> (case wb_open w of Some e \<Rightarrow> (Inl (BrowserFailed e), s)
        | None \<Rightarrow>
            (let (result, s1) = each (measure_surface w a p) surfaces s;
                 s2 = s1\<lparr>bs_actions := bs_actions s1 @ [CloseBrowser]\<rparr> in
             (case wb_close w of Some e \<Rightarrow> Inl (BrowserFailed e) | None \<Rightarrow> result, s2))))"

section \<open>The file\<close>

record bench_platform =
  os_platform :: string
  os_release :: string
  os_arch :: string
  os_cpus :: "string list"

record bench_payload =
  pl_measuredAt :: string
  pl_cardinality :: rat
  pl_run :: rat
  pl_environment :: "(string \<times> json) list"
  pl_http :: "(string \<times> http_measurement \<times> http_measurement) list"
  pl_browser :: "(string \<times> metrics) list"

definition include_mobile :: "(string \<Rightarrow> string option) \<Rightarrow> bool" where
  "include_mobile env \<longleftrightarrow> env ''TENANCIT_SCALE_INCLUDE_MOBILE'' = Some ''1''"

definition bench_environment :: "(string \<Rightarrow> string option) \<Rightarrow> bench_platform \<Rightarrow> (string \<times> json) list" where
  "bench_environment env os =
     [(''commit'', JStr (some_or (env ''TENANCIT_SCALE_COMMIT'') ''unknown'')),
      (''dirty'', JBool (env ''TENANCIT_SCALE_DIRTY'' = Some ''1'')),
      (''platform'', JStr (os_platform os)), (''release'', JStr (os_release os)), (''arch'', JStr (os_arch os)),
      (''cpu'', JStr (case os_cpus os of [] \<Rightarrow> ''unknown'' | c # _ \<Rightarrow> c)),
      (''cpuCount'', JNum (int (length (os_cpus os)))),
      (''postgres'', JStr (some_or (env ''TENANCIT_SCALE_POSTGRES_VERSION'') ''unknown'')),
      (''chromium'', JStr (some_or (env ''TENANCIT_SCALE_CHROMIUM_VERSION'') ''unknown'')),
      (''viewports'', JArr (map JStr (if include_mobile env then [''1440x900'', ''390x844''] else [''1440x900''])))]"

fun measure_endpoints ::
  "rat \<Rightarrow> bench_world \<Rightarrow> (string \<times> string) list \<Rightarrow> (bench_error + (string \<times> http_measurement \<times> http_measurement) list) option" where
  "measure_endpoints cardinality w [] = Some (Inr [])"
| "measure_endpoints cardinality w ((i, path) # rest) =
     (case measureHTTP cardinality w path 1 of
        None \<Rightarrow> None
      | Some (Inl e) \<Rightarrow> Some (Inl e)
      | Some (Inr m1) \<Rightarrow> (case measureHTTP cardinality w path 10 of
          None \<Rightarrow> None
        | Some (Inl e) \<Rightarrow> Some (Inl e)
        | Some (Inr m10) \<Rightarrow>
            map_option (\<lambda>r. case r of Inl e \<Rightarrow> Inl e | Inr ms \<Rightarrow> Inr ((i, m1, m10) # ms)) (measure_endpoints cardinality w rest)))"

definition browser_measurements :: "browser_world \<Rightarrow> bench_args \<Rightarrow> bool \<Rightarrow> (string \<times> metrics) list driving" where
  "browser_measurements w a with_mobile =
     and_then (measureBrowser w a desktop) (\<lambda>ds.
       if with_mobile then and_then (measureBrowser w a mobile) (\<lambda>ms. done_with (ds @ ms)) else done_with ds)"

definition fresh_browser :: browser_state where
  "fresh_browser = \<lparr>bs_visits = 0, bs_steps = 0, bs_reads = 0, bs_actions = []\<rparr>"

text \<open>The whole script: the arguments come from the environment and the command line, \<open>now\<close> is the date it writes.\<close>

definition benchmark ::
  "(string \<Rightarrow> string option) \<Rightarrow> string option \<Rightarrow> bench_platform \<Rightarrow> string \<Rightarrow> bench_world \<Rightarrow> browser_world \<Rightarrow> (bench_error + bench_payload) option" where
  "benchmark env outputPath os now w b =
     (case bench_arguments (env ''TENANCIT_SCALE_BASE_URL'') (env ''TENANCIT_E2E_ADMIN_TOKEN'') (env ''TENANCIT_SCALE_CARDINALITY'')
         (env ''TENANCIT_SCALE_RUN'') outputPath of
        Inl e \<Rightarrow> Some (Inl e)
      | Inr a \<Rightarrow> (case measure_endpoints (ba_cardinality a) w endpoints of
          None \<Rightarrow> None
        | Some (Inl e) \<Rightarrow> Some (Inl e)
        | Some (Inr http) \<Rightarrow> Some (case fst (browser_measurements b a (include_mobile env) fresh_browser) of
            Inl e \<Rightarrow> Inl e
          | Inr browser \<Rightarrow> Inr \<lparr>pl_measuredAt = now, pl_cardinality = ba_cardinality a, pl_run = ba_run a,
              pl_environment = bench_environment env os, pl_http = http, pl_browser = browser\<rparr>)))"

section \<open>What the browser's measurements are\<close>

lemma and_then_Inr:
  "and_then m f s = (Inr y, s2) \<longleftrightarrow> (\<exists>x s1. m s = (Inr x, s1) \<and> f x s1 = (Inr y, s2))"
  by (auto simp: and_then_def split: prod.splits sum.splits)

lemma done_with_Inr [simp]: "done_with x s = (Inr y, s2) \<longleftrightarrow> y = x \<and> s2 = s"
  by (auto simp: done_with_def)

lemma each_Inr:
  assumes "each f is s = (Inr xs, s2)" and "\<And>i s x s1. f i s = (Inr x, s1) \<Longrightarrow> P i x"
  shows "list_all2 P is xs"
  using assms(1) by (induction "is" arbitrary: s xs) (auto simp: and_then_Inr dest: assms(2))

lemma length_concat_samples: "list_all2 (\<lambda>i x. length (g x) = k i) is xs \<Longrightarrow> length (concat (map g xs)) = sum_list (map k is)"
  by (induction rule: list_all2_induct) simp_all

lemma sample_since_Inr: "sample_since w c t s = (Inr xs, s2) \<Longrightarrow> length xs = (if c then 1 else 0)"
  by (auto simp: sample_since_def and_then_Inr split: if_splits)

lemma render_once_Inr: "render_once w p url heading i s = (Inr xs, s2) \<Longrightarrow> length xs = (if bp_renderWarmups p \<le> i then 1 else 0)"
  by (auto simp: render_once_def and_then_Inr dest: sample_since_Inr)

lemma interact_once_Inr:
  "interact_once w p v l i s = (Inr x, s2) \<Longrightarrow> length (fst x) = (if 5 \<le> i then 1 else 0) \<and> length (snd x) = (if 5 \<le> i then 1 else 0)"
  by (auto simp: interact_once_def and_then_Inr Let_def dest: sample_since_Inr)

lemma thirty_samples: "sum_list (map (\<lambda>i. if 5 \<le> i then 1 else 0) [0..<35]) = (30 :: nat)"
  by code_simp

definition thirty :: "string \<times> rat list \<times> sample_summary \<Rightarrow> bool" where
  "thirty m \<longleftrightarrow> (case m of (name, xs, sm) \<Rightarrow> length xs = 30 \<and>
     sm = \<lparr>sm_count = 30, sm_p50Ms = sort xs ! 14, sm_p95Ms = sort xs ! 28, sm_maxMs = Some (Max (set xs))\<rparr>)"

lemma metric_Inr: "metric name xs s = (Inr ms, s2) \<Longrightarrow> length xs = 30 \<Longrightarrow> map fst ms = [name] \<and> list_all thirty ms"
  by (auto simp: metric_def thirty_def summary_percentiles split: sum.splits)

definition metric_names :: "bench_surface \<Rightarrow> string list" where
  "metric_names sf = (case sf_kind sf of RenderSurface \<Rightarrow> [''render''] | TableSurface _ _ \<Rightarrow> [''render'', ''filter'', ''sort''])"

lemma measure_surface_Inr:
  assumes "measure_surface w a p sf s = (Inr x, s2)" and "bp_renderIterations p = 35" and "bp_renderWarmups p = 5"
  shows "fst x = bp_id p @ ''-'' @ sf_id sf \<and> map fst (snd x) = metric_names sf \<and> list_all thirty (snd x)"
proof -
  obtain rs s3 s4 s5 s6 render table where
    r: "each (render_once w p (ba_baseURL a @ sf_path sf) (sf_heading sf)) [0..<35] s3 = (Inr rs, s4)"
    and m: "metric ''render'' (concat rs) s4 = (Inr render, s5)"
    and t: "(case sf_kind sf of
           RenderSurface \<Rightarrow> done_with []
         | TableSurface filterValue searchLabel \<Rightarrow>
             and_then (each (interact_once w p filterValue searchLabel) [0..<35]) (\<lambda>samples.
             and_then (metric ''filter'' (concat (map fst samples))) (\<lambda>f.
             and_then (metric ''sort'' (concat (map snd samples))) (\<lambda>so. done_with (f @ so))))) s5 = (Inr table, s6)"
    and x: "x = (bp_id p @ ''-'' @ sf_id sf, render @ table)"
    using assms by (auto simp: measure_surface_def and_then_Inr Let_def)
  have l: "list_all2 (\<lambda>i x. length x = (if 5 \<le> i then 1 else 0)) [0..<35] rs"
    by (rule each_Inr [OF r]) (drule render_once_Inr, simp add: assms(3))
  have "length (concat rs) = 30" using length_concat_samples [where g = "\<lambda>x. x", OF l] thirty_samples by simp
  note render = metric_Inr [OF m this]
  show ?thesis
  proof (cases "sf_kind sf")
    case RenderSurface
    then show ?thesis using t render x by (simp add: metric_names_def)
  next
    case (TableSurface v l)
    then obtain ss s7 f s8 so s9 where ss: "each (interact_once w p v l) [0..<35] s5 = (Inr ss, s7)"
      and f: "metric ''filter'' (concat (map fst ss)) s7 = (Inr f, s8)" and so: "metric ''sort'' (concat (map snd ss)) s8 = (Inr so, s9)"
      and table: "table = f @ so"
      using t by (auto simp: and_then_Inr)
    have ls: "list_all2 (\<lambda>i x. length (fst x) = (if 5 \<le> i then 1 else 0)) [0..<35] ss"
      "list_all2 (\<lambda>i x. length (snd x) = (if 5 \<le> i then 1 else 0)) [0..<35] ss"
      by (rule each_Inr [OF ss], drule interact_once_Inr, simp)+
    have "length (concat (map fst ss)) = 30" "length (concat (map snd ss)) = 30"
      using length_concat_samples [OF ls(1)] length_concat_samples [OF ls(2)] thirty_samples by simp_all
    then show ?thesis using metric_Inr [OF f] metric_Inr [OF so] render x table TableSurface by (simp add: metric_names_def)
  qed
qed

definition surface_key :: "bench_profile \<Rightarrow> bench_surface \<Rightarrow> string" where
  "surface_key p sf = bp_id p @ ''-'' @ sf_id sf"

lemma measureBrowser_Inr:
  assumes "measureBrowser w a p s = (Inr r, s2)" and "bp_renderIterations p = 35" and "bp_renderWarmups p = 5"
  shows "map fst r = map (surface_key p) surfaces \<and> map (\<lambda>x. map fst (snd x)) r = map metric_names surfaces \<and>
    list_all (\<lambda>x. list_all thirty (snd x)) r"
proof -
  obtain s1 where e: "each (measure_surface w a p) surfaces s = (Inr r, s1)"
    using assms(1) by (auto simp: measureBrowser_def Let_def split_beta split: option.splits prod.splits) (metis prod.collapse)
  have "list_all2 (\<lambda>sf x. fst x = surface_key p sf \<and> map fst (snd x) = metric_names sf \<and> list_all thirty (snd x)) surfaces r"
    by (rule each_Inr [OF e]) (drule measure_surface_Inr, simp_all add: assms surface_key_def)
  then show ?thesis by (induction rule: list_all2_induct) simp_all
qed

text \<open>What the benchmark takes from the browser, with the desktop or the mobile profile: if the measurement of a profile succeeds, every
  surface has thirty samples of every metric, rendering for all and filtering and sorting for the tables, the warm-ups left out, with the
  percentiles at their ranks; and however it goes, a browser whose page was opened has been closed at the end.\<close>

theorem browser_measured:
  assumes "p \<in> {desktop, mobile}"
  shows "(case measureBrowser w a p s of
      (Inl e, s2) \<Rightarrow> True
    | (Inr r, s2) \<Rightarrow> map fst r = map (surface_key p) surfaces \<and> map (\<lambda>x. map fst (snd x)) r = map metric_names surfaces \<and>
        list_all (\<lambda>x. list_all thirty (snd x)) r) \<and>
    (wb_launch w = None \<and> wb_open w = None \<longrightarrow> last (bs_actions (snd (measureBrowser w a p s))) = CloseBrowser)"
proof -
  have p: "bp_renderIterations p = 35" "bp_renderWarmups p = 5" using assms by (auto simp: desktop_def mobile_def)
  have "wb_launch w = None \<and> wb_open w = None \<longrightarrow> last (bs_actions (snd (measureBrowser w a p s))) = CloseBrowser"
    by (auto simp: measureBrowser_def Let_def split_beta)
  then show ?thesis
    using measureBrowser_Inr [of w a p s, OF _ p] by (auto split: prod.split sum.split)
qed

definition still_browser :: browser_world where
  "still_browser = \<lparr>wb_launch = None, wb_open = None, wb_visit = (\<lambda>_. None), wb_step = (\<lambda>_. None), wb_clock = of_nat, wb_close = None\<rparr>"

definition sample_args :: bench_args where
  "sample_args = \<lparr>ba_baseURL = ''http://localhost:8080'', ba_adminToken = ''k'', ba_cardinality = 100, ba_run = 1, ba_outputPath = ''raw.json''\<rparr>"

lemma browser_measured_witness:
  "last (bs_actions (snd (measureBrowser still_browser sample_args desktop fresh_browser))) = CloseBrowser"
  using browser_measured [of desktop still_browser sample_args fresh_browser] by (simp add: still_browser_def)

section \<open>The benchmark and the console\<close>

text \<open>Looking up a key of a long list of literals, one rule for each entry.\<close>

lemma look_up_rules:
  "fst e \<noteq> k \<Longrightarrow> map_of es k = x \<Longrightarrow> map_of (e # es) k = x"
  "map_of ((k, v) # es) k = Some v" "map_of [] k = None"
  "map_of as k = None \<Longrightarrow> map_of bs k = x \<Longrightarrow> map_of (as @ bs) k = x" "map_of as k = Some v \<Longrightarrow> map_of (as @ bs) k = Some v"
  by (cases e) (simp_all add: map_add_def)

lemmas literals_apart = fst_conv list.inject char.inject simp_thms list.distinct

lemma portuguese_1:
  "map_of ptBR_1 ''apiClients.title'' = Some ''Chaves de API''" "map_of ptBR_1 ''apiClients.search'' = Some ''Buscar por nome, data ou status...''"
  unfolding ptBR_1_def by (rule look_up_rules(2) | (rule look_up_rules(1), simp only: literals_apart))+

lemma portuguese_2: "map_of ptBR_2 ''definitions.title'' = Some (''Defini'' @ [CHR 0xE7, CHR 0xF5] @ ''es de recurso'')"
  unfolding ptBR_2_def by (rule look_up_rules(2) | (rule look_up_rules(1), simp only: literals_apart))+

lemma portuguese_3: "map_of ptBR_3 ''overview.title'' = Some (''Vis'' @ [CHR 0xE3] @ ''o geral'')"
  unfolding ptBR_3_def by (rule look_up_rules(2) | (rule look_up_rules(1), simp only: literals_apart))+

lemma portuguese_4: "map_of ptBR_4 ''tenants.title'' = Some ''Tenants''" "map_of ptBR_4 ''tenants.search'' = Some ''Buscar por nome ou slug...''"
  unfolding ptBR_4_def by (rule look_up_rules(2) | (rule look_up_rules(1), simp only: literals_apart))+

lemma portuguese_none:
  "map_of ptBR_1 ''definitions.title'' = None" "map_of ptBR_1 ''overview.title'' = None" "map_of ptBR_1 ''tenants.title'' = None"
  "map_of ptBR_1 ''tenants.search'' = None" "map_of ptBR_2 ''overview.title'' = None" "map_of ptBR_2 ''tenants.title'' = None"
  "map_of ptBR_2 ''tenants.search'' = None" "map_of ptBR_3 ''tenants.title'' = None" "map_of ptBR_3 ''tenants.search'' = None"
  unfolding ptBR_1_def ptBR_2_def ptBR_3_def by (rule look_up_rules(3) | (rule look_up_rules(1), simp only: literals_apart))+

lemma portuguese_text:
  assumes "map_of ptBR key = Some v" and "\<not> has_brace v" shows "translate MESSAGES PtBR key [] = Some v"
  using assms by (simp add: translate_def MESSAGES_def interpolate_no_placeholder placeholders_none)

text \<open>C30: the benchmark measures what the console does. Its endpoints are the reads of the pages' lists and of the overview, of the client of the API; the
  headings it waits for are, in Portuguese, the language it opens the browser with, the labels of the pages at those addresses, and the fields it
  searches by are those of the tables; the token is put where the console reads it.\<close>

theorem benchmark_measures_console:
  "map snd endpoints = map (\<lambda>c. BASE @ fst (api c uuid)) [ListTenants, ListDefinitions, ListAPIClients, Overview] \<and>
   set (map sf_apiPath surfaces) = set (map snd endpoints) \<and>
   map sf_heading surfaces = map (\<lambda>sf. pageLabel (sf_path sf) (\<lambda>key. some_or (translate MESSAGES PtBR key []) [])) surfaces \<and>
   concat (map (\<lambda>sf. case sf_kind sf of TableSurface _ l \<Rightarrow> [l] | RenderSurface \<Rightarrow> []) surfaces) =
     map (\<lambda>key. some_or (translate MESSAGES PtBR key []) []) [''tenants.search'', ''apiClients.search''] \<and>
   init_storage a = [(ADMIN_TOKEN_KEY, ba_adminToken a)]"
proof -
  have t: "translate MESSAGES PtBR ''overview.title'' [] = Some (''Vis'' @ [CHR 0xE3] @ ''o geral'')" 
    "translate MESSAGES PtBR ''definitions.title'' [] = Some (''Defini'' @ [CHR 0xE7, CHR 0xF5] @ ''es de recurso'')"
    "translate MESSAGES PtBR ''tenants.title'' [] = Some ''Tenants''" "translate MESSAGES PtBR ''apiClients.title'' [] = Some ''Chaves de API''"
    "translate MESSAGES PtBR ''tenants.search'' [] = Some ''Buscar por nome ou slug...''"
    "translate MESSAGES PtBR ''apiClients.search'' [] = Some ''Buscar por nome, data ou status...''"
    by (rule portuguese_text; simp add: ptBR_def map_add_def portuguese_1 portuguese_2 portuguese_3 portuguese_4 portuguese_none)+
  show ?thesis
    by (simp add: surfaces_def endpoints_def pageLabel_def js_starts_with_def t BASE_def init_storage_def ADMIN_TOKEN_KEY_def insert_commute)
qed

section \<open>From the benchmark to the decision\<close>

text \<open>What \<open>summarize-scale.mjs\<close> reads of a file of the benchmark.\<close>

definition measurement_of :: "bench_payload \<Rightarrow> measurement" where
  "measurement_of p =
     \<lparr>m_cardinality = nat \<lfloor>pl_cardinality p\<rfloor>, m_run = nat \<lfloor>pl_run p\<rfloor>, m_measuredAt = pl_measuredAt p,
      m_environment = map (\<lambda>(k, v). (k, stringify v)) (pl_environment p),
      m_http = map (\<lambda>(i, h1, h10). (i,
        \<lparr>concurrency1 = \<lparr>hr_bytes = hm_bytes h1, hr_p95Ms = sm_p95Ms (hm_summary h1)\<rparr>,
         concurrency10 = \<lparr>hr_bytes = hm_bytes h10, hr_p95Ms = sm_p95Ms (hm_summary h10)\<rparr>\<rparr>)) (pl_http p),
      m_browser = map (\<lambda>(k, ms). (k, map (\<lambda>(n, xs, sm). (n, sm_p95Ms sm)) ms)) (pl_browser p)\<rparr>"

text \<open>A file that some run of the script has written, with or without the mobile profile.\<close>

definition bench_file :: "bool \<Rightarrow> bench_payload \<Rightarrow> bool" where
  "bench_file with_mobile p \<longleftrightarrow>
     (\<exists>env out os now w b. include_mobile env = with_mobile \<and> benchmark env out os now w b = Some (Inr p))"

lemma measure_endpoints_total: "\<exists>r. measure_endpoints c w es = Some r"
proof (induction es)
  case (Cons e es)
  have "\<exists>r. measureHTTP c w path n = Some r" if "0 < n" for path n using measurement_result [OF that] by blast
  then obtain r1 r10 where "measureHTTP c w (snd e) 1 = Some r1" "measureHTTP c w (snd e) 10 = Some r10"
    by (metis zero_less_one zero_less_numeral)
  with Cons show ?case by (cases e; cases r1; cases r10) auto
qed simp

lemma measure_endpoints_Inr: "measure_endpoints c w es = Some (Inr ms) \<Longrightarrow> map fst ms = map fst es"
proof (induction es arbitrary: ms)
  case (Cons e es)
  obtain r where r: "measure_endpoints c w es = Some r" using measure_endpoints_total by blast
  then obtain ns m where "r = Inr ns" "ms = (fst e, m) # ns"
    using Cons.prems by (cases e; cases r) (auto split: option.splits sum.splits)
  then show ?case using Cons.IH r by simp
qed simp

definition surface_keys :: "bool \<Rightarrow> string list" where
  "surface_keys with_mobile = map (surface_key desktop) surfaces @ (if with_mobile then map (surface_key mobile) surfaces else [])"

lemma bench_file_keys:
  assumes "bench_file with_mobile p"
  shows "map fst (m_http (measurement_of p)) = map fst endpoints" and "map fst (m_browser (measurement_of p)) = surface_keys with_mobile"
proof -
  obtain env out os now w b where m: "include_mobile env = with_mobile" and b: "benchmark env out os now w b = Some (Inr p)"
    using assms by (auto simp: bench_file_def)
  then obtain a where h: "measure_endpoints (ba_cardinality a) w endpoints = Some (Inr (pl_http p))"
    and fst: "fst (browser_measurements b a with_mobile fresh_browser) = Inr (pl_browser p)"
    by (auto simp: benchmark_def split: sum.splits option.splits)
  then obtain s2 where br: "browser_measurements b a with_mobile fresh_browser = (Inr (pl_browser p), s2)" by (metis prod.collapse)
  have keys: "map fst r = map (surface_key q) surfaces" if "measureBrowser b a q s = (Inr r, s3)" "q = desktop \<or> q = mobile" for q r s s3
    using measureBrowser_Inr [OF that(1)] that(2) by (auto simp: desktop_def mobile_def)
  have "map fst (pl_browser p) = surface_keys with_mobile"
    using br by (cases with_mobile) (auto simp: browser_measurements_def and_then_Inr surface_keys_def dest!: keys)
  then show "map fst (m_browser (measurement_of p)) = surface_keys with_mobile"
    by (simp add: measurement_of_def comp_def split_beta)
  show "map fst (m_http (measurement_of p)) = map fst endpoints"
    using measure_endpoints_Inr [OF h] by (simp add: measurement_of_def comp_def split_beta)
qed

text \<open>Of two runs, the first found a surface slow on mobile that the second did not measure: \<open>run.browser[surface]\<close> is
  undefined there.\<close>

definition slow_and_unmeasured :: "measurement list \<Rightarrow> bool" where
  "slow_and_unmeasured runs \<longleftrightarrow>
     list_ex (\<lambda>key. ui_hard key (runs ! 0) = Some True \<and> map_of (m_browser (runs ! 1)) key = None) (map (surface_key mobile) surfaces)"

lemma concat_options_defined: "concat_options xs \<noteq> None \<longleftrightarrow> list_all (\<lambda>x. x \<noteq> None) xs"
  by (induction xs) (auto split: option.splits)

lemma bench_keys_defined:
  assumes "bench_file m p"
  shows "x \<in> set (map fst endpoints) \<Longrightarrow> map_of (m_http (measurement_of p)) x \<noteq> None"
    and "map_of (m_browser (measurement_of p)) x \<noteq> None \<longleftrightarrow> x \<in> set (surface_keys m)"
  using bench_file_keys [OF assms] unfolding map_of_eq_None_iff by (metis list.set_map)+

lemma bench_pair_confirmed:
  assumes "bench_file m p" and "bench_file n q"
  shows "confirmedCapacityTriggers [measurement_of p, measurement_of q] \<noteq> None \<longleftrightarrow>
    \<not> slow_and_unmeasured [measurement_of p, measurement_of q]"
proof -
  let ?p = "measurement_of p" and ?q = "measurement_of q"
  note keys = bench_file_keys [OF assms(1)] bench_keys_defined [OF assms(1)] bench_keys_defined [OF assms(2)]
  have h: "endpoint_triggers [?p, ?q] x \<noteq> None" if "x \<in> set (map fst endpoints)" for x
    using keys(3,5) [OF that] by (auto simp: endpoint_triggers_def payload_hard_def http_hard_def split: option.splits bool.splits)
  have b: "surface_triggers [?p, ?q] x = None \<longleftrightarrow> ui_hard x ?p = Some True \<and> map_of (m_browser ?q) x = None"
    if "x \<in> set (surface_keys m)" for x
    using keys(4) [of x] that by (auto simp: surface_triggers_def ui_hard_def split: option.splits bool.splits)
  have "confirmedCapacityTriggers [?p, ?q] \<noteq> None \<longleftrightarrow> (\<forall>x \<in> set (surface_keys m). surface_triggers [?p, ?q] x \<noteq> None)"
    unfolding confirmedCapacityTriggers_def concat_options_defined list.sel keys(1,2) using h by (auto simp only: list_all_iff set_append set_map ball_Un ball_simps)
  also have "\<dots> \<longleftrightarrow> \<not> (\<exists>x \<in> set (surface_keys m). ui_hard x ?p = Some True \<and> map_of (m_browser ?q) x = None)" using b by blast
  also have "(\<exists>x \<in> set (surface_keys m). ui_hard x ?p = Some True \<and> map_of (m_browser ?q) x = None) \<longleftrightarrow> slow_and_unmeasured [?p, ?q]"
  proof -
    have "x \<in> set (map (surface_key mobile) surfaces)" if "map_of (m_browser ?q) x = None" "x \<in> set (surface_keys m)" for x
      using that keys(6) [of x] by (auto simp: surface_keys_def split: if_splits)
    moreover have "x \<in> set (surface_keys m)" if "ui_hard x ?p = Some True" for x using that keys(4) [of x] by (auto simp: ui_hard_def)
    ultimately show ?thesis by (auto simp: slow_and_unmeasured_def list_ex_iff simp del: set_map)
  qed
  finally show ?thesis .
qed

text \<open>The entries of \<open>bySize\<close>, once the summary has found two runs in each.\<close>

lemma paired_entry:
  assumes "check_pairs (by_size (sorted_measurements (map measurement_of ps))) = None"
    and "(c, runs) \<in> set (by_size (sorted_measurements (map measurement_of ps)))"
  obtains p q where "p \<in> set ps" "q \<in> set ps" "runs = [measurement_of p, measurement_of q]"
    "m_cardinality (measurement_of p) = c" "m_cardinality (measurement_of q) = c"
proof -
  have "length runs = 2" using assms by (auto simp: check_pairs_def find_None_iff)
  then obtain a b where ab: "runs = [a, b]" by (auto simp: numeral_2_eq_2 length_Suc_conv)
  then have "{a, b} = runs_of (sorted_measurements (map measurement_of ps)) c" using by_size_entry [OF assms(2)] by simp
  then have "a \<in> measurement_of ` set ps" "b \<in> measurement_of ` set ps" "m_cardinality a = c" "m_cardinality b = c"
    by (auto simp: runs_of_def sorted_measurements_def)
  then show thesis using that ab by blast
qed

lemma files_decide:
  assumes "list_all (\<lambda>p. bench_file (with_mobile p) p) ps" and "parseObservedOperationalVolume volume = Inr v" and "outputDir \<noteq> []"
    and "check_pairs (by_size (sorted_measurements (map measurement_of ps))) = None"
  shows "if \<exists>entry \<in> set (by_size (sorted_measurements (map measurement_of ps))). slow_and_unmeasured (snd entry)
    then summarize_scale volume outputDir (map measurement_of ps) = Inl ''TypeError''
    else \<exists>s. summarize_scale volume outputDir (map measurement_of ps) = Inr s \<and> observedOperationalVolume s = v"
proof -
  let ?ms = "by_size (sorted_measurements (map measurement_of ps))"
  have entry: "capacity_of e = None \<longleftrightarrow> slow_and_unmeasured (snd e)" if e: "e \<in> set ?ms" for e
  proof -
    obtain c runs where cr: "e = (c, runs)" by force
    obtain p q where pq: "p \<in> set ps" "q \<in> set ps" "runs = [measurement_of p, measurement_of q]"
      using paired_entry [OF assms(4) e [unfolded cr]] by blast
    then have "bench_file (with_mobile p) p" "bench_file (with_mobile q) q" using assms(1) by (simp_all add: list_all_iff)
    from bench_pair_confirmed [OF this] show ?thesis by (auto simp: cr capacity_of_def pq(3))
  qed
  have "concat_options (map (\<lambda>entry. map_option (\<lambda>p. [p]) (capacity_of entry)) ?ms) = None \<longleftrightarrow> (\<exists>e \<in> set ?ms. capacity_of e = None)"
    using concat_options_defined [of "map (\<lambda>entry. map_option (\<lambda>p. [p]) (capacity_of entry)) ?ms"]
    unfolding list_all_iff set_map ball_simps option.map_disc_iff by metis
  also have "\<dots> \<longleftrightarrow> (\<exists>e \<in> set ?ms. slow_and_unmeasured (snd e))" using entry by (rule bex_cong [OF refl])
  finally have "concat_options (map (\<lambda>entry. map_option (\<lambda>p. [p]) (capacity_of entry)) ?ms) = None \<longleftrightarrow>
      (\<exists>entry \<in> set ?ms. slow_and_unmeasured (snd entry))" .
  then show ?thesis using assms(2-4) by (auto simp: summarize_scale_def summary_of_def Let_def split: option.split)
qed

lemma same_profile_decides:
  assumes "list_all (\<lambda>p. bench_file (with_mobile p) p) ps"
    and "check_pairs (by_size (sorted_measurements (map measurement_of ps))) = None"
    and same: "\<forall>p \<in> set ps. \<forall>q \<in> set ps. m_cardinality (measurement_of p) = m_cardinality (measurement_of q) \<longrightarrow> with_mobile p = with_mobile q"
    and e: "e \<in> set (by_size (sorted_measurements (map measurement_of ps)))"
  shows "\<not> slow_and_unmeasured (snd e)"
proof -
  obtain c runs where cr: "e = (c, runs)" by force
  obtain p q where pq: "p \<in> set ps" "q \<in> set ps" "runs = [measurement_of p, measurement_of q]"
      "m_cardinality (measurement_of p) = m_cardinality (measurement_of q)"
    using paired_entry [OF assms(2) e [unfolded cr]] by metis
  then have "with_mobile p = with_mobile q" using same by blast
  then have "bench_file (with_mobile p) p" "bench_file (with_mobile p) q" using assms(1) pq(1,2) by (auto simp: list_all_iff)
  from bench_keys_defined(2) [OF this(1)] bench_keys_defined(2) [OF this(2)]
  have "map_of (m_browser (measurement_of q)) x \<noteq> None" if "ui_hard x (measurement_of p) = Some True" for x
    using that by (auto simp: ui_hard_def)
  then show ?thesis by (auto simp: cr pq(3) slow_and_unmeasured_def list_ex_iff)
qed

text \<open>C22: from files that the benchmark wrote, each with or without the mobile profile and two of each cardinality as the summary demands, the
  summary comes to a decision in every case but one: where the first run of a cardinality was written with the mobile profile and the second
  without, and the first found a surface slow on mobile, reading that surface of the second run throws. So it always decides where, as in
  \<open>scripts/benchmark-scale.sh\<close> (mobile for the cardinality 250 alone), the cardinality determines the profiles.\<close>

theorem benchmark_files_decide:
  assumes "list_all (\<lambda>p. bench_file (with_mobile p) p) ps" and "parseObservedOperationalVolume volume = Inr v" and "outputDir \<noteq> []"
    and "check_pairs (by_size (sorted_measurements (map measurement_of ps))) = None"
  shows "(if \<exists>entry \<in> set (by_size (sorted_measurements (map measurement_of ps))). slow_and_unmeasured (snd entry)
      then summarize_scale volume outputDir (map measurement_of ps) = Inl ''TypeError''
      else \<exists>s. summarize_scale volume outputDir (map measurement_of ps) = Inr s \<and> observedOperationalVolume s = v) \<and>
    ((\<forall>p \<in> set ps. \<forall>q \<in> set ps. m_cardinality (measurement_of p) = m_cardinality (measurement_of q) \<longrightarrow> with_mobile p = with_mobile q) \<longrightarrow>
      (\<exists>s. summarize_scale volume outputDir (map measurement_of ps) = Inr s \<and> observedOperationalVolume s = v))"
  using files_decide [OF assms] same_profile_decides [OF assms(1,4)] by (metis (no_types, lifting))

text \<open>A run against a server that always answers and a browser in which nothing fails.\<close>

definition succeeds :: "'a driving \<Rightarrow> ('a \<Rightarrow> bool) \<Rightarrow> bool" where
  "succeeds m P \<longleftrightarrow> (\<forall>s. \<exists>x s'. m s = (Inr x, s') \<and> P x)"

lemma succeeds_and_then: "succeeds m P \<Longrightarrow> (\<And>x. P x \<Longrightarrow> succeeds (f x) Q) \<Longrightarrow> succeeds (and_then m f) Q"
  unfolding succeeds_def and_then_Inr by meson

lemma succeeds_each: "(\<And>i. succeeds (f i) (P i)) \<Longrightarrow> succeeds (each f is) (list_all2 P is)"
proof (induction "is")
  case (Cons i "is")
  show ?case unfolding each.simps
    by (intro succeeds_and_then [OF Cons.prems] succeeds_and_then [OF Cons.IH [OF Cons.prems]]) (simp add: succeeds_def done_with_def)
qed (simp add: succeeds_def done_with_def)

lemma still_steps:
  "succeeds (read_clock still_browser) (\<lambda>_. True)" "succeeds (driver_step still_browser a) (\<lambda>_. True)"
  "succeeds afterRender (\<lambda>_. True)" "succeeds (visit_page still_browser url heading) (\<lambda>_. True)"
  "succeeds (sample_since still_browser c t) (\<lambda>xs. length xs = (if c then 1 else 0))"
  by (auto simp: succeeds_def read_clock_def driver_step_def afterRender_def visit_page_def visit_once_def still_browser_def sample_since_def
      and_then_def done_with_def)

lemma profiles: "bp_renderWarmups (if m then mobile else desktop) = 5" "bp_renderIterations (if m then mobile else desktop) = 35"
  by (simp_all add: desktop_def mobile_def)

lemma still_render:
  "bp_renderWarmups q = 5 \<Longrightarrow> succeeds (render_once still_browser q url heading i) (\<lambda>xs. length xs = (if 5 \<le> i then 1 else 0))"
  unfolding render_once_def
  by (cases "is_mobile q") (auto intro!: succeeds_and_then [OF still_steps(1)] succeeds_and_then [OF still_steps(2)]
      succeeds_and_then [OF still_steps(4)] succeeds_and_then [OF still_steps(3)] still_steps(5) simp only: if_False if_True)

lemma still_interact:
  "succeeds (interact_once still_browser q v l i) (\<lambda>x. length (fst x) = (if 5 \<le> i then 1 else 0) \<and> length (snd x) = (if 5 \<le> i then 1 else 0))"
  unfolding interact_once_def Let_def
  by (intro succeeds_and_then [OF still_steps(1)] succeeds_and_then [OF still_steps(2)] succeeds_and_then [OF still_steps(3)]
      succeeds_and_then [OF still_steps(5)]) (simp add: succeeds_def done_with_def)

lemma still_metric: "length xs = 30 \<Longrightarrow> succeeds (metric n xs) (\<lambda>_. True)"
  by (simp add: succeeds_def metric_def summary_percentiles)

lemma still_surface:
  assumes d: "bp_renderWarmups q = 5" "bp_renderIterations q = 35" shows "succeeds (measure_surface still_browser a q sf) (\<lambda>_. True)"
proof -
  have t: "length (concat xs) = 30" if "list_all2 (\<lambda>i x. length x = (if 5 \<le> i then 1 else 0)) [0..<35] xs" for xs :: "rat list list"
    using length_concat_samples [where g = "\<lambda>x. x", OF that] thirty_samples by simp
  have t2: "length (concat (map fst xs)) = 30 \<and> length (concat (map snd xs)) = 30"
    if "list_all2 (\<lambda>i x. length (fst x) = (if 5 \<le> i then 1 else 0) \<and> length (snd x) = (if 5 \<le> i then 1 else 0)) [0..<35] xs"
    for xs :: "(rat list \<times> rat list) list"
  proof -
    have "list_all2 (\<lambda>i x. length (fst x) = (if 5 \<le> i then 1 else 0)) [0..<35] xs" by (rule list_all2_mono [OF that]) simp
    moreover have "list_all2 (\<lambda>i x. length (snd x) = (if 5 \<le> i then 1 else 0)) [0..<35] xs" by (rule list_all2_mono [OF that]) simp
    ultimately show ?thesis by (simp add: length_concat_samples thirty_samples del: map_eq_conv)
  qed
  have ok: "succeeds (done_with x) (\<lambda>_. True)" for x :: 'b by (simp add: succeeds_def done_with_def)
  have table: "succeeds (case sf_kind sf of
           RenderSurface \<Rightarrow> done_with []
         | TableSurface filterValue searchLabel \<Rightarrow>
             and_then (each (interact_once still_browser q filterValue searchLabel) [0..<35]) (\<lambda>samples.
             and_then (metric ''filter'' (concat (map fst samples))) (\<lambda>f.
             and_then (metric ''sort'' (concat (map snd samples))) (\<lambda>so. done_with (f @ so))))) (\<lambda>_. True)"
  proof (cases "sf_kind sf")
    case (TableSurface v l)
    show ?thesis unfolding TableSurface surface_kind.case
      by (rule succeeds_and_then [OF succeeds_each [OF still_interact]])
        (intro succeeds_and_then [OF still_metric] ok; simp add: t2)
  qed (simp add: ok)
  have visit: "succeeds (if is_mobile q then visit_page still_browser url heading else done_with ()) (\<lambda>_. True)" for url heading
    by (simp add: still_steps(4) ok)
  show ?thesis
    unfolding measure_surface_def Let_def d
    by (rule succeeds_and_then [OF visit], rule succeeds_and_then [OF succeeds_each [OF still_render [OF d(1)]]])
      (intro succeeds_and_then [OF still_metric] succeeds_and_then [OF table] ok; simp add: t)
qed

definition sample_env :: "bool \<Rightarrow> string \<Rightarrow> string option" where
  "sample_env m name = map_of
     [(''TENANCIT_SCALE_BASE_URL'', ''http://localhost:8080''), (''TENANCIT_E2E_ADMIN_TOKEN'', ''k''),
      (''TENANCIT_SCALE_CARDINALITY'', ''1''), (''TENANCIT_SCALE_RUN'', ''1''),
      (''TENANCIT_SCALE_INCLUDE_MOBILE'', if m then ''1'' else ''0'')] name"

lemma sample_file: "\<exists>p. bench_file m p \<and> pl_cardinality p = 1 \<and> pl_run p = 1"
proof -
  have http: "\<exists>m. measureHTTP 1 steady_world path n = Some (Inr m)" if pos: "0 < n" for path n
  proof -
    have "\<not> list_ex isl (answers 1 steady_world path n [0..<110])" by (simp add: list_ex_iff steady_answers)
    moreover obtain r where "measureHTTP 1 steady_world path n = Some r"
      "case r of Inl e \<Rightarrow> list_ex isl (answers 1 steady_world path n [0..<110]) | Inr m \<Rightarrow> True"
      using measurement_result [OF pos, of 1 steady_world path] by (elim exE conjE) (metis (no_types, lifting) sum.case_eq_if)
    ultimately show ?thesis by (cases r) auto
  qed
  have h: "\<exists>ms. measure_endpoints 1 steady_world es = Some (Inr ms)" for es
  proof (induction es)
    case (Cons e es)
    obtain m1 m10 where "measureHTTP 1 steady_world (snd e) 1 = Some (Inr m1)" "measureHTTP 1 steady_world (snd e) 10 = Some (Inr m10)"
      using http by (metis zero_less_one zero_less_numeral)
    with Cons show ?case by (cases e) auto
  qed simp
  obtain a where a: "bench_arguments (sample_env m ''TENANCIT_SCALE_BASE_URL'') (sample_env m ''TENANCIT_E2E_ADMIN_TOKEN'')
      (sample_env m ''TENANCIT_SCALE_CARDINALITY'') (sample_env m ''TENANCIT_SCALE_RUN'') (Some ''raw.json'') = Inr a"
    "ba_cardinality a = 1" "ba_run a = 1"
  proof -
    have "js_Number ''1'' = Some 1" by code_simp
    then show thesis using that by (simp add: bench_arguments_def sample_env_def given_def given_number_def)
  qed
  have each: "succeeds (each (measure_surface still_browser a q) surfaces) (list_all2 (\<lambda>_ _. True) surfaces)" if "q \<in> {desktop, mobile}" for q
    by (rule succeeds_each, rule still_surface) (use that in \<open>auto simp: desktop_def mobile_def\<close>)
  have measured: "succeeds (measureBrowser still_browser a q) (\<lambda>_. True)" if profile: "q \<in> {desktop, mobile}" for q
    unfolding succeeds_def
  proof
    fix s
    obtain r s1 where "each (measure_surface still_browser a q) surfaces s = (Inr r, s1)" using each [OF profile] unfolding succeeds_def by blast
    then show "\<exists>x s'. measureBrowser still_browser a q s = (Inr x, s') \<and> True" by (simp add: measureBrowser_def) (simp add: still_browser_def)
  qed
  have ok: "succeeds (done_with x) (\<lambda>_. True)" for x :: 'b by (simp add: succeeds_def done_with_def)
  have "succeeds (browser_measurements still_browser a m) (\<lambda>_. True)"
    unfolding browser_measurements_def by (cases m) (auto intro!: succeeds_and_then [OF measured] ok)
  then obtain r s1 where br: "browser_measurements still_browser a m fresh_browser = (Inr r, s1)" unfolding succeeds_def by blast
  have m: "include_mobile (sample_env m) = m" by (simp add: include_mobile_def sample_env_def)
  obtain ms where "measure_endpoints 1 steady_world endpoints = Some (Inr ms)" using h by blast
  with br a have "\<exists>p. benchmark (sample_env m) (Some ''raw.json'') os now steady_world still_browser = Some (Inr p) \<and> pl_cardinality p = 1 \<and> pl_run p = 1" for os now
    by (simp add: benchmark_def m)
  with m show ?thesis unfolding bench_file_def by blast
qed

text \<open>Two files of one cardinality, the second written with the mobile profile, and two written with it.\<close>

lemma benchmark_files_decide_witness:
  "\<exists>p q s t. bench_file False p \<and> bench_file True q \<and> summarize_scale None ''results'' (map measurement_of [p, q]) = Inr s \<and>
     summarize_scale None ''results'' (map measurement_of [q, q]) = Inr t"
proof -
  obtain p where p: "bench_file False p" "pl_cardinality p = 1" "pl_run p = 1" using sample_file by blast
  obtain q where q: "bench_file True q" "pl_cardinality q = 1" "pl_run q = 1" using sample_file by blast
  have "surface_keys True \<noteq> surface_keys False" by code_simp
  then have pq: "p \<noteq> q" using bench_file_keys(2) p(1) q(1) by metis
  have m: "m_cardinality (measurement_of x) = 1" "m_run (measurement_of x) = 1" if "x \<in> {p, q}" for x
    using that p q by (auto simp: measurement_of_def)
  have size: "by_size (sorted_measurements (map measurement_of [x, y])) = [(1, [measurement_of x, measurement_of y])]" if "x \<in> {p, q}" "y \<in> {p, q}" for x y
    using m [OF that(1)] m [OF that(2)] by (simp add: by_size_def sorted_measurements_def)
  have "\<forall>x \<in> set (map (surface_key mobile) surfaces). x \<notin> set (surface_keys False)" by code_simp
  then have "\<not> slow_and_unmeasured [measurement_of p, measurement_of q]"
    using bench_keys_defined(2) [OF p(1)] by (fastforce simp: slow_and_unmeasured_def list_ex_iff ui_hard_def)
  then have "\<exists>s. summarize_scale None ''results'' (map measurement_of [p, q]) = Inr s \<and> observedOperationalVolume s = 0"
    using benchmark_files_decide [of "\<lambda>x. x = q" "[p, q]" None 0 "''results''"] p q pq size [of p q]
    by (simp add: parseObservedOperationalVolume_def check_pairs_def)
  moreover have "\<exists>s. summarize_scale None ''results'' (map measurement_of [q, q]) = Inr s \<and> observedOperationalVolume s = 0"
    using benchmark_files_decide [of "\<lambda>x. True" "[q, q]" None 0 "''results''"] q size [of q q]
    by (simp add: parseObservedOperationalVolume_def check_pairs_def)
  ultimately show ?thesis using p(1) q(1) by blast
qed

end
