(* ===== verification/ProtoStore.thy ===== *)
theory ProtoStore
  imports Prelude
begin

text \<open>
  The store of the planning prototype (\<open>planning/tenancit/proto/routes/store.js\<close>) and its sample data (\<open>_data.js\<close>): the
  module's state with its counter, the copy in local storage, and one function for each exported
  operation. Clock, random source and dates are streams, one value for each reading; the browser may refuse to write. Theorems:
  identifiers stay distinct over every run of operations, and over reloads after which the clock repeats no reading, so an
  operation reaches one row; what is on screen survives a reload as long as writes are accepted.
\<close>

section \<open>Data\<close>

record proto_field =
  fld_id :: string
  fld_key :: string
  fld_label :: string
  fld_data_type :: string
  fld_required :: bool
  fld_is_secret :: bool

record proto_definition =
  def_id :: string
  def_key :: string
  def_name :: string
  def_status :: string
  def_icon :: string
  def_description :: string
  def_fields :: "proto_field list"

record proto_domain =
  dom_id :: string
  dom_hostname :: string

text \<open>A value is \<^const>\<open>None\<close> for \<open>null\<close>.\<close>

record proto_resource =
  res_id :: string
  res_definitionKey :: string
  res_definitionName :: string
  res_status :: string
  res_values :: "(string \<times> string option) list"

record proto_tenant =
  ten_id :: string
  ten_slug :: string
  ten_name :: string
  ten_status :: string
  ten_domains :: "proto_domain list"
  ten_resources :: "proto_resource list"

record proto_client =
  cli_id :: string
  cli_name :: string
  cli_status :: string
  cli_key_preview :: string
  cli_created_at :: string

record proto_data =
  tenants :: "proto_tenant list"
  definitions :: "proto_definition list"
  apiClients :: "proto_client list"

definition text_field_of :: "string \<Rightarrow> string \<Rightarrow> string \<Rightarrow> string \<Rightarrow> bool \<Rightarrow> bool \<Rightarrow> proto_field" where
  "text_field_of i key label data_type required is_secret =
     \<lparr>fld_id = i, fld_key = key, fld_label = label, fld_data_type = data_type, fld_required = required, fld_is_secret = is_secret\<rparr>"

definition DEFINITIONS :: "proto_definition list" where
  "DEFINITIONS =
     [\<lparr>def_id = ''def-postgres'', def_key = ''postgres'', def_name = ''PostgreSQL Connection'', def_status = ''active'',
       def_icon = ''lucide:database'', def_description = ''Conex'' @ [CHR 0xE3] @ ''o de banco de dados PostgreSQL dedicada por tenant.'',
       def_fields =
         [text_field_of ''f1'' ''host'' ''Host'' ''string'' True False,
          text_field_of ''f2'' ''port'' ''Porta'' ''int'' True False,
          text_field_of ''f3'' ''database'' ''Database'' ''string'' True False,
          text_field_of ''f4'' ''username'' (''Usu'' @ [CHR 0xE1] @ ''rio'') ''string'' True False,
          text_field_of ''f5'' ''password'' ''Senha'' ''string'' True True,
          text_field_of ''f6'' ''sslmode'' ''SSL Mode'' ''string'' False False]\<rparr>,
      \<lparr>def_id = ''def-minio'', def_key = ''minio'', def_name = ''MinIO / S3 Bucket'', def_status = ''active'',
       def_icon = ''lucide:hard-drive'',
       def_description = ''Configura'' @ [CHR 0xE7, CHR 0xE3] @ ''o de object storage (bucket + credenciais) por tenant.'',
       def_fields =
         [text_field_of ''m1'' ''endpoint'' ''Endpoint'' ''string'' True False,
          text_field_of ''m2'' ''bucket'' ''Bucket'' ''string'' True False,
          text_field_of ''m3'' ''access_key'' ''Access Key'' ''string'' True False,
          text_field_of ''m4'' ''secret_key'' ''Secret Key'' ''string'' True True]\<rparr>,
      \<lparr>def_id = ''def-smtp'', def_key = ''smtp'', def_name = ''SMTP'', def_status = ''inactive'', def_icon = ''lucide:mail'',
       def_description = ''Servidor de e-mail por tenant.'',
       def_fields =
         [text_field_of ''s1'' ''host'' ''Host'' ''string'' True False,
          text_field_of ''s2'' ''username'' (''Usu'' @ [CHR 0xE1] @ ''rio'') ''string'' True False,
          text_field_of ''s3'' ''password'' ''Senha'' ''string'' True True]\<rparr>]"

definition postgres_values :: "string \<Rightarrow> string \<Rightarrow> string \<Rightarrow> (string \<times> string option) list" where
  "postgres_values host database username =
     [(''host'', Some host), (''port'', Some ''5432''), (''database'', Some database), (''username'', Some username),
      (''password'', None), (''sslmode'', Some ''require'')]"

definition TENANTS :: "proto_tenant list" where
  "TENANTS =
     [\<lparr>ten_id = ''t-acme'', ten_slug = ''acme'', ten_name = ''Acme Corp'', ten_status = ''active'',
       ten_domains = [\<lparr>dom_id = ''d1'', dom_hostname = ''app.acme.test''\<rparr>, \<lparr>dom_id = ''d2'', dom_hostname = ''portal.acme.test''\<rparr>],
       ten_resources =
         [\<lparr>res_id = ''r1'', res_definitionKey = ''postgres'', res_definitionName = ''PostgreSQL Connection'', res_status = ''active'',
           res_values = postgres_values ''db.acme.example'' ''acme_prod'' ''acme_app''\<rparr>,
          \<lparr>res_id = ''r2'', res_definitionKey = ''minio'', res_definitionName = ''MinIO / S3 Bucket'', res_status = ''active'',
           res_values = [(''endpoint'', Some ''https://s3.example.test''), (''bucket'', Some ''demo-acme-assets''),
             (''access_key'', None), (''secret_key'', None)]\<rparr>]\<rparr>,
      \<lparr>ten_id = ''t-globex'', ten_slug = ''globex'', ten_name = ''Globex Ltda'', ten_status = ''active'',
       ten_domains = [\<lparr>dom_id = ''d3'', dom_hostname = ''portal.globex.test''\<rparr>],
       ten_resources =
         [\<lparr>res_id = ''r3'', res_definitionKey = ''postgres'', res_definitionName = ''PostgreSQL Connection'', res_status = ''active'',
           res_values = postgres_values ''db.globex.example'' ''globex_prod'' ''globex_app''\<rparr>]\<rparr>,
      \<lparr>ten_id = ''t-initech'', ten_slug = ''initech'', ten_name = ''Initech'', ten_status = ''inactive'',
       ten_domains = [\<lparr>dom_id = ''d4'', dom_hostname = ''app.initech.test''\<rparr>], ten_resources = []\<rparr>]"

definition demo_client :: "string \<Rightarrow> string \<Rightarrow> string \<Rightarrow> string \<Rightarrow> string \<Rightarrow> proto_client" where
  "demo_client i name status ending created =
     \<lparr>cli_id = i, cli_name = name, cli_status = status, cli_key_preview = ''rt_demo_'' @ replicate 6 (CHR 0x95) @ ending, cli_created_at = created\<rparr>"

definition API_CLIENTS :: "proto_client list" where
  "API_CLIENTS =
     [demo_client ''c1'' ''consumer-api'' ''active'' ''8f2a'' ''2026-04-12'',
      demo_client ''c2'' ''billing-service'' ''active'' ''1c90'' ''2026-05-02'',
      demo_client ''c3'' ''demo-importer'' ''revoked'' ''44de'' ''2026-01-20'']"

definition seed :: proto_data where
  "seed = \<lparr>tenants = TENANTS, definitions = DEFINITIONS, apiClients = API_CLIENTS\<rparr>"

section \<open>The module\<close>

text \<open>\<open>pw_now n\<close> is the n-th reading of \<open>Date.now()\<close>, \<open>pw_random n\<close> the n-th random text, \<open>pw_iso n\<close> the current date as text at
  the n-th reading.\<close>

record proto_world =
  pw_now :: "nat \<Rightarrow> nat"
  pw_random :: "nat \<Rightarrow> string"
  pw_iso :: "nat \<Rightarrow> string"

text \<open>Of local storage: nothing, a text that is not JSON, or a state. Listeners are numbers, and \<open>st_renders\<close> logs whom a
  commit has called.\<close>

record proto_store =
  st_data :: proto_data
  st_counter :: nat
  st_listeners :: "nat list"
  st_renders :: "nat list"
  st_saved :: "(string + proto_data) option"
  st_writable :: bool
  st_reads :: nat
  st_randoms :: nat

definition load_data :: "(string + proto_data) option \<Rightarrow> proto_data" where
  "load_data raw = (case raw of Some (Inr d) \<Rightarrow> d | _ \<Rightarrow> seed)"

definition commit :: "proto_data \<Rightarrow> proto_store \<Rightarrow> proto_store" where
  "commit next s =
     s\<lparr>st_data := next, st_saved := (if st_writable s then Some (Inr next) else st_saved s), st_renders := st_renders s @ st_listeners s\<rparr>"

definition resetState :: "proto_store \<Rightarrow> proto_store" where
  "resetState s = commit seed s"

definition subscribe :: "nat \<Rightarrow> proto_store \<Rightarrow> proto_store" where
  "subscribe l s = s\<lparr>st_listeners := (if l \<in> set (st_listeners s) then st_listeners s else st_listeners s @ [l])\<rparr>"

definition unsubscribe :: "nat \<Rightarrow> proto_store \<Rightarrow> proto_store" where
  "unsubscribe l s = s\<lparr>st_listeners := removeAll l (st_listeners s)\<rparr>"

text \<open>A reload starts the module again on what local storage holds.\<close>

definition reload_module :: "proto_store \<Rightarrow> proto_store" where
  "reload_module s = s\<lparr>st_data := load_data (st_saved s), st_counter := 1, st_listeners := [], st_renders := []\<rparr>"

definition first_visit :: proto_store where
  "first_visit = \<lparr>st_data = load_data None, st_counter = 1, st_listeners = [], st_renders = [], st_saved = None,
     st_writable = True, st_reads = 0, st_randoms = 0\<rparr>"

section \<open>Identifiers\<close>

definition digit36 :: "nat \<Rightarrow> char" where
  "digit36 d = char_of (if d < 10 then 48 + d else 87 + d)"

fun show36 :: "nat \<Rightarrow> string" where
  "show36 n = (if n < 36 then [digit36 n] else show36 (n div 36) @ [digit36 (n mod 36)])"

declare show36.simps [simp del]

definition ident :: "string \<Rightarrow> nat \<Rightarrow> nat \<Rightarrow> string" where
  "ident kind now n = kind @ ''-'' @ show36 now @ ''-'' @ show_nat n"

definition uid :: "proto_world \<Rightarrow> string \<Rightarrow> proto_store \<Rightarrow> string \<times> proto_store" where
  "uid w kind s =
     (ident kind (pw_now w (st_reads s)) (st_counter s), s\<lparr>st_counter := Suc (st_counter s), st_reads := Suc (st_reads s)\<rparr>)"

text \<open>\<open>list.map\<close> with an update of the elements that fit, which may draw identifiers.\<close>

fun map_found :: "('a \<Rightarrow> bool) \<Rightarrow> ('a \<Rightarrow> proto_store \<Rightarrow> 'a \<times> proto_store) \<Rightarrow> 'a list \<Rightarrow> proto_store \<Rightarrow> 'a list \<times> proto_store" where
  "map_found p f [] s = ([], s)"
| "map_found p f (x # xs) s =
     (let (y, s1) = (if p x then f x s else (x, s)); (ys, s2) = map_found p f xs s1 in (y # ys, s2))"

section \<open>Operations\<close>

text \<open>\<open>text.replace(/\s+/g, "-")\<close>\<close>

function dash_spaces :: "string \<Rightarrow> string" where
  "dash_spaces [] = []"
| "dash_spaces (c # s) =
     (if js_space c then CHR ''-'' # dash_spaces (dropWhile js_space s) else c # dash_spaces s)"
  by pat_completeness auto
termination by (relation "measure length") (simp_all add: le_imp_less_Suc length_dropWhile_le)

record tenant_input =
  ti_name :: string
  ti_slug :: string
  ti_hostname :: string

definition proto_addTenant :: "proto_world \<Rightarrow> tenant_input \<Rightarrow> proto_store \<Rightarrow> string \<times> proto_store" where
  "proto_addTenant w f s =
     (let (i, s1) = uid w ''t'' s;
          (domains, s2) = (if ti_hostname f \<noteq> [] then (let (d, s2) = uid w ''d'' s1 in ([\<lparr>dom_id = d, dom_hostname = ti_hostname f\<rparr>], s2)) else ([], s1));
          tenant = \<lparr>ten_id = i, ten_slug = (if ti_slug f \<noteq> [] then ti_slug f else dash_spaces (js_lower (ti_name f))), ten_name = ti_name f,
            ten_status = ''active'', ten_domains = domains, ten_resources = []\<rparr> in
      (i, commit ((st_data s2)\<lparr>tenants := tenants (st_data s2) @ [tenant]\<rparr>) s2))"

text \<open>The patch of the only caller: name, slug and status.\<close>

definition proto_updateTenant :: "string \<Rightarrow> string \<times> string \<times> string \<Rightarrow> proto_store \<Rightarrow> proto_store" where
  "proto_updateTenant i patch s =
     (case patch of (name, slug, status) \<Rightarrow>
        commit ((st_data s)\<lparr>tenants := map (\<lambda>t. if ten_id t = i then t\<lparr>ten_name := name, ten_slug := slug, ten_status := status\<rparr> else t)
          (tenants (st_data s))\<rparr>) s)"

definition mutateTenant ::
  "string \<Rightarrow> (proto_tenant \<Rightarrow> proto_store \<Rightarrow> proto_tenant \<times> proto_store) \<Rightarrow> proto_store \<Rightarrow> proto_store" where
  "mutateTenant i f s =
     (let (ts, s1) = map_found (\<lambda>t. ten_id t = i) f (tenants (st_data s)) s in commit ((st_data s)\<lparr>tenants := ts\<rparr>) s1)"

definition proto_addDomain :: "proto_world \<Rightarrow> string \<Rightarrow> string \<Rightarrow> proto_store \<Rightarrow> proto_store" where
  "proto_addDomain w tenantId hostname =
     mutateTenant tenantId (\<lambda>t s. let (d, s1) = uid w ''d'' s in
       (t\<lparr>ten_domains := ten_domains t @ [\<lparr>dom_id = d, dom_hostname = hostname\<rparr>]\<rparr>, s1))"

definition proto_removeDomain :: "string \<Rightarrow> string \<Rightarrow> proto_store \<Rightarrow> proto_store" where
  "proto_removeDomain tenantId domainId =
     mutateTenant tenantId (\<lambda>t s. (t\<lparr>ten_domains := filter (\<lambda>d. dom_id d \<noteq> domainId) (ten_domains t)\<rparr>, s))"

definition proto_addResource :: "proto_world \<Rightarrow> string \<Rightarrow> proto_definition \<Rightarrow> (string \<times> string option) list \<Rightarrow> proto_store \<Rightarrow> proto_store" where
  "proto_addResource w tenantId d vals =
     mutateTenant tenantId (\<lambda>t s. let (r, s1) = uid w ''r'' s in
       (t\<lparr>ten_resources := ten_resources t @
          [\<lparr>res_id = r, res_definitionKey = def_key d, res_definitionName = def_name d, res_status = ''active'', res_values = vals\<rparr>]\<rparr>, s1))"

definition toggled :: "string \<Rightarrow> string \<Rightarrow> string" where
  "toggled off status = (if status = ''active'' then off else ''active'')"

definition proto_toggleResourceStatus :: "string \<Rightarrow> string \<Rightarrow> proto_store \<Rightarrow> proto_store" where
  "proto_toggleResourceStatus tenantId resourceId =
     mutateTenant tenantId (\<lambda>t s.
       (t\<lparr>ten_resources := map (\<lambda>r. if res_id r = resourceId then r\<lparr>res_status := toggled ''inactive'' (res_status r)\<rparr> else r) (ten_resources t)\<rparr>, s))"

definition proto_removeResource :: "string \<Rightarrow> string \<Rightarrow> proto_store \<Rightarrow> proto_store" where
  "proto_removeResource tenantId resourceId =
     mutateTenant tenantId (\<lambda>t s. (t\<lparr>ten_resources := filter (\<lambda>r. res_id r \<noteq> resourceId) (ten_resources t)\<rparr>, s))"

record definition_input =
  di_key :: string
  di_name :: string
  di_description :: string
  di_icon :: string

definition proto_addDefinition :: "proto_world \<Rightarrow> definition_input \<Rightarrow> proto_store \<Rightarrow> string \<times> proto_store" where
  "proto_addDefinition w f s =
     (let (i, s1) = uid w ''def'' s;
          d = \<lparr>def_id = i, def_key = di_key f, def_name = di_name f, def_status = ''active'',
            def_icon = (if di_icon f \<noteq> [] then di_icon f else ''lucide:box''), def_description = di_description f, def_fields = []\<rparr> in
      (i, commit ((st_data s1)\<lparr>definitions := definitions (st_data s1) @ [d]\<rparr>) s1))"

definition proto_toggleDefinitionStatus :: "string \<Rightarrow> proto_store \<Rightarrow> proto_store" where
  "proto_toggleDefinitionStatus i s =
     commit ((st_data s)\<lparr>definitions := map (\<lambda>d. if def_id d = i then d\<lparr>def_status := toggled ''inactive'' (def_status d)\<rparr> else d)
       (definitions (st_data s))\<rparr>) s"

text \<open>The new field is the form's with an identifier.\<close>

definition proto_addField :: "proto_world \<Rightarrow> string \<Rightarrow> proto_field \<Rightarrow> proto_store \<Rightarrow> proto_store" where
  "proto_addField w defId field s =
     (let (ds, s1) = map_found (\<lambda>d. def_id d = defId)
            (\<lambda>d s. let (i, s1) = uid w ''f'' s in (d\<lparr>def_fields := def_fields d @ [field\<lparr>fld_id := i\<rparr>]\<rparr>, s1)) (definitions (st_data s)) s in
      commit ((st_data s)\<lparr>definitions := ds\<rparr>) s1)"

definition proto_removeField :: "string \<Rightarrow> string \<Rightarrow> proto_store \<Rightarrow> proto_store" where
  "proto_removeField defId fieldId s =
     commit ((st_data s)\<lparr>definitions := map (\<lambda>d. if def_id d = defId then d\<lparr>def_fields := filter (\<lambda>f. fld_id f \<noteq> fieldId) (def_fields d)\<rparr> else d)
       (definitions (st_data s))\<rparr>) s"

text \<open>\<open>pw_random\<close> are the eight characters cut out of a random number.\<close>

definition proto_addApiClient :: "proto_world \<Rightarrow> string \<Rightarrow> proto_store \<Rightarrow> string \<times> proto_store" where
  "proto_addApiClient w name s =
     (let (i, s1) = uid w ''c'' s;
          tok = ''rt_live_'' @ pw_random w (st_randoms s1) @ pw_random w (Suc (st_randoms s1));
          c = \<lparr>cli_id = i, cli_name = name, cli_status = ''active'',
            cli_key_preview = ''rt_live_'' @ replicate 6 (CHR 0x95) @ drop (length tok - 4) tok, cli_created_at = take 10 (pw_iso w (st_reads s1))\<rparr>;
          s2 = s1\<lparr>st_randoms := st_randoms s1 + 2\<rparr> in
      (tok, commit ((st_data s2)\<lparr>apiClients := apiClients (st_data s2) @ [c]\<rparr>) s2))"

definition proto_toggleApiClient :: "string \<Rightarrow> proto_store \<Rightarrow> proto_store" where
  "proto_toggleApiClient i s =
     commit ((st_data s)\<lparr>apiClients := map (\<lambda>c. if cli_id c = i then c\<lparr>cli_status := toggled ''revoked'' (cli_status c)\<rparr> else c)
       (apiClients (st_data s))\<rparr>) s"

definition findTenant :: "string \<Rightarrow> proto_data \<Rightarrow> proto_tenant option" where
  "findTenant i d = find (\<lambda>t. ten_id t = i) (tenants d)"

definition findDefinition :: "string \<Rightarrow> proto_data \<Rightarrow> proto_definition option" where
  "findDefinition i d = find (\<lambda>x. def_id x = i) (definitions d)"

definition findDefinitionByKey :: "string \<Rightarrow> proto_data \<Rightarrow> proto_definition option" where
  "findDefinitionByKey key d = find (\<lambda>x. def_key x = key) (definitions d)"

section \<open>Runs\<close>

datatype (plugins only: code) proto_op =
    OpAddTenant tenant_input
  | OpUpdateTenant string "string \<times> string \<times> string"
  | OpAddDomain string string
  | OpRemoveDomain string string
  | OpAddResource string proto_definition "(string \<times> string option) list"
  | OpToggleResource string string
  | OpRemoveResource string string
  | OpAddDefinition definition_input
  | OpToggleDefinition string
  | OpAddField string proto_field
  | OpRemoveField string string
  | OpAddApiClient string
  | OpToggleApiClient string
  | OpReset
  | OpReload
  | OpSubscribe nat
  | OpUnsubscribe nat
  | OpWritable bool

primrec proto_step :: "proto_world \<Rightarrow> proto_op \<Rightarrow> proto_store \<Rightarrow> proto_store" where
  "proto_step w (OpAddTenant f) s = snd (proto_addTenant w f s)"
| "proto_step w (OpUpdateTenant i patch) s = proto_updateTenant i patch s"
| "proto_step w (OpAddDomain t h) s = proto_addDomain w t h s"
| "proto_step w (OpRemoveDomain t d) s = proto_removeDomain t d s"
| "proto_step w (OpAddResource t d vs) s = proto_addResource w t d vs s"
| "proto_step w (OpToggleResource t r) s = proto_toggleResourceStatus t r s"
| "proto_step w (OpRemoveResource t r) s = proto_removeResource t r s"
| "proto_step w (OpAddDefinition f) s = snd (proto_addDefinition w f s)"
| "proto_step w (OpToggleDefinition i) s = proto_toggleDefinitionStatus i s"
| "proto_step w (OpAddField i f) s = proto_addField w i f s"
| "proto_step w (OpRemoveField i f) s = proto_removeField i f s"
| "proto_step w (OpAddApiClient n) s = snd (proto_addApiClient w n s)"
| "proto_step w (OpToggleApiClient i) s = proto_toggleApiClient i s"
| "proto_step w OpReset s = resetState s"
| "proto_step w OpReload s = reload_module s"
| "proto_step w (OpSubscribe l) s = subscribe l s"
| "proto_step w (OpUnsubscribe l) s = unsubscribe l s"
| "proto_step w (OpWritable b) s = s\<lparr>st_writable := b\<rparr>"

definition proto_run :: "proto_world \<Rightarrow> proto_op list \<Rightarrow> proto_store \<Rightarrow> proto_store" where
  "proto_run w ops s = fold (proto_step w) ops s"

text \<open>No reading of the clock after a reload repeats a reading from before it. \<open>Date.now()\<close> does not promise it: the clock may be set
  back, and a reload may take less than a millisecond.\<close>

fun clock_passes :: "proto_world \<Rightarrow> proto_op list \<Rightarrow> proto_store \<Rightarrow> bool" where
  "clock_passes w [] s = True"
| "clock_passes w (a # as) s =
     ((a = OpReload \<longrightarrow> (\<forall>k < st_reads s. \<forall>k' \<ge> st_reads s. pw_now w k \<noteq> pw_now w k')) \<and> clock_passes w as (proto_step w a s))"

section \<open>Identifiers differ\<close>

lemma digit36_inject:
  assumes "d < 36" and "e < 36" shows "digit36 d = digit36 e \<longleftrightarrow> d = e"
proof
  assume "digit36 d = digit36 e"
  then have "code (digit36 d) = code (digit36 e)" by simp
  moreover have "code (digit36 d) = (if d < 10 then 48 + d else 87 + d)"
    "code (digit36 e) = (if e < 10 then 48 + e else 87 + e)" using assms by (simp_all add: digit36_def)
  ultimately show "d = e" using assms by (simp split: if_splits)
qed simp

lemma digit36_no_dash:
  assumes "d < 36" shows "digit36 d \<noteq> CHR ''-''"
proof
  assume "digit36 d = CHR ''-''"
  then have "code (digit36 d) = 45" by (simp add: code_def)
  with assms show False by (simp add: digit36_def split: if_splits)
qed

lemma show36_no_dash: "CHR ''-'' \<notin> set (show36 n)"
proof (induction n rule: show36.induct)
  case (1 n)
  then show ?case
    using digit36_no_dash [of n] digit36_no_dash [of "n mod 36"] by (subst show36.simps) auto
qed

lemma show36_nonempty: "show36 n \<noteq> []"
  by (subst show36.simps) simp

lemma show36_inject: "show36 m = show36 n \<longleftrightarrow> m = n"
proof
  assume "show36 m = show36 n"
  then show "m = n"
  proof (induction m arbitrary: n rule: show36.induct)
    case (1 m)
    show ?case
    proof (cases "m < 36"; cases "n < 36")
      assume "m < 36" "n < 36"
      then show ?thesis using 1(2) by (simp add: show36.simps [of m] show36.simps [of n] digit36_inject)
    next
      assume "m < 36" "\<not> n < 36"
      then show ?thesis using 1(2) show36_nonempty [of "n div 36"] by (simp add: show36.simps [of m] show36.simps [of n] append_eq_Cons_conv)
    next
      assume "\<not> m < 36" "n < 36"
      then show ?thesis using 1(2) show36_nonempty [of "m div 36"] by (simp add: show36.simps [of m] show36.simps [of n] append_eq_Cons_conv)
    next
      assume big: "\<not> m < 36" "\<not> n < 36"
      then have "show36 (m div 36) = show36 (n div 36)" "digit36 (m mod 36) = digit36 (n mod 36)"
        using 1(2) by (simp_all add: show36.simps [of m] show36.simps [of n])
      then have "m div 36 = n div 36" "m mod 36 = n mod 36" using 1(1) [OF big(1)] digit36_inject by simp_all
      then show ?thesis by (metis div_mult_mod_eq)
    qed
  qed
qed simp

lemma append_dash_inject:
  assumes "a @ CHR ''-'' # b = c @ CHR ''-'' # d" and "CHR ''-'' \<notin> set b" and "CHR ''-'' \<notin> set d"
  shows "a = c \<and> b = d"
proof -
  have r: "rev b @ CHR ''-'' # rev a = rev d @ CHR ''-'' # rev c" using arg_cong [OF assms(1), of rev] by simp
  have "takeWhile (\<lambda>x. x \<noteq> CHR ''-'') (rev b @ CHR ''-'' # rev a) = rev b" "takeWhile (\<lambda>x. x \<noteq> CHR ''-'') (rev d @ CHR ''-'' # rev c) = rev d"
    using assms(2,3) by (subst takeWhile_append2; auto)+
  then have "rev b = rev d" using r by simp
  then show ?thesis using r by simp
qed

lemma show_nat_no_dash: "CHR ''-'' \<notin> set (show_nat n)"
  by (rule show_nat_no_char) code_simp

lemma ident_inject: "ident p m k = ident q n l \<Longrightarrow> m = n \<and> k = l"
proof -
  assume "ident p m k = ident q n l"
  then have "(p @ ''-'' @ show36 m) @ CHR ''-'' # show_nat k = (q @ ''-'' @ show36 n) @ CHR ''-'' # show_nat l" by (simp add: ident_def)
  note outer = append_dash_inject [OF this show_nat_no_dash show_nat_no_dash]
  then have "p @ CHR ''-'' # show36 m = q @ CHR ''-'' # show36 n" by simp
  note inner = append_dash_inject [OF this show36_no_dash show36_no_dash]
  show ?thesis using outer inner by (simp add: show36_inject)
qed

section \<open>The invariant\<close>

definition tenant_ids :: "proto_tenant \<Rightarrow> string set" where
  "tenant_ids t = insert (ten_id t) (dom_id ` set (ten_domains t) \<union> res_id ` set (ten_resources t))"

definition tenant_ok :: "proto_tenant \<Rightarrow> bool" where
  "tenant_ok t \<longleftrightarrow> distinct (map dom_id (ten_domains t)) \<and> distinct (map res_id (ten_resources t))"

definition definition_ids :: "proto_definition \<Rightarrow> string set" where
  "definition_ids d = insert (def_id d) (fld_id ` set (def_fields d))"

definition definition_ok :: "proto_definition \<Rightarrow> bool" where
  "definition_ok d \<longleftrightarrow> distinct (map fld_id (def_fields d))"

definition row_ids :: "proto_data \<Rightarrow> string set" where
  "row_ids d = \<Union> (tenant_ids ` set (tenants d)) \<union> \<Union> (definition_ids ` set (definitions d)) \<union> cli_id ` set (apiClients d)"

definition rows_distinct :: "proto_data \<Rightarrow> bool" where
  "rows_distinct d \<longleftrightarrow>
     distinct (map ten_id (tenants d)) \<and> list_all tenant_ok (tenants d) \<and>
     distinct (map def_id (definitions d)) \<and> list_all definition_ok (definitions d) \<and> distinct (map cli_id (apiClients d))"

text \<open>The identifiers given out: the module in its session, which began with reading \<open>r0\<close>, counts from one.\<close>

definition issued :: "proto_world \<Rightarrow> nat \<Rightarrow> nat \<Rightarrow> string set" where
  "issued w r0 n = row_ids seed \<union> {ident p (pw_now w k) c | p k c. k < n \<and> (r0 \<le> k \<longrightarrow> c = Suc (k - r0))}"

definition data_ok :: "proto_world \<Rightarrow> nat \<Rightarrow> nat \<Rightarrow> proto_data \<Rightarrow> bool" where
  "data_ok w r0 n d \<longleftrightarrow> rows_distinct d \<and> row_ids d \<subseteq> issued w r0 n"

definition store_ok :: "proto_world \<Rightarrow> nat \<Rightarrow> proto_store \<Rightarrow> bool" where
  "store_ok w r0 s \<longleftrightarrow>
     r0 \<le> st_reads s \<and> st_counter s = Suc (st_reads s - r0) \<and> (\<forall>k < r0. \<forall>k' \<ge> r0. pw_now w k \<noteq> pw_now w k') \<and>
     data_ok w r0 (st_reads s) (st_data s) \<and> data_ok w r0 (st_reads s) (load_data (st_saved s))"

lemma issued_mono: "m \<le> n \<Longrightarrow> issued w r0 m \<subseteq> issued w r0 n"
  unfolding issued_def by (intro Un_mono order_refl) (blast intro: less_le_trans)

lemma data_ok_mono: "data_ok w r0 m d \<Longrightarrow> m \<le> n \<Longrightarrow> data_ok w r0 n d"
  using issued_mono by (fastforce simp: data_ok_def)

lemma seed_rows: "rows_distinct seed"
  by code_simp

lemma seed_one_dash: "x \<in> row_ids seed \<Longrightarrow> length (filter (\<lambda>c. c = CHR ''-'') x) \<le> 1"
proof -
  have "row_ids seed = set (map ten_id TENANTS @ concat (map (\<lambda>t. map dom_id (ten_domains t) @ map res_id (ten_resources t)) TENANTS) @
      map def_id DEFINITIONS @ concat (map (\<lambda>d. map fld_id (def_fields d)) DEFINITIONS) @ map cli_id API_CLIENTS)"
    by (auto simp: row_ids_def seed_def tenant_ids_def definition_ids_def)
  moreover have "list_all (\<lambda>x. length (filter (\<lambda>c. c = CHR ''-'') x) \<le> 1)
      (map ten_id TENANTS @ concat (map (\<lambda>t. map dom_id (ten_domains t) @ map res_id (ten_resources t)) TENANTS) @
      map def_id DEFINITIONS @ concat (map (\<lambda>d. map fld_id (def_fields d)) DEFINITIONS) @ map cli_id API_CLIENTS)"
    by code_simp
  moreover assume "x \<in> row_ids seed"
  ultimately show ?thesis unfolding list_all_iff by blast
qed

lemma ident_not_seed: "ident p m k \<notin> row_ids seed"
  using seed_one_dash [of "ident p m k"] by (auto simp: ident_def)

lemma seed_data_ok: "data_ok w r0 n seed"
  by (simp add: data_ok_def seed_rows issued_def)

lemma uid_ok:
  assumes "store_ok w r0 s" and "uid w p s = (i, s1)"
  shows "i \<notin> issued w r0 (st_reads s)" and "i \<in> issued w r0 (st_reads s1)" and "store_ok w r0 s1"
    and "st_data s1 = st_data s" and "st_reads s \<le> st_reads s1"
proof -
  note ok = assms(1) [unfolded store_ok_def]
  have i: "i = ident p (pw_now w (st_reads s)) (Suc (st_reads s - r0))" and s1: "s1 = s\<lparr>st_counter := Suc (st_counter s), st_reads := Suc (st_reads s)\<rparr>"
    using assms(2) ok by (auto simp: uid_def)
  show "i \<notin> issued w r0 (st_reads s)"
  proof
    assume "i \<in> issued w r0 (st_reads s)"
    then obtain q k c where k: "k < st_reads s" "r0 \<le> k \<longrightarrow> c = Suc (k - r0)" and e: "i = ident q (pw_now w k) c"
      using ident_not_seed by (auto simp: issued_def i)
    have "pw_now w k = pw_now w (st_reads s)" "c = Suc (st_reads s - r0)" using ident_inject e i by metis+
    moreover have "pw_now w k \<noteq> pw_now w (st_reads s)" if "\<not> r0 \<le> k" using ok that by simp
    ultimately show False using k ok by (cases "r0 \<le> k") auto
  qed
  show "i \<in> issued w r0 (st_reads s1)" using ok by (auto simp: issued_def i s1)
  show "store_ok w r0 s1" using ok data_ok_mono [of w r0 "st_reads s" _ "Suc (st_reads s)"] by (auto simp: store_ok_def s1 Suc_diff_le)
qed (use assms(2) in \<open>auto simp: uid_def\<close>)

lemma commit_ok: "store_ok w r0 s \<Longrightarrow> data_ok w r0 (st_reads s) d \<Longrightarrow> store_ok w r0 (commit d s)"
  by (simp add: store_ok_def commit_def load_data_def)

section \<open>Operations keep it\<close>

lemma data_ok_tenants:
  assumes "data_ok w r0 n d"
    and "\<And>t. t \<in> set (tenants d) \<Longrightarrow> ten_id (g t) = ten_id t \<and> tenant_ok (g t) \<and> tenant_ids (g t) \<subseteq> tenant_ids t \<union> issued w r0 n"
  shows "data_ok w r0 n (d\<lparr>tenants := map g (tenants d)\<rparr>)"
proof -
  have same: "map (\<lambda>t. ten_id (g t)) (tenants d) = map ten_id (tenants d)" using assms(2) by simp
  have "tenant_ids (g t) \<subseteq> issued w r0 n" if "t \<in> set (tenants d)" for t
  proof -
    have "tenant_ids t \<subseteq> issued w r0 n" using assms(1) that by (auto simp: data_ok_def row_ids_def)
    then show ?thesis using assms(2) [OF that] by blast
  qed
  then have ids: "\<Union> (tenant_ids ` g ` set (tenants d)) \<subseteq> issued w r0 n" by blast
  have "rows_distinct (d\<lparr>tenants := map g (tenants d)\<rparr>)"
    using assms same by (simp add: data_ok_def rows_distinct_def comp_def list_all_iff del: map_eq_conv)
  moreover have "row_ids (d\<lparr>tenants := map g (tenants d)\<rparr>) \<subseteq> issued w r0 n"
    using assms(1) ids by (simp add: data_ok_def row_ids_def)
  ultimately show ?thesis by (simp add: data_ok_def)
qed

lemma data_ok_definitions:
  assumes "data_ok w r0 n d"
    and "\<And>x. x \<in> set (definitions d) \<Longrightarrow> def_id (g x) = def_id x \<and> definition_ok (g x) \<and> definition_ids (g x) \<subseteq> definition_ids x \<union> issued w r0 n"
  shows "data_ok w r0 n (d\<lparr>definitions := map g (definitions d)\<rparr>)"
proof -
  have same: "map (\<lambda>x. def_id (g x)) (definitions d) = map def_id (definitions d)" using assms(2) by simp
  have "definition_ids (g x) \<subseteq> issued w r0 n" if "x \<in> set (definitions d)" for x
  proof -
    have "definition_ids x \<subseteq> issued w r0 n" using assms(1) that by (auto simp: data_ok_def row_ids_def)
    then show ?thesis using assms(2) [OF that] by blast
  qed
  then have ids: "\<Union> (definition_ids ` g ` set (definitions d)) \<subseteq> issued w r0 n" by blast
  have "rows_distinct (d\<lparr>definitions := map g (definitions d)\<rparr>)"
    using assms same by (simp add: data_ok_def rows_distinct_def comp_def list_all_iff del: map_eq_conv)
  moreover have "row_ids (d\<lparr>definitions := map g (definitions d)\<rparr>) \<subseteq> issued w r0 n"
    using assms(1) ids by (simp add: data_ok_def row_ids_def)
  ultimately show ?thesis by (simp add: data_ok_def)
qed

text \<open>Where identifiers are distinct, an update of one row reaches that row alone.\<close>

lemma map_found_none: "list_all (\<lambda>x. \<not> p x) xs \<Longrightarrow> map_found p f xs s = (xs, s)"
  by (induction xs) simp_all

lemma map_found_unique:
  "distinct (map key xs) \<Longrightarrow>
     map_found (\<lambda>x. key x = i) f xs s =
       (case find (\<lambda>x. key x = i) xs of
          None \<Rightarrow> (xs, s)
        | Some y \<Rightarrow> (map (\<lambda>x. if key x = i then fst (f y s) else x) xs, snd (f y s)))"
proof (induction xs)
  case (Cons x xs)
  show ?case
  proof (cases "key x = i")
    case True
    then have "list_all (\<lambda>x. key x \<noteq> i) xs" using Cons.prems by (auto simp: list_all_iff image_iff)
    moreover from this have "map (\<lambda>x. if key x = i then fst (f y s) else x) xs = xs" for y by (auto simp: list_all_iff intro: map_idI)
    ultimately show ?thesis using True by (simp add: map_found_none split_beta)
  next
    case False
    then show ?thesis using Cons by (simp split: option.split prod.split)
  qed
qed simp

lemma mutateTenant_ok:
  assumes "store_ok w r0 s"
    and f: "\<And>t. t \<in> set (tenants (st_data s)) \<Longrightarrow> tenant_ok t \<Longrightarrow> tenant_ids t \<subseteq> issued w r0 (st_reads s) \<Longrightarrow>
      store_ok w r0 (snd (f t s)) \<and> st_data (snd (f t s)) = st_data s \<and> ten_id (fst (f t s)) = ten_id t \<and> tenant_ok (fst (f t s)) \<and>
      tenant_ids (fst (f t s)) \<subseteq> tenant_ids t \<union> issued w r0 (st_reads (snd (f t s)))"
  shows "store_ok w r0 (mutateTenant i f s)"
proof -
  let ?ts = "tenants (st_data s)"
  have d: "data_ok w r0 (st_reads s) (st_data s)" using assms(1) by (simp add: store_ok_def)
  then have dist: "distinct (map ten_id ?ts)" by (simp add: data_ok_def rows_distinct_def)
  have same: "(st_data s)\<lparr>tenants := ?ts\<rparr> = st_data s" by simp
  show ?thesis
  proof (cases "find (\<lambda>t. ten_id t = i) ?ts")
    case None
    then show ?thesis using assms(1) d by (simp add: mutateTenant_def map_found_unique [OF dist] commit_ok)
  next
    case (Some t)
    then have t: "t \<in> set ?ts" "ten_id t = i" by (auto simp: find_Some_iff in_set_conv_nth)
    then have "tenant_ok t" "tenant_ids t \<subseteq> issued w r0 (st_reads s)"
      using d by (auto simp: data_ok_def rows_distinct_def list_all_iff row_ids_def)
    note ft = f [OF t(1) this]
    have uniq: "t' = t" if "t' \<in> set ?ts" "ten_id t' = i" for t' using that t dist by (metis eq_key_imp_eq_value inj_on_eq_iff distinct_map)
    have "store_ok w r0 (snd (f t s))" "st_data (snd (f t s)) = st_data s" using ft by blast+
    then have "data_ok w r0 (st_reads (snd (f t s))) (st_data s)" unfolding store_ok_def by metis
    then have "data_ok w r0 (st_reads (snd (f t s))) ((st_data s)\<lparr>tenants := map (\<lambda>x. if ten_id x = i then fst (f t s) else x) ?ts\<rparr>)"
    proof (rule data_ok_tenants)
      fix x assume x: "x \<in> set (tenants (st_data s))"
      show "ten_id (if ten_id x = i then fst (f t s) else x) = ten_id x \<and> tenant_ok (if ten_id x = i then fst (f t s) else x) \<and>
          tenant_ids (if ten_id x = i then fst (f t s) else x) \<subseteq> tenant_ids x \<union> issued w r0 (st_reads (snd (f t s)))"
      proof (cases "ten_id x = i")
        case True
        then have "x = t" using uniq x by blast
        then show ?thesis using ft True by (simp only: if_True) simp
      next
        case False
        have "tenant_ok x" using d x by (simp add: data_ok_def rows_distinct_def list_all_iff)
        then show ?thesis using False by simp
      qed
    qed
    then show ?thesis using ft Some by (simp add: mutateTenant_def map_found_unique [OF dist] commit_ok)
  qed
qed

lemma data_ok_clients:
  assumes "data_ok w r0 n d" and "map cli_id cs = map cli_id (apiClients d)" shows "data_ok w r0 n (d\<lparr>apiClients := cs\<rparr>)"
proof -
  have "cli_id ` set cs = cli_id ` set (apiClients d)" using arg_cong [OF assms(2), of set] by simp
  then show ?thesis using assms by (simp add: data_ok_def rows_distinct_def row_ids_def del: map_eq_conv)
qed

lemma mutate_plain:
  assumes "store_ok w r0 s" and "\<And>t. tenant_ok t \<Longrightarrow> ten_id (g t) = ten_id t \<and> tenant_ok (g t) \<and> tenant_ids (g t) \<subseteq> tenant_ids t"
  shows "store_ok w r0 (mutateTenant i (\<lambda>t s. (g t, s)) s)"
  by (rule mutateTenant_ok [OF assms(1)]) (use assms in auto)

lemma mutate_drawing:
  assumes "store_ok w r0 s"
    and "\<And>t i. tenant_ok t \<Longrightarrow> i \<notin> tenant_ids t \<Longrightarrow> ten_id (g i t) = ten_id t \<and> tenant_ok (g i t) \<and> tenant_ids (g i t) \<subseteq> insert i (tenant_ids t)"
  shows "store_ok w r0 (mutateTenant j (\<lambda>t s. let (i, s1) = uid w p s in (g i t, s1)) s)"
proof (rule mutateTenant_ok [OF assms(1)])
  fix t assume t: "t \<in> set (tenants (st_data s))" "tenant_ok t" "tenant_ids t \<subseteq> issued w r0 (st_reads s)"
  obtain i s1 where u: "uid w p s = (i, s1)" by fastforce
  note ok = uid_ok [OF assms(1) u]
  then have "i \<notin> tenant_ids t" using t(3) by blast
  note g = assms(2) [OF t(2) this]
  have "tenant_ids (g i t) \<subseteq> tenant_ids t \<union> issued w r0 (st_reads s1)" using g ok(2) by blast
  then show "store_ok w r0 (snd (let (i, s1) = uid w p s in (g i t, s1))) \<and> st_data (snd (let (i, s1) = uid w p s in (g i t, s1))) = st_data s \<and>
      ten_id (fst (let (i, s1) = uid w p s in (g i t, s1))) = ten_id t \<and> tenant_ok (fst (let (i, s1) = uid w p s in (g i t, s1))) \<and>
      tenant_ids (fst (let (i, s1) = uid w p s in (g i t, s1))) \<subseteq> tenant_ids t \<union> issued w r0 (st_reads (snd (let (i, s1) = uid w p s in (g i t, s1))))"
    using g ok by (simp add: u)
qed

lemma addTenant_ok:
  assumes "store_ok w r0 s"
  shows "store_ok w r0 (snd (proto_addTenant w f s))"
proof -
  obtain i s1 where u: "uid w ''t'' s = (i, s1)" by fastforce
  note ok = uid_ok [OF assms u]
  obtain domains s2 where d: "(if ti_hostname f \<noteq> [] then (let (d, s2) = uid w ''d'' s1 in ([\<lparr>dom_id = d, dom_hostname = ti_hostname f\<rparr>], s2)) else ([], s1)) = (domains, s2)"
    by fastforce
  have s2: "store_ok w r0 s2" "st_data s2 = st_data s" "st_reads s1 \<le> st_reads s2" "distinct (map dom_id domains)"
    "dom_id ` set domains \<subseteq> issued w r0 (st_reads s2)"
    using d ok(3,4) uid_ok [OF ok(3)] by (auto split: if_splits prod.splits)
  define t where "t = \<lparr>ten_id = i, ten_slug = (if ti_slug f \<noteq> [] then ti_slug f else dash_spaces (js_lower (ti_name f))), ten_name = ti_name f,
            ten_status = ''active'', ten_domains = domains, ten_resources = []\<rparr>"
  have data: "data_ok w r0 (st_reads s) (st_data s)" "data_ok w r0 (st_reads s2) (st_data s)" using assms(1) s2(1,2) by (auto simp: store_ok_def)
  then have "i \<notin> ten_id ` set (tenants (st_data s))" using ok(1) by (fastforce simp: data_ok_def row_ids_def tenant_ids_def)
  moreover have "tenant_ids t \<subseteq> issued w r0 (st_reads s2)" using ok(2) issued_mono [OF s2(3)] s2(5) by (auto simp: tenant_ids_def t_def)
  ultimately have "data_ok w r0 (st_reads s2) ((st_data s2)\<lparr>tenants := tenants (st_data s2) @ [t]\<rparr>)"
    using data(2) s2(2,4) by (auto simp: data_ok_def rows_distinct_def row_ids_def t_def tenant_ok_def)
  then show ?thesis using s2(1) by (simp add: proto_addTenant_def u d Let_def t_def commit_ok)
qed

lemma addDefinition_ok:
  assumes "store_ok w r0 s"
  shows "store_ok w r0 (snd (proto_addDefinition w f s))"
proof -
  obtain i s1 where u: "uid w ''def'' s = (i, s1)" by fastforce
  note ok = uid_ok [OF assms u]
  have data: "data_ok w r0 (st_reads s) (st_data s)" "data_ok w r0 (st_reads s1) (st_data s)" using assms(1) ok(3,4) by (auto simp: store_ok_def)
  then have "i \<notin> def_id ` set (definitions (st_data s))" using ok(1) by (fastforce simp: data_ok_def row_ids_def definition_ids_def)
  then show ?thesis
    using data(2) ok by (auto simp: proto_addDefinition_def u Let_def data_ok_def rows_distinct_def row_ids_def definition_ok_def definition_ids_def intro!: commit_ok)
qed

lemma addApiClient_ok:
  assumes "store_ok w r0 s"
  shows "store_ok w r0 (snd (proto_addApiClient w n s))"
proof -
  obtain i s1 where u: "uid w ''c'' s = (i, s1)" by fastforce
  note ok = uid_ok [OF assms u]
  have data: "data_ok w r0 (st_reads s) (st_data s)" "data_ok w r0 (st_reads s1) (st_data s)" using assms(1) ok(3,4) by (auto simp: store_ok_def)
  then have "i \<notin> cli_id ` set (apiClients (st_data s))" using ok(1) by (fastforce simp: data_ok_def row_ids_def)
  moreover have "store_ok w r0 (s1\<lparr>st_randoms := k\<rparr>)" for k using ok(3) by (simp add: store_ok_def)
  ultimately show ?thesis
    using data(2) ok by (auto simp: proto_addApiClient_def u Let_def data_ok_def rows_distinct_def row_ids_def intro!: commit_ok)
qed

lemma addField_ok:
  assumes "store_ok w r0 s"
  shows "store_ok w r0 (proto_addField w defId field s)"
proof -
  let ?ds = "definitions (st_data s)"
  obtain i s1 where u: "uid w ''f'' s = (i, s1)" by fastforce
  note ok = uid_ok [OF assms u]
  have data: "data_ok w r0 (st_reads s) (st_data s)" "data_ok w r0 (st_reads s1) (st_data s)" using assms(1) ok(3,4) by (auto simp: store_ok_def)
  then have dist: "distinct (map def_id ?ds)" by (simp add: data_ok_def rows_distinct_def)
  show ?thesis
  proof (cases "find (\<lambda>d. def_id d = defId) ?ds")
    case None
    then show ?thesis using assms(1) data(1) by (simp add: proto_addField_def map_found_unique [OF dist] commit_ok)
  next
    case (Some x)
    then have x: "x \<in> set ?ds" "def_id x = defId" by (auto simp: find_Some_iff in_set_conv_nth)
    define g where "g = (\<lambda>y. if def_id y = defId then x\<lparr>def_fields := def_fields x @ [field\<lparr>fld_id := i\<rparr>]\<rparr> else y)"
    have uniq: "y = x" if "y \<in> set ?ds" "def_id y = defId" for y using that x dist by (metis eq_key_imp_eq_value inj_on_eq_iff distinct_map)
    have "definition_ok x" "i \<notin> definition_ids x" using data(1) x(1) ok(1) by (auto simp: data_ok_def rows_distinct_def list_all_iff row_ids_def)
    then have "definition_ok (x\<lparr>def_fields := def_fields x @ [field\<lparr>fld_id := i\<rparr>]\<rparr>)" by (simp add: definition_ok_def definition_ids_def)
    moreover have "definition_ok y" if "y \<in> set ?ds" for y using data(1) that by (simp add: data_ok_def rows_distinct_def list_all_iff)
    ultimately have "data_ok w r0 (st_reads s1) ((st_data s)\<lparr>definitions := map g ?ds\<rparr>)"
      using ok(2) x(2) uniq by (intro data_ok_definitions [OF data(2)]) (auto simp: g_def definition_ids_def)
    moreover have "proto_addField w defId field s = commit ((st_data s)\<lparr>definitions := map g ?ds\<rparr>) s1"
      unfolding proto_addField_def map_found_unique [OF dist] Some u g_def by (simp add: u cong: if_cong)
    ultimately show ?thesis using ok(3) by (simp add: commit_ok)
  qed
qed

lemma proto_step_ok:
  assumes "store_ok w r0 s" and "a \<noteq> OpReload"
  shows "store_ok w r0 (proto_step w a s)"
proof -
  have d: "data_ok w r0 (st_reads s) (st_data s)" using assms(1) by (simp add: store_ok_def)
  have ten: "store_ok w r0 (commit ((st_data s)\<lparr>tenants := map g (tenants (st_data s))\<rparr>) s)"
    if "\<And>t. ten_id (g t) = ten_id t \<and> ten_domains (g t) = ten_domains t \<and> ten_resources (g t) = ten_resources t" for g
    by (intro commit_ok assms data_ok_tenants d) (use that d in \<open>auto simp: tenant_ok_def tenant_ids_def data_ok_def rows_distinct_def list_all_iff\<close>)
  have def: "store_ok w r0 (commit ((st_data s)\<lparr>definitions := map g (definitions (st_data s))\<rparr>) s)"
    if g: "\<And>x. def_id (g x) = def_id x \<and> (\<exists>P. def_fields (g x) = filter P (def_fields x))" for g
  proof (intro commit_ok assms data_ok_definitions d)
    fix x assume x: "x \<in> set (definitions (st_data s))"
    obtain P where "def_id (g x) = def_id x" "def_fields (g x) = filter P (def_fields x)" using g [of x] by blast
    moreover have "definition_ok x" using d x by (simp add: data_ok_def rows_distinct_def list_all_iff)
    ultimately show "def_id (g x) = def_id x \<and> definition_ok (g x) \<and> definition_ids (g x) \<subseteq> definition_ids x \<union> issued w r0 (st_reads s)"
      by (auto simp: definition_ok_def definition_ids_def distinct_map_filter)
  qed
  show ?thesis
  proof (cases a)
    case (OpUpdateTenant i patch)
    then show ?thesis by (cases patch) (auto simp: proto_updateTenant_def intro!: ten)
  next
    case (OpAddDomain t h)
    then show ?thesis unfolding proto_step.simps OpAddDomain proto_addDomain_def
      by (intro mutate_drawing assms) (auto simp: tenant_ok_def tenant_ids_def)
  next
    case (OpRemoveDomain t h)
    then show ?thesis unfolding proto_step.simps OpRemoveDomain proto_removeDomain_def
      by (intro mutate_plain assms) (auto simp: tenant_ok_def tenant_ids_def distinct_map_filter)
  next
    case (OpAddResource t x vs)
    then show ?thesis unfolding proto_step.simps OpAddResource proto_addResource_def
      by (intro mutate_drawing assms) (auto simp: tenant_ok_def tenant_ids_def)
  next
    case (OpToggleResource t r)
    have "map res_id (map (\<lambda>x. if res_id x = r then x\<lparr>res_status := v x\<rparr> else x) rs) = map res_id rs" for rs :: "proto_resource list" and v
      by (induction rs) simp_all
    then show ?thesis unfolding proto_step.simps OpToggleResource proto_toggleResourceStatus_def
      by (intro mutate_plain assms) (auto simp: tenant_ok_def tenant_ids_def simp del: map_map)
  next
    case (OpRemoveResource t r)
    then show ?thesis unfolding proto_step.simps OpRemoveResource proto_removeResource_def
      by (intro mutate_plain assms) (auto simp: tenant_ok_def tenant_ids_def distinct_map_filter)
  next
    case (OpToggleDefinition i)
    then show ?thesis by (auto simp: proto_toggleDefinitionStatus_def intro!: def exI [of _ "\<lambda>_. True"])
  next
    case (OpRemoveField i f)
    have "\<exists>P. filter q xs = filter P xs" "\<exists>P. xs = filter P xs" for q and xs :: "proto_field list"
      by (blast, intro exI [of _ "\<lambda>_. True"], simp)
    then show ?thesis unfolding proto_step.simps OpRemoveField proto_removeField_def by (intro def) simp
  next
    case (OpToggleApiClient i)
    have "store_ok w r0 (commit ((st_data s)\<lparr>apiClients := map g (apiClients (st_data s))\<rparr>) s)" if "\<And>c. cli_id (g c) = cli_id c" for g
      using that by (intro commit_ok assms data_ok_clients d) simp
    then show ?thesis by (simp add: OpToggleApiClient proto_toggleApiClient_def)
  next
    case (OpSubscribe l)
    then show ?thesis using assms(1) by (simp add: subscribe_def store_ok_def)
  next
    case (OpUnsubscribe l)
    then show ?thesis using assms(1) by (simp add: unsubscribe_def store_ok_def)
  next
    case (OpWritable b)
    then show ?thesis using assms(1) by (simp add: store_ok_def)
  qed (use assms in \<open>simp_all add: addTenant_ok addDefinition_ok addField_ok addApiClient_ok resetState_def commit_ok seed_data_ok\<close>)
qed

lemma reload_ok:
  assumes "store_ok w r0 s" and "\<forall>k < st_reads s. \<forall>k' \<ge> st_reads s. pw_now w k \<noteq> pw_now w k'"
  shows "store_ok w (st_reads s) (reload_module s)"
proof -
  have "issued w r0 (st_reads s) \<subseteq> issued w (st_reads s) (st_reads s)" unfolding issued_def by fastforce
  then show ?thesis using assms by (auto simp: store_ok_def reload_module_def data_ok_def)
qed

lemma proto_run_ok:
  "store_ok w r0 s \<Longrightarrow> clock_passes w ops s \<Longrightarrow> \<exists>r. store_ok w r (proto_run w ops s)"
proof (induction ops arbitrary: s r0)
  case (Cons a ops)
  have "\<exists>r. store_ok w r (proto_step w a s)"
  proof (cases "a = OpReload")
    case True
    then show ?thesis using reload_ok [OF Cons.prems(1)] Cons.prems(2) by auto
  next
    case False
    then show ?thesis using proto_step_ok Cons.prems(1) by blast
  qed
  then show ?case using Cons.IH Cons.prems(2) by (auto simp: proto_run_def)
qed (auto simp: proto_run_def)

lemma first_visit_ok: "store_ok w 0 first_visit"
  by (simp add: store_ok_def first_visit_def load_data_def seed_data_ok)

lemma one_visit_passes: "OpReload \<notin> set ops \<Longrightarrow> clock_passes w ops s"
  by (induction ops arbitrary: s) auto

lemma run_rows_distinct:
  assumes "OpReload \<in> set ops \<Longrightarrow> clock_passes w ops first_visit"
  shows "rows_distinct (st_data (proto_run w ops first_visit))"
  using proto_run_ok [OF first_visit_ok] one_visit_passes assms by (fastforce simp: store_ok_def data_ok_def)

text \<open>C36: after any run of operations from a first visit no two tenants, no two domains or resources of a tenant, no two
  definitions, no two fields of a definition and no two clients have one identifier: whatever the clock says as long as
  the page is not reloaded, and over reloads as long as no reading of the clock after a reload repeats one from before it.
  The witness shows that the condition is needed: with a clock that stands still, adding a tenant, reloading and adding
  another gives two tenants one identifier.\<close>

theorem ids_stay_distinct:
  "(OpReload \<in> set ops \<Longrightarrow> clock_passes w ops first_visit) \<Longrightarrow> rows_distinct (st_data (proto_run w ops first_visit))"
  by (rule run_rows_distinct)

definition demo_world :: proto_world where
  "demo_world = \<lparr>pw_now = (\<lambda>n. n), pw_random = (\<lambda>n. ''k3x9a1b2''), pw_iso = (\<lambda>n. ''2026-07-01T12:00:00.000Z'')\<rparr>"

definition demo_ops :: "proto_op list" where
  "demo_ops =
     [OpAddTenant \<lparr>ti_name = ''Umbrella Inc'', ti_slug = [], ti_hostname = ''app.umbrella.test''\<rparr>, OpReload,
      OpAddTenant \<lparr>ti_name = ''Umbrella Inc'', ti_slug = [], ti_hostname = ''www.umbrella.test''\<rparr>]"

lemma demo_clock_passes: "clock_passes demo_world demo_ops first_visit"
  by (simp add: demo_ops_def demo_world_def)

theorem ids_stay_distinct_witness:
  "rows_distinct (st_data (proto_run demo_world demo_ops first_visit)) \<and>
     map ten_slug (tenants (st_data (proto_run demo_world demo_ops first_visit))) = [''acme'', ''globex'', ''initech'', ''umbrella-inc'', ''umbrella-inc''] \<and>
     \<not> rows_distinct (st_data (proto_run (demo_world\<lparr>pw_now := \<lambda>n. 0\<rparr>) demo_ops first_visit))"
proof (intro conjI)
  show "rows_distinct (st_data (proto_run demo_world demo_ops first_visit))" by (rule ids_stay_distinct [OF demo_clock_passes])
  show "\<not> rows_distinct (st_data (proto_run (demo_world\<lparr>pw_now := \<lambda>n. 0\<rparr>) demo_ops first_visit))" by code_simp
qed code_simp

section \<open>Reloads\<close>

definition in_step :: "proto_store \<Rightarrow> bool" where
  "in_step s \<longleftrightarrow> st_writable s \<and> load_data (st_saved s) = st_data s"

lemma commit_in_step: "st_writable s \<Longrightarrow> in_step (commit d s)"
  by (simp add: in_step_def commit_def load_data_def)

lemma map_found_writable:
  assumes "\<And>x s. st_writable (snd (f x s)) = st_writable s" shows "st_writable (snd (map_found p f xs s)) = st_writable s"
proof (induction xs arbitrary: s)
  case (Cons x xs)
  have "st_writable (snd (if p x then f x s else (x, s))) = st_writable s" using assms by simp
  then show ?case using Cons.IH by (simp add: Let_def split_beta)
qed simp

lemma commit_of_in_step: "st_writable (snd r) \<Longrightarrow> in_step (let (x, s1) = r in commit (h x) s1)"
  by (cases r) (simp add: commit_in_step)

lemma mutateTenant_in_step:
  "st_writable s \<Longrightarrow> (\<And>t s. st_writable (snd (f t s)) = st_writable s) \<Longrightarrow> in_step (mutateTenant i f s)"
  unfolding mutateTenant_def by (rule commit_of_in_step) (simp only: map_found_writable)

lemma uid_writable: "uid w p s = (i, s1) \<Longrightarrow> st_writable s1 = st_writable s"
  by (auto simp: uid_def)

lemma proto_step_in_step: "in_step s \<Longrightarrow> a \<noteq> OpWritable False \<Longrightarrow> in_step (proto_step w a s)"
proof -
  assume s: "in_step s" and a: "a \<noteq> OpWritable False"
  then have wr: "st_writable s" by (simp add: in_step_def)
  note mut = mutateTenant_in_step [OF wr]
  show ?thesis
  proof (cases a)
    case (OpAddTenant f)
    then show ?thesis using wr by (auto simp: proto_addTenant_def dest!: uid_writable split: prod.splits if_splits intro!: commit_in_step)
  next
    case (OpAddField i f)
    have "st_writable (snd (let (i, s1) = uid w ''f'' z in (d\<lparr>def_fields := def_fields d @ [f\<lparr>fld_id := i\<rparr>]\<rparr>, s1))) = st_writable z" for d :: proto_definition and z
      by (simp add: uid_def)
    then show ?thesis unfolding OpAddField proto_step.simps proto_addField_def by (intro commit_of_in_step) (simp only: map_found_writable wr)
  next
    case (OpWritable b)
    then show ?thesis using s a by (simp add: in_step_def)
  next
    case (OpUpdateTenant i patch)
    then show ?thesis using wr by (cases patch) (simp add: proto_updateTenant_def commit_in_step)
  next
    case (OpAddDomain t h)
    then show ?thesis by (simp add: proto_addDomain_def uid_def mut)
  next
    case (OpRemoveDomain t h)
    then show ?thesis by (simp add: proto_removeDomain_def mut)
  next
    case (OpAddResource t x vs)
    then show ?thesis by (simp add: proto_addResource_def uid_def mut)
  next
    case (OpToggleResource t r)
    then show ?thesis by (simp add: proto_toggleResourceStatus_def mut)
  next
    case (OpRemoveResource t r)
    then show ?thesis by (simp add: proto_removeResource_def mut)
  next
    case OpReload
    then show ?thesis using s by (simp add: in_step_def reload_module_def wr)
  next
    case (OpSubscribe l)
    then show ?thesis using s by (simp add: in_step_def subscribe_def)
  next
    case (OpUnsubscribe l)
    then show ?thesis using s by (simp add: in_step_def unsubscribe_def)
  next
    case (OpAddDefinition f)
    then show ?thesis by (simp add: proto_addDefinition_def uid_def Let_def commit_in_step wr)
  next
    case (OpToggleDefinition i)
    then show ?thesis by (simp add: proto_toggleDefinitionStatus_def commit_in_step wr)
  next
    case (OpRemoveField i f)
    then show ?thesis by (simp add: proto_removeField_def commit_in_step wr)
  next
    case (OpAddApiClient n)
    then show ?thesis by (simp add: proto_addApiClient_def uid_def Let_def commit_in_step wr)
  next
    case (OpToggleApiClient n)
    then show ?thesis by (simp add: proto_toggleApiClient_def commit_in_step wr)
  qed (simp add: resetState_def commit_in_step wr)
qed

lemma proto_run_in_step: "in_step s \<Longrightarrow> OpWritable False \<notin> set ops \<Longrightarrow> in_step (proto_run w ops s)"
proof (induction ops arbitrary: s)
  case (Cons a ops)
  then have "in_step (proto_step w a s)" by (intro proto_step_in_step) auto
  then show ?case using Cons by (simp add: proto_run_def)
qed (simp add: proto_run_def)

lemma reload_in_step: "in_step s \<Longrightarrow> st_data (reload_module s) = st_data s"
  by (simp add: in_step_def reload_module_def)

lemma first_visit_in_step: "in_step first_visit"
  by (simp add: in_step_def first_visit_def)

text \<open>As long as the browser accepts every write, a reload after any run of operations starts on the data that were on
  screen.\<close>

theorem reload_keeps_data:
  "OpWritable False \<notin> set ops \<Longrightarrow>
     st_data (reload_module (proto_run w ops first_visit)) = st_data (proto_run w ops first_visit)"
  by (rule reload_in_step [OF proto_run_in_step [OF first_visit_in_step]])

theorem reload_keeps_data_witness:
  "st_data (reload_module (proto_run demo_world demo_ops first_visit)) = st_data (proto_run demo_world demo_ops first_visit)"
  by (rule reload_keeps_data) (simp add: demo_ops_def)

end
