(* ===== verification/ProtoPages.thy ===== *)
theory ProtoPages
  imports ProtoStore Pages
begin

text \<open>
  The screens of the planning prototype (\<open>planning/tenancit/proto/routes/*.js\<close>). A screen has a record for its state, with the
  native dialogs it has opened, a datatype of actions, a handler that returns its state, the store and the paths it goes to, and the view
  of its markup. Icons and classes are left out. Theorems: creating resources keeps the rule of one active resource for each
  type and only a reactivation breaks it; the reveal of a secret belongs to a place in the list, not to the resource; and the icon search never
  shows what was found for another term.
\<close>

section \<open>Common parts\<close>

definition proto_badge :: "string \<Rightarrow> 'a view" where
  "proto_badge status = badge (if status = ''active'' then ''default'' else ''secondary'') status"

definition or_mark :: "string \<Rightarrow> string option \<Rightarrow> string" where
  "or_mark mark v = (case v of Some s \<Rightarrow> if s \<noteq> [] then s else mark | None \<Rightarrow> mark)"

definition show_dialog :: "string \<Rightarrow> string list \<Rightarrow> string list" where
  "show_dialog i opened = (if i \<in> set opened then opened else i # opened)"

definition close_dialog :: "string \<Rightarrow> string list \<Rightarrow> string list" where
  "close_dialog i opened = removeAll i opened"

definition proto_dialog :: "string \<Rightarrow> string list \<Rightarrow> 'a view list \<Rightarrow> 'a view list" where
  "proto_dialog i opened children = shown_if (i \<in> set opened) (el ''dialog'' [(''id'', i)] children)"

definition proto_table :: "string list \<Rightarrow> 'a view list \<Rightarrow> 'a view" where
  "proto_table heads rows = el ''table'' [] (el ''thead'' [] (map (\<lambda>h. el ''th'' [] [Txt h]) heads) # rows)"

definition proto_row :: "'a view list list \<Rightarrow> 'a view" where
  "proto_row cells = el ''tr'' [] (map (el ''td'' []) cells)"

definition proto_select :: "'i \<Rightarrow> string \<Rightarrow> (string \<times> string) list \<Rightarrow> ('a, 'i) control view" where
  "proto_select i current options =
     Elem ''select'' [(''value'', current)] [(''onChange'', TypeIn i)] (map (\<lambda>(v, l). el ''option'' [(''value'', v)] [Txt l]) options)"

definition proto_switch :: "'i \<Rightarrow> bool \<Rightarrow> ('a, 'i) control view" where
  "proto_switch i checked = Elem ''switch'' (flag ''checked'' checked) [(''onChange'', TypeIn i)] []"

definition descricao :: string where
  "descricao = ''Descri'' @ [CHR 0xE7, CHR 0xE3] @ ''o''"

definition dominio :: string where
  "dominio = ''om'' @ [CHR 0xED] @ ''nio''"

section \<open>Overview\<close>

datatype (plugins only: code) overview_action = ResetData | OpenTenantCard string

definition handle_overview :: "overview_action \<Rightarrow> proto_store \<Rightarrow> proto_store \<times> string list" where
  "handle_overview a s =
     (case a of ResetData \<Rightarrow> (resetState s, [])
      | OpenTenantCard i \<Rightarrow> (s, [''/tenants/'' @ i]))"

definition active_tenants :: "proto_data \<Rightarrow> nat" where
  "active_tenants d = length (filter (\<lambda>t. ten_status t = ''active'') (tenants d))"

definition total_resources :: "proto_data \<Rightarrow> nat" where
  "total_resources d = fold (\<lambda>t acc. acc + length (ten_resources t)) (tenants d) 0"

definition active_definitions :: "proto_data \<Rightarrow> nat" where
  "active_definitions d = length (filter (\<lambda>x. def_status x = ''active'') (definitions d))"

definition total_domains :: "proto_data \<Rightarrow> nat" where
  "total_domains d = fold (\<lambda>t acc. acc + length (ten_domains t)) (tenants d) 0"

definition stat_view :: "string \<Rightarrow> nat \<Rightarrow> string \<Rightarrow> 'a view" where
  "stat_view l n h = el ''card'' [] [el ''div'' [] [Txt l], el ''div'' [] [Txt (show_nat n)], el ''p'' [] [Txt h]]"

definition first_hostname :: "proto_tenant \<Rightarrow> string option" where
  "first_hostname t = (case ten_domains t of [] \<Rightarrow> None | d # _ \<Rightarrow> Some (dom_hostname d))"

definition tenant_card :: "proto_tenant \<Rightarrow> overview_action view" where
  "tenant_card t =
     Elem ''a'' [(''href'', ''/tenants/'' @ ten_id t)] [(''onClick'', OpenTenantCard (ten_id t))]
       [Txt (ten_name t), Txt (or_mark (''sem d'' @ dominio) (first_hostname t)), Txt (show_nat (length (ten_resources t)) @ '' recursos''),
        proto_badge (ten_status t)]"

definition proto_overview :: "proto_data \<Rightarrow> overview_action view" where
  "proto_overview d =
     el ''div'' []
       ([el ''h1'' [] [Txt (''Vis'' @ [CHR 0xE3] @ ''o geral'')],
         el ''p'' [] [Txt (''Configura'' @ [CHR 0xE7, CHR 0xE3] @ ''o multi-tenant de recursos por cliente.'')],
         button [(''title'', ''Restaura os dados de exemplo'')] ResetData [Txt ''Resetar dados''],
         stat_view ''Tenants ativos'' (active_tenants d) (show_nat (length (tenants d)) @ '' no total''),
         stat_view (''D'' @ dominio @ ''s'') (total_domains d) ''hostnames mapeados'',
         stat_view ''Recursos provisionados'' (total_resources d) (''inst'' @ [CHR 0xE2] @ ''ncias''),
         stat_view ''Definitions ativas'' (active_definitions d) ''tipos de recurso'',
         el ''h2'' [] [Txt ''Tenants''], el ''p'' [] [Txt ''Atalho para os clientes cadastrados.'']] @
        (if tenants d = [] then [el ''p'' [] [Txt ''Nenhum tenant ainda.'']] else map tenant_card (tenants d)))"

section \<open>Tenants\<close>

record tenants_list =
  tl_query :: string
  tl_form :: tenant_input
  tl_dialogs :: "string list"

datatype (plugins only: code) tenants_list_field = TLQuery | TLName | TLSlug | TLHostname

datatype (plugins only: code) tenants_list_action =
    TLType tenants_list_field string
  | TLNew
  | TLCancel
  | TLSubmit
  | TLOpen string

definition empty_tenant_input :: tenant_input where
  "empty_tenant_input = \<lparr>ti_name = [], ti_slug = [], ti_hostname = []\<rparr>"

definition mount_tenants_list :: tenants_list where
  "mount_tenants_list = \<lparr>tl_query = [], tl_form = empty_tenant_input, tl_dialogs = []\<rparr>"

definition list_query :: "tenants_list \<Rightarrow> string" where
  "list_query p = js_lower (js_trim (tl_query p))"

definition filtered_tenants :: "proto_data \<Rightarrow> tenants_list \<Rightarrow> proto_tenant list" where
  "filtered_tenants d p =
     (let q = list_query p in
      if q = [] then tenants d
      else filter (\<lambda>t. js_includes (js_lower (ten_name t)) q \<or> js_includes (js_lower (ten_slug t)) q \<or>
        list_ex (\<lambda>x. js_includes (js_lower (dom_hostname x)) q) (ten_domains t)) (tenants d))"

definition can_create_tenant :: "tenants_list \<Rightarrow> bool" where
  "can_create_tenant p \<longleftrightarrow> js_trim (ti_name (tl_form p)) \<noteq> [] \<and> js_trim (ti_hostname (tl_form p)) \<noteq> []"

definition type_tenant :: "tenants_list_field \<Rightarrow> string \<Rightarrow> tenants_list \<Rightarrow> tenants_list" where
  "type_tenant i v p =
     (case i of TLQuery \<Rightarrow> p\<lparr>tl_query := v\<rparr>
      | TLName \<Rightarrow> p\<lparr>tl_form := (tl_form p)\<lparr>ti_name := v\<rparr>\<rparr>
      | TLSlug \<Rightarrow> p\<lparr>tl_form := (tl_form p)\<lparr>ti_slug := v\<rparr>\<rparr>
      | TLHostname \<Rightarrow> p\<lparr>tl_form := (tl_form p)\<lparr>ti_hostname := v\<rparr>\<rparr>)"

definition handle_tenants_list ::
  "proto_world \<Rightarrow> tenants_list_action \<Rightarrow> tenants_list \<times> proto_store \<Rightarrow> (tenants_list \<times> proto_store) \<times> string list" where
  "handle_tenants_list w a = (\<lambda>(p, s).
     (case a of
        TLType i v \<Rightarrow> ((type_tenant i v p, s), [])
      | TLNew \<Rightarrow> ((p\<lparr>tl_dialogs := show_dialog ''new-tenant'' (tl_dialogs p)\<rparr>, s), [])
      | TLCancel \<Rightarrow> ((p\<lparr>tl_dialogs := close_dialog ''new-tenant'' (tl_dialogs p)\<rparr>, s), [])
      | TLSubmit \<Rightarrow>
          if \<not> can_create_tenant p then ((p, s), [])
          else let (i, s1) = proto_addTenant w (tl_form p) s in
            ((p\<lparr>tl_form := empty_tenant_input, tl_dialogs := close_dialog ''new-tenant'' (tl_dialogs p)\<rparr>, s1), [''/tenants/'' @ i])
      | TLOpen i \<Rightarrow> ((p, s), [''/tenants/'' @ i])))"

definition tenant_row :: "proto_tenant \<Rightarrow> (tenants_list_action, tenants_list_field) control view" where
  "tenant_row t =
     Elem ''tr'' [] [(''onClick'', Do (TLOpen (ten_id t)))]
       [el ''td'' [] [Txt (ten_name t)], el ''td'' [] [Txt (ten_slug t)], el ''td'' [] [Txt (or_mark [CHR 0x97] (first_hostname t))],
        el ''td'' [] [Txt (show_nat (length (ten_resources t)))], el ''td'' [] [proto_badge (ten_status t)], el ''td'' [] []]"

definition new_tenant_dialog :: "tenants_list \<Rightarrow> (tenants_list_action, tenants_list_field) control view list" where
  "new_tenant_dialog p =
     proto_dialog ''new-tenant'' (tl_dialogs p)
       [el ''h2'' [] [Txt ''Novo tenant''], el ''p'' [] [Txt (''Cadastre um cliente. D'' @ dominio @ ''s e recursos s'' @ [CHR 0xE3] @ ''o adicionados em seguida.'')],
        label ''Nome'', text_field TLName [(''placeholder'', ''Acme Corp'')] (ti_name (tl_form p)),
        label ''Slug'', text_field TLSlug [(''placeholder'', ''acme'')] (ti_slug (tl_form p)),
        hint (''Opcional '' @ [CHR 0x97] @ '' gerado a partir do nome se vazio.''),
        label ''Hostname'', text_field TLHostname [(''placeholder'', ''app.acme.com'')] (ti_hostname (tl_form p)),
        hint ''Usado para resolver o tenant a partir da URL.'',
        do_button False TLCancel [Txt ''Cancelar''], do_button (\<not> can_create_tenant p) TLSubmit [Txt ''Criar tenant'']]"

definition proto_tenants :: "proto_data \<Rightarrow> tenants_list \<Rightarrow> (tenants_list_action, tenants_list_field) control view" where
  "proto_tenants d p =
     (let q = list_query p; filtered = filtered_tenants d p in
      el ''div'' []
        ([el ''h1'' [] [Txt ''Tenants''], el ''p'' [] [Txt (''Clientes e seus dom'' @ [CHR 0xED] @ ''nios.'')], do_button False TLNew [Txt ''Novo tenant''],
          text_field TLQuery [(''placeholder'', ''Buscar por nome, slug ou hostname...'')] (tl_query p)] @
         (if filtered = [] then
            [el ''empty'' []
              ([el ''h3'' [] [Txt (if q \<noteq> [] then ''Nenhum resultado'' else ''Nenhum tenant'')],
                el ''p'' [] [Txt (if q \<noteq> [] then ''Ajuste a busca.'' else ''Cadastre o primeiro cliente.'')]] @
               shown_if (q = []) (do_button False TLNew [Txt ''Novo tenant'']))]
          else [proto_table [''Nome'', ''Slug'', ''Dom'' @ [CHR 0xED] @ ''nio'', ''Recursos'', ''Status'', []] (map tenant_row filtered)]) @
         new_tenant_dialog p))"

section \<open>A tenant\<close>

record tenant_edit =
  te_name :: string
  te_slug :: string
  te_status :: string

text \<open>\<open>tn_revealed\<close> are the places, card and row, whose \<open>RevealableValue\<close> is switched on. Preact keeps the state of an element without
  a key with its place.\<close>

record tenant_screen =
  tn_tab :: string
  tn_edit :: tenant_edit
  tn_hostname :: string
  tn_pick :: string
  tn_values :: "(string \<times> string) list"
  tn_dialogs :: "string list"
  tn_revealed :: "(nat \<times> nat) list"

datatype (plugins only: code) tenant_field = TNName | TNSlug | TNStatus | TNHostname | TNPick | TNValue string

datatype (plugins only: code) tenant_action =
    TNBack
  | TNType tenant_field string
  | TNTab string
  | TNOpenEdit
  | TNSaveEdit
  | TNNewResource
  | TNSaveResource
  | TNToggle string
  | TNRemove string
  | TNReveal nat nat
  | TNNewDomain
  | TNSaveDomain
  | TNRemoveDomain string
  | TNCancel string

definition mount_tenant :: tenant_screen where
  "mount_tenant = \<lparr>tn_tab = ''resources'', tn_edit = \<lparr>te_name = [], te_slug = [], te_status = ''active''\<rparr>, tn_hostname = [], tn_pick = [],
     tn_values = [], tn_dialogs = [], tn_revealed = []\<rparr>"

definition proto_available :: "proto_data \<Rightarrow> proto_tenant \<Rightarrow> proto_definition list" where
  "proto_available d t =
     (let activeKeys = map res_definitionKey (filter (\<lambda>r. res_status r = ''active'') (ten_resources t)) in
      filter (\<lambda>x. def_status x = ''active'' \<and> def_key x \<notin> set activeKeys) (definitions d))"

definition picked_definition :: "proto_data \<Rightarrow> proto_tenant \<Rightarrow> tenant_screen \<Rightarrow> proto_definition option" where
  "picked_definition d t p = find (\<lambda>x. def_key x = tn_pick p) (proto_available d t)"

text \<open>\<open>{ ...values, [key]: v }\<close>\<close>

definition object_set :: "string \<Rightarrow> 'v \<Rightarrow> (string \<times> 'v) list \<Rightarrow> (string \<times> 'v) list" where
  "object_set k v o1 = (if k \<in> fst ` set o1 then map (\<lambda>(k', v'). (k', if k' = k then v else v')) o1 else o1 @ [(k, v)])"

definition typed_value :: "tenant_screen \<Rightarrow> string \<Rightarrow> string" where
  "typed_value p key = some_or (map_of (tn_values p) key) []"

definition required_filled :: "proto_data \<Rightarrow> proto_tenant \<Rightarrow> tenant_screen \<Rightarrow> bool" where
  "required_filled d t p =
     (case picked_definition d t p of None \<Rightarrow> False
      | Some x \<Rightarrow> list_all (\<lambda>f. js_trim (typed_value p (fld_key f)) \<noteq> []) (filter fld_required (def_fields x)))"

definition choose_type :: "proto_data \<Rightarrow> proto_tenant \<Rightarrow> string \<Rightarrow> tenant_screen \<Rightarrow> tenant_screen" where
  "choose_type d t key p =
     p\<lparr>tn_pick := key,
       tn_values := (case find (\<lambda>x. def_key x = key) (proto_available d t) of None \<Rightarrow> []
         | Some x \<Rightarrow> fold (\<lambda>f. object_set (fld_key f) []) (def_fields x) [])\<rparr>"

definition save_edit :: "proto_tenant \<Rightarrow> tenant_screen \<times> proto_store \<Rightarrow> tenant_screen \<times> proto_store" where
  "save_edit t = (\<lambda>(p, s).
     if js_trim (te_name (tn_edit p)) = [] then (p, s)
     else (p\<lparr>tn_dialogs := close_dialog ''edit-tenant'' (tn_dialogs p)\<rparr>,
       proto_updateTenant (ten_id t) (te_name (tn_edit p), te_slug (tn_edit p), te_status (tn_edit p)) s))"

definition save_resource :: "proto_world \<Rightarrow> proto_tenant \<Rightarrow> tenant_screen \<times> proto_store \<Rightarrow> tenant_screen \<times> proto_store" where
  "save_resource w t = (\<lambda>(p, s).
     (case picked_definition (st_data s) t p of None \<Rightarrow> (p, s)
      | Some x \<Rightarrow>
          if \<not> required_filled (st_data s) t p then (p, s)
          else (p\<lparr>tn_dialogs := close_dialog ''new-resource'' (tn_dialogs p)\<rparr>,
            proto_addResource w (ten_id t) x (map (\<lambda>(k, v). (k, Some v)) (tn_values p)) s)))"

definition save_domain :: "proto_world \<Rightarrow> proto_tenant \<Rightarrow> tenant_screen \<times> proto_store \<Rightarrow> tenant_screen \<times> proto_store" where
  "save_domain w t = (\<lambda>(p, s).
     if js_trim (tn_hostname p) = [] then (p, s)
     else (p\<lparr>tn_hostname := [], tn_dialogs := close_dialog ''new-domain'' (tn_dialogs p)\<rparr>,
       proto_addDomain w (ten_id t) (js_trim (tn_hostname p)) s))"

definition type_tenant_field :: "proto_data \<Rightarrow> proto_tenant \<Rightarrow> tenant_field \<Rightarrow> string \<Rightarrow> tenant_screen \<Rightarrow> tenant_screen" where
  "type_tenant_field d t i v p =
     (case i of
        TNName \<Rightarrow> p\<lparr>tn_edit := (tn_edit p)\<lparr>te_name := v\<rparr>\<rparr>
      | TNSlug \<Rightarrow> p\<lparr>tn_edit := (tn_edit p)\<lparr>te_slug := v\<rparr>\<rparr>
      | TNStatus \<Rightarrow> p\<lparr>tn_edit := (tn_edit p)\<lparr>te_status := v\<rparr>\<rparr>
      | TNHostname \<Rightarrow> p\<lparr>tn_hostname := v\<rparr>
      | TNPick \<Rightarrow> choose_type d t v p
      | TNValue key \<Rightarrow> p\<lparr>tn_values := object_set key v (tn_values p)\<rparr>)"

definition act_on_tenant :: "proto_world \<Rightarrow> proto_tenant \<Rightarrow> tenant_action \<Rightarrow> tenant_screen \<times> proto_store \<Rightarrow> tenant_screen \<times> proto_store" where
  "act_on_tenant w t a = (\<lambda>(p, s).
     (case a of
        TNBack \<Rightarrow> (p, s)
      | TNType i v \<Rightarrow> (type_tenant_field (st_data s) t i v p, s)
      | TNTab tab \<Rightarrow> (p\<lparr>tn_tab := tab\<rparr>, s)
      | TNOpenEdit \<Rightarrow>
          (p\<lparr>tn_edit := \<lparr>te_name = ten_name t, te_slug = ten_slug t, te_status = ten_status t\<rparr>,
             tn_dialogs := show_dialog ''edit-tenant'' (tn_dialogs p)\<rparr>, s)
      | TNSaveEdit \<Rightarrow> save_edit t (p, s)
      | TNNewResource \<Rightarrow> (p\<lparr>tn_pick := [], tn_values := [], tn_dialogs := show_dialog ''new-resource'' (tn_dialogs p)\<rparr>, s)
      | TNSaveResource \<Rightarrow> save_resource w t (p, s)
      | TNToggle r \<Rightarrow> (p, proto_toggleResourceStatus (ten_id t) r s)
      | TNRemove r \<Rightarrow> (p, proto_removeResource (ten_id t) r s)
      | TNReveal i j \<Rightarrow> (p\<lparr>tn_revealed := (if (i, j) \<in> set (tn_revealed p) then removeAll (i, j) (tn_revealed p) else (i, j) # tn_revealed p)\<rparr>, s)
      | TNNewDomain \<Rightarrow> (p\<lparr>tn_hostname := [], tn_dialogs := show_dialog ''new-domain'' (tn_dialogs p)\<rparr>, s)
      | TNSaveDomain \<Rightarrow> save_domain w t (p, s)
      | TNRemoveDomain i \<Rightarrow> (p, proto_removeDomain (ten_id t) i s)
      | TNCancel i \<Rightarrow> (p\<lparr>tn_dialogs := close_dialog i (tn_dialogs p)\<rparr>, s)))"

text \<open>At a render a place keeps its state as long as it holds the value of a secret field.\<close>

definition secret_place :: "proto_data \<Rightarrow> proto_tenant \<Rightarrow> nat \<times> nat \<Rightarrow> bool" where
  "secret_place d t = (\<lambda>(i, j). i < length (ten_resources t) \<and>
     (case findDefinitionByKey (res_definitionKey (ten_resources t ! i)) d of None \<Rightarrow> False
      | Some x \<Rightarrow> j < length (def_fields x) \<and> fld_is_secret (def_fields x ! j)))"

definition render_tenant :: "proto_data \<Rightarrow> string \<Rightarrow> tenant_screen \<Rightarrow> tenant_screen" where
  "render_tenant d i p =
     p\<lparr>tn_revealed := (case findTenant i d of None \<Rightarrow> []
       | Some t \<Rightarrow> if tn_tab p = ''resources'' then filter (secret_place d t) (tn_revealed p) else [])\<rparr>"

definition handle_tenant ::
  "proto_world \<Rightarrow> string \<Rightarrow> tenant_action \<Rightarrow> tenant_screen \<times> proto_store \<Rightarrow> (tenant_screen \<times> proto_store) \<times> string list" where
  "handle_tenant w i a = (\<lambda>(p, s).
     (case findTenant i (st_data s) of
        None \<Rightarrow> ((p, s), if a = TNBack then [''/tenants''] else [])
      | Some t \<Rightarrow>
          (let (p1, s1) = act_on_tenant w t a (p, s) in
           ((render_tenant (st_data s1) i p1, s1), if a = TNBack then [''/tenants''] else []))))"

definition bullets :: string where
  "bullets = replicate 12 (CHR 0x95)"

definition revealable_text :: "bool \<Rightarrow> string option \<Rightarrow> string" where
  "revealable_text shown v = (if shown then or_mark [CHR 0x97] v else bullets)"

definition revealable_value :: "'a \<Rightarrow> bool \<Rightarrow> string option \<Rightarrow> ('a, 'i) control view" where
  "revealable_value a shown v =
     el ''div'' [] [el ''code'' [] [Txt (revealable_text shown v)], button [(''title'', if shown then ''Ocultar'' else ''Revelar'')] (Do a) []]"

definition resource_value :: "proto_resource \<Rightarrow> string \<Rightarrow> string option" where
  "resource_value r key = (case map_of (res_values r) key of Some v \<Rightarrow> v | None \<Rightarrow> None)"

definition resource_field_row :: "(nat \<times> nat) list \<Rightarrow> proto_resource \<Rightarrow> nat \<Rightarrow> nat \<Rightarrow> proto_field \<Rightarrow> (tenant_action, tenant_field) control view" where
  "resource_field_row revealed r i j f =
     (let v = resource_value r (fld_key f) in
      proto_row
        [[Txt (fld_label f)],
         [if fld_is_secret f then revealable_value (TNReveal i j) ((i, j) \<in> set revealed) v else el ''code'' [] [Txt (or_mark [CHR 0x97] v)]],
         shown_if (fld_is_secret f) (badge ''outline'' ''secret'')])"

definition resource_card :: "proto_data \<Rightarrow> (nat \<times> nat) list \<Rightarrow> nat \<Rightarrow> proto_resource \<Rightarrow> (tenant_action, tenant_field) control view" where
  "resource_card d revealed i r =
     (let fields = (case findDefinitionByKey (res_definitionKey r) d of None \<Rightarrow> [] | Some x \<Rightarrow> def_fields x);
          isActive = (res_status r = ''active'') in
      el ''card'' []
        [el ''div'' [] [Txt (res_definitionName r), el ''code'' [] [Txt (res_definitionKey r)]],
         proto_badge (res_status r),
         button [(''title'', if isActive then ''Desativar'' else ''Reativar'')] (Do (TNToggle (res_id r))) [],
         button [(''title'', ''Remover'')] (Do (TNRemove (res_id r))) [],
         proto_table [''Campo'', ''Valor'', []] (map (\<lambda>(j, f). resource_field_row revealed r i j f) (enumerate 0 fields))])"

definition resources_panel :: "proto_data \<Rightarrow> proto_tenant \<Rightarrow> tenant_screen \<Rightarrow> (tenant_action, tenant_field) control view" where
  "resources_panel d t p =
     el ''div'' []
       (do_button False TNNewResource [Txt ''Adicionar recurso''] #
        (if ten_resources t = [] then
           [el ''empty'' []
             [el ''h3'' [] [Txt ''Nenhum recurso''], el ''p'' [] [Txt (''Este tenant ainda n'' @ [CHR 0xE3] @ ''o tem recursos provisionados.'')],
              do_button False TNNewResource [Txt ''Adicionar recurso'']]]
         else map (\<lambda>(i, r). resource_card d (tn_revealed p) i r) (enumerate 0 (ten_resources t))))"

definition domains_panel :: "proto_tenant \<Rightarrow> (tenant_action, tenant_field) control view" where
  "domains_panel t =
     el ''card'' []
       [el ''h3'' [] [Txt (''Dom'' @ [CHR 0xED] @ ''nios'')], el ''p'' [] [Txt ''Hostnames que resolvem para este tenant.''],
        do_button False TNNewDomain [Txt ''Adicionar''],
        (if ten_domains t = [] then el ''p'' [] [Txt (''Nenhum dom'' @ [CHR 0xED] @ ''nio. Adicione ao menos um para resolver o tenant.'')]
         else proto_table [''Hostname'', ''A'' @ [CHR 0xE7, CHR 0xF5] @ ''es'']
           (map (\<lambda>x. proto_row [[el ''code'' [] [Txt (dom_hostname x)]], [button [(''title'', ''Remover'')] (Do (TNRemoveDomain (dom_id x))) []]])
             (ten_domains t)))]"

definition edit_tenant_dialog :: "tenant_screen \<Rightarrow> (tenant_action, tenant_field) control view list" where
  "edit_tenant_dialog p =
     proto_dialog ''edit-tenant'' (tn_dialogs p)
       [el ''h2'' [] [Txt ''Editar tenant''], el ''p'' [] [Txt ''Atualize os dados do cliente.''],
        label ''Nome'', text_field TNName [] (te_name (tn_edit p)), label ''Slug'', text_field TNSlug [] (te_slug (tn_edit p)),
        label ''Status'', proto_select TNStatus (te_status (tn_edit p)) [(''active'', ''active''), (''inactive'', ''inactive'')],
        do_button False (TNCancel ''edit-tenant'') [Txt ''Cancelar''],
        do_button (js_trim (te_name (tn_edit p)) = []) TNSaveEdit [Txt ''Salvar'']]"

definition resource_input :: "tenant_screen \<Rightarrow> proto_field \<Rightarrow> (tenant_action, tenant_field) control view" where
  "resource_input p f =
     el ''field'' []
       [el ''label'' [] ([Txt (fld_label f)] @ shown_if (fld_required f) (Txt ''*'')),
        text_field (TNValue (fld_key f))
          [(''type'', if fld_is_secret f then ''password'' else if fld_data_type f = ''int'' then ''number'' else ''text''), (''placeholder'', fld_key f)]
          (typed_value p (fld_key f))]"

definition new_resource_dialog :: "proto_data \<Rightarrow> proto_tenant \<Rightarrow> tenant_screen \<Rightarrow> (tenant_action, tenant_field) control view list" where
  "new_resource_dialog d t p =
     (let available = proto_available d t; pickedDef = picked_definition d t p in
      proto_dialog ''new-resource'' (tn_dialogs p)
        ([el ''h2'' [] [Txt ''Adicionar recurso''],
          el ''p'' [] [Txt (''Selecione um tipo. Os campos v'' @ [CHR 0xEA] @ ''m do template; s'' @ [CHR 0xF3] @ '' 1 ativo por tipo.'')]] @
         (if available = [] then
            [el ''div'' [] [Txt (''Todos os tipos de recurso ativos j'' @ [CHR 0xE1] @ '' est'' @ [CHR 0xE3] @ ''o provisionados (ou n'' @ [CHR 0xE3] @
               ''o h'' @ [CHR 0xE1] @ '' definitions ativas). Desative um recurso para trocar, ou crie uma nova definition.'')]]
          else
            [label ''Tipo de recurso'', proto_select TNPick (tn_pick p) (([], ''Selecione...'') # map (\<lambda>x. (def_key x, def_name x)) available)] @
            (case pickedDef of None \<Rightarrow> []
             | Some x \<Rightarrow>
                 shown_if (def_fields x = []) (el ''p'' [] [Txt (''Este template n'' @ [CHR 0xE3] @ ''o tem campos definidos.'')]) @
                 map (resource_input p) (def_fields x))) @
         [do_button False (TNCancel ''new-resource'') [Txt ''Cancelar''],
          do_button (pickedDef = None \<or> \<not> required_filled d t p) TNSaveResource [Txt ''Salvar recurso'']]))"

definition new_domain_dialog :: "tenant_screen \<Rightarrow> (tenant_action, tenant_field) control view list" where
  "new_domain_dialog p =
     proto_dialog ''new-domain'' (tn_dialogs p)
       [el ''h2'' [] [Txt (''Adicionar dom'' @ [CHR 0xED] @ ''nio'')], el ''p'' [] [Txt ''Hostname exato que resolve para este tenant.''],
        label ''Hostname'', text_field TNHostname [(''placeholder'', ''app.cliente.com'')] (tn_hostname p),
        do_button False (TNCancel ''new-domain'') [Txt ''Cancelar''], do_button (js_trim (tn_hostname p) = []) TNSaveDomain [Txt ''Adicionar'']]"

definition tab_button :: "tenant_screen \<Rightarrow> string \<Rightarrow> string \<Rightarrow> (tenant_action, tenant_field) control view" where
  "tab_button p i l = button (flag ''selected'' (tn_tab p = i)) (Do (TNTab i)) [Txt l]"

definition proto_tenant_view :: "proto_data \<Rightarrow> string \<Rightarrow> tenant_screen \<Rightarrow> (tenant_action, tenant_field) control view" where
  "proto_tenant_view d i p =
     (case findTenant i d of
        None \<Rightarrow> el ''div'' [] [el ''p'' [] [Txt (''Tenant n'' @ [CHR 0xE3] @ ''o encontrado.'')], do_button False TNBack [Txt ''Voltar para Tenants'']]
      | Some t \<Rightarrow>
          el ''div'' []
            ([Elem ''a'' [] [(''onClick'', Do TNBack)] [Txt ''Tenants''], el ''span'' [] [Txt (ten_name t)],
              el ''h1'' [] [Txt (ten_name t)], el ''code'' [] [Txt (ten_slug t)], proto_badge (ten_status t),
              do_button False TNOpenEdit [Txt ''Editar''],
              tab_button p ''resources'' ''Recursos'', tab_button p ''domains'' (''Dom'' @ [CHR 0xED] @ ''nios'')] @
             shown_if (tn_tab p = ''resources'') (resources_panel d t p) @ shown_if (tn_tab p = ''domains'') (domains_panel t) @
             edit_tenant_dialog p @ new_resource_dialog d t p @ new_domain_dialog p))"

section \<open>One active resource of a type\<close>

definition active_types :: "proto_tenant \<Rightarrow> string list" where
  "active_types t = map res_definitionKey (filter (\<lambda>r. res_status r = ''active'') (ten_resources t))"

definition one_active :: "proto_data \<Rightarrow> bool" where
  "one_active d \<longleftrightarrow> list_all (\<lambda>t. distinct (active_types t)) (tenants d)"

text \<open>What an operation on one tenant does to the data, where the identifiers of the tenants are distinct.\<close>

lemma mutateTenant_data:
  assumes "distinct (map ten_id (tenants (st_data s)))" and "findTenant i (st_data s) = Some t"
    and "st_data (snd (f t s)) = st_data s"
  shows "st_data (mutateTenant i f s) = (st_data s)\<lparr>tenants := map (\<lambda>x. if ten_id x = i then fst (f t s) else x) (tenants (st_data s))\<rparr>"
  using assms(2) by (simp add: mutateTenant_def map_found_unique [OF assms(1)] findTenant_def commit_def)

lemma findTenant_Some: "findTenant i d = Some t \<Longrightarrow> t \<in> set (tenants d) \<and> ten_id t = i"
  by (auto simp: findTenant_def find_Some_iff in_set_conv_nth)

lemma one_active_mutate:
  assumes "distinct (map ten_id (tenants (st_data s)))" and "findTenant i (st_data s) = Some t" and "one_active (st_data s)"
    and "st_data (snd (f t s)) = st_data s"
  shows "one_active (st_data (mutateTenant i f s)) \<longleftrightarrow> distinct (active_types (fst (f t s)))"
  using assms(3) findTenant_Some [OF assms(2)]
  by (auto simp: mutateTenant_data [where f = f, OF assms(1,2,4)] one_active_def list_all_iff)

lemma active_types_update: "ten_resources t = ten_resources t' \<Longrightarrow> active_types t = active_types t'"
  by (simp add: active_types_def)

lemma updateTenant_one_active: "one_active (st_data (proto_updateTenant i patch s)) \<longleftrightarrow> one_active (st_data s)"
proof -
  have "active_types (if ten_id t = i then t\<lparr>ten_name := n, ten_slug := sl, ten_status := st\<rparr> else t) = active_types t" for t n sl st
    by (simp add: active_types_def)
  then show ?thesis by (cases patch) (simp add: proto_updateTenant_def one_active_def commit_def list.pred_map comp_def)
qed

lemma toggled_types:
  assumes "distinct (map res_id rs)" and "distinct (map res_definitionKey (filter (\<lambda>r. res_status r = ''active'') rs))"
  shows "distinct (map res_definitionKey (filter (\<lambda>r. res_status r = ''active'')
      (map (\<lambda>r. if res_id r = i then r\<lparr>res_status := toggled ''inactive'' (res_status r)\<rparr> else r) rs))) \<longleftrightarrow>
    \<not> (\<exists>r \<in> set rs. res_id r = i \<and> res_status r \<noteq> ''active'' \<and> res_definitionKey r \<in> res_definitionKey ` set (filter (\<lambda>r. res_status r = ''active'') rs))"
proof (cases "i \<in> res_id ` set rs")
  case False
  then have "map (\<lambda>r. if res_id r = i then r\<lparr>res_status := toggled ''inactive'' (res_status r)\<rparr> else r) rs = rs" by (intro map_idI) auto
  then show ?thesis using assms(2) False by auto
next
  case True
  then obtain r xs ys where rs: "rs = xs @ r # ys" "res_id r = i" by (metis imageE split_list)
  with assms(1) have apart: "i \<notin> res_id ` set xs" "i \<notin> res_id ` set ys" by auto
  then have same: "map (\<lambda>r. if res_id r = i then r\<lparr>res_status := toggled ''inactive'' (res_status r)\<rparr> else r) xs = xs"
    "map (\<lambda>r. if res_id r = i then r\<lparr>res_status := toggled ''inactive'' (res_status r)\<rparr> else r) ys = ys" by (intro map_idI, auto)+
  have only: "x \<in> set rs \<and> res_id x = i \<longleftrightarrow> x = r" for x using rs apart by (auto simp: image_iff)
  show ?thesis
  proof (cases "res_status r = ''active''")
    case True
    then have "\<not> (\<exists>x \<in> set rs. res_id x = i \<and> res_status x \<noteq> ''active'' \<and> res_definitionKey x \<in> res_definitionKey ` set (filter (\<lambda>r. res_status r = ''active'') rs))"
      using only True by metis
    then show ?thesis using assms(2) True by (auto simp: rs(1) same toggled_def rs(2))
  next
    case False
    then have "(\<exists>x \<in> set rs. res_id x = i \<and> res_status x \<noteq> ''active'' \<and> res_definitionKey x \<in> res_definitionKey ` set (filter (\<lambda>r. res_status r = ''active'') rs)) \<longleftrightarrow>
        res_definitionKey r \<in> res_definitionKey ` set (filter (\<lambda>r. res_status r = ''active'') rs)" using only False by metis
    then show ?thesis using assms(2) False by (auto simp: rs(1) same toggled_def rs(2))
  qed
qed

lemma filters_swap: "filter P (filter Q xs) = filter Q (filter P xs)"
  by (simp add: conj_commute)

definition breaks_rule :: "proto_data \<Rightarrow> string \<Rightarrow> tenant_action \<Rightarrow> bool" where
  "breaks_rule d i a \<longleftrightarrow> (\<exists>t r. findTenant i d = Some t \<and> r \<in> set (ten_resources t) \<and> a = TNToggle (res_id r) \<and> res_status r \<noteq> ''active'' \<and>
     res_definitionKey r \<in> set (active_types t))"

lemma act_on_tenant_rule:
  assumes "rows_distinct (st_data s)" and "one_active (st_data s)" and t: "findTenant i (st_data s) = Some t"
  shows "one_active (st_data (snd (act_on_tenant w t a (p, s)))) \<longleftrightarrow> \<not> breaks_rule (st_data s) i a"
proof -
  have dist: "distinct (map ten_id (tenants (st_data s)))" using assms(1) by (simp add: rows_distinct_def)
  have id: "ten_id t = i" "t \<in> set (tenants (st_data s))" using findTenant_Some [OF t] by auto
  then have types: "distinct (active_types t)" "distinct (map res_id (ten_resources t))"
    using assms(1,2) by (auto simp: one_active_def rows_distinct_def tenant_ok_def list_all_iff)
  note mut = one_active_mutate [OF dist t assms(2)]
  have no: "\<not> breaks_rule (st_data s) i b" if "\<And>r. b \<noteq> TNToggle r" for b using that by (auto simp: breaks_rule_def)
  show ?thesis
  proof (cases a)
    case (TNToggle r)
    have "one_active (st_data (proto_toggleResourceStatus i r s)) \<longleftrightarrow> \<not> breaks_rule (st_data s) i (TNToggle r)"
      unfolding proto_toggleResourceStatus_def
      by (subst mut) (use t toggled_types [OF types(2) types(1) [unfolded active_types_def], of r] in \<open>auto simp: active_types_def breaks_rule_def\<close>)
    then show ?thesis by (simp add: TNToggle act_on_tenant_def id)
  next
    case (TNRemove r)
    have left: "ten_resources (t\<lparr>ten_resources := filter (\<lambda>x. res_id x \<noteq> r) (ten_resources t)\<rparr>) = filter (\<lambda>x. res_id x \<noteq> r) (ten_resources t)" by simp
    have "distinct (active_types (t\<lparr>ten_resources := filter (\<lambda>x. res_id x \<noteq> r) (ten_resources t)\<rparr>))"
      unfolding active_types_def left by (subst filters_swap) (rule distinct_map_filter [OF types(1) [unfolded active_types_def]])
    then show ?thesis using no [of a] TNRemove by (simp add: act_on_tenant_def id proto_removeResource_def mut)
  next
    case TNSaveResource
    have "one_active (st_data (proto_addResource w i x vs s))" if "def_key x \<notin> set (active_types t)" for x vs
      unfolding proto_addResource_def by (subst mut) (use that types(1) in \<open>auto simp: uid_def active_types_def\<close>)
    moreover have "def_key x \<notin> set (active_types t)" if "picked_definition (st_data s) t p = Some x" for x
      using that unfolding picked_definition_def by (auto simp: proto_available_def active_types_def Let_def dest: find_SomeD)
    ultimately show ?thesis using no [of a] TNSaveResource assms(2) by (simp add: act_on_tenant_def id save_resource_def split: option.split)
  next
    case TNSaveDomain
    then show ?thesis using no [of a] assms(2) types(1)
      by (simp add: act_on_tenant_def id save_domain_def proto_addDomain_def mut uid_def active_types_def)
  next
    case (TNRemoveDomain x)
    then show ?thesis using no [of a] types(1) by (simp add: act_on_tenant_def id proto_removeDomain_def mut active_types_def)
  next
    case TNSaveEdit
    then show ?thesis using no [of a] assms(2) by (simp add: act_on_tenant_def save_edit_def updateTenant_one_active)
  qed (use no [of a] assms(2) in \<open>simp_all add: act_on_tenant_def\<close>)
qed

text \<open>C33: the rule of the prototype, that a tenant has at most one active resource of each type, is kept by every action on the page of a tenant,
  creating resources included, but for one: switching a resource on again while another of its type is active breaks it, always.\<close>

theorem rule_kept_iff:
  assumes "rows_distinct (st_data s)" and "one_active (st_data s)"
  shows "one_active (st_data (snd (fst (handle_tenant w i a (p, s))))) \<longleftrightarrow> \<not> breaks_rule (st_data s) i a"
proof (cases "findTenant i (st_data s)")
  case None
  then show ?thesis using assms(2) by (simp add: handle_tenant_def breaks_rule_def)
next
  case (Some t)
  then show ?thesis using act_on_tenant_rule [OF assms Some] by (simp add: handle_tenant_def split_beta Let_def)
qed

text \<open>From the sample data: the database of Acme is switched off, another is created, and the first is switched on again.\<close>

definition second_database :: "proto_world \<Rightarrow> tenant_screen \<times> proto_store" where
  "second_database w = fold (\<lambda>a ps. fst (handle_tenant w ''t-acme'' a ps))
     ([TNToggle ''r1'', TNNewResource, TNType TNPick ''postgres''] @
      map (\<lambda>k. TNType (TNValue k) ''x'') [''host'', ''port'', ''database'', ''username'', ''password''] @ [TNSaveResource])
     (mount_tenant, first_visit)"

lemma rule_kept_iff_witness:
  "let (p, s) = second_database demo_world in
     one_active (st_data s) \<and> \<not> one_active (st_data (snd (fst (handle_tenant demo_world ''t-acme'' (TNToggle ''r1'') (p, s)))))"
proof -
  obtain p s where ps: "second_database demo_world = (p, s)" by fastforce
  have "rows_distinct (st_data (snd (second_database demo_world)))" "one_active (st_data (snd (second_database demo_world)))" by code_simp+
  moreover have "breaks_rule (st_data (snd (second_database demo_world))) ''t-acme'' (TNToggle ''r1'')"
  proof -
    have "case findTenant ''t-acme'' (st_data (snd (second_database demo_world))) of None \<Rightarrow> False
      | Some t \<Rightarrow> list_ex (\<lambda>r. res_id r = ''r1'' \<and> res_status r \<noteq> ''active'' \<and> res_definitionKey r \<in> set (active_types t)) (ten_resources t)"
      by code_simp
    then show ?thesis by (fastforce simp: breaks_rule_def list_ex_iff split: option.splits)
  qed
  ultimately show ?thesis using rule_kept_iff [of s demo_world "''t-acme''" "TNToggle ''r1''" p] by (simp add: ps)
qed

section \<open>A reveal stays in its place\<close>

lemma filter_others:
  assumes "distinct (map f xs)" and "c < length xs"
  shows "filter (\<lambda>x. f x \<noteq> f (xs ! c)) xs = take c xs @ drop (Suc c) xs"
proof -
  have xs: "xs = take c xs @ xs ! c # drop (Suc c) xs" using id_take_nth_drop [OF assms(2)] .
  have "distinct (map f (take c xs @ xs ! c # drop (Suc c) xs))" using assms(1) xs by simp
  then have "f (xs ! c) \<notin> set (map f (take c xs))" "f (xs ! c) \<notin> set (map f (drop (Suc c) xs))"
    by (simp_all del: set_map take_map drop_map)
  then have "filter (\<lambda>x. f x \<noteq> f (xs ! c)) (take c xs) = take c xs" "filter (\<lambda>x. f x \<noteq> f (xs ! c)) (drop (Suc c) xs) = drop (Suc c) xs"
    unfolding filter_id_conv set_map by (metis imageI)+
  then show ?thesis by (subst xs) simp
qed

lemma findTenant_updated:
  "findTenant i d = Some t \<Longrightarrow> ten_id t' = i \<Longrightarrow> findTenant i (d\<lparr>tenants := map (\<lambda>x. if ten_id x = i then t' else x) (tenants d)\<rparr>) = Some t'"
proof -
  have "find (\<lambda>x. ten_id x = i) (map (\<lambda>x. if ten_id x = i then t' else x) ts) = Some t'"
    if "find (\<lambda>x. ten_id x = i) ts = Some t" "ten_id t' = i" for ts using that by (induction ts) (auto split: if_splits)
  then show "findTenant i d = Some t \<Longrightarrow> ten_id t' = i \<Longrightarrow> ?thesis" by (simp add: findTenant_def)
qed

lemma revealed_text:
  assumes "findDefinitionByKey (res_definitionKey r) d = Some x" and "j < length (def_fields x)" and "fld_is_secret (def_fields x ! j)"
    and "(c, j) \<in> set revealed"
  shows "or_mark [CHR 0x97] (resource_value r (fld_key (def_fields x ! j))) \<in> set (texts (resource_card d revealed c r))"
proof -
  let ?f = "def_fields x ! j"
  have "(j, ?f) \<in> set (enumerate 0 (def_fields x))" using assms(2) by (simp add: in_set_enumerate_eq)
  moreover have "or_mark [CHR 0x97] (resource_value r (fld_key ?f)) \<in> set (texts (resource_field_row revealed r c j ?f))"
    using assms(3,4) by (simp add: resource_field_row_def proto_row_def revealable_value_def revealable_text_def)
  ultimately show ?thesis using assms(1) by (force simp: resource_card_def proto_table_def)
qed

lemma card_text:
  assumes "findTenant i d = Some t" and "tn_tab p = ''resources''" and "c < length (ten_resources t)"
    and "v \<in> set (texts (resource_card d (tn_revealed p) c (ten_resources t ! c)))"
  shows "v \<in> set (texts (proto_tenant_view d i p))"
proof -
  have "(c, ten_resources t ! c) \<in> set (enumerate 0 (ten_resources t))" using assms(3) by (simp add: in_set_enumerate_eq)
  then have "v \<in> set (texts (resources_panel d t p))" using assms(3,4) by (force simp: resources_panel_def)
  then show ?thesis using assms(1,2) by (simp add: proto_tenant_view_def)
qed

text \<open>C35: a revealed secret and the card that shows it are not bound to each other: when a resource is removed whose secret is on display, and the next
  card is of the same type, the secret of the next resource is shown in clear in its place, whether or not it was ever revealed.\<close>

theorem reveal_stays_in_place:
  assumes "rows_distinct (st_data s)" and t: "findTenant i (st_data s) = Some t" and "Suc c < length (ten_resources t)" and "tn_tab p = ''resources''"
    and "res_definitionKey (ten_resources t ! Suc c) = res_definitionKey (ten_resources t ! c)"
    and x: "findDefinitionByKey (res_definitionKey (ten_resources t ! c)) (st_data s) = Some x"
    and "j < length (def_fields x)" and "fld_is_secret (def_fields x ! j)" and "(c, j) \<in> set (tn_revealed p)"
    and "handle_tenant w i (TNRemove (res_id (ten_resources t ! c))) (p, s) = ((p', s'), es)"
  shows "or_mark [CHR 0x97] (resource_value (ten_resources t ! Suc c) (fld_key (def_fields x ! j))) \<in> set (texts (proto_tenant_view (st_data s') i p'))"
proof -
  define t' where "t' = t\<lparr>ten_resources := take c (ten_resources t) @ drop (Suc c) (ten_resources t)\<rparr>"
  have id: "ten_id t = i" "t \<in> set (tenants (st_data s))" using findTenant_Some [OF t] by auto
  then have "distinct (map ten_id (tenants (st_data s)))" "distinct (map res_id (ten_resources t))"
    using assms(1) by (auto simp: rows_distinct_def tenant_ok_def list_all_iff)
  note dist = this
  have s': "s' = proto_removeResource i (res_id (ten_resources t ! c)) s" and p': "p' = render_tenant (st_data s') i p"
    using assms(10) t id by (auto simp: handle_tenant_def act_on_tenant_def)
  have d': "st_data s' = (st_data s)\<lparr>tenants := map (\<lambda>x. if ten_id x = i then t' else x) (tenants (st_data s))\<rparr>"
    unfolding s' proto_removeResource_def
    by (subst mutateTenant_data [OF dist(1) t]) (use filter_others [OF dist(2), of c] assms(3) in \<open>simp_all add: t'_def\<close>)
  have f': "findTenant i (st_data s') = Some t'" unfolding d' by (rule findTenant_updated [OF t]) (simp add: t'_def id)
  have r': "ten_resources t' ! c = ten_resources t ! Suc c" "c < length (ten_resources t')" using assms(3) by (simp_all add: t'_def nth_append)
  have x': "findDefinitionByKey (res_definitionKey (ten_resources t' ! c)) (st_data s') = Some x"
    using x assms(5) by (simp add: r' d' findDefinitionByKey_def)
  then have "(c, j) \<in> set (tn_revealed p')" using assms(4,7-9) r'(2) by (simp add: p' render_tenant_def f' secret_place_def)
  moreover have "tn_tab p' = ''resources''" using assms(4) by (simp add: p' render_tenant_def)
  ultimately show ?thesis
    using card_text [OF f' _ r'(2)] revealed_text [OF x' assms(7,8)] by (simp add: r'(1))
qed

text \<open>Acme is left with its database and a new one of the same type, and the password of the first is revealed.\<close>

definition two_databases :: "tenant_screen \<times> proto_store" where
  "two_databases = fold (\<lambda>a ps. fst (handle_tenant demo_world ''t-acme'' a ps)) [TNRemove ''r2'', TNReveal 0 4] (second_database demo_world)"

lemma reveal_stays_in_place_witness:
  "(0, 4) \<in> set (tn_revealed (fst two_databases)) \<and> (1, 4) \<notin> set (tn_revealed (fst two_databases)) \<and>
   (case fst (handle_tenant demo_world ''t-acme'' (TNRemove ''r1'') two_databases) of
      (p', s') \<Rightarrow> ''x'' \<in> set (texts (proto_tenant_view (st_data s') ''t-acme'' p')))"
proof -
  obtain p s where ps: "two_databases = (p, s)" by fastforce
  obtain p' s' es where step: "handle_tenant demo_world ''t-acme'' (TNRemove ''r1'') (p, s) = ((p', s'), es)" by (metis prod.collapse)
  define t where "t = the (findTenant ''t-acme'' (st_data (snd two_databases)))"
  define x where "x = the (findDefinitionByKey ''postgres'' (st_data (snd two_databases)))"
  have "rows_distinct (st_data (snd two_databases))" "findTenant ''t-acme'' (st_data (snd two_databases)) \<noteq> None"
    "tn_tab (fst two_databases) = ''resources''" "findDefinitionByKey ''postgres'' (st_data (snd two_databases)) \<noteq> None"
    "tn_revealed (fst two_databases) = [(0, 4)]" by code_simp+
  moreover have "map (\<lambda>r. (res_id r, res_definitionKey r)) (take 1 (ten_resources t)) = [(''r1'', ''postgres'')]"
    "map (\<lambda>r. (res_definitionKey r, resource_value r ''password'')) (drop 1 (ten_resources t)) = [(''postgres'', Some ''x'')]"
    "(fld_key (def_fields x ! 4), fld_is_secret (def_fields x ! 4), length (def_fields x)) = (''password'', True, 6)"
    unfolding t_def x_def by code_simp+
  moreover from this obtain r r' where "ten_resources t = [r, r']" "res_id r = ''r1''" "res_definitionKey r = ''postgres''" "res_definitionKey r' = ''postgres''"
    "resource_value r' ''password'' = Some ''x''" by (cases "ten_resources t") (auto simp: drop_Cons')
  ultimately show ?thesis
    using reveal_stays_in_place [of s "''t-acme''" t 0 p x 4 demo_world p' s' es] step by (auto simp: ps t_def x_def or_mark_def)
qed

end
