(* ===== verification/ProtoCatalog.thy ===== *)
theory ProtoCatalog
  imports ProtoPages
begin

text \<open>
  The catalog and the API clients of the planning prototype (\<open>planning/tenancit/proto/routes/definitions-list.js\<close>,
  \<open>definition-detail.js\<close>, \<open>api-clients.js\<close>). The search for an icon is a machine of its own: typing, the effect that runs after the
  render, the pause before a request, its answer and its time limit are separate events in any order. Theorem: what the search
  shows was found for the text the last effect ran for, which is the text that is typed except between a keystroke and
  its effect, and the loading ends.
\<close>

section \<open>The search for an icon\<close>

definition COMMON_ICONS :: "string list" where
  "COMMON_ICONS =
     [''lucide:database'', ''lucide:hard-drive'', ''lucide:server'', ''lucide:cloud'', ''lucide:mail'', ''lucide:bell'', ''lucide:key-round'',
      ''lucide:lock'', ''lucide:shield'', ''lucide:box'', ''lucide:boxes'', ''lucide:package'', ''lucide:container'', ''lucide:globe'',
      ''lucide:network'', ''lucide:wifi'', ''lucide:link'', ''lucide:credit-card'', ''lucide:wallet'', ''lucide:bar-chart'', ''lucide:activity'',
      ''lucide:settings'', ''lucide:cog'', ''lucide:cpu'', ''lucide:memory-stick'', ''lucide:file-text'', ''lucide:folder'', ''lucide:image'',
      ''lucide:video'', ''lucide:message-square'', ''lucide:phone'', ''lucide:send'', ''lucide:webhook'', ''lucide:flame'', ''lucide:zap'',
      ''lucide:bot'', ''lucide:brain'', ''simple-icons:postgresql'', ''simple-icons:mysql'', ''simple-icons:redis'', ''simple-icons:mongodb'',
      ''simple-icons:minio'', ''simple-icons:amazons3'', ''simple-icons:rabbitmq'', ''simple-icons:apachekafka'', ''simple-icons:elasticsearch'']"

text \<open>\<open>ip_ran\<close> is the text the last effect ran for, \<open>ip_effect\<close> its number: a closure is active while its number is the current one.
  \<open>ip_debounce\<close> and \<open>ip_timer\<close> say whether its timers are set, \<open>ip_requests\<close> are all requests, \<open>ip_open\<close> those under way.\<close>

record icon_picker =
  ip_q :: string
  ip_results :: "string list"
  ip_loading :: bool
  ip_ran :: string
  ip_effect :: nat
  ip_debounce :: bool
  ip_timer :: bool
  ip_requests :: "(nat \<times> string) list"
  ip_open :: "nat list"

datatype (plugins only: code) picker_event =
    PickerType string
  | PickerEffect
  | PickerDebounce
  | PickerAnswer nat "string list option"
  | PickerTimeout

definition mount_icon_picker :: icon_picker where
  "mount_icon_picker = \<lparr>ip_q = [], ip_results = [], ip_loading = False, ip_ran = [], ip_effect = 0, ip_debounce = False, ip_timer = False,
     ip_requests = [], ip_open = []\<rparr>"

definition icon_term :: "string \<Rightarrow> string" where
  "icon_term q = js_lower (js_trim q)"

definition local_icons :: "string \<Rightarrow> string list" where
  "local_icons term = filter (\<lambda>n. js_includes n term) COMMON_ICONS"

text \<open>The effect after a render with another text; the clean-up of the one before clears its timers and makes it inactive.\<close>

definition run_picker_effect :: "icon_picker \<Rightarrow> icon_picker" where
  "run_picker_effect p =
     (if ip_q p = ip_ran p then p
      else let term = icon_term (ip_q p); p1 = p\<lparr>ip_ran := ip_q p, ip_effect := Suc (ip_effect p), ip_debounce := False, ip_timer := False\<rparr> in
        if term = [] then p1\<lparr>ip_results := [], ip_loading := False\<rparr>
        else p1\<lparr>ip_results := local_icons term, ip_loading := True, ip_debounce := True, ip_timer := True\<rparr>)"

text \<open>Effects that are due run before the next render.\<close>

definition set_q :: "string \<Rightarrow> icon_picker \<Rightarrow> icon_picker" where
  "set_q v p = (run_picker_effect p)\<lparr>ip_q := v\<rparr>"

definition send_search :: "icon_picker \<Rightarrow> icon_picker" where
  "send_search p =
     (if ip_debounce p
      then p\<lparr>ip_debounce := False, ip_requests := ip_requests p @ [(ip_effect p, icon_term (ip_ran p))], ip_open := ip_open p @ [ip_effect p]\<rparr>
      else p)"

text \<open>\<^const>\<open>None\<close> is a failure, an answer that cannot be read or one without icons.\<close>

definition search_answered :: "nat \<Rightarrow> string list option \<Rightarrow> icon_picker \<Rightarrow> icon_picker" where
  "search_answered n r p =
     (if n \<notin> set (ip_open p) then p
      else let p1 = p\<lparr>ip_open := removeAll n (ip_open p)\<rparr> in
        if n \<noteq> ip_effect p then p1
        else p1\<lparr>ip_results := (case r of Some (i # is) \<Rightarrow> i # is | _ \<Rightarrow> ip_results p), ip_loading := False, ip_timer := False\<rparr>)"

definition search_timeout :: "icon_picker \<Rightarrow> icon_picker" where
  "search_timeout p = (if ip_timer p \<and> \<not> ip_debounce p then search_answered (ip_effect p) None (p\<lparr>ip_timer := False\<rparr>) else p)"

definition picker_step :: "picker_event \<Rightarrow> icon_picker \<Rightarrow> icon_picker" where
  "picker_step e p =
     (case e of
        PickerType v \<Rightarrow> set_q v p
      | PickerEffect \<Rightarrow> run_picker_effect p
      | PickerDebounce \<Rightarrow> send_search p
      | PickerAnswer n r \<Rightarrow> search_answered n r p
      | PickerTimeout \<Rightarrow> search_timeout p)"

definition picker_run :: "picker_event list \<Rightarrow> icon_picker" where
  "picker_run es = fold picker_step es mount_icon_picker"

text \<open>What may be shown for the text the effect ran for, after the events \<open>es\<close>.\<close>

definition found_for :: "picker_event list \<Rightarrow> icon_picker \<Rightarrow> bool" where
  "found_for es p \<longleftrightarrow>
     ip_results p = (if icon_term (ip_ran p) = [] then [] else local_icons (icon_term (ip_ran p))) \<or>
     (\<exists>n. PickerAnswer n (Some (ip_results p)) \<in> set es \<and> (n, icon_term (ip_ran p)) \<in> set (ip_requests p))"

definition picker_ok :: "picker_event list \<Rightarrow> icon_picker \<Rightarrow> bool" where
  "picker_ok es p \<longleftrightarrow>
     list_all (\<lambda>(n, term). n \<le> ip_effect p \<and> (n = ip_effect p \<longrightarrow> term = icon_term (ip_ran p))) (ip_requests p) \<and>
     (\<forall>n \<in> set (ip_open p). n \<in> fst ` set (ip_requests p)) \<and>
     (ip_loading p \<longrightarrow> ip_timer p \<and> (ip_debounce p \<or> ip_effect p \<in> set (ip_open p))) \<and> found_for es p"

lemma found_for_more: "found_for es p \<Longrightarrow> found_for (es @ [e]) p"
  by (auto simp: found_for_def)

lemma picker_ok_more: "picker_ok es p \<Longrightarrow> picker_ok (es @ [e]) p"
  by (auto simp: picker_ok_def found_for_more)

lemma run_picker_effect_ok: "picker_ok es p \<Longrightarrow> picker_ok es (run_picker_effect p)"
  by (fastforce simp: run_picker_effect_def picker_ok_def found_for_def Let_def list_all_iff)

lemma picker_ok_q: "picker_ok es (p\<lparr>ip_q := v\<rparr>) = picker_ok es p"
  by (simp add: picker_ok_def found_for_def)

lemma set_q_ok: "picker_ok es p \<Longrightarrow> picker_ok es (set_q v p)"
  using run_picker_effect_ok [of es p] by (simp only: set_q_def picker_ok_q)

lemma send_search_ok: "picker_ok es p \<Longrightarrow> picker_ok es (send_search p)"
  by (fastforce simp: send_search_def picker_ok_def found_for_def list_all_iff)

lemma search_answered_ok:
  assumes "picker_ok es p" shows "picker_ok (es @ [PickerAnswer n r]) (search_answered n r p)"
proof -
  let ?es = "es @ [PickerAnswer n r]"
  have ok: "picker_ok ?es p" using assms by (rule picker_ok_more)
  show ?thesis
  proof (cases "n \<in> set (ip_open p) \<and> n = ip_effect p")
    case True
    then have "(n, icon_term (ip_ran p)) \<in> set (ip_requests p)" using ok by (fastforce simp: picker_ok_def list_all_iff)
    then show ?thesis using ok True
      by (cases "\<exists>i is. r = Some (i # is)") (auto simp: search_answered_def picker_ok_def found_for_def split: option.split list.split)
  next
    case False
    then show ?thesis using ok by (auto simp: search_answered_def picker_ok_def found_for_def Let_def)
  qed
qed

lemma search_timeout_ok: "picker_ok es p \<Longrightarrow> picker_ok es (search_timeout p)"
  by (auto simp: search_timeout_def search_answered_def picker_ok_def found_for_def Let_def)

lemma picker_run_ok: "picker_ok es (picker_run es)"
proof (induction es rule: rev_induct)
  case Nil
  then show ?case by (simp add: picker_run_def picker_ok_def found_for_def mount_icon_picker_def icon_term_def js_trim_Nil js_lower_def)
next
  case (snoc e es)
  have run: "picker_run (es @ [e]) = picker_step e (picker_run es)" by (simp add: picker_run_def)
  show ?case
    unfolding run by (cases e) (simp_all add: picker_step_def snoc.IH search_answered_ok picker_ok_more run_picker_effect_ok set_q_ok send_search_ok search_timeout_ok)
qed

text \<open>Between a keystroke and its effect the text of the last effect is the one typed before.\<close>

definition no_render :: "picker_event \<Rightarrow> bool" where
  "no_render e = (case e of PickerType v \<Rightarrow> False | PickerEffect \<Rightarrow> False | _ \<Rightarrow> True)"

definition effect_due :: "picker_event list \<Rightarrow> bool" where
  "effect_due es \<longleftrightarrow>
     (\<exists>es1 es2. es = es1 @ PickerType (ip_q (picker_run es)) # es2 \<and> list_all no_render es2 \<and> ip_ran (picker_run es) = ip_q (picker_run es1))"

lemma run_picker_effect_ran: "ip_ran (run_picker_effect p) = ip_q p" "ip_q (run_picker_effect p) = ip_q p"
  by (simp_all add: run_picker_effect_def Let_def)

lemma search_keeps_term:
  "ip_q (send_search p) = ip_q p" "ip_ran (send_search p) = ip_ran p"
  "ip_q (search_answered n r p) = ip_q p" "ip_ran (search_answered n r p) = ip_ran p"
  "ip_q (search_timeout p) = ip_q p" "ip_ran (search_timeout p) = ip_ran p"
  by (simp_all add: send_search_def search_answered_def search_timeout_def Let_def)

lemma picker_ran: "ip_ran (picker_run es) = ip_q (picker_run es) \<or> effect_due es"
proof (induction es rule: rev_induct)
  case Nil
  then show ?case by (simp add: picker_run_def mount_icon_picker_def)
next
  case (snoc e es)
  have run: "picker_run (es @ [e]) = picker_step e (picker_run es)" by (simp add: picker_run_def)
  show ?case
  proof (cases "no_render e")
    case True
    then have same: "ip_q (picker_run (es @ [e])) = ip_q (picker_run es)" "ip_ran (picker_run (es @ [e])) = ip_ran (picker_run es)"
      unfolding run by (cases e; simp add: no_render_def picker_step_def search_keeps_term)+
    from snoc.IH show ?thesis
    proof
      assume "effect_due es"
      then obtain es1 es2 where "es = es1 @ PickerType (ip_q (picker_run es)) # es2" "list_all no_render es2" "ip_ran (picker_run es) = ip_q (picker_run es1)"
        unfolding effect_due_def by blast
      then have "es @ [e] = es1 @ PickerType (ip_q (picker_run (es @ [e]))) # es2 @ [e]" "list_all no_render (es2 @ [e])"
        "ip_ran (picker_run (es @ [e])) = ip_q (picker_run es1)"
        using True same by simp_all
      then show ?thesis unfolding effect_due_def by blast
    qed (simp add: same)
  next
    case False
    then consider v where "e = PickerType v" | "e = PickerEffect" by (cases e) (simp_all add: no_render_def)
    then show ?thesis
    proof cases
      case (1 v)
      then have "es @ [e] = es @ PickerType (ip_q (picker_run (es @ [e]))) # []" "ip_ran (picker_run (es @ [e])) = ip_q (picker_run es)"
        unfolding run by (simp_all add: picker_step_def set_q_def run_picker_effect_ran)
      then show ?thesis unfolding effect_due_def by (metis list.pred_inject(1))
    next
      case 2
      then show ?thesis unfolding run by (simp add: picker_step_def run_picker_effect_ran)
    qed
  qed
qed

text \<open>C34: after any order of typing, effects, requests, answers and time-outs the search for icons shows what belongs to the text the last effect
  ran for: nothing for a blank, otherwise the icons of the built-in set that match it or the answer to a request for exactly this
  term; an answer to an earlier term never replaces it. That text is the one typed, except after a keystroke whose effect has not run
  yet, when it is the text typed just before. And loading ends: by the time limit once the pause before the request is over, and by
  the answer.\<close>

theorem icons_of_current_term:
  "(ip_results (picker_run es) = (if icon_term (ip_ran (picker_run es)) = [] then [] else local_icons (icon_term (ip_ran (picker_run es)))) \<or>
      (\<exists>n. PickerAnswer n (Some (ip_results (picker_run es))) \<in> set es \<and>
        (n, icon_term (ip_ran (picker_run es))) \<in> set (ip_requests (picker_run es)))) \<and>
    (ip_ran (picker_run es) = ip_q (picker_run es) \<or>
      (\<exists>es1 es2. es = es1 @ PickerType (ip_q (picker_run es)) # es2 \<and> list_all no_render es2 \<and> ip_ran (picker_run es) = ip_q (picker_run es1))) \<and>
    \<not> ip_loading (search_timeout (send_search (picker_run es))) \<and>
    \<not> ip_loading (search_answered (ip_effect (picker_run es)) r (send_search (picker_run es)))"
  using picker_run_ok [of es] picker_ran [of es]
  by (auto simp: picker_ok_def found_for_def effect_due_def send_search_def search_timeout_def search_answered_def Let_def)

text \<open>The answer for the first term comes after the second is typed.\<close>

lemma icons_of_current_term_witness:
  "ip_results (picker_run [PickerType ''mail'', PickerEffect, PickerDebounce, PickerType ''redis'', PickerEffect,
     PickerAnswer 1 (Some [''mdi:email''])]) = [''simple-icons:redis'']"
proof -
  let ?es = "[PickerType ''mail'', PickerEffect, PickerDebounce, PickerType ''redis'', PickerEffect, PickerAnswer 1 (Some [''mdi:email''])]"
  have "ip_ran (picker_run ?es) = ip_q (picker_run ?es)" "icon_term (ip_q (picker_run ?es)) = ''redis''"
    "ip_requests (picker_run ?es) = [(1, ''mail'')]" "local_icons ''redis'' = [''simple-icons:redis'']" by code_simp+
  then show ?thesis using icons_of_current_term [of ?es None] by simp
qed

section \<open>Definitions\<close>

record definitions_list =
  dl_form :: definition_input
  dl_picker :: icon_picker
  dl_dialogs :: "string list"

datatype (plugins only: code) definitions_list_field = DLKey | DLName | DLDescription | DLSearch

datatype (plugins only: code) definitions_list_action =
    DLStart
  | DLType definitions_list_field string
  | DLPick string
  | DLSearches picker_event
  | DLCancel
  | DLSubmit
  | DLOpen string

definition empty_definition_input :: definition_input where
  "empty_definition_input = \<lparr>di_key = [], di_name = [], di_description = [], di_icon = ''lucide:box''\<rparr>"

definition mount_definitions_list :: definitions_list where
  "mount_definitions_list = \<lparr>dl_form = empty_definition_input, dl_picker = mount_icon_picker, dl_dialogs = []\<rparr>"

definition can_create_definition :: "definitions_list \<Rightarrow> bool" where
  "can_create_definition p \<longleftrightarrow> js_trim (di_key (dl_form p)) \<noteq> [] \<and> js_trim (di_name (dl_form p)) \<noteq> []"

definition type_definition :: "definitions_list_field \<Rightarrow> string \<Rightarrow> definitions_list \<Rightarrow> definitions_list" where
  "type_definition i v p =
     (case i of
        DLKey \<Rightarrow> p\<lparr>dl_form := (dl_form p)\<lparr>di_key := v\<rparr>\<rparr>
      | DLName \<Rightarrow> p\<lparr>dl_form := (dl_form p)\<lparr>di_name := v\<rparr>\<rparr>
      | DLDescription \<Rightarrow> p\<lparr>dl_form := (dl_form p)\<lparr>di_description := v\<rparr>\<rparr>
      | DLSearch \<Rightarrow> p\<lparr>dl_picker := set_q v (dl_picker p)\<rparr>)"

definition pick_icon :: "string \<Rightarrow> definitions_list \<Rightarrow> definitions_list" where
  "pick_icon name p = p\<lparr>dl_form := (dl_form p)\<lparr>di_icon := name\<rparr>, dl_picker := set_q [] (dl_picker p)\<rparr>"

definition handle_definitions_list ::
  "proto_world \<Rightarrow> definitions_list_action \<Rightarrow> definitions_list \<times> proto_store \<Rightarrow> (definitions_list \<times> proto_store) \<times> string list" where
  "handle_definitions_list w a = (\<lambda>(p, s).
     (case a of
        DLStart \<Rightarrow> ((p\<lparr>dl_form := empty_definition_input, dl_dialogs := show_dialog ''new-def'' (dl_dialogs p)\<rparr>, s), [])
      | DLType i v \<Rightarrow> ((type_definition i v p, s), [])
      | DLPick name \<Rightarrow> ((pick_icon name p, s), [])
      | DLSearches e \<Rightarrow> ((p\<lparr>dl_picker := picker_step e (dl_picker p)\<rparr>, s), [])
      | DLCancel \<Rightarrow> ((p\<lparr>dl_dialogs := close_dialog ''new-def'' (dl_dialogs p)\<rparr>, s), [])
      | DLSubmit \<Rightarrow>
          if \<not> can_create_definition p then ((p, s), [])
          else let (i, s1) = proto_addDefinition w (dl_form p) s in
            ((p\<lparr>dl_form := empty_definition_input, dl_dialogs := close_dialog ''new-def'' (dl_dialogs p)\<rparr>, s1), [''/resource-definitions/'' @ i])
      | DLOpen i \<Rightarrow> ((p, s), [''/resource-definitions/'' @ i])))"

definition icon_or_box :: "string \<Rightarrow> string" where
  "icon_or_box icon = (if icon \<noteq> [] then icon else ''lucide:box'')"

definition icon_picker_view :: "string \<Rightarrow> icon_picker \<Rightarrow> (definitions_list_action, definitions_list_field) control view" where
  "icon_picker_view v p =
     el ''div'' []
       ([el ''iconify-icon'' [(''icon'', icon_or_box v)] [],
         text_field DLSearch [(''placeholder'', if v \<noteq> [] then v else ''Buscar '' @ [CHR 0xED] @ ''cone (ex: database, mail, cloud)'')] (ip_q p)] @
        shown_if (js_trim (ip_q p) \<noteq> [])
          (el ''div'' []
            (if ip_results p = [] then [el ''div'' [] [Txt (if ip_loading p then ''Buscando...'' else ''Nenhum '' @ [CHR 0xED] @ ''cone.'')]]
             else map (\<lambda>name. do_button False (DLPick name)
                ([el ''iconify-icon'' [(''icon'', name)] [], Txt name] @ shown_if (v = name) (el ''icon'' [(''icon'', ''lucide:check'')] [])))
               (ip_results p))))"

definition definition_card :: "proto_definition \<Rightarrow> (definitions_list_action, definitions_list_field) control view" where
  "definition_card d =
     Elem ''a'' [] [(''onClick'', Do (DLOpen (def_id d)))]
       [el ''iconify-icon'' [(''icon'', icon_or_box (def_icon d))] [], proto_badge (def_status d), el ''h3'' [] [Txt (def_name d)],
        el ''p'' [] [Txt (or_mark (''Sem descri'' @ [CHR 0xE7, CHR 0xE3] @ ''o.'') (Some (def_description d)))], el ''code'' [] [Txt (def_key d)],
        el ''footer'' [] [Txt (show_nat (length (def_fields d)) @ '' campos '' @ [CHR 0xB7] @ '' '' @ show_nat (length (filter fld_is_secret (def_fields d))) @ '' secret'')]]"

definition new_definition_dialog :: "definitions_list \<Rightarrow> (definitions_list_action, definitions_list_field) control view list" where
  "new_definition_dialog p =
     proto_dialog ''new-def'' (dl_dialogs p)
       [el ''h2'' [] [Txt ''Nova definition''], el ''p'' [] [Txt (''Defina um tipo de recurso. Os campos s'' @ [CHR 0xE3] @ ''o adicionados em seguida.'')],
        label ''Key'', text_field DLKey [(''placeholder'', ''postgres'')] (di_key (dl_form p)),
        label ''Nome'', text_field DLName [(''placeholder'', ''PostgreSQL Connection'')] (di_name (dl_form p)),
        label ([CHR 0xCD] @ ''cone''), icon_picker_view (di_icon (dl_form p)) (dl_picker p),
        label descricao, text_field DLDescription [(''placeholder'', ''Conex'' @ [CHR 0xE3] @ ''o de banco por tenant'')] (di_description (dl_form p)),
        hint (''A key '' @ [CHR 0xE9] @ '' o identificador est'' @ [CHR 0xE1] @ ''vel usado no consumo.''),
        do_button False DLCancel [Txt ''Cancelar''], do_button (\<not> can_create_definition p) DLSubmit [Txt ''Criar definition'']]"

definition proto_definitions :: "proto_data \<Rightarrow> definitions_list \<Rightarrow> (definitions_list_action, definitions_list_field) control view" where
  "proto_definitions d p =
     el ''div'' []
       ([el ''h1'' [] [Txt ''Resource Definitions''], el ''p'' [] [Txt (''Cat'' @ [CHR 0xE1] @ ''logo de tipos de recurso e seus campos.'')],
         do_button False DLStart [Txt ''Nova definition'']] @
        map definition_card (definitions d) @ new_definition_dialog p)"

section \<open>A definition\<close>

record definition_screen =
  df_form :: proto_field
  df_dialogs :: "string list"

datatype (plugins only: code) definition_field = DFKey | DFLabel | DFType

datatype (plugins only: code) definition_action =
    DFBack
  | DFEnter definition_field string
  | DFRequired bool
  | DFSecret bool
  | DFToggle
  | DFNew
  | DFCancel
  | DFSave
  | DFRemove string

definition EMPTY_FIELD :: proto_field where
  "EMPTY_FIELD = text_field_of [] [] [] ''string'' False False"

definition mount_definition :: definition_screen where
  "mount_definition = \<lparr>df_form = EMPTY_FIELD, df_dialogs = []\<rparr>"

definition can_add_field :: "definition_screen \<Rightarrow> bool" where
  "can_add_field p \<longleftrightarrow> js_trim (fld_key (df_form p)) \<noteq> [] \<and> js_trim (fld_label (df_form p)) \<noteq> []"

definition enter_field :: "definition_field \<Rightarrow> string \<Rightarrow> definition_screen \<Rightarrow> definition_screen" where
  "enter_field i v p =
     p\<lparr>df_form := (case i of DFKey \<Rightarrow> (df_form p)\<lparr>fld_key := v\<rparr> | DFLabel \<Rightarrow> (df_form p)\<lparr>fld_label := v\<rparr> | DFType \<Rightarrow> (df_form p)\<lparr>fld_data_type := v\<rparr>)\<rparr>"

definition handle_definition_screen ::
  "proto_world \<Rightarrow> string \<Rightarrow> definition_action \<Rightarrow> definition_screen \<times> proto_store \<Rightarrow> (definition_screen \<times> proto_store) \<times> string list" where
  "handle_definition_screen w i a = (\<lambda>(p, s).
     (case findDefinition i (st_data s) of
        None \<Rightarrow> ((p, s), if a = DFBack then [''/resource-definitions''] else [])
      | Some d \<Rightarrow> (case a of
          DFBack \<Rightarrow> ((p, s), [''/resource-definitions''])
        | DFEnter fi v \<Rightarrow> ((enter_field fi v p, s), [])
        | DFRequired b \<Rightarrow> ((p\<lparr>df_form := (df_form p)\<lparr>fld_required := b\<rparr>\<rparr>, s), [])
        | DFSecret b \<Rightarrow> ((p\<lparr>df_form := (df_form p)\<lparr>fld_is_secret := b\<rparr>\<rparr>, s), [])
        | DFToggle \<Rightarrow> ((p, proto_toggleDefinitionStatus (def_id d) s), [])
        | DFNew \<Rightarrow> ((p\<lparr>df_form := EMPTY_FIELD, df_dialogs := show_dialog ''new-field'' (df_dialogs p)\<rparr>, s), [])
        | DFCancel \<Rightarrow> ((p\<lparr>df_dialogs := close_dialog ''new-field'' (df_dialogs p)\<rparr>, s), [])
        | DFSave \<Rightarrow>
            if \<not> can_add_field p then ((p, s), [])
            else ((p\<lparr>df_dialogs := close_dialog ''new-field'' (df_dialogs p)\<rparr>, proto_addField w (def_id d) (df_form p) s), [])
        | DFRemove fi \<Rightarrow> ((p, proto_removeField (def_id d) fi s), []))))"

definition check_or_dash :: "bool \<Rightarrow> 'a view" where
  "check_or_dash b = (if b then el ''icon'' [(''icon'', ''lucide:check'')] [] else el ''span'' [] [Txt [CHR 0x97]])"

definition field_table_row :: "proto_field \<Rightarrow> (definition_action, 'i) control view" where
  "field_table_row f =
     proto_row
       [[el ''code'' [] [Txt (fld_key f)]], [Txt (fld_label f)], [el ''code'' [] [Txt (fld_data_type f)]], [check_or_dash (fld_required f)],
        [check_or_dash (fld_is_secret f)], [button [(''title'', ''Remover'')] (Do (DFRemove (fld_id f))) []]]"

datatype (plugins only: code) definition_input_id = OfField definition_field | RequiredSwitch | SecretSwitch

definition new_field_dialog :: "definition_screen \<Rightarrow> (definition_action, definition_input_id) control view list" where
  "new_field_dialog p =
     (let f = df_form p in
      proto_dialog ''new-field'' (df_dialogs p)
        [el ''h2'' [] [Txt ''Novo campo''], el ''p'' [] [Txt ''Adicione um campo a este tipo de recurso.''],
         label ''Chave'', text_field (OfField DFKey) [(''placeholder'', ''host'')] (fld_key f),
         label ''Label'', text_field (OfField DFLabel) [(''placeholder'', ''Host'')] (fld_label f),
         label ''Tipo'', proto_select (OfField DFType) (fld_data_type f) [(''string'', ''string''), (''int'', ''int''), (''bool'', ''bool'')],
         Txt (''Obrigat'' @ [CHR 0xF3] @ ''rio''), Txt (''Exigido na cria'' @ [CHR 0xE7, CHR 0xE3] @ ''o do recurso.''), proto_switch RequiredSwitch (fld_required f),
         Txt ''Secret'', Txt ''Criptografado com AES-256-GCM.'', proto_switch SecretSwitch (fld_is_secret f),
         do_button False DFCancel [Txt ''Cancelar''], do_button (\<not> can_add_field p) DFSave [Txt ''Adicionar campo'']])"

definition proto_definition_view :: "proto_data \<Rightarrow> string \<Rightarrow> definition_screen \<Rightarrow> (definition_action, definition_input_id) control view" where
  "proto_definition_view d i p =
     (case findDefinition i d of
        None \<Rightarrow> el ''div'' [] [el ''p'' [] [Txt (''Definition n'' @ [CHR 0xE3] @ ''o encontrada.'')], do_button False DFBack [Txt ''Voltar'']]
      | Some x \<Rightarrow>
          el ''div'' []
            ([Elem ''a'' [] [(''onClick'', Do DFBack)] [Txt ''Resource Definitions''], el ''span'' [] [Txt (def_name x)],
              el ''iconify-icon'' [(''icon'', icon_or_box (def_icon x))] [], el ''h1'' [] [Txt (def_name x)], el ''code'' [] [Txt (def_key x)],
              proto_badge (def_status x), do_button False DFToggle [Txt (if def_status x = ''active'' then ''Desativar'' else ''Ativar'')],
              do_button False DFNew [Txt ''Novo campo''],
              el ''h3'' [] [Txt ''Campos''], el ''p'' [] [Txt (''Defini'' @ [CHR 0xE7, CHR 0xE3] @ ''o din'' @ [CHR 0xE2] @ ''mica dos campos deste tipo de recurso.'')],
              (if def_fields x = [] then
                 el ''empty'' [] [el ''h3'' [] [Txt ''Nenhum campo''], el ''p'' [] [Txt (''Adicione os campos que comp'' @ [CHR 0xF5] @ ''em este recurso.'')]]
               else proto_table [''Chave'', ''Label'', ''Tipo'', ''Required'', ''Secret'', ''A'' @ [CHR 0xE7, CHR 0xF5] @ ''es''] (map field_table_row (def_fields x)))] @
             new_field_dialog p))"

section \<open>API clients\<close>

text \<open>\<open>pc_copying\<close> counts the promises of the clipboard that have not settled.\<close>

record proto_clients_screen =
  pc_name :: string
  pc_token :: string
  pc_copied :: bool
  pc_copying :: nat
  pc_dialogs :: "string list"

datatype (plugins only: code) proto_clients_action =
    PCStart
  | PCName string
  | PCCreate
  | PCCopy bool
  | PCCopySettled bool
  | PCClose
  | PCToggle string

definition mount_proto_clients :: proto_clients_screen where
  "mount_proto_clients = \<lparr>pc_name = [], pc_token = [], pc_copied = False, pc_copying = 0, pc_dialogs = []\<rparr>"

text \<open>\<open>PCCopy\<close> says whether the browser has a clipboard, \<open>PCCopySettled\<close> whether it took the text: the button reports both as copied.\<close>

definition handle_proto_clients ::
  "proto_world \<Rightarrow> proto_clients_action \<Rightarrow> proto_clients_screen \<times> proto_store \<Rightarrow> proto_clients_screen \<times> proto_store" where
  "handle_proto_clients w a = (\<lambda>(p, s).
     (case a of
        PCStart \<Rightarrow> (p\<lparr>pc_name := [], pc_token := [], pc_copied := False, pc_dialogs := show_dialog ''new-client'' (pc_dialogs p)\<rparr>, s)
      | PCName v \<Rightarrow> (p\<lparr>pc_name := v\<rparr>, s)
      | PCCreate \<Rightarrow>
          if js_trim (pc_name p) = [] then (p, s)
          else let (tok, s1) = proto_addApiClient w (js_trim (pc_name p)) s in (p\<lparr>pc_token := tok\<rparr>, s1)
      | PCCopy has_clipboard \<Rightarrow> (if has_clipboard then p\<lparr>pc_copying := Suc (pc_copying p)\<rparr> else p, s)
      | PCCopySettled taken \<Rightarrow> (if 0 < pc_copying p then p\<lparr>pc_copying := pc_copying p - 1, pc_copied := True\<rparr> else p, s)
      | PCClose \<Rightarrow> (p\<lparr>pc_dialogs := close_dialog ''new-client'' (pc_dialogs p)\<rparr>, s)
      | PCToggle i \<Rightarrow> (p, proto_toggleApiClient i s)))"

definition client_row :: "proto_client \<Rightarrow> (proto_clients_action, unit) control view" where
  "client_row c =
     (let isActive = (cli_status c = ''active''); l = (if isActive then ''Revogar'' else ''Reativar'') in
      proto_row
        [[Txt (cli_name c)], [el ''code'' [] [Txt (cli_key_preview c)]], [Txt (cli_created_at c)],
         [badge (if isActive then ''default'' else ''destructive'') (cli_status c)],
         [button [(''title'', l)] (Do (PCToggle (cli_id c))) [Txt l]]])"

definition new_client_dialog :: "proto_clients_screen \<Rightarrow> (proto_clients_action, unit) control view list" where
  "new_client_dialog p =
     proto_dialog ''new-client'' (pc_dialogs p)
       (if pc_token p = [] then
          [el ''h2'' [] [Txt ''Novo API client''], el ''p'' [] [Txt (''O token ser'' @ [CHR 0xE1] @ '' exibido uma '' @ [CHR 0xFA] @ ''nica vez ap'' @ [CHR 0xF3] @ ''s a cria'' @ [CHR 0xE7, CHR 0xE3] @ ''o.'')],
           label ''Nome'', text_field () [(''placeholder'', ''billing-service'')] (pc_name p),
           do_button False PCClose [Txt ''Cancelar''], do_button (js_trim (pc_name p) = []) PCCreate [Txt ''Gerar token'']]
        else
          [el ''h2'' [] [Txt ''Token gerado''], el ''p'' [] [Txt (''Copie agora '' @ [CHR 0x97] @ '' n'' @ [CHR 0xE3] @ ''o ser'' @ [CHR 0xE1] @ '' poss'' @ [CHR 0xED] @ ''vel visualiz'' @ [CHR 0xE1] @ ''-lo novamente.'')],
           el ''code'' [] [Txt (pc_token p)], do_button False (PCCopy True) [Txt (if pc_copied p then ''Copiado'' else ''Copiar'')],
           do_button False PCClose [Txt ''Concluir'']])"

definition proto_clients_view :: "proto_data \<Rightarrow> proto_clients_screen \<Rightarrow> (proto_clients_action, unit) control view" where
  "proto_clients_view d p =
     el ''div'' []
       ([el ''h1'' [] [Txt ''API Clients''], el ''p'' [] [Txt (''Tokens de servi'' @ [CHR 0xE7] @ ''o para consumo server-to-server.'')],
         do_button False PCStart [Txt ''Novo client''],
         el ''alert'' [] [Txt ''Acesso a segredos em claro'',
           Txt (''Estes clients chamam os endpoints de consumo (/v1/resolve), que retornam valores secret descriptografados sobre TLS. O token s'' @ [CHR 0xF3] @
             '' '' @ [CHR 0xE9] @ '' exibido uma vez, na cria'' @ [CHR 0xE7, CHR 0xE3] @ ''o.'')],
         proto_table [''Nome'', ''Token'', ''Criado em'', ''Status'', ''A'' @ [CHR 0xE7, CHR 0xF5] @ ''es''] (map client_row (apiClients d))] @
        new_client_dialog p)"

end
