(* ===== verification/ProtoFrame.thy ===== *)
theory ProtoFrame
  imports View
begin

text \<open>
  The frame of the planning prototype: its scenes, the choice of one from an address and the hints in it, the navigation between scenes
  (\<open>planning/tenancit/proto/index.js\<close>) and the shell around a scene (\<open>components/app-shell.js\<close>). The router itself is
  preact-iso. Theorems: every scene is found by its own path and marked by exactly its entry of the navigation; a detail page is not.
\<close>

section \<open>Scenes\<close>

definition strip_slash :: "string \<Rightarrow> string" where
  "strip_slash s = (if js_ends_with s ''/'' then butlast s else s)"

text \<open>\<open>BASE\<close>, of the path of the document's base address.\<close>

definition proto_base :: "string \<Rightarrow> string" where
  "proto_base pathname = strip_slash pathname"

definition ROOT_PATH :: "string \<Rightarrow> string" where
  "ROOT_PATH base = base @ ''/''"

definition withBase :: "string \<Rightarrow> string \<Rightarrow> string" where
  "withBase base path = base @ (if js_starts_with path ''/'' then path else ''/'' @ path)"

definition normalizePath :: "string \<Rightarrow> string" where
  "normalizePath path = (let normalized = strip_slash path in if normalized \<noteq> [] then normalized else ''/'')"

record scene =
  sc_id :: string
  sc_path :: string
  sc_label :: string
  sc_pageLabel :: string
  sc_hideInNav :: bool

definition SCENES :: "string \<Rightarrow> scene list" where
  "SCENES base =
     [\<lparr>sc_id = ''overview'', sc_path = withBase base ''/'', sc_label = ''Vis'' @ [CHR 0xE3] @ ''o geral'', sc_pageLabel = ''Vis'' @ [CHR 0xE3] @ ''o geral'',
       sc_hideInNav = False\<rparr>,
      \<lparr>sc_id = ''tenants'', sc_path = withBase base ''/tenants'', sc_label = ''Tenants'', sc_pageLabel = ''Tenants'', sc_hideInNav = False\<rparr>,
      \<lparr>sc_id = ''tenant-detail'', sc_path = withBase base ''/tenants/:id'', sc_label = ''Tenant (detalhe)'', sc_pageLabel = ''Tenant'', sc_hideInNav = True\<rparr>,
      \<lparr>sc_id = ''resource-definitions'', sc_path = withBase base ''/resource-definitions'', sc_label = ''Resource Definitions'',
       sc_pageLabel = ''Resource Definitions'', sc_hideInNav = False\<rparr>,
      \<lparr>sc_id = ''definition-detail'', sc_path = withBase base ''/resource-definitions/:id'', sc_label = ''Resource Definition (detalhe)'',
       sc_pageLabel = ''Resource Definition'', sc_hideInNav = True\<rparr>,
      \<lparr>sc_id = ''api-clients'', sc_path = withBase base ''/api-clients'', sc_label = ''API Clients'', sc_pageLabel = ''API Clients'', sc_hideInNav = False\<rparr>]"

definition getSceneFromPath :: "string \<Rightarrow> string \<Rightarrow> scene" where
  "getSceneFromPath base path =
     (let normalized = normalizePath path in
      if normalized = normalizePath (ROOT_PATH base) then hd (SCENES base)
      else some_or (find (\<lambda>s. normalizePath (sc_path s) = normalized) (SCENES base)) (hd (SCENES base)))"

text \<open>\<open>routeParam\<close> is the parameter \<open>route\<close> of the query, \<open>hash\<close> the fragment with its sign.\<close>

definition legacy_hash_route :: "string \<Rightarrow> string" where
  "legacy_hash_route hash =
     (let h = (if js_starts_with hash ''#'' then tl hash else hash) in hd (js_split (CHR ''?'') (hd (js_split (CHR ''&'') h))))"

definition getSceneFromUrlHints :: "string \<Rightarrow> string option \<Rightarrow> string \<Rightarrow> scene option" where
  "getSceneFromUrlHints base routeParam hash =
     (let legacy = legacy_hash_route hash;
          from_hash = (if legacy \<noteq> [] \<and> legacy \<noteq> ''figmacapture'' \<and> \<not> js_starts_with legacy ''figmacapture=''
            then find (\<lambda>s. sc_id s = legacy) (SCENES base) else None) in
      case routeParam of
        None \<Rightarrow> from_hash
      | Some r \<Rightarrow> (case find (\<lambda>s. r \<noteq> [] \<and> sc_id s = r) (SCENES base) of Some s \<Rightarrow> Some s | None \<Rightarrow> from_hash))"

text \<open>Where the effect of \<open>CaptureRouteBridge\<close> goes.\<close>

definition capture_route :: "string \<Rightarrow> string option \<Rightarrow> string \<Rightarrow> string \<Rightarrow> string option" where
  "capture_route base routeParam hash path =
     (case getSceneFromUrlHints base routeParam hash of
        None \<Rightarrow> None
      | Some s \<Rightarrow>
          if normalizePath path = normalizePath (sc_path s) then None
          else Some (sc_path s @ (if js_starts_with hash ''#figmacapture'' then hash else [])))"

section \<open>From scene to scene\<close>

definition current_scene :: "string \<Rightarrow> string option \<Rightarrow> string \<Rightarrow> string \<Rightarrow> scene" where
  "current_scene base routeParam hash path = some_or (getSceneFromUrlHints base routeParam hash) (getSceneFromPath base path)"

fun index_of :: "'a \<Rightarrow> 'a list \<Rightarrow> nat" where
  "index_of x [] = 0"
| "index_of x (y # ys) = (if x = y then 0 else Suc (index_of x ys))"

definition next_scene :: "string \<Rightarrow> scene \<Rightarrow> scene" where
  "next_scene base current = SCENES base ! ((index_of current (SCENES base) + 1) mod length (SCENES base))"

definition prev_scene :: "string \<Rightarrow> scene \<Rightarrow> scene" where
  "prev_scene base current =
     SCENES base ! ((index_of current (SCENES base) + length (SCENES base) - 1) mod length (SCENES base))"

datatype (plugins only: code) frame_action = GoToPath string | ChooseScene | SwitchSidebar | FollowLink string

definition scene_nav :: "string \<Rightarrow> scene \<Rightarrow> frame_action view" where
  "scene_nav base current =
     el ''div'' []
       [button [(''title'', ''Previous scene'')] (GoToPath (sc_path (prev_scene base current))) [],
        Elem ''select'' [(''value'', sc_path current)] [(''onChange'', ChooseScene)]
          (map (\<lambda>s. el ''option'' [(''value'', sc_path s)] [Txt (sc_label s)]) (filter (\<lambda>s. \<not> sc_hideInNav s) (SCENES base))),
        button [(''title'', ''Next scene'')] (GoToPath (sc_path (next_scene base current))) []]"

section \<open>The shell\<close>

record nav_entry =
  ne_title :: string
  ne_url :: string

definition NAV_GROUPS :: "(string \<times> nav_entry list) list" where
  "NAV_GROUPS =
     [(''Gest'' @ [CHR 0xE3] @ ''o'',
       [\<lparr>ne_title = ''Vis'' @ [CHR 0xE3] @ ''o geral'', ne_url = ''/''\<rparr>, \<lparr>ne_title = ''Tenants'', ne_url = ''/tenants''\<rparr>,
        \<lparr>ne_title = ''Resource Definitions'', ne_url = ''/resource-definitions''\<rparr>, \<lparr>ne_title = ''API Clients'', ne_url = ''/api-clients''\<rparr>])]"

definition joinBase :: "string \<Rightarrow> string \<Rightarrow> string" where
  "joinBase basePath url =
     (if js_starts_with url ''#'' \<or> js_starts_with url ''http://'' \<or> js_starts_with url ''https://'' then url
      else strip_slash basePath @ (if js_starts_with url ''/'' then url else ''/'' @ url))"

text \<open>A click with a modifier key, or without a navigator, is left to the browser.\<close>

definition nav_click :: "bool \<Rightarrow> bool \<Rightarrow> bool \<Rightarrow> bool \<Rightarrow> bool \<Rightarrow> string \<Rightarrow> frame_action" where
  "nav_click onNavigate metaKey ctrlKey shiftKey altKey itemUrl =
     (if \<not> onNavigate \<or> metaKey \<or> ctrlKey \<or> shiftKey \<or> altKey then FollowLink itemUrl else GoToPath itemUrl)"

definition app_info :: "bool \<Rightarrow> 'a view" where
  "app_info collapsed =
     el ''div'' [] (el ''icon'' [(''icon'', ''lucide:layers'')] [] # (if collapsed then [] else [Txt ''Tenancit'', Txt ''Admin Console'']))"

definition nav_user :: "bool \<Rightarrow> 'a view" where
  "nav_user collapsed = el ''div'' [] (Txt ''AD'' # (if collapsed then [] else [Txt ''Admin'', Txt ''admin@example.test'']))"

definition nav_main :: "string \<Rightarrow> string \<Rightarrow> bool \<Rightarrow> string \<times> nav_entry list \<Rightarrow> frame_action view" where
  "nav_main activeUrl basePath collapsed g =
     el ''div'' []
       (shown_if (fst g \<noteq> [] \<and> \<not> collapsed) (Txt (fst g)) @
        map (\<lambda>item. Elem ''a'' (flag ''active'' (activeUrl = joinBase basePath (ne_url item)) @ [(''href'', joinBase basePath (ne_url item)), (''title'', ne_title item)])
          [(''onClick'', nav_click True False False False False (joinBase basePath (ne_url item)))] [Txt (ne_title item)]) (snd g))"

fun breadcrumb_list :: "string list \<Rightarrow> 'a view list" where
  "breadcrumb_list [] = []"
| "breadcrumb_list [b] = [el ''li'' [] [Txt b]]"
| "breadcrumb_list (b # c # bs) = el ''li'' [] [Txt b] # el ''separator'' [] [] # breadcrumb_list (c # bs)"

record header_props =
  hp_pageLabel :: string
  hp_title :: string
  hp_description :: string
  hp_breadcrumbs :: "string list"

text \<open>An attribute that a scene leaves out is the empty text here; both are shown as nothing.\<close>

definition default_header :: "header_props \<Rightarrow> bool \<Rightarrow> frame_action view" where
  "default_header h collapsed =
     el ''header'' []
       ([button [(''aria-expanded'', if collapsed then ''false'' else ''true''), (''title'', if collapsed then ''Expand sidebar'' else ''Collapse sidebar'')] SwitchSidebar []] @
        shown_if (hp_pageLabel h \<noteq> []) (el ''span'' [] [Txt (hp_pageLabel h)]) @
        shown_if (hp_breadcrumbs h \<noteq> []) (el ''nav'' [] (breadcrumb_list (hp_breadcrumbs h))) @
        shown_if (hp_title h \<noteq> [] \<or> hp_description h \<noteq> [])
          (el ''div'' [] (shown_if (hp_title h \<noteq> []) (Txt (hp_title h)) @ shown_if (hp_description h \<noteq> []) (el ''p'' [] [Txt (hp_description h)]))))"

definition proto_shell :: "string \<Rightarrow> string \<Rightarrow> header_props \<Rightarrow> bool \<Rightarrow> frame_action view \<Rightarrow> frame_action view" where
  "proto_shell activeUrl basePath h collapsed page =
     el ''div'' []
       [el ''aside'' [] ([app_info collapsed] @ map (nav_main activeUrl basePath collapsed) NAV_GROUPS @ [nav_user collapsed]),
        el ''main'' [] [default_header h collapsed, page]]"

definition scene_frame :: "string \<Rightarrow> scene \<Rightarrow> bool \<Rightarrow> frame_action view \<Rightarrow> frame_action view" where
  "scene_frame base s collapsed page =
     proto_shell (sc_path s) base \<lparr>hp_pageLabel = sc_pageLabel s, hp_title = [], hp_description = [], hp_breadcrumbs = []\<rparr> collapsed page"

text \<open>The state of the shell: \<open>sidebarCollapsed\<close>.\<close>

definition handle_frame :: "frame_action \<Rightarrow> bool \<Rightarrow> bool \<times> string option" where
  "handle_frame a collapsed =
     (case a of SwitchSidebar \<Rightarrow> (\<not> collapsed, None) | GoToPath p \<Rightarrow> (collapsed, Some p) | _ \<Rightarrow> (collapsed, None))"

definition app_routes :: "string \<Rightarrow> (string \<times> scene) list" where
  "app_routes base = (ROOT_PATH base, hd (SCENES base)) # map (\<lambda>s. (sc_path s, s)) (SCENES base)"

section \<open>A scene and its address\<close>

lemma ends_with_slash: "js_ends_with s ''/'' \<longleftrightarrow> s \<noteq> [] \<and> last s = CHR ''/''"
  by (cases s rule: rev_cases) (auto simp: js_ends_with_def)

lemma strip_slash_simps:
  "strip_slash (x @ ''/'') = x" "strip_slash [] = []" "last (c # x) \<noteq> CHR ''/'' \<Longrightarrow> strip_slash (base @ c # x) = base @ c # x"
  by (simp_all add: strip_slash_def ends_with_slash)

lemma normalized_paths:
  "last (c # x) \<noteq> CHR ''/'' \<Longrightarrow> normalizePath (base @ c # x) = base @ c # x"
  "normalizePath (base @ ''/'') = (if base = [] then ''/'' else base)"
  by (simp_all add: normalizePath_def strip_slash_simps Let_def)

definition scene_table :: "(string \<times> bool) list" where
  "scene_table = [(''/'', False), (''/tenants'', False), (''/tenants/:id'', True), (''/resource-definitions'', False),
     (''/resource-definitions/:id'', True), (''/api-clients'', False)]"

lemma scenes_table: "map (\<lambda>s. (sc_path s, sc_hideInNav s)) (SCENES base) = map (\<lambda>(x, h). (base @ x, h)) scene_table"
  by (simp add: SCENES_def withBase_def js_starts_with_def scene_table_def)

lemma normal_scenes:
  "map (\<lambda>s. normalizePath (sc_path s)) (SCENES base) =
     (if base = [] then ''/'' else base) # map ((@) base) (tl (map fst scene_table))"
  by (simp add: SCENES_def withBase_def js_starts_with_def scene_table_def normalized_paths)

lemma normal_scenes_distinct: "distinct (map (\<lambda>s. normalizePath (sc_path s)) (SCENES base))"
proof -
  have "distinct (map ((@) base) (tl (map fst scene_table)))" by (simp add: distinct_map inj_on_def) code_simp
  moreover have "(if base = [] then ''/'' else base) \<notin> set (map ((@) base) (tl (map fst scene_table)))"
    by (auto simp: scene_table_def)
  ultimately show ?thesis unfolding normal_scenes by simp
qed

lemma find_key: "distinct (map f xs) \<Longrightarrow> s \<in> set xs \<Longrightarrow> find (\<lambda>x. f x = f s) xs = Some s"
  by (induction xs) (auto simp: image_iff)

lemma normal_root: "normalizePath (ROOT_PATH base) = normalizePath (sc_path (hd (SCENES base)))"
  by (simp add: ROOT_PATH_def SCENES_def withBase_def js_starts_with_def)

lemma scene_found:
  assumes "s \<in> set (SCENES base)" shows "getSceneFromPath base (sc_path s) = s"
proof (cases "normalizePath (sc_path s) = normalizePath (sc_path (hd (SCENES base)))")
  case True
  moreover have "hd (SCENES base) \<in> set (SCENES base)" by (simp add: SCENES_def)
  ultimately have "s = hd (SCENES base)" using normal_scenes_distinct [of base] assms by (auto simp: distinct_map dest: inj_onD)
  then show ?thesis by (simp add: getSceneFromPath_def normal_root)
next
  case False
  then show ?thesis
    using find_key [OF normal_scenes_distinct assms] by (simp add: getSceneFromPath_def normal_root Let_def)
qed

lemma nav_links:
  assumes "\<not> js_ends_with base ''/''"
  shows "map (\<lambda>n. joinBase base (ne_url n)) (concat (map snd NAV_GROUPS)) = map ((@) base) [''/'', ''/tenants'', ''/resource-definitions'', ''/api-clients'']"
  using assms by (simp add: NAV_GROUPS_def joinBase_def js_starts_with_def strip_slash_def)

lemma marked_links:
  assumes "(x, h) \<in> set scene_table"
  shows "filter (\<lambda>v. base @ x = v) (map ((@) base) [''/'', ''/tenants'', ''/resource-definitions'', ''/api-clients'']) = (if h then [] else [base @ x])"
  using assms by (auto simp: scene_table_def)

text \<open>A scene is found by its own path, under every base address, and the navigation of its shell marks exactly the entry that leads to it, or
  none if the scene is kept out of the navigation.\<close>

theorem scene_marked:
  assumes "s \<in> set (SCENES base)" and "\<not> js_ends_with base ''/''"
  shows "getSceneFromPath base (sc_path s) = s \<and>
    map (\<lambda>n. joinBase base (ne_url n)) (filter (\<lambda>n. sc_path s = joinBase base (ne_url n)) (concat (map snd NAV_GROUPS))) =
      (if sc_hideInNav s then [] else [sc_path s])"
proof -
  have "(sc_path s, sc_hideInNav s) \<in> (\<lambda>(x, h). (base @ x, h)) ` set scene_table"
  proof -
    have "(sc_path s, sc_hideInNav s) \<in> set (map (\<lambda>s. (sc_path s, sc_hideInNav s)) (SCENES base))" unfolding set_map using assms(1) by (rule image_eqI [OF refl])
    then show ?thesis by (simp only: scenes_table set_map)
  qed
  then obtain x h where "(x, h) \<in> set scene_table" "sc_path s = base @ x" "sc_hideInNav s = h" by auto
  note x = marked_links [OF this(1), of base] this(2,3)
  have "map (\<lambda>n. joinBase base (ne_url n)) (filter (\<lambda>n. sc_path s = joinBase base (ne_url n)) (concat (map snd NAV_GROUPS))) =
      filter (\<lambda>v. sc_path s = v) (map (\<lambda>n. joinBase base (ne_url n)) (concat (map snd NAV_GROUPS)))"
    by (simp add: filter_map comp_def)
  also have "\<dots> = (if sc_hideInNav s then [] else [sc_path s])" unfolding nav_links [OF assms(2)] x(2,3) by (rule x(1))
  finally show ?thesis using scene_found [OF assms(1)] by simp
qed

lemma scene_marked_witness:
  "getSceneFromPath ''/proto'' ''/proto/tenants'' = SCENES ''/proto'' ! 1"
  using scene_marked [of "SCENES ''/proto'' ! 1" "''/proto''"] by (simp add: SCENES_def withBase_def js_starts_with_def js_ends_with_def)

text \<open>The page of a tenant is not found by its address: the navigation between scenes takes every one of them for the overview,
  and its next scene from there is the list of the tenants.\<close>

theorem detail_taken_for_overview:
  assumes "i \<noteq> []" and "last i \<noteq> CHR ''/''" and "i \<noteq> '':id''"
  shows "current_scene base None [] (withBase base (''/tenants/'' @ i)) = hd (SCENES base) \<and>
    sc_path (next_scene base (hd (SCENES base))) = withBase base ''/tenants''"
proof -
  have n: "normalizePath (base @ ''/tenants/'' @ i) = base @ ''/tenants/'' @ i"
    using normalized_paths(1) [of "CHR ''/''" "''tenants/'' @ i" base] assms(1,2) by simp
  have "base @ ''/tenants/'' @ i \<notin> set (map (\<lambda>s. normalizePath (sc_path s)) (SCENES base))"
    unfolding normal_scenes using assms(1,3) by (auto simp: scene_table_def)
  then have "find (\<lambda>s. normalizePath (sc_path s) = base @ ''/tenants/'' @ i) (SCENES base) = None"
    unfolding find_None_iff_ball by (metis (mono_tags, lifting) image_eqI set_map)
  then have "getSceneFromPath base (withBase base (''/tenants/'' @ i)) = hd (SCENES base)"
    using n by (simp only: getSceneFromPath_def Let_def withBase_def js_starts_with_def) simp
  moreover have "getSceneFromUrlHints base None [] = None"
    by (simp add: getSceneFromUrlHints_def legacy_hash_route_def js_starts_with_def)
  moreover have "sc_path (next_scene base (hd (SCENES base))) = withBase base ''/tenants''"
    by (simp add: next_scene_def SCENES_def)
  ultimately show ?thesis by (simp add: current_scene_def)
qed

lemma detail_taken_for_overview_witness:
  "current_scene [] None [] ''/tenants/t-acme'' = hd (SCENES [])"
  using detail_taken_for_overview [of "''t-acme''" "[]"] by (simp add: withBase_def js_starts_with_def)

end
