(* ===== verification/Chart.thy ===== *)
theory Chart
  imports UsagePage Json
begin

text \<open>
  The adapter of the chart library (\<open>web/src/components/ui/chart.tsx\<close>): the colours of the series as style variables, the content of
  the tooltip and of the legend, and the look-up of a series in the configuration. What Recharts hands over, the payload, is a value
  of the language with the documented members. An attribute that is left out is \<^const>\<open>None\<close>; classes are left out. Theorems: on the usage page every bar
  has its colour in both themes, and the tooltip and the legend say of a day what the chart draws.
\<close>

section \<open>Configuration\<close>

record chart_series =
  ci_label :: "string option"
  ci_icon :: "string option"
  ci_color :: "string option"
  ci_theme :: "(string \<Rightarrow> string option) option"

type_synonym chart_config = "(string \<times> chart_series) list"

definition THEMES :: "(string \<times> string) list" where
  "THEMES = [(''light'', []), (''dark'', ''.dark'')]"

text \<open>The context is missing outside of a container, which is an error.\<close>

definition useChart :: "chart_config option \<Rightarrow> string + chart_config" where
  "useChart context1 = (case context1 of None \<Rightarrow> Inl ''useChart must be used within a <ChartContainer />'' | Some c \<Rightarrow> Inr c)"

definition chart_id :: "string option \<Rightarrow> string \<Rightarrow> string" where
  "chart_id i uniqueId = ''chart-'' @ (case i of Some x \<Rightarrow> x | None \<Rightarrow> filter (\<lambda>c. c \<noteq> CHR '':'') uniqueId)"

section \<open>Colours\<close>

definition has_color :: "chart_series \<Rightarrow> bool" where
  "has_color c \<longleftrightarrow> (case ci_theme c of Some _ \<Rightarrow> True | None \<Rightarrow> (case ci_color c of Some x \<Rightarrow> x \<noteq> [] | None \<Rightarrow> False))"

definition series_color :: "string \<Rightarrow> chart_series \<Rightarrow> string option" where
  "series_color th c =
     (case ci_theme c of None \<Rightarrow> ci_color c | Some f \<Rightarrow> (case f th of Some x \<Rightarrow> Some x | None \<Rightarrow> ci_color c))"

definition newline :: string where
  "newline = [CHR 0x0A]"

definition color_line :: "string \<Rightarrow> string \<times> chart_series \<Rightarrow> string" where
  "color_line th entry =
     (case series_color th (snd entry) of
        Some c \<Rightarrow> if c \<noteq> [] then ''  --color-'' @ fst entry @ '': '' @ c @ '';'' else []
      | None \<Rightarrow> [])"

definition theme_style :: "string \<Rightarrow> chart_config \<Rightarrow> string \<times> string \<Rightarrow> string" where
  "theme_style i colorConfig t =
     newline @ snd t @ '' [data-chart='' @ i @ ''] {'' @ newline @ js_join newline (map (color_line (fst t)) colorConfig) @ newline @ ''}'' @ newline"

definition ChartStyle :: "string \<Rightarrow> chart_config \<Rightarrow> string option" where
  "ChartStyle i config =
     (let colorConfig = filter (\<lambda>e. has_color (snd e)) config in
      if colorConfig = [] then None else Some (js_join newline (map (theme_style i colorConfig) THEMES)))"

definition chartContainer :: "string option \<Rightarrow> string \<Rightarrow> chart_config \<Rightarrow> 'a view \<Rightarrow> 'a view" where
  "chartContainer i uniqueId config children =
     (let c = chart_id i uniqueId in
      el ''div'' [(''data-chart'', c)]
        ((case ChartStyle c config of None \<Rightarrow> [] | Some css \<Rightarrow> [el ''style'' [] [Txt css]]) @ [el ''ResponsiveContainer'' [] [children]]))"

section \<open>A payload and its series\<close>

definition is_object :: "json \<Rightarrow> bool" where
  "is_object j \<longleftrightarrow> (case j of JObj _ \<Rightarrow> True | JArr _ \<Rightarrow> True | _ \<Rightarrow> False)"

definition string_member :: "string \<Rightarrow> json \<Rightarrow> string option" where
  "string_member k j = (case json_get k j of Some (JStr s) \<Rightarrow> Some s | _ \<Rightarrow> None)"

definition getPayloadConfigFromPayload :: "chart_config \<Rightarrow> json option \<Rightarrow> string \<Rightarrow> chart_series option" where
  "getPayloadConfigFromPayload config payload key =
     (case payload of None \<Rightarrow> None
      | Some p \<Rightarrow>
          if \<not> is_object p then None
          else let payloadPayload = (case json_get ''payload'' p of Some q \<Rightarrow> if is_object q then Some q else None | None \<Rightarrow> None);
                   configLabelKey = (case string_member key p of Some s \<Rightarrow> s
                     | None \<Rightarrow> (case payloadPayload of None \<Rightarrow> key | Some q \<Rightarrow> some_or (string_member key q) key)) in
            (case map_of config configLabelKey of Some c \<Rightarrow> Some c | None \<Rightarrow> map_of config key))"

text \<open>\<open>a ?? b\<close> on members, and a value in a template; an object there has no use.\<close>

definition member :: "string \<Rightarrow> json \<Rightarrow> json option" where
  "member k j = (case json_get k j of Some JNull \<Rightarrow> None | x \<Rightarrow> x)"

definition or_else :: "'a option \<Rightarrow> 'a option \<Rightarrow> 'a option" where
  "or_else x y = (case x of Some _ \<Rightarrow> x | None \<Rightarrow> y)"

definition template_text :: "json \<Rightarrow> string" where
  "template_text j =
     (case j of JStr s \<Rightarrow> s | JNum n \<Rightarrow> show_int n | JBool b \<Rightarrow> (if b then ''true'' else ''false'') | JNull \<Rightarrow> ''null'' | _ \<Rightarrow> ''[object Object]'')"

definition payload_key :: "string option \<Rightarrow> string \<Rightarrow> string \<Rightarrow> json \<Rightarrow> string" where
  "payload_key given first second item =
     (case given of Some k \<Rightarrow> k
      | None \<Rightarrow> (case or_else (member first item) (member second item) of Some v \<Rightarrow> template_text v | None \<Rightarrow> ''value''))"

definition drawn :: "json list \<Rightarrow> json list" where
  "drawn payload = filter (\<lambda>item. json_get ''type'' item \<noteq> Some (JStr ''none'')) payload"

section \<open>The tooltip\<close>

record 'a tooltip_props =
  tt_active :: bool
  tt_payload :: "json list"
  tt_indicator :: string
  tt_hideLabel :: bool
  tt_hideIndicator :: bool
  tt_label :: "json option"
  tt_labelFormatter :: "(string option \<Rightarrow> json list \<Rightarrow> 'a view) option"
  tt_formatter :: "(json \<Rightarrow> json \<Rightarrow> json \<Rightarrow> nat \<Rightarrow> 'a view) option"
  tt_color :: "string option"
  tt_nameKey :: "string option"
  tt_labelKey :: "string option"

text \<open>The properties a chart that only renders \<open><ChartTooltipContent />\<close> leaves at their defaults.\<close>

definition default_tooltip :: "bool \<Rightarrow> json list \<Rightarrow> json option \<Rightarrow> 'a tooltip_props" where
  "default_tooltip active payload l =
     \<lparr>tt_active = active, tt_payload = payload, tt_indicator = ''dot'', tt_hideLabel = False, tt_hideIndicator = False, tt_label = l,
      tt_labelFormatter = None, tt_formatter = None, tt_color = None, tt_nameKey = None, tt_labelKey = None\<rparr>"

lemma default_tooltip_simps [simp]:
  "tt_active (default_tooltip b items l) = b" "tt_payload (default_tooltip b items l) = items" "tt_indicator (default_tooltip b items l) = ''dot''"
  "tt_hideLabel (default_tooltip b items l) = False" "tt_label (default_tooltip b items l) = l" "tt_labelFormatter (default_tooltip b items l) = None"
  "tt_formatter (default_tooltip b items l) = None" "tt_nameKey (default_tooltip b items l) = None" "tt_labelKey (default_tooltip b items l) = None"
  by (simp_all add: default_tooltip_def)

definition label_value :: "chart_config \<Rightarrow> 'a tooltip_props \<Rightarrow> json \<Rightarrow> string option" where
  "label_value config p item =
     (let itemConfig = getPayloadConfigFromPayload config (Some item) (payload_key (tt_labelKey p) ''dataKey'' ''name'' item) in
      case tt_label p of
        Some (JStr l) \<Rightarrow>
          if tt_labelKey p = None \<or> tt_labelKey p = Some []
          then Some (case map_of config l of Some c \<Rightarrow> some_or (ci_label c) l | None \<Rightarrow> l)
          else Option.bind itemConfig ci_label
      | _ \<Rightarrow> Option.bind itemConfig ci_label)"

definition tooltip_label :: "chart_config \<Rightarrow> 'a tooltip_props \<Rightarrow> 'a view list" where
  "tooltip_label config p =
     (if tt_hideLabel p then []
      else case tt_payload p of [] \<Rightarrow> []
        | item # _ \<Rightarrow>
            (let v = label_value config p item in
             case tt_labelFormatter p of
               Some f \<Rightarrow> [el ''div'' [] [f v (tt_payload p)]]
             | None \<Rightarrow> (case v of Some l \<Rightarrow> if l \<noteq> [] then [el ''div'' [] [Txt l]] else [] | None \<Rightarrow> [])))"

definition indicator_color :: "'a tooltip_props \<Rightarrow> json \<Rightarrow> string option" where
  "indicator_color p item =
     (case tt_color p of Some c \<Rightarrow> Some c
      | None \<Rightarrow> map_option template_text
          (or_else (case json_get ''payload'' item of Some q \<Rightarrow> member ''fill'' q | None \<Rightarrow> None) (member ''color'' item)))"

definition truthy :: "json option \<Rightarrow> bool" where
  "truthy v \<longleftrightarrow> (case v of None \<Rightarrow> False | Some JNull \<Rightarrow> False | Some (JBool b) \<Rightarrow> b | Some (JNum n) \<Rightarrow> n \<noteq> 0 | Some (JStr s) \<Rightarrow> s \<noteq> [] | _ \<Rightarrow> True)"

definition value_text :: "(int \<Rightarrow> string) \<Rightarrow> json \<Rightarrow> string" where
  "value_text toLocaleString v = (case v of JNum n \<Rightarrow> toLocaleString n | _ \<Rightarrow> template_text v)"

definition default_row ::
  "(int \<Rightarrow> string) \<Rightarrow> chart_config \<Rightarrow> 'a tooltip_props \<Rightarrow> bool \<Rightarrow> chart_series option \<Rightarrow> json \<Rightarrow> 'a view" where
  "default_row toLocaleString config p nestLabel itemConfig item =
     el ''div'' []
       ((case Option.bind itemConfig ci_icon of
           Some i \<Rightarrow> [el i [] []]
         | None \<Rightarrow> shown_if (\<not> tt_hideIndicator p)
             (el ''indicator'' ((''indicator'', tt_indicator p) # (case indicator_color p item of Some c \<Rightarrow> [(''--color-bg'', c), (''--color-border'', c)] | None \<Rightarrow> [])) [])) @
        (if nestLabel then tooltip_label config p else []) @
        [el ''span'' []
          (case Option.bind itemConfig ci_label of
             Some l \<Rightarrow> [Txt l]
           | None \<Rightarrow> (case member ''name'' item of Some n \<Rightarrow> [Txt (template_text n)] | None \<Rightarrow> []))] @
        (case member ''value'' item of Some v \<Rightarrow> [el ''span'' [] [Txt (value_text toLocaleString v)]] | None \<Rightarrow> []))"

definition tooltip_row ::
  "(int \<Rightarrow> string) \<Rightarrow> chart_config \<Rightarrow> 'a tooltip_props \<Rightarrow> bool \<Rightarrow> nat \<Rightarrow> json \<Rightarrow> 'a view" where
  "tooltip_row toLocaleString config p nestLabel index item =
     (let itemConfig = getPayloadConfigFromPayload config (Some item) (payload_key (tt_nameKey p) ''name'' ''dataKey'' item) in
      el ''div'' []
        [case (tt_formatter p, json_get ''value'' item, json_get ''name'' item) of
           (Some f, Some v, Some n) \<Rightarrow> if truthy (Some n) then f v n item index else default_row toLocaleString config p nestLabel itemConfig item
         | _ \<Rightarrow> default_row toLocaleString config p nestLabel itemConfig item])"

text \<open>The content, or the error of a tooltip outside of a chart.\<close>

definition ChartTooltipContent :: "(int \<Rightarrow> string) \<Rightarrow> chart_config option \<Rightarrow> 'a tooltip_props \<Rightarrow> string + 'a view option" where
  "ChartTooltipContent toLocaleString context1 p =
     (case useChart context1 of
        Inl e \<Rightarrow> Inl e
      | Inr config \<Rightarrow> Inr
          (if \<not> tt_active p \<or> tt_payload p = [] then None
           else let nestLabel = (length (tt_payload p) = 1 \<and> tt_indicator p \<noteq> ''dot'') in
             Some (el ''div'' []
               ((if nestLabel then [] else tooltip_label config p) @
                [el ''div'' [] (map (\<lambda>(i, item). tooltip_row toLocaleString config p nestLabel i item) (enumerate 0 (drawn (tt_payload p))))]))))"

section \<open>The legend\<close>

definition legend_item :: "chart_config \<Rightarrow> bool \<Rightarrow> string option \<Rightarrow> json \<Rightarrow> 'a view" where
  "legend_item config hideIcon nameKey item =
     (let key = (case nameKey of Some k \<Rightarrow> k | None \<Rightarrow> (case member ''dataKey'' item of Some v \<Rightarrow> template_text v | None \<Rightarrow> ''value''));
          itemConfig = getPayloadConfigFromPayload config (Some item) key in
      el ''div'' []
        ((case (Option.bind itemConfig ci_icon, hideIcon) of
            (Some i, False) \<Rightarrow> [el i [] []]
          | _ \<Rightarrow> [el ''div'' (case member ''color'' item of Some c \<Rightarrow> [(''backgroundColor'', template_text c)] | None \<Rightarrow> []) []]) @
         (case Option.bind itemConfig ci_label of Some l \<Rightarrow> [Txt l] | None \<Rightarrow> [])))"

definition ChartLegendContent :: "chart_config option \<Rightarrow> bool \<Rightarrow> string option \<Rightarrow> json list \<Rightarrow> string + 'a view option" where
  "ChartLegendContent context1 hideIcon nameKey payload =
     (case useChart context1 of
        Inl e \<Rightarrow> Inl e
      | Inr config \<Rightarrow> Inr (if payload = [] then None else Some (el ''div'' [] (map (legend_item config hideIcon nameKey) (drawn payload)))))"

section \<open>The chart of the usage page\<close>

definition chartConfig :: "translation \<Rightarrow> chart_config" where
  "chartConfig t =
     [(''identify'', \<lparr>ci_label = Some (t ''usage.operationIdentify'' []), ci_icon = None, ci_color = Some ''var(--chart-1)'', ci_theme = None\<rparr>),
      (''resolve'', \<lparr>ci_label = Some (t ''usage.operationResolve'' []), ci_icon = None, ci_color = Some ''var(--chart-2)'', ci_theme = None\<rparr>)]"

definition day_row :: "chart_day \<Rightarrow> json" where
  "day_row day = JObj [(''day'', JStr (cd_day day)), (''identify'', JNum (int (cd_identify day))), (''resolve'', JNum (int (cd_resolve day)))]"

text \<open>The bars: the series shown, with the variable that fills each.\<close>

definition usage_bars :: "usage_page \<Rightarrow> (string \<times> string) list" where
  "usage_bars s =
     (if showIdentify s then [(''identify'', ''var(--color-identify)'')] else []) @ (if showResolve s then [(''resolve'', ''var(--color-resolve)'')] else [])"

definition bar_value :: "chart_day \<Rightarrow> string \<Rightarrow> int" where
  "bar_value day k = int (if k = ''identify'' then cd_identify day else cd_resolve day)"

definition bar_label :: "translation \<Rightarrow> string \<Rightarrow> string" where
  "bar_label t k = t (if k = ''identify'' then ''usage.operationIdentify'' else ''usage.operationResolve'') []"

text \<open>The documented item of a bar in the payload: its key and name, the value and the row it comes from. It has no member named like a series.\<close>

definition bar_item :: "chart_day \<Rightarrow> string \<times> string \<Rightarrow> json \<Rightarrow> bool" where
  "bar_item day bar item \<longleftrightarrow>
     is_object item \<and> json_get ''dataKey'' item = Some (JStr (fst bar)) \<and> json_get ''name'' item = Some (JStr (fst bar)) \<and>
     json_get ''value'' item = Some (JNum (bar_value day (fst bar))) \<and> json_get ''payload'' item = Some (day_row day) \<and>
     json_get ''type'' item \<noteq> Some (JStr ''none'') \<and> json_get (fst bar) item = None"

lemma bar_series:
  assumes "bar_item day bar item" and "bar \<in> set (usage_bars s)"
  shows "\<exists>c. getPayloadConfigFromPayload (chartConfig t) (Some item) (fst bar) = Some c \<and> ci_label c = Some (bar_label t (fst bar)) \<and> ci_icon c = None"
  using assms
  by (auto simp: getPayloadConfigFromPayload_def bar_item_def string_member_def day_row_def is_object_def json_get_def usage_bars_def chartConfig_def
      bar_label_def Let_def split: if_splits)

lemma bar_row_texts:
  assumes "bar_item day bar item" and "bar \<in> set (usage_bars s)" and "tt_formatter p = None" and "tt_nameKey p = None"
  shows "texts (tooltip_row loc (chartConfig t) p False i item) = [bar_label t (fst bar), loc (bar_value day (fst bar))]"
proof -
  have key: "payload_key (tt_nameKey p) ''name'' ''dataKey'' item = fst bar"
    using assms(1,4) by (simp add: payload_key_def member_def bar_item_def or_else_def template_text_def)
  obtain c where "getPayloadConfigFromPayload (chartConfig t) (Some item) (fst bar) = Some c" "ci_label c = Some (bar_label t (fst bar))" "ci_icon c = None"
    using bar_series [OF assms(1,2)] by blast
  then show ?thesis using assms(1,3)
    by (simp add: tooltip_row_def key default_row_def bar_item_def member_def value_text_def shown_if_def)
qed

lemma drawn_bars: "list_all2 (bar_item day) bars items \<Longrightarrow> drawn items = items"
  by (induction rule: list_all2_induct) (simp_all add: drawn_def bar_item_def)

lemma bar_rows_texts:
  assumes "list_all2 (bar_item day) bars items" and "set bars \<subseteq> set (usage_bars s)" and "tt_formatter p = None" and "tt_nameKey p = None"
  shows "concat (map (\<lambda>(i, item). texts (tooltip_row loc (chartConfig t) p False i item)) (enumerate n items)) =
    concat (map (\<lambda>bar. [bar_label t (fst bar), loc (bar_value day (fst bar))]) bars)"
  using assms(1,2) by (induction arbitrary: n rule: list_all2_induct) (simp_all add: bar_row_texts [where s = s, OF _ _ assms(3,4)])

lemma legend_texts:
  assumes "bar_item day bar item" and "bar \<in> set (usage_bars s)"
  shows "texts (legend_item (chartConfig t) False None item) = [bar_label t (fst bar)]"
proof -
  obtain c where "getPayloadConfigFromPayload (chartConfig t) (Some item) (fst bar) = Some c" "ci_label c = Some (bar_label t (fst bar))" "ci_icon c = None"
    using bar_series [OF assms] by blast
  then show ?thesis using assms(1) by (simp add: legend_item_def bar_item_def member_def template_text_def)
qed

lemma legend_all_texts:
  assumes "list_all2 (bar_item day) bars items" and "set bars \<subseteq> set (usage_bars s)"
  shows "concat (map (\<lambda>item. texts (legend_item (chartConfig t) False None item)) items) = map (\<lambda>bar. bar_label t (fst bar)) bars"
  using assms by (induction rule: list_all2_induct) (simp_all add: legend_texts [where s = s])

lemma day_no_series:
  assumes "day \<in> set (usage_chart rows month)" shows "map_of (chartConfig t) (cd_day day) = None \<and> cd_day day \<noteq> []"
proof -
  obtain n where n: "cd_day day = pad2 n" using assms by (auto simp: usage_chart_def Let_def split_beta)
  have zero: "is_digit (CHR ''0'')" "\<not> is_digit (CHR ''i'')" "\<not> is_digit (CHR ''r'')" by code_simp+
  then have digits: "list_all is_digit (pad2 n)" using show_nat_digits [of _ n] by (auto simp: pad2_def list_all_iff)
  have "pad2 n \<noteq> []" by (simp add: pad2_def show_nat_nonempty)
  then obtain c x where "pad2 n = c # x" "is_digit c" using digits by (cases "pad2 n") auto
  with zero show ?thesis by (auto simp: n chartConfig_def)
qed

lemma usage_style:
  "ChartStyle i (chartConfig t) = Some (js_join newline (map (\<lambda>th. newline @ snd th @ '' [data-chart='' @ i @ ''] {'' @ newline @
      ''  --color-identify: var(--chart-1);'' @ newline @ ''  --color-resolve: var(--chart-2);'' @ newline @ ''}'' @ newline) THEMES))"
proof -
  have "theme_style i (chartConfig t) th = newline @ snd th @ '' [data-chart='' @ i @ ''] {'' @ newline @
      ''  --color-identify: var(--chart-1);'' @ newline @ ''  --color-resolve: var(--chart-2);'' @ newline @ ''}'' @ newline" for th
    by (simp add: theme_style_def chartConfig_def color_line_def series_color_def)
  then have "map (theme_style i (chartConfig t)) THEMES = map (\<lambda>th. newline @ snd th @ '' [data-chart='' @ i @ ''] {'' @ newline @
      ''  --color-identify: var(--chart-1);'' @ newline @ ''  --color-resolve: var(--chart-2);'' @ newline @ ''}'' @ newline) THEMES"
    by (intro map_cong refl)
  moreover have "filter (\<lambda>e. has_color (snd e)) (chartConfig t) = chartConfig t" "chartConfig t \<noteq> []"
    by (simp_all add: chartConfig_def has_color_def)
  ultimately show ?thesis by (simp only: ChartStyle_def Let_def if_False)
qed

text \<open>On the page of the usage, what the pointer and the legend say is what is drawn: for the bars of a day the tooltip shows the day, and for
  each series on display its translated name and the number of its requests on that day, in order; the legend shows the names of exactly the series
  on display; and the style of the chart defines the colour of every series, for the light and the dark theme.\<close>

theorem tooltip_says_chart:
  assumes "day \<in> set (usage_chart rows month)" and "list_all2 (bar_item day) (usage_bars s) items" and "items \<noteq> []"
  shows "\<exists>(v :: 'a view) w. ChartTooltipContent loc (Some (chartConfig t)) (default_tooltip True items (Some (JStr (cd_day day)))) = Inr (Some v) \<and>
    texts v = cd_day day # concat (map (\<lambda>bar. [bar_label t (fst bar), loc (bar_value day (fst bar))]) (usage_bars s)) \<and>
    ChartLegendContent (Some (chartConfig t)) False None items = Inr (Some w) \<and> texts w = map (\<lambda>bar. bar_label t (fst bar)) (usage_bars s) \<and>
    ChartStyle i (chartConfig t) = Some (js_join newline (map (\<lambda>th. newline @ snd th @ '' [data-chart='' @ i @ ''] {'' @ newline @
      ''  --color-identify: var(--chart-1);'' @ newline @ ''  --color-resolve: var(--chart-2);'' @ newline @ ''}'' @ newline) THEMES))"
proof -
  obtain item rest where items: "items = item # rest" using assms(3) by (cases items) auto
  have rows: "concat (map (\<lambda>(i, item). texts (tooltip_row loc (chartConfig t) p False i item)) (enumerate 0 items)) =
      concat (map (\<lambda>bar. [bar_label t (fst bar), loc (bar_value day (fst bar))]) (usage_bars s))"
    if "tt_formatter p = None" "tt_nameKey p = None" for p :: "'a tooltip_props" using bar_rows_texts [OF assms(2) order_refl that] .
  note legend = legend_all_texts [OF assms(2) order_refl, of t]
  have label: "tooltip_label (chartConfig t) (default_tooltip True items (Some (JStr (cd_day day)))) = [el ''div'' [] [Txt (cd_day day) :: 'a view]]"
    using day_no_series [OF assms(1), of t] by (simp add: tooltip_label_def items label_value_def Let_def)
  have "\<exists>v :: 'a view. ChartTooltipContent loc (Some (chartConfig t)) (default_tooltip True items (Some (JStr (cd_day day)))) = Inr (Some v) \<and>
      texts v = cd_day day # concat (map (\<lambda>bar. [bar_label t (fst bar), loc (bar_value day (fst bar))]) (usage_bars s))"
    using assms(3) by (simp add: ChartTooltipContent_def useChart_def label drawn_bars [OF assms(2)] Let_def comp_def split_beta rows [unfolded split_beta])
  moreover have "\<exists>w. ChartLegendContent (Some (chartConfig t)) False None items = Inr (Some w) \<and> texts w = map (\<lambda>bar. bar_label t (fst bar)) (usage_bars s)"
    using assms(3) legend by (simp add: ChartLegendContent_def useChart_def drawn_bars [OF assms(2)] comp_def)
  ultimately show ?thesis using usage_style [of i t] by blast
qed

definition sample_item :: "chart_day \<Rightarrow> string \<times> string \<Rightarrow> json" where
  "sample_item day bar = JObj [(''dataKey'', JStr (fst bar)), (''name'', JStr (fst bar)), (''color'', JStr (snd bar)),
     (''value'', JNum (bar_value day (fst bar))), (''payload'', day_row day)]"

lemma tooltip_says_chart_witness:
  "\<exists>(v :: unit view) day. day \<in> set (usage_chart (usage_rows sample_usage) ''2024-02'') \<and>
     ChartTooltipContent show_int (Some (chartConfig t))
       (default_tooltip True (map (sample_item day) (usage_bars (initial_usage \<lparr>lm_year = 2024, lm_month = 1\<rparr>))) (Some (JStr (cd_day day)))) = Inr (Some v) \<and>
     texts v = [cd_day day, t ''usage.operationIdentify'' [], show_int (int (cd_identify day)), t ''usage.operationResolve'' [], show_int (int (cd_resolve day))]"
proof -
  let ?s = "initial_usage \<lparr>lm_year = 2024, lm_month = 1\<rparr>"
  define day where "day = hd (usage_chart (usage_rows sample_usage) ''2024-02'')"
  have "usage_chart (usage_rows sample_usage) ''2024-02'' \<noteq> []" by code_simp
  then have day: "day \<in> set (usage_chart (usage_rows sample_usage) ''2024-02'')" by (simp add: day_def)
  have bars: "usage_bars ?s = [(''identify'', ''var(--color-identify)''), (''resolve'', ''var(--color-resolve)'')]"
    by (simp add: usage_bars_def showIdentify_def showResolve_def initial_usage_def)
  have items: "list_all2 (bar_item day) (usage_bars ?s) (map (sample_item day) (usage_bars ?s))"
    unfolding bars by (simp add: bar_item_def sample_item_def is_object_def json_get_def)
  have "map (sample_item day) (usage_bars ?s) \<noteq> []" unfolding bars by simp
  from tooltip_says_chart [OF day items this, where 'a = unit and 'b = unit, of show_int t "''c''"]
  obtain v :: "unit view" where "ChartTooltipContent show_int (Some (chartConfig t)) (default_tooltip True (map (sample_item day) (usage_bars ?s)) (Some (JStr (cd_day day)))) = Inr (Some v)"
    "texts v = cd_day day # concat (map (\<lambda>bar. [bar_label t (fst bar), show_int (bar_value day (fst bar))]) (usage_bars ?s))" by blast
  then show ?thesis using day unfolding bars by (intro exI [of _ v] exI [of _ day]) (simp add: bar_label_def bar_value_def)
qed

end
