(* ===== verification/Routes.thy ===== *)
theory Routes
  imports Navigation RuntimePath TenantDetail TenantsPage Definitions DefinitionDetail View
begin

text \<open>
  The routes of the console (\<open>web/src/router.tsx\<close> and the files \<open>web/src/routes/*/index.tsx\<close>): the address of each page, and the base path of the router. An
  address is matched with a route segment by segment, a parameter standing for one segment that is not empty, as TanStack Router documents. The
  theorem gives, for every place the console sends the user to, the one page that is there.
\<close>

text \<open>The modules \<open>./-components/page\<close> that the routes load.\<close>

datatype console_page =
    OverviewPage
  | TenantsListPage
  | TenantDetailPage
  | DefinitionsListPage
  | DefinitionDetailPage
  | ApiClientsPage
  | UsagePageModule
  | AuditEventsPage
  | SessionsPageModule
  | SettingsPageModule
  | IntegrationsPage
  | OperationsHealthPage

text \<open>A route is its path and its page.\<close>

type_synonym console_route = "string \<times> console_page"

definition indexRoute :: console_route where
  "indexRoute = (''/'', OverviewPage)"

definition tenantsRoute :: console_route where
  "tenantsRoute = (''/tenants'', TenantsListPage)"

definition tenantDetailRoute :: console_route where
  "tenantDetailRoute = (''/tenants/$id'', TenantDetailPage)"

definition definitionsRoute :: console_route where
  "definitionsRoute = (''/resource-definitions'', DefinitionsListPage)"

definition definitionDetailRoute :: console_route where
  "definitionDetailRoute = (''/resource-definitions/$id'', DefinitionDetailPage)"

definition apiClientsRoute :: console_route where
  "apiClientsRoute = (''/api-clients'', ApiClientsPage)"

definition usageRoute :: console_route where
  "usageRoute = (''/usage'', UsagePageModule)"

definition auditEventsRoute :: console_route where
  "auditEventsRoute = (''/audit-events'', AuditEventsPage)"

definition sessionsRoute :: console_route where
  "sessionsRoute = (''/security/sessions'', SessionsPageModule)"

definition settingsRoute :: console_route where
  "settingsRoute = (''/operations/settings'', SettingsPageModule)"

definition integrationsRoute :: console_route where
  "integrationsRoute = (''/integrations/webhooks'', IntegrationsPage)"

definition operationsHealthRoute :: console_route where
  "operationsHealthRoute = (''/operations/health'', OperationsHealthPage)"

lemmas route_defs = indexRoute_def tenantsRoute_def tenantDetailRoute_def definitionsRoute_def definitionDetailRoute_def apiClientsRoute_def usageRoute_def auditEventsRoute_def sessionsRoute_def settingsRoute_def integrationsRoute_def operationsHealthRoute_def

definition routeTree :: "console_route list" where
  "routeTree =
     [indexRoute, tenantsRoute, tenantDetailRoute, definitionsRoute, definitionDetailRoute, apiClientsRoute,
      usageRoute, auditEventsRoute, sessionsRoute, settingsRoute, integrationsRoute, operationsHealthRoute]"

record app_router =
  rt_basepath :: string
  rt_defaultPendingMinMs :: nat
  rt_defaultPendingMs :: nat
  rt_routes :: "console_route list"

text \<open>\<open>basepath\<close> is the one passed, or what the document says, which may be refused.\<close>

definition createAppRouter :: "string option \<Rightarrow> string option \<Rightarrow> path_error + app_router" where
  "createAppRouter basepath root =
     map_sum id (\<lambda>b. \<lparr>rt_basepath = b, rt_defaultPendingMinMs = 150, rt_defaultPendingMs = 0, rt_routes = routeTree\<rparr>)
       (case basepath of Some b \<Rightarrow> Inr b | None \<Rightarrow> readRuntimeBasePath root)"

text \<open>The frame around every page (\<open>routes/__root.tsx\<close>): the shell gets the page, the toasts are beside it.\<close>

definition RootLayout :: "('a view list \<Rightarrow> 'a view) \<Rightarrow> ('a view list \<Rightarrow> 'a view) \<Rightarrow> ('a view list \<Rightarrow> 'a view) \<Rightarrow> 'a view \<Rightarrow> 'a view \<Rightarrow> 'a view" where
  "RootLayout i18nProvider themeProvider appShell toaster outlet = i18nProvider [themeProvider [appShell [outlet], toaster]]"

text \<open>What a page shows until its module is loaded (\<open>components/route-pending.tsx\<close>): a text in Portuguese in every language.\<close>

definition RoutePending :: "'a view" where
  "RoutePending = el ''div'' [(''role'', ''status''), (''aria-live'', ''polite'')] [el ''span'' [] [Txt (''Carregando'' @ [CHR 0x85])]]"

section \<open>Every destination has a route\<close>

text \<open>A segment of a path that begins with a dollar is a parameter: it stands for one segment of the address, which is not empty. The router
  drops a slash at the end of an address; no address here has one.\<close>

fun segments_match :: "string list \<Rightarrow> string list \<Rightarrow> bool" where
  "segments_match [] [] = True"
| "segments_match (p # ps) (a # as) = ((if js_starts_with p ''$'' then a \<noteq> [] else a = p) \<and> segments_match ps as)"
| "segments_match _ _ = False"

definition matching :: "string \<Rightarrow> console_route list" where
  "matching address = filter (\<lambda>(path, _). segments_match (js_split (CHR ''/'') path) (js_split (CHR ''/'') address)) routeTree"

text \<open>The address of a path with an id for its parameter.\<close>

definition fill_id :: "string \<Rightarrow> string \<Rightarrow> string" where
  "fill_id path i = js_join ''/'' (map (\<lambda>p. if p = ''$id'' then i else p) (js_split (CHR ''/'') path))"

lemma filled:
  "fill_id ''/tenants/$id'' i = ''/tenants/'' @ i" "fill_id ''/resource-definitions/$id'' i = ''/resource-definitions/'' @ i"
  by (simp_all add: fill_id_def)

lemmas filled_literals = filled [unfolded append.simps]

lemma matching_list: "matching ''/tenants'' = [tenantsRoute]" "matching ''/resource-definitions'' = [definitionsRoute]"
  by code_simp+

lemma matching_detail:
  assumes "i \<noteq> []" and "CHR ''/'' \<notin> set i"
  shows "matching (''/tenants/'' @ i) = [tenantDetailRoute]" "matching (''/resource-definitions/'' @ i) = [definitionDetailRoute]"
  using assms by (simp_all add: matching_def routeTree_def route_defs js_split_no_sep js_starts_with_def)

lemma nav_pages:
  "concat (map (\<lambda>item. map snd (matching (nav_to item))) (concat (map group_items NAV_GROUPS))) =
     [OverviewPage, TenantsListPage, DefinitionsListPage, ApiClientsPage, UsagePageModule, OperationsHealthPage, IntegrationsPage,
      AuditEventsPage, SessionsPageModule, SettingsPageModule]"
  by code_simp

text \<open>The addresses a page goes to.\<close>

definition tenant_goes :: "td_effect list \<Rightarrow> string list" where
  "tenant_goes es = concat (map (\<lambda>e. case e of GoTo p \<Rightarrow> [p] | _ \<Rightarrow> []) es)"

definition tenants_goes :: "tenants_effect list \<Rightarrow> string list" where
  "tenants_goes es = concat (map (\<lambda>e. case e of TenantsGoTo p \<Rightarrow> [p] | _ \<Rightarrow> []) es)"

definition definitions_goes :: "definitions_effect list \<Rightarrow> string list" where
  "definitions_goes es = concat (map (\<lambda>e. case e of DefinitionsGoTo p \<Rightarrow> [p] | _ \<Rightarrow> []) es)"

definition definition_goes :: "definition_effect list \<Rightarrow> string list" where
  "definition_goes es = concat (map (\<lambda>e. case e of DefinitionGoTo p \<Rightarrow> [p] | _ \<Rightarrow> []) es)"

named_theorems going \<open>what a page goes to\<close>

lemma goes_simps [going]:
  "tenant_goes [] = []" "tenant_goes (GoTo p # es) = p # tenant_goes es" "tenant_goes (Toast m # es) = tenant_goes es"
  "tenant_goes (Cache c # es) = tenant_goes es" "tenant_goes (Send j # es) = tenant_goes es"
  "tenants_goes [] = []" "tenants_goes (TenantsGoTo p # fs) = p # tenants_goes fs" "tenants_goes (TenantsCache c # fs) = tenants_goes fs"
  "tenants_goes (SendTenants k # fs) = tenants_goes fs"
  "definitions_goes [] = []" "definitions_goes (DefinitionsGoTo p # gs) = p # definitions_goes gs"
  "definitions_goes (DefinitionsToast m # gs) = definitions_goes gs" "definitions_goes (DefinitionsCache c # gs) = definitions_goes gs"
  "definitions_goes (SendDefinitions l # gs) = definitions_goes gs"
  "definition_goes [] = []" "definition_goes (DefinitionGoTo p # hs) = p # definition_goes hs"
  "definition_goes (DefinitionToast m # hs) = definition_goes hs" "definition_goes (DefinitionCache c # hs) = definition_goes hs"
  "definition_goes (SendDefinition n # hs) = definition_goes hs"
  by (simp_all add: tenant_goes_def tenants_goes_def definitions_goes_def definition_goes_def)

lemma send_job_goes [going]: "tenant_goes (snd (send_job j s)) = []"
  by (simp add: send_job_def going)

lemma tenant_forms_go [going]:
  "tenant_goes (snd (saveEdit s)) = []" "tenant_goes (snd (saveResourceIdentity s)) = []" "tenant_goes (snd (toggleResource r s)) = []"
  "tenant_goes (snd (removeResource s)) = []" "tenant_goes (snd (saveDomain s)) = []" "tenant_goes (snd (saveDomainEdit s)) = []"
  "tenant_goes (snd (removeDomain s)) = []" "tenant_goes (snd (saveResource uuid env s)) = []"
  "tenant_goes (snd (duplicateSelectedResource uuid s)) = []" "tenant_goes (snd (saveFieldEdit env s)) = []"
  "tenant_goes (snd (clearFieldOverride env field s)) = []" "tenant_goes (snd (toggleSecrets env s)) = []"
  "tenant_goes (snd (deleteTenantPermanently env s)) = []"
  by (auto simp: saveEdit_def saveResourceIdentity_def toggleResource_def removeResource_def saveDomain_def saveDomainEdit_def
      removeDomain_def saveResource_def duplicateSelectedResource_def saveFieldEdit_def clearFieldOverride_def toggleSecrets_def
      deleteTenantPermanently_def going Let_def split: option.split prod.split)

lemma tenant_page_goes:
  "tenant_goes (snd (handle uuid env a s)) = (if a = BackToTenants then [fst tenantsRoute] else [])"
  "tenant_goes (snd (settle i j r s)) = (if j = DeleteTenantJob \<and> \<not> isl r then [fst tenantsRoute] else [])"
proof -
  show "tenant_goes (snd (handle uuid env a s)) = (if a = BackToTenants then [fst tenantsRoute] else [])"
    by (cases a) (simp_all add: handle_def tenantsRoute_def going)
  show "tenant_goes (snd (settle i j r s)) = (if j = DeleteTenantJob \<and> \<not> isl r then [fst tenantsRoute] else [])"
    by (cases j; cases r) (auto simp: settle_def complete_def complete_reveal_def succeeded_def tenantsRoute_def Let_def going split: prod.split)
qed

lemma tenants_page_goes:
  "tenants_goes (snd (handle_tenants uuid env b t)) =
     (case b of OpenTenant x \<Rightarrow> [fill_id (fst tenantDetailRoute) x]
      | TenantsRefreshed x \<Rightarrow> if x \<in> set (tp_created t) then [fill_id (fst tenantDetailRoute) x] else []
      | _ \<Rightarrow> [])"
  "tenants_goes (snd (settle_tenants k q t)) = []"
proof -
  show "tenants_goes (snd (handle_tenants uuid env b t)) =
     (case b of OpenTenant x \<Rightarrow> [fill_id (fst tenantDetailRoute) x]
      | TenantsRefreshed x \<Rightarrow> if x \<in> set (tp_created t) then [fill_id (fst tenantDetailRoute) x] else []
      | _ \<Rightarrow> [])"
    by (cases b) (simp_all add: handle_tenants_def createTenant_def tenants_refreshed_def tenantDetailRoute_def filled_literals Let_def split_beta going)
  show "tenants_goes (snd (settle_tenants k q t)) = []"
    by (cases q) (simp_all add: settle_tenants_def Let_def going)
qed

lemma definitions_page_goes:
  "definitions_goes (snd (handle_definitions env c d)) = (case c of OpenDefinition x \<Rightarrow> [fill_id (fst definitionDetailRoute) x] | _ \<Rightarrow> [])"
  "definitions_goes (snd (settle_definitions l q d)) =
     (case (l, q) of (CreateDefinitionJob f, Inr created) \<Rightarrow> [fill_id (fst definitionDetailRoute) created] | _ \<Rightarrow> [])"
proof -
  show "definitions_goes (snd (handle_definitions env c d)) = (case c of OpenDefinition x \<Rightarrow> [fill_id (fst definitionDetailRoute) x] | _ \<Rightarrow> [])"
    by (cases c) (simp_all add: handle_definitions_def createDefinition_def saveCard_def toggleDefinition_def removeCard_def send_definitions_def
        definitionDetailRoute_def filled_literals going split: option.split)
  show "definitions_goes (snd (settle_definitions l q d)) =
     (case (l, q) of (CreateDefinitionJob f, Inr created) \<Rightarrow> [fill_id (fst definitionDetailRoute) created] | _ \<Rightarrow> [])"
    by (cases l; cases q) (simp_all add: settle_definitions_def definitions_succeeded_def definitionDetailRoute_def filled_literals Let_def going)
qed

lemma definition_page_goes:
  "definition_goes (snd (handle_definition env e f)) = (if e = ToDefinitions then [fst definitionsRoute] else [])"
  "definition_goes (snd (settle_definition i m w f)) = (if m = DeleteDefinitionJob \<and> \<not> isl w then [fst definitionsRoute] else [])"
proof -
  show "definition_goes (snd (handle_definition env e f)) = (if e = ToDefinitions then [fst definitionsRoute] else [])"
    by (cases e) (simp_all add: handle_definition_def addField_def removeField_def saveField_def toggleStatus_def saveDefinition_def
        send_definition_def definitionsRoute_def going split: option.split)
  show "definition_goes (snd (settle_definition i m w f)) = (if m = DeleteDefinitionJob \<and> \<not> isl w then [fst definitionsRoute] else [])"
    by (cases m; cases w) (simp_all add: settle_definition_def definition_succeeded_def definitionsRoute_def Let_def going)
qed

text \<open>C31: every place the console sends the user to has exactly one page. The items of the sidebar lead to the ten pages without a parameter, in this order.
  The page of a tenant goes to the list of the tenants, by its link back and once the tenant is deleted; the page of a definition likewise to
  the list of the definitions, by either of its links; the lists go to the page of the row that is opened or of what was created. Nothing else
  goes anywhere. And the addresses of the lists are matched by the routes of the lists alone, those of a tenant or definition, whose id is a
  segment, by the routes of the details alone.\<close>

theorem destinations_have_routes:
  assumes "i \<noteq> []" and "CHR ''/'' \<notin> set i"
  shows "concat (map (\<lambda>item. map snd (matching (nav_to item))) (concat (map group_items NAV_GROUPS))) =
     [OverviewPage, TenantsListPage, DefinitionsListPage, ApiClientsPage, UsagePageModule, OperationsHealthPage, IntegrationsPage,
      AuditEventsPage, SessionsPageModule, SettingsPageModule] \<and>
    tenant_goes (snd (handle uuid tenant a s)) = (if a = BackToTenants then [fst tenantsRoute] else []) \<and>
    tenant_goes (snd (settle n j r s)) = (if j = DeleteTenantJob \<and> \<not> isl r then [fst tenantsRoute] else []) \<and>
    tenants_goes (snd (handle_tenants uuid tenants b t)) =
      (case b of OpenTenant x \<Rightarrow> [fill_id (fst tenantDetailRoute) x]
       | TenantsRefreshed x \<Rightarrow> if x \<in> set (tp_created t) then [fill_id (fst tenantDetailRoute) x] else []
       | _ \<Rightarrow> []) \<and>
    tenants_goes (snd (settle_tenants k q t)) = [] \<and>
    definitions_goes (snd (handle_definitions definitions c d)) = (case c of OpenDefinition x \<Rightarrow> [fill_id (fst definitionDetailRoute) x] | _ \<Rightarrow> []) \<and>
    definitions_goes (snd (settle_definitions l q d)) =
      (case (l, q) of (CreateDefinitionJob form, Inr created) \<Rightarrow> [fill_id (fst definitionDetailRoute) created] | _ \<Rightarrow> []) \<and>
    definition_goes (snd (handle_definition detail e f)) = (if e = ToDefinitions then [fst definitionsRoute] else []) \<and>
    definition_goes (snd (settle_definition n m w f)) = (if m = DeleteDefinitionJob \<and> \<not> isl w then [fst definitionsRoute] else []) \<and>
    matching (fst tenantsRoute) = [tenantsRoute] \<and> matching (fst definitionsRoute) = [definitionsRoute] \<and>
    matching (fill_id (fst tenantDetailRoute) i) = [tenantDetailRoute] \<and> matching (fill_id (fst definitionDetailRoute) i) = [definitionDetailRoute]"
proof (intro conjI tenant_page_goes tenants_page_goes definitions_page_goes definition_page_goes nav_pages)
  show "matching (fst tenantsRoute) = [tenantsRoute]" "matching (fst definitionsRoute) = [definitionsRoute]"
    using matching_list by (simp_all add: tenantsRoute_def definitionsRoute_def)
  show "matching (fill_id (fst tenantDetailRoute) i) = [tenantDetailRoute]" "matching (fill_id (fst definitionDetailRoute) i) = [definitionDetailRoute]"
    using matching_detail [OF assms] by (simp_all add: filled tenantDetailRoute_def definitionDetailRoute_def)
qed

lemma destinations_have_routes_witness:
  "matching ''/tenants/t1'' = [tenantDetailRoute] \<and> matching ''/resource-definitions/t1'' = [definitionDetailRoute] \<and> matching ''/tenants/t1/edit'' = []"
proof (intro conjI)
  have "fill_id (fst tenantDetailRoute) ''t1'' = ''/tenants/t1''" "fill_id (fst definitionDetailRoute) ''t1'' = ''/resource-definitions/t1''" by code_simp+
  then show "matching ''/tenants/t1'' = [tenantDetailRoute]" "matching ''/resource-definitions/t1'' = [definitionDetailRoute]"
    using destinations_have_routes [of "''t1''"] by auto
qed code_simp

end
