(* ===== verification/Combobox.thy ===== *)
theory Combobox
  imports UsagePage
begin

text \<open>
  The box of options with a search (\<open>web/src/components/ui/combobox.tsx\<close>), the slot (\<open>slot.tsx\<close>), and the two boxes of the usage page. Popover and command
  list are third-party: the content is there while the box is open, an option that is disabled cannot be selected, and which options match what is typed into the
  search is up to the list. Theorem: the box of the clients always names the client whose rows are counted.
\<close>

section \<open>The box\<close>

record combobox_option =
  co_value :: string
  co_label :: string
  co_keywords :: "string option"
  co_disabled :: bool

record combobox_props =
  cb_options :: "combobox_option list"
  cb_value :: string
  cb_searchable :: bool
  cb_searchPlaceholder :: "string option"
  cb_emptyText :: string
  cb_placeholder :: string
  cb_disabled :: bool
  cb_aria_label :: "string option"

text \<open>The defaults: a dash in an empty list and an ellipsis when nothing is selected.\<close>

definition combobox_defaults :: "combobox_option list \<Rightarrow> string \<Rightarrow> combobox_props" where
  "combobox_defaults options v =
     \<lparr>cb_options = options, cb_value = v, cb_searchable = False, cb_searchPlaceholder = None, cb_emptyText = [CHR 0x97], cb_placeholder = [CHR 0x85],
      cb_disabled = False, cb_aria_label = None\<rparr>"

datatype combobox_action = OpenBox bool | SelectOption string

definition combobox_selected :: "combobox_props \<Rightarrow> combobox_option option" where
  "combobox_selected p = find (\<lambda>option. co_value option = cb_value p) (cb_options p)"

definition trigger_text :: "combobox_props \<Rightarrow> string" where
  "trigger_text p = (case combobox_selected p of Some option \<Rightarrow> co_label option | None \<Rightarrow> cb_placeholder p)"

text \<open>What the search of the list compares.\<close>

definition search_value :: "combobox_option \<Rightarrow> string" where
  "search_value option = co_label option @ '' '' @ (case co_keywords option of Some k \<Rightarrow> k | None \<Rightarrow> co_value option)"

definition combobox_item :: "combobox_props \<Rightarrow> combobox_option \<Rightarrow> combobox_action view" where
  "combobox_item p option =
     Elem ''CommandItem'' (flag ''data-checked'' (cb_value p = co_value option) @ flag ''disabled'' (co_disabled option) @ [(''value'', search_value option)])
       (if co_disabled option then [] else [(''select'', SelectOption (co_value option))])
       [el ''span'' [] [Txt (co_label option)]]"

definition optional_attr :: "string \<Rightarrow> string option \<Rightarrow> (string \<times> string) list" where
  "optional_attr name v = (case v of Some x \<Rightarrow> [(name, x)] | None \<Rightarrow> [])"

definition combobox_content :: "combobox_props \<Rightarrow> combobox_action view" where
  "combobox_content p =
     el ''Command'' []
       (shown_if (cb_searchable p) (el ''CommandInput'' (optional_attr ''placeholder'' (cb_searchPlaceholder p)) []) @
        [el ''CommandList'' []
          (shown_if (cb_searchable p) (el ''CommandEmpty'' [] [Txt (cb_emptyText p)]) @ [el ''CommandGroup'' [] (map (combobox_item p) (cb_options p))])])"

definition combobox :: "combobox_props \<Rightarrow> bool \<Rightarrow> combobox_action view" where
  "combobox p open_now =
     el ''div'' []
       (Elem ''button''
          ((''role'', ''combobox'') # (''aria-expanded'', if open_now then ''true'' else ''false'') # optional_attr ''aria-label'' (cb_aria_label p) @
           flag ''disabled'' (cb_disabled p))
          (if cb_disabled p then [] else [(''click'', OpenBox (\<not> open_now))])
          [el ''span'' [] [Txt (trigger_text p)]] #
        shown_if open_now (combobox_content p))"

text \<open>Whether the box is open afterwards, and the value it hands on.\<close>

definition handle_combobox :: "combobox_action \<Rightarrow> bool \<Rightarrow> bool \<times> string option" where
  "handle_combobox a open_now = (case a of OpenBox b \<Rightarrow> (b, None) | SelectOption v \<Rightarrow> (False, Some v))"

section \<open>The slot\<close>

text \<open>
  The slot gives its properties to its only child, whose own win, joins the classes and merges the styles. A property is a name with a value; an
  empty class is dropped.
\<close>

record slot_props =
  sl_props :: "string \<rightharpoonup> string"
  sl_className :: string
  sl_style :: "string \<rightharpoonup> string"

definition Slot :: "slot_props \<Rightarrow> slot_props option \<Rightarrow> slot_props option" where
  "Slot props child =
     (case child of None \<Rightarrow> None
      | Some c \<Rightarrow> Some \<lparr>sl_props = sl_props props ++ sl_props c, sl_className = js_join '' '' (filter (\<lambda>x. x \<noteq> []) [sl_className props, sl_className c]),
          sl_style = sl_style props ++ sl_style c\<rparr>)"

section \<open>The boxes of the usage page\<close>

definition plain_option :: "string \<Rightarrow> string \<Rightarrow> combobox_option" where
  "plain_option v l = \<lparr>co_value = v, co_label = l, co_keywords = None, co_disabled = False\<rparr>"

definition clientOptions :: "translation \<Rightarrow> ApiClient list \<Rightarrow> combobox_option list" where
  "clientOptions t clients =
     plain_option ALL_OPTION (t ''usage.allClients'' []) #
     map (\<lambda>client. \<lparr>co_value = c_id client, co_label = c_name client, co_keywords = Some (c_id client @ '' '' @ c_key_preview client),
       co_disabled = False\<rparr>) clients"

definition operationOptions :: "translation \<Rightarrow> combobox_option list" where
  "operationOptions t =
     [plain_option ALL_OPTION (t ''usage.allOperations'' []), plain_option ''identify'' (t ''usage.operationIdentify'' []),
      plain_option ''resolve'' (t ''usage.operationResolve'' [])]"

definition client_box :: "translation \<Rightarrow> usage_env \<Rightarrow> usage_page \<Rightarrow> combobox_props" where
  "client_box t env s =
     (combobox_defaults (clientOptions t (usage_clients env)) (selectedClientID env s))
       \<lparr>cb_searchable := True, cb_searchPlaceholder := Some (t ''usage.client'' []), cb_aria_label := Some (t ''usage.client'' [])\<rparr>"

definition operation_box :: "translation \<Rightarrow> usage_page \<Rightarrow> combobox_props" where
  "operation_box t s = (combobox_defaults (operationOptions t) (um_operation s))\<lparr>cb_aria_label := Some (t ''usage.operation'' [])\<rparr>"

section \<open>The client that is shown is the one that is counted\<close>

lemma find_distinct: "distinct (map f xs) \<Longrightarrow> x \<in> set xs \<Longrightarrow> find (\<lambda>y. f y = f x) xs = Some x"
  by (induction xs) (auto simp: image_iff)

lemma client_values: "map co_value (clientOptions t clients) = ALL_OPTION # map c_id clients"
  by (simp add: clientOptions_def plain_option_def comp_def)

lemma picked_selected:
  assumes "option \<in> set (clientOptions t (usage_clients env))"
  shows "selectedClientID env (handle_usage (PickClient (co_value option)) s) = co_value option"
proof -
  have "co_value option \<in> set (map co_value (clientOptions t (usage_clients env)))" using assms by simp
  then have "co_value option = ALL_OPTION \<or> co_value option \<in> c_id ` set (usage_clients env)" unfolding client_values by auto
  then show ?thesis by (auto simp: selectedClientID_def handle_usage_def list_ex_iff)
qed

lemma box_selected: "combobox_selected (client_box t env s) = find (\<lambda>option. co_value option = selectedClientID env s) (clientOptions t (usage_clients env))"
  by (simp add: combobox_selected_def client_box_def combobox_defaults_def)

lemma picked_text:
  assumes "distinct (ALL_OPTION # map c_id (usage_clients env))" and "option \<in> set (clientOptions t (usage_clients env))"
  shows "trigger_text (client_box t env (handle_usage (PickClient (co_value option)) s)) = co_label option"
  using find_distinct [of co_value "clientOptions t (usage_clients env)", unfolded client_values, OF assms]
  by (simp add: trigger_text_def box_selected picked_selected [OF assms(2)])

lemma fallback_text:
  assumes "selectedClientID env s = ALL_OPTION" shows "trigger_text (client_box t env s) = t ''usage.allClients'' []"
  using assms by (simp add: trigger_text_def box_selected clientOptions_def plain_option_def)

text \<open>The box of the clients names the client whose requests are counted. Choosing an option of the list closes the box and shows the label of that option, and
  what is counted from then on are the rows of that client (every row for the option of all clients), restricted to the operation chosen. When the
  client chosen is later missing from the clients, the box says all clients and every row of the operation is counted.\<close>

theorem client_box_names_counted:
  assumes "distinct (ALL_OPTION # map c_id (usage_clients env))" and "option \<in> set (clientOptions t (usage_clients env))"
    and "handle_combobox (SelectOption (co_value option)) open_now = (still_open, Some v)" and "s' = handle_usage (PickClient v) s"
    and "um_client s' \<notin> c_id ` set (usage_clients later)"
  shows "\<not> still_open \<and> trigger_text (client_box t env s') = co_label option \<and>
    filtered_usage env s' = filter (\<lambda>row. (co_value option = ALL_OPTION \<or> u_api_client_id row = co_value option) \<and>
      (um_operation s = ALL_OPTION \<or> operation_text (u_operation row) = um_operation s)) (usage_rows env) \<and>
    trigger_text (client_box t later s') = t ''usage.allClients'' [] \<and>
    filtered_usage later s' = filter (\<lambda>row. um_operation s = ALL_OPTION \<or> operation_text (u_operation row) = um_operation s) (usage_rows later)"
proof -
  have v: "v = co_value option" "\<not> still_open" using assms(3) by (simp_all add: handle_combobox_def)
  have operation: "um_operation (handle_usage (PickClient w) s) = um_operation s" for w by (simp add: handle_usage_def)
  have "selectedClientID later s' = ALL_OPTION" using assms(5) by (auto simp: selectedClientID_def list_ex_iff image_iff)
  moreover have "selectedClientID env s' = co_value option" using picked_selected [OF assms(2)] assms(4) v(1) by simp
  ultimately show ?thesis
    using v picked_text [OF assms(1,2)] assms(4) by (simp add: filtered_usage_def operation fallback_text)
qed

definition sample_client :: ApiClient where
  "sample_client =
     \<lparr>c_id = ''c1'', c_name = ''billing'', c_key_preview = ''k'', c_scopes = [], c_rpm_limit = 60, c_expires_at = [], c_last_used_at = None,
      c_revoked_at = None, c_status = ''active'', c_created_at = None, c_updated_at = None\<rparr>"

lemma client_box_names_counted_witness:
  "trigger_text (client_box (\<lambda>k _. k) (sample_usage\<lparr>ue_clients := Some [sample_client]\<rparr>)
     (handle_usage (PickClient ''c1'') (initial_usage \<lparr>lm_year = 2024, lm_month = 1\<rparr>))) = ''billing''"
  using client_box_names_counted [of "sample_usage\<lparr>ue_clients := Some [sample_client]\<rparr>"
      "\<lparr>co_value = ''c1'', co_label = ''billing'', co_keywords = Some ''c1 k'', co_disabled = False\<rparr>" "\<lambda>k _. k" True False "''c1''"
      "handle_usage (PickClient ''c1'') (initial_usage \<lparr>lm_year = 2024, lm_month = 1\<rparr>)" "initial_usage \<lparr>lm_year = 2024, lm_month = 1\<rparr>" sample_usage]
  by (simp add: usage_clients_def sample_usage_def sample_client_def ALL_OPTION_def clientOptions_def plain_option_def handle_combobox_def)

end
