(* ===== verification/Spec2Isabelle.thy ===== *)
theory Spec2Isabelle
  imports Validation RuntimePath AdminApi QueryCache Reveal Idempotency TenantOverview I18n AppShell TenantDetailRules ApiClientsView BundleBudget RouteLint ScaleGate
    Definitions TenantsPage SettingsPage Integrations UsagePage SessionsPage AuditPage LegalHolds Dashboards Translations Sidebar E2eCatalog System Benchmark ProtoCatalog ProtoFrame Chart Routes Combobox
begin

text \<open>
  Tenancit keeps the tenants of an organisation, their domains and the configuration of their
  resources. This development models its admin console, the program under \<open>web/src\<close>, and the scripts
  that check it before a release (\<open>web/scripts\<close>, \<open>scripts/check-e2e-catalog.ts\<close>).

  \<^bold>\<open>The parts and how they interact.\<close> A page of the console is a React component: it reads queries
  through a cache, keeps a state of its own, and its event handlers change that state and send
  calls to the admin API, after whose answers they mark queries stale. The client of the API keeps the
  credentials and tells the cache and the shell when they change; the shell decides whether a page is shown
  at all. Every message goes through the catalogs of the language chosen.

  \<^bold>\<open>Foundations.\<close> \<open>Prelude\<close> has the string functions of the language and generic lemmas, \<open>Json\<close> its values and
  their text, \<open>Numbers\<close> the rounding to doubles, \<open>Regex\<close> a matcher for anchored patterns that is proved
  to decide their language, \<open>Captures\<close> the search with groups, \<open>NodePath\<close> paths and directories, \<open>Search\<close> a
  contract of graph searches, and \<open>View\<close> the tree a component renders: elements with attributes, the
  actions of their handlers and children. \<open>offered\<close> are the actions of the controls that are not
  disabled.

  \<^bold>\<open>The client.\<close> \<open>ApiTypes\<close> (the interfaces of \<open>lib/api.ts\<close>), \<open>AdminApi\<close> (\<open>lib/api.ts\<close>: token, session, the request with its
  timeout and its 401, the endpoints), \<open>RuntimePath\<close> (\<open>lib/runtime-base-path.ts\<close>), \<open>QueryCache\<close>
  (\<open>lib/query-*.ts\<close>: keys, invalidation, the listeners that clear the cache), \<open>Idempotency\<close> (\<open>lib/idempotency.ts\<close>),
  \<open>Reveal\<close> (\<open>lib/use-transient-resource-reveal.ts\<close>, a step relation over all interleavings), \<open>Validation\<close>
  (\<open>lib/validation.ts\<close>), \<open>TenantOverview\<close> (\<open>lib/tenant-overview.ts\<close>, \<open>lib/overview-pulse.ts\<close>), \<open>I18n\<close> (functions of
  \<open>lib/i18n.tsx\<close>, \<open>theme.tsx\<close>, \<open>avatar.ts\<close>, \<open>date-format.ts\<close>), \<open>Catalog\<close> (the messages, entry by entry) and \<open>Translations\<close>
  (what the pages need of them).

  \<^bold>\<open>The shell.\<close> \<open>Navigation\<close> (permissions and destinations), \<open>AppShell\<close> (\<open>components/app-shell.tsx\<close>: the
  states of authentication and the screen of each) and \<open>Sidebar\<close> (\<open>components/ui/sidebar.tsx\<close>: the frame of the navigation).
  \<open>Routes\<close> (\<open>router.tsx\<close>, \<open>routes/*/index.tsx\<close>) has the address of each page, and which page is at every place the console
  sends the user to.

  \<^bold>\<open>The pages.\<close> \<open>DataTable\<close> and \<open>Pages\<close> hold what they share (\<open>hooks/use-data-table.ts\<close>, \<open>components/data-table\<close>). A page
  has a record for its state, an environment (what its queries have answered at a render), a datatype
  of actions, a handler \<open>handle_x\<close> that returns the new state and the effects, a function \<open>settle_x\<close> for what
  follows the answer of a call, and the view of its JSX. A handler that awaits is split at the await: what
  it sends is a job of the state until it is answered; where code runs again after a second await (the
  refetch of a list) that is an action of its own. The pages are \<open>TenantDetail\<close> with \<open>TenantDetailView\<close> and
  \<open>TenantDetailRules\<close>, \<open>ApiClients\<close> with \<open>ApiClientsView\<close>, \<open>DefinitionDetail\<close>, \<open>Definitions\<close>, \<open>TenantsPage\<close>,
  \<open>SettingsPage\<close>, \<open>Integrations\<close> (webhooks), \<open>UsagePage\<close>, \<open>SessionsPage\<close>, \<open>AuditPage\<close>, \<open>LegalHolds\<close> and \<open>Dashboards\<close> (overview and
  health), each after the files of \<open>routes/\<close> of that name. \<open>Chart\<close> (\<open>components/ui/chart.tsx\<close>) and \<open>Combobox\<close> (\<open>components/ui/combobox.tsx\<close>) are the parts of the
  usage page between its data and what is drawn and chosen.

  \<^bold>\<open>The composition.\<close> \<open>System\<close> puts the client, the shell, the cache and the pages together: a submission is followed from the
  form to the request and a refused request from its response to the screen and the emptied cache.

  \<^bold>\<open>The contracts.\<close> \<open>page_machine\<close> (\<open>Pages\<close>): the jobs of a page are the calls it sent and that are
  unanswered; what every handler's call satisfies, every call of every run satisfies. \<open>keyed_page\<close>
  (\<open>KeyedPages\<close>): one idempotency key stands for one payload over every run. \<open>locked_page\<close> (\<open>LockedPages\<close>): a
  user for whom no control sends anything makes no call over every session, a run whose actions
  are those on the screen at their time. \<open>exhaustive_search\<close> (\<open>Search\<close>): a work-list search finds exactly what is
  reachable. \<open>retry_slot\<close> (\<open>Idempotency\<close>) and \<open>reveal_contract\<close> (\<open>Reveal\<close>): what the pages may rely on of the slot of an
  attempt and of the reveal. \<open>first_come\<close> (\<open>E2eCatalog\<close>): a loop that keeps the first entry of each key. Each is interpreted on the definitions of the components that provide it.

  \<^bold>\<open>The scripts.\<close> \<open>RouteLint\<close> (\<open>web/scripts/lint-colocated-routes.mjs\<close>), \<open>BundleBudget\<close>
  (\<open>web/scripts/check-bundle-budget.mjs\<close>), \<open>ScaleGate\<close> (\<open>lib/scale-gate.ts\<close>, \<open>web/scripts/summarize-scale.mjs\<close>) and \<open>E2eCatalog\<close>
  (\<open>scripts/check-e2e-catalog.ts\<close>): for each, that it accepts, reports or opens exactly when what it is meant to check
  holds. \<open>Benchmark\<close> (\<open>web/scripts/benchmark-scale.mjs\<close>): the measurements the gate decides on, over a server, a clock and a browser
  that are arguments, and when what it writes can be summarized.

  \<^bold>\<open>The prototype.\<close> The interactive prototype of the planning phase (\<open>planning/tenancit/proto\<close>): \<open>ProtoStore\<close> (\<open>routes/store.js\<close>,
  \<open>_data.js\<close>), whose identifiers stay distinct while the clock repeats no reading over a reload and whose data survive reloads, \<open>ProtoPages\<close> and \<open>ProtoCatalog\<close> (the screens of \<open>routes/\<close> over the
  store, with the icon search as a machine of its own) and \<open>ProtoFrame\<close> (\<open>index.js\<close>, \<open>components/app-shell.js\<close>).

  \<^bold>\<open>What is shown.\<close> Safety of credentials and secrets over every interleaving (which request
  carries what, when the cache is emptied, whose secrets are on display and for how long); the
  permissions of every call a user can make; keys of retried requests; that what is sent has been
  checked; how the counters, charts and badges relate to the data; the three languages; the exact
  answers of the checks. Where the code does not do what it means to, the theorem states what it does.

  \<^bold>\<open>Termination.\<close> Every function is total and none needs fuel, but the loop of batches of the benchmark, a partial function that is proved to return for every positive concurrency. Where the recursion is not
  structural a measure decreases: the rest of the text for scanners and matchers (lexicographically after the
  size of the pattern for \<open>matches\<close>), the modules and edges not yet seen for the searches, the number for its digits.

  \<^bold>\<open>Parameters.\<close> What is not in the repository is an argument: the network (an answer is any
  value of its type), \<open>crypto.randomUUID\<close> (a stream \<open>uuid\<close> of keys, injective where a theorem says so), the
  platform's dates (\<open>date_parse\<close>, \<open>to_iso\<close>, \<open>fmt\<close>), \<open>new URL\<close> (\<open>parseURL\<close>), \<open>date-fns\<close>, the row models of TanStack Table,
  the prefix matching of TanStack Query, the matching of TanStack Router (as documented, by segments), the removal of tabs and newlines by the
  URL parser (as its standard says), sizes of files and gzip, and local storage.

  \<^bold>\<open>Bounds of the model.\<close> A character is one of Windows-1252, which covers the sources and the catalogs; the
  flags of the languages (emoji) are left out. Numbers are integers where the code only counts or compares;
  doubles are rounded where their width matters (\<open>Numbers\<close>). Styling and focus are left out of the views.

  \<^bold>\<open>Not modelled.\<close> The server (\<open>server/\<close>, Go); the wrappers of third-party primitives (\<open>components/ui\<close>) but the
  confirmation, the reveal, the sidebar, the chart, the combobox and the slot; those of the prototype; the mounting of the application (\<open>main.tsx\<close>); the built bundle; and the tests.
\<close>

end
